(* ===== verification/GoBase.thy ===== *)
theory GoBase
  imports Main "HOL-Library.Char_ord" "HOL-Library.List_Lexorder" "HOL-Library.Sublist"
begin

text \<open>
  The prelude: how Go values are read in HOL, shared by every other theory.
  \<^item> A Go \<^verbatim>\<open>string\<close> or \<^verbatim>\<open>[]byte\<close> is a \<^typ>\<open>string\<close>, that is a list of 8-bit characters; \<open>length\<close>
    is \<^verbatim>\<open>len\<close> (it counts bytes) and \<open>byte\<close> reads one byte as a number. The order of
    \<open>List_Lexorder\<close> over \<open>Char_ord\<close> is Go's byte-wise string order.
  \<^item> A Go call that returns \<^verbatim>\<open>(T, error)\<close> is a value of the sum \<open>'e + 't\<close>, with \<open>Inl\<close> the error.
  \<^item> A Go \<^verbatim>\<open>map[string]string\<close> is a \<open>gomap\<close>: an association list whose keys are strictly
    increasing (\<open>gomap_ok\<close>), so that equal maps are equal lists; \<open>gget m k\<close> is the expression
    \<^verbatim>\<open>m[k]\<close>, the empty string where the key is absent.
  The collections \<open>go_simps\<close> and \<open>hub_consts\<close> gather the facts the component proofs share.
\<close>

named_theorems go_simps \<open>evaluation facts about the Go library model\<close>
named_theorems hub_consts \<open>the constant declarations of the hub, to be unfolded together\<close>
named_theorems chr_consts \<open>facts that read a byte classification off a literal\<close>

section \<open>Bytes\<close>

abbreviation byte :: "char \<Rightarrow> nat" where
  "byte c \<equiv> of_char c"

lemma byte_lt: "byte c < 256"
  by simp

lemma byte_char_of: "n < 256 \<Longrightarrow> byte (char_of n) = n"
  by (simp add: of_char_of)

lemma byte_inject: "byte c = byte d \<longleftrightarrow> c = d"
  by simp

section \<open>Results\<close>

text \<open>Sequencing of two fallible calls: \<^verbatim>\<open>if err != nil { return err }\<close>.\<close>

definition andThen :: "'e + 'a \<Rightarrow> ('a \<Rightarrow> 'e + 'b) \<Rightarrow> 'e + 'b" where
  "andThen r f = (case r of Inl e \<Rightarrow> Inl e | Inr x \<Rightarrow> f x)"

lemma andThen_simps [simp]:
  "andThen (Inl e) f = Inl e"
  "andThen (Inr x) f = f x"
  by (simp_all add: andThen_def)

lemma andThen_Inr_iff: "andThen r f = Inr y \<longleftrightarrow> (\<exists>x. r = Inr x \<and> f x = Inr y)"
  by (cases r) auto

lemma andThen_Inl_iff: "andThen r f = Inl e \<longleftrightarrow> r = Inl e \<or> (\<exists>x. r = Inr x \<and> f x = Inl e)"
  by (cases r) auto

text \<open>The same where the error is replaced, or where a missing value is the error.\<close>

lemma case_sum_Inr_iff: "(case r of Inl x \<Rightarrow> Inl (g x) | Inr x \<Rightarrow> f x) = Inr y \<longleftrightarrow> (\<exists>x. r = Inr x \<and> f x = Inr y)"
  by (cases r) auto

lemma case_option_Inr_iff: "(case r of None \<Rightarrow> Inl e | Some x \<Rightarrow> f x) = Inr y \<longleftrightarrow> (\<exists>x. r = Some x \<and> f x = Inr y)"
  by (cases r) auto

lemma if_Inl_Inr_iff: "(if b then Inl e else f) = Inr y \<longleftrightarrow> \<not> b \<and> f = Inr y"
  by simp

text \<open>What the simplifier leaves of an existential over a flag.\<close>

lemma ex_flag [simp]: "\<exists>x. x" "\<exists>x. \<not> x"
  by blast+

lemmas Inr_iffs = andThen_Inr_iff case_sum_Inr_iff case_option_Inr_iff if_Inl_Inr_iff

definition is_ok :: "'e + 'a \<Rightarrow> bool" where
  "is_ok r = (case r of Inl _ \<Rightarrow> False | Inr _ \<Rightarrow> True)"

lemma is_ok_simps [simp]: "\<not> is_ok (Inl e)" "is_ok (Inr x)"
  by (simp_all add: is_ok_def)

lemma is_ok_iff: "is_ok r \<longleftrightarrow> (\<exists>x. r = Inr x)"
  by (cases r) auto

lemma is_ok_unit_iff: "is_ok r \<longleftrightarrow> r = Inr ()" for r :: "'e + unit"
  by (cases r) auto

section \<open>String maps\<close>

type_synonym gomap = "(string \<times> string) list"

definition gomap_ok :: "gomap \<Rightarrow> bool" where
  "gomap_ok m = sorted_wrt (<) (map fst m)"

definition gget :: "gomap \<Rightarrow> string \<Rightarrow> string" where
  "gget m k = (case map_of m k of None \<Rightarrow> [] | Some v \<Rightarrow> v)"

definition ghas :: "gomap \<Rightarrow> string \<Rightarrow> bool" where
  "ghas m k = (map_of m k \<noteq> None)"

text \<open>The assignment \<^verbatim>\<open>m[k] = v\<close>.\<close>

fun gput :: "string \<Rightarrow> 'v \<Rightarrow> (string \<times> 'v) list \<Rightarrow> (string \<times> 'v) list" where
  "gput k v [] = [(k, v)]"
| "gput k v ((k', v') # m) =
     (if k < k' then (k, v) # (k', v') # m
      else if k = k' then (k, v) # m
      else (k', v') # gput k v m)"

lemma map_of_gput: "map_of (gput k v m) = (map_of m)(k \<mapsto> v)"
  by (induction k v m rule: gput.induct) (auto simp: fun_eq_iff)

lemma fst_set_gput: "fst ` set (gput k v m) = insert k (fst ` set m)"
  by (induction k v m rule: gput.induct) auto

lemma sorted_gput:
  "sorted_wrt (<) (map fst m) \<Longrightarrow> sorted_wrt (<) (map fst (gput k v m))"
proof (induction k v m rule: gput.induct)
  case (2 k v k' v' m)
  then show ?case
    using fst_set_gput [of k v m] by (auto simp flip: image_set)
qed simp

lemma gput_last:
  "\<forall>k' \<in> fst ` set m. k' < k \<Longrightarrow> gput k v m = m @ [(k, v)]"
  by (induction k v m rule: gput.induct) auto

lemma gomap_ok_distinct: "gomap_ok m \<Longrightarrow> distinct (map fst m)"
  by (simp add: gomap_ok_def strict_sorted_iff)

lemma gomap_ok_Nil [simp]: "gomap_ok []"
  by (simp add: gomap_ok_def)

lemma gget_Nil [simp]: "gget [] k = []"
  by (simp add: gget_def)

lemma gget_nonempty_in: "gget m k \<noteq> [] \<Longrightarrow> (k, gget m k) \<in> set m"
  by (auto simp: gget_def split: option.splits dest: map_of_SomeD)

section \<open>Lists\<close>

lemma list_all_drop: "list_all P xs \<Longrightarrow> list_all P (drop n xs)"
  by (auto simp: list_all_iff dest: in_set_dropD)

text \<open>Splitting at a separator byte, as \<^verbatim>\<open>strings.Split\<close> does for a one-byte separator.\<close>

fun split_on :: "char \<Rightarrow> string \<Rightarrow> string list" where
  "split_on sep [] = [[]]"
| "split_on sep (c # cs) =
     (if c = sep then [] # split_on sep cs
      else (case split_on sep cs of [] \<Rightarrow> [[c]] | p # ps \<Rightarrow> (c # p) # ps))"

lemma split_on_ne [simp]: "split_on sep s \<noteq> []"
  by (induction s) (auto split: list.splits)

fun join_with :: "char \<Rightarrow> string list \<Rightarrow> string" where
  "join_with sep [] = []"
| "join_with sep [p] = p"
| "join_with sep (p # q # ps) = p @ sep # join_with sep (q # ps)"

lemma join_with_Cons: "ps \<noteq> [] \<Longrightarrow> join_with sep (p # ps) = p @ sep # join_with sep ps"
  by (cases ps) auto

lemma join_split_on: "join_with sep (split_on sep s) = s"
proof (induction s)
  case (Cons c cs)
  obtain p ps where eq: "split_on sep cs = p # ps"
    by (cases "split_on sep cs") auto
  with Cons show ?case by (cases ps) auto
qed simp

lemma split_on_no_sep: "p \<in> set (split_on sep s) \<Longrightarrow> sep \<notin> set p"
proof (induction s arbitrary: p)
  case (Cons c cs)
  then show ?case
    by (cases "split_on sep cs") (auto split: if_splits)
qed simp

lemma split_on_append:
  "sep \<notin> set p \<Longrightarrow> split_on sep (p @ sep # s) = p # split_on sep s"
  by (induction p) auto

lemma split_on_single: "sep \<notin> set p \<Longrightarrow> split_on sep p = [p]"
  by (induction p) auto

lemma split_join_on:
  "ps \<noteq> [] \<Longrightarrow> \<forall>p \<in> set ps. sep \<notin> set p \<Longrightarrow> split_on sep (join_with sep ps) = ps"
proof (induction ps rule: induct_list012)
  case (3 p q ps)
  then show ?case by (simp add: split_on_append)
qed (auto simp: split_on_single)

end
