(* ===== verification/GoStrings.thy ===== *)
theory GoStrings
  imports GoBase
begin

text \<open>
  What the hub uses of the Go packages \<^verbatim>\<open>unicode/utf8\<close>, \<^verbatim>\<open>unicode\<close> and \<^verbatim>\<open>strings\<close>. \<open>decode_rune\<close> is
  \<^verbatim>\<open>utf8.DecodeRune\<close> (an ill-formed byte gives \<^verbatim>\<open>RuneError\<close> with width 1), \<open>runes\<close> the runes a
  \<^verbatim>\<open>range\<close> loop over a string sees, \<open>encode_rune\<close> \<^verbatim>\<open>utf8.AppendRune\<close>. The letter and digit tables of
  package \<^verbatim>\<open>unicode\<close> above Latin-1 are generated data and stay a parameter (\<open>uni_tables\<close>).
  The main lemmas: a string whose runes are all ASCII is its own list of runes
  (\<open>runes_ascii\<close>), and re-encoding the runes of a valid string gives the string back
  (\<open>coerce_utf8_valid\<close>).
\<close>

section \<open>UTF-8\<close>

definition RuneError :: nat where
  "RuneError = 0xFFFD"

definition cont_byte :: "char \<Rightarrow> bool" where
  "cont_byte c = (0x80 \<le> byte c \<and> byte c \<le> 0xBF)"

definition decode_rune :: "char \<Rightarrow> string \<Rightarrow> nat \<times> nat" where
  "decode_rune c s =
     (let b0 = byte c; bad = (RuneError, 1) in
      if b0 < 0x80 then (b0, 1)
      else if b0 < 0xC2 then bad
      else if b0 < 0xE0 then
        (case s of
           c1 # _ \<Rightarrow> if cont_byte c1 then ((b0 - 0xC0) * 64 + (byte c1 - 0x80), 2) else bad
         | _ \<Rightarrow> bad)
      else if b0 < 0xF0 then
        (case s of
           c1 # c2 # _ \<Rightarrow>
             if (if b0 = 0xE0 then 0xA0 else 0x80) \<le> byte c1
               \<and> byte c1 \<le> (if b0 = 0xED then 0x9F else 0xBF) \<and> cont_byte c2
             then ((b0 - 0xE0) * 4096 + (byte c1 - 0x80) * 64 + (byte c2 - 0x80), 3) else bad
         | _ \<Rightarrow> bad)
      else if b0 < 0xF5 then
        (case s of
           c1 # c2 # c3 # _ \<Rightarrow>
             if (if b0 = 0xF0 then 0x90 else 0x80) \<le> byte c1
               \<and> byte c1 \<le> (if b0 = 0xF4 then 0x8F else 0xBF) \<and> cont_byte c2 \<and> cont_byte c3
             then ((b0 - 0xF0) * 262144 + (byte c1 - 0x80) * 4096
                     + (byte c2 - 0x80) * 64 + (byte c3 - 0x80), 4) else bad
         | _ \<Rightarrow> bad)
      else bad)"

lemma decode_rune_width: "1 \<le> snd (decode_rune c s) \<and> snd (decode_rune c s) \<le> Suc (length s)"
  by (auto simp: decode_rune_def Let_def split: list.split)

lemma decode_rune_ascii: "byte c < 0x80 \<Longrightarrow> decode_rune c s = (byte c, 1)"
  by (simp add: decode_rune_def)

text \<open>The runes of a string with their widths in bytes.\<close>

function rune_list :: "string \<Rightarrow> (nat \<times> nat) list" where
  "rune_list [] = []"
| "rune_list (c # s) = decode_rune c s # rune_list (drop (snd (decode_rune c s) - 1) s)"
  by pat_completeness auto
termination
  by (relation "measure length") auto

definition runes :: "string \<Rightarrow> nat list" where
  "runes s = map fst (rune_list s)"

definition utf8_valid :: "string \<Rightarrow> bool" where
  "utf8_valid s = list_all (\<lambda>r. r \<noteq> (RuneError, 1)) (rune_list s)"

lemma runes_Nil [simp]: "runes [] = []"
  by (simp add: runes_def)

lemma runes_eq_Nil [simp]: "runes s = [] \<longleftrightarrow> s = []"
  by (cases s) (simp_all add: runes_def)

lemma decode_rune_lt128: "fst (decode_rune c s) < 0x80 \<Longrightarrow> byte c < 0x80 \<and> snd (decode_rune c s) = 1"
  by (auto simp: decode_rune_def Let_def RuneError_def split: list.splits if_splits)

text \<open>If every rune of a string is ASCII, the runes are the bytes.\<close>

lemma runes_ascii_conv:
  "(\<forall>r \<in> set (runes s). r < 0x80) \<longleftrightarrow> (\<forall>c \<in> set s. byte c < 0x80)"
proof (induction s rule: rune_list.induct)
  case (2 c s)
  show ?case
  proof (cases "byte c < 0x80")
    case True
    then show ?thesis using 2 by (simp add: runes_def decode_rune_ascii)
  next
    case False
    then have "\<not> fst (decode_rune c s) < 0x80" using decode_rune_lt128 by blast
    with False show ?thesis by (auto simp: runes_def)
  qed
qed (simp add: runes_def)

lemma runes_ascii: "(\<forall>c \<in> set s. byte c < 0x80) \<Longrightarrow> runes s = map byte s"
  by (induction s rule: rune_list.induct) (auto simp: runes_def decode_rune_ascii)

text \<open>A predicate on runes that only ASCII runes satisfy can be read off the bytes.\<close>

lemma list_all_runes_ascii:
  assumes "\<And>r. P r \<Longrightarrow> r < 0x80"
  shows "list_all P (runes s) \<longleftrightarrow> list_all (\<lambda>c. P (byte c)) s"
proof
  assume *: "list_all P (runes s)"
  then have "\<forall>r \<in> set (runes s). r < 0x80" using assms by (auto simp: list_all_iff)
  then have "\<forall>c \<in> set s. byte c < 0x80" by (simp add: runes_ascii_conv)
  with * show "list_all (\<lambda>c. P (byte c)) s" by (simp add: runes_ascii list.pred_map comp_def)
next
  assume *: "list_all (\<lambda>c. P (byte c)) s"
  then have "\<forall>c \<in> set s. byte c < 0x80" using assms by (auto simp: list_all_iff)
  with * show "list_all P (runes s)" by (simp add: runes_ascii list.pred_map comp_def)
qed

lemma utf8_valid_ascii: "(\<forall>c \<in> set s. byte c < 0x80) \<Longrightarrow> utf8_valid s"
  by (induction s rule: rune_list.induct)
     (auto simp: utf8_valid_def decode_rune_ascii RuneError_def)

text \<open>\<^verbatim>\<open>utf8.AppendRune\<close>: a surrogate or out-of-range rune is written as \<^verbatim>\<open>RuneError\<close>.\<close>

definition encode_rune :: "nat \<Rightarrow> string" where
  "encode_rune r0 =
     (let r = (if 0x10FFFF < r0 \<or> (0xD800 \<le> r0 \<and> r0 \<le> 0xDFFF) then RuneError else r0) in
      if r < 0x80 then [char_of r]
      else if r < 0x800 then [char_of (0xC0 + r div 64), char_of (0x80 + r mod 64)]
      else if r < 0x10000 then
        [char_of (0xE0 + r div 4096), char_of (0x80 + r div 64 mod 64), char_of (0x80 + r mod 64)]
      else
        [char_of (0xF0 + r div 262144), char_of (0x80 + r div 4096 mod 64),
         char_of (0x80 + r div 64 mod 64), char_of (0x80 + r mod 64)])"

lemma char_of_eqI: "n = byte c \<Longrightarrow> char_of n = c"
  by simp

lemma cont_byte_sub: "cont_byte c \<Longrightarrow> byte c - 0x80 < 64 \<and> 0x80 \<le> byte c"
  by (auto simp: cont_byte_def)

lemma digits64:
  fixes a b d :: nat
  assumes "b < 64" "d < 64"
  shows "(a * 4096 + b * 64 + d) mod 64 = d" "(a * 4096 + b * 64 + d) div 64 mod 64 = b"
    "(a * 4096 + b * 64 + d) div 4096 = a"
proof -
  have eq: "a * 4096 + b * 64 + d = (a * 64 + b) * 64 + d" by simp
  show "(a * 4096 + b * 64 + d) mod 64 = d"
    unfolding eq using assms by (subst mod_mult_self3) simp
  have "(a * 4096 + b * 64 + d) div 64 = a * 64 + b"
    unfolding eq using assms by (subst div_mult_self3) simp_all
  then show "(a * 4096 + b * 64 + d) div 64 mod 64 = b"
    using assms by simp
  show "(a * 4096 + b * 64 + d) div 4096 = a" using assms by simp
qed

lemma encode_decode_rune:
  assumes "decode_rune c s \<noteq> (RuneError, 1)"
  shows "encode_rune (fst (decode_rune c s)) = take (snd (decode_rune c s)) (c # s)"
proof -
  consider (1) "byte c < 0x80" | (2) "0xC2 \<le> byte c" "byte c < 0xE0"
    | (3) "0xE0 \<le> byte c" "byte c < 0xF0" | (4) "0xF0 \<le> byte c" "byte c < 0xF5"
    using assms by (fastforce simp: decode_rune_def Let_def split: if_splits)
  then show ?thesis
  proof cases
    case 1
    then show ?thesis by (simp add: decode_rune_def encode_rune_def)
  next
    case 2
    then obtain c1 t where s: "s = c1 # t" and c1: "cont_byte c1"
      using assms by (auto simp: decode_rune_def Let_def split: list.splits if_splits)
    define a b where "a = byte c - 0xC0" and "b = byte c1 - 0x80"
    have d: "decode_rune c s = (a * 64 + b, 2)"
      using 2 c1 by (simp add: decode_rune_def s a_def b_def)
    have "2 \<le> a" "a < 32" "b < 64" using 2 cont_byte_sub [OF c1] by (auto simp: a_def b_def)
    moreover have "0xC0 + a = byte c" "0x80 + b = byte c1"
      using 2 cont_byte_sub [OF c1] by (auto simp: a_def b_def)
    ultimately show ?thesis
      unfolding d by (simp add: encode_rune_def Let_def s char_of_eqI)
  next
    case 3
    then obtain c1 c2 t where s: "s = c1 # c2 # t" and c2: "cont_byte c2"
      and c1: "(if byte c = 0xE0 then 0xA0 else 0x80) \<le> byte c1" "byte c1 \<le> (if byte c = 0xED then 0x9F else 0xBF)"
      using assms by (auto simp: decode_rune_def Let_def split: list.splits if_splits)
    define a b d where "a = byte c - 0xE0" and "b = byte c1 - 0x80" and "d = byte c2 - 0x80"
    have dc: "decode_rune c s = (a * 4096 + b * 64 + d, 3)"
      using 3 c1 c2 by (simp add: decode_rune_def s a_def b_def d_def)
    have ab: "a < 16" "b < 64" "d < 64" "a = 0 \<Longrightarrow> 32 \<le> b" "a = 13 \<Longrightarrow> b < 32"
      using 3 c1 cont_byte_sub [OF c2] by (auto simp: a_def b_def d_def split: if_splits)
    have bk: "0xE0 + a = byte c" "0x80 + b = byte c1" "0x80 + d = byte c2"
      using 3 c1 cont_byte_sub [OF c2] by (auto simp: a_def b_def d_def split: if_splits)
    define r where "r = a * 4096 + b * 64 + d"
    have r1: "0x800 \<le> r" "r < 0x10000" "\<not> (0xD800 \<le> r \<and> r \<le> 0xDFFF)"
    proof -
      show "0x800 \<le> r" using ab by (cases "a = 0") (auto simp: r_def)
      show "r < 0x10000" using ab by (simp add: r_def)
      show "\<not> (0xD800 \<le> r \<and> r \<le> 0xDFFF)"
      proof
        assume "0xD800 \<le> r \<and> r \<le> 0xDFFF"
        then have "a = 13" using ab by (simp add: r_def)
        with ab have "r < 0xD800" by (simp add: r_def)
        with \<open>0xD800 \<le> r \<and> r \<le> 0xDFFF\<close> show False by simp
      qed
    qed
    have "r div 4096 = a" "r div 64 mod 64 = b" "r mod 64 = d"
      using ab digits64 [of b d a] by (simp_all add: r_def algebra_simps)
    with r1 bk show ?thesis
      unfolding dc r_def [symmetric] by (auto simp: encode_rune_def Let_def s char_of_eqI)
  next
    case 4
    then obtain c1 c2 c3 t where s: "s = c1 # c2 # c3 # t" and c2: "cont_byte c2" and c3: "cont_byte c3"
      and c1: "(if byte c = 0xF0 then 0x90 else 0x80) \<le> byte c1" "byte c1 \<le> (if byte c = 0xF4 then 0x8F else 0xBF)"
      using assms by (auto simp: decode_rune_def Let_def split: list.splits if_splits)
    define a b d e where "a = byte c - 0xF0" and "b = byte c1 - 0x80" and "d = byte c2 - 0x80" and "e = byte c3 - 0x80"
    have dc: "decode_rune c s = (a * 262144 + b * 4096 + d * 64 + e, 4)"
      using 4 c1 c2 c3 by (simp add: decode_rune_def s a_def b_def d_def e_def)
    have ab: "a < 5" "b < 64" "d < 64" "e < 64" "a = 0 \<Longrightarrow> 16 \<le> b" "a = 4 \<Longrightarrow> b < 16"
      using 4 c1 cont_byte_sub [OF c2] cont_byte_sub [OF c3]
      by (auto simp: a_def b_def d_def e_def split: if_splits)
    have bk: "0xF0 + a = byte c" "0x80 + b = byte c1" "0x80 + d = byte c2" "0x80 + e = byte c3"
      using 4 c1 cont_byte_sub [OF c2] cont_byte_sub [OF c3]
      by (auto simp: a_def b_def d_def e_def split: if_splits)
    define r where "r = a * 262144 + b * 4096 + d * 64 + e"
    have r1: "0x10000 \<le> r" "r \<le> 0x10FFFF"
    proof -
      show "0x10000 \<le> r" using ab by (cases "a = 0") (auto simp: r_def)
      show "r \<le> 0x10FFFF" using ab by (cases "a = 4") (auto simp: r_def)
    qed
    have dg: "r = (a * 64 + b) * 4096 + d * 64 + e" by (simp add: r_def)
    have "r mod 64 = e" "r div 64 mod 64 = d" unfolding dg by (rule digits64 [OF ab(3,4)])+
    moreover have hi: "r div 4096 = a * 64 + b" unfolding dg by (rule digits64 [OF ab(3,4)])
    moreover have "r div 262144 = r div 4096 div 64" by (simp add: div_mult2_eq [symmetric])
    ultimately have "r div 262144 = a" "r div 4096 mod 64 = b" "r div 64 mod 64 = d" "r mod 64 = e"
      using ab(2) by simp_all
    with r1 bk show ?thesis
      unfolding dc r_def [symmetric] by (auto simp: encode_rune_def Let_def s char_of_eqI)
  qed
qed

text \<open>What a decode-then-encode pass makes of a string: every ill-formed byte becomes U+FFFD.\<close>

function coerce_utf8 :: "string \<Rightarrow> string" where
  "coerce_utf8 [] = []"
| "coerce_utf8 (c # s) =
     encode_rune (fst (decode_rune c s)) @ coerce_utf8 (drop (snd (decode_rune c s) - 1) s)"
  by pat_completeness auto
termination
  by (relation "measure length") auto

lemma utf8_valid_Cons:
  "utf8_valid (c # s) \<longleftrightarrow>
     decode_rune c s \<noteq> (RuneError, 1) \<and> utf8_valid (drop (snd (decode_rune c s) - 1) s)"
  by (simp add: utf8_valid_def)

lemma utf8_valid_Nil [simp]: "utf8_valid []"
  by (simp add: utf8_valid_def)

lemma coerce_utf8_valid: "utf8_valid s \<Longrightarrow> coerce_utf8 s = s"
proof (induction s rule: coerce_utf8.induct)
  case (2 c s)
  let ?n = "snd (decode_rune c s)"
  have n: "1 \<le> ?n" using decode_rune_width by blast
  from 2 have "coerce_utf8 (c # s) = take ?n (c # s) @ drop (?n - 1) s"
    by (simp add: utf8_valid_Cons encode_decode_rune)
  also have "\<dots> = c # s" using n by (cases ?n) auto
  finally show ?case .
qed simp

section \<open>Character classes of package unicode\<close>

definition IsControl :: "nat \<Rightarrow> bool" where
  "IsControl r = (r < 0x20 \<or> (0x7F \<le> r \<and> r < 0xA0))"

text \<open>The white space runes of \<^verbatim>\<open>unicode.IsSpace\<close>.\<close>

definition space_runes :: "nat list" where
  "space_runes = [9, 10, 11, 12, 13, 32, 0x85, 0xA0, 0x1680, 0x2000, 0x2001, 0x2002, 0x2003,
     0x2004, 0x2005, 0x2006, 0x2007, 0x2008, 0x2009, 0x200A, 0x2028, 0x2029, 0x202F, 0x205F,
     0x3000]"

definition IsSpace :: "nat \<Rightarrow> bool" where
  "IsSpace r = (r \<in> set space_runes)"

text \<open>
  \<^verbatim>\<open>unicode.IsLetter\<close> and \<^verbatim>\<open>unicode.IsDigit\<close>: the Latin-1 block is written out, the generated
  tables for the runes above it are the parameter.
\<close>

record uni_tables =
  letterTable :: "nat \<Rightarrow> bool"
  digitTable :: "nat \<Rightarrow> bool"

definition asciiLetter :: "nat \<Rightarrow> bool" where
  "asciiLetter r = ((97 \<le> r \<and> r \<le> 122) \<or> (65 \<le> r \<and> r \<le> 90))"

definition asciiDigit :: "nat \<Rightarrow> bool" where
  "asciiDigit r = (48 \<le> r \<and> r \<le> 57)"

definition IsLetter :: "uni_tables \<Rightarrow> nat \<Rightarrow> bool" where
  "IsLetter u r =
     (if r \<le> 0xFF then
        asciiLetter r \<or> r = 0xAA \<or> r = 0xB5 \<or> r = 0xBA
        \<or> (0xC0 \<le> r \<and> r \<noteq> 0xD7 \<and> r \<noteq> 0xF7)
      else letterTable u r)"

definition IsDigit :: "uni_tables \<Rightarrow> nat \<Rightarrow> bool" where
  "IsDigit u r = (if r \<le> 0xFF then asciiDigit r else digitTable u r)"

section \<open>Package strings\<close>

definition HasPrefix :: "string \<Rightarrow> string \<Rightarrow> bool" where
  "HasPrefix s p = (take (length p) s = p)"

definition HasSuffix :: "string \<Rightarrow> string \<Rightarrow> bool" where
  "HasSuffix s p = (length p \<le> length s \<and> drop (length s - length p) s = p)"

definition TrimPrefix :: "string \<Rightarrow> string \<Rightarrow> string" where
  "TrimPrefix s p = (if HasPrefix s p then drop (length p) s else s)"

text \<open>
  \<^verbatim>\<open>strings.TrimSpace\<close>. A rune is white space at the front (at the back) of a string exactly when
  the encoding of a white space rune is a prefix (a suffix) of it, since UTF-8 is prefix free
  and self-synchronising; the encodings are compared as bytes.
\<close>

definition space_encs :: "string list" where
  "space_encs = map encode_rune space_runes"

definition front_space :: "string \<Rightarrow> nat" where
  "front_space s = (case find (HasPrefix s) space_encs of None \<Rightarrow> 0 | Some e \<Rightarrow> length e)"

definition back_space :: "string \<Rightarrow> nat" where
  "back_space s = (case find (HasSuffix s) space_encs of None \<Rightarrow> 0 | Some e \<Rightarrow> length e)"

function trim_left :: "string \<Rightarrow> string" where
  "trim_left s = (if s = [] \<or> front_space s = 0 then s else trim_left (drop (front_space s) s))"
  by pat_completeness auto
termination
  by (relation "measure length") auto

function trim_right :: "string \<Rightarrow> string" where
  "trim_right s =
     (if s = [] \<or> back_space s = 0 then s else trim_right (take (length s - back_space s) s))"
  by pat_completeness auto
termination
  by (relation "measure length") auto

declare trim_left.simps [simp del] trim_right.simps [simp del]

definition TrimSpace :: "string \<Rightarrow> string" where
  "TrimSpace s = trim_right (trim_left s)"

text \<open>A string whose first and last bytes are ASCII and not white space is left alone.\<close>

definition asciiSpace :: "char \<Rightarrow> bool" where
  "asciiSpace c = (byte c \<in> {9, 10, 11, 12, 13, 32})"

lemma space_encs_eq:
  "space_encs = [[CHR 0x09], [CHR 0x0A], [CHR 0x0B], [CHR 0x0C], [CHR 0x0D], [CHR 0x20],
     [CHR 0xC2, CHR 0x85], [CHR 0xC2, CHR 0xA0], [CHR 0xE1, CHR 0x9A, CHR 0x80],
     [CHR 0xE2, CHR 0x80, CHR 0x80], [CHR 0xE2, CHR 0x80, CHR 0x81], [CHR 0xE2, CHR 0x80, CHR 0x82],
     [CHR 0xE2, CHR 0x80, CHR 0x83], [CHR 0xE2, CHR 0x80, CHR 0x84], [CHR 0xE2, CHR 0x80, CHR 0x85],
     [CHR 0xE2, CHR 0x80, CHR 0x86], [CHR 0xE2, CHR 0x80, CHR 0x87], [CHR 0xE2, CHR 0x80, CHR 0x88],
     [CHR 0xE2, CHR 0x80, CHR 0x89], [CHR 0xE2, CHR 0x80, CHR 0x8A], [CHR 0xE2, CHR 0x80, CHR 0xA8],
     [CHR 0xE2, CHR 0x80, CHR 0xA9], [CHR 0xE2, CHR 0x80, CHR 0xAF], [CHR 0xE2, CHR 0x81, CHR 0x9F],
     [CHR 0xE3, CHR 0x80, CHR 0x80]]"
  by (simp add: space_encs_def space_runes_def encode_rune_def char_of_def bit_0)

lemma space_encs_heads:
  "e \<in> set space_encs \<Longrightarrow> e \<noteq> [] \<and> (byte (hd e) < 0x80 \<longrightarrow> asciiSpace (hd e))
     \<and> (byte (last e) < 0x80 \<longrightarrow> asciiSpace (last e))"
  by (auto simp: space_encs_eq asciiSpace_def)

lemma find_none: "(\<And>x. x \<in> set xs \<Longrightarrow> \<not> P x) \<Longrightarrow> find P xs = None"
  by (simp add: find_None_iff)

lemma front_space_ascii: "byte c < 0x80 \<Longrightarrow> \<not> asciiSpace c \<Longrightarrow> front_space (c # s) = 0"
proof -
  assume c: "byte c < 0x80" "\<not> asciiSpace c"
  have "\<not> HasPrefix (c # s) e" if "e \<in> set space_encs" for e
    using space_encs_heads [OF that] c by (cases e) (auto simp: HasPrefix_def)
  then show ?thesis by (simp add: front_space_def find_none)
qed

lemma last_drop_suffix: "p \<noteq> [] \<Longrightarrow> HasSuffix s p \<Longrightarrow> last p = last s"
  unfolding HasSuffix_def by (metis diff_diff_cancel diff_is_0_eq last_drop length_0_conv not_less_iff_gr_or_eq drop_eq_Nil2 length_drop linorder_not_less)

lemma back_space_ascii:
  "s \<noteq> [] \<Longrightarrow> byte (last s) < 0x80 \<Longrightarrow> \<not> asciiSpace (last s) \<Longrightarrow> back_space s = 0"
proof -
  assume c: "s \<noteq> []" "byte (last s) < 0x80" "\<not> asciiSpace (last s)"
  have "\<not> HasSuffix s e" if "e \<in> set space_encs" for e
    using space_encs_heads [OF that] last_drop_suffix [of e s] c by auto
  then show ?thesis by (simp add: back_space_def find_none)
qed

lemma TrimSpace_ascii:
  assumes "s \<noteq> []" "\<forall>c \<in> set s. byte c < 0x80 \<and> \<not> asciiSpace c"
  shows "TrimSpace s = s"
proof -
  obtain c t where s: "s = c # t" using assms by (cases s) auto
  have "trim_left s = s"
    using assms by (simp add: s trim_left.simps [of "c # t"] front_space_ascii)
  moreover have "trim_right s = s"
    using assms back_space_ascii [of s] by (simp add: trim_right.simps [of s])
  ultimately show ?thesis by (simp add: TrimSpace_def)
qed

text \<open>\<^verbatim>\<open>len(strings.Fields(s))\<close>: the number of maximal runs of non-space runes.\<close>

fun count_fields :: "bool \<Rightarrow> nat list \<Rightarrow> nat" where
  "count_fields inside [] = 0"
| "count_fields inside (r # rs) =
     (if IsSpace r then count_fields False rs
      else (if inside then 0 else 1) + count_fields True rs)"

definition num_fields :: "string \<Rightarrow> nat" where
  "num_fields s = count_fields False (runes s)"

text \<open>\<^verbatim>\<open>strings.ContainsAny\<close> for a set of ASCII characters.\<close>

definition ContainsAny :: "string \<Rightarrow> string \<Rightarrow> bool" where
  "ContainsAny s cs = list_ex (\<lambda>c. c \<in> set cs) s"

end
