(* ===== verification/GoEncoding.thy ===== *)
theory GoEncoding
  imports GoStrings
begin

text \<open>
  What the hub uses of the Go packages \<^verbatim>\<open>strconv\<close>, \<^verbatim>\<open>encoding/hex\<close> and \<^verbatim>\<open>encoding/base64\<close>
  (\<^verbatim>\<open>StdEncoding\<close>), with the round trips the components rely on: a formatted integer parses back
  (\<open>ParseInt64_FormatInt\<close>), an encoded byte string decodes back (\<open>b64_roundtrip\<close>), and the hex
  form has two lower-case digits per byte.
\<close>

section \<open>strconv\<close>

fun dec_val :: "nat \<Rightarrow> string \<Rightarrow> nat" where
  "dec_val acc [] = acc"
| "dec_val acc (c # cs) = dec_val (acc * 10 + (byte c - 48)) cs"

definition all_digits :: "string \<Rightarrow> bool" where
  "all_digits s = list_all (\<lambda>c. asciiDigit (byte c)) s"

text \<open>\<^verbatim>\<open>strconv.ParseUint(s, 10, 64)\<close>.\<close>

definition ParseUint64 :: "string \<Rightarrow> nat option" where
  "ParseUint64 s = (if s \<noteq> [] \<and> all_digits s \<and> dec_val 0 s < 2 ^ 64 then Some (dec_val 0 s) else None)"

text \<open>\<^verbatim>\<open>strconv.ParseInt(s, 10, 64)\<close>, which is also \<^verbatim>\<open>strconv.Atoi\<close> on a 64-bit platform.\<close>

definition ParseInt64 :: "string \<Rightarrow> int option" where
  "ParseInt64 s =
     (case s of
        [] \<Rightarrow> None
      | c # cs \<Rightarrow>
          (let neg = (c = CHR ''-''); body = (if c = CHR ''-'' \<or> c = CHR ''+'' then cs else s) in
           case ParseUint64 body of
             None \<Rightarrow> None
           | Some n \<Rightarrow>
               if \<not> neg \<and> 2 ^ 63 \<le> n then None
               else if neg \<and> 2 ^ 63 < n then None
               else Some (if neg then - int n else int n)))"

fun dec_str :: "nat \<Rightarrow> string" where
  "dec_str n = (if n < 10 then [char_of (48 + n)] else dec_str (n div 10) @ [char_of (48 + n mod 10)])"

declare dec_str.simps [simp del]

text \<open>\<^verbatim>\<open>strconv.FormatInt(i, 10)\<close> and \<^verbatim>\<open>strconv.Itoa\<close>.\<close>

definition FormatInt :: "int \<Rightarrow> string" where
  "FormatInt i = (if i < 0 then CHR ''-'' # dec_str (nat (- i)) else dec_str (nat i))"

lemma byte_digit: "n < 10 \<Longrightarrow> byte (char_of (48 + n)) = 48 + n"
  by (simp add: of_char_of)

lemma dec_val_append: "dec_val a (s @ t) = dec_val (dec_val a s) t"
  by (induction s arbitrary: a) auto

lemma all_digits_append [simp]: "all_digits (s @ t) \<longleftrightarrow> all_digits s \<and> all_digits t"
  by (simp add: all_digits_def)

lemma dec_str_props: "dec_str n \<noteq> [] \<and> all_digits (dec_str n) \<and> dec_val 0 (dec_str n) = n"
proof (induction n rule: dec_str.induct)
  case (1 n)
  show ?case
  proof (cases "n < 10")
    case True
    then show ?thesis
      by (subst (1 2 3) dec_str.simps) (simp add: byte_digit all_digits_def asciiDigit_def)
  next
    case False
    with 1 have IH: "all_digits (dec_str (n div 10))" "dec_val 0 (dec_str (n div 10)) = n div 10"
      by auto
    have "byte (char_of (48 + n mod 10)) = 48 + n mod 10" by (rule byte_digit) simp
    with False IH show ?thesis
      by (subst (1 2 3) dec_str.simps)
         (simp add: dec_val_append all_digits_def asciiDigit_def)
  qed
qed

lemmas dec_str_ne [simp] = dec_str_props [THEN conjunct1]
lemmas dec_str_digits [simp] = dec_str_props [THEN conjunct2, THEN conjunct1]
lemmas dec_val_dec_str [simp] = dec_str_props [THEN conjunct2, THEN conjunct2]

lemma ParseUint64_dec_str: "n < 2 ^ 64 \<Longrightarrow> ParseUint64 (dec_str n) = Some n"
  by (simp add: ParseUint64_def)

lemma dec_str_hd: "\<exists>c cs. dec_str n = c # cs \<and> c \<noteq> CHR ''-'' \<and> c \<noteq> CHR ''+''"
proof -
  obtain c cs where eq: "dec_str n = c # cs" by (cases "dec_str n") auto
  moreover have "asciiDigit (byte c)"
    using dec_str_digits [of n] by (simp add: eq all_digits_def)
  ultimately show ?thesis by (auto simp: asciiDigit_def)
qed

lemma ParseInt64_dec_str: "n < 2 ^ 63 \<Longrightarrow> ParseInt64 (dec_str n) = Some (int n)"
proof -
  assume n: "n < 2 ^ 63"
  obtain c cs where eq: "dec_str n = c # cs" "c \<noteq> CHR ''-''" "c \<noteq> CHR ''+''"
    using dec_str_hd by blast
  have "ParseUint64 (c # cs) = Some n" using ParseUint64_dec_str [of n] n eq by simp
  with eq n show ?thesis by (simp add: ParseInt64_def Let_def)
qed

lemma ParseInt64_FormatInt:
  assumes "- (2 ^ 63) \<le> i" "i < 2 ^ 63"
  shows "ParseInt64 (FormatInt i) = Some i"
proof (cases "i < 0")
  case False
  then show ?thesis using assms by (simp add: FormatInt_def ParseInt64_dec_str)
next
  case True
  have "ParseUint64 (dec_str (nat (- i))) = Some (nat (- i))"
    using assms by (intro ParseUint64_dec_str) auto
  with True assms show ?thesis by (simp add: FormatInt_def ParseInt64_def)
qed

lemma ParseInt64_range: "ParseInt64 s = Some i \<Longrightarrow> - (2 ^ 63) \<le> i \<and> i < 2 ^ 63"
  by (auto simp: ParseInt64_def Let_def split: list.splits option.splits if_splits)

lemma FormatInt_chars: "c \<in> set (FormatInt i) \<Longrightarrow> c = CHR ''-'' \<or> asciiDigit (byte c)"
  using dec_str_digits by (fastforce simp: FormatInt_def all_digits_def list_all_iff split: if_splits)

lemma FormatInt_inj: "FormatInt i = FormatInt j \<Longrightarrow> i = j"
proof -
  assume eq: "FormatInt i = FormatInt j"
  have "dec_str n \<noteq> CHR ''-'' # t" for n t using dec_str_hd [of n] by auto
  moreover have "dec_str n = dec_str m \<Longrightarrow> n = m" for n m by (metis dec_val_dec_str)
  ultimately show ?thesis
    using eq by (auto simp: FormatInt_def split: if_splits) (metis nat_eq_iff neg_equal_iff_equal linorder_not_less nat_0_le neg_le_0_iff_le order_less_imp_le)+
qed

section \<open>encoding/hex\<close>

definition hex_digit :: "nat \<Rightarrow> char" where
  "hex_digit n = (if n < 10 then char_of (48 + n) else char_of (87 + n))"

fun hex_encode :: "string \<Rightarrow> string" where
  "hex_encode [] = []"
| "hex_encode (c # cs) = hex_digit (byte c div 16) # hex_digit (byte c mod 16) # hex_encode cs"

definition lower_hex :: "char \<Rightarrow> bool" where
  "lower_hex c = (asciiDigit (byte c) \<or> (97 \<le> byte c \<and> byte c \<le> 102))"

lemma byte_hex_digit: "n < 16 \<Longrightarrow> byte (hex_digit n) = (if n < 10 then 48 + n else 87 + n)"
  by (simp add: hex_digit_def of_char_of)

lemma hex_digit_lower: "n < 16 \<Longrightarrow> lower_hex (hex_digit n)"
  by (auto simp: lower_hex_def asciiDigit_def byte_hex_digit)

lemma hex_encode_length [simp]: "length (hex_encode s) = 2 * length s"
  by (induction s) auto

lemma byte_div16: "byte c div 16 < 16"
  by (rule less_mult_imp_div_less) simp

lemma hex_encode_lower: "list_all lower_hex (hex_encode s)"
  by (induction s) (auto simp: hex_digit_lower byte_div16)

lemma hex_digit_inj: "m < 16 \<Longrightarrow> n < 16 \<Longrightarrow> hex_digit m = hex_digit n \<Longrightarrow> m = n"
  by (drule arg_cong [of _ _ byte]) (auto simp: byte_hex_digit split: if_splits)

lemma hex_encode_inj: "hex_encode s = hex_encode t \<Longrightarrow> s = t"
proof (induction s arbitrary: t)
  case Nil
  then show ?case by (cases t) auto
next
  case (Cons c s)
  then obtain d t' where t: "t = d # t'" by (cases t) auto
  with Cons.prems have "byte c div 16 = byte d div 16" "byte c mod 16 = byte d mod 16"
    using hex_digit_inj byte_div16 by fastforce+
  then have "byte c = byte d" by (metis div_mult_mod_eq)
  with Cons t show ?case by simp
qed

section \<open>encoding/base64, StdEncoding\<close>

definition b64_char :: "nat \<Rightarrow> char" where
  "b64_char n =
     (if n < 26 then char_of (65 + n) else if n < 52 then char_of (71 + n)
      else if n < 62 then char_of (n - 4) else if n = 62 then CHR ''+'' else CHR ''/'')"

definition b64_val :: "char \<Rightarrow> nat option" where
  "b64_val c =
     (let b = byte c in
      if 65 \<le> b \<and> b \<le> 90 then Some (b - 65)
      else if 97 \<le> b \<and> b \<le> 122 then Some (b - 71)
      else if 48 \<le> b \<and> b \<le> 57 then Some (b + 4)
      else if c = CHR ''+'' then Some 62
      else if c = CHR ''/'' then Some 63
      else None)"

fun b64_encode :: "string \<Rightarrow> string" where
  "b64_encode [] = []"
| "b64_encode [x] = [b64_char (byte x div 4), b64_char (byte x mod 4 * 16), CHR ''='', CHR ''='']"
| "b64_encode [x, y] =
     [b64_char (byte x div 4), b64_char (byte x mod 4 * 16 + byte y div 16),
      b64_char (byte y mod 16 * 4), CHR ''='']"
| "b64_encode (x # y # z # s) =
     b64_char (byte x div 4) # b64_char (byte x mod 4 * 16 + byte y div 16)
     # b64_char (byte y mod 16 * 4 + byte z div 64) # b64_char (byte z mod 64) # b64_encode s"

text \<open>
  The decoder of the Go library: carriage returns and line feeds are skipped, padding is
  required and ends the input, stray low bits of the last symbol are ignored.
\<close>

fun b64_quanta :: "string \<Rightarrow> string option" where
  "b64_quanta [] = Some []"
| "b64_quanta (a # b # c # d # s) =
     (case (b64_val a, b64_val b) of
        (Some p, Some q) \<Rightarrow>
          if c = CHR ''='' then
            (if d = CHR ''='' \<and> s = [] then Some [char_of (p * 4 + q div 16)] else None)
          else
            (case b64_val c of
               None \<Rightarrow> None
             | Some r \<Rightarrow>
                 if d = CHR ''='' then
                   (if s = [] then Some [char_of (p * 4 + q div 16), char_of (q mod 16 * 16 + r div 4)]
                    else None)
                 else
                   (case (b64_val d, b64_quanta s) of
                      (Some t, Some rest) \<Rightarrow>
                        Some (char_of (p * 4 + q div 16) # char_of (q mod 16 * 16 + r div 4)
                              # char_of (r mod 4 * 64 + t) # rest)
                    | _ \<Rightarrow> None))
      | _ \<Rightarrow> None)"
| "b64_quanta _ = None"

definition b64_decode :: "string \<Rightarrow> string option" where
  "b64_decode s = b64_quanta (filter (\<lambda>c. c \<noteq> CHR 0x0A \<and> c \<noteq> CHR 0x0D) s)"

lemma byte_b64_char:
  "n < 64 \<Longrightarrow> byte (b64_char n) =
     (if n < 26 then 65 + n else if n < 52 then 71 + n else if n < 62 then n - 4
      else if n = 62 then 43 else 47)"
  by (simp add: b64_char_def of_char_of)

lemma b64_val_char: "n < 64 \<Longrightarrow> b64_val (b64_char n) = Some n"
  using byte_b64_char [of n]
  by (auto simp: b64_val_def Let_def b64_char_def of_char_of split: if_splits)

lemma b64_char_ne:
  assumes "n < 64"
  shows "b64_char n \<noteq> CHR ''=''" "b64_char n \<noteq> CHR 0x0A" "b64_char n \<noteq> CHR 0x0D"
  using byte_b64_char [OF assms] by (auto split: if_splits)

lemma b64_parts:
  fixes x y z :: nat
  assumes "x < 256" "y < 256" "z < 256"
  shows "x div 4 < 64" "x mod 4 * 16 + y div 16 < 64" "y mod 16 * 4 + z div 64 < 64" "z mod 64 < 64"
    "x mod 4 * 16 < 64" "y mod 16 * 4 < 64"
    "(x div 4) * 4 + (x mod 4 * 16 + y div 16) div 16 = x"
    "(x mod 4 * 16 + y div 16) mod 16 * 16 + (y mod 16 * 4 + z div 64) div 4 = y"
    "(y mod 16 * 4 + z div 64) mod 4 * 64 + z mod 64 = z"
proof -
  have d: "x div 4 < 64" "y div 16 < 16" "z div 64 < 4" using assms by auto
  then show "x div 4 < 64" "x mod 4 * 16 + y div 16 < 64" "y mod 16 * 4 + z div 64 < 64"
    "z mod 64 < 64" "x mod 4 * 16 < 64" "y mod 16 * 4 < 64"
    by (auto intro: less_le_trans [of _ "4 * 16"])
  have "(x mod 4 * 16 + y div 16) div 16 = x mod 4" "(x mod 4 * 16 + y div 16) mod 16 = y div 16"
    using d by simp_all
  moreover have "(y mod 16 * 4 + z div 64) div 4 = y mod 16" "(y mod 16 * 4 + z div 64) mod 4 = z div 64"
    using d by simp_all
  ultimately show "(x div 4) * 4 + (x mod 4 * 16 + y div 16) div 16 = x"
    "(x mod 4 * 16 + y div 16) mod 16 * 16 + (y mod 16 * 4 + z div 64) div 4 = y"
    "(y mod 16 * 4 + z div 64) mod 4 * 64 + z mod 64 = z"
    by simp_all
qed

lemmas b64_part = b64_parts [OF byte_lt byte_lt byte_lt]

lemma b64_split: "(byte x mod 4 * 16 + byte y div 16) mod 16 * 16 + byte y mod 16 = byte y" for x y
  using byte_div16 [of y] by simp

lemma b64_quanta_encode: "b64_quanta (b64_encode s) = Some s"
proof (induction s rule: b64_encode.induct)
  case (2 x)
  have "byte x div 4 < 64" "byte x mod 4 * 16 < 64" by (rule b64_part)+
  then show ?case by (simp add: b64_val_char b64_char_ne)
next
  case (3 x y)
  show ?case
    using b64_part(1) [of x] b64_part(2) [of x y] b64_part(6) [of y] b64_part(7) [of x y]
      b64_split [of y x]
    by (simp add: b64_val_char b64_char_ne)
next
  case (4 x y z s)
  then show ?case
    using b64_part(1) [of x] b64_part(2) [of x y] b64_part(3) [of y z] b64_part(4) [of z]
      b64_part(7) [of x y] b64_part(8) [of x y z] b64_part(9) [of y z]
    by (simp add: b64_val_char b64_char_ne)
qed simp

lemma b64_encode_no_newline: "c \<in> set (b64_encode s) \<Longrightarrow> c \<noteq> CHR 0x0A \<and> c \<noteq> CHR 0x0D"
  by (induction s rule: b64_encode.induct)
     (auto simp: b64_char_ne b64_part)

lemma b64_roundtrip: "b64_decode (b64_encode s) = Some s"
proof -
  have "filter (\<lambda>c. c \<noteq> CHR 0x0A \<and> c \<noteq> CHR 0x0D) (b64_encode s) = b64_encode s"
    using b64_encode_no_newline by (intro filter_True) blast
  then show ?thesis by (simp add: b64_decode_def b64_quanta_encode)
qed

lemma b64_encode_length: "length (b64_encode s) = (length s + 2) div 3 * 4"
proof (induction s rule: b64_encode.induct)
  case (4 x y z s)
  have "(length s + 5) div 3 = Suc ((length s + 2) div 3)"
    by presburger
  with 4 show ?case by (simp add: add.commute)
qed auto

lemma b64_char_range: "n < 64 \<Longrightarrow> 0x20 \<le> byte (b64_char n) \<and> byte (b64_char n) < 0x80"
  by (auto simp: byte_b64_char)

lemma b64_encode_ascii: "c \<in> set (b64_encode s) \<Longrightarrow> 0x20 \<le> byte c \<and> byte c < 0x80"
  by (induction s rule: b64_encode.induct) (auto simp: b64_char_range b64_part)

end
