(* ===== verification/GoJSON.thy ===== *)
theory GoJSON
  imports GoEncoding
begin

text \<open>
  What the hub uses of \<^verbatim>\<open>encoding/json\<close>. A JSON text is read in two passes, a lexer (\<open>json_lex\<close>) and a
  push-down machine over tokens (\<open>prun\<close>, whose stack is the scanner's \<^verbatim>\<open>parseState\<close> with its limit on
  nesting), into a syntax tree \<open>json\<close>; a \<^verbatim>\<open>json.RawMessage\<close> is the subtree it holds. The writer
  (\<open>json_print\<close>) escapes strings as \<^verbatim>\<open>json.Marshal\<close> does, with the HTML characters and ill-formed
  bytes replaced. The main fact is the round trip \<open>json_roundtrip\<close>, and its instance for string
  maps, \<open>string_map_roundtrip\<close>.
\<close>

datatype json =
    JNull
  | JBool bool
  | JNum string
  | JStr string
  | JArr "json list"
  | JObj "(string \<times> json) list"

abbreviation DQ :: char where "DQ \<equiv> CHR 0x22"
abbreviation BS :: char where "BS \<equiv> CHR 0x5C"

section \<open>String literals\<close>

definition hex_val :: "char \<Rightarrow> nat option" where
  "hex_val c =
     (let b = byte c in
      if 48 \<le> b \<and> b \<le> 57 then Some (b - 48)
      else if 97 \<le> b \<and> b \<le> 102 then Some (b - 87)
      else if 65 \<le> b \<and> b \<le> 70 then Some (b - 55)
      else None)"

definition u4 :: "string \<Rightarrow> nat option" where
  "u4 s =
     (case s of
        a # b # c # d # _ \<Rightarrow>
          (case (hex_val a, hex_val b, hex_val c, hex_val d) of
             (Some p, Some q, Some r, Some t) \<Rightarrow> Some (p * 4096 + q * 256 + r * 16 + t)
           | _ \<Rightarrow> None)
      | _ \<Rightarrow> None)"

text \<open>The escape after a backslash: the bytes it stands for and how many bytes it takes up.\<close>

definition esc_step :: "string \<Rightarrow> (string \<times> nat) option" where
  "esc_step s =
     (case s of
        [] \<Rightarrow> None
      | e # s' \<Rightarrow>
          if e = DQ \<or> e = BS \<or> e = CHR ''/'' then Some ([e], 1)
          else if e = CHR ''b'' then Some ([CHR 0x08], 1)
          else if e = CHR ''f'' then Some ([CHR 0x0C], 1)
          else if e = CHR ''n'' then Some ([CHR 0x0A], 1)
          else if e = CHR ''r'' then Some ([CHR 0x0D], 1)
          else if e = CHR ''t'' then Some ([CHR 0x09], 1)
          else if e = CHR ''u'' then
            (case u4 s' of
               None \<Rightarrow> None
             | Some r \<Rightarrow>
                 if 0xD800 \<le> r \<and> r < 0xE000 then
                   (case (drop 4 s', u4 (drop 6 s')) of
                      (x # y # _, Some r1) \<Rightarrow>
                        if x = BS \<and> y = CHR ''u'' \<and> r < 0xDC00 \<and> 0xDC00 \<le> r1 \<and> r1 < 0xE000
                        then Some (encode_rune (0x10000 + (r - 0xD800) * 1024 + (r1 - 0xDC00)), 11)
                        else Some (encode_rune RuneError, 5)
                    | _ \<Rightarrow> Some (encode_rune RuneError, 5))
                 else Some (encode_rune r, 5))
          else None)"

definition str_step :: "char \<Rightarrow> string \<Rightarrow> (string \<times> nat) option" where
  "str_step c s =
     (if c = BS then esc_step s
      else if byte c < 0x20 then None
      else Some (encode_rune (fst (decode_rune c s)), snd (decode_rune c s) - 1))"

text \<open>The contents of a string literal up to its closing quote, unquoted, and what follows.\<close>

function lex_str :: "string \<Rightarrow> (string \<times> string) option" where
  "lex_str [] = None"
| "lex_str (c # s) =
     (if c = DQ then Some ([], s)
      else
        (case str_step c s of
           None \<Rightarrow> None
         | Some (out, n) \<Rightarrow>
             (case lex_str (drop n s) of
                None \<Rightarrow> None
              | Some (t, rest) \<Rightarrow> Some (out @ t, rest))))"
  by pat_completeness auto
termination
  by (relation "measure length") auto

lemma lex_str_shorter: "lex_str s = Some (t, rest) \<Longrightarrow> length rest < length s"
proof (induction s arbitrary: t rest rule: lex_str.induct)
  case (2 c s)
  show ?case
  proof (cases "c = DQ")
    case True
    then show ?thesis using 2 by simp
  next
    case False
    then obtain out n t' where *: "str_step c s = Some (out, n)" "lex_str (drop n s) = Some (t', rest)"
      using "2.prems" by (auto split: option.splits)
    then show ?thesis using "2.IH" [OF False *(1) refl *(2)] by auto
  qed
qed simp

text \<open>How the encoder writes the bytes of a string (\<^verbatim>\<open>appendString\<close>, with HTML escaping).\<close>

definition enc_u :: "char \<Rightarrow> bool" where
  "enc_u c = (byte c < 0x20 \<or> c = CHR ''<'' \<or> c = CHR ''>'' \<or> c = CHR 0x26)"

definition enc_ascii :: "char \<Rightarrow> string" where
  "enc_ascii c =
     (if c = BS \<or> c = DQ then [BS, c]
      else if c = CHR 0x08 then [BS, CHR ''b'']
      else if c = CHR 0x0C then [BS, CHR ''f'']
      else if c = CHR 0x0A then [BS, CHR ''n'']
      else if c = CHR 0x0D then [BS, CHR ''r'']
      else if c = CHR 0x09 then [BS, CHR ''t'']
      else if enc_u c then
        [BS, CHR ''u'', CHR ''0'', CHR ''0'', hex_digit (byte c div 16), hex_digit (byte c mod 16)]
      else [c])"

definition enc_step :: "char \<Rightarrow> string \<Rightarrow> string" where
  "enc_step c s =
     (if byte c < 0x80 then enc_ascii c
      else
        (let r = decode_rune c s in
         if r = (RuneError, 1) then BS # ''ufffd''
         else if fst r = 0x2028 then BS # ''u2028''
         else if fst r = 0x2029 then BS # ''u2029''
         else take (snd r) (c # s)))"

function enc_body :: "string \<Rightarrow> string" where
  "enc_body [] = []"
| "enc_body (c # s) = enc_step c s @ enc_body (drop (snd (decode_rune c s) - 1) s)"
  by pat_completeness auto
termination
  by (relation "measure length") auto

definition enc_str :: "string \<Rightarrow> string" where
  "enc_str s = DQ # enc_body s @ [DQ]"

text \<open>A printable ASCII string without quotes, backslashes and HTML characters is written as it is.\<close>

definition plain_char :: "char \<Rightarrow> bool" where
  "plain_char c = (0x20 \<le> byte c \<and> byte c < 0x80 \<and> c \<noteq> BS \<and> c \<noteq> DQ \<and> c \<noteq> CHR ''<'' \<and> c \<noteq> CHR ''>'' \<and> c \<noteq> CHR 0x26)"

lemma enc_step_plain:
  assumes "plain_char c"
  shows "enc_step c s = [c]"
proof -
  have "0x20 \<le> byte c" using assms by (simp add: plain_char_def)
  then have "c \<noteq> CHR 0x08" "c \<noteq> CHR 0x0C" "c \<noteq> CHR 0x0A" "c \<noteq> CHR 0x0D" "c \<noteq> CHR 0x09"
    by auto
  then show ?thesis using assms by (simp add: plain_char_def enc_step_def enc_ascii_def enc_u_def)
qed

lemma enc_str_plain: "list_all plain_char s \<Longrightarrow> enc_str s = DQ # s @ [DQ]"
proof -
  have "enc_body s = s" if "list_all plain_char s"
    using that by (induction s) (auto simp: enc_step_plain decode_rune_ascii plain_char_def)
  then show "list_all plain_char s \<Longrightarrow> enc_str s = DQ # s @ [DQ]" by (simp add: enc_str_def)
qed

lemma encode_rune_ascii: "r < 0x80 \<Longrightarrow> encode_rune r = [char_of r]"
  by (simp add: encode_rune_def)

lemma hex_val_digit: "n < 16 \<Longrightarrow> hex_val (hex_digit n) = Some n"
  using byte_hex_digit [of n] by (auto simp: hex_val_def Let_def split: if_splits)

lemma hex_val_0 [simp]: "hex_val (CHR ''0'') = Some 0"
  by (simp add: hex_val_def)

lemma decode_rune_prefix:
  assumes "decode_rune c s \<noteq> (RuneError, 1)"
  shows "decode_rune c (take (snd (decode_rune c s) - 1) s @ t) = decode_rune c s"
proof -
  consider (1) "byte c < 0x80" | (2) "0xC2 \<le> byte c" "byte c < 0xE0"
    | (3) "0xE0 \<le> byte c" "byte c < 0xF0" | (4) "0xF0 \<le> byte c" "byte c < 0xF5"
    using assms by (fastforce simp: decode_rune_def Let_def split: if_splits)
  then show ?thesis
  proof cases
    case 1
    then show ?thesis by (simp add: decode_rune_ascii)
  next
    case 2
    then obtain c1 u where s: "s = c1 # u" "cont_byte c1"
      using assms by (auto simp: decode_rune_def Let_def split: list.splits if_splits)
    with 2 show ?thesis by (simp add: decode_rune_def)
  next
    case 3
    then obtain c1 c2 u where s: "s = c1 # c2 # u"
      using assms by (auto simp: decode_rune_def Let_def split: list.splits)
    have "snd (decode_rune c s) = 3"
      using assms 3 by (simp add: decode_rune_def Let_def s split: if_splits)
    with 3 show ?thesis by (simp add: decode_rune_def s)
  next
    case 4
    then obtain c1 c2 c3 u where s: "s = c1 # c2 # c3 # u"
      using assms by (auto simp: decode_rune_def Let_def split: list.splits)
    have "snd (decode_rune c s) = 4"
      using assms 4 by (simp add: decode_rune_def Let_def s split: if_splits)
    with 4 show ?thesis by (simp add: decode_rune_def s)
  qed
qed

text \<open>What the reader makes of one encoded character.\<close>

lemma lex_str_plain:
  assumes "c \<noteq> DQ" "str_step c (w @ s) = Some (out, length w)"
  shows "lex_str ((c # w) @ s) = map_option (\<lambda>(t, rest). (out @ t, rest)) (lex_str s)"
  using assms by (auto split: option.split)

lemma str_step_esc: "e \<in> {DQ, BS, CHR ''/''} \<Longrightarrow> str_step BS ([e] @ s) = Some ([e], length [e])"
  by (auto simp: str_step_def esc_step_def)

lemma str_step_short:
  assumes "(e, c) \<in> {(CHR ''b'', CHR 0x08), (CHR ''f'', CHR 0x0C), (CHR ''n'', CHR 0x0A),
     (CHR ''r'', CHR 0x0D), (CHR ''t'', CHR 0x09)}"
  shows "str_step BS ([e] @ s) = Some ([c], length [e])"
  using assms by (auto simp: str_step_def esc_step_def)

lemma str_step_u:
  assumes "hex_val p = Some a" "hex_val q = Some b" "hex_val r = Some d" "hex_val t = Some e"
    "\<not> (0xD800 \<le> a * 4096 + b * 256 + d * 16 + e \<and> a * 4096 + b * 256 + d * 16 + e < 0xE000)"
  shows "str_step BS ([CHR ''u'', p, q, r, t] @ s) =
     Some (encode_rune (a * 4096 + b * 256 + d * 16 + e), length [CHR ''u'', p, q, r, t])"
proof -
  define v where "v = a * 4096 + b * 256 + d * 16 + e"
  have "u4 ([p, q, r, t] @ s) = Some v" using assms by (simp add: u4_def v_def)
  then show ?thesis
    using assms(5) unfolding v_def [symmetric] by (auto simp: str_step_def esc_step_def)
qed

lemma lex_str_enc_ascii:
  assumes "byte c < 0x80"
  shows "lex_str (enc_ascii c @ s) = map_option (\<lambda>(t, rest). ([c] @ t, rest)) (lex_str s)"
proof -
  have lt: "byte c div 16 < 16" "byte c mod 16 < 16" using assms by auto
  have val: "0 * 4096 + 0 * 256 + byte c div 16 * 16 + byte c mod 16 = byte c" by simp
  consider (q) "c = BS \<or> c = DQ" | (b) "c = CHR 0x08" | (f) "c = CHR 0x0C" | (n) "c = CHR 0x0A"
    | (r) "c = CHR 0x0D" | (t) "c = CHR 0x09"
    | (u) "c \<notin> {BS, DQ, CHR 0x08, CHR 0x0C, CHR 0x0A, CHR 0x0D, CHR 0x09}" "enc_u c"
    | (p) "c \<notin> {BS, DQ, CHR 0x08, CHR 0x0C, CHR 0x0A, CHR 0x0D, CHR 0x09}" "\<not> enc_u c"
    by (simp only: insert_iff empty_iff) metis
  then show ?thesis
  proof cases
    case q
    then have "enc_ascii c = BS # [c]" by (auto simp: enc_ascii_def)
    then show ?thesis using lex_str_plain [OF _ str_step_esc [of c s]] q by auto
  next
    case b
    then show ?thesis using lex_str_plain [OF _ str_step_short [of "CHR ''b''" c s]] by (simp add: enc_ascii_def)
  next
    case f
    then show ?thesis using lex_str_plain [OF _ str_step_short [of "CHR ''f''" c s]] by (simp add: enc_ascii_def)
  next
    case n
    then show ?thesis using lex_str_plain [OF _ str_step_short [of "CHR ''n''" c s]] by (simp add: enc_ascii_def)
  next
    case r
    then show ?thesis using lex_str_plain [OF _ str_step_short [of "CHR ''r''" c s]] by (simp add: enc_ascii_def)
  next
    case t
    then show ?thesis using lex_str_plain [OF _ str_step_short [of "CHR ''t''" c s]] by (simp add: enc_ascii_def)
  next
    case u
    then have eq: "enc_ascii c = BS # [CHR ''u'', CHR ''0'', CHR ''0'', hex_digit (byte c div 16), hex_digit (byte c mod 16)]"
      by (simp add: enc_ascii_def)
    have "str_step BS ([CHR ''u'', CHR ''0'', CHR ''0'', hex_digit (byte c div 16), hex_digit (byte c mod 16)] @ s) =
       Some (encode_rune (byte c), length [CHR ''u'', CHR ''0'', CHR ''0'', hex_digit (byte c div 16), hex_digit (byte c mod 16)])"
      using str_step_u [OF hex_val_0 hex_val_0 hex_val_digit [OF lt(1)] hex_val_digit [OF lt(2)], of s] assms
      unfolding val by simp
    from lex_str_plain [OF _ this] show ?thesis
      unfolding eq using assms by (simp add: encode_rune_ascii)
  next
    case p
    then have eq: "enc_ascii c = [c]" "c \<noteq> DQ" by (simp_all add: enc_ascii_def)
    have "str_step c ([] @ s) = Some ([c], length [])"
      using p assms by (simp add: enc_u_def str_step_def decode_rune_ascii encode_rune_ascii)
    from lex_str_plain [OF eq(2) this] show ?thesis using eq(1) by simp
  qed
qed

lemma lex_str_enc_step:
  "lex_str (enc_step c s @ u) =
     map_option (\<lambda>(t, rest). (encode_rune (fst (decode_rune c s)) @ t, rest)) (lex_str u)"
proof (cases "byte c < 0x80")
  case True
  then show ?thesis
    by (simp add: enc_step_def lex_str_enc_ascii decode_rune_ascii encode_rune_ascii)
next
  case False
  then have hi: "c \<noteq> BS" "c \<noteq> DQ" by auto
  let ?r = "decode_rune c s"
  have hv: "hex_val (CHR ''f'') = Some 15" "hex_val (CHR ''d'') = Some 13" "hex_val (CHR ''2'') = Some 2"
    "hex_val (CHR ''8'') = Some 8" "hex_val (CHR ''9'') = Some 9" by (simp_all add: hex_val_def)
  consider (bad) "?r = (RuneError, 1)" | (ls) "?r \<noteq> (RuneError, 1)" "fst ?r = 0x2028"
    | (ps) "?r \<noteq> (RuneError, 1)" "fst ?r = 0x2029"
    | (ok) "?r \<noteq> (RuneError, 1)" "fst ?r \<noteq> 0x2028" "fst ?r \<noteq> 0x2029" by blast
  then show ?thesis
  proof cases
    case bad
    then show ?thesis
      using False lex_str_plain [OF _ str_step_u [OF hv(1) hv(1) hv(1) hv(2), of u]]
      by (simp add: enc_step_def RuneError_def)
  next
    case ls
    then show ?thesis
      using False lex_str_plain [OF _ str_step_u [OF hv(3) hex_val_0 hv(3) hv(4), of u]]
      by (simp add: enc_step_def)
  next
    case ps
    then show ?thesis
      using False lex_str_plain [OF _ str_step_u [OF hv(3) hex_val_0 hv(3) hv(5), of u]]
      by (simp add: enc_step_def)
  next
    case ok
    let ?w = "take (snd ?r - 1) s"
    have n: "1 \<le> snd ?r" "snd ?r - 1 \<le> length s" using decode_rune_width [of c s] by auto
    have e: "enc_step c s = c # ?w"
      using ok False n by (cases "snd ?r") (auto simp: enc_step_def Let_def)
    have "str_step c (?w @ u) = Some (encode_rune (fst ?r), length ?w)"
      using False hi n decode_rune_prefix [OF ok(1), of u]
      by (simp add: str_step_def min_absorb2)
    from lex_str_plain [OF hi(2) this] show ?thesis unfolding e .
  qed
qed

lemma lex_str_enc_body: "lex_str (enc_body s @ DQ # rest) = Some (coerce_utf8 s, rest)"
  by (induction s rule: enc_body.induct) (simp_all add: lex_str_enc_step)

section \<open>Numbers\<close>

definition num_char :: "char \<Rightarrow> bool" where
  "num_char c = (asciiDigit (byte c) \<or> c \<in> set ''+-.eE'')"

definition num_digit :: "char \<Rightarrow> bool" where
  "num_digit c = asciiDigit (byte c)"

definition strip_int :: "string \<Rightarrow> string option" where
  "strip_int s =
     (case s of
        [] \<Rightarrow> None
      | c # r \<Rightarrow> if c = CHR ''0'' then Some r
                 else if num_digit c then Some (dropWhile num_digit r) else None)"

definition strip_digits1 :: "string \<Rightarrow> string option" where
  "strip_digits1 s =
     (case s of [] \<Rightarrow> None | c # r \<Rightarrow> if num_digit c then Some (dropWhile num_digit r) else None)"

definition strip_frac :: "string \<Rightarrow> string option" where
  "strip_frac s = (case s of c # r \<Rightarrow> if c = CHR ''.'' then strip_digits1 r else Some s | [] \<Rightarrow> Some s)"

definition strip_exp :: "string \<Rightarrow> string option" where
  "strip_exp s =
     (case s of
        [] \<Rightarrow> Some s
      | c # r \<Rightarrow>
          if c = CHR ''e'' \<or> c = CHR ''E'' then
            strip_digits1 (case r of d # r' \<Rightarrow> if d = CHR ''+'' \<or> d = CHR ''-'' then r' else r | [] \<Rightarrow> r)
          else Some s)"

definition valid_num :: "string \<Rightarrow> bool" where
  "valid_num s =
     (let s0 = (case s of c # r \<Rightarrow> if c = CHR ''-'' then r else s | [] \<Rightarrow> s) in
      Option.bind (Option.bind (strip_int s0) strip_frac) strip_exp = Some [])"

section \<open>The lexer\<close>

datatype jtok = TLBrace | TRBrace | TLBrack | TRBrack | TColon | TComma
  | TNull | TBool bool | TNum string | TStr string

definition json_ws :: "char \<Rightarrow> bool" where
  "json_ws c = (c = CHR '' '' \<or> c = CHR 0x09 \<or> c = CHR 0x0A \<or> c = CHR 0x0D)"

definition punct :: "char \<Rightarrow> jtok option" where
  "punct c =
     (if c = CHR ''{'' then Some TLBrace else if c = CHR ''}'' then Some TRBrace
      else if c = CHR ''['' then Some TLBrack else if c = CHR '']'' then Some TRBrack
      else if c = CHR '':'' then Some TColon else if c = CHR '','' then Some TComma else None)"

definition literal :: "char \<Rightarrow> string \<Rightarrow> (jtok \<times> nat) option" where
  "literal c s =
     (if c = CHR ''t'' \<and> HasPrefix s ''rue'' then Some (TBool True, 3)
      else if c = CHR ''f'' \<and> HasPrefix s ''alse'' then Some (TBool False, 4)
      else if c = CHR ''n'' \<and> HasPrefix s ''ull'' then Some (TNull, 3)
      else None)"

function json_lex :: "string \<Rightarrow> jtok list option" where
  "json_lex [] = Some []"
| "json_lex (c # s) =
     (if json_ws c then json_lex s
      else case punct c of
        Some t \<Rightarrow> map_option ((#) t) (json_lex s)
      | None \<Rightarrow>
          if c = DQ then
            (case lex_str s of
               None \<Rightarrow> None
             | Some (t, rest) \<Rightarrow>
                 if length rest < length s then map_option ((#) (TStr t)) (json_lex rest) else None)
          else if num_char c then
            (if valid_num (takeWhile num_char (c # s))
             then map_option ((#) (TNum (takeWhile num_char (c # s)))) (json_lex (dropWhile num_char s))
             else None)
          else
            (case literal c s of
               None \<Rightarrow> None
             | Some (t, n) \<Rightarrow> map_option ((#) t) (json_lex (drop n s))))"
  by pat_completeness auto
termination
  by (relation "measure length") (auto simp: le_imp_less_Suc length_dropWhile_le)

lemma json_lex_str:
  "json_lex (DQ # s) = Option.bind (lex_str s) (\<lambda>(t, rest). map_option ((#) (TStr t)) (json_lex rest))"
  by (auto simp: json_ws_def punct_def split: option.split dest: lex_str_shorter)

section \<open>The push-down machine\<close>

datatype frame = FArr "json list" | FObj "(string \<times> json) list" | FMem "(string \<times> json) list" string

datatype pstate = PVal | PArr0 | PKey0 | PKey | PColon | PEnd json

definition val_step :: "nat \<Rightarrow> frame list \<Rightarrow> jtok \<Rightarrow> (frame list \<times> pstate) option" where
  "val_step d st t =
     (case t of
        TNull \<Rightarrow> Some (st, PEnd JNull)
      | TBool b \<Rightarrow> Some (st, PEnd (JBool b))
      | TNum n \<Rightarrow> Some (st, PEnd (JNum n))
      | TStr s \<Rightarrow> Some (st, PEnd (JStr s))
      | TLBrack \<Rightarrow> if length st < d then Some (FArr [] # st, PArr0) else None
      | TLBrace \<Rightarrow> if length st < d then Some (FObj [] # st, PKey0) else None
      | _ \<Rightarrow> None)"

definition end_step :: "frame list \<Rightarrow> json \<Rightarrow> jtok \<Rightarrow> (frame list \<times> pstate) option" where
  "end_step st v t =
     (case st of
        FArr vs # st' \<Rightarrow>
          if t = TComma then Some (FArr (vs @ [v]) # st', PVal)
          else if t = TRBrack then Some (st', PEnd (JArr (vs @ [v]))) else None
      | FMem ms k # st' \<Rightarrow>
          if t = TComma then Some (FObj (ms @ [(k, v)]) # st', PKey)
          else if t = TRBrace then Some (st', PEnd (JObj (ms @ [(k, v)]))) else None
      | _ \<Rightarrow> None)"

definition key_step :: "frame list \<Rightarrow> jtok \<Rightarrow> (frame list \<times> pstate) option" where
  "key_step st t =
     (case (st, t) of (FObj ms # st', TStr k) \<Rightarrow> Some (FMem ms k # st', PColon) | _ \<Rightarrow> None)"

definition pstep :: "nat \<Rightarrow> frame list \<Rightarrow> pstate \<Rightarrow> jtok \<Rightarrow> (frame list \<times> pstate) option" where
  "pstep d st p t =
     (case p of
        PVal \<Rightarrow> val_step d st t
      | PArr0 \<Rightarrow> if t = TRBrack then Some (tl st, PEnd (JArr [])) else val_step d st t
      | PKey0 \<Rightarrow> if t = TRBrace then Some (tl st, PEnd (JObj [])) else key_step st t
      | PKey \<Rightarrow> key_step st t
      | PColon \<Rightarrow> if t = TColon then Some (st, PVal) else None
      | PEnd v \<Rightarrow> end_step st v t)"

fun prun :: "nat \<Rightarrow> frame list \<Rightarrow> pstate \<Rightarrow> jtok list \<Rightarrow> json option" where
  "prun d st p [] = (case (st, p) of ([], PEnd v) \<Rightarrow> Some v | _ \<Rightarrow> None)"
| "prun d st p (t # ts) = (case pstep d st p t of None \<Rightarrow> None | Some (st', p') \<Rightarrow> prun d st' p' ts)"

definition json_parse :: "nat \<Rightarrow> string \<Rightarrow> json option" where
  "json_parse d s = (case json_lex s of None \<Rightarrow> None | Some ts \<Rightarrow> prun d [] PVal ts)"

text \<open>The nesting limit of the scanner, \<^verbatim>\<open>maxNestingDepth\<close>.\<close>

definition maxNestingDepth :: nat where
  "maxNestingDepth = 10000"

section \<open>The writer\<close>

fun json_print :: "json \<Rightarrow> string" and print_elems :: "json list \<Rightarrow> string"
  and print_members :: "(string \<times> json) list \<Rightarrow> string" where
  "json_print JNull = ''null''"
| "json_print (JBool b) = (if b then ''true'' else ''false'')"
| "json_print (JNum n) = n"
| "json_print (JStr s) = enc_str s"
| "json_print (JArr vs) = CHR ''['' # print_elems vs @ '']''"
| "json_print (JObj ms) = CHR ''{'' # print_members ms @ ''}''"
| "print_elems [] = []"
| "print_elems [v] = json_print v"
| "print_elems (v # w # vs) = json_print v @ CHR '','' # print_elems (w # vs)"
| "print_members [] = []"
| "print_members [(k, v)] = enc_str k @ CHR '':'' # json_print v"
| "print_members ((k, v) # m # ms) = enc_str k @ CHR '':'' # json_print v @ CHR '','' # print_members (m # ms)"

text \<open>The tokens of a tree, its nesting depth, and the trees whose text reads back unchanged.\<close>

fun toks :: "json \<Rightarrow> jtok list" and toks_elems :: "json list \<Rightarrow> jtok list"
  and toks_members :: "(string \<times> json) list \<Rightarrow> jtok list" where
  "toks JNull = [TNull]"
| "toks (JBool b) = [TBool b]"
| "toks (JNum n) = [TNum n]"
| "toks (JStr s) = [TStr s]"
| "toks (JArr vs) = TLBrack # toks_elems vs @ [TRBrack]"
| "toks (JObj ms) = TLBrace # toks_members ms @ [TRBrace]"
| "toks_elems [] = []"
| "toks_elems [v] = toks v"
| "toks_elems (v # w # vs) = toks v @ TComma # toks_elems (w # vs)"
| "toks_members [] = []"
| "toks_members [(k, v)] = TStr k # TColon # toks v"
| "toks_members ((k, v) # m # ms) = TStr k # TColon # toks v @ TComma # toks_members (m # ms)"

fun json_depth :: "json \<Rightarrow> nat" and depth_elems :: "json list \<Rightarrow> nat"
  and depth_members :: "(string \<times> json) list \<Rightarrow> nat" where
  "json_depth (JArr vs) = Suc (depth_elems vs)"
| "json_depth (JObj ms) = Suc (depth_members ms)"
| "json_depth _ = 0"
| "depth_elems [] = 0"
| "depth_elems (v # vs) = max (json_depth v) (depth_elems vs)"
| "depth_members [] = 0"
| "depth_members ((k, v) # ms) = max (json_depth v) (depth_members ms)"

fun json_clean :: "json \<Rightarrow> bool" and clean_elems :: "json list \<Rightarrow> bool"
  and clean_members :: "(string \<times> json) list \<Rightarrow> bool" where
  "json_clean (JNum n) = (valid_num n \<and> list_all num_char n)"
| "json_clean (JStr s) = utf8_valid s"
| "json_clean (JArr vs) = clean_elems vs"
| "json_clean (JObj ms) = clean_members ms"
| "json_clean _ = True"
| "clean_elems [] = True"
| "clean_elems (v # vs) = (json_clean v \<and> clean_elems vs)"
| "clean_members [] = True"
| "clean_members ((k, v) # ms) = (utf8_valid k \<and> json_clean v \<and> clean_members ms)"

section \<open>The round trip\<close>

lemma toks_hd: "\<exists>t ts. toks v = t # ts \<and> t \<noteq> TRBrack"
  by (cases v) auto

lemma prun_PArr0: "prun d st PArr0 (toks v @ ts) = prun d st PVal (toks v @ ts)"
  using toks_hd [of v] by (auto simp: pstep_def)

lemma prun_toks:
  "length st + json_depth v \<le> d \<Longrightarrow> prun d st PVal (toks v @ ts) = prun d st (PEnd v) ts"
  "vs \<noteq> [] \<Longrightarrow> Suc (length st) + depth_elems vs \<le> d \<Longrightarrow>
     prun d (FArr acc # st) PVal (toks_elems vs @ TRBrack # ts) = prun d st (PEnd (JArr (acc @ vs))) ts"
  "ms \<noteq> [] \<Longrightarrow> Suc (length st) + depth_members ms \<le> d \<Longrightarrow>
     prun d (FObj mem # st) PKey (toks_members ms @ TRBrace # ts) = prun d st (PEnd (JObj (mem @ ms))) ts"
proof (induction v and vs and ms arbitrary: st ts and acc st ts and mem st ts
    rule: toks_toks_elems_toks_members.induct)
  case (5 vs)
  show ?case
  proof (cases vs)
    case Nil
    with 5 show ?thesis by (simp add: pstep_def val_step_def)
  next
    case (Cons v vs')
    have "prun d (FArr [] # st) PArr0 (toks_elems vs @ TRBrack # ts) = prun d (FArr [] # st) PVal (toks_elems vs @ TRBrack # ts)"
      using Cons by (cases vs') (simp_all add: prun_PArr0)
    then show ?thesis using 5 Cons by (simp add: pstep_def val_step_def)
  qed
next
  case (6 ms)
  show ?case
  proof (cases ms)
    case Nil
    with 6 show ?thesis by (simp add: pstep_def val_step_def)
  next
    case (Cons m ms')
    obtain k v where m: "m = (k, v)" by (cases m)
    have "prun d (FObj [] # st) PKey0 (toks_members ms @ TRBrace # ts) = prun d (FObj [] # st) PKey (toks_members ms @ TRBrace # ts)"
      using Cons m by (cases ms') (simp_all add: pstep_def key_step_def)
    then show ?thesis using 6 Cons by (simp add: pstep_def val_step_def)
  qed
qed (simp_all add: pstep_def val_step_def end_step_def key_step_def)

definition stops_num :: "string \<Rightarrow> bool" where
  "stops_num s = (case s of [] \<Rightarrow> True | c # _ \<Rightarrow> \<not> num_char c)"

lemma json_lex_enc_any: "json_lex (enc_str t @ s) = map_option ((#) (TStr (coerce_utf8 t))) (json_lex s)"
  by (simp add: enc_str_def json_lex_str lex_str_enc_body del: json_lex.simps)

lemma json_lex_enc_str:
  "utf8_valid t \<Longrightarrow> json_lex (enc_str t @ s) = map_option ((#) (TStr t)) (json_lex s)"
  by (simp add: enc_str_def json_lex_str lex_str_enc_body coerce_utf8_valid del: json_lex.simps)

lemma num_char_ne:
  assumes "num_char c"
  shows "c \<noteq> CHR '' ''" "c \<noteq> CHR ''{''" "c \<noteq> CHR ''}''" "c \<noteq> CHR ''[''" "c \<noteq> CHR '']''"
    "c \<noteq> CHR '':''" "c \<noteq> CHR '',''" "c \<noteq> CHR 0x09" "c \<noteq> CHR 0x0A" "c \<noteq> CHR 0x0D" "c \<noteq> DQ"
  using assms by (auto simp: num_char_def asciiDigit_def)

lemma num_char_kind: "num_char c \<Longrightarrow> \<not> json_ws c \<and> punct c = None \<and> c \<noteq> DQ"
  by (simp add: json_ws_def punct_def num_char_ne)

lemma takeWhile_num: "list_all num_char n \<Longrightarrow> stops_num s \<Longrightarrow>
    takeWhile num_char (n @ s) = n \<and> dropWhile num_char (n @ s) = s"
  by (induction n) (auto simp: stops_num_def split: list.splits)

lemma valid_num_ne: "valid_num n \<Longrightarrow> n \<noteq> []"
  by (auto simp: valid_num_def strip_int_def)

lemma json_lex_num:
  assumes "valid_num n" "list_all num_char n" "stops_num s"
  shows "json_lex (n @ s) = map_option ((#) (TNum n)) (json_lex s)"
proof -
  obtain c r where n: "n = c # r" using valid_num_ne [OF assms(1)] by (cases n) auto
  have "takeWhile num_char (c # r @ s) = n" "dropWhile num_char (r @ s) = s"
    using takeWhile_num [OF assms(2,3)] assms(2) by (simp_all add: n)
  then show ?thesis using num_char_kind [of c] assms by (simp add: n)
qed

lemma json_lex_punct:
  "json_lex (CHR ''['' # s) = map_option ((#) TLBrack) (json_lex s)"
  "json_lex (CHR '']'' # s) = map_option ((#) TRBrack) (json_lex s)"
  "json_lex (CHR ''{'' # s) = map_option ((#) TLBrace) (json_lex s)"
  "json_lex (CHR ''}'' # s) = map_option ((#) TRBrace) (json_lex s)"
  "json_lex (CHR '','' # s) = map_option ((#) TComma) (json_lex s)"
  "json_lex (CHR '':'' # s) = map_option ((#) TColon) (json_lex s)"
  by (simp_all add: json_ws_def punct_def)

lemma stops_num_punct [simp]:
  "stops_num (CHR '']'' # s)" "stops_num (CHR ''}'' # s)" "stops_num (CHR '','' # s)" "stops_num []"
  by (simp_all add: stops_num_def num_char_def asciiDigit_def)

lemma json_lex_literals:
  "json_lex (CHR ''n'' # CHR ''u'' # CHR ''l'' # CHR ''l'' # s) = map_option ((#) TNull) (json_lex s)"
  "json_lex (CHR ''t'' # CHR ''r'' # CHR ''u'' # CHR ''e'' # s) = map_option ((#) (TBool True)) (json_lex s)"
  "json_lex (CHR ''f'' # CHR ''a'' # CHR ''l'' # CHR ''s'' # CHR ''e'' # s) = map_option ((#) (TBool False)) (json_lex s)"
  by (simp_all add: json_ws_def punct_def num_char_def asciiDigit_def literal_def HasPrefix_def)

lemma append_fun:
  "(@) [] = (\<lambda>x. x)" "(@) (a # xs) = (\<lambda>x. a # (xs @ x))" "(@) (xs @ ys) = (\<lambda>x. xs @ ys @ x)"
  by auto

lemma json_lex_print:
  "json_clean v \<Longrightarrow> stops_num s \<Longrightarrow> json_lex (json_print v @ s) = map_option ((@) (toks v)) (json_lex s)"
  "clean_elems vs \<Longrightarrow> stops_num s \<Longrightarrow>
     json_lex (print_elems vs @ s) = map_option ((@) (toks_elems vs)) (json_lex s)"
  "clean_members ms \<Longrightarrow> stops_num s \<Longrightarrow>
     json_lex (print_members ms @ s) = map_option ((@) (toks_members ms)) (json_lex s)"
  supply json_lex.simps(2) [simp del]
  by (induction v and vs and ms arbitrary: s and s and s
      rule: json_print_print_elems_print_members.induct)
     (simp_all add: json_lex_literals json_lex_num json_lex_enc_str json_lex_punct
       option.map_comp comp_def option.map_ident append_fun)

theorem json_roundtrip:
  assumes "json_clean v" "json_depth v \<le> d"
  shows "json_parse d (json_print v) = Some v"
proof -
  have "json_lex (json_print v) = Some (toks v)"
    using json_lex_print(1) [OF assms(1), of "[]"] by simp
  moreover have "prun d [] PVal (toks v) = Some v"
    using prun_toks(1) [of "[]" v d "[]"] assms(2) by simp
  ultimately show ?thesis by (simp add: json_parse_def)
qed

section \<open>Integers and string maps\<close>

lemma dec_str_lead: "10 \<le> n \<Longrightarrow> hd (dec_str n) \<noteq> CHR ''0''"
proof (induction n rule: dec_str.induct)
  case (1 n)
  have eq: "dec_str n = dec_str (n div 10) @ [char_of (48 + n mod 10)]"
    using "1.prems" by (subst dec_str.simps) simp
  show ?case
  proof (cases "10 \<le> n div 10")
    case True
    then show ?thesis using 1 by (simp add: eq)
  next
    case False
    then have d: "dec_str (n div 10) = [char_of (48 + n div 10)]"
      by (subst dec_str.simps) simp
    have "byte (char_of (48 + n div 10)) \<noteq> byte (CHR ''0'')"
      using False "1.prems" by (subst byte_digit) auto
    then show ?thesis by (metis eq d append_Cons list.sel(1))
  qed
qed

lemma dropWhile_digits: "all_digits s \<Longrightarrow> dropWhile num_digit s = []"
  by (simp add: all_digits_def num_digit_def list_all_iff)

lemma strip_int_dec_str: "strip_int (dec_str n) = Some []"
proof (cases "n < 10")
  case True
  then show ?thesis
    using byte_digit [of n]
    by (subst dec_str.simps) (auto simp: strip_int_def num_digit_def asciiDigit_def)
next
  case False
  obtain c r where eq: "dec_str n = c # r" by (cases "dec_str n") auto
  have "num_digit c" "all_digits r"
    using dec_str_digits [of n] by (simp_all add: eq all_digits_def num_digit_def)
  moreover have "c \<noteq> CHR ''0''" using dec_str_lead [of n] False by (simp add: eq)
  ultimately show ?thesis by (simp add: eq strip_int_def dropWhile_digits)
qed

lemma valid_num_FormatInt: "valid_num (FormatInt i)"
proof -
  obtain c r where eq: "dec_str (nat i) = c # r" "c \<noteq> CHR ''-''" using dec_str_hd by blast
  then have "valid_num (dec_str (nat i))"
    using strip_int_dec_str [of "nat i"]
    by (simp add: valid_num_def strip_frac_def strip_exp_def)
  moreover have "valid_num (CHR ''-'' # dec_str n)" for n
    by (simp add: valid_num_def strip_int_dec_str strip_frac_def strip_exp_def)
  ultimately show ?thesis by (simp add: FormatInt_def)
qed

lemma num_char_FormatInt: "list_all num_char (FormatInt i)"
  using FormatInt_chars [of _ i] by (auto simp: list_all_iff num_char_def)

lemma json_clean_int [simp]: "json_clean (JNum (FormatInt i))"
  by (simp add: valid_num_FormatInt num_char_FormatInt)

text \<open>Decoding into the Go types the hub uses; \<open>None\<close> is the decoder's type error.\<close>

fun json_string :: "json \<Rightarrow> string option" where
  "json_string (JStr s) = Some s"
| "json_string _ = None"

fun json_bool :: "json \<Rightarrow> bool option" where
  "json_bool (JBool b) = Some b"
| "json_bool _ = None"

fun json_int64 :: "json \<Rightarrow> int option" where
  "json_int64 (JNum n) = ParseInt64 n"
| "json_int64 _ = None"

text \<open>\<^verbatim>\<open>json.Unmarshal\<close> into a \<^verbatim>\<open>map[string]string\<close>: a null value leaves the zero value.\<close>

fun put_member :: "string \<times> json \<Rightarrow> gomap option \<Rightarrow> gomap option" where
  "put_member (k, JStr v) m = map_option (gput k v) m"
| "put_member (k, JNull) m = map_option (gput k []) m"
| "put_member (k, _) m = None"

definition unmarshal_map :: "string \<Rightarrow> gomap option" where
  "unmarshal_map s =
     (case json_parse maxNestingDepth s of
        Some (JObj ms) \<Rightarrow> fold put_member ms (Some [])
      | Some JNull \<Rightarrow> Some []
      | _ \<Rightarrow> None)"

definition string_obj :: "gomap \<Rightarrow> json" where
  "string_obj m = JObj (map (\<lambda>(k, v). (k, JStr v)) m)"

text \<open>\<^verbatim>\<open>json.Marshal\<close> of a \<^verbatim>\<open>map[string]string\<close>: the keys in increasing order.\<close>

definition marshal_map :: "gomap \<Rightarrow> string" where
  "marshal_map m = json_print (string_obj m)"

definition gomap_utf8 :: "gomap \<Rightarrow> bool" where
  "gomap_utf8 m = list_all (\<lambda>(k, v). utf8_valid k \<and> utf8_valid v) m"

lemma fold_put_member:
  "sorted_wrt (<) (map fst (acc @ m)) \<Longrightarrow>
     fold put_member (map (\<lambda>(k, v). (k, JStr v)) m) (Some acc) = Some (acc @ m)"
proof (induction m arbitrary: acc)
  case (Cons p m)
  obtain k v where p: "p = (k, v)" by (cases p)
  have "gput k v acc = acc @ [(k, v)]"
    using Cons.prems by (intro gput_last) (auto simp: sorted_wrt_append p)
  then show ?case using Cons.IH [of "acc @ [(k, v)]"] Cons.prems by (simp add: p)
qed simp

lemma string_obj_clean:
  "gomap_utf8 m \<Longrightarrow> json_clean (string_obj m) \<and> json_depth (string_obj m) = 1"
proof -
  assume "gomap_utf8 m"
  then have "clean_members (map (\<lambda>(k, v). (k, JStr v)) m)
      \<and> depth_members (map (\<lambda>(k, v). (k, JStr v)) m) = 0"
    by (induction m) (auto simp: gomap_utf8_def)
  then show ?thesis by (simp add: string_obj_def)
qed

theorem string_map_roundtrip:
  assumes "gomap_ok m" "gomap_utf8 m"
  shows "unmarshal_map (marshal_map m) = Some m"
proof -
  have "json_parse maxNestingDepth (marshal_map m) = Some (string_obj m)"
    unfolding marshal_map_def using string_obj_clean [OF assms(2)]
    by (intro json_roundtrip) (auto simp: maxNestingDepth_def)
  then show ?thesis
    using fold_put_member [of "[]" m] assms(1)
    by (simp add: unmarshal_map_def string_obj_def gomap_ok_def)
qed

section \<open>Texts of arbitrary strings\<close>

text \<open>
  The writer replaces invalid UTF-8 by U+FFFD, so the text of any string map is read back, with
  its strings coerced.
\<close>

definition coerce_members :: "gomap \<Rightarrow> gomap" where
  "coerce_members = map (\<lambda>(k, v). (coerce_utf8 k, coerce_utf8 v))"

lemma json_lex_print_strings:
  "stops_num s \<Longrightarrow>
     json_lex (print_members (map (\<lambda>(k, v). (k, JStr v)) m) @ s)
     = map_option ((@) (toks_members (map (\<lambda>(k, v). (k, JStr v)) (coerce_members m)))) (json_lex s)"
  supply json_lex.simps(2) [simp del]
  by (induction m rule: induct_list012)
     (auto simp: coerce_members_def json_lex_enc_any json_lex_punct option.map_comp comp_def
       option.map_ident append_fun)

lemma json_parse_string_obj:
  assumes "1 \<le> d"
  shows "json_parse d (marshal_map m) = Some (string_obj (coerce_members m))"
proof -
  let ?ms = "map (\<lambda>(k, v). (k, JStr v)) (coerce_members m)"
  have "json_lex (marshal_map m) = Some (toks (string_obj (coerce_members m)))"
    using json_lex_print_strings [of "''}''" m] json_lex_punct(1) json_lex_punct
    by (simp add: marshal_map_def string_obj_def)
  moreover have "depth_members ?ms = 0"
    by (induction m) (auto simp: coerce_members_def)
  then have "prun d [] PVal (toks (string_obj (coerce_members m))) = Some (string_obj (coerce_members m))"
    using prun_toks(1) [of "[]" "string_obj (coerce_members m)" d "[]"] assms by (simp add: string_obj_def)
  ultimately show ?thesis by (simp add: json_parse_def)
qed

lemma fold_put_total:
  "sorted_wrt (<) (map fst acc) \<Longrightarrow> \<exists>m'. fold put_member (map (\<lambda>(k, v). (k, JStr v)) m) (Some acc) = Some m'
     \<and> sorted_wrt (<) (map fst m')"
proof (induction m arbitrary: acc)
  case (Cons p m)
  then show ?case using sorted_gput [of acc "fst p" "snd p"] by (cases p) simp
qed simp

lemma unmarshal_marshal_total: "\<exists>m'. unmarshal_map (marshal_map m) = Some m' \<and> gomap_ok m'"
  using json_parse_string_obj [of maxNestingDepth m] fold_put_total [of "[]" "coerce_members m"]
  by (simp add: unmarshal_map_def string_obj_def maxNestingDepth_def gomap_ok_def)

text \<open>A JSON array of strings decoded into a \<^verbatim>\<open>[]string\<close>; a null element is the empty string.\<close>

fun json_text :: "json \<Rightarrow> string option" where
  "json_text (JStr s) = Some s"
| "json_text JNull = Some []"
| "json_text _ = None"

definition unmarshal_strings :: "string \<Rightarrow> string list option" where
  "unmarshal_strings s =
     (case json_parse maxNestingDepth s of
        Some (JArr vs) \<Rightarrow> if list_all (\<lambda>v. json_text v \<noteq> None) vs then Some (map (the \<circ> json_text) vs) else None
      | Some JNull \<Rightarrow> Some []
      | _ \<Rightarrow> None)"

definition marshal_strings :: "string list \<Rightarrow> string" where
  "marshal_strings xs = json_print (JArr (map JStr xs))"

lemma strings_roundtrip:
  assumes "list_all utf8_valid xs"
  shows "unmarshal_strings (marshal_strings xs) = Some xs"
proof -
  have "clean_elems (map JStr xs)" "depth_elems (map JStr xs) = 0"
    using assms by (induction xs) auto
  then have "json_parse maxNestingDepth (marshal_strings xs) = Some (JArr (map JStr xs))"
    unfolding marshal_strings_def by (intro json_roundtrip) (auto simp: maxNestingDepth_def)
  then show ?thesis by (simp add: unmarshal_strings_def comp_def list_all_iff)
qed

end
