(* ===== verification/GoTime.thy ===== *)
theory GoTime
  imports GoEncoding
begin

text \<open>
  Instants of \<^verbatim>\<open>time.Time\<close> in UTC, as nanoseconds since January 1 of year 1 (the zero time, for
  which \<^verbatim>\<open>IsZero\<close> holds), durations in nanoseconds, \<^verbatim>\<open>Time.Sub\<close> with its saturation at the bounds of
  an \<^verbatim>\<open>int64\<close>, and the RFC3339Nano text of an instant, which drops the trailing zeros of the
  fraction.
\<close>

type_synonym go_time = int
type_synonym duration = int

definition Second :: duration where "Second = 1000000000"
definition Minute :: duration where "Minute = 60 * Second"

definition IsZero :: "go_time \<Rightarrow> bool" where
  "IsZero t = (t = 0)"

definition minDuration :: duration where "minDuration = - (2 ^ 63)"
definition maxDuration :: duration where "maxDuration = 2 ^ 63 - 1"

definition time_sub :: "go_time \<Rightarrow> go_time \<Rightarrow> duration" where
  "time_sub t u = max minDuration (min maxDuration (t - u))"

lemma time_sub_exact: "minDuration \<le> t - u \<Longrightarrow> t - u \<le> maxDuration \<Longrightarrow> time_sub t u = t - u"
  by (simp add: time_sub_def)

lemma time_sub_le_iff: "d < maxDuration \<Longrightarrow> minDuration \<le> d \<Longrightarrow> time_sub t u \<le> d \<longleftrightarrow> t - u \<le> d"
  by (auto simp: time_sub_def max_def min_def)

lemma time_sub_ge_iff: "minDuration < d \<Longrightarrow> d \<le> maxDuration \<Longrightarrow> d \<le> time_sub t u \<longleftrightarrow> d \<le> t - u"
  by (auto simp: time_sub_def max_def min_def)

text \<open>The Gregorian date of a day, counted from January 1 of year 1.\<close>

definition civil :: "int \<Rightarrow> int \<times> int \<times> int" where
  "civil days =
     (let z = days + 306; era = z div 146097; doe = z mod 146097;
          yoe = (doe - doe div 1460 + doe div 36524 - doe div 146096) div 365;
          doy = doe - (365 * yoe + yoe div 4 - yoe div 100);
          mp = (5 * doy + 2) div 153;
          d = doy - (153 * mp + 2) div 5 + 1;
          m = (if mp < 10 then mp + 3 else mp - 9)
      in (yoe + era * 400 + (if m \<le> 2 then 1 else 0), m, d))"

fun pad :: "nat \<Rightarrow> nat \<Rightarrow> string" where
  "pad 0 n = []"
| "pad (Suc w) n = pad w (n div 10) @ [char_of (48 + n mod 10)]"

definition trim_zeros :: "string \<Rightarrow> string" where
  "trim_zeros s = rev (dropWhile (\<lambda>c. c = CHR ''0'') (rev s))"

text \<open>\<^verbatim>\<open>value.UTC().Format(time.RFC3339Nano)\<close> for years 0 to 9999.\<close>

definition rfc3339nano :: "go_time \<Rightarrow> string" where
  "rfc3339nano t =
     (let days = t div (86400 * Second); rest = t mod (86400 * Second);
          secs = rest div Second; ns = rest mod Second; frac = trim_zeros (pad 9 (nat ns))
      in case civil days of (y, m, d) \<Rightarrow>
        pad 4 (nat y) @ ''-'' @ pad 2 (nat m) @ ''-'' @ pad 2 (nat d) @ ''T''
        @ pad 2 (nat (secs div 3600)) @ '':'' @ pad 2 (nat (secs div 60 mod 60)) @ '':''
        @ pad 2 (nat (secs mod 60)) @ (if frac = [] then [] else CHR ''.'' # frac) @ ''Z'')"

text \<open>The text that \<^verbatim>\<open>Time.MarshalJSON\<close> puts between quotes; an error outside the years 0 to 9999.\<close>

definition marshal_time :: "go_time \<Rightarrow> string option" where
  "marshal_time t =
     (case civil (t div (86400 * Second)) of (y, _, _) \<Rightarrow> if y < 0 \<or> y > 9999 then None else Some (rfc3339nano t))"

end
