(* ===== verification/GoFloat.thy ===== *)
theory GoFloat
  imports Complex_Main
begin

text \<open>
  Go's \<^verbatim>\<open>float64\<close>: not-a-number, the infinities and the finite values as rationals. Comparisons
  with not-a-number are false.
\<close>

datatype float64 = NaN | Inf bool | Fin rat

definition IsNaN :: "float64 \<Rightarrow> bool" where
  "IsNaN x = (x = NaN)"

text \<open>\<^verbatim>\<open>math.IsInf(x, 0)\<close>: either sign.\<close>

definition IsInf :: "float64 \<Rightarrow> bool" where
  "IsInf x = (case x of Inf _ \<Rightarrow> True | _ \<Rightarrow> False)"

definition f_lt :: "float64 \<Rightarrow> float64 \<Rightarrow> bool" where
  "f_lt x y =
     (case (x, y) of
        (NaN, _) \<Rightarrow> False | (_, NaN) \<Rightarrow> False
      | (Inf a, Inf b) \<Rightarrow> a \<and> \<not> b
      | (Inf a, Fin _) \<Rightarrow> a | (Fin _, Inf b) \<Rightarrow> \<not> b
      | (Fin p, Fin q) \<Rightarrow> p < q)"

abbreviation f_gt :: "float64 \<Rightarrow> float64 \<Rightarrow> bool" where
  "f_gt x y \<equiv> f_lt y x"

lemma f_range:
  "\<not> IsNaN x \<Longrightarrow> \<not> IsInf x \<Longrightarrow> \<not> f_lt x (Fin a) \<Longrightarrow> \<not> f_gt x (Fin b) \<Longrightarrow> \<exists>r. x = Fin r \<and> a \<le> r \<and> r \<le> b"
  by (cases x) (auto simp: IsNaN_def IsInf_def f_lt_def)

end
