(* ===== verification/HubTypes.thy ===== *)
theory HubTypes
  imports GoJSON GoTime GoFloat "HOL-Library.Word"
begin

text \<open>
  The data of the agent hub, \<^verbatim>\<open>internal/agenthub/types.go\<close> and the constants and errors of
  \<^verbatim>\<open>repository.go\<close>: task kinds and capabilities (strings, as in the code), status values, sentinel
  errors, limits, and the wire structs as records. An unsigned 64-bit counter is a \<open>64 word\<close>, whose
  subtraction wraps; signed integers are \<open>int\<close>.
\<close>

type_synonym u64 = "64 word"

section \<open>Task kinds and capabilities\<close>

definition ProtocolVersion :: string where [hub_consts]: "ProtocolVersion = ''v1''"
definition TaskServiceStatus :: string where [hub_consts]: "TaskServiceStatus = ''service.status''"
definition TaskServiceAction :: string where [hub_consts]: "TaskServiceAction = ''service.action''"
definition TaskHostAction :: string where [hub_consts]: "TaskHostAction = ''host.action''"
definition TaskProcessSignal :: string where [hub_consts]: "TaskProcessSignal = ''process.signal''"
definition TaskDiskCleanupScan :: string where [hub_consts]: "TaskDiskCleanupScan = ''disk.cleanup.scan''"
definition TaskDiskCleanupExecute :: string where [hub_consts]: "TaskDiskCleanupExecute = ''disk.cleanup.execute''"
definition TaskLogsRead :: string where [hub_consts]: "TaskLogsRead = ''logs.read''"
definition TaskContainerList :: string where [hub_consts]: "TaskContainerList = ''container.list''"
definition TaskContainerAction :: string where [hub_consts]: "TaskContainerAction = ''container.action''"
definition TaskNginxAction :: string where [hub_consts]: "TaskNginxAction = ''nginx.action''"
definition TaskNginxConfigList :: string where [hub_consts]: "TaskNginxConfigList = ''nginx.config.list''"
definition TaskNginxConfigRead :: string where [hub_consts]: "TaskNginxConfigRead = ''nginx.config.read''"
definition TaskNginxConfigWrite :: string where [hub_consts]: "TaskNginxConfigWrite = ''nginx.config.write''"
definition TaskPHPInventory :: string where [hub_consts]: "TaskPHPInventory = ''php.inventory''"
definition TaskPHPConfigRead :: string where [hub_consts]: "TaskPHPConfigRead = ''php.config.read''"
definition TaskPHPConfigWrite :: string where [hub_consts]: "TaskPHPConfigWrite = ''php.config.write''"
definition TaskPHPAction :: string where [hub_consts]: "TaskPHPAction = ''php.action''"
definition TaskPM2List :: string where [hub_consts]: "TaskPM2List = ''pm2.list''"
definition TaskPM2Logs :: string where [hub_consts]: "TaskPM2Logs = ''pm2.logs''"
definition TaskPM2Action :: string where [hub_consts]: "TaskPM2Action = ''pm2.action''"
definition TaskCronInventory :: string where [hub_consts]: "TaskCronInventory = ''cron.inventory''"
definition TaskCronCreate :: string where [hub_consts]: "TaskCronCreate = ''cron.create''"
definition TaskCronUpdate :: string where [hub_consts]: "TaskCronUpdate = ''cron.update''"
definition TaskCronDelete :: string where [hub_consts]: "TaskCronDelete = ''cron.delete''"
definition TaskCronRun :: string where [hub_consts]: "TaskCronRun = ''cron.run''"
definition TaskFirewallInventory :: string where [hub_consts]: "TaskFirewallInventory = ''firewall.inventory''"
definition TaskFirewallAdd :: string where [hub_consts]: "TaskFirewallAdd = ''firewall.add''"
definition TaskFirewallDelete :: string where [hub_consts]: "TaskFirewallDelete = ''firewall.delete''"
definition TaskDomainInventory :: string where [hub_consts]: "TaskDomainInventory = ''domain.inventory''"
definition TaskDomainAction :: string where [hub_consts]: "TaskDomainAction = ''domain.action''"
definition TaskSSLInventory :: string where [hub_consts]: "TaskSSLInventory = ''ssl.inventory''"
definition TaskSSLAction :: string where [hub_consts]: "TaskSSLAction = ''ssl.action''"
definition TaskDatabaseInventory :: string where [hub_consts]: "TaskDatabaseInventory = ''database.inventory''"
definition TaskDatabaseAction :: string where [hub_consts]: "TaskDatabaseAction = ''database.action''"
definition TaskBackupInventory :: string where [hub_consts]: "TaskBackupInventory = ''backup.inventory''"
definition TaskBackupRun :: string where [hub_consts]: "TaskBackupRun = ''backup.run''"
definition TaskFilesBrowse :: string where [hub_consts]: "TaskFilesBrowse = ''files.browse''"
definition TaskFilesRead :: string where [hub_consts]: "TaskFilesRead = ''files.read''"
definition TaskFilesWrite :: string where [hub_consts]: "TaskFilesWrite = ''files.write''"
definition TaskDeployInventory :: string where [hub_consts]: "TaskDeployInventory = ''deploy.inventory''"
definition TaskDeployAction :: string where [hub_consts]: "TaskDeployAction = ''deploy.action''"
definition TaskDeployDomainInventory :: string where [hub_consts]: "TaskDeployDomainInventory = ''deploy.domain.inventory''"
definition TaskDeployDomainHealth :: string where [hub_consts]: "TaskDeployDomainHealth = ''deploy.domain.health''"
definition TaskDeployDomainAction :: string where [hub_consts]: "TaskDeployDomainAction = ''deploy.domain.action''"
definition TaskAgentUpdateStatus :: string where [hub_consts]: "TaskAgentUpdateStatus = ''agent.update.status''"
definition TaskAgentUpdateAction :: string where [hub_consts]: "TaskAgentUpdateAction = ''agent.update.action''"
definition TaskIntegrationStatus :: string where [hub_consts]: "TaskIntegrationStatus = ''integration.status''"
definition TaskMetricsRead :: string where [hub_consts]: "TaskMetricsRead = ''metrics.read''"
definition TaskProfileApply :: string where [hub_consts]: "TaskProfileApply = ''agent.profile.apply''"
definition CapabilityInventory :: string where [hub_consts]: "CapabilityInventory = ''inventory''"
definition CapabilityServiceStatus :: string where [hub_consts]: "CapabilityServiceStatus = ''service.status''"
definition CapabilityServiceAction :: string where [hub_consts]: "CapabilityServiceAction = ''service.action''"
definition CapabilityHostAction :: string where [hub_consts]: "CapabilityHostAction = ''host.action''"
definition CapabilityProcessRead :: string where [hub_consts]: "CapabilityProcessRead = ''process.read''"
definition CapabilityProcessSignal :: string where [hub_consts]: "CapabilityProcessSignal = ''process.signal''"
definition CapabilityTerminal :: string where [hub_consts]: "CapabilityTerminal = ''terminal''"
definition CapabilityDiskCleanup :: string where [hub_consts]: "CapabilityDiskCleanup = ''disk.cleanup''"
definition CapabilityLogsRead :: string where [hub_consts]: "CapabilityLogsRead = ''logs.read''"
definition CapabilityContainerRead :: string where [hub_consts]: "CapabilityContainerRead = ''container.read''"
definition CapabilityContainerAction :: string where [hub_consts]: "CapabilityContainerAction = ''container.action''"
definition CapabilityNginxAction :: string where [hub_consts]: "CapabilityNginxAction = ''nginx.action''"
definition CapabilityNginxConfigRead :: string where [hub_consts]: "CapabilityNginxConfigRead = ''nginx.config.read''"
definition CapabilityNginxConfigWrite :: string where [hub_consts]: "CapabilityNginxConfigWrite = ''nginx.config.write''"
definition CapabilityPHPRead :: string where [hub_consts]: "CapabilityPHPRead = ''php.read''"
definition CapabilityPHPWrite :: string where [hub_consts]: "CapabilityPHPWrite = ''php.write''"
definition CapabilityPHPAction :: string where [hub_consts]: "CapabilityPHPAction = ''php.action''"
definition CapabilityPM2Read :: string where [hub_consts]: "CapabilityPM2Read = ''pm2.read''"
definition CapabilityPM2Action :: string where [hub_consts]: "CapabilityPM2Action = ''pm2.action''"
definition CapabilityCronRead :: string where [hub_consts]: "CapabilityCronRead = ''cron.read''"
definition CapabilityCronWrite :: string where [hub_consts]: "CapabilityCronWrite = ''cron.write''"
definition CapabilityCronRun :: string where [hub_consts]: "CapabilityCronRun = ''cron.run''"
definition CapabilityFirewallRead :: string where [hub_consts]: "CapabilityFirewallRead = ''firewall.read''"
definition CapabilityFirewallWrite :: string where [hub_consts]: "CapabilityFirewallWrite = ''firewall.write''"
definition CapabilityDomainRead :: string where [hub_consts]: "CapabilityDomainRead = ''domain.read''"
definition CapabilityDomainAction :: string where [hub_consts]: "CapabilityDomainAction = ''domain.action''"
definition CapabilitySSLRead :: string where [hub_consts]: "CapabilitySSLRead = ''ssl.read''"
definition CapabilitySSLAction :: string where [hub_consts]: "CapabilitySSLAction = ''ssl.action''"
definition CapabilityDatabaseRead :: string where [hub_consts]: "CapabilityDatabaseRead = ''database.read''"
definition CapabilityDatabaseAction :: string where [hub_consts]: "CapabilityDatabaseAction = ''database.action''"
definition CapabilityBackupRead :: string where [hub_consts]: "CapabilityBackupRead = ''backup.read''"
definition CapabilityBackupRun :: string where [hub_consts]: "CapabilityBackupRun = ''backup.run''"
definition CapabilityFilesRead :: string where [hub_consts]: "CapabilityFilesRead = ''files.read''"
definition CapabilityFilesWrite :: string where [hub_consts]: "CapabilityFilesWrite = ''files.write''"
definition CapabilityDeployRead :: string where [hub_consts]: "CapabilityDeployRead = ''deploy.read''"
definition CapabilityDeployAction :: string where [hub_consts]: "CapabilityDeployAction = ''deploy.action''"
definition CapabilityDeployDomainRead :: string where [hub_consts]: "CapabilityDeployDomainRead = ''deploy.domain.read''"
definition CapabilityDeployDomainAction :: string where [hub_consts]: "CapabilityDeployDomainAction = ''deploy.domain.action''"
definition CapabilityAgentUpdateRead :: string where [hub_consts]: "CapabilityAgentUpdateRead = ''agent.update.read''"
definition CapabilityAgentUpdateAction :: string where [hub_consts]: "CapabilityAgentUpdateAction = ''agent.update.action''"
definition CapabilityIntegrationStatus :: string where [hub_consts]: "CapabilityIntegrationStatus = ''integration.status''"
definition CapabilityMetricsRead :: string where [hub_consts]: "CapabilityMetricsRead = ''metrics.read''"
definition CapabilityProfileApply :: string where [hub_consts]: "CapabilityProfileApply = ''agent.profile.apply''"

section \<open>Status values and errors\<close>

definition TaskStatusQueued :: string where [hub_consts]: "TaskStatusQueued = ''queued''"
definition TaskStatusRunning :: string where [hub_consts]: "TaskStatusRunning = ''running''"
definition TaskStatusCompleted :: string where [hub_consts]: "TaskStatusCompleted = ''completed''"
definition TaskStatusFailed :: string where [hub_consts]: "TaskStatusFailed = ''failed''"

text \<open>
  The sentinel errors of the package, which callers tell apart with \<^verbatim>\<open>errors.Is\<close>; \<open>ErrOther\<close> stands for
  an error that wraps none of them.
\<close>

datatype hub_error =
    ErrNotFound | ErrAlreadyExists | ErrUnauthorized | ErrInvalidInput | ErrUnsupportedProtocol
  | ErrStaleHeartbeat | ErrTaskNotClaimed | ErrCapabilityUnavailable | ErrNodeOffline
  | ErrProfileRevisionStale | ErrProfileNotConfigured | ErrProfileApplyInFlight
  | ErrDeployDomainEnsureConflict | ErrOther

section \<open>Limits\<close>

definition maxNodeIDLength :: nat where "maxNodeIDLength = 128"
definition maxNodeNameLength :: nat where "maxNodeNameLength = 255"
definition maxHostnameLength :: nat where "maxHostnameLength = 255"
definition maxAgentVersionLength :: nat where "maxAgentVersionLength = 128"
definition maxHeartbeatInventorySize :: nat where "maxHeartbeatInventorySize = 65536"
definition maxTaskPayloadValueLength :: nat where "maxTaskPayloadValueLength = 255"
definition maxTaskErrorLength :: nat where "maxTaskErrorLength = 4096"
definition maxTaskResultValueLength :: nat where "maxTaskResultValueLength = 5242880"
definition maxNginxConfigBytes :: nat where "maxNginxConfigBytes = 2097152"
definition maxEncodedNginxConfigSize :: nat where
  "maxEncodedNginxConfigSize = ((maxNginxConfigBytes + 2) div 3) * 4"
definition maxManagedPathLength :: nat where "maxManagedPathLength = 4096"
definition maxCronJobBytes :: nat where "maxCronJobBytes = 8192"
definition maxEncodedCronJobSize :: nat where
  "maxEncodedCronJobSize = ((maxCronJobBytes + 2) div 3) * 4"
definition maxFirewallRuleBytes :: nat where "maxFirewallRuleBytes = 1024"
definition maxEncodedFirewallSize :: nat where
  "maxEncodedFirewallSize = ((maxFirewallRuleBytes + 2) div 3) * 4"

section \<open>Records\<close>

record ServiceState =
  svc_Name :: string
  svc_Active :: string
  svc_Sub :: string

record DiskMount =
  mnt_Filesystem :: string
  mnt_Size :: u64
  mnt_Used :: u64
  mnt_Available :: u64
  mnt_UsePercent :: int
  mnt_Mountpoint :: string

record Process =
  proc_PID :: int
  proc_StartTime :: u64
  proc_User :: string
  proc_CPU :: float64
  proc_Memory :: float64
  proc_RSS :: u64
  proc_Command :: string

text \<open>A slice whose nil value the code tells apart from an empty slice is an optional list.\<close>

record Inventory =
  inv_OS :: string
  inv_Arch :: string
  inv_Kernel :: string
  inv_BootID :: string
  inv_UptimeSeconds :: int
  inv_Load1 :: float64
  inv_MemoryTotal :: u64
  inv_MemoryAvailable :: u64
  inv_SwapTotal :: u64
  inv_SwapUsed :: u64
  inv_SwapFree :: u64
  inv_SwapResetEligible :: bool
  inv_SwapResetReason :: string
  inv_DiskTotal :: u64
  inv_DiskUsed :: u64
  inv_DiskAvailable :: u64
  inv_DiskUsePercent :: float64
  inv_DiskMounts :: "DiskMount list"
  inv_PleskPresent :: bool
  inv_Services :: "ServiceState list option"
  inv_Processes :: "Process list option"
  inv_LogSources :: "string list"
  inv_FileReadRoots :: "string list option"
  inv_FileWriteRoots :: "string list"

record AgentProfileObservation =
  obs_State :: string
  obs_Revision :: int
  obs_ErrorCode :: string

record HeartbeatRequest =
  hb_ProtocolVersion :: string
  hb_NodeID :: string
  hb_AgentVersion :: string
  hb_Capabilities :: "string list"
  hb_Hostname :: string
  hb_SentAt :: go_time
  hb_Inventory :: Inventory
  hb_Profile :: "AgentProfileObservation option"

record HeartbeatResponse =
  hbr_Accepted :: bool
  hbr_ServerAt :: go_time

record RegisterNodeRequest =
  reg_ID :: string
  reg_Name :: string

record Node =
  node_ID :: string
  node_Name :: string
  node_Hostname :: string
  node_AgentVersion :: string
  node_ProtocolVersion :: string
  node_Capabilities :: "string list"
  node_Inventory :: Inventory
  node_LastSeenAt :: "go_time option"
  node_CreatedAt :: go_time
  node_UpdatedAt :: go_time

record RegisterNodeResponse =
  rnr_Node :: Node
  rnr_Token :: string

record TaskRequest =
  req_Kind :: string
  req_Payload :: gomap

record Task =
  task_ID :: int
  task_NodeID :: string
  task_Kind :: string
  task_Payload :: gomap
  task_Status :: string
  task_Result :: gomap
  task_Error :: string
  task_CreatedAt :: go_time
  task_StartedAt :: "go_time option"
  task_CompletedAt :: "go_time option"

record TaskResultRequest =
  res_Status :: string
  res_Result :: gomap
  res_Error :: string

text \<open>The zero value of \<^verbatim>\<open>Inventory\<close>, as decoded from the column default \<^verbatim>\<open>{}\<close>.\<close>

definition zeroInventory :: Inventory where
  "zeroInventory =
     \<lparr> inv_OS = [], inv_Arch = [], inv_Kernel = [], inv_BootID = [], inv_UptimeSeconds = 0,
       inv_Load1 = Fin 0, inv_MemoryTotal = 0, inv_MemoryAvailable = 0, inv_SwapTotal = 0,
       inv_SwapUsed = 0, inv_SwapFree = 0, inv_SwapResetEligible = False, inv_SwapResetReason = [],
       inv_DiskTotal = 0, inv_DiskUsed = 0, inv_DiskAvailable = 0, inv_DiskUsePercent = Fin 0,
       inv_DiskMounts = [], inv_PleskPresent = False, inv_Services = None, inv_Processes = None,
       inv_LogSources = [], inv_FileReadRoots = None, inv_FileWriteRoots = [] \<rparr>"

section \<open>JSON of the inventory\<close>

text \<open>
  The JSON tree \<^verbatim>\<open>json.Marshal\<close> writes for an inventory; \<open>None\<close> is the encoder's error for a float that
  is not finite. The shortest decimal text of a finite float is a parameter (\<open>ff\<close>).
\<close>

definition json_uint :: "u64 \<Rightarrow> json" where
  "json_uint w = JNum (FormatInt (uint w))"

definition json_int :: "int \<Rightarrow> json" where
  "json_int i = JNum (FormatInt i)"

definition json_float :: "(rat \<Rightarrow> string) \<Rightarrow> float64 \<Rightarrow> json option" where
  "json_float ff x = (case x of Fin r \<Rightarrow> Some (JNum (ff r)) | _ \<Rightarrow> None)"

definition json_strings :: "string list \<Rightarrow> json" where
  "json_strings xs = JArr (map JStr xs)"

text \<open>A member with \<^verbatim>\<open>omitempty\<close>.\<close>

definition omit_empty :: "bool \<Rightarrow> string \<times> json \<Rightarrow> (string \<times> json) list" where
  "omit_empty z m = (if z then [] else [m])"

definition service_json :: "ServiceState \<Rightarrow> json" where
  "service_json s =
     JObj ([(''name'', JStr (svc_Name s)), (''active'', JStr (svc_Active s))]
           @ omit_empty (svc_Sub s = []) (''sub'', JStr (svc_Sub s)))"

definition mount_json :: "DiskMount \<Rightarrow> json" where
  "mount_json m =
     JObj [(''filesystem'', JStr (mnt_Filesystem m)), (''size'', json_uint (mnt_Size m)),
           (''used'', json_uint (mnt_Used m)), (''available'', json_uint (mnt_Available m)),
           (''use_percent'', json_int (mnt_UsePercent m)), (''mountpoint'', JStr (mnt_Mountpoint m))]"

definition process_json :: "(rat \<Rightarrow> string) \<Rightarrow> Process \<Rightarrow> json option" where
  "process_json ff p =
     (case (json_float ff (proc_CPU p), json_float ff (proc_Memory p)) of
        (Some c, Some m) \<Rightarrow>
          Some (JObj [(''pid'', json_int (proc_PID p)), (''startTime'', json_uint (proc_StartTime p)),
                      (''user'', JStr (proc_User p)), (''cpu'', c), (''memory'', m),
                      (''rss'', json_uint (proc_RSS p)), (''command'', JStr (proc_Command p))])
      | _ \<Rightarrow> None)"

fun option_list :: "'a option list \<Rightarrow> 'a list option" where
  "option_list [] = Some []"
| "option_list (None # xs) = None"
| "option_list (Some x # xs) = map_option ((#) x) (option_list xs)"

definition inventory_json :: "(rat \<Rightarrow> string) \<Rightarrow> Inventory \<Rightarrow> json option" where
  "inventory_json ff i =
     (case (json_float ff (inv_Load1 i), json_float ff (inv_DiskUsePercent i),
            option_list (map (process_json ff) (case inv_Processes i of None \<Rightarrow> [] | Some ps \<Rightarrow> ps))) of
        (Some load, Some pct, Some procs) \<Rightarrow>
          Some (JObj (
            [(''os'', JStr (inv_OS i))]
            @ omit_empty (inv_Arch i = []) (''arch'', JStr (inv_Arch i))
            @ [(''kernel'', JStr (inv_Kernel i)), (''boot_id'', JStr (inv_BootID i)),
               (''uptime_seconds'', json_int (inv_UptimeSeconds i)), (''load_1'', load),
               (''memory_total_bytes'', json_uint (inv_MemoryTotal i)),
               (''memory_available_bytes'', json_uint (inv_MemoryAvailable i)),
               (''swap_total_bytes'', json_uint (inv_SwapTotal i)),
               (''swap_used_bytes'', json_uint (inv_SwapUsed i)),
               (''swap_free_bytes'', json_uint (inv_SwapFree i)),
               (''swap_reset_eligible'', JBool (inv_SwapResetEligible i))]
            @ omit_empty (inv_SwapResetReason i = []) (''swap_reset_reason'', JStr (inv_SwapResetReason i))
            @ [(''disk_total_bytes'', json_uint (inv_DiskTotal i)),
               (''disk_used_bytes'', json_uint (inv_DiskUsed i)),
               (''disk_available_bytes'', json_uint (inv_DiskAvailable i)),
               (''disk_use_percent'', pct)]
            @ omit_empty (inv_DiskMounts i = []) (''disk_mounts'', JArr (map mount_json (inv_DiskMounts i)))
            @ [(''plesk_present'', JBool (inv_PleskPresent i)),
               (''services'', case inv_Services i of None \<Rightarrow> JNull | Some ss \<Rightarrow> JArr (map service_json ss)),
               (''processes'', case inv_Processes i of None \<Rightarrow> JNull | Some _ \<Rightarrow> JArr procs)]
            @ omit_empty (inv_LogSources i = []) (''log_sources'', json_strings (inv_LogSources i))
            @ (case inv_FileReadRoots i of
                 Some (r # rs) \<Rightarrow> [(''file_read_roots'', json_strings (r # rs))] | _ \<Rightarrow> [])
            @ omit_empty (inv_FileWriteRoots i = []) (''file_write_roots'', json_strings (inv_FileWriteRoots i))))
      | _ \<Rightarrow> None)"

end
