(* ===== verification/GoPath.thy ===== *)
theory GoPath
  imports GoStrings
begin

text \<open>
  \<^verbatim>\<open>filepath.IsAbs\<close> and \<^verbatim>\<open>filepath.Clean\<close> on Unix. \<open>Clean\<close> works on the slash-separated elements:
  empty and \<^verbatim>\<open>.\<close> elements go away, \<^verbatim>\<open>..\<close> removes the element before it, and stays only at the front
  of a relative path. The main fact (\<open>Clean_abs_iff\<close>): an absolute path is its own \<open>Clean\<close> exactly
  when it is the root or none of its elements is empty, \<^verbatim>\<open>.\<close> or \<^verbatim>\<open>..\<close>.
\<close>

definition IsAbs :: "string \<Rightarrow> bool" where
  "IsAbs p = HasPrefix p ''/''"

definition clean_step :: "bool \<Rightarrow> string \<Rightarrow> string list \<Rightarrow> string list" where
  "clean_step rooted e st =
     (if e = [] \<or> e = ''.'' then st
      else if e = ''..'' then
        (if st \<noteq> [] \<and> hd st \<noteq> ''..'' then tl st
         else if rooted then st else e # st)
      else e # st)"

definition Clean :: "string \<Rightarrow> string" where
  "Clean p =
     (if p = [] then ''.''
      else
        (let rooted = IsAbs p;
             es = rev (fold (clean_step rooted) (split_on (CHR ''/'') p) [])
         in if rooted then CHR ''/'' # join_with (CHR ''/'') es
            else if es = [] then ''.'' else join_with (CHR ''/'') es))"

text \<open>The elements that a clean absolute path may have.\<close>

definition plain_elem :: "string \<Rightarrow> bool" where
  "plain_elem e = (e \<noteq> [] \<and> e \<noteq> ''.'' \<and> e \<noteq> ''..'' \<and> CHR ''/'' \<notin> set e)"

definition path_elems :: "string \<Rightarrow> string list" where
  "path_elems p = tl (split_on (CHR ''/'') p)"

lemma IsAbs_Cons: "IsAbs p \<longleftrightarrow> (\<exists>q. p = CHR ''/'' # q)"
  by (cases p) (auto simp: IsAbs_def HasPrefix_def)

lemma clean_step_plain:
  assumes "list_all plain_elem st" "CHR ''/'' \<notin> set e"
  shows "list_all plain_elem (clean_step True e st)"
  using assms by (cases st) (auto simp: clean_step_def plain_elem_def)

lemma fold_clean_plain:
  "list_all plain_elem st \<Longrightarrow> \<forall>e \<in> set es. CHR ''/'' \<notin> set e \<Longrightarrow>
     list_all plain_elem (fold (clean_step True) es st)"
  by (induction es arbitrary: st) (auto simp: clean_step_plain)

lemma fold_clean_id:
  "list_all plain_elem es \<Longrightarrow> fold (clean_step True) es st = rev es @ st"
  by (induction es arbitrary: st) (auto simp: clean_step_def plain_elem_def)

lemma Clean_abs_form:
  "\<exists>es. list_all plain_elem es \<and> Clean (CHR ''/'' # q) = CHR ''/'' # join_with (CHR ''/'') es"
proof -
  let ?es = "fold (clean_step True) (split_on (CHR ''/'') (CHR ''/'' # q)) []"
  have "list_all plain_elem ?es"
    by (rule fold_clean_plain) (auto dest: split_on_no_sep)
  moreover have "Clean (CHR ''/'' # q) = CHR ''/'' # join_with (CHR ''/'') (rev ?es)"
    by (simp add: Clean_def IsAbs_Cons)
  ultimately show ?thesis by (intro exI [of _ "rev ?es"]) (simp add: list_all_iff)
qed

lemma path_elems_join:
  "es \<noteq> [] \<Longrightarrow> list_all plain_elem es \<Longrightarrow> path_elems (CHR ''/'' # join_with (CHR ''/'') es) = es"
  unfolding path_elems_def
  by (simp add: split_join_on list_all_iff plain_elem_def)

theorem Clean_abs_iff:
  assumes "IsAbs p"
  shows "Clean p = p \<longleftrightarrow> p = ''/'' \<or> list_all plain_elem (path_elems p)"
proof -
  obtain q where p: "p = CHR ''/'' # q" using assms by (auto simp: IsAbs_Cons)
  obtain es where es: "list_all plain_elem es" "Clean p = CHR ''/'' # join_with (CHR ''/'') es"
    using Clean_abs_form p by blast
  show ?thesis
  proof
    assume "Clean p = p"
    then show "p = ''/'' \<or> list_all plain_elem (path_elems p)"
      using es path_elems_join [of es] by (cases "es = []") auto
  next
    assume *: "p = ''/'' \<or> list_all plain_elem (path_elems p)"
    show "Clean p = p"
    proof (cases "p = ''/''")
      case True
      then show ?thesis by (simp add: Clean_def IsAbs_def HasPrefix_def clean_step_def)
    next
      case False
      with * have pl: "list_all plain_elem (split_on (CHR ''/'') q)" by (simp add: path_elems_def p)
      then have "fold (clean_step True) (split_on (CHR ''/'') p) [] = rev (split_on (CHR ''/'') q)"
        by (simp add: p clean_step_def fold_clean_id)
      then show ?thesis using assms by (simp add: Clean_def p join_split_on)
    qed
  qed
qed

lemma Clean_idem_abs: "IsAbs p \<Longrightarrow> Clean (Clean p) = Clean p"
proof -
  assume "IsAbs p"
  then obtain q where p: "p = CHR ''/'' # q" by (auto simp: IsAbs_Cons)
  obtain es where es: "list_all plain_elem es" "Clean p = CHR ''/'' # join_with (CHR ''/'') es"
    using Clean_abs_form p by blast
  have abs: "IsAbs (Clean p)" by (simp add: es IsAbs_Cons)
  show ?thesis
  proof (cases "es = []")
    case True
    then show ?thesis using Clean_abs_iff [OF abs] by (simp add: es)
  next
    case False
    then show ?thesis using Clean_abs_iff [OF abs] path_elems_join [OF False es(1)] es by simp
  qed
qed

end
