(* ===== verification/GoNet.thy ===== *)
theory GoNet
  imports GoEncoding
begin

text \<open>
  Package \<^verbatim>\<open>net\<close> as the hub uses it: \<^verbatim>\<open>net.ParseIP\<close>, \<^verbatim>\<open>net.ParseCIDR\<close> and \<^verbatim>\<open>IP.To4\<close>. An address is its
  16-byte form, a list of byte values; an IPv4 address is the IPv4-mapped form. A text with a zone
  (\<^verbatim>\<open>%\<close>) is refused by both parsers.
\<close>

definition ipv4_octet :: "string \<Rightarrow> nat option" where
  "ipv4_octet s =
     (if s \<noteq> [] \<and> all_digits s \<and> (hd s = CHR ''0'' \<longrightarrow> length s = 1) \<and> dec_val 0 s \<le> 255
      then Some (dec_val 0 s) else None)"

definition parse_ipv4 :: "string \<Rightarrow> nat list option" where
  "parse_ipv4 s =
     (case map ipv4_octet (split_on (CHR ''.'') s) of
        [Some a, Some b, Some c, Some d] \<Rightarrow> Some [a, b, c, d]
      | _ \<Rightarrow> None)"

definition hex_char :: "char \<Rightarrow> bool" where
  "hex_char c = (asciiDigit (byte c) \<or> (97 \<le> byte c \<and> byte c \<le> 102) \<or> (65 \<le> byte c \<and> byte c \<le> 70))"

definition hex_char_val :: "char \<Rightarrow> nat" where
  "hex_char_val c =
     (if byte c \<le> 57 then byte c - 48 else if 97 \<le> byte c then byte c - 87 else byte c - 55)"

text \<open>
  The loop of \<^verbatim>\<open>netip.parseIPv6\<close>: \<open>n\<close> groups are still free, \<open>out\<close> holds the bytes read so far and
  \<open>ell\<close> the position of the ellipsis. The result is the bytes, the ellipsis and the unread text.
\<close>

fun v6_loop :: "nat \<Rightarrow> string \<Rightarrow> nat list \<Rightarrow> nat option \<Rightarrow> (nat list \<times> nat option \<times> string) option" where
  "v6_loop 0 s out ell = Some (out, ell, s)"
| "v6_loop (Suc n) s out ell =
     (let ds = takeWhile hex_char s; r = dropWhile hex_char s;
          acc = foldl (\<lambda>a c. a * 16 + hex_char_val c) 0 ds
      in if ds = [] \<or> 4 < length ds then None
         else if r \<noteq> [] \<and> hd r = CHR ''.'' then
           (if (ell = None \<and> length out \<noteq> 12) \<or> 16 < length out + 4 then None
            else case parse_ipv4 s of None \<Rightarrow> None | Some v4 \<Rightarrow> Some (out @ v4, ell, []))
         else
           (let out' = out @ [acc div 256, acc mod 256] in
            case r of
              [] \<Rightarrow> Some (out', ell, [])
            | c # r1 \<Rightarrow>
                if c \<noteq> CHR '':'' \<or> r1 = [] then None
                else if hd r1 = CHR '':'' then
                  (if ell \<noteq> None then None
                   else if tl r1 = [] then Some (out', Some (length out'), [])
                   else v6_loop n (tl r1) out' (Some (length out')))
                else v6_loop n r1 out' ell))"

definition v6_finish :: "nat list \<times> nat option \<times> string \<Rightarrow> nat list option" where
  "v6_finish p =
     (case p of (out, ell, s) \<Rightarrow>
        if s \<noteq> [] then None
        else if length out < 16 then
          (case ell of
             None \<Rightarrow> None
           | Some e \<Rightarrow> Some (take e out @ replicate (16 - length out) 0 @ drop e out))
        else if ell \<noteq> None then None else Some out)"

definition parse_ipv6 :: "string \<Rightarrow> nat list option" where
  "parse_ipv6 s =
     (if HasPrefix s ''::'' then
        (if length s = 2 then Some (replicate 16 0)
         else Option.bind (v6_loop 8 (drop 2 s) [] (Some 0)) v6_finish)
      else Option.bind (v6_loop 8 s [] None) v6_finish)"

definition v4_mapped :: "nat list \<Rightarrow> nat list" where
  "v4_mapped v4 = replicate 10 0 @ [255, 255] @ v4"

text \<open>\<^verbatim>\<open>netip.ParseAddr\<close> without zones: the 16-byte form and the bit length of the family.\<close>

definition parse_addr :: "string \<Rightarrow> (nat list \<times> nat) option" where
  "parse_addr s =
     (if CHR 0x25 \<in> set s then None
      else case find (\<lambda>c. c = CHR ''.'' \<or> c = CHR '':'') s of
        None \<Rightarrow> None
      | Some c \<Rightarrow>
          if c = CHR ''.'' then map_option (\<lambda>v4. (v4_mapped v4, 32)) (parse_ipv4 s)
          else map_option (\<lambda>v6. (v6, 128)) (parse_ipv6 s))"

definition ParseIP :: "string \<Rightarrow> nat list option" where
  "ParseIP s = map_option fst (parse_addr s)"

definition To4 :: "nat list \<Rightarrow> nat list option" where
  "To4 ip = (if length ip = 16 \<and> take 12 ip = replicate 10 0 @ [255, 255] then Some (drop 12 ip) else None)"

definition ParseCIDR :: "string \<Rightarrow> nat list option" where
  "ParseCIDR s =
     (case split_on (CHR 0x2F) s of
        addr # m # ms \<Rightarrow>
          (let mask = join_with (CHR 0x2F) (m # ms) in
           case parse_addr addr of
             None \<Rightarrow> None
           | Some (ip, bits) \<Rightarrow>
               if mask \<noteq> [] \<and> all_digits mask \<and> dec_val 0 mask \<le> bits then Some ip else None)
      | _ \<Rightarrow> None)"

end
