(* ===== verification/ReleaseVersion.thy ===== *)
theory ReleaseVersion
  imports HubTypes
begin

text \<open>
  \<^verbatim>\<open>internal/releaseversion\<close>: stable \<^verbatim>\<open>major.minor.patch\<close> releases and their order. The three parts are
  compared as unsigned 64-bit numbers, first difference first. The lemmas: \<open>Compare\<close> answers
  \<open>Unknown\<close> exactly when one side is not a stable release, and on stable releases it is the strict
  lexicographic order of the parsed triples.
\<close>

datatype State = Current | Behind | Ahead | Unknown

text \<open>The value of one dot-separated part, \<^verbatim>\<open>strconv.ParseUint\<close> after the empty check.\<close>

definition parse_part :: "string \<Rightarrow> nat option" where
  "parse_part part = (if part = [] then None else ParseUint64 part)"

definition parse_version :: "string \<Rightarrow> (nat \<times> nat \<times> nat) option" where
  "parse_version value =
     (let normalized = TrimPrefix (TrimSpace value) ''v'' in
      if ContainsAny normalized ''-+'' then None
      else case map parse_part (split_on (CHR ''.'') normalized) of
        [Some a, Some b, Some c] \<Rightarrow> Some (a, b, c)
      | _ \<Rightarrow> None)"

fun compare_parts :: "(nat \<times> nat) list \<Rightarrow> State" where
  "compare_parts [] = Current"
| "compare_parts ((x, y) # ps) =
     (if x < y then Behind else if x > y then Ahead else compare_parts ps)"

definition Compare :: "string \<Rightarrow> string \<Rightarrow> State" where
  "Compare candidateVersion currentVersion =
     (case (parse_version candidateVersion, parse_version currentVersion) of
        (Some (a, b, c), Some (x, y, z)) \<Rightarrow> compare_parts [(a, x), (b, y), (c, z)]
      | _ \<Rightarrow> Unknown)"

lemma compare_parts_ne_Unknown: "compare_parts ps \<noteq> Unknown"
  by (induction ps rule: compare_parts.induct) auto

lemma Compare_Unknown_iff:
  "Compare v w = Unknown \<longleftrightarrow> parse_version v = None \<or> parse_version w = None"
  using compare_parts_ne_Unknown
  by (auto simp: Compare_def simp del: compare_parts.simps split: option.splits)

lemma Compare_Current_iff:
  "Compare v w = Current \<longleftrightarrow> parse_version v \<noteq> None \<and> parse_version v = parse_version w"
  by (auto simp: Compare_def split: option.splits)

lemma Compare_self_iff: "Compare v v = Current \<longleftrightarrow> parse_version v \<noteq> None"
  by (simp add: Compare_Current_iff)

lemma Compare_Behind_Ahead: "Compare v w = Behind \<longleftrightarrow> Compare w v = Ahead"
  by (auto simp: Compare_def split: option.splits)

lemma Compare_trans: "Compare u v = Behind \<Longrightarrow> Compare v w = Behind \<Longrightarrow> Compare u w = Behind"
  by (auto simp: Compare_def split: option.splits if_splits)

lemma Compare_total:
  "parse_version v \<noteq> None \<Longrightarrow> parse_version w \<noteq> None \<Longrightarrow>
     Compare v w \<in> {Current, Behind, Ahead}"
  using Compare_Unknown_iff [of v w] by (cases "Compare v w") auto

section \<open>Compatibility of a node\<close>

text \<open>\<^verbatim>\<open>internal/agenthub/compatibility.go\<close>.\<close>

record NodeCompatibility =
  cmp_PanelVersion :: string
  cmp_ExpectedProtocol :: string
  cmp_ProtocolCompatible :: bool
  cmp_AgentVersionState :: State

definition Compatibility :: "string \<Rightarrow> string \<Rightarrow> string \<Rightarrow> NodeCompatibility" where
  "Compatibility agentVersion protocolVersion panelVersion =
     \<lparr> cmp_PanelVersion = panelVersion,
       cmp_ExpectedProtocol = ProtocolVersion,
       cmp_ProtocolCompatible = (protocolVersion = ProtocolVersion),
       cmp_AgentVersionState = Compare agentVersion panelVersion \<rparr>"

end
