(* ===== verification/HubValidate.thy ===== *)
theory HubValidate
  imports HubTypes GoPath GoNet ReleaseVersion
begin

text \<open>
  The field validators of \<^verbatim>\<open>internal/agenthub/service.go\<close>: names, identifiers, paths, encoded job and
  rule documents. A loop over the runes of a value with a special first position is \<open>first_rest\<close>.
  What an accepted value can contain is shown in \<open>HubSafety\<close>.
\<close>

definition first_rest :: "(nat \<Rightarrow> bool) \<Rightarrow> (nat \<Rightarrow> bool) \<Rightarrow> string \<Rightarrow> bool" where
  "first_rest P Q s = (case runes s of [] \<Rightarrow> True | r # rs \<Rightarrow> P r \<and> list_all Q rs)"

definition asciiLetterOrDigit :: "nat \<Rightarrow> bool" where
  "asciiLetterOrDigit r =
     ((97 \<le> r \<and> r \<le> 122) \<or> (65 \<le> r \<and> r \<le> 90) \<or> (48 \<le> r \<and> r \<le> 57))"

text \<open>\<^verbatim>\<open>strings.ContainsRune\<close> of a set of ASCII characters.\<close>

definition rune_in :: "string \<Rightarrow> nat \<Rightarrow> bool" where
  "rune_in cs r = (\<exists>c \<in> set cs. byte c = r)"

definition word_name :: "string \<Rightarrow> string \<Rightarrow> bool" where
  "word_name extra = first_rest asciiLetterOrDigit (\<lambda>r. asciiLetterOrDigit r \<or> rune_in extra r)"

definition safeToken :: "uni_tables \<Rightarrow> string \<Rightarrow> bool" where
  "safeToken u value =
     (value \<noteq> [] \<and>
      list_all (\<lambda>r. IsLetter u r \<or> IsDigit u r \<or> r = byte (CHR ''_'') \<or> r = byte (CHR ''-'')) (runes value))"

definition containsControl :: "string \<Rightarrow> bool" where
  "containsControl value = list_ex IsControl (runes value)"

definition validNodeID :: "string \<Rightarrow> bool" where
  "validNodeID value =
     (\<not> (value = [] \<or> length value > maxNodeIDLength \<or> TrimSpace value \<noteq> value) \<and>
      first_rest asciiLetterOrDigit
        (\<lambda>r. asciiLetterOrDigit r \<or> r = byte (CHR ''.'') \<or> r = byte (CHR ''_'') \<or> r = byte (CHR ''-'')) value)"

definition validUnitName :: "string \<Rightarrow> bool" where
  "validUnitName value =
     (\<not> (value = [] \<or> length value > maxTaskPayloadValueLength \<or> TrimSpace value \<noteq> value) \<and>
      first_rest asciiLetterOrDigit
        (\<lambda>r. \<not> ((\<not> asciiLetterOrDigit r \<and> \<not> rune_in '':_.@-'' r) \<or> IsSpace r \<or> IsControl r)) value)"

definition validLogSource :: "string \<Rightarrow> bool" where
  "validLogSource value =
     (value \<in> {''system'', ''nginx'', ''php'', ''mariadb'', ''postgresql'', ''pm2'', ''docker''})"

definition validDiskCleanupTargets :: "string \<Rightarrow> bool" where
  "validDiskCleanupTargets value =
     (let parts = split_on (CHR '','') value in
      \<not> (length parts = 0 \<or> length parts > 4) \<and>
      list_all (\<lambda>t. t \<in> {''apt-cache'', ''journal'', ''tmp-old'', ''rotated-logs''}) parts \<and>
      distinct parts)"

definition validContainerName :: "string \<Rightarrow> bool" where
  "validContainerName value = (\<not> (value = [] \<or> length value > 128) \<and> word_name ''_.-'' value)"

definition validContainerAction :: "string \<Rightarrow> bool" where
  "validContainerAction value = (value = ''start'' \<or> value = ''stop'' \<or> value = ''restart'')"

definition validDeployAction :: "string \<Rightarrow> bool" where
  "validDeployAction value =
     (value = ''preflight'' \<or> value = ''deploy'' \<or> value = ''restart'' \<or> value = ''rollback'')"

definition validDeployDomainAction :: "string \<Rightarrow> bool" where
  "validDeployDomainAction value =
     (value = ''create'' \<or> value = ''delete'' \<or> value = ''ensure'' \<or> value = ''tls-enable''
      \<or> value = ''tls-disable'' \<or> value = ''tls-renew'')"

definition dnsRune :: "nat \<Rightarrow> bool" where
  "dnsRune r = ((97 \<le> r \<and> r \<le> 122) \<or> (48 \<le> r \<and> r \<le> 57) \<or> r = byte (CHR ''-''))"

definition validDomainLabel :: "string \<Rightarrow> bool" where
  "validDomainLabel label =
     (\<not> (label = [] \<or> length label > 63 \<or> hd label = CHR ''-'' \<or> last label = CHR ''-'') \<and>
      list_all dnsRune (runes label))"

definition validDeployDomainName :: "string \<Rightarrow> bool" where
  "validDeployDomainName value =
     (\<not> (value = [] \<or> length value > 253 \<or> HasPrefix value ''.'' \<or> HasSuffix value ''.'') \<and>
      (let labels = split_on (CHR ''.'') value in
       \<not> length labels < 2 \<and> list_all validDomainLabel labels))"

definition validNginxConfigName :: "string \<Rightarrow> bool" where
  "validNginxConfigName value = (\<not> (value = [] \<or> length value > 255) \<and> word_name ''._-'' value)"

definition lowerHexRune :: "nat \<Rightarrow> bool" where
  "lowerHexRune r = ((48 \<le> r \<and> r \<le> 57) \<or> (97 \<le> r \<and> r \<le> 102))"

definition validSHA256 :: "string \<Rightarrow> bool" where
  "validSHA256 value = (length value = 64 \<and> list_all lowerHexRune (runes value))"

definition validNginxConfigContent :: "string \<Rightarrow> bool" where
  "validNginxConfigContent content =
     (utf8_valid content \<and>
      list_all (\<lambda>c. \<not> (byte c < 0x20 \<and> c \<noteq> CHR 0x0A \<and> c \<noteq> CHR 0x0D \<and> c \<noteq> CHR 0x09)) content)"

definition validPHPVersion :: "string \<Rightarrow> bool" where
  "validPHPVersion value =
     (let parts = split_on (CHR ''.'') value in
      \<not> (length parts \<noteq> 2 \<or> parts ! 0 = [] \<or> parts ! 1 = []) \<and>
      list_all (\<lambda>part. list_all (\<lambda>r. \<not> (r < 48 \<or> r > 57)) (runes part)) parts \<and>
      length value \<le> 16)"

definition validPHPPool :: "string \<Rightarrow> bool" where
  "validPHPPool value = (\<not> (value = [] \<or> length value > 128) \<and> word_name ''._-'' value)"

definition validPHPAction :: "string \<Rightarrow> bool" where
  "validPHPAction value = (value = ''test'' \<or> value = ''reload'' \<or> value = ''restart'')"

definition validPM2Name :: "string \<Rightarrow> bool" where
  "validPM2Name value = (\<not> (value = [] \<or> length value > 128) \<and> word_name ''._:@-'' value)"

definition validPM2Action :: "string \<Rightarrow> bool" where
  "validPM2Action value = (value = ''start'' \<or> value = ''stop'' \<or> value = ''restart'' \<or> value = ''reload'')"

definition validDatabaseEngine :: "string \<Rightarrow> bool" where
  "validDatabaseEngine value = (value = ''mariadb'' \<or> value = ''postgresql'')"

definition validManagedAbsolutePath :: "string \<Rightarrow> bool" where
  "validManagedAbsolutePath value =
     (length value > 1 \<and> length value \<le> maxManagedPathLength \<and> IsAbs value \<and> Clean value = value
      \<and> CHR 0x00 \<notin> set value)"

definition idWithPrefix :: "string \<Rightarrow> string \<Rightarrow> bool" where
  "idWithPrefix p value =
     (\<not> (length value \<noteq> length p + 12 \<or> \<not> HasPrefix value p) \<and>
      list_all lowerHexRune (runes (drop (length p) value)))"

definition validCronID :: "string \<Rightarrow> bool" where
  "validCronID value = idWithPrefix ''cron-'' value"

definition validFirewallID :: "string \<Rightarrow> bool" where
  "validFirewallID value = idWithPrefix ''fw-'' value"

definition validSystemUser :: "string \<Rightarrow> bool" where
  "validSystemUser value =
     (\<not> (value = [] \<or> length value > 32) \<and>
      first_rest (\<lambda>r. (97 \<le> r \<and> r \<le> 122) \<or> r = byte (CHR ''_''))
        (\<lambda>r. (97 \<le> r \<and> r \<le> 122) \<or> r = byte (CHR ''_'') \<or> (48 \<le> r \<and> r \<le> 57) \<or> r = byte (CHR ''-'')) value)"

section \<open>Encoded documents\<close>

text \<open>
  \<^verbatim>\<open>json.Unmarshal\<close> into a \<^verbatim>\<open>map[string]json.RawMessage\<close>: the members of an object, of which the map
  keeps the keys; null is the empty map, any other value is an error.
\<close>

definition raw_members :: "string \<Rightarrow> (string \<times> json) list option" where
  "raw_members raw =
     (case json_parse maxNestingDepth raw of
        Some (JObj ms) \<Rightarrow> Some ms
      | Some JNull \<Rightarrow> Some []
      | _ \<Rightarrow> None)"

definition member_keys :: "(string \<times> json) list \<Rightarrow> string list" where
  "member_keys ms = remdups (map fst ms)"

record cronTaskJob =
  cron_ID :: string
  cron_Schedule :: string
  cron_User :: string
  cron_Command :: string
  cron_Description :: string
  cron_Enabled :: bool

text \<open>
  Decoding one member into the struct: the keys have already been checked to be exact field
  names, a null leaves the field as it is, a value of another type is an error.
\<close>

definition cron_member :: "string \<times> json \<Rightarrow> cronTaskJob option \<Rightarrow> cronTaskJob option" where
  "cron_member m j0 =
     (case (j0, m) of
        (None, _) \<Rightarrow> None
      | (Some j, (k, v)) \<Rightarrow>
          if v = JNull then Some j
          else if k = ''id'' then map_option (\<lambda>s. j\<lparr>cron_ID := s\<rparr>) (json_string v)
          else if k = ''schedule'' then map_option (\<lambda>s. j\<lparr>cron_Schedule := s\<rparr>) (json_string v)
          else if k = ''user'' then map_option (\<lambda>s. j\<lparr>cron_User := s\<rparr>) (json_string v)
          else if k = ''command'' then map_option (\<lambda>s. j\<lparr>cron_Command := s\<rparr>) (json_string v)
          else if k = ''description'' then map_option (\<lambda>s. j\<lparr>cron_Description := s\<rparr>) (json_string v)
          else if k = ''enabled'' then map_option (\<lambda>b. j\<lparr>cron_Enabled := b\<rparr>) (json_bool v)
          else Some j)"

definition cronTaskJobZero :: cronTaskJob where
  "cronTaskJobZero = \<lparr>cron_ID = [], cron_Schedule = [], cron_User = [], cron_Command = [],
     cron_Description = [], cron_Enabled = False\<rparr>"

definition lineBreaks :: string where
  "lineBreaks = [CHR 0x0D, CHR 0x0A, CHR 0x00]"

definition validCronJob :: "cronTaskJob \<Rightarrow> bool \<Rightarrow> bool" where
  "validCronJob job requireID =
     (\<not> ((requireID \<and> \<not> validCronID (cron_ID job)) \<or> (\<not> requireID \<and> cron_ID job \<noteq> []) \<or>
         \<not> validSystemUser (cron_User job) \<or> length (cron_Command job) = 0 \<or> length (cron_Command job) > 4096 \<or>
         ContainsAny (cron_Command job) lineBreaks \<or> length (cron_Description job) > 160 \<or>
         ContainsAny (cron_Description job) lineBreaks) \<and>
      length (cron_Schedule job) \<le> 160 \<and> \<not> ContainsAny (cron_Schedule job) lineBreaks \<and>
      num_fields (cron_Schedule job) = 5)"

definition validCronJobPayload :: "string \<Rightarrow> bool \<Rightarrow> bool" where
  "validCronJobPayload encoded requireID =
     (case b64_decode encoded of
        None \<Rightarrow> False
      | Some raw \<Rightarrow>
          if length raw = 0 \<or> length raw > maxCronJobBytes \<or> \<not> utf8_valid raw then False
          else case raw_members raw of
            None \<Rightarrow> False
          | Some ms \<Rightarrow>
              let keys = member_keys ms in
              if length keys < 4 \<or> length keys > 6 then False
              else if \<not> list_all (\<lambda>k. k \<in> {''id'', ''schedule'', ''user'', ''command'', ''description'', ''enabled''}) keys
              then False
              else case fold cron_member ms (Some cronTaskJobZero) of
                None \<Rightarrow> False
              | Some job \<Rightarrow>
                  list_all (\<lambda>k. k \<in> set keys) [''schedule'', ''user'', ''command'', ''enabled'']
                  \<and> validCronJob job requireID)"

record firewallTaskRule =
  fw_Action :: string
  fw_Protocol :: string
  fw_Port :: int
  fw_Source :: string
  fw_Comment :: string

definition fw_member :: "string \<times> json \<Rightarrow> firewallTaskRule option \<Rightarrow> firewallTaskRule option" where
  "fw_member m r0 =
     (case (r0, m) of
        (None, _) \<Rightarrow> None
      | (Some r, (k, v)) \<Rightarrow>
          if v = JNull then Some r
          else if k = ''action'' then map_option (\<lambda>s. r\<lparr>fw_Action := s\<rparr>) (json_string v)
          else if k = ''protocol'' then map_option (\<lambda>s. r\<lparr>fw_Protocol := s\<rparr>) (json_string v)
          else if k = ''port'' then map_option (\<lambda>i. r\<lparr>fw_Port := i\<rparr>) (json_int64 v)
          else if k = ''source'' then map_option (\<lambda>s. r\<lparr>fw_Source := s\<rparr>) (json_string v)
          else if k = ''comment'' then map_option (\<lambda>s. r\<lparr>fw_Comment := s\<rparr>) (json_string v)
          else Some r)"

definition firewallTaskRuleZero :: firewallTaskRule where
  "firewallTaskRuleZero = \<lparr>fw_Action = [], fw_Protocol = [], fw_Port = 0, fw_Source = [], fw_Comment = []\<rparr>"

definition validFirewallSource :: "string \<Rightarrow> bool" where
  "validFirewallSource src =
     (if src = [] then True
      else case ParseIP src of
        Some ip \<Rightarrow> To4 ip \<noteq> None
      | None \<Rightarrow> (case ParseCIDR src of None \<Rightarrow> False | Some ip \<Rightarrow> To4 ip \<noteq> None))"

definition validFirewallRule :: "firewallTaskRule \<Rightarrow> bool" where
  "validFirewallRule rule =
     (\<not> ((fw_Action rule \<noteq> ''ACCEPT'' \<and> fw_Action rule \<noteq> ''DROP'') \<or>
         (fw_Protocol rule \<noteq> ''tcp'' \<and> fw_Protocol rule \<noteq> ''udp'' \<and> fw_Protocol rule \<noteq> ''all'')) \<and>
      \<not> ((fw_Protocol rule = ''all'' \<and> fw_Port rule \<noteq> 0) \<or>
         (fw_Protocol rule \<noteq> ''all'' \<and> (fw_Port rule < 0 \<or> fw_Port rule > 65535)) \<or>
         length (fw_Comment rule) > 80 \<or> ContainsAny (fw_Comment rule) lineBreaks) \<and>
      validFirewallSource (fw_Source rule))"

definition validFirewallRulePayload :: "string \<Rightarrow> bool" where
  "validFirewallRulePayload encoded =
     (case b64_decode encoded of
        None \<Rightarrow> False
      | Some raw \<Rightarrow>
          if length raw = 0 \<or> length raw > maxFirewallRuleBytes \<or> \<not> utf8_valid raw then False
          else case raw_members raw of
            None \<Rightarrow> False
          | Some ms \<Rightarrow>
              let keys = member_keys ms in
              if length keys < 2 \<or> length keys > 5 then False
              else if \<not> list_all (\<lambda>k. k \<in> {''action'', ''protocol'', ''port'', ''source'', ''comment''}) keys
              then False
              else if ''action'' \<notin> set keys \<or> ''protocol'' \<notin> set keys then False
              else case fold fw_member ms (Some firewallTaskRuleZero) of
                None \<Rightarrow> False
              | Some rule \<Rightarrow> validFirewallRule rule)"

text \<open>
  A list of managed file roots; \<open>allowedParents\<close> is the optional list of roots it has to be drawn
  from, \<open>None\<close> for the nil slice, which switches the check off.
\<close>

definition validManagedFileRoot :: "string \<Rightarrow> bool" where
  "validManagedFileRoot path =
     (\<not> (path = ''/'' \<or> length path > 512 \<or> containsControl path \<or> \<not> IsAbs path \<or> Clean path \<noteq> path))"

definition validManagedFileRootInventory :: "string list \<Rightarrow> string list option \<Rightarrow> bool" where
  "validManagedFileRootInventory roots allowedParents =
     (length roots \<le> 16 \<and> list_all validManagedFileRoot roots \<and> distinct roots \<and>
      (case allowedParents of None \<Rightarrow> True | Some ps \<Rightarrow> list_all (\<lambda>r. r \<in> set ps) roots))"

end
