(* ===== verification/HubTasks.thy ===== *)
theory HubTasks
  imports HubValidate
begin

text \<open>
  The allowlist gate for panel-created tasks, \<^verbatim>\<open>ValidateTaskRequest\<close> in \<^verbatim>\<open>service.go\<close>, the capability a
  task kind needs (\<^verbatim>\<open>capabilityForTask\<close>), and the generic check of a task result. The gate has four
  parts in the code's order: the kind is on the list, the payload is empty only where it may be
  and has at most six fields, every field is a bounded token without control characters, and the
  payload fits its kind. Every refusal is \<^verbatim>\<open>ErrInvalidInput\<close>.
\<close>

abbreviation invalid :: "hub_error + 'a" where
  "invalid \<equiv> Inl ErrInvalidInput"

abbreviation ok :: "'e + unit" where
  "ok \<equiv> Inr ()"

definition refuse_if :: "bool \<Rightarrow> hub_error + unit" where
  "refuse_if b = (if b then invalid else ok)"

lemma refuse_if_ok [simp]: "refuse_if b = Inr x \<longleftrightarrow> \<not> b" "refuse_if b = Inl e \<longleftrightarrow> b \<and> e = ErrInvalidInput"
  by (auto simp: refuse_if_def)

section \<open>Capabilities\<close>

definition hasCapability :: "string list \<Rightarrow> string \<Rightarrow> bool" where
  "hasCapability capabilities capability = (capability \<in> set capabilities)"

definition capabilityForTask :: "string \<Rightarrow> string" where
  "capabilityForTask kind =
     (if kind = TaskServiceStatus then CapabilityServiceStatus
      else if kind = TaskServiceAction then CapabilityServiceAction
      else if kind = TaskHostAction then CapabilityHostAction
      else if kind = TaskProcessSignal then CapabilityProcessSignal
      else if kind = TaskDiskCleanupScan \<or> kind = TaskDiskCleanupExecute then CapabilityDiskCleanup
      else if kind = TaskLogsRead then CapabilityLogsRead
      else if kind = TaskContainerList then CapabilityContainerRead
      else if kind = TaskContainerAction then CapabilityContainerAction
      else if kind = TaskNginxAction then CapabilityNginxAction
      else if kind = TaskNginxConfigList \<or> kind = TaskNginxConfigRead then CapabilityNginxConfigRead
      else if kind = TaskNginxConfigWrite then CapabilityNginxConfigWrite
      else if kind = TaskPHPInventory \<or> kind = TaskPHPConfigRead then CapabilityPHPRead
      else if kind = TaskPHPConfigWrite then CapabilityPHPWrite
      else if kind = TaskPHPAction then CapabilityPHPAction
      else if kind = TaskPM2List \<or> kind = TaskPM2Logs then CapabilityPM2Read
      else if kind = TaskPM2Action then CapabilityPM2Action
      else if kind = TaskCronInventory then CapabilityCronRead
      else if kind = TaskCronCreate \<or> kind = TaskCronUpdate \<or> kind = TaskCronDelete then CapabilityCronWrite
      else if kind = TaskCronRun then CapabilityCronRun
      else if kind = TaskFirewallInventory then CapabilityFirewallRead
      else if kind = TaskFirewallAdd \<or> kind = TaskFirewallDelete then CapabilityFirewallWrite
      else if kind = TaskDomainInventory then CapabilityDomainRead
      else if kind = TaskDomainAction then CapabilityDomainAction
      else if kind = TaskSSLInventory then CapabilitySSLRead
      else if kind = TaskSSLAction then CapabilitySSLAction
      else if kind = TaskDatabaseInventory then CapabilityDatabaseRead
      else if kind = TaskDatabaseAction then CapabilityDatabaseAction
      else if kind = TaskBackupInventory then CapabilityBackupRead
      else if kind = TaskBackupRun then CapabilityBackupRun
      else if kind = TaskFilesBrowse \<or> kind = TaskFilesRead then CapabilityFilesRead
      else if kind = TaskFilesWrite then CapabilityFilesWrite
      else if kind = TaskDeployInventory then CapabilityDeployRead
      else if kind = TaskDeployAction then CapabilityDeployAction
      else if kind = TaskDeployDomainInventory \<or> kind = TaskDeployDomainHealth then CapabilityDeployDomainRead
      else if kind = TaskDeployDomainAction then CapabilityDeployDomainAction
      else if kind = TaskAgentUpdateStatus then CapabilityAgentUpdateRead
      else if kind = TaskAgentUpdateAction then CapabilityAgentUpdateAction
      else if kind = TaskIntegrationStatus then CapabilityIntegrationStatus
      else if kind = TaskMetricsRead then CapabilityMetricsRead
      else if kind = TaskProfileApply then CapabilityProfileApply
      else [])"

section \<open>The kinds\<close>

text \<open>The kinds a panel may ask for, and those whose payload may be empty.\<close>

definition panelKinds :: "string list" where
  "panelKinds =
     [TaskServiceStatus, TaskServiceAction, TaskHostAction, TaskProcessSignal, TaskDiskCleanupScan,
      TaskDiskCleanupExecute, TaskLogsRead, TaskContainerList, TaskContainerAction, TaskNginxAction,
      TaskNginxConfigList, TaskNginxConfigRead, TaskNginxConfigWrite, TaskPHPInventory,
      TaskPHPConfigRead, TaskPHPConfigWrite, TaskPHPAction, TaskPM2List, TaskPM2Logs, TaskPM2Action,
      TaskCronInventory, TaskCronCreate, TaskCronUpdate, TaskCronDelete, TaskCronRun,
      TaskFirewallInventory, TaskFirewallAdd, TaskFirewallDelete, TaskDomainInventory,
      TaskDomainAction, TaskSSLInventory, TaskSSLAction, TaskDatabaseInventory, TaskDatabaseAction,
      TaskBackupInventory, TaskBackupRun, TaskFilesBrowse, TaskFilesRead, TaskFilesWrite,
      TaskDeployInventory, TaskDeployAction, TaskDeployDomainInventory, TaskDeployDomainHealth,
      TaskDeployDomainAction, TaskAgentUpdateStatus, TaskAgentUpdateAction, TaskIntegrationStatus,
      TaskMetricsRead]"

definition emptyPayloadKinds :: "string list" where
  "emptyPayloadKinds =
     [TaskDiskCleanupScan, TaskContainerList, TaskNginxConfigList, TaskPHPInventory, TaskPM2List,
      TaskCronInventory, TaskFirewallInventory, TaskDomainInventory, TaskSSLInventory,
      TaskDatabaseInventory, TaskBackupInventory, TaskDeployInventory, TaskAgentUpdateStatus,
      TaskIntegrationStatus, TaskMetricsRead]"

section \<open>Payload fields\<close>

definition configContentField :: "string \<Rightarrow> string \<Rightarrow> bool" where
  "configContentField kind key =
     ((kind = TaskNginxConfigWrite \<or> kind = TaskPHPConfigWrite) \<and> key = ''content_b64'')"

definition cronJobField :: "string \<Rightarrow> string \<Rightarrow> bool" where
  "cronJobField kind key = ((kind = TaskCronCreate \<or> kind = TaskCronUpdate) \<and> key = ''job_b64'')"

definition firewallRuleField :: "string \<Rightarrow> string \<Rightarrow> bool" where
  "firewallRuleField kind key = (kind = TaskFirewallAdd \<and> key = ''rule_b64'')"

definition fileContentField :: "string \<Rightarrow> string \<Rightarrow> bool" where
  "fileContentField kind key = (kind = TaskFilesWrite \<and> key = ''content_b64'')"

definition managedPathField :: "string \<Rightarrow> string \<Rightarrow> bool" where
  "managedPathField kind key =
     ((kind = TaskFilesBrowse \<or> kind = TaskFilesRead \<or> kind = TaskFilesWrite) \<and> key = ''path'')"

definition valueLimit :: "string \<Rightarrow> string \<Rightarrow> nat" where
  "valueLimit kind key =
     (if configContentField kind key then maxEncodedNginxConfigSize
      else if cronJobField kind key then maxEncodedCronJobSize
      else if firewallRuleField kind key then maxEncodedFirewallSize
      else if fileContentField kind key then maxEncodedNginxConfigSize
      else if managedPathField kind key then maxManagedPathLength
      else maxTaskPayloadValueLength)"

definition badField :: "uni_tables \<Rightarrow> string \<Rightarrow> string \<times> string \<Rightarrow> bool" where
  "badField u kind kv =
     (case kv of (key, value) \<Rightarrow>
        key = [] \<or> length key > maxTaskPayloadValueLength \<or> \<not> safeToken u key \<or>
        (\<not> configContentField kind key \<and> \<not> cronJobField kind key \<and> \<not> firewallRuleField kind key
          \<and> \<not> fileContentField kind key \<and> value = []) \<or>
        length value > valueLimit kind key \<or> containsControl value)"

section \<open>One check per kind\<close>

definition noFields :: "gomap \<Rightarrow> hub_error + unit" where
  "noFields p = refuse_if (length p \<noteq> 0)"

definition checkServiceStatus :: "gomap \<Rightarrow> hub_error + unit" where
  "checkServiceStatus p =
     andThen (refuse_if (length p \<noteq> 1 \<or> gget p ''service'' = []))
       (\<lambda>_. refuse_if (\<not> validUnitName (gget p ''service'')))"

definition checkServiceAction :: "gomap \<Rightarrow> hub_error + unit" where
  "checkServiceAction p =
     andThen (refuse_if (length p \<noteq> 2 \<or> gget p ''service'' = [] \<or> gget p ''action'' = []))
       (\<lambda>_. andThen (refuse_if (\<not> validUnitName (gget p ''service'')))
         (\<lambda>_. refuse_if (gget p ''action'' \<notin> {''start'', ''stop'', ''restart''})))"

definition checkHostAction :: "gomap \<Rightarrow> hub_error + unit" where
  "checkHostAction p =
     andThen (refuse_if (length p \<noteq> 1 \<or> gget p ''action'' = []))
       (\<lambda>_. refuse_if (gget p ''action'' \<notin>
          {''memory-optimize'', ''swap-reset'', ''temp-clean'', ''reboot'', ''reboot-cancel''}))"

definition checkProcessSignal :: "gomap \<Rightarrow> hub_error + unit" where
  "checkProcessSignal p =
     andThen (refuse_if (length p \<noteq> 3 \<or> gget p ''pid'' = [] \<or> gget p ''start_time'' = [] \<or> gget p ''signal'' = []))
       (\<lambda>_. andThen
          (case (ParseInt64 (gget p ''pid''), ParseUint64 (gget p ''start_time'')) of
             (Some pid, Some startTime) \<Rightarrow> refuse_if (pid \<le> 1 \<or> startTime = 0)
           | _ \<Rightarrow> invalid)
          (\<lambda>_. refuse_if (gget p ''signal'' \<noteq> ''term'' \<and> gget p ''signal'' \<noteq> ''kill'')))"

text \<open>A canonical line count between 1 and 500.\<close>

definition validLineCount :: "string \<Rightarrow> bool" where
  "validLineCount s =
     (case ParseInt64 s of
        None \<Rightarrow> False
      | Some lines \<Rightarrow> \<not> (lines < 1 \<or> lines > 500 \<or> FormatInt lines \<noteq> s))"

definition checkLogsRead :: "gomap \<Rightarrow> hub_error + unit" where
  "checkLogsRead p =
     refuse_if (length p \<noteq> 2 \<or> \<not> validLogSource (gget p ''source'') \<or> \<not> validLineCount (gget p ''lines''))"

text \<open>Encoded file content of a bounded size.\<close>

definition checkContent :: "gomap \<Rightarrow> hub_error + unit" where
  "checkContent p =
     (case b64_decode (gget p ''content_b64'') of
        None \<Rightarrow> invalid
      | Some content \<Rightarrow> refuse_if (length content > maxNginxConfigBytes \<or> \<not> validNginxConfigContent content))"

definition badReload :: "gomap \<Rightarrow> bool" where
  "badReload p = (gget p ''reload'' \<noteq> ''true'' \<and> gget p ''reload'' \<noteq> ''false'')"

definition checkNginxConfigWrite :: "gomap \<Rightarrow> hub_error + unit" where
  "checkNginxConfigWrite p =
     andThen (refuse_if (length p \<noteq> 4 \<or> \<not> validNginxConfigName (gget p ''name'')
                         \<or> \<not> validSHA256 (gget p ''checksum'') \<or> badReload p))
       (\<lambda>_. checkContent p)"

definition checkPHPConfigWrite :: "gomap \<Rightarrow> hub_error + unit" where
  "checkPHPConfigWrite p =
     andThen (refuse_if (length p \<noteq> 5 \<or> \<not> validPHPVersion (gget p ''version'') \<or> \<not> validPHPPool (gget p ''pool'')
                         \<or> \<not> validSHA256 (gget p ''checksum'') \<or> badReload p))
       (\<lambda>_. checkContent p)"

definition checkFilesWrite :: "gomap \<Rightarrow> hub_error + unit" where
  "checkFilesWrite p =
     andThen (refuse_if (length p \<noteq> 3 \<or> \<not> validManagedAbsolutePath (gget p ''path'')
                         \<or> \<not> validSHA256 (gget p ''checksum'')))
       (\<lambda>_. checkContent p)"

definition checkDeployDomainAction :: "gomap \<Rightarrow> hub_error + unit" where
  "checkDeployDomainAction p =
     (let action = gget p ''action'' in
      if action = ''ensure'' then
        andThen (refuse_if (length p \<noteq> 4 \<or> \<not> validNginxConfigName (gget p ''target'')
                            \<or> \<not> validDeployDomainName (gget p ''domain'')
                            \<or> (\<not> validSHA256 (gget p ''expected_revision'') \<and> gget p ''expected_revision'' \<noteq> ''absent'')))
          (\<lambda>_. refuse_if (list_ex (\<lambda>(key, _). key \<notin> {''target'', ''domain'', ''action'', ''expected_revision''}) p))
      else
        (let minimumFields = (if action = ''tls-enable'' \<and> gget p ''email'' \<noteq> [] then 4 else 3) in
         refuse_if (length p \<noteq> minimumFields \<or> \<not> validNginxConfigName (gget p ''target'')
                    \<or> \<not> validDeployDomainName (gget p ''domain'') \<or> \<not> validDeployDomainAction action)))"

definition checkAgentUpdateAction :: "gomap \<Rightarrow> hub_error + unit" where
  "checkAgentUpdateAction p =
     (let action = gget p ''action'' in
      if action = ''upgrade'' then
        refuse_if (length p \<noteq> 2 \<or> Compare (gget p ''version'') (gget p ''version'') \<noteq> Current)
      else if action = ''rollback'' then refuse_if (length p \<noteq> 1)
      else invalid)"

text \<open>The dispatch over the kind, up to the cron tasks and from there on.\<close>

definition checkKindA :: "string \<Rightarrow> gomap \<Rightarrow> (hub_error + unit) option" where
  "checkKindA kind p =
     (if kind = TaskServiceStatus then Some (checkServiceStatus p)
      else if kind = TaskServiceAction then Some (checkServiceAction p)
      else if kind = TaskHostAction then Some (checkHostAction p)
      else if kind = TaskProcessSignal then Some (checkProcessSignal p)
      else if kind = TaskDiskCleanupScan then Some (noFields p)
      else if kind = TaskDiskCleanupExecute then
        Some (refuse_if (length p \<noteq> 1 \<or> \<not> validDiskCleanupTargets (gget p ''targets'')))
      else if kind = TaskLogsRead then Some (checkLogsRead p)
      else if kind = TaskContainerList then Some (noFields p)
      else if kind = TaskContainerAction then
        Some (refuse_if (length p \<noteq> 2 \<or> \<not> validContainerName (gget p ''container'')
                         \<or> \<not> validContainerAction (gget p ''action'')))
      else if kind = TaskNginxAction then
        Some (refuse_if (length p \<noteq> 1 \<or> (gget p ''action'' \<noteq> ''test'' \<and> gget p ''action'' \<noteq> ''reload'')))
      else if kind = TaskNginxConfigList then Some (noFields p)
      else if kind = TaskNginxConfigRead then
        Some (refuse_if (length p \<noteq> 1 \<or> \<not> validNginxConfigName (gget p ''name'')))
      else if kind = TaskNginxConfigWrite then Some (checkNginxConfigWrite p)
      else if kind = TaskPHPInventory then Some (noFields p)
      else if kind = TaskPHPConfigRead then
        Some (refuse_if (length p \<noteq> 2 \<or> \<not> validPHPVersion (gget p ''version'') \<or> \<not> validPHPPool (gget p ''pool'')))
      else if kind = TaskPHPConfigWrite then Some (checkPHPConfigWrite p)
      else if kind = TaskPHPAction then
        Some (refuse_if (length p \<noteq> 2 \<or> \<not> validPHPVersion (gget p ''version'') \<or> \<not> validPHPAction (gget p ''action'')))
      else if kind = TaskPM2List then Some (noFields p)
      else if kind = TaskPM2Logs then
        Some (refuse_if (length p \<noteq> 2 \<or> \<not> validPM2Name (gget p ''name'') \<or> \<not> validLineCount (gget p ''lines'')))
      else if kind = TaskPM2Action then
        Some (refuse_if (length p \<noteq> 2 \<or> \<not> validPM2Name (gget p ''name'') \<or> \<not> validPM2Action (gget p ''action'')))
      else None)"

definition checkKindB :: "string \<Rightarrow> gomap \<Rightarrow> (hub_error + unit) option" where
  "checkKindB kind p =
     (if kind = TaskCronInventory then Some (noFields p)
      else if kind = TaskCronCreate \<or> kind = TaskCronUpdate then
        Some (refuse_if (length p \<noteq> 2 \<or> \<not> validSHA256 (gget p ''revision'')
                         \<or> \<not> validCronJobPayload (gget p ''job_b64'') (kind = TaskCronUpdate)))
      else if kind = TaskCronDelete then
        Some (refuse_if (length p \<noteq> 2 \<or> \<not> validCronID (gget p ''id'') \<or> \<not> validSHA256 (gget p ''revision'')))
      else if kind = TaskCronRun then Some (refuse_if (length p \<noteq> 1 \<or> \<not> validCronID (gget p ''id'')))
      else if kind = TaskFirewallInventory then Some (noFields p)
      else if kind = TaskFirewallAdd then
        Some (refuse_if (length p \<noteq> 2 \<or> \<not> validSHA256 (gget p ''revision'')
                         \<or> \<not> validFirewallRulePayload (gget p ''rule_b64'')))
      else if kind = TaskFirewallDelete then
        Some (refuse_if (length p \<noteq> 2 \<or> \<not> validFirewallID (gget p ''id'') \<or> \<not> validSHA256 (gget p ''revision'')))
      else if kind = TaskDomainInventory then Some (noFields p)
      else if kind = TaskDomainAction then
        Some (refuse_if (length p \<noteq> 2 \<or> \<not> validNginxConfigName (gget p ''config'')
                         \<or> (gget p ''action'' \<noteq> ''enable'' \<and> gget p ''action'' \<noteq> ''disable'')))
      else if kind = TaskSSLInventory then Some (noFields p)
      else if kind = TaskSSLAction then
        Some (refuse_if (length p \<noteq> 2 \<or> \<not> validNginxConfigName (gget p ''name'')
                         \<or> (gget p ''action'' \<noteq> ''check'' \<and> gget p ''action'' \<noteq> ''renew'')))
      else if kind = TaskDatabaseInventory then Some (noFields p)
      else if kind = TaskDatabaseAction then
        Some (refuse_if (length p \<noteq> 2 \<or> \<not> validDatabaseEngine (gget p ''engine'') \<or> gget p ''action'' \<noteq> ''restart''))
      else if kind = TaskBackupInventory then Some (noFields p)
      else if kind = TaskBackupRun then
        Some (refuse_if (length p \<noteq> 1 \<or> \<not> validNginxConfigName (gget p ''plan'')))
      else None)"

definition checkKindC :: "string \<Rightarrow> gomap \<Rightarrow> (hub_error + unit) option" where
  "checkKindC kind p =
     (if kind = TaskFilesBrowse \<or> kind = TaskFilesRead then
        Some (refuse_if (length p \<noteq> 1 \<or> \<not> validManagedAbsolutePath (gget p ''path'')))
      else if kind = TaskFilesWrite then Some (checkFilesWrite p)
      else if kind = TaskDeployInventory then Some (noFields p)
      else if kind = TaskDeployAction then
        Some (refuse_if (length p \<noteq> 2 \<or> \<not> validNginxConfigName (gget p ''target'') \<or> \<not> validDeployAction (gget p ''action'')))
      else if kind = TaskDeployDomainInventory then
        Some (refuse_if (length p \<noteq> 1 \<or> \<not> validNginxConfigName (gget p ''target'')))
      else if kind = TaskDeployDomainHealth then
        Some (refuse_if (length p \<noteq> 2 \<or> \<not> validNginxConfigName (gget p ''target'')
                         \<or> \<not> validDeployDomainName (gget p ''domain'')))
      else if kind = TaskDeployDomainAction then Some (checkDeployDomainAction p)
      else if kind = TaskAgentUpdateStatus then Some (noFields p)
      else if kind = TaskAgentUpdateAction then Some (checkAgentUpdateAction p)
      else if kind = TaskIntegrationStatus then Some (noFields p)
      else if kind = TaskMetricsRead then Some (noFields p)
      else None)"

definition checkKind :: "string \<Rightarrow> gomap \<Rightarrow> hub_error + unit" where
  "checkKind kind p =
     (case checkKindA kind p of
        Some r \<Rightarrow> r
      | None \<Rightarrow> (case checkKindB kind p of
          Some r \<Rightarrow> r
        | None \<Rightarrow> (case checkKindC kind p of Some r \<Rightarrow> r | None \<Rightarrow> ok)))"

definition ValidateTaskRequest :: "uni_tables \<Rightarrow> TaskRequest \<Rightarrow> hub_error + unit" where
  "ValidateTaskRequest u req =
     (let kind = req_Kind req; p = req_Payload req in
      if kind \<notin> set panelKinds then invalid
      else if (length p = 0 \<and> kind \<notin> set emptyPayloadKinds) \<or> length p > 6 then invalid
      else if list_ex (badField u kind) p then invalid
      else checkKind kind p)"

section \<open>Task results\<close>

definition badResultField :: "string \<times> string \<Rightarrow> bool" where
  "badResultField kv =
     (case kv of (key, value) \<Rightarrow>
        key = [] \<or> length key > maxTaskPayloadValueLength \<or> containsControl key \<or>
        length value > maxTaskResultValueLength \<or> containsControl value)"

definition ValidateTaskResultRequest :: "TaskResultRequest \<Rightarrow> hub_error + unit" where
  "ValidateTaskResultRequest req =
     (if res_Status req \<noteq> TaskStatusCompleted \<and> res_Status req \<noteq> TaskStatusFailed then invalid
      else if length (res_Error req) > maxTaskErrorLength \<or> containsControl (res_Error req) then invalid
      else if res_Status req = TaskStatusFailed \<and> TrimSpace (res_Error req) = [] then invalid
      else if length (res_Result req) > 100 then invalid
      else refuse_if (list_ex badResultField (res_Result req)))"

end
