(* ===== verification/HubProfile.thy ===== *)
theory HubProfile
  imports HubTasks GoPath
begin

text \<open>
  The desired-profile documents of \<^verbatim>\<open>internal/agenthub/profile.go\<close>: the closed enumerations, the strict
  JSON envelopes (one object, no duplicate key, only known keys, required fields present and
  non-null), the normalisation of a profile, and the canonical apply document that a profile-apply
  task carries. A raw JSON field is the value it parses to. The main facts are that normalisation
  yields one canonical form of a profile, that a canonical profile survives its JSON text, and that
  the payload built for a profile-apply task is read back with its own revision.
\<close>

section \<open>Constants\<close>

definition profileStateConfigured :: string where [hub_consts]: "profileStateConfigured = ''configured''"
definition profileStateNotConfigured :: string where [hub_consts]: "profileStateNotConfigured = ''not_configured''"
definition profileObservedNotReported :: string where [hub_consts]: "profileObservedNotReported = ''not_reported''"
definition profileApplyManualRequired :: string where [hub_consts]: "profileApplyManualRequired = ''manual_required''"
definition profileApplySelfApplyReason :: string where [hub_consts]: "profileApplySelfApplyReason = ''self_apply_not_supported''"
definition profileApplyNotRequested :: string where [hub_consts]: "profileApplyNotRequested = ''not_requested''"
definition profileApplyQueued :: string where [hub_consts]: "profileApplyQueued = ''queued''"
definition profileApplyRunning :: string where [hub_consts]: "profileApplyRunning = ''running''"
definition profileApplyAwaiting :: string where [hub_consts]: "profileApplyAwaiting = ''awaiting_heartbeat''"
definition profileApplyApplied :: string where [hub_consts]: "profileApplyApplied = ''applied''"
definition profileApplyFailed :: string where [hub_consts]: "profileApplyFailed = ''failed''"
definition profileApplyDrifted :: string where [hub_consts]: "profileApplyDrifted = ''drifted''"

definition maxProfilePathBytes :: nat where "maxProfilePathBytes = 4096"
definition maxProfileWriteRoots :: nat where "maxProfileWriteRoots = 16"
definition maxProfileJSONBytes :: nat where "maxProfileJSONBytes = 16384"
definition maxProfileEncodedBytes :: nat where
  "maxProfileEncodedBytes = ((maxProfileJSONBytes + 2) div 3) * 4"
definition profileApplySchemaVersion :: int where "profileApplySchemaVersion = 1"

definition ProfileObservationNotConfigured :: string where [hub_consts]: "ProfileObservationNotConfigured = ''not_configured''"
definition ProfileObservationPendingRestart :: string where [hub_consts]: "ProfileObservationPendingRestart = ''pending_restart''"
definition ProfileObservationApplied :: string where [hub_consts]: "ProfileObservationApplied = ''applied''"
definition ProfileObservationFailed :: string where [hub_consts]: "ProfileObservationFailed = ''failed''"
definition ProfileApplyResultRestartScheduled :: string where [hub_consts]: "ProfileApplyResultRestartScheduled = ''restart_scheduled''"
definition ProfileApplyResultAlreadyActive :: string where [hub_consts]: "ProfileApplyResultAlreadyActive = ''already_active''"

definition ProfileErrorCodeProfileApplyFailed :: string where [hub_consts]:
  "ProfileErrorCodeProfileApplyFailed = ''profile_apply_failed''"

text \<open>The closed list of profile error codes, in the order of their declaration.\<close>

definition profileErrorCodes :: "string list" where
  "profileErrorCodes =
     [''not_configured'', ''invalid_profile'', ''permission_denied'', ''write_failed'', ''restart_failed'',
      ''apply_failed'', ProfileErrorCodeProfileApplyFailed, ''unsupported'', ''not_supported'', ''timeout'',
      ''stale_revision'', ''invalid_revision'', ''agent_error'', ''unknown'', ''profile_missing'',
      ''profile_corrupt'', ''profile_state_corrupt'', ''profile_revision_invalid'',
      ''profile_payload_invalid'', ''profile_payload_too_large'', ''profile_apply_unavailable'',
      ''profile_schedule_failed'', ''profile_store_failed'', ''profile_superseded'']"

section \<open>Records\<close>

record AgentProfile =
  prof_AllowDeployRead :: bool
  prof_AllowDeployActions :: bool
  prof_AllowDeployDomainRead :: bool
  prof_AllowDeployDomainActions :: bool
  prof_DeployPlansFile :: string
  prof_DeployAcmeWebroot :: string
  prof_DeployWriteRoots :: "string list"

record profileApplyDocument =
  doc_SchemaVersion :: int
  doc_Revision :: int
  doc_Profile :: AgentProfile

record AgentProfileApplyRequest =
  apr_ExpectedRevision :: int
  apr_Confirmed :: bool

record AgentProfilePutRequest =
  put_Profile :: AgentProfile
  put_ExpectedRevision :: int

record AgentProfileRecord =
  rec_Profile :: AgentProfile
  rec_Revision :: int
  rec_Configured :: bool

record AgentProfileObservationRecord =
  or_State :: string
  or_Revision :: int
  or_ErrorCode :: string
  or_UpdatedAt :: go_time

definition emptyAgentProfile :: AgentProfile where
  "emptyAgentProfile = \<lparr>prof_AllowDeployRead = False, prof_AllowDeployActions = False,
     prof_AllowDeployDomainRead = False, prof_AllowDeployDomainActions = False,
     prof_DeployPlansFile = [], prof_DeployAcmeWebroot = [], prof_DeployWriteRoots = []\<rparr>"

section \<open>Strict objects\<close>

text \<open>
  \<^verbatim>\<open>decodeStrictJSONObject\<close> reads the braces of the object with \<^verbatim>\<open>Decoder.Token\<close>, which does not count
  them as a nesting level, so its nesting limit is one above that of \<^verbatim>\<open>json.Unmarshal\<close>. A key is
  compared with the earlier keys after it is decoded.
\<close>

definition decodeStrictJSONObject :: "string \<Rightarrow> hub_error + (string \<times> json) list" where
  "decodeStrictJSONObject data =
     (case json_parse (Suc maxNestingDepth) data of
        Some (JObj ms) \<Rightarrow> if distinct (map fst ms) then Inr ms else Inl ErrOther
      | _ \<Rightarrow> Inl ErrOther)"

definition isJSONNull :: "json \<Rightarrow> bool" where
  "isJSONNull raw = (raw = JNull)"

text \<open>
  A required field decoded into a target type, given by its decoding function; the same for a
  nested object, whose raw text is that of the parsed value.
\<close>

definition decodeRequiredJSONField :: "(string \<times> json) list \<Rightarrow> string \<Rightarrow> (json \<Rightarrow> 'a option) \<Rightarrow> hub_error + 'a" where
  "decodeRequiredJSONField fs field target =
     (case map_of fs field of
        None \<Rightarrow> Inl ErrOther
      | Some raw \<Rightarrow>
          if isJSONNull raw then Inl ErrOther
          else (case target raw of None \<Rightarrow> Inl ErrOther | Some v \<Rightarrow> Inr v))"

definition onlyFields :: "string list \<Rightarrow> (string \<times> json) list \<Rightarrow> hub_error + unit" where
  "onlyFields known fs = (if list_all (\<lambda>(k, _). k \<in> set known) fs then Inr () else Inl ErrOther)"

text \<open>An object value whose keys are distinct, as \<^verbatim>\<open>decodeStrictJSONObject\<close> accepts for a raw field.\<close>

definition strictFields :: "json \<Rightarrow> hub_error + (string \<times> json) list" where
  "strictFields raw =
     (case raw of
        JObj ms \<Rightarrow> if distinct (map fst ms) then Inr ms else Inl ErrOther
      | _ \<Rightarrow> Inl ErrOther)"

definition profileFields :: "string list" where
  "profileFields = [''allowDeployRead'', ''allowDeployActions'', ''allowDeployDomainRead'',
     ''allowDeployDomainActions'', ''deployPlansFile'', ''deployAcmeWebroot'', ''deployWriteRoots'']"

fun decodeProfileRoots :: "json \<Rightarrow> string list option" where
  "decodeProfileRoots (JArr items) = option_list (map json_string items)"
| "decodeProfileRoots _ = None"

text \<open>The historical comma-separated string form of the write roots.\<close>

definition legacyRoots :: "string \<Rightarrow> string list" where
  "legacyRoots s = (if s = [] then [] else map TrimSpace (split_on (CHR '','') s))"

definition decodeRootsField :: "bool \<Rightarrow> json \<Rightarrow> string list option" where
  "decodeRootsField allowLegacyRoots raw =
     (case raw of
        JStr s \<Rightarrow> if allowLegacyRoots then Some (legacyRoots s) else decodeProfileRoots raw
      | _ \<Rightarrow> decodeProfileRoots raw)"

definition decodeProfileFields :: "(string \<times> json) list \<Rightarrow> bool \<Rightarrow> hub_error + AgentProfile" where
  "decodeProfileFields fs allowLegacyRoots =
     andThen (onlyFields profileFields fs) (\<lambda>_.
     andThen (decodeRequiredJSONField fs ''allowDeployRead'' json_bool) (\<lambda>read.
     andThen (decodeRequiredJSONField fs ''allowDeployActions'' json_bool) (\<lambda>actions.
     andThen (decodeRequiredJSONField fs ''allowDeployDomainRead'' json_bool) (\<lambda>dread.
     andThen (decodeRequiredJSONField fs ''allowDeployDomainActions'' json_bool) (\<lambda>dactions.
     andThen (decodeRequiredJSONField fs ''deployPlansFile'' json_string) (\<lambda>plans.
     andThen (decodeRequiredJSONField fs ''deployAcmeWebroot'' json_string) (\<lambda>acme.
     andThen (decodeRequiredJSONField fs ''deployWriteRoots'' (decodeRootsField allowLegacyRoots)) (\<lambda>roots.
       Inr \<lparr>prof_AllowDeployRead = read, prof_AllowDeployActions = actions,
            prof_AllowDeployDomainRead = dread, prof_AllowDeployDomainActions = dactions,
            prof_DeployPlansFile = plans, prof_DeployAcmeWebroot = acme,
            prof_DeployWriteRoots = roots\<rparr>))))))))"

definition decodeAgentProfileJSON :: "string \<Rightarrow> bool \<Rightarrow> hub_error + AgentProfile" where
  "decodeAgentProfileJSON data allowLegacyRoots =
     andThen (decodeStrictJSONObject data) (\<lambda>fs. decodeProfileFields fs allowLegacyRoots)"

text \<open>The same on a raw field of an envelope.\<close>

definition decodeProfileValue :: "json \<Rightarrow> hub_error + AgentProfile" where
  "decodeProfileValue raw = andThen (strictFields raw) (\<lambda>fs. decodeProfileFields fs False)"

definition decodePersistedAgentProfile :: "string \<Rightarrow> hub_error + AgentProfile" where
  "decodePersistedAgentProfile data = decodeAgentProfileJSON data True"

section \<open>Observations\<close>

definition isSafeProfileErrorCode :: "string \<Rightarrow> bool" where
  "isSafeProfileErrorCode value = (value = [] \<or> value \<in> set profileErrorCodes)"

definition observationStates :: "string list" where
  "observationStates = [ProfileObservationNotConfigured, ProfileObservationPendingRestart,
     ProfileObservationApplied, ProfileObservationFailed]"

definition validateAgentProfileObservation :: "AgentProfileObservation option \<Rightarrow> hub_error + unit" where
  "validateAgentProfileObservation observation =
     (case observation of
        None \<Rightarrow> ok
      | Some ob \<Rightarrow>
          if obs_Revision ob < 0 then invalid
          else if obs_State ob \<notin> set observationStates then invalid
          else refuse_if (\<not> isSafeProfileErrorCode (obs_ErrorCode ob)))"

text \<open>\<^verbatim>\<open>AgentProfileObservation.UnmarshalJSON\<close>.\<close>

definition decodeObservation :: "string \<Rightarrow> hub_error + AgentProfileObservation" where
  "decodeObservation data =
     andThen (decodeStrictJSONObject data) (\<lambda>fs.
     andThen (onlyFields [''state'', ''revision'', ''error_code''] fs) (\<lambda>_.
     andThen (decodeRequiredJSONField fs ''state'' json_string) (\<lambda>state.
     andThen (decodeRequiredJSONField fs ''revision'' json_int64) (\<lambda>revision.
     andThen (if map_of fs ''error_code'' = None then Inr []
              else decodeRequiredJSONField fs ''error_code'' json_string) (\<lambda>errorCode.
       let value = \<lparr>obs_State = state, obs_Revision = revision, obs_ErrorCode = errorCode\<rparr> in
       andThen (validateAgentProfileObservation (Some value)) (\<lambda>_. Inr value))))))"

section \<open>Request envelopes\<close>

text \<open>\<^verbatim>\<open>AgentProfileApplyRequest.UnmarshalJSON\<close> and \<^verbatim>\<open>AgentProfilePutRequest.UnmarshalJSON\<close>.\<close>

definition decodeApplyRequest :: "string \<Rightarrow> hub_error + AgentProfileApplyRequest" where
  "decodeApplyRequest data =
     andThen (decodeStrictJSONObject data) (\<lambda>fs.
     andThen (onlyFields [''expectedRevision'', ''confirmed''] fs) (\<lambda>_.
     andThen (decodeRequiredJSONField fs ''expectedRevision'' json_int64) (\<lambda>revision.
     andThen (decodeRequiredJSONField fs ''confirmed'' json_bool) (\<lambda>confirmed.
       if revision < 1 then invalid
       else if \<not> confirmed then invalid
       else Inr \<lparr>apr_ExpectedRevision = revision, apr_Confirmed = confirmed\<rparr>))))"

definition decodePutRequest :: "string \<Rightarrow> hub_error + AgentProfilePutRequest" where
  "decodePutRequest data =
     andThen (decodeStrictJSONObject data) (\<lambda>fs.
     andThen (onlyFields [''profile'', ''expectedRevision''] fs) (\<lambda>_.
     andThen (decodeRequiredJSONField fs ''profile'' Some) (\<lambda>profileRaw.
     andThen (decodeRequiredJSONField fs ''expectedRevision'' Some) (\<lambda>revisionRaw.
     andThen (decodeProfileValue profileRaw) (\<lambda>profile.
       case json_int64 revisionRaw of
         None \<Rightarrow> Inl ErrOther
       | Some revision \<Rightarrow> Inr \<lparr>put_Profile = profile, put_ExpectedRevision = revision\<rparr>)))))"

section \<open>Normalisation\<close>

definition validateProfileDependencies :: "AgentProfile \<Rightarrow> hub_error + unit" where
  "validateProfileDependencies p =
     (if prof_AllowDeployActions p \<and> \<not> prof_AllowDeployRead p then invalid
      else if prof_AllowDeployDomainRead p \<and> \<not> prof_AllowDeployRead p then invalid
      else refuse_if (prof_AllowDeployDomainActions p \<and> \<not> prof_AllowDeployDomainRead p))"

definition validateProfileString :: "string \<Rightarrow> hub_error + unit" where
  "validateProfileString value =
     refuse_if (\<not> utf8_valid value \<or> length value > maxProfilePathBytes
                \<or> ContainsAny value [CHR 0x0D, CHR 0x0A, CHR 0x00])"

text \<open>The regular expression \<^verbatim>\<open>^[A-Za-z0-9._/+:-]+$\<close>.\<close>

definition safePathByte :: "char \<Rightarrow> bool" where
  "safePathByte c = (asciiLetterOrDigit (byte c) \<or> c \<in> set ''._/+:-'')"

definition profileSafePathPattern :: "string \<Rightarrow> bool" where
  "profileSafePathPattern value = (value \<noteq> [] \<and> list_all safePathByte value)"

definition validateOptionalProfilePath :: "string \<Rightarrow> bool \<Rightarrow> hub_error + unit" where
  "validateOptionalProfilePath value file =
     (if value = [] then ok
      else andThen (validateProfileString value) (\<lambda>_.
        if value = ''/'' \<or> \<not> IsAbs value \<or> Clean value \<noteq> value then invalid
        else if \<not> profileSafePathPattern value then invalid
        else refuse_if (file \<and> HasSuffix value ''/'')))"

text \<open>The loop over the roots, with the roots seen so far.\<close>

fun checkRoots :: "string list \<Rightarrow> string list \<Rightarrow> hub_error + unit" where
  "checkRoots seen [] = ok"
| "checkRoots seen (r # roots) =
     andThen (validateOptionalProfilePath r False) (\<lambda>_.
       if r = [] then invalid
       else if r \<in> set seen then invalid
       else checkRoots (r # seen) roots)"

definition normalizeProfileRoots :: "string list \<Rightarrow> hub_error + string list" where
  "normalizeProfileRoots raw =
     (if length raw > maxProfileWriteRoots then invalid
      else andThen (checkRoots [] raw) (\<lambda>_. Inr (sort raw)))"

definition NormalizeAgentProfile :: "AgentProfile \<Rightarrow> hub_error + AgentProfile" where
  "NormalizeAgentProfile p =
     andThen (validateProfileDependencies p) (\<lambda>_.
     andThen (validateOptionalProfilePath (prof_DeployPlansFile p) True) (\<lambda>_.
     andThen (validateOptionalProfilePath (prof_DeployAcmeWebroot p) False) (\<lambda>_.
     andThen (normalizeProfileRoots (prof_DeployWriteRoots p)) (\<lambda>roots.
       Inr (p\<lparr>prof_DeployWriteRoots := roots\<rparr>)))))"

section \<open>The apply document\<close>

definition profile_json :: "AgentProfile \<Rightarrow> json" where
  "profile_json p =
     JObj [(''allowDeployRead'', JBool (prof_AllowDeployRead p)),
           (''allowDeployActions'', JBool (prof_AllowDeployActions p)),
           (''allowDeployDomainRead'', JBool (prof_AllowDeployDomainRead p)),
           (''allowDeployDomainActions'', JBool (prof_AllowDeployDomainActions p)),
           (''deployPlansFile'', JStr (prof_DeployPlansFile p)),
           (''deployAcmeWebroot'', JStr (prof_DeployAcmeWebroot p)),
           (''deployWriteRoots'', json_strings (prof_DeployWriteRoots p))]"

text \<open>\<^verbatim>\<open>json.Marshal\<close> of a normalised profile, whose write roots are never the nil slice.\<close>

definition marshalProfile :: "AgentProfile \<Rightarrow> string" where
  "marshalProfile p = json_print (profile_json p)"

definition document_json :: "profileApplyDocument \<Rightarrow> json" where
  "document_json d =
     JObj [(''schema_version'', json_int (doc_SchemaVersion d)), (''revision'', json_int (doc_Revision d)),
           (''profile'', profile_json (doc_Profile d))]"

definition marshalDocument :: "profileApplyDocument \<Rightarrow> string" where
  "marshalDocument d = json_print (document_json d)"

definition canonicalProfileApplyDocument :: "AgentProfile \<Rightarrow> int \<Rightarrow> hub_error + AgentProfile \<times> string" where
  "canonicalProfileApplyDocument profile revision =
     (if revision < 1 then invalid
      else andThen (NormalizeAgentProfile profile) (\<lambda>normalized.
        let document = marshalDocument \<lparr>doc_SchemaVersion = profileApplySchemaVersion,
                         doc_Revision = revision, doc_Profile = normalized\<rparr> in
        if length document > maxProfileJSONBytes then invalid else Inr (normalized, document)))"

definition decodeProfileApplyDocument :: "string \<Rightarrow> hub_error + profileApplyDocument" where
  "decodeProfileApplyDocument data =
     (if length data = 0 \<or> length data > maxProfileJSONBytes then Inl ErrOther
      else andThen (decodeStrictJSONObject data) (\<lambda>fs.
        andThen (onlyFields [''schema_version'', ''revision'', ''profile''] fs) (\<lambda>_.
        andThen (decodeRequiredJSONField fs ''schema_version'' json_int64) (\<lambda>version.
        if version \<noteq> profileApplySchemaVersion then Inl ErrOther
        else andThen (decodeRequiredJSONField fs ''revision'' json_int64) (\<lambda>revision.
        if revision < 1 then Inl ErrOther
        else andThen (decodeRequiredJSONField fs ''profile'' Some) (\<lambda>profileRaw.
        andThen (decodeProfileValue profileRaw) (\<lambda>profile.
        andThen (NormalizeAgentProfile profile) (\<lambda>normalized.
          let document = \<lparr>doc_SchemaVersion = version, doc_Revision = revision, doc_Profile = normalized\<rparr> in
          if marshalDocument document \<noteq> data then Inl ErrOther else Inr document))))))))"

section \<open>The payload of a profile-apply task\<close>

definition profileApplyPayload :: "int \<Rightarrow> string \<Rightarrow> gomap" where
  "profileApplyPayload revision document =
     [(''profile_json_b64'', b64_encode document), (''revision'', FormatInt revision)]"

definition profileApplyPayloadRevision :: "string \<Rightarrow> hub_error + int" where
  "profileApplyPayloadRevision payload =
     andThen (decodeStrictJSONObject payload) (\<lambda>fs.
     if length fs \<noteq> 2 then Inl ErrOther
     else andThen (decodeRequiredJSONField fs ''revision'' json_string) (\<lambda>revisionValue.
     andThen (decodeRequiredJSONField fs ''profile_json_b64'' json_string) (\<lambda>encoded.
     if marshal_map [(''profile_json_b64'', encoded), (''revision'', revisionValue)] \<noteq> payload then Inl ErrOther
     else (case ParseInt64 revisionValue of
         None \<Rightarrow> Inl ErrOther
       | Some revision \<Rightarrow>
           if revision < 1 \<or> FormatInt revision \<noteq> revisionValue then Inl ErrOther
           else (case b64_decode encoded of
               None \<Rightarrow> Inl ErrOther
             | Some profileJSON \<Rightarrow>
                 if b64_encode profileJSON \<noteq> encoded \<or> length profileJSON = 0
                    \<or> length profileJSON > maxProfileJSONBytes \<or> length encoded > maxProfileEncodedBytes
                 then Inl ErrOther
                 else andThen (decodeProfileApplyDocument profileJSON) (\<lambda>document.
                   if doc_Revision document \<noteq> revision then Inl ErrOther else Inr revision))))))"

definition profileApplyPayloadRevisionFromTask :: "Task \<Rightarrow> hub_error + int" where
  "profileApplyPayloadRevisionFromTask task = profileApplyPayloadRevision (marshal_map (task_Payload task))"

section \<open>Results of a profile-apply task\<close>

definition validProfileApplyResultState :: "string \<Rightarrow> bool" where
  "validProfileApplyResultState value =
     (value = ProfileApplyResultRestartScheduled \<or> value = ProfileApplyResultAlreadyActive)"

definition badProfileResultField :: "int \<Rightarrow> string \<times> string \<Rightarrow> bool" where
  "badProfileResultField revision kv =
     (case kv of (key, value) \<Rightarrow>
        if key = ''revision'' then value \<noteq> FormatInt revision
        else if key = ''state'' then \<not> validProfileApplyResultState value
        else if key = ''error_code'' then \<not> isSafeProfileErrorCode value
        else True)"

definition ValidateProfileApplyTaskResult :: "Task \<Rightarrow> TaskResultRequest \<Rightarrow> hub_error + unit" where
  "ValidateProfileApplyTaskResult task req =
     (if task_Kind task \<noteq> TaskProfileApply then invalid
      else (case profileApplyPayloadRevisionFromTask task of
          Inl _ \<Rightarrow> invalid
        | Inr revision \<Rightarrow>
            andThen (ValidateTaskResultRequest req) (\<lambda>_.
            if res_Status req = TaskStatusCompleted then
              (if res_Error req \<noteq> [] then invalid
               else if list_ex (badProfileResultField revision) (res_Result req) then invalid
               else refuse_if (\<not> ghas (res_Result req) ''revision'' \<or> \<not> ghas (res_Result req) ''state''))
            else if res_Status req = TaskStatusFailed then
              refuse_if (length (res_Result req) \<noteq> 0 \<or> \<not> isSafeProfileErrorCode (res_Error req) \<or> res_Error req = [])
            else invalid)))"

section \<open>Normalisation yields a canonical form\<close>

definition goodPath :: "string \<Rightarrow> bool" where
  "goodPath value \<longleftrightarrow> length value \<le> maxProfilePathBytes \<and> value \<noteq> ''/'' \<and> IsAbs value \<and> Clean value = value
     \<and> profileSafePathPattern value"

lemma safePathByte_ascii: "safePathByte c \<Longrightarrow> byte c < 0x80 \<and> c \<noteq> CHR 0x0D \<and> c \<noteq> CHR 0x0A \<and> c \<noteq> CHR 0x00"
  by (auto simp: safePathByte_def asciiLetterOrDigit_def)

lemma safePath_utf8: "profileSafePathPattern v \<Longrightarrow> utf8_valid v"
  by (rule utf8_valid_ascii) (auto simp: profileSafePathPattern_def list_all_iff dest!: safePathByte_ascii)

lemma safePath_no_control:
  "profileSafePathPattern v \<Longrightarrow> \<not> ContainsAny v [CHR 0x0D, CHR 0x0A, CHR 0x00]"
  by (auto simp: profileSafePathPattern_def list_all_iff ContainsAny_def list_ex_iff dest!: safePathByte_ascii)

lemma validateOptionalProfilePath_iff:
  "validateOptionalProfilePath v file = Inr () \<longleftrightarrow> v = [] \<or> goodPath v \<and> \<not> (file \<and> HasSuffix v ''/'')"
  by (auto simp: validateOptionalProfilePath_def validateProfileString_def andThen_Inr_iff goodPath_def
      safePath_utf8 safePath_no_control split: if_splits)

lemma validateOptionalProfilePath_err:
  "validateOptionalProfilePath v file = Inl e \<Longrightarrow> e = ErrInvalidInput"
  by (auto simp: validateOptionalProfilePath_def validateProfileString_def andThen_Inl_iff split: if_splits)

lemma checkRoots_iff:
  "checkRoots seen rs = Inr () \<longleftrightarrow>
     (\<forall>r \<in> set rs. r \<noteq> [] \<and> goodPath r \<and> r \<notin> set seen) \<and> distinct rs"
  by (induction seen rs rule: checkRoots.induct)
     (auto simp: andThen_Inr_iff validateOptionalProfilePath_iff split: if_splits)

lemma checkRoots_err: "checkRoots seen rs = Inl e \<Longrightarrow> e = ErrInvalidInput"
  by (induction seen rs rule: checkRoots.induct)
     (auto simp: andThen_Inl_iff split: if_splits dest: validateOptionalProfilePath_err)

text \<open>The profiles \<^verbatim>\<open>NormalizeAgentProfile\<close> accepts.\<close>

definition validProfile :: "AgentProfile \<Rightarrow> bool" where
  "validProfile p \<longleftrightarrow>
     (prof_AllowDeployActions p \<or> prof_AllowDeployDomainRead p \<longrightarrow> prof_AllowDeployRead p)
     \<and> (prof_AllowDeployDomainActions p \<longrightarrow> prof_AllowDeployDomainRead p)
     \<and> (prof_DeployPlansFile p = [] \<or> goodPath (prof_DeployPlansFile p) \<and> \<not> HasSuffix (prof_DeployPlansFile p) ''/'')
     \<and> (prof_DeployAcmeWebroot p = [] \<or> goodPath (prof_DeployAcmeWebroot p))
     \<and> length (prof_DeployWriteRoots p) \<le> maxProfileWriteRoots
     \<and> distinct (prof_DeployWriteRoots p)
     \<and> (\<forall>r \<in> set (prof_DeployWriteRoots p). r \<noteq> [] \<and> goodPath r)"

lemma validateProfileDependencies_iff:
  "validateProfileDependencies p = Inr () \<longleftrightarrow>
     (prof_AllowDeployActions p \<or> prof_AllowDeployDomainRead p \<longrightarrow> prof_AllowDeployRead p)
     \<and> (prof_AllowDeployDomainActions p \<longrightarrow> prof_AllowDeployDomainRead p)"
  by (auto simp: validateProfileDependencies_def)

lemma NormalizeAgentProfile_Inr:
  "NormalizeAgentProfile p = Inr q \<longleftrightarrow>
     validProfile p \<and> q = p\<lparr>prof_DeployWriteRoots := sort (prof_DeployWriteRoots p)\<rparr>"
  by (auto simp: NormalizeAgentProfile_def andThen_Inr_iff validateOptionalProfilePath_iff
      normalizeProfileRoots_def checkRoots_iff validateProfileDependencies_iff validProfile_def
      not_less split: if_splits)

lemma NormalizeAgentProfile_Inl: "NormalizeAgentProfile p = Inl e \<longleftrightarrow> \<not> validProfile p \<and> e = ErrInvalidInput"
proof (cases "NormalizeAgentProfile p")
  case (Inl e')
  then have "e' = ErrInvalidInput"
    by (auto simp: NormalizeAgentProfile_def andThen_Inl_iff normalizeProfileRoots_def
        validateProfileDependencies_def split: if_splits dest: validateOptionalProfilePath_err checkRoots_err)
  moreover have "\<not> validProfile p" using Inl NormalizeAgentProfile_Inr [of p] by auto
  ultimately show ?thesis using Inl by auto
next
  case (Inr q)
  then have "validProfile p" by (simp add: NormalizeAgentProfile_Inr)
  with Inr show ?thesis by simp
qed

text \<open>A profile in canonical form: valid, with its roots in increasing order.\<close>

definition canonicalProfile :: "AgentProfile \<Rightarrow> bool" where
  "canonicalProfile p \<longleftrightarrow> validProfile p \<and> sorted (prof_DeployWriteRoots p)"

lemma validProfile_sorted:
  "validProfile p \<Longrightarrow> canonicalProfile (p\<lparr>prof_DeployWriteRoots := sort (prof_DeployWriteRoots p)\<rparr>)"
  by (auto simp: validProfile_def canonicalProfile_def)

lemma Normalize_canonical: "NormalizeAgentProfile p = Inr q \<Longrightarrow> canonicalProfile q"
  by (auto simp: NormalizeAgentProfile_Inr validProfile_sorted)

lemma Normalize_fixed: "canonicalProfile p \<Longrightarrow> NormalizeAgentProfile p = Inr p"
  by (auto simp: NormalizeAgentProfile_Inr canonicalProfile_def sorted_sort_id)

section \<open>Documents read back\<close>

lemma option_list_Some [simp]: "option_list (map Some xs) = Some xs"
  by (induction xs) auto

lemma json_string_JStr: "json_string \<circ> JStr = Some"
  by (simp add: fun_eq_iff)

lemma decodeRootsField_strings: "decodeRootsField legacy (json_strings rs) = Some rs"
  by (simp add: decodeRootsField_def json_strings_def json_string_JStr)

lemma decodeProfileFields_json:
  "strictFields (profile_json p) = Inr fs \<Longrightarrow> decodeProfileFields fs legacy = Inr p"
  unfolding profile_json_def strictFields_def
  by (auto simp: decodeProfileFields_def onlyFields_def profileFields_def decodeRequiredJSONField_def
      isJSONNull_def decodeRootsField_strings)
     (simp_all add: json_strings_def)

lemma strictFields_profile: "\<exists>fs. strictFields (profile_json p) = Inr fs"
  by (simp add: strictFields_def profile_json_def)

lemma decodeProfileValue_json [simp]: "decodeProfileValue (profile_json p) = Inr p"
  using strictFields_profile [of p] decodeProfileFields_json [of p]
  by (auto simp: decodeProfileValue_def)

text \<open>Profiles whose strings are valid UTF-8, as every profile the normalisation accepts.\<close>

definition utf8Profile :: "AgentProfile \<Rightarrow> bool" where
  "utf8Profile p \<longleftrightarrow> utf8_valid (prof_DeployPlansFile p) \<and> utf8_valid (prof_DeployAcmeWebroot p)
     \<and> list_all utf8_valid (prof_DeployWriteRoots p)"

lemma validProfile_utf8: "validProfile p \<Longrightarrow> utf8Profile p"
proof -
  have "goodPath v \<Longrightarrow> utf8_valid v" for v
    by (simp add: goodPath_def safePath_utf8)
  then show "validProfile p \<Longrightarrow> utf8Profile p"
    by (fastforce simp: validProfile_def utf8Profile_def list_all_iff)
qed

lemma clean_elems_strings: "clean_elems (map JStr rs) = list_all utf8_valid rs"
  by (induction rs) auto

lemma depth_elems_strings: "depth_elems (map JStr rs) = 0"
  by (induction rs) auto

lemma ascii_key: "list_all (\<lambda>c. byte c < 0x80) k \<Longrightarrow> utf8_valid k"
  by (rule utf8_valid_ascii) (auto simp: list_all_iff)

lemma profile_json_clean: "utf8Profile p \<Longrightarrow> json_clean (profile_json p)"
  by (simp add: profile_json_def json_strings_def utf8Profile_def clean_elems_strings ascii_key)

lemma profile_json_depth: "json_depth (profile_json p) = 2"
  by (simp add: profile_json_def json_strings_def depth_elems_strings)

lemma decodeStrict_print:
  assumes "json_clean (JObj ms)" "json_depth (JObj ms) \<le> Suc maxNestingDepth" "distinct (map fst ms)"
  shows "decodeStrictJSONObject (json_print (JObj ms)) = Inr ms"
  using json_roundtrip [OF assms(1,2)] assms(3) by (simp add: decodeStrictJSONObject_def)

lemma decodeAgentProfile_marshal:
  assumes "utf8Profile p"
  shows "decodeAgentProfileJSON (marshalProfile p) legacy = Inr p"
proof -
  obtain ms where ms: "profile_json p = JObj ms" "distinct (map fst ms)"
    by (simp add: profile_json_def)
  then have "decodeStrictJSONObject (marshalProfile p) = Inr ms"
    using profile_json_clean [OF assms] profile_json_depth [of p]
    unfolding marshalProfile_def ms(1) by (intro decodeStrict_print) (auto simp: maxNestingDepth_def)
  moreover have "strictFields (profile_json p) = Inr ms" using ms by (simp add: strictFields_def)
  ultimately show ?thesis by (simp add: decodeAgentProfileJSON_def decodeProfileFields_json)
qed

lemma document_json_clean:
  "utf8Profile (doc_Profile d) \<Longrightarrow> json_clean (document_json d) \<and> json_depth (document_json d) = 3"
  by (simp add: document_json_def json_int_def profile_json_clean profile_json_depth ascii_key
      valid_num_FormatInt num_char_FormatInt)

lemma decodeStrict_document:
  assumes "utf8Profile (doc_Profile d)"
  shows "decodeStrictJSONObject (marshalDocument d) =
    Inr [(''schema_version'', json_int (doc_SchemaVersion d)), (''revision'', json_int (doc_Revision d)),
         (''profile'', profile_json (doc_Profile d))]"
  using document_json_clean [OF assms] unfolding marshalDocument_def document_json_def
  by (intro decodeStrict_print) (auto simp: maxNestingDepth_def)

lemma json_int64_json_int: "- (2 ^ 63) \<le> i \<Longrightarrow> i < 2 ^ 63 \<Longrightarrow> json_int64 (json_int i) = Some i"
  by (simp add: json_int_def ParseInt64_FormatInt)

lemma decodeProfileApplyDocument_marshal:
  assumes "canonicalProfile p" "1 \<le> r" "r < 2 ^ 63"
    and d: "d = \<lparr>doc_SchemaVersion = profileApplySchemaVersion, doc_Revision = r, doc_Profile = p\<rparr>"
    and "length (marshalDocument d) \<le> maxProfileJSONBytes"
  shows "decodeProfileApplyDocument (marshalDocument d) = Inr d"
proof -
  have "utf8Profile (doc_Profile d)"
    using assms(1) by (simp add: d canonicalProfile_def validProfile_utf8)
  note fields = decodeStrict_document [OF this]
  have "marshalDocument d \<noteq> []"
    by (simp add: marshalDocument_def document_json_def)
  then show ?thesis
    using assms fields
    by (simp add: decodeProfileApplyDocument_def d onlyFields_def decodeRequiredJSONField_def
        json_int64_json_int Normalize_fixed isJSONNull_def json_int_def ParseInt64_FormatInt
        profileApplySchemaVersion_def profile_json_def [THEN arg_cong [of _ _ "\<lambda>x. x = JNull"]])
qed

lemma canonicalProfileApplyDocument_Inr:
  "canonicalProfileApplyDocument p r = Inr (q, doc) \<longleftrightarrow>
     1 \<le> r \<and> NormalizeAgentProfile p = Inr q
     \<and> doc = marshalDocument \<lparr>doc_SchemaVersion = profileApplySchemaVersion, doc_Revision = r, doc_Profile = q\<rparr>
     \<and> length doc \<le> maxProfileJSONBytes"
  by (cases "NormalizeAgentProfile p") (auto simp: canonicalProfileApplyDocument_def Let_def)

lemma canonicalProfileApplyDocument_Inl:
  "canonicalProfileApplyDocument p r = Inl e \<Longrightarrow> e = ErrInvalidInput"
  by (auto simp: canonicalProfileApplyDocument_def andThen_Inl_iff Let_def NormalizeAgentProfile_Inl
      split: if_splits)

lemma payload_ok: "gomap_ok (profileApplyPayload r doc)"
  by (simp add: profileApplyPayload_def gomap_ok_def)

lemma FormatInt_utf8: "utf8_valid (FormatInt i)"
  by (rule utf8_valid_ascii) (auto simp: asciiDigit_def dest!: FormatInt_chars)

lemma b64_utf8: "utf8_valid (b64_encode s)"
  by (rule utf8_valid_ascii) (auto dest: b64_encode_ascii)

lemma payload_utf8: "gomap_utf8 (profileApplyPayload r doc)"
  by (simp add: profileApplyPayload_def gomap_utf8_def FormatInt_utf8 b64_utf8 ascii_key)

lemma decodeStrict_map:
  assumes "gomap_ok m" "gomap_utf8 m"
  shows "decodeStrictJSONObject (marshal_map m) = Inr (map (\<lambda>(k, v). (k, JStr v)) m)"
  using string_obj_clean [OF assms(2)] gomap_ok_distinct [OF assms(1)]
  unfolding marshal_map_def string_obj_def
  by (intro decodeStrict_print) (auto simp: maxNestingDepth_def comp_def case_prod_unfold)

lemma payload_revision:
  assumes "canonicalProfileApplyDocument p r = Inr (q, doc)" "r < 2 ^ 63"
  shows "profileApplyPayloadRevision (marshal_map (profileApplyPayload r doc)) = Inr r"
proof -
  define d where "d = \<lparr>doc_SchemaVersion = profileApplySchemaVersion, doc_Revision = r, doc_Profile = q\<rparr>"
  have r: "1 \<le> r" and q: "canonicalProfile q" and doc: "doc = marshalDocument d"
    and len: "length doc \<le> maxProfileJSONBytes"
    using assms(1) by (auto simp: canonicalProfileApplyDocument_Inr d_def dest: Normalize_canonical)
  have dec: "decodeProfileApplyDocument doc = Inr d"
    unfolding doc by (rule decodeProfileApplyDocument_marshal [OF q r assms(2) d_def]) (use doc len in simp)
  have ne: "doc \<noteq> []" by (simp add: doc marshalDocument_def document_json_def)
  have "length (b64_encode doc) \<le> maxProfileEncodedBytes"
    using len by (simp add: b64_encode_length maxProfileEncodedBytes_def div_le_mono)
  then show ?thesis
    using decodeStrict_map [OF payload_ok payload_utf8, of r doc] ne len r assms(2) dec
    by (simp add: profileApplyPayloadRevision_def profileApplyPayload_def decodeRequiredJSONField_def
        isJSONNull_def ParseInt64_FormatInt b64_roundtrip d_def)
qed

lemma decodeProfileApplyDocument_Inr:
  assumes "decodeProfileApplyDocument data = Inr d"
  shows "data = marshalDocument d \<and> canonicalProfile (doc_Profile d) \<and> 1 \<le> doc_Revision d
    \<and> doc_SchemaVersion d = profileApplySchemaVersion \<and> length data \<le> maxProfileJSONBytes"
  using assms
  by (auto simp: decodeProfileApplyDocument_def andThen_Inr_iff Let_def split: if_splits
      dest: Normalize_canonical)

text \<open>A payload that is accepted is the one the hub writes for that revision and some profile.\<close>

lemma payload_revision_exact:
  assumes "profileApplyPayloadRevision payload = Inr r"
  shows "\<exists>p doc. canonicalProfileApplyDocument p r = Inr (p, doc)
    \<and> payload = marshal_map (profileApplyPayload r doc) \<and> 1 \<le> r \<and> r < 2 ^ 63"
proof -
  obtain rv enc doc d where
    "payload = marshal_map [(''profile_json_b64'', enc), (''revision'', rv)]"
    "ParseInt64 rv = Some r" "FormatInt r = rv" "1 \<le> r" "b64_encode doc = enc"
    and d: "decodeProfileApplyDocument doc = Inr d" "doc_Revision d = r"
    using assms
    by (auto simp: profileApplyPayloadRevision_def andThen_Inr_iff not_less
        split: if_splits option.splits)
  moreover have "canonicalProfileApplyDocument (doc_Profile d) r = Inr (doc_Profile d, doc)"
    using decodeProfileApplyDocument_Inr [OF d(1)] d(2) \<open>1 \<le> r\<close>
    by (cases d) (auto simp: canonicalProfileApplyDocument_Inr Normalize_fixed)
  ultimately show ?thesis
    using ParseInt64_range [of rv r] by (auto simp: profileApplyPayload_def)
qed

end
