(* ===== verification/HubHeartbeat.thy ===== *)
theory HubHeartbeat
  imports HubProfile
begin

text \<open>
  Admission of a registration and of a heartbeat, \<^verbatim>\<open>service.go\<close>: \<^verbatim>\<open>validateRegisterNodeRequest\<close>,
  \<^verbatim>\<open>validateHeartbeatFields\<close> and \<^verbatim>\<open>heartbeatAge\<close>. The shortest decimal text of a float64, needed only for
  the size of the encoded inventory, is the parameter \<open>ff\<close>. The byte counters are 64-bit words; the
  lemmas show that the subtractions of the checks do not wrap where they are reached, so that the
  accepted counters add up without overflow.
\<close>

section \<open>Registration\<close>

definition validateRegisterNodeRequest :: "RegisterNodeRequest \<Rightarrow> hub_error + unit" where
  "validateRegisterNodeRequest req =
     (if \<not> validNodeID (reg_ID req) then invalid
      else refuse_if (TrimSpace (reg_Name req) = [] \<or> length (reg_Name req) > maxNodeNameLength
                      \<or> containsControl (reg_Name req)))"

section \<open>Freshness\<close>

definition HeartbeatFreshnessWindow :: duration where
  "HeartbeatFreshnessWindow = 5 * Minute"

definition NodeOnlineWindow :: duration where
  "NodeOnlineWindow = 45 * Second"

definition heartbeatAge :: "go_time \<Rightarrow> go_time \<Rightarrow> duration" where
  "heartbeatAge now sentAt =
     (if IsZero sentAt then HeartbeatFreshnessWindow + 1
      else if sentAt > now then time_sub sentAt now
      else time_sub now sentAt)"

section \<open>Fields\<close>

definition knownCapabilities :: "string list" where
  "knownCapabilities =
     [CapabilityInventory, CapabilityServiceStatus, CapabilityServiceAction, CapabilityHostAction,
      CapabilityProcessRead, CapabilityProcessSignal, CapabilityTerminal, CapabilityDiskCleanup,
      CapabilityLogsRead, CapabilityContainerRead, CapabilityContainerAction, CapabilityNginxAction,
      CapabilityNginxConfigRead, CapabilityNginxConfigWrite, CapabilityPHPRead, CapabilityPHPWrite,
      CapabilityPHPAction, CapabilityPM2Read, CapabilityPM2Action, CapabilityCronRead,
      CapabilityCronWrite, CapabilityCronRun, CapabilityFirewallRead, CapabilityFirewallWrite,
      CapabilityDomainRead, CapabilityDomainAction, CapabilitySSLRead, CapabilitySSLAction,
      CapabilityDatabaseRead, CapabilityDatabaseAction, CapabilityBackupRead, CapabilityBackupRun,
      CapabilityFilesRead, CapabilityFilesWrite, CapabilityDeployRead, CapabilityDeployAction,
      CapabilityDeployDomainRead, CapabilityDeployDomainAction, CapabilityAgentUpdateRead,
      CapabilityAgentUpdateAction, CapabilityIntegrationStatus, CapabilityMetricsRead,
      CapabilityProfileApply]"

definition badCounters :: "u64 \<Rightarrow> u64 \<Rightarrow> u64 \<Rightarrow> bool" where
  "badCounters used avail tot = (used > tot \<or> avail > tot \<or> used > tot - avail)"

definition badMount :: "DiskMount \<Rightarrow> bool" where
  "badMount m =
     (mnt_Filesystem m = [] \<or> mnt_Mountpoint m = [] \<or> length (mnt_Filesystem m) > 255 \<or> length (mnt_Mountpoint m) > 512
      \<or> containsControl (mnt_Filesystem m) \<or> containsControl (mnt_Mountpoint m)
      \<or> mnt_UsePercent m < 0 \<or> mnt_UsePercent m > 100
      \<or> badCounters (mnt_Used m) (mnt_Available m) (mnt_Size m))"

definition badProcess :: "Process \<Rightarrow> bool" where
  "badProcess p =
     (proc_PID p \<le> 0 \<or> proc_StartTime p = 0 \<or> length (proc_User p) > 64 \<or> length (proc_Command p) > 512
      \<or> containsControl (proc_User p) \<or> containsControl (proc_Command p)
      \<or> IsNaN (proc_CPU p) \<or> IsInf (proc_CPU p) \<or> f_lt (proc_CPU p) (Fin 0)
      \<or> IsNaN (proc_Memory p) \<or> IsInf (proc_Memory p) \<or> f_lt (proc_Memory p) (Fin 0))"

definition slice :: "'a list option \<Rightarrow> 'a list" where
  "slice s = (case s of None \<Rightarrow> [] | Some xs \<Rightarrow> xs)"

text \<open>The checks on names, capabilities and the profile observation.\<close>

definition validateHeartbeatHead :: "HeartbeatRequest \<Rightarrow> hub_error + unit" where
  "validateHeartbeatHead req =
     (if \<not> validNodeID (hb_NodeID req) then invalid
      else andThen (validateAgentProfileObservation (hb_Profile req)) (\<lambda>_.
        if length (hb_Hostname req) > maxHostnameLength \<or> containsControl (hb_Hostname req) then invalid
        else if length (hb_AgentVersion req) > maxAgentVersionLength \<or> containsControl (hb_AgentVersion req) then invalid
        else if length (inv_Arch (hb_Inventory req)) > 32 \<or> containsControl (inv_Arch (hb_Inventory req)) then invalid
        else refuse_if (\<not> list_all (\<lambda>c. c \<in> set knownCapabilities) (hb_Capabilities req)
                        \<or> \<not> distinct (hb_Capabilities req))))"

text \<open>The checks on disk, swap, log sources, file roots and processes.\<close>

definition validateInventory :: "(rat \<Rightarrow> string) \<Rightarrow> Inventory \<Rightarrow> hub_error + unit" where
  "validateInventory ff i =
     (if IsNaN (inv_DiskUsePercent i) \<or> IsInf (inv_DiskUsePercent i)
         \<or> f_lt (inv_DiskUsePercent i) (Fin 0) \<or> f_gt (inv_DiskUsePercent i) (Fin 100) then invalid
      else if badCounters (inv_DiskUsed i) (inv_DiskAvailable i) (inv_DiskTotal i) then invalid
      else if length (inv_DiskMounts i) > 64 then invalid
      else if list_ex badMount (inv_DiskMounts i) then invalid
      else if badCounters (inv_SwapUsed i) (inv_SwapFree i) (inv_SwapTotal i) then invalid
      else if length (slice (inv_Processes i)) > 50 then invalid
      else if length (inv_LogSources i) > 7 then invalid
      else if \<not> list_all validLogSource (inv_LogSources i) \<or> \<not> distinct (inv_LogSources i) then invalid
      else if \<not> validManagedFileRootInventory (slice (inv_FileReadRoots i)) None
              \<or> \<not> validManagedFileRootInventory (inv_FileWriteRoots i) (inv_FileReadRoots i) then invalid
      else if list_ex badProcess (slice (inv_Processes i)) then invalid
      else (case inventory_json ff i of
              None \<Rightarrow> invalid
            | Some j \<Rightarrow> refuse_if (length (json_print j) > maxHeartbeatInventorySize)))"

definition validateHeartbeatFields :: "(rat \<Rightarrow> string) \<Rightarrow> HeartbeatRequest \<Rightarrow> hub_error + unit" where
  "validateHeartbeatFields ff req =
     andThen (validateHeartbeatHead req) (\<lambda>_. validateInventory ff (hb_Inventory req))"

section \<open>What admission guarantees\<close>

lemma badCounters_iff: "badCounters u f t \<longleftrightarrow> unat u + unat f > unat t"
proof -
  have "u > t - f \<longleftrightarrow> unat u + unat f > unat t" if "f \<le> t"
    using that by (auto simp: word_less_nat_alt unat_sub word_le_nat_alt)
  then show ?thesis
    by (cases "f \<le> t") (auto simp: badCounters_def word_less_nat_alt word_le_nat_alt)
qed

text \<open>Only the sentinel error of invalid input comes out of the admission checks.\<close>

lemma validateAgentProfileObservation_err:
  "validateAgentProfileObservation ob = Inl e \<Longrightarrow> e = ErrInvalidInput"
  by (auto simp: validateAgentProfileObservation_def split: option.splits if_splits)

lemma validateHeartbeatFields_err: "validateHeartbeatFields ff req = Inl e \<Longrightarrow> e = ErrInvalidInput"
  by (auto simp: validateHeartbeatFields_def validateHeartbeatHead_def validateInventory_def andThen_Inl_iff
      dest: validateAgentProfileObservation_err split: if_splits option.splits)

lemma heartbeatAge_fresh:
  "heartbeatAge now sentAt \<le> HeartbeatFreshnessWindow \<longleftrightarrow>
     sentAt \<noteq> 0 \<and> \<bar>now - sentAt\<bar> \<le> HeartbeatFreshnessWindow"
proof -
  have w: "HeartbeatFreshnessWindow < maxDuration" "minDuration \<le> HeartbeatFreshnessWindow"
    by (simp_all add: HeartbeatFreshnessWindow_def Minute_def Second_def maxDuration_def minDuration_def)
  show ?thesis
    by (auto simp: heartbeatAge_def IsZero_def time_sub_le_iff [OF w])
qed

lemma validateHeartbeatFields_Inr:
  assumes "validateHeartbeatFields ff req = Inr ()"
  shows "validateHeartbeatHead req = Inr ()" "validateInventory ff (hb_Inventory req) = Inr ()"
  using assms by (auto simp: validateHeartbeatFields_def andThen_Inr_iff)

lemma validateInventory_counters:
  assumes "validateInventory ff i = Inr ()"
  shows "unat (inv_DiskUsed i) + unat (inv_DiskAvailable i) \<le> unat (inv_DiskTotal i)"
    and "unat (inv_SwapUsed i) + unat (inv_SwapFree i) \<le> unat (inv_SwapTotal i)"
    and "m \<in> set (inv_DiskMounts i) \<Longrightarrow> unat (mnt_Used m) + unat (mnt_Available m) \<le> unat (mnt_Size m)"
  using assms
  by (auto simp: validateInventory_def badCounters_iff badMount_def list_ex_iff not_less split: if_splits)

lemma validateInventory_json:
  assumes "validateInventory ff i = Inr ()"
  shows "\<exists>j. inventory_json ff i = Some j \<and> length (json_print j) \<le> maxHeartbeatInventorySize"
  using assms by (auto simp: validateInventory_def split: if_splits option.splits)

lemma knownCapabilities_utf8: "c \<in> set knownCapabilities \<Longrightarrow> utf8_valid c"
  by (auto simp: knownCapabilities_def hub_consts ascii_key)

end
