(* ===== verification/GoSHA256.thy ===== *)
theory GoSHA256
  imports GoEncoding "HOL-Library.Word"
begin

unbundle bit_operations_syntax

text \<open>
  SHA-256 as \<^verbatim>\<open>crypto/sha256.Sum256\<close> computes it (FIPS 180-4): padding, message schedule and the
  64-round compression over 32-bit words, where addition wraps. The hub stores the hex form of
  the digest of a bearer token; the facts used of it are its length and alphabet.
\<close>

type_synonym u32 = "32 word"

definition rotr32 :: "nat \<Rightarrow> u32 \<Rightarrow> u32" where
  "rotr32 n x = (drop_bit n x OR push_bit (32 - n) x)"

text \<open>
  The constants are the first 32 bits of the fractional parts of the cube roots of the first 64
  primes, and of the square roots of the first 8. \<open>root_bits k n\<close> is the whole part of the \<open>k\<close>-th root
  of \<open>n\<close>, found bit by bit from bit 35 down.
\<close>

definition root_bits :: "nat \<Rightarrow> nat \<Rightarrow> nat" where
  "root_bits k n = fold (\<lambda>i r. if (r + 2 ^ i) ^ k \<le> n then r + 2 ^ i else r) (rev [0..<36]) 0"

definition sha_primes :: "nat list" where
  "sha_primes = filter (\<lambda>n. list_all (\<lambda>d. n mod d \<noteq> 0) [2..<n]) [2..<312]"

definition sha_K :: "u32 list" where
  "sha_K = map (\<lambda>p. word_of_nat (root_bits 3 (p * 2 ^ 96))) sha_primes"

type_synonym sha_state = "u32 \<times> u32 \<times> u32 \<times> u32 \<times> u32 \<times> u32 \<times> u32 \<times> u32"

definition sha_half :: "nat \<Rightarrow> u32" where
  "sha_half p = word_of_nat (root_bits 2 (p * 2 ^ 64))"

definition sha_init :: sha_state where
  "sha_init = (sha_half 2, sha_half 3, sha_half 5, sha_half 7, sha_half 11, sha_half 13, sha_half 17, sha_half 19)"

lemma sha_half_first: "sha_half 2 = 0x6a09e667"
  by (simp add: sha_half_def root_bits_def upt_rec)

lemma sha_K_last: "(word_of_nat (root_bits 3 (311 * 2 ^ 96)) :: u32) = 0xc67178f2"
  by (simp add: root_bits_def upt_rec)

definition sha_round :: "u32 \<times> u32 \<Rightarrow> sha_state \<Rightarrow> sha_state" where
  "sha_round kw st =
     (case st of (a, b, c, d, e, f, g, h) \<Rightarrow>
       let t1 = h + (rotr32 6 e XOR rotr32 11 e XOR rotr32 25 e) + ((e AND f) XOR (NOT e AND g))
                  + fst kw + snd kw;
           t2 = (rotr32 2 a XOR rotr32 13 a XOR rotr32 22 a)
                  + ((a AND b) XOR (a AND c) XOR (b AND c))
       in (t1 + t2, a, b, c, d + t1, e, f, g))"

text \<open>The message schedule, kept newest first.\<close>

definition sha_extend :: "u32 list \<Rightarrow> u32 list" where
  "sha_extend w =
     (let x1 = w ! 1; x14 = w ! 14 in
      ((rotr32 17 x1 XOR rotr32 19 x1 XOR drop_bit 10 x1) + w ! 6
        + (rotr32 7 x14 XOR rotr32 18 x14 XOR drop_bit 3 x14) + w ! 15) # w)"

definition sha_schedule :: "u32 list \<Rightarrow> u32 list" where
  "sha_schedule block = rev ((sha_extend ^^ 48) (rev block))"

definition sha_block :: "u32 list \<Rightarrow> sha_state \<Rightarrow> sha_state" where
  "sha_block block st =
     (case (st, fold sha_round (zip sha_K (sha_schedule block)) st) of
        ((a, b, c, d, e, f, g, h), (a', b', c', d', e', f', g', h')) \<Rightarrow>
          (a + a', b + b', c + c', d + d', e + e', f + f', g + g', h + h'))"

fun words_of :: "string \<Rightarrow> u32 list" where
  "words_of (a # b # c # d # s) =
     word_of_nat (byte a * 16777216 + byte b * 65536 + byte c * 256 + byte d) # words_of s"
| "words_of _ = []"

definition word_bytes :: "u32 \<Rightarrow> string" where
  "word_bytes w =
     [char_of (unat (drop_bit 24 w)), char_of (unat (drop_bit 16 w) mod 256),
      char_of (unat (drop_bit 8 w) mod 256), char_of (unat w mod 256)]"

definition sha_pad :: "string \<Rightarrow> string" where
  "sha_pad m =
     (let n = length m; z = (119 - n mod 64) mod 64; bits = 8 * n in
      m @ CHR 0x80 # replicate z (CHR 0x00)
        @ map (\<lambda>i. char_of (bits div 256 ^ (7 - i) mod 256)) [0..<8])"

function sha_blocks :: "u32 list \<Rightarrow> sha_state \<Rightarrow> sha_state" where
  "sha_blocks ws st = (if length ws < 16 then st else sha_blocks (drop 16 ws) (sha_block (take 16 ws) st))"
  by pat_completeness auto
termination
  by (relation "measure (\<lambda>(ws, st). length ws)") auto

declare sha_blocks.simps [simp del]

definition Sum256 :: "string \<Rightarrow> string" where
  "Sum256 m =
     (case sha_blocks (words_of (sha_pad m)) sha_init of (a, b, c, d, e, f, g, h) \<Rightarrow>
        concat (map word_bytes [a, b, c, d, e, f, g, h]))"

text \<open>\<^verbatim>\<open>hex.EncodeToString(sha256.Sum256([]byte(token)))\<close>, the form in which a token is stored.\<close>

definition token_digest :: "string \<Rightarrow> string" where
  "token_digest t = hex_encode (Sum256 t)"

lemma Sum256_length: "length (Sum256 m) = 32"
  by (auto simp: Sum256_def word_bytes_def split: prod.split)

lemma token_digest_length [simp]: "length (token_digest t) = 64"
  by (simp add: token_digest_def Sum256_length)

lemma token_digest_hex: "list_all lower_hex (token_digest t)"
  by (simp add: token_digest_def hex_encode_lower)

end
