(* ===== verification/HubRepository.thy ===== *)
theory HubRepository
  imports HubProfile HubHeartbeat GoSHA256 "HOL-Library.AList"
begin

text \<open>
  The SQLite persistence boundary, \<^verbatim>\<open>internal/agenthub/repository.go\<close>. The database is a record with one
  component per table:
  \<^item> the nodes in insertion order, the tasks in primary-key order with the AUTOINCREMENT counter,
    and the profile and observation tables as association lists by node;
  \<^item> the JSON columns of the tasks and of the profiles and the capabilities hold their text and
    are decoded when a row is scanned; the inventory column holds what its text decodes to;
  \<^item> a time column holds the instant; its RFC3339Nano text matters only for the order of
    \<^verbatim>\<open>ListNodes\<close>.
  Each operation is one transaction: it returns the new database and its result. Constraints
  (primary keys, foreign keys, CHECK) are modelled as SQLite enforces them. Failures of the driver
  itself (I/O, a nil connection) are not modelled; \<open>ErrOther\<close> is an error without a sentinel.
\<close>

section \<open>Tables\<close>

record node_row =
  nr_ID :: string
  nr_Name :: string
  nr_Hostname :: string
  nr_AgentVersion :: string
  nr_ProtocolVersion :: string
  nr_CapabilitiesJSON :: string
  nr_Inventory :: Inventory
  nr_TokenHash :: string
  nr_LastSeenAt :: "go_time option"
  nr_CreatedAt :: go_time
  nr_UpdatedAt :: go_time

record task_row =
  tr_ID :: int
  tr_NodeID :: string
  tr_Kind :: string
  tr_PayloadJSON :: string
  tr_Status :: string
  tr_ResultJSON :: string
  tr_Error :: string
  tr_CreatedAt :: go_time
  tr_StartedAt :: "go_time option"
  tr_CompletedAt :: "go_time option"

record profile_row =
  pr_ProfileJSON :: string
  pr_Revision :: int
  pr_UpdatedAt :: go_time

record hub_db =
  db_Nodes :: "node_row list"
  db_Tasks :: "task_row list"
  db_Seq :: int
  db_Profiles :: "(string \<times> profile_row) list"
  db_Observations :: "(string \<times> AgentProfileObservationRecord) list"

text \<open>The database after \<^verbatim>\<open>Migrate\<close> on an empty file.\<close>

definition Migrate :: hub_db where
  "Migrate = \<lparr>db_Nodes = [], db_Tasks = [], db_Seq = 0, db_Profiles = [], db_Observations = []\<rparr>"

text \<open>
  The upgrade of an older node table, on the names of its columns: a column added by \<^verbatim>\<open>ALTER TABLE\<close>
  comes last.
\<close>

definition ensureAgentNodeCapabilitiesColumn :: "string list \<Rightarrow> string list" where
  "ensureAgentNodeCapabilitiesColumn columns =
     (if list_ex (\<lambda>name. name = ''capabilities_json'') columns then columns
      else columns @ [''capabilities_json''])"

text \<open>The CHECK constraints of the schema.\<close>

definition statusCheck :: "string \<Rightarrow> bool" where
  "statusCheck s = (s \<in> {''queued'', ''running'', ''completed'', ''failed''})"

definition observationCheck :: "string \<Rightarrow> int \<Rightarrow> string \<Rightarrow> bool" where
  "observationCheck state revision code =
     (state \<in> {''not_configured'', ''pending_restart'', ''applied'', ''failed''} \<and> revision \<ge> 0 \<and>
      code \<in> set ['''', ''not_configured'', ''invalid_profile'', ''permission_denied'', ''write_failed'', ''restart_failed'',
        ''apply_failed'', ''profile_apply_failed'', ''unsupported'', ''not_supported'', ''timeout'', ''stale_revision'',
        ''invalid_revision'', ''agent_error'', ''unknown'', ''profile_missing'', ''profile_corrupt'',
        ''profile_state_corrupt'', ''profile_revision_invalid'', ''profile_payload_invalid'',
        ''profile_payload_too_large'', ''profile_apply_unavailable'', ''profile_schedule_failed'',
        ''profile_store_failed'', ''profile_superseded''])"

type_synonym 'a outcome = "hub_db \<times> (hub_error + 'a)"

section \<open>Rows\<close>

definition scanNode :: "node_row \<Rightarrow> hub_error + Node" where
  "scanNode r =
     (case unmarshal_strings (if nr_CapabilitiesJSON r = [] then ''[]'' else nr_CapabilitiesJSON r) of
        None \<Rightarrow> Inl ErrOther
      | Some caps \<Rightarrow>
          Inr \<lparr>node_ID = nr_ID r, node_Name = nr_Name r, node_Hostname = nr_Hostname r,
               node_AgentVersion = nr_AgentVersion r, node_ProtocolVersion = nr_ProtocolVersion r,
               node_Capabilities = caps, node_Inventory = nr_Inventory r,
               node_LastSeenAt = nr_LastSeenAt r, node_CreatedAt = nr_CreatedAt r,
               node_UpdatedAt = nr_UpdatedAt r\<rparr>)"

definition scanMap :: "string \<Rightarrow> gomap option" where
  "scanMap text = unmarshal_map (if text = [] \<or> text = ''null'' then ''{}'' else text)"

definition scanTask :: "task_row \<Rightarrow> hub_error + Task" where
  "scanTask r =
     (case (scanMap (tr_PayloadJSON r), scanMap (tr_ResultJSON r)) of
        (Some payload, Some result) \<Rightarrow>
          Inr \<lparr>task_ID = tr_ID r, task_NodeID = tr_NodeID r, task_Kind = tr_Kind r, task_Payload = payload,
               task_Status = tr_Status r, task_Result = result, task_Error = tr_Error r,
               task_CreatedAt = tr_CreatedAt r, task_StartedAt = tr_StartedAt r,
               task_CompletedAt = tr_CompletedAt r\<rparr>
      | _ \<Rightarrow> Inl ErrOther)"

definition findNode :: "hub_db \<Rightarrow> string \<Rightarrow> node_row option" where
  "findNode db nodeID = find (\<lambda>r. nr_ID r = nodeID) (db_Nodes db)"

definition findTask :: "hub_db \<Rightarrow> int \<Rightarrow> task_row option" where
  "findTask db taskID = find (\<lambda>r. tr_ID r = taskID) (db_Tasks db)"

definition marshalStringMap :: "gomap \<Rightarrow> string" where
  "marshalStringMap values = marshal_map values"

section \<open>Nodes\<close>

definition GetNode :: "hub_db \<Rightarrow> string \<Rightarrow> hub_error + Node" where
  "GetNode db nodeID = (case findNode db nodeID of None \<Rightarrow> Inl ErrNotFound | Some r \<Rightarrow> scanNode r)"

definition CreateNode :: "hub_db \<Rightarrow> RegisterNodeRequest \<Rightarrow> string \<Rightarrow> go_time \<Rightarrow> Node outcome" where
  "CreateNode db req tokenHash now =
     (if tokenHash = [] \<or> reg_ID req = [] \<or> reg_Name req = [] then (db, invalid)
      else if findNode db (reg_ID req) \<noteq> None then (db, Inl ErrAlreadyExists)
      else
        let row = \<lparr>nr_ID = reg_ID req, nr_Name = reg_Name req, nr_Hostname = [], nr_AgentVersion = [],
                   nr_ProtocolVersion = [], nr_CapabilitiesJSON = ''[]'', nr_Inventory = zeroInventory,
                   nr_TokenHash = tokenHash, nr_LastSeenAt = None, nr_CreatedAt = now, nr_UpdatedAt = now\<rparr>;
            db' = db\<lparr>db_Nodes := db_Nodes db @ [row]\<rparr>
        in (db', GetNode db' (reg_ID req)))"

text \<open>\<^verbatim>\<open>subtle.ConstantTimeCompare\<close>: equal lengths and no differing bit.\<close>

definition constantTimeEqual :: "string \<Rightarrow> string \<Rightarrow> bool" where
  "constantTimeEqual stored expected =
     (length stored = length expected \<and>
      fold (\<lambda>(a, b) v. or v (xor (byte a) (byte b))) (zip stored expected) (0::nat) = 0)"

definition AuthenticateToken :: "hub_db \<Rightarrow> string \<Rightarrow> string \<Rightarrow> hub_error + Node" where
  "AuthenticateToken db nodeID token =
     (case findNode db nodeID of
        None \<Rightarrow> Inl ErrUnauthorized
      | Some r \<Rightarrow>
          if \<not> constantTimeEqual (nr_TokenHash r) (token_digest token) then Inl ErrUnauthorized
          else GetNode db nodeID)"

text \<open>\<^verbatim>\<open>ORDER BY created_at DESC, id ASC\<close> on the texts of the timestamps.\<close>

definition nodeOrder :: "node_row list \<Rightarrow> node_row list" where
  "nodeOrder rows = rev (sort_key (\<lambda>r. rfc3339nano (nr_CreatedAt r)) (rev (sort_key nr_ID rows)))"

fun scanAll :: "('r \<Rightarrow> hub_error + 'a) \<Rightarrow> 'r list \<Rightarrow> hub_error + 'a list" where
  "scanAll scan [] = Inr []"
| "scanAll scan (r # rs) = andThen (scan r) (\<lambda>x. andThen (scanAll scan rs) (\<lambda>xs. Inr (x # xs)))"

definition ListNodes :: "hub_db \<Rightarrow> hub_error + Node list" where
  "ListNodes db = scanAll scanNode (nodeOrder (db_Nodes db))"

section \<open>Profiles\<close>

definition GetNodeProfile :: "hub_db \<Rightarrow> string \<Rightarrow> hub_error + AgentProfileRecord" where
  "GetNodeProfile db nodeID =
     (if findNode db nodeID = None then Inl ErrNotFound
      else
        let absent = \<lparr>rec_Profile = emptyAgentProfile, rec_Revision = 0, rec_Configured = False\<rparr> in
        case map_of (db_Profiles db) nodeID of
          None \<Rightarrow> Inr absent
        | Some row \<Rightarrow>
            if pr_ProfileJSON row = [] then Inr absent
            else andThen (decodePersistedAgentProfile (pr_ProfileJSON row)) (\<lambda>profile.
                 andThen (NormalizeAgentProfile profile) (\<lambda>normalized.
                   if pr_Revision row < 1 then Inl ErrOther
                   else Inr \<lparr>rec_Profile = normalized, rec_Revision = pr_Revision row, rec_Configured = True\<rparr>)))"

text \<open>Addition of \<^verbatim>\<open>int64\<close> values, which wraps.\<close>

definition wrap_int64 :: "int \<Rightarrow> int" where
  "wrap_int64 i = (i + 2 ^ 63) mod 2 ^ 64 - 2 ^ 63"

definition SaveNodeProfile ::
  "hub_db \<Rightarrow> string \<Rightarrow> AgentProfile \<Rightarrow> int \<Rightarrow> go_time \<Rightarrow> AgentProfileRecord outcome" where
  "SaveNodeProfile db nodeID profile expectedRevision now =
     (if expectedRevision < 0 then (db, invalid)
      else case NormalizeAgentProfile profile of
        Inl e \<Rightarrow> (db, Inl e)
      | Inr normalized \<Rightarrow>
          if findNode db nodeID = None then (db, Inl ErrNotFound)
          else
            let current = map_of (db_Profiles db) nodeID;
                newRevision = (case current of None \<Rightarrow> 1 | Some row \<Rightarrow> wrap_int64 (pr_Revision row + 1));
                stale = (case current of
                           None \<Rightarrow> expectedRevision \<noteq> 0
                         | Some row \<Rightarrow> pr_Revision row < 1 \<or> pr_Revision row \<noteq> expectedRevision)
            in
            if stale then (db, Inl ErrProfileRevisionStale)
            else case canonicalProfileApplyDocument normalized newRevision of
              Inl e \<Rightarrow> (db, Inl e)
            | Inr _ \<Rightarrow>
                (db\<lparr>db_Profiles := AList.update nodeID
                      \<lparr>pr_ProfileJSON = marshalProfile normalized, pr_Revision = newRevision, pr_UpdatedAt = now\<rparr>
                      (db_Profiles db)\<rparr>,
                 Inr \<lparr>rec_Profile = normalized, rec_Revision = newRevision, rec_Configured = True\<rparr>))"

section \<open>Observations and heartbeats\<close>

definition GetNodeProfileObservation :: "hub_db \<Rightarrow> string \<Rightarrow> hub_error + AgentProfileObservationRecord option" where
  "GetNodeProfileObservation db nodeID =
     (if findNode db nodeID = None then Inl ErrNotFound
      else case map_of (db_Observations db) nodeID of
        None \<Rightarrow> Inr None
      | Some row \<Rightarrow>
          if or_Revision row < 0 then Inl ErrOther
          else andThen (validateAgentProfileObservation
                 (Some \<lparr>obs_State = or_State row, obs_Revision = or_Revision row, obs_ErrorCode = or_ErrorCode row\<rparr>))
               (\<lambda>_. Inr (Some row)))"

definition observationRow :: "AgentProfileObservation \<Rightarrow> go_time \<Rightarrow> AgentProfileObservationRecord" where
  "observationRow ob now =
     \<lparr>or_State = obs_State ob, or_Revision = obs_Revision ob, or_ErrorCode = obs_ErrorCode ob, or_UpdatedAt = now\<rparr>"

text \<open>The upsert of both writers of the table; \<open>None\<close> when a CHECK constraint refuses the row.\<close>

definition putObservation :: "hub_db \<Rightarrow> string \<Rightarrow> AgentProfileObservation \<Rightarrow> go_time \<Rightarrow> hub_db option" where
  "putObservation db nodeID ob now =
     (if observationCheck (obs_State ob) (obs_Revision ob) (obs_ErrorCode ob)
      then Some (db\<lparr>db_Observations := AList.update nodeID (observationRow ob now) (db_Observations db)\<rparr>)
      else None)"

definition UpsertNodeProfileObservation ::
  "hub_db \<Rightarrow> string \<Rightarrow> AgentProfileObservation \<Rightarrow> go_time \<Rightarrow> unit outcome" where
  "UpsertNodeProfileObservation db nodeID ob now =
     (case validateAgentProfileObservation (Some ob) of
        Inl e \<Rightarrow> (db, Inl e)
      | Inr _ \<Rightarrow>
          (case putObservation db nodeID ob now of
             None \<Rightarrow> (db, Inl ErrOther)
           | Some db' \<Rightarrow> if findNode db nodeID = None then (db, Inl ErrNotFound) else (db', ok)))"

definition ClearNodeProfileObservation :: "hub_db \<Rightarrow> string \<Rightarrow> unit outcome" where
  "ClearNodeProfileObservation db nodeID =
     (if map_of (db_Observations db) nodeID \<noteq> None then
        (db\<lparr>db_Observations := AList.delete nodeID (db_Observations db)\<rparr>, ok)
      else (db, andThen (GetNode db nodeID) (\<lambda>_. ok)))"

text \<open>
  What the inventory column decodes to after \<^verbatim>\<open>json.Marshal\<close>: invalid UTF-8 is replaced and an empty
  list of an \<^verbatim>\<open>omitempty\<close> field comes back as the nil slice. A float comes back unchanged, its text
  being the shortest that rounds to it.
\<close>

definition storedInventory :: "Inventory \<Rightarrow> Inventory" where
  "storedInventory i =
     i\<lparr>inv_OS := coerce_utf8 (inv_OS i), inv_Arch := coerce_utf8 (inv_Arch i),
       inv_Kernel := coerce_utf8 (inv_Kernel i), inv_BootID := coerce_utf8 (inv_BootID i),
       inv_SwapResetReason := coerce_utf8 (inv_SwapResetReason i),
       inv_DiskMounts := map (\<lambda>m. m\<lparr>mnt_Filesystem := coerce_utf8 (mnt_Filesystem m),
                                   mnt_Mountpoint := coerce_utf8 (mnt_Mountpoint m)\<rparr>) (inv_DiskMounts i),
       inv_Services := map_option (map (\<lambda>s. \<lparr>svc_Name = coerce_utf8 (svc_Name s),
                          svc_Active = coerce_utf8 (svc_Active s), svc_Sub = coerce_utf8 (svc_Sub s)\<rparr>)) (inv_Services i),
       inv_Processes := map_option (map (\<lambda>p. p\<lparr>proc_User := coerce_utf8 (proc_User p),
                          proc_Command := coerce_utf8 (proc_Command p)\<rparr>)) (inv_Processes i),
       inv_LogSources := map coerce_utf8 (inv_LogSources i),
       inv_FileReadRoots := (case inv_FileReadRoots i of
          Some (r # rs) \<Rightarrow> Some (map coerce_utf8 (r # rs)) | _ \<Rightarrow> None),
       inv_FileWriteRoots := map coerce_utf8 (inv_FileWriteRoots i)\<rparr>"

definition heartbeatRow :: "HeartbeatRequest \<Rightarrow> go_time \<Rightarrow> node_row \<Rightarrow> node_row" where
  "heartbeatRow req serverNow r =
     r\<lparr>nr_Hostname := hb_Hostname req, nr_AgentVersion := hb_AgentVersion req,
       nr_ProtocolVersion := hb_ProtocolVersion req,
       nr_CapabilitiesJSON := marshal_strings (hb_Capabilities req),
       nr_Inventory := storedInventory (hb_Inventory req),
       nr_LastSeenAt := Some serverNow, nr_UpdatedAt := serverNow\<rparr>"

definition UpdateHeartbeat ::
  "(rat \<Rightarrow> string) \<Rightarrow> hub_db \<Rightarrow> string \<Rightarrow> HeartbeatRequest \<Rightarrow> go_time \<Rightarrow> unit outcome" where
  "UpdateHeartbeat ff db nodeID req serverNow =
     (case validateAgentProfileObservation (hb_Profile req) of
        Inl e \<Rightarrow> (db, Inl e)
      | Inr _ \<Rightarrow>
          if inventory_json ff (hb_Inventory req) = None then (db, Inl ErrOther)
          else if findNode db nodeID = None then (db, Inl ErrNotFound)
          else
            let db1 = db\<lparr>db_Nodes := map (\<lambda>r. if nr_ID r = nodeID then heartbeatRow req serverNow r else r) (db_Nodes db)\<rparr>
            in case (hasCapability (hb_Capabilities req) CapabilityProfileApply, hb_Profile req) of
                 (True, Some ob) \<Rightarrow>
                   (case putObservation db1 nodeID ob serverNow of
                      None \<Rightarrow> (db, Inl ErrOther)
                    | Some db2 \<Rightarrow> (db2, ok))
               | _ \<Rightarrow> (db1\<lparr>db_Observations := AList.delete nodeID (db_Observations db1)\<rparr>, ok))"

section \<open>Tasks\<close>

definition GetTask :: "hub_db \<Rightarrow> int \<Rightarrow> hub_error + Task" where
  "GetTask db taskID = (case findTask db taskID of None \<Rightarrow> Inl ErrNotFound | Some r \<Rightarrow> scanTask r)"

definition GetTaskForNode :: "hub_db \<Rightarrow> string \<Rightarrow> int \<Rightarrow> hub_error + Task" where
  "GetTaskForNode db nodeID taskID =
     (case find (\<lambda>r. tr_ID r = taskID \<and> tr_NodeID r = nodeID) (db_Tasks db) of
        None \<Rightarrow> Inl ErrNotFound
      | Some r \<Rightarrow> scanTask r)"

text \<open>\<^verbatim>\<open>ORDER BY id DESC LIMIT n\<close>; a negative limit is no limit.\<close>

definition ListTasksForNode :: "hub_db \<Rightarrow> string \<Rightarrow> int \<Rightarrow> hub_error + Task list" where
  "ListTasksForNode db nodeID limit =
     (let rows = rev (filter (\<lambda>r. tr_NodeID r = nodeID) (db_Tasks db)) in
      scanAll scanTask (if limit < 0 then rows else take (nat limit) rows))"

text \<open>
  The INSERT of a queued task: the foreign key, then the next AUTOINCREMENT key, which SQLite
  refuses to give out beyond the largest \<^verbatim>\<open>int64\<close>.
\<close>

definition insertTask :: "hub_db \<Rightarrow> string \<Rightarrow> string \<Rightarrow> string \<Rightarrow> go_time \<Rightarrow> int outcome" where
  "insertTask db nodeID kind payload now =
     (if db_Seq db \<ge> 2 ^ 63 - 1 then (db, Inl ErrOther)
      else if findNode db nodeID = None then (db, Inl ErrNotFound)
      else
        let taskID = db_Seq db + 1;
            row = \<lparr>tr_ID = taskID, tr_NodeID = nodeID, tr_Kind = kind, tr_PayloadJSON = payload,
                   tr_Status = TaskStatusQueued, tr_ResultJSON = ''{}'', tr_Error = [], tr_CreatedAt = now,
                   tr_StartedAt = None, tr_CompletedAt = None\<rparr>
        in (db\<lparr>db_Tasks := db_Tasks db @ [row], db_Seq := taskID\<rparr>, Inr taskID))"

definition CreateTask :: "hub_db \<Rightarrow> string \<Rightarrow> TaskRequest \<Rightarrow> go_time \<Rightarrow> Task outcome" where
  "CreateTask db nodeID req now =
     (if req_Kind req = TaskProfileApply then (db, invalid)
      else case insertTask db nodeID (req_Kind req) (marshalStringMap (req_Payload req)) now of
        (db', r) \<Rightarrow> (db', andThen r (GetTask db')))"

text \<open>The queued or running profile-apply rows of a node, newest first.\<close>

definition inFlight :: "task_row \<Rightarrow> bool" where
  "inFlight r = (tr_Status r = TaskStatusQueued \<or> tr_Status r = TaskStatusRunning)"

definition inFlightApply :: "hub_db \<Rightarrow> string \<Rightarrow> task_row list" where
  "inFlightApply db nodeID =
     rev (filter (\<lambda>r. tr_NodeID r = nodeID \<and> tr_Kind r = TaskProfileApply \<and> inFlight r) (db_Tasks db))"

definition sameRevision :: "int \<Rightarrow> task_row \<Rightarrow> bool" where
  "sameRevision expectedRevision r = (profileApplyPayloadRevision (tr_PayloadJSON r) = Inr expectedRevision)"

text \<open>The checks of the desired row inside the transaction.\<close>

definition checkDesired :: "hub_db \<Rightarrow> string \<Rightarrow> int \<Rightarrow> AgentProfile \<Rightarrow> hub_error + unit" where
  "checkDesired db nodeID expectedRevision normalized =
     (if findNode db nodeID = None then Inl ErrNotFound
      else case map_of (db_Profiles db) nodeID of
        None \<Rightarrow> Inl ErrProfileNotConfigured
      | Some row \<Rightarrow>
          if pr_Revision row \<noteq> expectedRevision then Inl ErrProfileRevisionStale
          else (case decodePersistedAgentProfile (pr_ProfileJSON row) of
              Inl _ \<Rightarrow> invalid
            | Inr stored \<Rightarrow>
                (case NormalizeAgentProfile stored of
                   Inl _ \<Rightarrow> invalid
                 | Inr stored' \<Rightarrow> refuse_if (marshalProfile stored' \<noteq> marshalProfile normalized))))"

definition observedApplied :: "hub_db \<Rightarrow> string \<Rightarrow> int \<Rightarrow> bool" where
  "observedApplied db nodeID expectedRevision =
     (case map_of (db_Observations db) nodeID of
        None \<Rightarrow> False
      | Some ob \<Rightarrow> or_State ob = ProfileObservationApplied \<and> or_Revision ob = expectedRevision)"

text \<open>The last part of the transaction: conflict, coalescing, or a new row.\<close>

definition coalesceOrInsert :: "hub_db \<Rightarrow> string \<Rightarrow> int \<Rightarrow> string \<Rightarrow> go_time \<Rightarrow> Task option outcome" where
  "coalesceOrInsert db nodeID expectedRevision payload now =
     (let rows = inFlightApply db nodeID in
      if list_ex (\<lambda>r. \<not> sameRevision expectedRevision r) rows then (db, Inl ErrProfileApplyInFlight)
      else case rows of
        r # _ \<Rightarrow> (db, andThen (GetTask db (tr_ID r)) (\<lambda>t. Inr (Some t)))
      | [] \<Rightarrow>
          (case insertTask db nodeID TaskProfileApply payload now of
             (db', res) \<Rightarrow> (db', andThen (andThen res (GetTask db')) (\<lambda>t. Inr (Some t)))))"

definition CreateProfileApplyTask ::
  "hub_db \<Rightarrow> string \<Rightarrow> int \<Rightarrow> AgentProfile \<Rightarrow> go_time \<Rightarrow> Task option outcome" where
  "CreateProfileApplyTask db nodeID expectedRevision profile now =
     (if expectedRevision < 1 then (db, invalid)
      else case canonicalProfileApplyDocument profile expectedRevision of
        Inl e \<Rightarrow> (db, Inl e)
      | Inr (normalized, profileJSON) \<Rightarrow>
          if length profileJSON > maxProfileJSONBytes \<or> length (b64_encode profileJSON) > maxProfileEncodedBytes
          then (db, invalid)
          else case checkDesired db nodeID expectedRevision normalized of
            Inl e \<Rightarrow> (db, Inl e)
          | Inr _ \<Rightarrow>
              if observedApplied db nodeID expectedRevision then (db, Inr None)
              else coalesceOrInsert db nodeID expectedRevision
                     (marshalStringMap (profileApplyPayload expectedRevision profileJSON)) now)"

definition GetLatestProfileApplyTask :: "hub_db \<Rightarrow> string \<Rightarrow> hub_error + Task option" where
  "GetLatestProfileApplyTask db nodeID =
     (case rev (filter (\<lambda>r. tr_NodeID r = nodeID \<and> tr_Kind r = TaskProfileApply) (db_Tasks db)) of
        [] \<Rightarrow> Inr None
      | r # _ \<Rightarrow> andThen (scanTask r) (\<lambda>t. Inr (Some t)))"

section \<open>Claiming and completing\<close>

definition claimable :: "string \<Rightarrow> task_row \<Rightarrow> bool" where
  "claimable nodeID r = (tr_NodeID r = nodeID \<and> tr_Status r = TaskStatusQueued)"

definition updateTask :: "hub_db \<Rightarrow> int \<Rightarrow> (task_row \<Rightarrow> task_row) \<Rightarrow> hub_db" where
  "updateTask db taskID f = db\<lparr>db_Tasks := map (\<lambda>r. if tr_ID r = taskID then f r else r) (db_Tasks db)\<rparr>"

definition ClaimNextTask :: "hub_db \<Rightarrow> string \<Rightarrow> go_time \<Rightarrow> Task option outcome" where
  "ClaimNextTask db nodeID now =
     (case find (claimable nodeID) (db_Tasks db) of
        None \<Rightarrow> (db, Inr None)
      | Some r \<Rightarrow>
          let claim = (\<lambda>r. r\<lparr>tr_Status := TaskStatusRunning, tr_StartedAt := Some now\<rparr>)
          in (updateTask db (tr_ID r) claim, andThen (scanTask (claim r)) (\<lambda>t. Inr (Some t))))"

definition completedRow :: "TaskResultRequest \<Rightarrow> go_time \<Rightarrow> task_row \<Rightarrow> task_row" where
  "completedRow req now r =
     r\<lparr>tr_Status := res_Status req, tr_ResultJSON := marshalStringMap (res_Result req),
       tr_Error := res_Error req, tr_CompletedAt := Some now\<rparr>"

definition repoCompleteTask :: "hub_db \<Rightarrow> string \<Rightarrow> int \<Rightarrow> TaskResultRequest \<Rightarrow> go_time \<Rightarrow> Task outcome" where
  "repoCompleteTask db nodeID taskID req now =
     (case (case GetTaskForNode db nodeID taskID of
              Inr task \<Rightarrow> if task_Kind task = TaskProfileApply then ValidateProfileApplyTaskResult task req else ok
            | Inl _ \<Rightarrow> ok) of
        Inl e \<Rightarrow> (db, Inl e)
      | Inr _ \<Rightarrow>
          (case find (\<lambda>r. tr_ID r = taskID \<and> tr_NodeID r = nodeID \<and> tr_Status r = TaskStatusRunning) (db_Tasks db) of
             None \<Rightarrow> (db, Inl ErrTaskNotClaimed)
           | Some _ \<Rightarrow>
               if \<not> statusCheck (res_Status req) then (db, Inl ErrOther)
               else let db' = updateTask db taskID (completedRow req now) in (db', GetTask db' taskID)))"

end
