(* ===== verification/HubInvariant.thy ===== *)
theory HubInvariant
  imports HubRepository
begin

text \<open>
  The well-formedness of the hub's database and that every transaction of the repository preserves
  it, whatever its arguments, as long as they passed the validation the service does first. The
  invariant has five parts: the node table, the task table (keys increasing and below the
  counter, rows that decode, the lifecycle columns in step with the status), the foreign keys, the
  profile rows (canonical documents with a positive revision), the observation rows, and the
  profile-apply queue (at most one task in flight for a node).
\<close>

section \<open>The parts of the invariant\<close>

definition nodeIDs :: "hub_db \<Rightarrow> string set" where
  "nodeIDs db = nr_ID ` set (db_Nodes db)"

definition node_ok :: "node_row \<Rightarrow> bool" where
  "node_ok r \<longleftrightarrow> is_ok (scanNode r) \<and> length (nr_TokenHash r) = 64 \<and> list_all lower_hex (nr_TokenHash r)"

definition nodes_ok :: "hub_db \<Rightarrow> bool" where
  "nodes_ok db \<longleftrightarrow> distinct (map nr_ID (db_Nodes db)) \<and> list_all node_ok (db_Nodes db)"

definition lifecycle_ok :: "task_row \<Rightarrow> bool" where
  "lifecycle_ok r \<longleftrightarrow>
     (tr_Status r = TaskStatusQueued \<and> tr_StartedAt r = None \<and> tr_CompletedAt r = None)
     \<or> (tr_Status r = TaskStatusRunning \<and> tr_StartedAt r \<noteq> None \<and> tr_CompletedAt r = None)
     \<or> ((tr_Status r = TaskStatusCompleted \<or> tr_Status r = TaskStatusFailed)
        \<and> tr_StartedAt r \<noteq> None \<and> tr_CompletedAt r \<noteq> None)"

definition task_ok :: "task_row \<Rightarrow> bool" where
  "task_ok r \<longleftrightarrow> is_ok (scanTask r) \<and> lifecycle_ok r"

definition tasks_ok :: "hub_db \<Rightarrow> bool" where
  "tasks_ok db \<longleftrightarrow>
     sorted_wrt (<) (map tr_ID (db_Tasks db))
     \<and> (\<forall>r \<in> set (db_Tasks db). 0 < tr_ID r \<and> tr_ID r \<le> db_Seq db \<and> task_ok r \<and> tr_NodeID r \<in> nodeIDs db)
     \<and> 0 \<le> db_Seq db \<and> db_Seq db < 2 ^ 63"

definition profile_row_ok :: "profile_row \<Rightarrow> bool" where
  "profile_row_ok row \<longleftrightarrow>
     1 \<le> pr_Revision row \<and> pr_Revision row < 2 ^ 63
     \<and> (\<exists>p. canonicalProfile p \<and> pr_ProfileJSON row = marshalProfile p
          \<and> is_ok (canonicalProfileApplyDocument p (pr_Revision row)))"

definition profiles_ok :: "hub_db \<Rightarrow> bool" where
  "profiles_ok db \<longleftrightarrow>
     (\<forall>n row. map_of (db_Profiles db) n = Some row \<longrightarrow> n \<in> nodeIDs db \<and> profile_row_ok row)"

definition observation_row_ok :: "AgentProfileObservationRecord \<Rightarrow> bool" where
  "observation_row_ok ob \<longleftrightarrow> observationCheck (or_State ob) (or_Revision ob) (or_ErrorCode ob)"

definition observations_ok :: "hub_db \<Rightarrow> bool" where
  "observations_ok db \<longleftrightarrow>
     (\<forall>n ob. map_of (db_Observations db) n = Some ob \<longrightarrow> n \<in> nodeIDs db \<and> observation_row_ok ob)"

definition currentRevision :: "hub_db \<Rightarrow> string \<Rightarrow> int" where
  "currentRevision db n = (case map_of (db_Profiles db) n of None \<Rightarrow> 0 | Some row \<Rightarrow> pr_Revision row)"

definition apply_row_ok :: "hub_db \<Rightarrow> task_row \<Rightarrow> bool" where
  "apply_row_ok db r \<longleftrightarrow>
     (tr_Kind r = TaskProfileApply \<longrightarrow>
        (\<exists>v. profileApplyPayloadRevision (tr_PayloadJSON r) = Inr v \<and> v \<le> currentRevision db (tr_NodeID r)))"

definition applies_ok :: "hub_db \<Rightarrow> bool" where
  "applies_ok db \<longleftrightarrow>
     (\<forall>r \<in> set (db_Tasks db). apply_row_ok db r) \<and> (\<forall>n. length (inFlightApply db n) \<le> 1)"

definition hub_inv :: "hub_db \<Rightarrow> bool" where
  "hub_inv db \<longleftrightarrow> nodes_ok db \<and> tasks_ok db \<and> profiles_ok db \<and> observations_ok db \<and> applies_ok db"

named_theorems inv_defs \<open>the parts of the database invariant\<close>

lemmas [inv_defs] = nodes_ok_def tasks_ok_def profiles_ok_def observations_ok_def applies_ok_def nodeIDs_def

lemma hub_inv_Migrate: "hub_inv Migrate"
  by (simp add: hub_inv_def inv_defs Migrate_def inFlightApply_def)

section \<open>Lookups\<close>

lemma findNode_None_iff: "findNode db n = None \<longleftrightarrow> n \<notin> nodeIDs db"
  by (auto simp: findNode_def nodeIDs_def find_None_iff)

lemma findNode_Some: "findNode db n = Some r \<Longrightarrow> r \<in> set (db_Nodes db) \<and> nr_ID r = n"
  by (auto simp: findNode_def find_Some_iff)

lemma findNode_in:
  assumes "nodes_ok db" "r \<in> set (db_Nodes db)"
  shows "findNode db (nr_ID r) = Some r"
proof (cases "findNode db (nr_ID r)")
  case None
  then show ?thesis using assms(2) by (auto simp: findNode_None_iff nodeIDs_def)
next
  case (Some r')
  with assms show ?thesis using findNode_Some [OF Some]
    by (auto simp: nodes_ok_def distinct_map inj_on_def)
qed

lemma scanNode_fields:
  assumes "scanNode r = Inr node"
  shows "node_ID node = nr_ID r" "node_Name node = nr_Name r" "node_LastSeenAt node = nr_LastSeenAt r"
    "node_CreatedAt node = nr_CreatedAt r" "node_UpdatedAt node = nr_UpdatedAt r"
    "unmarshal_strings (if nr_CapabilitiesJSON r = [] then ''[]'' else nr_CapabilitiesJSON r) = Some (node_Capabilities node)"
  using assms
  by (cases "unmarshal_strings (if nr_CapabilitiesJSON r = [] then ''[]'' else nr_CapabilitiesJSON r)";
      auto simp: scanNode_def)+

lemma GetNode_ok:
  assumes "nodes_ok db" "n \<in> nodeIDs db"
  shows "\<exists>node. GetNode db n = Inr node \<and> node_ID node = n"
proof -
  obtain r where r: "findNode db n = Some r"
    using assms(2) by (cases "findNode db n") (auto simp: findNode_None_iff)
  then have "is_ok (scanNode r)" "nr_ID r = n"
    using assms(1) findNode_Some [OF r] by (auto simp: nodes_ok_def list_all_iff node_ok_def)
  then show ?thesis using r scanNode_fields(1) [of r] by (auto simp: GetNode_def is_ok_iff)
qed

lemma findTask_in:
  assumes "tasks_ok db" "r \<in> set (db_Tasks db)"
  shows "findTask db (tr_ID r) = Some r"
proof -
  have "inj_on tr_ID (set (db_Tasks db))"
    using assms(1) by (auto simp: tasks_ok_def strict_sorted_iff distinct_map)
  moreover have "\<exists>r'. findTask db (tr_ID r) = Some r'"
    using assms(2) by (cases "findTask db (tr_ID r)") (auto simp: findTask_def find_None_iff)
  ultimately show ?thesis
    using assms(2) by (auto simp: findTask_def find_Some_iff inj_on_def)
qed

lemma task_unique:
  "tasks_ok db \<Longrightarrow> r \<in> set (db_Tasks db) \<Longrightarrow> s \<in> set (db_Tasks db) \<Longrightarrow> tr_ID r = tr_ID s \<Longrightarrow> r = s"
  by (metis findTask_in option.inject)

lemma findTask_Some: "findTask db t = Some r \<Longrightarrow> r \<in> set (db_Tasks db) \<and> tr_ID r = t"
  by (auto simp: findTask_def find_Some_iff)

lemma scanMap_marshal: "\<exists>m'. scanMap (marshal_map m) = Some m'"
proof -
  have "marshal_map m \<noteq> []" "marshal_map m \<noteq> ''null''"
    by (simp_all add: marshal_map_def string_obj_def)
  then show ?thesis using unmarshal_marshal_total [of m] by (auto simp: scanMap_def)
qed

lemma scanMap_empty: "scanMap ''{}'' = Some []"
proof -
  have "marshal_map [] = ''{}''" by (simp add: marshal_map_def string_obj_def)
  moreover have "unmarshal_map (marshal_map []) = Some []"
    by (rule string_map_roundtrip) (simp_all add: gomap_utf8_def)
  ultimately show ?thesis by (simp add: scanMap_def)
qed

lemma scanTask_is_ok: "is_ok (scanTask r) \<longleftrightarrow> scanMap (tr_PayloadJSON r) \<noteq> None \<and> scanMap (tr_ResultJSON r) \<noteq> None"
  by (auto simp: scanTask_def split: option.splits)

lemma scanTask_fields:
  assumes "scanTask r = Inr t"
  shows "task_ID t = tr_ID r" "task_NodeID t = tr_NodeID r" "task_Kind t = tr_Kind r"
    "task_Status t = tr_Status r" "task_Error t = tr_Error r"
    "task_StartedAt t = tr_StartedAt r" "task_CompletedAt t = tr_CompletedAt r" "task_CreatedAt t = tr_CreatedAt r"
  using assms by (auto simp: scanTask_def split: option.splits)

lemma GetTask_ok:
  assumes "tasks_ok db" "r \<in> set (db_Tasks db)"
  shows "\<exists>t. GetTask db (tr_ID r) = Inr t \<and> scanTask r = Inr t"
  using assms findTask_in [OF assms]
  by (auto simp: GetTask_def tasks_ok_def task_ok_def is_ok_iff)

lemma scanAll_ok: "(\<forall>r \<in> set rs. is_ok (scan r)) \<Longrightarrow> \<exists>xs. scanAll scan rs = Inr xs \<and> map scan rs = map Inr xs"
  by (induction rs) (auto simp: is_ok_iff)

section \<open>Transactions on the node table\<close>

lemma hub_inv_grow_nodes:
  assumes "hub_inv db" "nodes_ok db'" "nodeIDs db \<subseteq> nodeIDs db'"
    and "db_Tasks db' = db_Tasks db" "db_Seq db' = db_Seq db" "db_Profiles db' = db_Profiles db"
    and "observations_ok db'"
  shows "hub_inv db'"
  using assms
  by (auto simp: hub_inv_def tasks_ok_def profiles_ok_def applies_ok_def apply_row_ok_def
      currentRevision_def inFlightApply_def)

lemma unmarshal_empty_strings: "unmarshal_strings ''[]'' = Some []"
proof -
  have "marshal_strings [] = ''[]''" by (simp add: marshal_strings_def)
  then show ?thesis using strings_roundtrip [of "[]"] by simp
qed

lemma CreateNode_inv:
  assumes inv: "hub_inv db" and new: "CreateNode db req (token_digest token) now = (db', r)"
  shows "hub_inv db'"
proof (cases "db' = db")
  case False
  define row where "row = \<lparr>nr_ID = reg_ID req, nr_Name = reg_Name req, nr_Hostname = [], nr_AgentVersion = [],
                   nr_ProtocolVersion = [], nr_CapabilitiesJSON = ''[]'', nr_Inventory = zeroInventory,
                   nr_TokenHash = token_digest token, nr_LastSeenAt = None, nr_CreatedAt = now, nr_UpdatedAt = now\<rparr>"
  have db': "db' = db\<lparr>db_Nodes := db_Nodes db @ [row]\<rparr>" "reg_ID req \<notin> nodeIDs db"
    using new False by (auto simp: CreateNode_def Let_def row_def findNode_None_iff split: if_splits)
  have "node_ok row"
    by (simp add: node_ok_def row_def scanNode_def unmarshal_empty_strings token_digest_hex)
  then have "nodes_ok db'"
    using inv db' by (auto simp: hub_inv_def nodes_ok_def row_def nodeIDs_def)
  then show ?thesis
    using inv by (rule_tac hub_inv_grow_nodes [OF inv]) (auto simp: db'(1) nodeIDs_def hub_inv_def observations_ok_def)
qed (use inv in simp)

lemma validHeartbeat_utf8:
  assumes "validateHeartbeatHead req = Inr ()"
  shows "list_all utf8_valid (hb_Capabilities req)"
  using assms
  by (auto simp: validateHeartbeatHead_def andThen_Inr_iff list_all_iff knownCapabilities_utf8 split: if_splits)

lemma heartbeatRow_ok:
  assumes "node_ok r" "list_all utf8_valid (hb_Capabilities req)"
  shows "node_ok (heartbeatRow req now r)"
proof -
  have "marshal_strings (hb_Capabilities req) \<noteq> []" by (simp add: marshal_strings_def)
  then show ?thesis
    using assms strings_roundtrip [OF assms(2)] by (simp add: node_ok_def heartbeatRow_def scanNode_def)
qed

lemma map_of_delete_Some: "map_of (AList.delete k al) n = Some v \<Longrightarrow> n \<noteq> k \<and> map_of al n = Some v"
  by (simp add: delete_conv split: if_splits)

lemma observations_update:
  assumes "observations_ok db" "nodeIDs db' = nodeIDs db" "n \<in> nodeIDs db" "observation_row_ok row"
    and "db_Observations db' = AList.update n row (db_Observations db)"
  shows "observations_ok db'"
  using assms by (auto simp: observations_ok_def update_conv)

lemma observations_delete:
  assumes "observations_ok db" "nodeIDs db' = nodeIDs db"
    and "db_Observations db' = AList.delete n (db_Observations db)"
  shows "observations_ok db'"
  using assms by (auto simp: observations_ok_def dest: map_of_delete_Some)

lemma putObservation_Some:
  "putObservation db n ob now = Some db' \<longleftrightarrow>
     observation_row_ok (observationRow ob now)
     \<and> db' = db\<lparr>db_Observations := AList.update n (observationRow ob now) (db_Observations db)\<rparr>"
  by (auto simp: putObservation_def observation_row_ok_def observationRow_def)

text \<open>The database after an accepted heartbeat.\<close>

lemma UpdateHeartbeat_cases:
  assumes "UpdateHeartbeat ff db n req now = (db', r)"
  shows "db' = db \<and> \<not> is_ok r
    \<or> (r = Inr () \<and> n \<in> nodeIDs db
       \<and> db_Nodes db' = map (\<lambda>row. if nr_ID row = n then heartbeatRow req now row else row) (db_Nodes db)
       \<and> db_Tasks db' = db_Tasks db \<and> db_Seq db' = db_Seq db \<and> db_Profiles db' = db_Profiles db
       \<and> (case hb_Profile req of
            Some ob \<Rightarrow>
              if hasCapability (hb_Capabilities req) CapabilityProfileApply
              then observation_row_ok (observationRow ob now)
                   \<and> db_Observations db' = AList.update n (observationRow ob now) (db_Observations db)
              else db_Observations db' = AList.delete n (db_Observations db)
          | None \<Rightarrow> db_Observations db' = AList.delete n (db_Observations db)))"
proof (cases "validateAgentProfileObservation (hb_Profile req)")
  case (Inl e)
  then have "db' = db" "r = Inl e" using assms by (simp_all add: UpdateHeartbeat_def)
  then show ?thesis by simp
next
  case (Inr x)
  then show ?thesis
    using assms
    by (auto simp: UpdateHeartbeat_def Let_def findNode_None_iff putObservation_Some
        split: if_splits option.splits bool.splits)
qed

lemma UpdateHeartbeat_inv:
  assumes inv: "hub_inv db" and up: "UpdateHeartbeat ff db n req now = (db', r)"
    and caps: "list_all utf8_valid (hb_Capabilities req)"
  shows "hub_inv db'"
  using UpdateHeartbeat_cases [OF up]
proof (elim disjE conjE)
  assume n: "n \<in> nodeIDs db"
    and nodes: "db_Nodes db' = map (\<lambda>row. if nr_ID row = n then heartbeatRow req now row else row) (db_Nodes db)"
    and rest: "db_Tasks db' = db_Tasks db" "db_Seq db' = db_Seq db" "db_Profiles db' = db_Profiles db"
    and obs: "case hb_Profile req of
            Some ob \<Rightarrow>
              if hasCapability (hb_Capabilities req) CapabilityProfileApply
              then observation_row_ok (observationRow ob now)
                   \<and> db_Observations db' = AList.update n (observationRow ob now) (db_Observations db)
              else db_Observations db' = AList.delete n (db_Observations db)
          | None \<Rightarrow> db_Observations db' = AList.delete n (db_Observations db)"
  have ids: "map nr_ID (db_Nodes db') = map nr_ID (db_Nodes db)"
    by (simp add: nodes heartbeatRow_def)
  then have same: "nodeIDs db' = nodeIDs db"
    by (metis nodeIDs_def set_map)
  have "list_all node_ok (db_Nodes db')"
    using inv heartbeatRow_ok [OF _ caps] by (auto simp: hub_inv_def nodes_ok_def list_all_iff nodes)
  then have "nodes_ok db'"
    using inv ids by (simp only: hub_inv_def nodes_ok_def)
  moreover have "observations_ok db'"
    using obs inv n same
    by (auto simp: hub_inv_def intro: observations_update observations_delete split: option.splits if_splits)
  ultimately show ?thesis
    using hub_inv_grow_nodes [OF inv] same rest by simp
qed (use inv in simp)

lemma UpsertNodeProfileObservation_inv:
  assumes inv: "hub_inv db" and up: "UpsertNodeProfileObservation db n ob now = (db', r)"
  shows "hub_inv db'"
proof (cases "db' = db")
  case False
  then have "db' = db\<lparr>db_Observations := AList.update n (observationRow ob now) (db_Observations db)\<rparr>"
    "observation_row_ok (observationRow ob now)" "n \<in> nodeIDs db"
    using up by (auto simp: UpsertNodeProfileObservation_def findNode_None_iff putObservation_Some
        split: sum.splits option.splits if_splits)
  then show ?thesis
    using inv observations_update [of db db' n "observationRow ob now"]
    by (intro hub_inv_grow_nodes [OF inv]) (auto simp: hub_inv_def nodeIDs_def nodes_ok_def)
qed (use inv in simp)

lemma ClearNodeProfileObservation_inv:
  assumes inv: "hub_inv db" and up: "ClearNodeProfileObservation db n = (db', r)"
  shows "hub_inv db'"
proof (cases "db' = db")
  case False
  then have "db' = db\<lparr>db_Observations := AList.delete n (db_Observations db)\<rparr>"
    using up by (auto simp: ClearNodeProfileObservation_def split: if_splits)
  then show ?thesis
    using inv observations_delete [of db db' n]
    by (intro hub_inv_grow_nodes [OF inv]) (auto simp: hub_inv_def nodeIDs_def nodes_ok_def)
qed (use inv in simp)

section \<open>Transactions on the profile table\<close>

lemma wrap_int64_id: "- (2 ^ 63) \<le> i \<Longrightarrow> i < 2 ^ 63 \<Longrightarrow> wrap_int64 i = i"
  by (simp add: wrap_int64_def)

lemma wrap_int64_range: "- (2 ^ 63) \<le> wrap_int64 i \<and> wrap_int64 i < 2 ^ 63"
  by (simp add: wrap_int64_def)

text \<open>Incrementing the largest revision gives a negative number, which no document accepts.\<close>

lemma next_revision:
  assumes "1 \<le> v" "v < 2 ^ 63" "1 \<le> wrap_int64 (v + 1)"
  shows "wrap_int64 (v + 1) = v + 1" "v + 1 < 2 ^ 63"
proof -
  have "v + 1 < 2 ^ 63 \<or> v = 2 ^ 63 - 1" using assms(2) by linarith
  moreover have "wrap_int64 (2 ^ 63 - 1 + 1) = - (2 ^ 63)" by (simp add: wrap_int64_def)
  ultimately show "v + 1 < 2 ^ 63" using assms(3) by auto
  then show "wrap_int64 (v + 1) = v + 1" using assms(1) by (intro wrap_int64_id) simp_all
qed

text \<open>A compare-and-swap that succeeds wrote the canonical profile under the next revision.\<close>

lemma SaveNodeProfile_cases:
  assumes "hub_inv db" "SaveNodeProfile db n p expected now = (db', r)"
  shows "db' = db \<and> \<not> is_ok r
    \<or> (\<exists>q. NormalizeAgentProfile p = Inr q \<and> n \<in> nodeIDs db \<and> expected = currentRevision db n
         \<and> 0 \<le> expected \<and> expected + 1 < 2 ^ 63
         \<and> is_ok (canonicalProfileApplyDocument q (expected + 1))
         \<and> r = Inr \<lparr>rec_Profile = q, rec_Revision = expected + 1, rec_Configured = True\<rparr>
         \<and> db' = db\<lparr>db_Profiles := AList.update n
              \<lparr>pr_ProfileJSON = marshalProfile q, pr_Revision = expected + 1, pr_UpdatedAt = now\<rparr> (db_Profiles db)\<rparr>)"
proof (cases "NormalizeAgentProfile p")
  case (Inl e)
  then show ?thesis using assms by (auto simp: SaveNodeProfile_def split: if_splits)
next
  case q: (Inr q)
  show ?thesis
  proof (cases "map_of (db_Profiles db) n")
    case None
    then show ?thesis
      using assms q
      by (auto simp: SaveNodeProfile_def Let_def findNode_None_iff currentRevision_def split: if_splits sum.splits)
  next
    case (Some row)
    then have row: "1 \<le> pr_Revision row" "pr_Revision row < 2 ^ 63"
      using assms(1) by (auto simp: hub_inv_def profiles_ok_def profile_row_ok_def)
    have "is_ok (canonicalProfileApplyDocument q v) \<Longrightarrow> 1 \<le> v" for v
      by (auto simp: is_ok_iff canonicalProfileApplyDocument_Inr)
    then show ?thesis
      using assms(2) q Some next_revision [OF row] row
      by (auto simp: SaveNodeProfile_def Let_def findNode_None_iff currentRevision_def is_ok_iff
          split: if_splits sum.splits)
  qed
qed

lemma currentRevision_update:
  assumes "db_Profiles db' = AList.update n row (db_Profiles db)"
  shows "currentRevision db' k = (if k = n then pr_Revision row else currentRevision db k)"
  using assms by (simp add: currentRevision_def update_conv)

lemma applies_mono:
  assumes "applies_ok db" "db_Tasks db' = db_Tasks db" "\<And>n. currentRevision db n \<le> currentRevision db' n"
  shows "applies_ok db'"
proof -
  have "apply_row_ok db r \<Longrightarrow> apply_row_ok db' r" for r
    using order_trans [OF _ assms(3)] by (auto simp: apply_row_ok_def)
  then show ?thesis using assms(1) by (auto simp: applies_ok_def inFlightApply_def assms(2))
qed

lemma SaveNodeProfile_inv:
  assumes inv: "hub_inv db" and save: "SaveNodeProfile db n p expected now = (db', r)"
  shows "hub_inv db'"
  using SaveNodeProfile_cases [OF assms]
proof (elim disjE exE conjE)
  fix q
  let ?row = "\<lparr>pr_ProfileJSON = marshalProfile q, pr_Revision = expected + 1, pr_UpdatedAt = now\<rparr>"
  assume q: "NormalizeAgentProfile p = Inr q" and n: "n \<in> nodeIDs db" and rev: "expected = currentRevision db n"
    and bound: "0 \<le> expected" "expected + 1 < 2 ^ 63"
    and doc: "is_ok (canonicalProfileApplyDocument q (expected + 1))"
    and db': "db' = db\<lparr>db_Profiles := AList.update n ?row (db_Profiles db)\<rparr>"
  have "profile_row_ok ?row"
    using Normalize_canonical [OF q] bound doc by (auto simp: profile_row_ok_def)
  then have "profiles_ok db'"
    using inv n by (auto simp: hub_inv_def profiles_ok_def db' nodeIDs_def update_conv)
  moreover have "applies_ok db'"
  proof (rule applies_mono [of db])
    have "db_Profiles db' = AList.update n ?row (db_Profiles db)" by (simp add: db')
    from currentRevision_update [OF this]
    show "currentRevision db k \<le> currentRevision db' k" for k using rev by simp
  qed (use inv in \<open>simp_all add: hub_inv_def db'\<close>)
  ultimately show ?thesis
    using inv by (auto simp: hub_inv_def nodes_ok_def tasks_ok_def observations_ok_def nodeIDs_def db')
qed (use inv in simp)

section \<open>Transactions on the task table\<close>

lemma insertTask_Inr:
  "insertTask db n kind payload now = (db', Inr i) \<longleftrightarrow>
     db_Seq db < 2 ^ 63 - 1 \<and> n \<in> nodeIDs db \<and> i = db_Seq db + 1
     \<and> db' = db\<lparr>db_Tasks := db_Tasks db @ [\<lparr>tr_ID = i, tr_NodeID = n, tr_Kind = kind,
            tr_PayloadJSON = payload, tr_Status = TaskStatusQueued, tr_ResultJSON = ''{}'', tr_Error = [],
            tr_CreatedAt = now, tr_StartedAt = None, tr_CompletedAt = None\<rparr>], db_Seq := i\<rparr>"
  by (auto simp: insertTask_def Let_def findNode_None_iff)

lemma insertTask_Inl: "insertTask db n kind payload now = (db', Inl e) \<Longrightarrow> db' = db \<and> e \<in> {ErrOther, ErrNotFound}"
  by (auto simp: insertTask_def Let_def split: if_splits)

lemma new_task_ok:
  "scanMap payload \<noteq> None \<Longrightarrow> task_ok \<lparr>tr_ID = i, tr_NodeID = n, tr_Kind = kind, tr_PayloadJSON = payload,
     tr_Status = TaskStatusQueued, tr_ResultJSON = ''{}'', tr_Error = [], tr_CreatedAt = now,
     tr_StartedAt = None, tr_CompletedAt = None\<rparr>"
  by (simp add: task_ok_def scanTask_is_ok scanMap_empty lifecycle_ok_def)

lemma insertTask_inv:
  assumes inv: "hub_inv db" and ins: "insertTask db n kind payload now = (db', r)"
    and payload: "scanMap payload \<noteq> None"
    and "apply": "kind = TaskProfileApply \<Longrightarrow>
      inFlightApply db n = [] \<and> (\<exists>v. profileApplyPayloadRevision payload = Inr v \<and> v \<le> currentRevision db n)"
  shows "hub_inv db'"
proof (cases r)
  case (Inl e)
  then show ?thesis using ins inv insertTask_Inl by blast
next
  case (Inr i)
  let ?row = "\<lparr>tr_ID = i, tr_NodeID = n, tr_Kind = kind, tr_PayloadJSON = payload, tr_Status = TaskStatusQueued,
    tr_ResultJSON = ''{}'', tr_Error = [], tr_CreatedAt = now, tr_StartedAt = None, tr_CompletedAt = None\<rparr>"
  have ins': "db_Seq db < 2 ^ 63 - 1" "n \<in> nodeIDs db" "i = db_Seq db + 1"
    "db' = db\<lparr>db_Tasks := db_Tasks db @ [?row], db_Seq := i\<rparr>"
    using ins by (auto simp: Inr insertTask_Inr)
  have "tasks_ok db'"
    using inv ins' new_task_ok [OF payload]
    by (fastforce simp: hub_inv_def tasks_ok_def sorted_wrt_append nodeIDs_def)
  moreover have "applies_ok db'"
  proof -
    have "inFlightApply db' k =
        (if k = n \<and> kind = TaskProfileApply then [?row] else []) @ inFlightApply db k" for k
      by (simp add: inFlightApply_def ins' inFlight_def)
    moreover have "currentRevision db' = currentRevision db"
      by (simp add: currentRevision_def fun_eq_iff ins'(4))
    ultimately show ?thesis
      using inv "apply" by (auto simp: hub_inv_def applies_ok_def apply_row_ok_def ins'(4))
  qed
  ultimately show ?thesis
    using inv by (auto simp: hub_inv_def nodes_ok_def profiles_ok_def observations_ok_def nodeIDs_def ins'(4))
qed

lemma CreateTask_db:
  "CreateTask db n req now = (db', r) \<Longrightarrow> db' = db
     \<or> (req_Kind req \<noteq> TaskProfileApply
        \<and> (\<exists>i. insertTask db n (req_Kind req) (marshalStringMap (req_Payload req)) now = (db', i)))"
  by (auto simp: CreateTask_def split: if_splits prod.splits)

lemma CreateTask_inv:
  assumes "hub_inv db" "CreateTask db n req now = (db', r)"
  shows "hub_inv db'"
  using CreateTask_db [OF assms(2)] assms(1) scanMap_marshal [of "req_Payload req"]
  by (auto simp: marshalStringMap_def intro: insertTask_inv)

text \<open>An update of rows by a function that keeps keys, owners and kinds and starts nothing anew.\<close>

lemma updateTask_inv:
  assumes inv: "hub_inv db"
    and keep: "\<And>r. tr_ID (f r) = tr_ID r \<and> tr_NodeID (f r) = tr_NodeID r \<and> tr_Kind (f r) = tr_Kind r
      \<and> tr_PayloadJSON (f r) = tr_PayloadJSON r"
    and ok: "\<And>r. r \<in> set (db_Tasks db) \<Longrightarrow> tr_ID r = t \<Longrightarrow> task_ok (f r) \<and> (inFlight (f r) \<longrightarrow> inFlight r)"
  shows "hub_inv (updateTask db t f)"
proof -
  let ?g = "\<lambda>r. if tr_ID r = t then f r else r" and ?db = "updateTask db t f"
  have ids: "map tr_ID (map ?g (db_Tasks db)) = map tr_ID (db_Tasks db)"
    using keep by simp
  have "tasks_ok ?db"
    using inv keep ok ids by (auto simp: hub_inv_def tasks_ok_def updateTask_def nodeIDs_def simp del: map_map)
  moreover have "applies_ok ?db"
  proof -
    have "length (inFlightApply ?db n) \<le> length (inFlightApply db n)" for n
    proof -
      have "length (filter (\<lambda>r. tr_NodeID r = n \<and> tr_Kind r = TaskProfileApply \<and> inFlight r) (map ?g rs))
          \<le> length (filter (\<lambda>r. tr_NodeID r = n \<and> tr_Kind r = TaskProfileApply \<and> inFlight r) rs)"
        if "set rs \<subseteq> set (db_Tasks db)" for rs
        using that by (induction rs) (auto simp: keep ok)
      then show ?thesis by (simp add: inFlightApply_def updateTask_def)
    qed
    then have "\<forall>n. length (inFlightApply ?db n) \<le> 1"
      using inv by (meson hub_inv_def applies_ok_def order_trans)
    moreover have "currentRevision ?db = currentRevision db"
      by (simp add: currentRevision_def fun_eq_iff updateTask_def)
    ultimately show ?thesis
      using inv keep by (auto simp: hub_inv_def applies_ok_def apply_row_ok_def updateTask_def)
  qed
  ultimately show ?thesis
    using inv by (auto simp: hub_inv_def nodes_ok_def profiles_ok_def observations_ok_def nodeIDs_def updateTask_def)
qed

section \<open>Claiming and completing\<close>

definition claimedRow :: "go_time \<Rightarrow> task_row \<Rightarrow> task_row" where
  "claimedRow now r = r\<lparr>tr_Status := TaskStatusRunning, tr_StartedAt := Some now\<rparr>"

lemma find_SomeD: "find P xs = Some x \<Longrightarrow> x \<in> set xs \<and> P x"
  by (auto simp: find_Some_iff)

lemma find_least:
  "sorted_wrt (<) (map f xs) \<Longrightarrow> find P xs = Some x \<Longrightarrow> y \<in> set xs \<Longrightarrow> P y \<Longrightarrow> f x \<le> (f y :: 'a :: linorder)"
  by (induction xs) (auto split: if_splits)

lemma status_ne [simp]:
  "TaskStatusQueued \<noteq> TaskStatusRunning" "TaskStatusRunning \<noteq> TaskStatusQueued"
  "TaskStatusCompleted \<noteq> TaskStatusQueued" "TaskStatusFailed \<noteq> TaskStatusQueued"
  "TaskStatusQueued \<noteq> TaskStatusCompleted" "TaskStatusQueued \<noteq> TaskStatusFailed"
  "TaskStatusRunning \<noteq> TaskStatusCompleted" "TaskStatusRunning \<noteq> TaskStatusFailed"
  "TaskStatusCompleted \<noteq> TaskStatusRunning" "TaskStatusFailed \<noteq> TaskStatusRunning"
  "TaskStatusCompleted \<noteq> TaskStatusFailed" "TaskStatusFailed \<noteq> TaskStatusCompleted"
  by (simp_all add: hub_consts)

lemma ClaimNextTask_None:
  "ClaimNextTask db n now = (db', Inr None) \<longleftrightarrow> db' = db \<and> (\<forall>r \<in> set (db_Tasks db). \<not> claimable n r)"
  by (auto simp: ClaimNextTask_def Let_def find_None_iff andThen_Inr_iff split: option.splits dest: find_SomeD)

text \<open>A claim hands out the claimable row with the least key.\<close>

lemma ClaimNextTask_Some:
  assumes "tasks_ok db" "r \<in> set (db_Tasks db)" "claimable n r"
    and least: "\<And>s. s \<in> set (db_Tasks db) \<Longrightarrow> claimable n s \<Longrightarrow> tr_ID r \<le> tr_ID s"
  shows "\<exists>t. scanTask (claimedRow now r) = Inr t
    \<and> ClaimNextTask db n now = (updateTask db (tr_ID r) (claimedRow now), Inr (Some t))"
proof -
  obtain r' where r': "find (claimable n) (db_Tasks db) = Some r'"
    using assms(2,3) by (cases "find (claimable n) (db_Tasks db)") (auto simp: find_None_iff)
  have sorted: "sorted_wrt (<) (map tr_ID (db_Tasks db))" using assms(1) by (simp add: tasks_ok_def)
  have in': "r' \<in> set (db_Tasks db)" "claimable n r'" using r' by (auto simp: find_Some_iff)
  have "tr_ID r' = tr_ID r"
    using find_least [OF sorted r' assms(2,3)] least [OF in'] by simp
  then have eq: "r' = r"
    by (rule task_unique [OF assms(1) in'(1) assms(2)])
  have "is_ok (scanTask r)" using assms(1,2) by (auto simp: tasks_ok_def task_ok_def)
  then obtain t where t: "scanTask (claimedRow now r) = Inr t"
    by (auto simp: is_ok_iff claimedRow_def scanTask_def split: option.splits)
  then show ?thesis
    using r' by (auto simp: ClaimNextTask_def Let_def eq claimedRow_def [abs_def])
qed

lemma ClaimNextTask_db:
  assumes "ClaimNextTask db n now = (db', res)"
  shows "db' = db \<or> (\<exists>r. r \<in> set (db_Tasks db) \<and> claimable n r \<and> find (claimable n) (db_Tasks db) = Some r
    \<and> db' = updateTask db (tr_ID r) (claimedRow now)
    \<and> res = andThen (scanTask (claimedRow now r)) (\<lambda>t. Inr (Some t)))"
proof (cases "find (claimable n) (db_Tasks db)")
  case (Some r)
  then show ?thesis
    using assms find_SomeD [OF Some] by (auto simp: ClaimNextTask_def Let_def claimedRow_def [abs_def])
qed (use assms in \<open>simp add: ClaimNextTask_def\<close>)

lemma claimedRow_ok: "task_ok r \<Longrightarrow> tr_Status r = TaskStatusQueued \<Longrightarrow> task_ok (claimedRow now r)"
  by (auto simp: task_ok_def scanTask_is_ok claimedRow_def lifecycle_ok_def)

lemma ClaimNextTask_inv:
  assumes inv: "hub_inv db" and claim: "ClaimNextTask db n now = (db', res)"
  shows "hub_inv db'"
  using ClaimNextTask_db [OF claim]
proof (elim disjE exE conjE)
  fix r
  assume r: "r \<in> set (db_Tasks db)" "claimable n r" and db': "db' = updateTask db (tr_ID r) (claimedRow now)"
  have "s = r" if "s \<in> set (db_Tasks db)" "tr_ID s = tr_ID r" for s
    using that inv r(1) by (intro task_unique [of db]) (simp_all add: hub_inv_def)
  moreover have "task_ok (claimedRow now r)"
    using inv r by (intro claimedRow_ok) (auto simp: hub_inv_def tasks_ok_def claimable_def)
  moreover have "inFlight r" using r by (simp add: claimable_def inFlight_def)
  ultimately have "task_ok (claimedRow now s) \<and> (inFlight (claimedRow now s) \<longrightarrow> inFlight s)"
    if "s \<in> set (db_Tasks db)" "tr_ID s = tr_ID r" for s
    using that by blast
  then show ?thesis
    unfolding db' by (intro updateTask_inv [OF inv]) (simp_all add: claimedRow_def)
qed (use inv in simp)

definition terminal :: "string \<Rightarrow> bool" where
  "terminal s \<longleftrightarrow> s = TaskStatusCompleted \<or> s = TaskStatusFailed"

lemma statusCheck_terminal: "terminal s \<Longrightarrow> statusCheck s"
  by (auto simp: terminal_def statusCheck_def hub_consts)

text \<open>The row a completion writes to: running, of this node and with this key.\<close>

definition completable :: "string \<Rightarrow> int \<Rightarrow> task_row \<Rightarrow> bool" where
  "completable n t r \<longleftrightarrow> tr_ID r = t \<and> tr_NodeID r = n \<and> tr_Status r = TaskStatusRunning"

lemma repoCompleteTask_db:
  assumes "repoCompleteTask db n t req now = (db', res)"
  shows "db' = db \<and> \<not> is_ok res
    \<or> (\<exists>r. r \<in> set (db_Tasks db) \<and> completable n t r \<and> statusCheck (res_Status req)
         \<and> db' = updateTask db t (completedRow req now) \<and> res = GetTask db' t)"
  using assms
  by (auto simp: repoCompleteTask_def Let_def completable_def dest: find_SomeD
      split: sum.splits option.splits if_splits)

lemma completedRow_ok:
  assumes "task_ok r" "tr_Status r = TaskStatusRunning" "terminal (res_Status req)"
  shows "task_ok (completedRow req now r)"
  using assms scanMap_marshal [of "res_Result req"]
  by (auto simp: task_ok_def scanTask_is_ok completedRow_def lifecycle_ok_def terminal_def marshalStringMap_def)

lemma repoCompleteTask_inv:
  assumes inv: "hub_inv db" and comp: "repoCompleteTask db n t req now = (db', res)" and "terminal (res_Status req)"
  shows "hub_inv db'"
  using repoCompleteTask_db [OF comp]
proof (elim disjE exE conjE)
  fix r
  assume r: "r \<in> set (db_Tasks db)" "completable n t r" and db': "db' = updateTask db t (completedRow req now)"
  have "s = r" if "s \<in> set (db_Tasks db)" "tr_ID s = t" for s
    using that inv r by (intro task_unique [of db]) (simp_all add: hub_inv_def completable_def)
  moreover have "task_ok (completedRow req now r)"
    using inv r assms(3) by (intro completedRow_ok) (auto simp: hub_inv_def tasks_ok_def completable_def)
  moreover have "inFlight r" using r by (simp add: completable_def inFlight_def)
  ultimately have "task_ok (completedRow req now s) \<and> (inFlight (completedRow req now s) \<longrightarrow> inFlight s)"
    if "s \<in> set (db_Tasks db)" "tr_ID s = t" for s
    using that by blast
  then show ?thesis
    unfolding db' by (intro updateTask_inv [OF inv]) (simp_all add: completedRow_def)
qed (use inv in simp)

section \<open>The profile-apply queue\<close>

lemma persisted_profile:
  assumes "canonicalProfile p"
  shows "decodePersistedAgentProfile (marshalProfile p) = Inr p"
  using assms
  by (simp add: decodePersistedAgentProfile_def decodeAgentProfile_marshal canonicalProfile_def validProfile_utf8)

lemma marshalProfile_inj:
  assumes "canonicalProfile p" "canonicalProfile q" "marshalProfile p = marshalProfile q"
  shows "p = q"
  using assms by (metis persisted_profile sum.inject(2))

text \<open>The desired row a request has to match, on a well-formed database.\<close>

lemma checkDesired_Inr:
  assumes "hub_inv db" "canonicalProfile q"
  shows "checkDesired db n v q = Inr () \<longleftrightarrow>
    (\<exists>row. map_of (db_Profiles db) n = Some row \<and> pr_Revision row = v \<and> pr_ProfileJSON row = marshalProfile q)"
proof (cases "map_of (db_Profiles db) n")
  case (Some row)
  then obtain p where p: "canonicalProfile p" "pr_ProfileJSON row = marshalProfile p" and n: "n \<in> nodeIDs db"
    using assms(1) by (auto simp: hub_inv_def profiles_ok_def profile_row_ok_def)
  then show ?thesis
    using Some findNode_None_iff [of db n] persisted_profile [OF p(1)] Normalize_fixed [OF p(1)]
    by (auto simp: checkDesired_def)
qed (auto simp: checkDesired_def split: if_splits)

lemma CreateProfileApplyTask_cases:
  assumes "CreateProfileApplyTask db n v p now = (db', res)"
  shows "db' = db \<and> \<not> is_ok res
    \<or> (\<exists>q doc. canonicalProfileApplyDocument p v = Inr (q, doc) \<and> checkDesired db n v q = Inr ()
         \<and> (observedApplied db n v \<and> db' = db \<and> res = Inr None
            \<or> \<not> observedApplied db n v
              \<and> coalesceOrInsert db n v (marshalStringMap (profileApplyPayload v doc)) now = (db', res)))"
proof (cases "canonicalProfileApplyDocument p v")
  case (Inl e)
  then show ?thesis using assms by (auto simp: CreateProfileApplyTask_def split: if_splits)
next
  case (Inr qd)
  obtain q doc where qd: "qd = (q, doc)" by (cases qd)
  show ?thesis
  proof (cases "checkDesired db n v q")
    case Inl
    then show ?thesis using assms Inr by (auto simp: CreateProfileApplyTask_def qd split: if_splits)
  next
    case checked: (Inr x)
    then show ?thesis using assms Inr by (auto simp: CreateProfileApplyTask_def qd split: if_splits)
  qed
qed

lemma coalesceOrInsert_cases:
  assumes "coalesceOrInsert db n v payload now = (db', res)"
  shows "db' = db
    \<or> inFlightApply db n = [] \<and> (\<exists>i. insertTask db n TaskProfileApply payload now = (db', i))"
  using assms
  by (auto simp: coalesceOrInsert_def Let_def split: if_splits list.splits prod.splits)

lemma CreateProfileApplyTask_inv:
  assumes inv: "hub_inv db" and create: "CreateProfileApplyTask db n v p now = (db', res)"
  shows "hub_inv db'"
  using CreateProfileApplyTask_cases [OF create]
proof (elim disjE exE conjE)
  fix q doc
  assume doc: "canonicalProfileApplyDocument p v = Inr (q, doc)" and "checkDesired db n v q = Inr ()"
    and step: "coalesceOrInsert db n v (marshalStringMap (profileApplyPayload v doc)) now = (db', res)"
  moreover have "canonicalProfile q"
    using doc by (auto simp: canonicalProfileApplyDocument_Inr dest: Normalize_canonical)
  ultimately obtain row where row: "map_of (db_Profiles db) n = Some row" "pr_Revision row = v"
    using inv by (auto simp: checkDesired_Inr)
  then have v: "v < 2 ^ 63" "currentRevision db n = v"
    using inv by (auto simp: hub_inv_def profiles_ok_def profile_row_ok_def currentRevision_def)
  note rev = payload_revision [OF doc v(1)]
  show ?thesis
    using coalesceOrInsert_cases [OF step] inv v rev scanMap_marshal [of "profileApplyPayload v doc"]
    by (auto simp: marshalStringMap_def intro: insertTask_inv)
qed (use inv in simp_all)

section \<open>Reading a profile back\<close>

lemma GetNodeProfile_current:
  assumes "hub_inv db" "map_of (db_Profiles db) n = Some row" "canonicalProfile p" "pr_ProfileJSON row = marshalProfile p"
  shows "GetNodeProfile db n = Inr \<lparr>rec_Profile = p, rec_Revision = pr_Revision row, rec_Configured = True\<rparr>"
proof -
  have "n \<in> nodeIDs db" "1 \<le> pr_Revision row"
    using assms(1,2) by (auto simp: hub_inv_def profiles_ok_def profile_row_ok_def)
  moreover have "marshalProfile p \<noteq> []" by (simp add: marshalProfile_def profile_json_def)
  ultimately show ?thesis
    using assms findNode_None_iff [of db n] persisted_profile [OF assms(3)] Normalize_fixed [OF assms(3)]
    by (simp add: GetNodeProfile_def Let_def)
qed

lemma GetNodeProfile_total:
  assumes "hub_inv db" "n \<in> nodeIDs db"
  shows "\<exists>record. GetNodeProfile db n = Inr record \<and> rec_Revision record = currentRevision db n
    \<and> (rec_Configured record \<longleftrightarrow> map_of (db_Profiles db) n \<noteq> None)"
proof (cases "map_of (db_Profiles db) n")
  case None
  then show ?thesis
    using assms(2) findNode_None_iff [of db n] by (auto simp: GetNodeProfile_def Let_def currentRevision_def)
next
  case (Some row)
  then obtain p where "canonicalProfile p" "pr_ProfileJSON row = marshalProfile p"
    using assms(1) by (auto simp: hub_inv_def profiles_ok_def profile_row_ok_def)
  then show ?thesis using GetNodeProfile_current [OF assms(1) Some] Some by (simp add: currentRevision_def)
qed

end
