(* ===== verification/HubProfileView.thy ===== *)
theory HubProfileView
  imports HubProfile
begin

text \<open>
  The profile view of a node, \<^verbatim>\<open>profileResponse\<close> in \<^verbatim>\<open>profile.go\<close>: the desired state owned by the panel,
  the state the node reported in its last heartbeat, and the apply lifecycle derived from both and
  from the latest profile-apply task. The lemmas say when the lifecycle may claim that a revision
  is applied, and which states a node without the capability can show.
\<close>

section \<open>Records\<close>

record AgentProfileDesiredResponse =
  des_State :: string
  des_Revision :: int
  des_Profile :: "AgentProfile option"

record AgentProfileObservedResponse =
  ors_Capabilities :: "string list"
  ors_Online :: bool
  ors_LastSeenAt :: "go_time option"
  ors_AgentVersion :: string
  ors_ProtocolVersion :: string
  ors_ProfileState :: string
  ors_ProfileRevision :: "int option"
  ors_ProfileErrorCode :: "string option"

record AgentProfileApplyResponse =
  app_State :: string
  app_Reason :: string
  app_DesiredRevision :: "int option"
  app_TaskID :: "int option"
  app_ObservedRevision :: "int option"
  app_ObservedState :: "string option"

record AgentProfileResponse =
  prs_NodeID :: string
  prs_Desired :: AgentProfileDesiredResponse
  prs_Observed :: AgentProfileObservedResponse
  prs_Apply :: AgentProfileApplyResponse

section \<open>The derivation\<close>

text \<open>The apply state before tasks and observations are looked at.\<close>

definition applyBase :: "bool \<Rightarrow> int option \<Rightarrow> AgentProfileObservationRecord option \<Rightarrow> AgentProfileApplyResponse" where
  "applyBase capable desiredRevision observation =
     \<lparr>app_State = (if capable then profileApplyNotRequested else profileApplyManualRequired),
      app_Reason = (if capable then [] else profileApplySelfApplyReason),
      app_DesiredRevision = desiredRevision, app_TaskID = None,
      app_ObservedRevision = map_option or_Revision observation,
      app_ObservedState = map_option or_State observation\<rparr>"

definition taskMatchesDesired :: "AgentProfileRecord \<Rightarrow> Task option \<Rightarrow> bool" where
  "taskMatchesDesired record latestTask =
     (rec_Configured record \<and>
      (case latestTask of
         None \<Rightarrow> False
       | Some task \<Rightarrow> profileApplyPayloadRevisionFromTask task = Inr (rec_Revision record)))"

definition applyFromTask :: "Task \<Rightarrow> AgentProfileApplyResponse \<Rightarrow> AgentProfileApplyResponse" where
  "applyFromTask task apply0 =
     (let a = apply0\<lparr>app_TaskID := Some (task_ID task)\<rparr> in
      if task_Status task = TaskStatusQueued then a\<lparr>app_State := profileApplyQueued, app_Reason := []\<rparr>
      else if task_Status task = TaskStatusRunning then a\<lparr>app_State := profileApplyRunning, app_Reason := []\<rparr>
      else if task_Status task = TaskStatusCompleted then a\<lparr>app_State := profileApplyAwaiting, app_Reason := []\<rparr>
      else if task_Status task = TaskStatusFailed then
        a\<lparr>app_State := profileApplyFailed,
          app_Reason := (if task_Error task \<noteq> [] \<and> isSafeProfileErrorCode (task_Error task)
                         then task_Error task else ProfileErrorCodeProfileApplyFailed)\<rparr>
      else a)"

definition applyFromObservation ::
  "AgentProfileRecord \<Rightarrow> bool \<Rightarrow> AgentProfileObservationRecord \<Rightarrow> AgentProfileApplyResponse \<Rightarrow> AgentProfileApplyResponse" where
  "applyFromObservation record matches ob a =
     (if or_State ob = ProfileObservationApplied \<and> or_Revision ob = rec_Revision record then
        a\<lparr>app_State := profileApplyApplied, app_Reason := []\<rparr>
      else if or_State ob = ProfileObservationPendingRestart \<and> or_Revision ob = rec_Revision record then
        a\<lparr>app_State := profileApplyAwaiting, app_Reason := []\<rparr>
      else if or_State ob = ProfileObservationFailed \<and> or_Revision ob = rec_Revision record then
        a\<lparr>app_State := profileApplyFailed,
          app_Reason := (if or_ErrorCode ob = [] then ProfileErrorCodeProfileApplyFailed else or_ErrorCode ob)\<rparr>
      else if or_Revision ob \<noteq> rec_Revision record \<and> \<not> matches then
        a\<lparr>app_State := profileApplyDrifted, app_Reason := ''profile_revision_drift''\<rparr>
      else a)"

definition profileApplyState ::
  "AgentProfileRecord \<Rightarrow> bool \<Rightarrow> AgentProfileObservationRecord option \<Rightarrow> Task option \<Rightarrow> AgentProfileApplyResponse" where
  "profileApplyState record capable observation latestTask =
     (let desiredRevision = (if rec_Configured record then Some (rec_Revision record) else None);
          a0 = applyBase capable desiredRevision observation;
          matches = taskMatchesDesired record latestTask;
          a1 = (case latestTask of
                  Some task \<Rightarrow> if capable \<and> matches then applyFromTask task a0 else a0
                | None \<Rightarrow> a0)
      in case observation of
           Some ob \<Rightarrow> if rec_Configured record then applyFromObservation record matches ob a1 else a1
         | None \<Rightarrow> a1)"

definition profileResponse ::
  "AgentProfileRecord \<Rightarrow> Node \<Rightarrow> bool \<Rightarrow> AgentProfileObservationRecord option \<Rightarrow> Task option \<Rightarrow> AgentProfileResponse" where
  "profileResponse record node online observation0 latestTask =
     (let capable = hasCapability (node_Capabilities node) CapabilityProfileApply;
          observation = (if capable then observation0 else None)
      in \<lparr>prs_NodeID = node_ID node,
          prs_Desired =
            \<lparr>des_State = (if rec_Configured record then profileStateConfigured else profileStateNotConfigured),
             des_Revision = rec_Revision record,
             des_Profile = (if rec_Configured record then Some (rec_Profile record) else None)\<rparr>,
          prs_Observed =
            \<lparr>ors_Capabilities = node_Capabilities node, ors_Online = online,
             ors_LastSeenAt = node_LastSeenAt node, ors_AgentVersion = node_AgentVersion node,
             ors_ProtocolVersion = node_ProtocolVersion node,
             ors_ProfileState = (case observation of None \<Rightarrow> profileObservedNotReported | Some ob \<Rightarrow> or_State ob),
             ors_ProfileRevision = map_option or_Revision observation,
             ors_ProfileErrorCode = map_option or_ErrorCode observation\<rparr>,
          prs_Apply = profileApplyState record capable observation latestTask\<rparr>)"

text \<open>\<^verbatim>\<open>AgentProfileApplyResponse.MarshalJSON\<close>: two fields on the manual path, six otherwise.\<close>

definition opt_json :: "('a \<Rightarrow> json) \<Rightarrow> 'a option \<Rightarrow> json" where
  "opt_json f v = (case v of None \<Rightarrow> JNull | Some x \<Rightarrow> f x)"

definition applyResponse_json :: "AgentProfileApplyResponse \<Rightarrow> json" where
  "applyResponse_json a =
     (if app_State a = profileApplyManualRequired \<and> app_Reason a = profileApplySelfApplyReason then
        JObj [(''state'', JStr (app_State a)), (''reason'', JStr (app_Reason a))]
      else
        JObj [(''state'', JStr (app_State a)), (''reason'', JStr (app_Reason a)),
              (''desiredRevision'', opt_json json_int (app_DesiredRevision a)),
              (''taskId'', opt_json json_int (app_TaskID a)),
              (''observedRevision'', opt_json json_int (app_ObservedRevision a)),
              (''observedState'', opt_json JStr (app_ObservedState a))])"

section \<open>What the view claims\<close>

lemma applyFromTask_state_ne_applied:
  "app_State a \<noteq> profileApplyApplied \<Longrightarrow> app_State (applyFromTask t a) \<noteq> profileApplyApplied"
  by (simp add: applyFromTask_def Let_def hub_consts)

lemma applyBase_not_applied: "app_State (applyBase c d ob) \<noteq> profileApplyApplied"
  by (simp add: applyBase_def hub_consts)

lemma applyFromObservation_applied:
  assumes "app_State a \<noteq> profileApplyApplied"
  shows "app_State (applyFromObservation record m ob a) = profileApplyApplied \<longleftrightarrow>
     or_State ob = ProfileObservationApplied \<and> or_Revision ob = rec_Revision record"
  using assms by (simp add: applyFromObservation_def) (simp add: hub_consts)

lemma profileApplyState_applied:
  "app_State (profileApplyState record c observation task) = profileApplyApplied \<longleftrightarrow>
     rec_Configured record \<and> (\<exists>ob. observation = Some ob \<and> or_State ob = ProfileObservationApplied
       \<and> or_Revision ob = rec_Revision record)"
proof -
  have "app_State (case task of Some t \<Rightarrow> if P t then applyFromTask t (applyBase c d ob) else applyBase c d ob
      | None \<Rightarrow> applyBase c d ob) \<noteq> profileApplyApplied" for P d ob
    by (auto split: option.splits simp: applyFromTask_state_ne_applied applyBase_not_applied)
  then show ?thesis
    by (auto simp: profileApplyState_def Let_def applyFromObservation_applied split: option.splits)
qed

lemma profileApplyState_incapable:
  "profileApplyState record False None task =
     applyBase False (if rec_Configured record then Some (rec_Revision record) else None) None"
  by (simp add: profileApplyState_def Let_def split: option.splits)

end
