(* ===== verification/GoDecode.thy ===== *)
theory GoDecode
  imports GoJSON GoTime GoFloat
begin

text \<open>
  What the hub uses of \<^verbatim>\<open>encoding/json\<close> for typed structs, of \<^verbatim>\<open>time.Time.UnmarshalJSON\<close> and of float64
  arithmetic:
  \<^item> a struct field takes a member whose key is its name up to case folding, a null leaves it, a
    repeated member overwrites it, and with \<^verbatim>\<open>DisallowUnknownFields\<close> any other key is an error;
  \<^item> a time is read off the raw literal, escapes not being interpreted, in the RFC3339 layout with
    the liberties of \<^verbatim>\<open>time.Parse\<close> (one-digit hour, comma before the fraction);
  \<^item> a float64 result is the exact rational rounded to 53 bits, ties to even.
\<close>

section \<open>Struct fields\<close>

definition fold_rune :: "nat \<Rightarrow> nat" where
  "fold_rune r = (if 65 \<le> r \<and> r \<le> 90 then r + 32 else if r = 0x017F then 115 else if r = 0x212A then 107 else r)"

definition fold_name :: "string \<Rightarrow> nat list" where
  "fold_name s = map fold_rune (runes s)"

definition field_of :: "string list \<Rightarrow> string \<Rightarrow> string option" where
  "field_of names key = (if key \<in> set names then Some key else find (\<lambda>n. fold_name n = fold_name key) names)"

text \<open>
  The members of an object under their field names; \<open>None\<close> when a key is unknown or the value is
  not an object. A null object has no members.
\<close>

fun name_member :: "string list \<Rightarrow> string \<times> json \<Rightarrow> (string \<times> json) option" where
  "name_member names (k, v) = map_option (\<lambda>n. (n, v)) (field_of names k)"

primrec opt_seq :: "'a option list \<Rightarrow> 'a list option" where
  "opt_seq [] = Some []"
| "opt_seq (x # xs) = (case x of None \<Rightarrow> None | Some y \<Rightarrow> map_option ((#) y) (opt_seq xs))"

definition struct_members :: "string list \<Rightarrow> json \<Rightarrow> (string \<times> json) list option" where
  "struct_members names v =
     (case v of
        JObj ms \<Rightarrow> opt_seq (map (name_member names) ms)
      | JNull \<Rightarrow> Some []
      | _ \<Rightarrow> None)"

text \<open>The value of a scalar field after all members named by it, starting from its old value.\<close>

fun put_field :: "(json \<Rightarrow> 'a option) \<Rightarrow> string \<times> json \<Rightarrow> 'a option \<Rightarrow> 'a option" where
  "put_field f (k, v) old = (if v = JNull then old else (case old of None \<Rightarrow> None | Some _ \<Rightarrow> f v))"

definition get_field :: "(json \<Rightarrow> 'a option) \<Rightarrow> string \<Rightarrow> (string \<times> json) list \<Rightarrow> 'a \<Rightarrow> 'a option" where
  "get_field f name ms old = fold (put_field f) (filter (\<lambda>m. fst m = name) ms) (Some old)"

section \<open>Raw string literals\<close>

text \<open>The raw contents of the string literals of a JSON text, in order.\<close>

fun raw_strs :: "string \<Rightarrow> string list" and raw_in :: "string \<Rightarrow> string \<Rightarrow> string list" where
  "raw_strs [] = []"
| "raw_strs (c # s) = (if c = DQ then raw_in [] s else raw_strs s)"
| "raw_in acc [] = []"
| "raw_in acc (c # s) =
     (if c = DQ then rev acc # raw_strs s
      else if c = BS then (case s of [] \<Rightarrow> [] | d # s' \<Rightarrow> raw_in (d # c # acc) s')
      else raw_in (c # acc) s)"

text \<open>The string members of the outermost object with the raw text of their value.\<close>

fun token_depth :: "nat \<Rightarrow> jtok \<Rightarrow> nat" where
  "token_depth d TLBrace = Suc d"
| "token_depth d TLBrack = Suc d"
| "token_depth d TRBrace = d - 1"
| "token_depth d TRBrack = d - 1"
| "token_depth d _ = d"

fun token_str :: "jtok \<Rightarrow> string option" where
  "token_str (TStr s) = Some s"
| "token_str _ = None"

text \<open>
  One pass over the tokens with the raw literals still ahead and the key of a member whose colon
  has just been read.
\<close>

primrec member_raws :: "jtok list \<Rightarrow> nat \<Rightarrow> string list \<Rightarrow> string option \<Rightarrow> bool \<Rightarrow> (string \<times> string) list" where
  "member_raws [] d rs key colon = []"
| "member_raws (t # ts) d rs key colon =
     (case (token_str t, rs) of
        (Some s, r # rs') \<Rightarrow>
          (case key of
             Some k \<Rightarrow> if d = 1 \<and> colon then (k, r) # member_raws ts d rs' None False
                       else member_raws ts d rs' (Some s) False
           | None \<Rightarrow> member_raws ts d rs' (Some s) False)
      | _ \<Rightarrow> if t = TColon then member_raws ts d rs key True
             else member_raws ts (token_depth d t) rs None False)"

definition top_raws :: "string \<Rightarrow> (string \<times> string) list" where
  "top_raws data = (case json_lex data of None \<Rightarrow> [] | Some ts \<Rightarrow> member_raws ts 0 (raw_strs data) None False)"

section \<open>Times\<close>

definition digit1 :: "string \<Rightarrow> (nat \<times> string) option" where
  "digit1 s = (case s of c # r \<Rightarrow> if asciiDigit (byte c) then Some (byte c - 48, r) else None | [] \<Rightarrow> None)"

definition digits2 :: "string \<Rightarrow> (nat \<times> string) option" where
  "digits2 s = Option.bind (digit1 s) (\<lambda>(a, r). map_option (\<lambda>(b, r'). (10 * a + b, r')) (digit1 r))"

definition digits4 :: "string \<Rightarrow> (nat \<times> string) option" where
  "digits4 s = Option.bind (digits2 s) (\<lambda>(a, r). map_option (\<lambda>(b, r'). (100 * a + b, r')) (digits2 r))"

definition digits12 :: "string \<Rightarrow> (nat \<times> string) option" where
  "digits12 s = (case digits2 s of None \<Rightarrow> digit1 s | Some x \<Rightarrow> Some x)"

definition expect :: "char \<Rightarrow> string \<Rightarrow> string option" where
  "expect c s = (case s of d # r \<Rightarrow> if d = c then Some r else None | [] \<Rightarrow> None)"

text \<open>A fraction of a second, in nanoseconds; digits after the ninth are dropped.\<close>

definition fraction :: "string \<Rightarrow> int \<times> string" where
  "fraction s =
     (case s of
        c # d # r \<Rightarrow>
          if (c = CHR ''.'' \<or> c = CHR '','') \<and> asciiDigit (byte d) then
            (let ds = takeWhile (\<lambda>x. asciiDigit (byte x)) (d # r); ns = take 9 ds
             in (int (dec_val 0 ns * 10 ^ (9 - length ns)), dropWhile (\<lambda>x. asciiDigit (byte x)) (d # r)))
          else (0, s)
      | _ \<Rightarrow> (0, s))"

text \<open>The offset in seconds, \<^verbatim>\<open>Z\<close> or a signed \<^verbatim>\<open>hh:mm\<close>, at the end of the text.\<close>

definition zone :: "string \<Rightarrow> int option" where
  "zone s =
     (case s of
        [] \<Rightarrow> None
      | c # r \<Rightarrow>
          if c = CHR ''Z'' then (if r = [] then Some 0 else None)
          else Option.bind (digits2 r) (\<lambda>(hh, r1). Option.bind (expect (CHR '':'') r1) (\<lambda>r2.
               Option.bind (digits2 r2) (\<lambda>(mm, r3).
                 if r3 \<noteq> [] \<or> hh > 24 \<or> mm > 60 then None
                 else if c = CHR ''+'' then Some (int ((hh * 60 + mm) * 60))
                 else if c = CHR ''-'' then Some (- int ((hh * 60 + mm) * 60))
                 else None))))"

definition leap :: "nat \<Rightarrow> bool" where
  "leap y = (y mod 4 = 0 \<and> (y mod 100 \<noteq> 0 \<or> y mod 400 = 0))"

definition days_in :: "nat \<Rightarrow> nat \<Rightarrow> nat" where
  "days_in m y = (if m = 2 then (if leap y then 29 else 28) else if m \<in> {4, 6, 9, 11} then 30 else 31)"

definition days_of :: "int \<Rightarrow> int \<Rightarrow> int \<Rightarrow> int" where
  "days_of y m d =
     (let y' = (if m \<le> 2 then y - 1 else y); era = y' div 400; yoe = y' mod 400;
          doy = (153 * ((m + 9) mod 12) + 2) div 5 + d - 1
      in era * 146097 + yoe * 365 + yoe div 4 - yoe div 100 + doy - 306)"

definition parse_date :: "string \<Rightarrow> (int \<times> string) option" where
  "parse_date s =
     Option.bind (digits4 s) (\<lambda>(y, s1). Option.bind (expect (CHR ''-'') s1) (\<lambda>s2.
     Option.bind (digits2 s2) (\<lambda>(m, s3). Option.bind (expect (CHR ''-'') s3) (\<lambda>s4.
     Option.bind (digits2 s4) (\<lambda>(d, s5).
       if m < 1 \<or> m > 12 \<or> d < 1 \<or> d > days_in m y then None
       else Some (days_of (int y) (int m) (int d), s5))))))"

definition parse_clock :: "string \<Rightarrow> (int \<times> string) option" where
  "parse_clock s =
     Option.bind (digits12 s) (\<lambda>(h, s1). Option.bind (expect (CHR '':'') s1) (\<lambda>s2.
     Option.bind (digits2 s2) (\<lambda>(m, s3). Option.bind (expect (CHR '':'') s3) (\<lambda>s4.
     Option.bind (digits2 s4) (\<lambda>(sec, s5).
       if h \<ge> 24 \<or> m \<ge> 60 \<or> sec \<ge> 60 then None else Some (int (h * 3600 + m * 60 + sec), s5))))))"

definition parse_rfc3339 :: "string \<Rightarrow> (go_time \<times> int) option" where
  "parse_rfc3339 s =
     Option.bind (parse_date s) (\<lambda>(days, s1). Option.bind (expect (CHR ''T'') s1) (\<lambda>s2.
     Option.bind (parse_clock s2) (\<lambda>(secs, s3).
       case fraction s3 of (ns, s4) \<Rightarrow>
         map_option (\<lambda>off. ((days * 86400 + secs - off) * Second + ns, off)) (zone s4))))"

text \<open>
  A field of type \<^verbatim>\<open>time.Time\<close>: instant and zone offset, the zero time when it is absent or null;
  \<open>None\<close> when a value is not a string or does not parse.
\<close>

definition time_field :: "string list \<Rightarrow> string \<Rightarrow> string \<Rightarrow> (string \<times> json) list \<Rightarrow> (go_time \<times> int) option" where
  "time_field names name data ms =
     (if list_all (\<lambda>(k, v). k = name \<longrightarrow> v = JNull \<or> json_string v \<noteq> None) ms then
        map_option (\<lambda>ts. if ts = [] then (0, 0) else last ts)
          (opt_seq (map (parse_rfc3339 \<circ> snd) (filter (\<lambda>(k, _). field_of names k = Some name) (top_raws data))))
      else None)"

section \<open>Float arithmetic\<close>

fun bitlen :: "nat \<Rightarrow> nat" where
  "bitlen n = (if n = 0 then 0 else Suc (bitlen (n div 2)))"

declare bitlen.simps [simp del]

definition pow2 :: "int \<Rightarrow> rat" where
  "pow2 e = (if 0 \<le> e then 2 ^ nat e else 1 / 2 ^ nat (- e))"

definition half_even :: "rat \<Rightarrow> int" where
  "half_even r =
     (let f = \<lfloor>r\<rfloor>; d = r - of_int f in
      if d < 1 / 2 then f else if d > 1 / 2 then f + 1 else if even f then f else f + 1)"

definition exponent :: "rat \<Rightarrow> int" where
  "exponent q =
     (case quotient_of q of (n, d) \<Rightarrow>
        let e0 = int (bitlen (nat n)) - int (bitlen (nat d)) in if q \<ge> pow2 e0 then e0 else e0 - 1)"

definition round_pos :: "rat \<Rightarrow> rat" where
  "round_pos q = (let u = max (exponent q - 52) (- 1074) in of_int (half_even (q / pow2 u)) * pow2 u)"

definition round_f64 :: "rat \<Rightarrow> float64" where
  "round_f64 q =
     (if q = 0 then Fin 0
      else let r = round_pos \<bar>q\<bar> in
        if r \<ge> pow2 1024 then Inf (q < 0) else Fin (if q < 0 then - r else r))"

lemma half_even_nonneg: "0 \<le> r \<Longrightarrow> 0 \<le> half_even r"
  by (auto simp: half_even_def Let_def)

lemma pow2_pos: "0 < pow2 e"
  by (simp add: pow2_def)

lemma round_pos_nonneg: "0 \<le> q \<Longrightarrow> 0 \<le> round_pos q"
  unfolding round_pos_def Let_def
  by (intro mult_nonneg_nonneg) (simp_all add: half_even_nonneg pow2_pos less_imp_le divide_nonneg_pos)

definition f_le :: "float64 \<Rightarrow> float64 \<Rightarrow> bool" where
  "f_le x y = (f_lt x y \<or> (x = y \<and> x \<noteq> NaN))"

lemma round_f64_nonneg: "0 \<le> q \<Longrightarrow> f_le (Fin 0) (round_f64 q)"
  using round_pos_nonneg [of q] by (auto simp: round_f64_def Let_def f_le_def f_lt_def)

text \<open>Operations on finite values, which are all the hub computes.\<close>

definition f_div :: "rat \<Rightarrow> rat \<Rightarrow> float64" where
  "f_div x y = round_f64 (x / y)"

definition f_mul :: "float64 \<Rightarrow> rat \<Rightarrow> float64" where
  "f_mul x y = (case x of Fin a \<Rightarrow> round_f64 (a * y) | _ \<Rightarrow> x)"

definition f_absdiff :: "float64 \<Rightarrow> float64 \<Rightarrow> float64" where
  "f_absdiff x y =
     (case (x, y) of
        (Fin a, Fin b) \<Rightarrow> round_f64 \<bar>a - b\<bar>
      | (NaN, _) \<Rightarrow> NaN | (_, NaN) \<Rightarrow> NaN
      | (Inf a, Inf b) \<Rightarrow> if a = b then NaN else Inf False
      | _ \<Rightarrow> Inf False)"

text \<open>The rational a JSON number denotes, and its conversion to a float64 field.\<close>

definition num_rat :: "string \<Rightarrow> rat" where
  "num_rat s =
     (let neg = HasPrefix s ''-''; s0 = (if neg then tl s else s);
          dig = (\<lambda>c. asciiDigit (byte c));
          ip = takeWhile dig s0; s1 = dropWhile dig s0;
          fp = (if HasPrefix s1 ''.'' then takeWhile dig (tl s1) else []);
          s2 = (if HasPrefix s1 ''.'' then dropWhile dig (tl s1) else s1);
          s3 = (case s2 of [] \<Rightarrow> [] | _ # r \<Rightarrow> r);
          eneg = HasPrefix s3 ''-'';
          ex = dec_val 0 (if eneg \<or> HasPrefix s3 ''+'' then tl s3 else s3);
          m = of_nat (dec_val 0 (ip @ fp)) / 10 ^ length fp;
          v = (if eneg then m / 10 ^ ex else m * 10 ^ ex)
      in if neg then - v else v)"

fun json_float64 :: "json \<Rightarrow> float64 option" where
  "json_float64 (JNum n) = (case round_f64 (num_rat n) of Fin q \<Rightarrow> Some (Fin q) | _ \<Rightarrow> None)"
| "json_float64 _ = None"

fun json_uint64 :: "json \<Rightarrow> nat option" where
  "json_uint64 (JNum n) = ParseUint64 n"
| "json_uint64 _ = None"

end
