(* ===== verification/HubMetrics.thy ===== *)
theory HubMetrics
  imports GoDecode HubTasks
begin

text \<open>
  The result contract of a \<^verbatim>\<open>metrics.read\<close> task, \<^verbatim>\<open>internal/agenthub/metrics.go\<close> with the snapshot
  structs of \<^verbatim>\<open>types.go\<close>: the shape check on the JSON text, the strict decoding into the structs, and
  the bounds on the observed values against the server clock. Byte counters are 64-bit words, whose
  arithmetic wraps; the lemmas show that for an accepted snapshot it does not.
\<close>

section \<open>Snapshots\<close>

record MetricsCPU =
  cpu_UsagePercent :: float64
  cpu_CoreCount :: int

record MetricsLoad =
  ld_One :: float64
  ld_Five :: float64
  ld_Fifteen :: float64

record MetricsMemory =
  mem_TotalBytes :: u64
  mem_UsedBytes :: u64
  mem_AvailableBytes :: u64
  mem_UsagePercent :: float64

record MetricsNetwork =
  net_RXBytes :: u64
  net_TXBytes :: u64

record MetricsFilesystem =
  fs_TotalBytes :: u64
  fs_UsedBytes :: u64
  fs_AvailableBytes :: u64
  fs_UsagePercent :: float64

text \<open>\<^verbatim>\<open>ObservedAt\<close> is an instant with its zone offset in seconds.\<close>

record MetricsSnapshot =
  ms_ObservedAt :: "go_time \<times> int"
  ms_CPU :: MetricsCPU
  ms_Load :: MetricsLoad
  ms_Memory :: MetricsMemory
  ms_Network :: MetricsNetwork
  ms_RootDisk :: MetricsFilesystem

definition zeroSnapshot :: MetricsSnapshot where
  "zeroSnapshot = \<lparr>ms_ObservedAt = (0, 0),
     ms_CPU = \<lparr>cpu_UsagePercent = Fin 0, cpu_CoreCount = 0\<rparr>,
     ms_Load = \<lparr>ld_One = Fin 0, ld_Five = Fin 0, ld_Fifteen = Fin 0\<rparr>,
     ms_Memory = \<lparr>mem_TotalBytes = 0, mem_UsedBytes = 0, mem_AvailableBytes = 0, mem_UsagePercent = Fin 0\<rparr>,
     ms_Network = \<lparr>net_RXBytes = 0, net_TXBytes = 0\<rparr>,
     ms_RootDisk = \<lparr>fs_TotalBytes = 0, fs_UsedBytes = 0, fs_AvailableBytes = 0, fs_UsagePercent = Fin 0\<rparr>\<rparr>"

definition MetricsSnapshotMaxAge :: duration where "MetricsSnapshotMaxAge = 2 * Minute"
definition MetricsSnapshotFutureSkew :: duration where "MetricsSnapshotFutureSkew = 30 * Second"
definition MetricsUnavailableError :: string where [hub_consts]: "MetricsUnavailableError = ''metrics_unavailable''"
definition maxMetricsSnapshotBytes :: nat where "maxMetricsSnapshotBytes = 8192"

section \<open>Shape and decoding\<close>

definition metricsObjects :: "(string \<times> string list) list" where
  "metricsObjects =
     [(''cpu'', [''usage_percent'', ''core_count'']),
      (''load'', [''one'', ''five'', ''fifteen'']),
      (''memory'', [''total_bytes'', ''used_bytes'', ''available_bytes'', ''usage_percent'']),
      (''network'', [''rx_bytes'', ''tx_bytes'']),
      (''root_disk'', [''total_bytes'', ''used_bytes'', ''available_bytes'', ''usage_percent''])]"

text \<open>A JSON object as a Go map: the last of several members with one key counts.\<close>

definition exactObject :: "string list \<Rightarrow> json option \<Rightarrow> bool" where
  "exactObject names raw =
     (case raw of
        Some (JObj ms) \<Rightarrow> length (remdups (map fst ms)) = length names \<and> list_all (\<lambda>n. n \<in> fst ` set ms) names
      | _ \<Rightarrow> False)"

definition validateMetricsJSONShape :: "string \<Rightarrow> hub_error + unit" where
  "validateMetricsJSONShape data =
     (case json_parse maxNestingDepth data of
        Some (JObj ms) \<Rightarrow>
          if length (remdups (map fst ms)) \<noteq> length metricsObjects + 1 then invalid
          else if ''observed_at'' \<notin> fst ` set ms then invalid
          else refuse_if (\<not> list_all (\<lambda>(name, fs). exactObject fs (map_of (rev ms) name)) metricsObjects)
      | _ \<Rightarrow> invalid)"

definition u64_field :: "string \<Rightarrow> (string \<times> json) list \<Rightarrow> u64 \<Rightarrow> u64 option" where
  "u64_field = get_field (\<lambda>v. map_option of_nat (json_uint64 v))"

definition decodeCPU :: "json \<Rightarrow> MetricsCPU \<Rightarrow> MetricsCPU option" where
  "decodeCPU v x =
     Option.bind (struct_members [''usage_percent'', ''core_count''] v) (\<lambda>ms.
     Option.bind (get_field json_float64 ''usage_percent'' ms (cpu_UsagePercent x)) (\<lambda>u.
     map_option (\<lambda>c. \<lparr>cpu_UsagePercent = u, cpu_CoreCount = c\<rparr>)
       (get_field json_int64 ''core_count'' ms (cpu_CoreCount x))))"

definition decodeLoad :: "json \<Rightarrow> MetricsLoad \<Rightarrow> MetricsLoad option" where
  "decodeLoad v x =
     Option.bind (struct_members [''one'', ''five'', ''fifteen''] v) (\<lambda>ms.
     Option.bind (get_field json_float64 ''one'' ms (ld_One x)) (\<lambda>a.
     Option.bind (get_field json_float64 ''five'' ms (ld_Five x)) (\<lambda>b.
     map_option (\<lambda>c. \<lparr>ld_One = a, ld_Five = b, ld_Fifteen = c\<rparr>)
       (get_field json_float64 ''fifteen'' ms (ld_Fifteen x)))))"

definition byteNames :: "string list" where
  "byteNames = [''total_bytes'', ''used_bytes'', ''available_bytes'', ''usage_percent'']"

definition decodeMemory :: "json \<Rightarrow> MetricsMemory \<Rightarrow> MetricsMemory option" where
  "decodeMemory v x =
     Option.bind (struct_members byteNames v) (\<lambda>ms.
     Option.bind (u64_field ''total_bytes'' ms (mem_TotalBytes x)) (\<lambda>a.
     Option.bind (u64_field ''used_bytes'' ms (mem_UsedBytes x)) (\<lambda>b.
     Option.bind (u64_field ''available_bytes'' ms (mem_AvailableBytes x)) (\<lambda>c.
     map_option (\<lambda>d. \<lparr>mem_TotalBytes = a, mem_UsedBytes = b, mem_AvailableBytes = c, mem_UsagePercent = d\<rparr>)
       (get_field json_float64 ''usage_percent'' ms (mem_UsagePercent x))))))"

definition decodeNetwork :: "json \<Rightarrow> MetricsNetwork \<Rightarrow> MetricsNetwork option" where
  "decodeNetwork v x =
     Option.bind (struct_members [''rx_bytes'', ''tx_bytes''] v) (\<lambda>ms.
     Option.bind (u64_field ''rx_bytes'' ms (net_RXBytes x)) (\<lambda>a.
     map_option (\<lambda>b. \<lparr>net_RXBytes = a, net_TXBytes = b\<rparr>) (u64_field ''tx_bytes'' ms (net_TXBytes x))))"

definition decodeFilesystem :: "json \<Rightarrow> MetricsFilesystem \<Rightarrow> MetricsFilesystem option" where
  "decodeFilesystem v x =
     Option.bind (struct_members byteNames v) (\<lambda>ms.
     Option.bind (u64_field ''total_bytes'' ms (fs_TotalBytes x)) (\<lambda>a.
     Option.bind (u64_field ''used_bytes'' ms (fs_UsedBytes x)) (\<lambda>b.
     Option.bind (u64_field ''available_bytes'' ms (fs_AvailableBytes x)) (\<lambda>c.
     map_option (\<lambda>d. \<lparr>fs_TotalBytes = a, fs_UsedBytes = b, fs_AvailableBytes = c, fs_UsagePercent = d\<rparr>)
       (get_field json_float64 ''usage_percent'' ms (fs_UsagePercent x))))))"

definition snapshotNames :: "string list" where
  "snapshotNames = [''observed_at'', ''cpu'', ''load'', ''memory'', ''network'', ''root_disk'']"

definition putSnapshot :: "string \<times> json \<Rightarrow> MetricsSnapshot option \<Rightarrow> MetricsSnapshot option" where
  "putSnapshot m acc =
     Option.bind acc (\<lambda>s. case m of (name, v) \<Rightarrow>
       if name = ''cpu'' then map_option (\<lambda>x. s\<lparr>ms_CPU := x\<rparr>) (decodeCPU v (ms_CPU s))
       else if name = ''load'' then map_option (\<lambda>x. s\<lparr>ms_Load := x\<rparr>) (decodeLoad v (ms_Load s))
       else if name = ''memory'' then map_option (\<lambda>x. s\<lparr>ms_Memory := x\<rparr>) (decodeMemory v (ms_Memory s))
       else if name = ''network'' then map_option (\<lambda>x. s\<lparr>ms_Network := x\<rparr>) (decodeNetwork v (ms_Network s))
       else if name = ''root_disk'' then map_option (\<lambda>x. s\<lparr>ms_RootDisk := x\<rparr>) (decodeFilesystem v (ms_RootDisk s))
       else Some s)"

definition unmarshalSnapshot :: "string \<Rightarrow> MetricsSnapshot option" where
  "unmarshalSnapshot data =
     Option.bind (json_parse maxNestingDepth data) (\<lambda>v.
     Option.bind (struct_members snapshotNames v) (\<lambda>ms.
     Option.bind (time_field snapshotNames ''observed_at'' data ms) (\<lambda>t.
       fold putSnapshot ms (Some (zeroSnapshot\<lparr>ms_ObservedAt := t\<rparr>)))))"

definition DecodeMetricsSnapshot :: "string \<Rightarrow> hub_error + MetricsSnapshot" where
  "DecodeMetricsSnapshot data =
     (if length data = 0 \<or> length data > maxMetricsSnapshotBytes then invalid
      else andThen (validateMetricsJSONShape data) (\<lambda>_.
        case unmarshalSnapshot data of None \<Rightarrow> invalid | Some s \<Rightarrow> Inr s))"

section \<open>Bounds\<close>

definition validMetricsPercent :: "float64 \<Rightarrow> bool" where
  "validMetricsPercent v = (\<not> IsNaN v \<and> \<not> IsInf v \<and> f_le (Fin 0) v \<and> f_le v (Fin 100))"

definition validMetricsLoad :: "float64 \<Rightarrow> bool" where
  "validMetricsLoad v = (\<not> IsNaN v \<and> \<not> IsInf v \<and> f_le (Fin 0) v \<and> f_le v (Fin 1000000))"

definition closeMetricsPercent :: "float64 \<Rightarrow> float64 \<Rightarrow> bool" where
  "closeMetricsPercent got want = f_le (f_absdiff got want) (round_f64 (1 / 100))"

text \<open>\<^verbatim>\<open>float64(part) / float64(whole) * 100\<close> for a positive whole.\<close>

definition f_of_u64 :: "u64 \<Rightarrow> rat" where
  "f_of_u64 w = (case round_f64 (of_nat (unat w)) of Fin q \<Rightarrow> q | _ \<Rightarrow> 0)"

definition percentOf :: "u64 \<Rightarrow> u64 \<Rightarrow> float64" where
  "percentOf part whole = f_mul (f_div (f_of_u64 part) (f_of_u64 whole)) 100"

definition freshSnapshot :: "MetricsSnapshot \<Rightarrow> go_time \<Rightarrow> bool" where
  "freshSnapshot s now =
     (case ms_ObservedAt s of (t, offset) \<Rightarrow>
        \<not> (offset \<noteq> 0 \<or> t < now - MetricsSnapshotMaxAge \<or> t > now + MetricsSnapshotFutureSkew))"

definition validMemory :: "MetricsMemory \<Rightarrow> bool" where
  "validMemory m =
     (\<not> (mem_TotalBytes m = 0 \<or> mem_AvailableBytes m > mem_TotalBytes m
         \<or> mem_UsedBytes m \<noteq> mem_TotalBytes m - mem_AvailableBytes m
         \<or> \<not> validMetricsPercent (mem_UsagePercent m)
         \<or> \<not> closeMetricsPercent (mem_UsagePercent m) (percentOf (mem_UsedBytes m) (mem_TotalBytes m))))"

definition validRootDisk :: "MetricsFilesystem \<Rightarrow> bool" where
  "validRootDisk d =
     (\<not> (fs_TotalBytes d = 0 \<or> fs_UsedBytes d > fs_TotalBytes d \<or> fs_AvailableBytes d > fs_TotalBytes d
         \<or> fs_UsedBytes d > fs_TotalBytes d - fs_AvailableBytes d
         \<or> \<not> validMetricsPercent (fs_UsagePercent d)))"

definition validDiskPercent :: "MetricsFilesystem \<Rightarrow> bool" where
  "validDiskPercent d =
     (let denominator = fs_UsedBytes d + fs_AvailableBytes d;
          want = (if denominator > 0 then percentOf (fs_UsedBytes d) denominator else Fin 0)
      in closeMetricsPercent (fs_UsagePercent d) want)"

definition ValidateMetricsSnapshot :: "MetricsSnapshot \<Rightarrow> go_time \<Rightarrow> hub_error + unit" where
  "ValidateMetricsSnapshot s now =
     (if IsZero (fst (ms_ObservedAt s)) then invalid
      else if \<not> freshSnapshot s now then invalid
      else if cpu_CoreCount (ms_CPU s) < 1 \<or> cpu_CoreCount (ms_CPU s) > 65536
              \<or> \<not> validMetricsPercent (cpu_UsagePercent (ms_CPU s)) then invalid
      else if \<not> validMetricsLoad (ld_One (ms_Load s)) \<or> \<not> validMetricsLoad (ld_Five (ms_Load s))
              \<or> \<not> validMetricsLoad (ld_Fifteen (ms_Load s)) then invalid
      else if \<not> validMemory (ms_Memory s) then invalid
      else if \<not> validRootDisk (ms_RootDisk s) then invalid
      else refuse_if (\<not> validDiskPercent (ms_RootDisk s)))"

definition ValidateMetricsTaskResult :: "TaskResultRequest \<Rightarrow> go_time \<Rightarrow> hub_error + unit" where
  "ValidateMetricsTaskResult req now =
     (if res_Status req = TaskStatusCompleted then
        (if res_Error req \<noteq> [] \<or> length (res_Result req) \<noteq> 1 then invalid
         else if \<not> ghas (res_Result req) ''data'' then invalid
         else andThen (DecodeMetricsSnapshot (gget (res_Result req) ''data'')) (\<lambda>s. ValidateMetricsSnapshot s now))
      else if res_Status req = TaskStatusFailed then
        refuse_if (res_Error req \<noteq> MetricsUnavailableError \<or> length (res_Result req) \<noteq> 0)
      else invalid)"

section \<open>What an accepted snapshot guarantees\<close>

lemma validRootDisk_no_wrap:
  assumes "validRootDisk d"
  shows "unat (fs_UsedBytes d + fs_AvailableBytes d) = unat (fs_UsedBytes d) + unat (fs_AvailableBytes d)"
    and "unat (fs_UsedBytes d) + unat (fs_AvailableBytes d) \<le> unat (fs_TotalBytes d)"
proof -
  have le: "fs_AvailableBytes d \<le> fs_TotalBytes d" "fs_UsedBytes d \<le> fs_TotalBytes d - fs_AvailableBytes d"
    using assms by (auto simp: validRootDisk_def not_less)
  then show sum: "unat (fs_UsedBytes d) + unat (fs_AvailableBytes d) \<le> unat (fs_TotalBytes d)"
    by (simp add: word_le_nat_alt unat_sub)
  have "unat (fs_UsedBytes d) + unat (fs_AvailableBytes d) < 2 ^ 64"
    using sum unsigned_less [of "fs_TotalBytes d", where 'a = nat] by simp
  then show "unat (fs_UsedBytes d + fs_AvailableBytes d) = unat (fs_UsedBytes d) + unat (fs_AvailableBytes d)"
    using unat_add_lem [of "fs_UsedBytes d" "fs_AvailableBytes d"] by simp
qed

lemma validMemory_split:
  assumes "validMemory m"
  shows "unat (mem_UsedBytes m) + unat (mem_AvailableBytes m) = unat (mem_TotalBytes m)" "0 < unat (mem_TotalBytes m)"
  using assms by (auto simp: validMemory_def not_less word_le_nat_alt unat_sub unat_gt_0)

lemma ValidateMetricsSnapshot_err: "ValidateMetricsSnapshot s now = Inl e \<Longrightarrow> e = ErrInvalidInput"
  by (simp add: ValidateMetricsSnapshot_def split: if_splits)

lemma ValidateMetricsTaskResult_err: "ValidateMetricsTaskResult req now = Inl e \<Longrightarrow> e = ErrInvalidInput"
  by (auto simp: ValidateMetricsTaskResult_def DecodeMetricsSnapshot_def validateMetricsJSONShape_def
      andThen_Inl_iff split: if_splits option.splits json.splits dest: ValidateMetricsSnapshot_err)

lemma ValidateMetricsTaskResult_completed:
  assumes "ValidateMetricsTaskResult req now = Inr ()" "res_Status req = TaskStatusCompleted"
  shows "\<exists>s. DecodeMetricsSnapshot (gget (res_Result req) ''data'') = Inr s \<and> ValidateMetricsSnapshot s now = Inr ()"
  using assms by (auto simp: ValidateMetricsTaskResult_def andThen_Inr_iff split: if_splits)

end
