(* ===== verification/ManagedStatus.thy ===== *)
theory ManagedStatus
  imports GoDecode HubTasks
begin

text \<open>
  The schema-v1 result of an \<^verbatim>\<open>integration.status\<close> task, \<^verbatim>\<open>internal/managedintegrationstatus/status.go\<close>
  and the wire states of \<^verbatim>\<open>internal/integrationstate/state.go\<close>: strict decoding of one bounded JSON
  object, the allowlist of \<^verbatim>\<open>Validate\<close>, and the encoder. Its two package errors are told apart; the hub wraps both
  as invalid input. The lemma of interest: an accepted result is exactly one PM2 and one Docker
  observation, and \<^verbatim>\<open>partial\<close> is set exactly when one of them is not healthy.
\<close>

section \<open>Wire states\<close>

definition stNotConfigured :: string where [hub_consts]: "stNotConfigured = ''not_configured''"
definition stUnavailable :: string where [hub_consts]: "stUnavailable = ''unavailable''"
definition stHealthy :: string where [hub_consts]: "stHealthy = ''healthy''"

definition IsValid :: "string \<Rightarrow> bool" where
  "IsValid s = (s = stNotConfigured \<or> s = stUnavailable \<or> s = stHealthy)"

record Observation =
  ob_Configured :: bool
  ob_Successful :: bool

definition FromObservation :: "Observation \<Rightarrow> string" where
  "FromObservation ob =
     (if \<not> ob_Configured ob then stNotConfigured
      else if \<not> ob_Successful ob then stUnavailable
      else stHealthy)"

section \<open>Results\<close>

definition SchemaVersion :: int where "SchemaVersion = 1"
definition ScopeManagedNode :: string where [hub_consts]: "ScopeManagedNode = ''managed_node''"
definition ProcessPM2ID :: string where [hub_consts]: "ProcessPM2ID = ''process.pm2''"
definition DockerID :: string where [hub_consts]: "DockerID = ''container.docker''"
definition PM2InventoryProbe :: string where [hub_consts]: "PM2InventoryProbe = ''pm2_inventory''"
definition DockerInfoProbe :: string where [hub_consts]: "DockerInfoProbe = ''docker_info''"
definition ErrorCodeNotConfigured :: string where [hub_consts]: "ErrorCodeNotConfigured = ''not_configured''"
definition ErrorCodeProbeFailed :: string where [hub_consts]: "ErrorCodeProbeFailed = ''probe_failed''"
definition ErrorCodeTimeout :: string where [hub_consts]: "ErrorCodeTimeout = ''timeout''"
definition FatalErrorCode :: string where [hub_consts]: "FatalErrorCode = ''integration_status_failed''"
definition MaxResultBytes :: nat where "MaxResultBytes = 32768"

datatype status_error = ErrInvalidResult | ErrResultTooLarge

record ManagedIntegrationStatusResult =
  mr_ID :: string
  mr_State :: string
  mr_Probe :: string
  mr_ErrorCode :: string
  mr_DurationMS :: int

record ManagedIntegrationStatusTarget =
  tgt_Scope :: string
  tgt_NodeID :: string

record ManagedIntegrationStatusResponse =
  msr_SchemaVersion :: int
  msr_ObservedAt :: go_time
  msr_Target :: ManagedIntegrationStatusTarget
  msr_Results :: "ManagedIntegrationStatusResult list option"
  msr_Partial :: bool

section \<open>Validation\<close>

definition nodeIDRune :: "nat \<Rightarrow> bool" where
  "nodeIDRune r = (asciiLetterOrDigit r \<or> r = 45 \<or> r = 95 \<or> r = 46)"

definition statusNodeID :: "string \<Rightarrow> bool" where
  "statusNodeID value =
     (\<not> (value = [] \<or> length value > 128 \<or> TrimSpace value \<noteq> value)
      \<and> list_all nodeIDRune (runes value)
      \<and> hd (runes value) \<notin> {45, 95, 46})"

text \<open>One pass of the loop over the results, without the check for a repeated id.\<close>

definition resultOk :: "ManagedIntegrationStatusResult \<Rightarrow> bool" where
  "resultOk r =
     (mr_DurationMS r \<ge> 0 \<and> IsValid (mr_State r)
      \<and> (if mr_ID r = ProcessPM2ID then mr_Probe r = PM2InventoryProbe
         else if mr_ID r = DockerID then mr_Probe r = DockerInfoProbe
         else False)
      \<and> (if mr_State r = stHealthy then mr_ErrorCode r = []
         else if mr_State r = stNotConfigured then mr_ErrorCode r = ErrorCodeNotConfigured
         else if mr_State r = stUnavailable then
           mr_ErrorCode r = ErrorCodeProbeFailed \<or> mr_ErrorCode r = ErrorCodeTimeout
         else True))"

definition resultPartial :: "ManagedIntegrationStatusResult \<Rightarrow> bool" where
  "resultPartial r = (mr_State r = stNotConfigured \<or> mr_State r = stUnavailable)"

definition Validate :: "ManagedIntegrationStatusResponse \<Rightarrow> bool" where
  "Validate r =
     (msr_SchemaVersion r = SchemaVersion \<and> \<not> IsZero (msr_ObservedAt r)
      \<and> tgt_Scope (msr_Target r) = ScopeManagedNode \<and> statusNodeID (tgt_NodeID (msr_Target r))
      \<and> (case msr_Results r of
           None \<Rightarrow> False
         | Some rs \<Rightarrow>
             length rs = 2 \<and> distinct (map mr_ID rs) \<and> list_all resultOk rs
             \<and> ProcessPM2ID \<in> mr_ID ` set rs \<and> DockerID \<in> mr_ID ` set rs
             \<and> (msr_Partial r \<longleftrightarrow> list_ex resultPartial rs)))"

section \<open>Decoding\<close>

definition zeroResult :: ManagedIntegrationStatusResult where
  "zeroResult = \<lparr>mr_ID = [], mr_State = [], mr_Probe = [], mr_ErrorCode = [], mr_DurationMS = 0\<rparr>"

definition decodeResult :: "json \<Rightarrow> ManagedIntegrationStatusResult \<Rightarrow> ManagedIntegrationStatusResult option" where
  "decodeResult v x =
     Option.bind (struct_members [''id'', ''state'', ''probe'', ''error_code'', ''duration_ms''] v) (\<lambda>ms.
     Option.bind (get_field json_string ''id'' ms (mr_ID x)) (\<lambda>i.
     Option.bind (get_field json_string ''state'' ms (mr_State x)) (\<lambda>s.
     Option.bind (get_field json_string ''probe'' ms (mr_Probe x)) (\<lambda>p.
     Option.bind (get_field json_string ''error_code'' ms (mr_ErrorCode x)) (\<lambda>e.
     map_option (\<lambda>d. \<lparr>mr_ID = i, mr_State = s, mr_Probe = p, mr_ErrorCode = e, mr_DurationMS = d\<rparr>)
       (get_field json_int64 ''duration_ms'' ms (mr_DurationMS x)))))))"

definition decodeTarget :: "json \<Rightarrow> ManagedIntegrationStatusTarget \<Rightarrow> ManagedIntegrationStatusTarget option" where
  "decodeTarget v x =
     Option.bind (struct_members [''scope'', ''node_id''] v) (\<lambda>ms.
     Option.bind (get_field json_string ''scope'' ms (tgt_Scope x)) (\<lambda>s.
     map_option (\<lambda>n. \<lparr>tgt_Scope = s, tgt_NodeID = n\<rparr>) (get_field json_string ''node_id'' ms (tgt_NodeID x))))"

text \<open>
  The slice of results with its backing array: the decoder writes an element over the one the
  array still holds at its index, so that a repeated \<^verbatim>\<open>results\<close> member merges with the earlier one.
\<close>

fun decodeElems :: "json list \<Rightarrow> ManagedIntegrationStatusResult list \<Rightarrow> ManagedIntegrationStatusResult list option" where
  "decodeElems [] old = Some old"
| "decodeElems (v # vs) old =
     Option.bind (decodeResult v (case old of [] \<Rightarrow> zeroResult | x # _ \<Rightarrow> x)) (\<lambda>y.
       map_option ((#) y) (decodeElems vs (tl old)))"

type_synonym result_slice = "ManagedIntegrationStatusResult list \<times> nat option"

definition decodeResults :: "string \<times> json \<Rightarrow> result_slice option \<Rightarrow> result_slice option" where
  "decodeResults m acc =
     Option.bind acc (\<lambda>(backing, len). case snd m of
         JNull \<Rightarrow> Some ([], None)
       | JArr items \<Rightarrow>
           if items = [] then Some ([], Some 0)
           else map_option (\<lambda>b. (b, Some (length items))) (decodeElems items backing)
       | _ \<Rightarrow> None)"

definition responseNames :: "string list" where
  "responseNames = [''schema_version'', ''observed_at'', ''target'', ''results'', ''partial'']"

definition putTarget :: "string \<times> json \<Rightarrow> ManagedIntegrationStatusTarget option \<Rightarrow> ManagedIntegrationStatusTarget option" where
  "putTarget m acc = Option.bind acc (decodeTarget (snd m))"

definition unmarshalResponse :: "string \<Rightarrow> ManagedIntegrationStatusResponse option" where
  "unmarshalResponse data =
     Option.bind (json_parse maxNestingDepth data) (\<lambda>v.
     Option.bind (struct_members responseNames v) (\<lambda>ms.
     Option.bind (get_field json_int64 ''schema_version'' ms 0) (\<lambda>version.
     Option.bind (time_field responseNames ''observed_at'' data ms) (\<lambda>(observed, _).
     Option.bind (fold putTarget (filter (\<lambda>m. fst m = ''target'') ms) (Some \<lparr>tgt_Scope = [], tgt_NodeID = []\<rparr>)) (\<lambda>target.
     Option.bind (fold decodeResults (filter (\<lambda>m. fst m = ''results'') ms) (Some ([], None))) (\<lambda>(backing, len).
     map_option (\<lambda>part. \<lparr>msr_SchemaVersion = version, msr_ObservedAt = observed, msr_Target = target,
                  msr_Results = map_option (\<lambda>n. take n backing) len, msr_Partial = part\<rparr>)
       (get_field json_bool ''partial'' ms False)))))))"

definition Decode :: "string \<Rightarrow> status_error + ManagedIntegrationStatusResponse" where
  "Decode data =
     (if length data > MaxResultBytes then Inl ErrResultTooLarge
      else (case unmarshalResponse data of
              None \<Rightarrow> Inl ErrInvalidResult
            | Some r \<Rightarrow> if Validate r then Inr r else Inl ErrInvalidResult))"

section \<open>Encoding\<close>

definition result_json :: "ManagedIntegrationStatusResult \<Rightarrow> json" where
  "result_json r =
     JObj ([(''id'', JStr (mr_ID r)), (''state'', JStr (mr_State r)), (''probe'', JStr (mr_Probe r))]
           @ omit_empty (mr_ErrorCode r = []) (''error_code'', JStr (mr_ErrorCode r))
           @ omit_empty (mr_DurationMS r = 0) (''duration_ms'', json_int (mr_DurationMS r)))"

definition response_json :: "string \<Rightarrow> ManagedIntegrationStatusResponse \<Rightarrow> json" where
  "response_json observed r =
     JObj [(''schema_version'', json_int (msr_SchemaVersion r)), (''observed_at'', JStr observed),
           (''target'', JObj [(''scope'', JStr (tgt_Scope (msr_Target r))), (''node_id'', JStr (tgt_NodeID (msr_Target r)))]),
           (''results'', case msr_Results r of None \<Rightarrow> JNull | Some rs \<Rightarrow> JArr (map result_json rs)),
           (''partial'', JBool (msr_Partial r))]"

definition Marshal :: "ManagedIntegrationStatusResponse \<Rightarrow> status_error + string" where
  "Marshal r =
     (if \<not> Validate r then Inl ErrInvalidResult
      else (case marshal_time (msr_ObservedAt r) of
          None \<Rightarrow> Inl ErrInvalidResult
        | Some observed \<Rightarrow>
            let data = json_print (response_json observed r) in
            if length data > MaxResultBytes then Inl ErrResultTooLarge else Inr data))"

text \<open>The hub's contract for the task result, \<^verbatim>\<open>ValidateIntegrationStatusTaskResult\<close> in \<^verbatim>\<open>service.go\<close>.\<close>

definition ValidateIntegrationStatusTaskResult :: "TaskResultRequest \<Rightarrow> hub_error + unit" where
  "ValidateIntegrationStatusTaskResult req =
     (if res_Status req = TaskStatusCompleted then
        (if res_Error req \<noteq> [] \<or> length (res_Result req) \<noteq> 1 then invalid
         else if gget (res_Result req) ''data'' = [] then invalid
         else (case Decode (gget (res_Result req) ''data'') of Inl _ \<Rightarrow> invalid | Inr _ \<Rightarrow> ok))
      else if res_Status req = TaskStatusFailed then
        refuse_if (res_Error req \<noteq> FatalErrorCode \<or> length (res_Result req) \<noteq> 0)
      else invalid)"

section \<open>What an accepted result is\<close>

lemma Validate_results:
  assumes "Validate r"
  shows "\<exists>a b. msr_Results r = Some [a, b] \<and> {mr_ID a, mr_ID b} = {ProcessPM2ID, DockerID}
    \<and> resultOk a \<and> resultOk b \<and> (msr_Partial r \<longleftrightarrow> \<not> (mr_State a = stHealthy \<and> mr_State b = stHealthy))"
proof -
  obtain rs where rs: "msr_Results r = Some rs" "length rs = 2" "list_all resultOk rs"
    "ProcessPM2ID \<in> mr_ID ` set rs" "DockerID \<in> mr_ID ` set rs" "msr_Partial r \<longleftrightarrow> list_ex resultPartial rs"
    using assms by (auto simp: Validate_def split: option.splits)
  then obtain a b where ab: "rs = [a, b]"
    by (auto simp: numeral_2_eq_2 length_Suc_conv)
  have "resultPartial x \<longleftrightarrow> mr_State x \<noteq> stHealthy" if "resultOk x" for x
    using that by (auto simp: resultOk_def resultPartial_def IsValid_def hub_consts)
  moreover have "ProcessPM2ID \<noteq> DockerID" by (simp add: hub_consts)
  ultimately show ?thesis using rs by (auto simp: ab)
qed

lemma Decode_Validate: "Decode data = Inr r \<Longrightarrow> Validate r \<and> length data \<le> MaxResultBytes"
  by (auto simp: Decode_def split: if_splits option.splits)

lemma ValidateIntegrationStatusTaskResult_err:
  "ValidateIntegrationStatusTaskResult req = Inl e \<Longrightarrow> e = ErrInvalidInput"
  by (auto simp: ValidateIntegrationStatusTaskResult_def split: if_splits sum.splits)

lemma statusNodeID_iff: "statusNodeID v \<longleftrightarrow> validNodeID v"
proof (cases "runes v")
  case (Cons r rs)
  have "runes v \<noteq> [] \<longleftrightarrow> v \<noteq> []" by simp
  then show ?thesis
    using Cons by (auto simp: statusNodeID_def validNodeID_def nodeIDRune_def first_rest_def
        maxNodeIDLength_def asciiLetterOrDigit_def list_all_iff)
qed (simp add: statusNodeID_def validNodeID_def)

end
