(* ===== verification/HubService.thy ===== *)
theory HubService
  imports HubRepository HubProfileView HubMetrics ManagedStatus
begin

text \<open>
  The application policy above the repository, \<^verbatim>\<open>internal/agenthub/service.go\<close>: registration and
  authentication of nodes, heartbeats, the profile endpoints, the enqueueing of tasks, and the
  agent's poll and completion. An operation takes the database and returns the new one with its
  result. What the code reads from its environment is an argument: the random bytes of a token, the
  Unicode tables \<open>u\<close>, the float text \<open>ff\<close>, and the clock, whose \<open>k\<close>-th reading in a call is \<open>clock k\<close>
  (two readings of one call may differ). A mutex of the code makes the operations that hold it
  exclude one another; the readings and the single write of an operation are here one step, and
  the interleaving of the writes themselves is the subject of the step relation built on the repository.
\<close>

type_synonym clock = "nat \<Rightarrow> go_time"

section \<open>Nodes\<close>

definition RegisterNode ::
  "hub_db \<Rightarrow> clock \<Rightarrow> string \<Rightarrow> RegisterNodeRequest \<Rightarrow> RegisterNodeResponse outcome" where
  "RegisterNode db clock rawToken req =
     (case validateRegisterNodeRequest req of
        Inl e \<Rightarrow> (db, Inl e)
      | Inr _ \<Rightarrow>
          (let token = hex_encode rawToken in
           case CreateNode db req (token_digest token) (clock 0) of
             (db', r) \<Rightarrow> (db', andThen r (\<lambda>node. Inr \<lparr>rnr_Node = node, rnr_Token = token\<rparr>))))"

definition AuthenticateNode :: "hub_db \<Rightarrow> string \<Rightarrow> string \<Rightarrow> hub_error + Node" where
  "AuthenticateNode db nodeID token =
     (if \<not> validNodeID nodeID \<or> token = [] then Inl ErrUnauthorized
      else AuthenticateToken db nodeID token)"

definition svcListNodes :: "hub_db \<Rightarrow> hub_error + Node list" where
  "svcListNodes db = ListNodes db"

definition svcGetNode :: "hub_db \<Rightarrow> string \<Rightarrow> hub_error + Node" where
  "svcGetNode db nodeID = (if \<not> validNodeID nodeID then Inl ErrNotFound else GetNode db nodeID)"

definition IsNodeOnline :: "go_time \<Rightarrow> Node \<Rightarrow> bool" where
  "IsNodeOnline now node =
     (case node_LastSeenAt node of
        None \<Rightarrow> False
      | Some seen \<Rightarrow> let age = time_sub now seen in 0 \<le> age \<and> age \<le> NodeOnlineWindow)"

section \<open>Heartbeats\<close>

definition ValidateHeartbeat :: "(rat \<Rightarrow> string) \<Rightarrow> clock \<Rightarrow> HeartbeatRequest \<Rightarrow> hub_error + unit" where
  "ValidateHeartbeat ff clock req =
     (if hb_ProtocolVersion req \<noteq> ProtocolVersion then Inl ErrUnsupportedProtocol
      else andThen (validateHeartbeatFields ff req) (\<lambda>_.
        if heartbeatAge (clock 0) (hb_SentAt req) > HeartbeatFreshnessWindow then Inl ErrStaleHeartbeat else ok))"

definition Heartbeat ::
  "(rat \<Rightarrow> string) \<Rightarrow> hub_db \<Rightarrow> clock \<Rightarrow> string \<Rightarrow> string \<Rightarrow> HeartbeatRequest \<Rightarrow> HeartbeatResponse outcome" where
  "Heartbeat ff db clock nodeID token req =
     (if \<not> validNodeID nodeID \<or> hb_NodeID req \<noteq> nodeID then (db, Inl ErrUnauthorized)
      else case AuthenticateNode db nodeID token of
        Inl e \<Rightarrow> (db, Inl e)
      | Inr _ \<Rightarrow>
          if hb_ProtocolVersion req \<noteq> ProtocolVersion then (db, Inl ErrUnsupportedProtocol)
          else case validateHeartbeatFields ff req of
            Inl e \<Rightarrow> (db, Inl e)
          | Inr _ \<Rightarrow>
              if heartbeatAge (clock 0) (hb_SentAt req) > HeartbeatFreshnessWindow then (db, Inl ErrStaleHeartbeat)
              else case UpdateHeartbeat ff db nodeID req (clock 0) of
                (db', r) \<Rightarrow> (db', andThen r (\<lambda>_. Inr \<lparr>hbr_Accepted = True, hbr_ServerAt = clock 0\<rparr>)))"

section \<open>Profiles\<close>

definition svcGetNodeProfile :: "hub_db \<Rightarrow> clock \<Rightarrow> string \<Rightarrow> hub_error + AgentProfileResponse" where
  "svcGetNodeProfile db clock nodeID =
     andThen (svcGetNode db nodeID) (\<lambda>node.
     andThen (GetNodeProfile db nodeID) (\<lambda>record.
     andThen (GetNodeProfileObservation db nodeID) (\<lambda>observation.
     andThen (GetLatestProfileApplyTask db nodeID) (\<lambda>latestTask.
       Inr (profileResponse record node (IsNodeOnline (clock 0) node) observation latestTask)))))"

definition UpdateNodeProfile ::
  "hub_db \<Rightarrow> clock \<Rightarrow> string \<Rightarrow> AgentProfile \<Rightarrow> int \<Rightarrow> AgentProfileResponse outcome" where
  "UpdateNodeProfile db clock nodeID profile expectedRevision =
     (case svcGetNode db nodeID of
        Inl e \<Rightarrow> (db, Inl e)
      | Inr _ \<Rightarrow>
          if expectedRevision < 0 then (db, invalid)
          else case NormalizeAgentProfile profile of
            Inl e \<Rightarrow> (db, Inl e)
          | Inr _ \<Rightarrow>
              (case SaveNodeProfile db nodeID profile expectedRevision (clock 0) of
                 (db', r) \<Rightarrow> (db', andThen r (\<lambda>_. svcGetNodeProfile db' (\<lambda>k. clock (Suc k)) nodeID))))"

text \<open>A completed task whose receipt still awaits the heartbeat of the requested revision.\<close>

definition awaitingReceipt ::
  "int \<Rightarrow> AgentProfileObservationRecord option \<Rightarrow> Task option \<Rightarrow> bool" where
  "awaitingReceipt expectedRevision observation latestTask =
     (case latestTask of
        None \<Rightarrow> False
      | Some task \<Rightarrow>
          task_Status task = TaskStatusCompleted
          \<and> profileApplyPayloadRevisionFromTask task = Inr expectedRevision
          \<and> \<not> (case observation of
                 None \<Rightarrow> False
               | Some ob \<Rightarrow> or_State ob = ProfileObservationFailed \<and> or_Revision ob = expectedRevision))"

definition alreadyApplied :: "int \<Rightarrow> AgentProfileObservationRecord option \<Rightarrow> bool" where
  "alreadyApplied expectedRevision observation =
     (case observation of
        None \<Rightarrow> False
      | Some ob \<Rightarrow> or_State ob = ProfileObservationApplied \<and> or_Revision ob = expectedRevision)"

definition ApplyNodeProfile :: "hub_db \<Rightarrow> clock \<Rightarrow> string \<Rightarrow> int \<Rightarrow> Task option outcome" where
  "ApplyNodeProfile db clock nodeID expectedRevision =
     (if \<not> validNodeID nodeID then (db, Inl ErrNotFound)
      else if expectedRevision < 1 then (db, invalid)
      else case GetNode db nodeID of
        Inl e \<Rightarrow> (db, Inl e)
      | Inr node \<Rightarrow>
        (case GetNodeProfile db nodeID of
           Inl e \<Rightarrow> (db, Inl e)
         | Inr record \<Rightarrow>
             if \<not> rec_Configured record then (db, Inl ErrProfileNotConfigured)
             else if rec_Revision record \<noteq> expectedRevision then (db, Inl ErrProfileRevisionStale)
             else if \<not> hasCapability (node_Capabilities node) CapabilityProfileApply then (db, Inl ErrCapabilityUnavailable)
             else case GetNodeProfileObservation db nodeID of
               Inl e \<Rightarrow> (db, Inl e)
             | Inr observation \<Rightarrow>
                 if alreadyApplied expectedRevision observation then (db, Inr None)
                 else if \<not> IsNodeOnline (clock 0) node then (db, Inl ErrNodeOffline)
                 else case GetLatestProfileApplyTask db nodeID of
                   Inl e \<Rightarrow> (db, Inl e)
                 | Inr latestTask \<Rightarrow>
                     if awaitingReceipt expectedRevision observation latestTask then (db, Inr latestTask)
                     else CreateProfileApplyTask db nodeID expectedRevision (rec_Profile record) (clock 1)))"

section \<open>Enqueueing\<close>

text \<open>The gate every enqueueing operation applies to the node before it touches the queue.\<close>

definition gateNode :: "go_time \<Rightarrow> string \<Rightarrow> Node \<Rightarrow> hub_error + unit" where
  "gateNode now required node =
     (if required \<noteq> [] \<and> \<not> hasCapability (node_Capabilities node) required then Inl ErrCapabilityUnavailable
      else if \<not> IsNodeOnline now node then Inl ErrNodeOffline
      else ok)"

definition inFlightTask :: "Task \<Rightarrow> bool" where
  "inFlightTask task = (task_Status task = TaskStatusQueued \<or> task_Status task = TaskStatusRunning)"

definition sameEnsure :: "TaskRequest \<Rightarrow> Task \<Rightarrow> bool" where
  "sameEnsure req task =
     (task_Kind task = TaskDeployDomainAction \<and> inFlightTask task
      \<and> gget (task_Payload task) ''action'' = ''ensure''
      \<and> gget (task_Payload task) ''target'' = gget (req_Payload req) ''target''
      \<and> gget (task_Payload task) ''domain'' = gget (req_Payload req) ''domain'')"

definition enqueueDeployDomainEnsure ::
  "uni_tables \<Rightarrow> hub_db \<Rightarrow> clock \<Rightarrow> string \<Rightarrow> TaskRequest \<Rightarrow> Task outcome" where
  "enqueueDeployDomainEnsure u db clock nodeID req =
     (case ValidateTaskRequest u req of
        Inl e \<Rightarrow> (db, Inl e)
      | Inr _ \<Rightarrow>
          if \<not> validNodeID nodeID then (db, Inl ErrNotFound)
          else case andThen (GetNode db nodeID) (gateNode (clock 0) CapabilityDeployDomainAction) of
            Inl e \<Rightarrow> (db, Inl e)
          | Inr _ \<Rightarrow>
              (case ListTasksForNode db nodeID 50 of
                 Inl e \<Rightarrow> (db, Inl e)
               | Inr tasks \<Rightarrow>
                   (case find (sameEnsure req) tasks of
                      Some task \<Rightarrow>
                        if gget (task_Payload task) ''expected_revision'' \<noteq> gget (req_Payload req) ''expected_revision''
                        then (db, Inl ErrDeployDomainEnsureConflict)
                        else (db, Inr task)
                    | None \<Rightarrow> CreateTask db nodeID req (clock 1))))"

definition EnqueueTask :: "uni_tables \<Rightarrow> hub_db \<Rightarrow> clock \<Rightarrow> string \<Rightarrow> TaskRequest \<Rightarrow> Task outcome" where
  "EnqueueTask u db clock nodeID req =
     (if req_Kind req = TaskDeployDomainAction \<and> gget (req_Payload req) ''action'' = ''ensure''
      then enqueueDeployDomainEnsure u db clock nodeID req
      else if \<not> validNodeID nodeID then (db, Inl ErrNotFound)
      else case GetNode db nodeID of
        Inl e \<Rightarrow> (db, Inl e)
      | Inr node \<Rightarrow>
          (case ValidateTaskRequest u req of
             Inl e \<Rightarrow> (db, Inl e)
           | Inr _ \<Rightarrow>
               (case gateNode (clock 0) (capabilityForTask (req_Kind req)) node of
                  Inl e \<Rightarrow> (db, Inl e)
                | Inr _ \<Rightarrow> CreateTask db nodeID req (clock 1))))"

definition EnqueueDeployDomainEnsure ::
  "uni_tables \<Rightarrow> hub_db \<Rightarrow> clock \<Rightarrow> string \<Rightarrow> string \<Rightarrow> string \<Rightarrow> string \<Rightarrow> Task outcome" where
  "EnqueueDeployDomainEnsure u db clock nodeID targetID domain expectedRevision0 =
     (let expectedRevision = (if expectedRevision0 = [] then ''absent'' else expectedRevision0);
          payload = [(''action'', ''ensure''), (''domain'', domain), (''expected_revision'', expectedRevision),
                     (''target'', targetID)]
      in EnqueueTask u db clock nodeID \<lparr>req_Kind = TaskDeployDomainAction, req_Payload = payload\<rparr>)"

text \<open>The common part of the two coalescing reads.\<close>

definition enqueueCoalesced :: "string \<Rightarrow> string \<Rightarrow> hub_db \<Rightarrow> clock \<Rightarrow> string \<Rightarrow> Task outcome" where
  "enqueueCoalesced kind capability db clock nodeID =
     (if \<not> validNodeID nodeID then (db, Inl ErrNotFound)
      else case andThen (GetNode db nodeID) (gateNode (clock 0) capability) of
        Inl e \<Rightarrow> (db, Inl e)
      | Inr _ \<Rightarrow>
          (case ListTasksForNode db nodeID 50 of
             Inl e \<Rightarrow> (db, Inl e)
           | Inr tasks \<Rightarrow>
               (case find (\<lambda>task. task_Kind task = kind \<and> inFlightTask task) tasks of
                  Some task \<Rightarrow> (db, Inr task)
                | None \<Rightarrow> CreateTask db nodeID \<lparr>req_Kind = kind, req_Payload = []\<rparr> (clock 1))))"

definition EnqueueIntegrationStatusTask :: "hub_db \<Rightarrow> clock \<Rightarrow> string \<Rightarrow> Task outcome" where
  "EnqueueIntegrationStatusTask = enqueueCoalesced TaskIntegrationStatus CapabilityIntegrationStatus"

definition EnqueueMetricsTask :: "hub_db \<Rightarrow> clock \<Rightarrow> string \<Rightarrow> Task outcome" where
  "EnqueueMetricsTask = enqueueCoalesced TaskMetricsRead CapabilityMetricsRead"

section \<open>Reading tasks\<close>

definition svcGetTaskForNode :: "hub_db \<Rightarrow> string \<Rightarrow> int \<Rightarrow> hub_error + Task" where
  "svcGetTaskForNode db nodeID taskID =
     (if \<not> validNodeID nodeID \<or> taskID \<le> 0 then Inl ErrNotFound else GetTaskForNode db nodeID taskID)"

definition svcListTasksForNode :: "hub_db \<Rightarrow> string \<Rightarrow> int \<Rightarrow> hub_error + Task list" where
  "svcListTasksForNode db nodeID limit0 =
     (if \<not> validNodeID nodeID then Inl ErrNotFound
      else andThen (GetNode db nodeID) (\<lambda>_.
        let limit1 = (if limit0 \<le> 0 then 20 else limit0); limit = (if limit1 > 50 then 50 else limit1)
        in ListTasksForNode db nodeID limit))"

section \<open>The agent side of the queue\<close>

definition PollTaskForNode :: "hub_db \<Rightarrow> clock \<Rightarrow> string \<Rightarrow> Task option outcome" where
  "PollTaskForNode db clock nodeID =
     (if \<not> validNodeID nodeID then (db, Inl ErrUnauthorized) else ClaimNextTask db nodeID (clock 0))"

definition PollTask :: "hub_db \<Rightarrow> clock \<Rightarrow> string \<Rightarrow> string \<Rightarrow> Task option outcome" where
  "PollTask db clock nodeID token =
     (case AuthenticateNode db nodeID token of
        Inl e \<Rightarrow> (db, Inl e)
      | Inr _ \<Rightarrow> PollTaskForNode db clock nodeID)"

text \<open>The result contract of the kinds that have one.\<close>

definition validateTypedResult :: "go_time \<Rightarrow> Task \<Rightarrow> TaskResultRequest \<Rightarrow> hub_error + unit" where
  "validateTypedResult now task req =
     andThen (if task_Kind task = TaskIntegrationStatus then ValidateIntegrationStatusTaskResult req else ok) (\<lambda>_.
     andThen (if task_Kind task = TaskMetricsRead then ValidateMetricsTaskResult req now else ok) (\<lambda>_.
       if task_Kind task = TaskProfileApply then ValidateProfileApplyTaskResult task req else ok))"

definition CompleteTaskForNode ::
  "hub_db \<Rightarrow> clock \<Rightarrow> string \<Rightarrow> int \<Rightarrow> TaskResultRequest \<Rightarrow> Task outcome" where
  "CompleteTaskForNode db clock nodeID taskID req =
     (if \<not> validNodeID nodeID then (db, Inl ErrUnauthorized)
      else if taskID \<le> 0 then (db, invalid)
      else case ValidateTaskResultRequest req of
        Inl e \<Rightarrow> (db, Inl e)
      | Inr _ \<Rightarrow>
          (case GetTaskForNode db nodeID taskID of
             Inl e \<Rightarrow> if e = ErrNotFound then repoCompleteTask db nodeID taskID req (clock 0) else (db, Inl e)
           | Inr task \<Rightarrow>
               (case validateTypedResult (clock 0) task req of
                  Inl e \<Rightarrow> (db, Inl e)
                | Inr _ \<Rightarrow> repoCompleteTask db nodeID taskID req (clock 1))))"

definition CompleteTask ::
  "hub_db \<Rightarrow> clock \<Rightarrow> string \<Rightarrow> string \<Rightarrow> int \<Rightarrow> TaskResultRequest \<Rightarrow> Task outcome" where
  "CompleteTask db clock nodeID token taskID req =
     (case AuthenticateNode db nodeID token of
        Inl e \<Rightarrow> (db, Inl e)
      | Inr _ \<Rightarrow> CompleteTaskForNode db clock nodeID taskID req)"

end
