(* ===== verification/HubMachine.thy ===== *)
theory HubMachine
  imports HubInvariant HubService
begin

text \<open>
  The hub as a transition system. A step is one transaction of the repository with arguments that
  passed the validation of the service; any interleaving of panel requests and agents, also of
  requests that read before another one writes, is a sequence of such steps. The locales \<open>keeps\<close>
  and \<open>evolves\<close> state what an invariant and a progress relation of a transition system are, with
  their consequence for whole runs; they are interpreted on the hub with the database invariant,
  with the life of the tasks, and with the revisions of the profiles. Every operation of the
  service is shown to be a step or to leave the database as it is.
\<close>

section \<open>Transition systems\<close>

inductive run :: "('e \<Rightarrow> 's \<Rightarrow> 's \<Rightarrow> bool) \<Rightarrow> 's \<Rightarrow> 'e list \<Rightarrow> 's \<Rightarrow> bool" for step where
  run_Nil: "run step s [] s"
| run_Cons: "step e s s' \<Longrightarrow> run step s' es s'' \<Longrightarrow> run step s (e # es) s''"

inductive_simps run_Nil_iff: "run step s [] s'"
inductive_simps run_Cons_iff: "run step s (e # es) s'"

locale keeps =
  fixes step :: "'e \<Rightarrow> 's \<Rightarrow> 's \<Rightarrow> bool"
    and holds :: "'s \<Rightarrow> bool"
  assumes step_keeps: "step e s s' \<Longrightarrow> holds s \<Longrightarrow> holds s'"
begin

lemma run_keeps: "run step s es s' \<Longrightarrow> holds s \<Longrightarrow> holds s'"
  by (induction rule: run.induct) (auto intro: step_keeps)

end

locale evolves = keeps +
  fixes rel :: "'b \<Rightarrow> 'b \<Rightarrow> bool"
  assumes rel_refl: "rel s s"
    and rel_trans: "rel s s' \<Longrightarrow> rel s' s'' \<Longrightarrow> rel s s''"
    and rel_step: "step e s s' \<Longrightarrow> holds s \<Longrightarrow> rel s s'"
begin

lemma run_evolves: "run step s es s' \<Longrightarrow> holds s \<Longrightarrow> rel s s'"
  by (induction rule: run.induct) (auto intro: rel_refl rel_trans rel_step step_keeps)

end

section \<open>The transactions\<close>

datatype hub_event =
    Registered string | HeartbeatStored string | ProfileSaved string | ObservationWritten string
  | ApplyRequested string | TaskCreated string | TaskPolled string | ResultReported string

fun event_node :: "hub_event \<Rightarrow> string" where
  "event_node (Registered n) = n"
| "event_node (HeartbeatStored n) = n"
| "event_node (ProfileSaved n) = n"
| "event_node (ObservationWritten n) = n"
| "event_node (ApplyRequested n) = n"
| "event_node (TaskCreated n) = n"
| "event_node (TaskPolled n) = n"
| "event_node (ResultReported n) = n"

inductive hub_step :: "uni_tables \<Rightarrow> (rat \<Rightarrow> string) \<Rightarrow> hub_event \<Rightarrow> hub_db \<Rightarrow> hub_db \<Rightarrow> bool" for u ff where
  hs_register: "validateRegisterNodeRequest req = Inr () \<Longrightarrow>
     CreateNode db req (token_digest token) now = (db', r) \<Longrightarrow> hub_step u ff (Registered (reg_ID req)) db db'"
| hs_heartbeat: "validateHeartbeatFields ff req = Inr () \<Longrightarrow>
     UpdateHeartbeat ff db n req now = (db', r) \<Longrightarrow> hub_step u ff (HeartbeatStored n) db db'"
| hs_save: "SaveNodeProfile db n p v now = (db', r) \<Longrightarrow> hub_step u ff (ProfileSaved n) db db'"
| hs_upsert: "UpsertNodeProfileObservation db n ob now = (db', r) \<Longrightarrow> hub_step u ff (ObservationWritten n) db db'"
| hs_clear: "ClearNodeProfileObservation db n = (db', r) \<Longrightarrow> hub_step u ff (ObservationWritten n) db db'"
| hs_apply: "CreateProfileApplyTask db n v p now = (db', r) \<Longrightarrow> hub_step u ff (ApplyRequested n) db db'"
| hs_create: "ValidateTaskRequest u req = Inr () \<Longrightarrow>
     CreateTask db n req now = (db', r) \<Longrightarrow> hub_step u ff (TaskCreated n) db db'"
| hs_poll: "ClaimNextTask db n now = (db', r) \<Longrightarrow> hub_step u ff (TaskPolled n) db db'"
| hs_report: "ValidateTaskResultRequest req = Inr () \<Longrightarrow>
     repoCompleteTask db n t req now = (db', r) \<Longrightarrow> hub_step u ff (ResultReported n) db db'"

inductive_cases hub_stepE: "hub_step u ff e db db'"

lemma ValidateTaskResultRequest_terminal: "ValidateTaskResultRequest req = Inr () \<Longrightarrow> terminal (res_Status req)"
  by (auto simp: ValidateTaskResultRequest_def terminal_def split: if_splits)

lemma hub_step_inv: "hub_step u ff e db db' \<Longrightarrow> hub_inv db \<Longrightarrow> hub_inv db'"
proof (induction rule: hub_step.induct)
  case hs_register
  from hs_register.prems hs_register.hyps(2) show ?case by (rule CreateNode_inv)
next
  case hs_heartbeat
  from hs_heartbeat.prems hs_heartbeat.hyps(2) validHeartbeat_utf8 [OF validateHeartbeatFields_Inr(1) [OF hs_heartbeat.hyps(1)]]
  show ?case by (rule UpdateHeartbeat_inv)
next
  case hs_save
  from hs_save.prems hs_save.hyps show ?case by (rule SaveNodeProfile_inv)
next
  case hs_upsert
  from hs_upsert.prems hs_upsert.hyps show ?case by (rule UpsertNodeProfileObservation_inv)
next
  case hs_clear
  from hs_clear.prems hs_clear.hyps show ?case by (rule ClearNodeProfileObservation_inv)
next
  case hs_apply
  from hs_apply.prems hs_apply.hyps show ?case by (rule CreateProfileApplyTask_inv)
next
  case hs_create
  from hs_create.prems hs_create.hyps(2) show ?case by (rule CreateTask_inv)
next
  case hs_poll
  from hs_poll.prems hs_poll.hyps show ?case by (rule ClaimNextTask_inv)
next
  case hs_report
  from hs_report.prems hs_report.hyps(2) ValidateTaskResultRequest_terminal [OF hs_report.hyps(1)]
  show ?case by (rule repoCompleteTask_inv)
qed

interpretation hub: keeps "hub_step u ff" hub_inv for u ff
  by unfold_locales (rule hub_step_inv)

section \<open>The life of a task\<close>

definition status_rank :: "string \<Rightarrow> nat" where
  "status_rank s = (if s = TaskStatusQueued then 0 else if s = TaskStatusRunning then 1 else 2)"

text \<open>
  How a row may change: its key, owner, kind, payload and creation time never; its status only
  forward; a terminal row not at all.
\<close>

definition row_progress :: "task_row \<Rightarrow> task_row \<Rightarrow> bool" where
  "row_progress r r' \<longleftrightarrow>
     tr_ID r' = tr_ID r \<and> tr_NodeID r' = tr_NodeID r \<and> tr_Kind r' = tr_Kind r
     \<and> tr_PayloadJSON r' = tr_PayloadJSON r \<and> tr_CreatedAt r' = tr_CreatedAt r
     \<and> status_rank (tr_Status r) \<le> status_rank (tr_Status r')
     \<and> (terminal (tr_Status r) \<longrightarrow> r' = r)
     \<and> (tr_StartedAt r \<noteq> None \<longrightarrow> tr_StartedAt r' = tr_StartedAt r)"

definition task_progress :: "hub_db \<Rightarrow> hub_db \<Rightarrow> bool" where
  "task_progress db db' \<longleftrightarrow> (\<forall>r \<in> set (db_Tasks db). \<exists>r' \<in> set (db_Tasks db'). row_progress r r')"

lemma row_progress_refl: "row_progress r r"
  by (simp add: row_progress_def)

lemma row_progress_trans: "row_progress r r' \<Longrightarrow> row_progress r' r'' \<Longrightarrow> row_progress r r''"
  unfolding row_progress_def by (metis order_trans)

lemma task_progress_same: "set (db_Tasks db) \<subseteq> set (db_Tasks db') \<Longrightarrow> task_progress db db'"
  by (auto simp: task_progress_def intro: row_progress_refl)

lemma task_progress_eq: "db_Tasks db' = db_Tasks db \<Longrightarrow> task_progress db db'"
  by (simp add: task_progress_same)

lemma task_progress_update:
  assumes "\<And>r. r \<in> set (db_Tasks db) \<Longrightarrow> tr_ID r = t \<Longrightarrow> row_progress r (f r)"
  shows "task_progress db (updateTask db t f)"
proof -
  let ?g = "\<lambda>r. if tr_ID r = t then f r else r"
  have "row_progress r (?g r)" "?g r \<in> set (db_Tasks (updateTask db t f))" if "r \<in> set (db_Tasks db)" for r
    using assms that row_progress_refl imageI [OF that, of ?g] by (simp_all add: updateTask_def)
  then show ?thesis unfolding task_progress_def by (blast intro: bexI)
qed

lemma insertTask_tasks: "insertTask db n kind payload now = (db', r) \<Longrightarrow> set (db_Tasks db) \<subseteq> set (db_Tasks db')"
  by (auto simp: insertTask_def Let_def split: if_splits)

lemma ClaimNextTask_progress:
  assumes "ClaimNextTask db n now = (db', res)" "hub_inv db"
  shows "task_progress db db'"
  using ClaimNextTask_db [OF assms(1)]
proof (elim disjE exE conjE)
  fix r assume r: "r \<in> set (db_Tasks db)" "claimable n r" and db': "db' = updateTask db (tr_ID r) (claimedRow now)"
  show ?thesis unfolding db'
  proof (rule task_progress_update)
    fix s assume s: "s \<in> set (db_Tasks db)" "tr_ID s = tr_ID r"
    have "s = r" using assms(2) s r(1) by (intro task_unique [of db]) (simp_all add: hub_inv_def)
    moreover have "tr_StartedAt r = None"
      using assms(2) r by (auto simp: hub_inv_def tasks_ok_def task_ok_def lifecycle_ok_def claimable_def)
    ultimately show "row_progress s (claimedRow now s)"
      using r(2) by (simp add: row_progress_def claimedRow_def claimable_def status_rank_def terminal_def)
  qed
qed (simp add: task_progress_same)

lemma repoCompleteTask_progress:
  assumes "repoCompleteTask db n t req now = (db', res)" "hub_inv db" "terminal (res_Status req)"
  shows "task_progress db db'"
  using repoCompleteTask_db [OF assms(1)]
proof (elim disjE exE conjE)
  fix r assume r: "r \<in> set (db_Tasks db)" "completable n t r" and db': "db' = updateTask db t (completedRow req now)"
  show ?thesis unfolding db'
  proof (rule task_progress_update)
    fix s assume s: "s \<in> set (db_Tasks db)" "tr_ID s = t"
    have "s = r" using assms(2) s r by (intro task_unique [of db]) (simp_all add: hub_inv_def completable_def)
    then show "row_progress s (completedRow req now s)"
      using r(2) assms(3)
      by (auto simp: row_progress_def completedRow_def completable_def status_rank_def terminal_def)
  qed
qed (simp add: task_progress_same)

text \<open>The transactions that leave the task table alone or only append to it.\<close>

lemma CreateNode_tasks: "CreateNode db req h now = (db', r) \<Longrightarrow> db_Tasks db' = db_Tasks db"
  by (auto simp: CreateNode_def Let_def split: if_splits)

lemma UpdateHeartbeat_tasks: "UpdateHeartbeat ff db n req now = (db', r) \<Longrightarrow> db_Tasks db' = db_Tasks db"
  using UpdateHeartbeat_cases [of ff db n req now db' r] by auto

lemma SaveNodeProfile_tasks: "SaveNodeProfile db n p v now = (db', r) \<Longrightarrow> db_Tasks db' = db_Tasks db"
  by (auto simp: SaveNodeProfile_def Let_def split: if_splits sum.splits)

lemma observation_tasks:
  "UpsertNodeProfileObservation db n ob now = (db', r) \<Longrightarrow> db_Tasks db' = db_Tasks db"
  "ClearNodeProfileObservation db n = (db', r') \<Longrightarrow> db_Tasks db' = db_Tasks db"
  by (auto simp: UpsertNodeProfileObservation_def ClearNodeProfileObservation_def putObservation_Some
      split: if_splits sum.splits option.splits)

lemma CreateTask_tasks: "CreateTask db n req now = (db', r) \<Longrightarrow> set (db_Tasks db) \<subseteq> set (db_Tasks db')"
  using CreateTask_db [of db n req now db' r] insertTask_tasks by blast

lemma CreateProfileApplyTask_tasks:
  "CreateProfileApplyTask db n v p now = (db', r) \<Longrightarrow> set (db_Tasks db) \<subseteq> set (db_Tasks db')"
  using CreateProfileApplyTask_cases [of db n v p now db' r] coalesceOrInsert_cases insertTask_tasks by blast

lemma hub_step_progress: "hub_step u ff e db db' \<Longrightarrow> hub_inv db \<Longrightarrow> task_progress db db'"
proof (induction rule: hub_step.induct)
  case hs_register then show ?case by (blast intro: task_progress_eq CreateNode_tasks)
next
  case hs_heartbeat then show ?case by (blast intro: task_progress_eq UpdateHeartbeat_tasks)
next
  case hs_save then show ?case by (blast intro: task_progress_eq SaveNodeProfile_tasks)
next
  case hs_upsert then show ?case by (blast intro: task_progress_eq observation_tasks(1))
next
  case hs_clear then show ?case by (blast intro: task_progress_eq observation_tasks(2))
next
  case hs_apply then show ?case by (intro task_progress_same CreateProfileApplyTask_tasks)
next
  case hs_create then show ?case by (intro task_progress_same CreateTask_tasks)
next
  case hs_poll then show ?case by (intro ClaimNextTask_progress)
next
  case hs_report then show ?case by (intro repoCompleteTask_progress ValidateTaskResultRequest_terminal)
qed

interpretation tasks: evolves "hub_step u ff" hub_inv task_progress for u ff
proof unfold_locales
  show "task_progress s s" for s by (simp add: task_progress_same)
  show "task_progress s s' \<Longrightarrow> task_progress s' s'' \<Longrightarrow> task_progress s s''" for s s' s''
    unfolding task_progress_def by (meson row_progress_trans)
qed (rule hub_step_progress)

section \<open>Registered nodes and revisions\<close>

definition same_node :: "node_row \<Rightarrow> node_row \<Rightarrow> bool" where
  "same_node r r' \<longleftrightarrow> nr_TokenHash r' = nr_TokenHash r \<and> nr_Name r' = nr_Name r \<and> nr_CreatedAt r' = nr_CreatedAt r"

lemma same_node_trans: "same_node r r' \<Longrightarrow> same_node r' r'' \<Longrightarrow> same_node r r''"
  by (simp add: same_node_def)

definition node_progress :: "hub_db \<Rightarrow> hub_db \<Rightarrow> bool" where
  "node_progress db db' \<longleftrightarrow>
     (\<forall>n r. findNode db n = Some r \<longrightarrow> (\<exists>r'. findNode db' n = Some r' \<and> same_node r r'))
     \<and> (\<forall>n. currentRevision db n \<le> currentRevision db' n)"

lemma node_progress_eq:
  "db_Nodes db' = db_Nodes db \<Longrightarrow> db_Profiles db' = db_Profiles db \<Longrightarrow> node_progress db db'"
  by (simp add: node_progress_def findNode_def currentRevision_def same_node_def)

lemma find_append: "find P (xs @ ys) = (case find P xs of None \<Rightarrow> find P ys | Some x \<Rightarrow> Some x)"
  by (induction xs) auto

lemma find_map_same: "(\<And>x. P (f x) = P x) \<Longrightarrow> find P (map f xs) = map_option f (find P xs)"
  by (induction xs) auto

lemma CreateNode_progress: "CreateNode db req h now = (db', r) \<Longrightarrow> node_progress db db'"
  by (auto simp: CreateNode_def Let_def node_progress_def findNode_def currentRevision_def find_append same_node_def
      split: if_splits)

lemma UpdateHeartbeat_findNode:
  assumes "UpdateHeartbeat ff db n req now = (db', Inr x)"
  shows "findNode db' m = map_option (\<lambda>r. if m = n then heartbeatRow req now r else r) (findNode db m)"
proof -
  have nodes: "db_Nodes db' = map (\<lambda>row. if nr_ID row = n then heartbeatRow req now row else row) (db_Nodes db)"
    using UpdateHeartbeat_cases [OF assms] by auto
  have "findNode db' m = map_option (\<lambda>row. if nr_ID row = n then heartbeatRow req now row else row) (findNode db m)"
    unfolding findNode_def nodes by (rule find_map_same) (simp add: heartbeatRow_def)
  then show ?thesis by (cases "findNode db m") (auto dest: findNode_Some)
qed

lemma UpdateHeartbeat_progress:
  assumes "UpdateHeartbeat ff db n req now = (db', r)"
  shows "node_progress db db'"
proof (cases r)
  case (Inl e)
  then show ?thesis using UpdateHeartbeat_cases [OF assms] by (auto intro: node_progress_eq)
next
  case (Inr x)
  have "db_Profiles db' = db_Profiles db" using UpdateHeartbeat_cases [OF assms] by auto
  moreover note UpdateHeartbeat_findNode [OF assms [unfolded Inr]]
  ultimately show ?thesis by (auto simp: node_progress_def currentRevision_def heartbeatRow_def same_node_def)
qed

lemma SaveNodeProfile_progress:
  assumes "hub_inv db" "SaveNodeProfile db n p v now = (db', r)"
  shows "node_progress db db'"
  using SaveNodeProfile_cases [OF assms]
proof (elim disjE exE conjE)
  fix q
  let ?row = "\<lparr>pr_ProfileJSON = marshalProfile q, pr_Revision = v + 1, pr_UpdatedAt = now\<rparr>"
  assume rev: "v = currentRevision db n" and db': "db' = db\<lparr>db_Profiles := AList.update n ?row (db_Profiles db)\<rparr>"
  have "db_Profiles db' = AList.update n ?row (db_Profiles db)" by (simp add: db')
  from currentRevision_update [OF this] have "currentRevision db k \<le> currentRevision db' k" for k
    using rev by simp
  then show ?thesis by (simp add: node_progress_def findNode_def same_node_def db')
qed (auto intro: node_progress_eq)

lemma task_writes_nodes:
  "insertTask db n kind payload now = (db', r1) \<Longrightarrow> db_Nodes db' = db_Nodes db \<and> db_Profiles db' = db_Profiles db
     \<and> db_Observations db' = db_Observations db"
  "ClaimNextTask db n now = (db', r2) \<Longrightarrow> db_Nodes db' = db_Nodes db \<and> db_Profiles db' = db_Profiles db
     \<and> db_Observations db' = db_Observations db"
  "repoCompleteTask db n t req now = (db', r3) \<Longrightarrow> db_Nodes db' = db_Nodes db \<and> db_Profiles db' = db_Profiles db
     \<and> db_Observations db' = db_Observations db"
  by (auto simp: insertTask_def ClaimNextTask_def repoCompleteTask_def updateTask_def Let_def
      split: if_splits option.splits sum.splits)

lemma CreateTask_nodes:
  "CreateTask db n req now = (db', r) \<Longrightarrow> db_Nodes db' = db_Nodes db \<and> db_Profiles db' = db_Profiles db
     \<and> db_Observations db' = db_Observations db"
  using CreateTask_db [of db n req now db' r] task_writes_nodes(1) by blast

lemma CreateProfileApplyTask_nodes:
  "CreateProfileApplyTask db n v p now = (db', r) \<Longrightarrow> db_Nodes db' = db_Nodes db \<and> db_Profiles db' = db_Profiles db
     \<and> db_Observations db' = db_Observations db"
  using CreateProfileApplyTask_cases [of db n v p now db' r] coalesceOrInsert_cases task_writes_nodes(1) by blast

lemma observation_nodes:
  "UpsertNodeProfileObservation db n ob now = (db', r) \<Longrightarrow> db_Nodes db' = db_Nodes db \<and> db_Profiles db' = db_Profiles db"
  "ClearNodeProfileObservation db n = (db', r') \<Longrightarrow> db_Nodes db' = db_Nodes db \<and> db_Profiles db' = db_Profiles db"
  by (auto simp: UpsertNodeProfileObservation_def ClearNodeProfileObservation_def putObservation_Some
      split: if_splits sum.splits option.splits)

lemma hub_step_nodes: "hub_step u ff e db db' \<Longrightarrow> hub_inv db \<Longrightarrow> node_progress db db'"
proof (induction rule: hub_step.induct)
  case hs_register then show ?case by (intro CreateNode_progress)
next
  case hs_heartbeat then show ?case by (intro UpdateHeartbeat_progress)
next
  case hs_save then show ?case by (intro SaveNodeProfile_progress)
next
  case hs_upsert then show ?case by (intro node_progress_eq) (simp_all add: observation_nodes(1))
next
  case hs_clear then show ?case by (intro node_progress_eq) (simp_all add: observation_nodes(2))
next
  case hs_apply then show ?case by (intro node_progress_eq) (simp_all add: CreateProfileApplyTask_nodes)
next
  case hs_create then show ?case by (intro node_progress_eq) (simp_all add: CreateTask_nodes)
next
  case hs_poll then show ?case by (intro node_progress_eq) (simp_all add: task_writes_nodes(2))
next
  case hs_report then show ?case by (intro node_progress_eq) (simp_all add: task_writes_nodes(3))
qed

interpretation nodes: evolves "hub_step u ff" hub_inv node_progress for u ff
proof unfold_locales
  show "node_progress s s" for s by (simp add: node_progress_eq)
  show "node_progress s s' \<Longrightarrow> node_progress s' s'' \<Longrightarrow> node_progress s s''" for s s' s''
    unfolding node_progress_def by (meson order_trans same_node_trans)
qed (rule hub_step_nodes)

section \<open>Isolation of nodes\<close>

text \<open>All that the database holds about one node.\<close>

definition tasks_of :: "hub_db \<Rightarrow> string \<Rightarrow> task_row list" where
  "tasks_of db n = filter (\<lambda>r. tr_NodeID r = n) (db_Tasks db)"

definition node_view ::
  "hub_db \<Rightarrow> string \<Rightarrow> node_row option \<times> task_row list \<times> profile_row option \<times> AgentProfileObservationRecord option" where
  "node_view db n = (findNode db n, tasks_of db n, map_of (db_Profiles db) n, map_of (db_Observations db) n)"

lemma node_view_eq:
  "findNode db' m = findNode db m \<Longrightarrow> tasks_of db' m = tasks_of db m \<Longrightarrow> map_of (db_Profiles db') m = map_of (db_Profiles db) m
     \<Longrightarrow> map_of (db_Observations db') m = map_of (db_Observations db) m \<Longrightarrow> node_view db' m = node_view db m"
  by (simp add: node_view_def)

lemma tasks_of_update:
  assumes "\<And>r. r \<in> set (db_Tasks db) \<Longrightarrow> tr_ID r = t \<Longrightarrow> tr_NodeID r \<noteq> m"
    and "\<And>r. tr_NodeID (f r) = tr_NodeID r"
  shows "tasks_of (updateTask db t f) m = tasks_of db m"
proof -
  have "filter (\<lambda>r. tr_NodeID r = m) (map (\<lambda>r. if tr_ID r = t then f r else r) rs) = filter (\<lambda>r. tr_NodeID r = m) rs"
    if "set rs \<subseteq> set (db_Tasks db)" for rs
    using that assms by (induction rs) auto
  then show ?thesis by (simp add: tasks_of_def updateTask_def)
qed

lemma insertTask_isolated: "insertTask db n kind payload now = (db', r) \<Longrightarrow> m \<noteq> n \<Longrightarrow> tasks_of db' m = tasks_of db m"
  by (auto simp: insertTask_def Let_def tasks_of_def split: if_splits)

lemma task_only_view:
  assumes "db_Nodes db' = db_Nodes db \<and> db_Profiles db' = db_Profiles db \<and> db_Observations db' = db_Observations db"
    and "tasks_of db' m = tasks_of db m"
  shows "node_view db' m = node_view db m"
  using assms by (simp add: node_view_def findNode_def)

lemma ClaimNextTask_isolated:
  assumes "hub_inv db" "ClaimNextTask db n now = (db', r)" "m \<noteq> n"
  shows "tasks_of db' m = tasks_of db m"
  using ClaimNextTask_db [OF assms(2)]
proof (elim disjE exE conjE)
  fix x assume x: "x \<in> set (db_Tasks db)" "claimable n x" and db': "db' = updateTask db (tr_ID x) (claimedRow now)"
  have "tr_NodeID y \<noteq> m" if "y \<in> set (db_Tasks db)" "tr_ID y = tr_ID x" for y
    using task_unique [of db y x] assms(1,3) that x by (auto simp: hub_inv_def claimable_def)
  then show ?thesis unfolding db' by (intro tasks_of_update) (simp_all add: claimedRow_def)
qed simp

lemma repoCompleteTask_isolated:
  assumes "hub_inv db" "repoCompleteTask db n t req now = (db', r)" "m \<noteq> n"
  shows "tasks_of db' m = tasks_of db m"
  using repoCompleteTask_db [OF assms(2)]
proof (elim disjE exE conjE)
  fix x assume x: "x \<in> set (db_Tasks db)" "completable n t x" and db': "db' = updateTask db t (completedRow req now)"
  have "tr_NodeID y \<noteq> m" if "y \<in> set (db_Tasks db)" "tr_ID y = t" for y
    using task_unique [of db y x] assms(1,3) that x by (auto simp: hub_inv_def completable_def)
  then show ?thesis unfolding db' by (intro tasks_of_update) (simp_all add: completedRow_def)
qed simp

lemma CreateTask_isolated:
  assumes "CreateTask db n req now = (db', r)" "m \<noteq> n"
  shows "tasks_of db' m = tasks_of db m"
  using CreateTask_db [OF assms(1)] insertTask_isolated [OF _ assms(2)] by blast

lemma CreateProfileApplyTask_isolated:
  assumes "CreateProfileApplyTask db n v p now = (db', r)" "m \<noteq> n"
  shows "tasks_of db' m = tasks_of db m"
proof -
  have "db' = db \<or> (\<exists>payload i. insertTask db n TaskProfileApply payload now = (db', i))"
    using CreateProfileApplyTask_cases [OF assms(1)] coalesceOrInsert_cases by blast
  then show ?thesis using insertTask_isolated [OF _ assms(2)] by blast
qed

lemma UpdateHeartbeat_isolated:
  assumes "UpdateHeartbeat ff db n req now = (db', r)" "m \<noteq> n"
  shows "node_view db' m = node_view db m"
proof (cases r)
  case (Inl e)
  then show ?thesis using UpdateHeartbeat_cases [OF assms(1)] by auto
next
  case (Inr x)
  have "tasks_of db' m = tasks_of db m" "map_of (db_Profiles db') m = map_of (db_Profiles db) m"
    "map_of (db_Observations db') m = map_of (db_Observations db) m"
    using UpdateHeartbeat_cases [OF assms(1)] assms(2)
    by (auto simp: tasks_of_def update_conv delete_conv split: option.splits if_splits)
  then show ?thesis
    using UpdateHeartbeat_findNode [OF assms(1) [unfolded Inr], of m] assms(2)
    by (intro node_view_eq) (auto simp: option.map_ident)
qed

lemma CreateNode_isolated: "CreateNode db req h now = (db', r) \<Longrightarrow> m \<noteq> reg_ID req \<Longrightarrow> node_view db' m = node_view db m"
  by (auto simp: CreateNode_def Let_def node_view_def findNode_def tasks_of_def find_append
      split: if_splits option.splits)

lemma SaveNodeProfile_isolated:
  assumes "hub_inv db" "SaveNodeProfile db n p v now = (db', r)" "m \<noteq> n"
  shows "node_view db' m = node_view db m"
  using SaveNodeProfile_cases [OF assms(1,2)] assms(3)
  by (elim disjE exE conjE) (simp_all add: node_view_def findNode_def tasks_of_def update_conv)

lemma observation_isolated:
  "UpsertNodeProfileObservation db n ob now = (db', r) \<Longrightarrow> m \<noteq> n \<Longrightarrow> node_view db' m = node_view db m"
  "ClearNodeProfileObservation db n = (db', r') \<Longrightarrow> m \<noteq> n \<Longrightarrow> node_view db' m = node_view db m"
  by (auto simp: UpsertNodeProfileObservation_def ClearNodeProfileObservation_def putObservation_Some
      node_view_def findNode_def tasks_of_def update_conv delete_conv split: if_splits sum.splits option.splits)

lemma hub_step_isolated: "hub_step u ff e db db' \<Longrightarrow> hub_inv db \<Longrightarrow> m \<noteq> event_node e \<Longrightarrow> node_view db' m = node_view db m"
proof (induction rule: hub_step.induct)
  case hs_register then show ?case by (intro CreateNode_isolated) simp_all
next
  case hs_heartbeat then show ?case by (intro UpdateHeartbeat_isolated) simp_all
next
  case hs_save then show ?case by (intro SaveNodeProfile_isolated) simp_all
next
  case hs_upsert then show ?case by (intro observation_isolated(1)) simp_all
next
  case hs_clear then show ?case by (intro observation_isolated(2)) simp_all
next
  case hs_apply
  then show ?case by (intro task_only_view CreateProfileApplyTask_nodes CreateProfileApplyTask_isolated) simp_all
next
  case hs_create then show ?case by (intro task_only_view CreateTask_nodes CreateTask_isolated) simp_all
next
  case hs_poll then show ?case by (intro task_only_view task_writes_nodes(2) ClaimNextTask_isolated) simp_all
next
  case hs_report
  then show ?case by (intro task_only_view task_writes_nodes(3) repoCompleteTask_isolated) simp_all
qed

section \<open>Service operations as steps\<close>

inductive service_call :: "uni_tables \<Rightarrow> (rat \<Rightarrow> string) \<Rightarrow> hub_db \<Rightarrow> hub_db \<Rightarrow> bool" for u ff where
  sc_register: "RegisterNode db clock rawToken req = (db', r) \<Longrightarrow> service_call u ff db db'"
| sc_heartbeat: "Heartbeat ff db clock n token hb = (db', r) \<Longrightarrow> service_call u ff db db'"
| sc_profile: "UpdateNodeProfile db clock n p v = (db', r) \<Longrightarrow> service_call u ff db db'"
| sc_apply: "ApplyNodeProfile db clock n v = (db', r) \<Longrightarrow> service_call u ff db db'"
| sc_enqueue: "EnqueueTask u db clock n req = (db', r) \<Longrightarrow> service_call u ff db db'"
| sc_ensure: "EnqueueDeployDomainEnsure u db clock n target domain v = (db', r) \<Longrightarrow> service_call u ff db db'"
| sc_status: "EnqueueIntegrationStatusTask db clock n = (db', r) \<Longrightarrow> service_call u ff db db'"
| sc_metrics: "EnqueueMetricsTask db clock n = (db', r) \<Longrightarrow> service_call u ff db db'"
| sc_poll: "PollTask db clock n token = (db', r) \<Longrightarrow> service_call u ff db db'"
| sc_poll_node: "PollTaskForNode db clock n = (db', r) \<Longrightarrow> service_call u ff db db'"
| sc_complete: "CompleteTask db clock n token t res = (db', r) \<Longrightarrow> service_call u ff db db'"
| sc_complete_node: "CompleteTaskForNode db clock n t res = (db', r) \<Longrightarrow> service_call u ff db db'"

definition hub_move :: "uni_tables \<Rightarrow> (rat \<Rightarrow> string) \<Rightarrow> hub_db \<Rightarrow> hub_db \<Rightarrow> bool" where
  "hub_move u ff db db' \<longleftrightarrow> db' = db \<or> (\<exists>e. hub_step u ff e db db')"

lemma RegisterNode_move: "RegisterNode db clock rawToken req = (db', r) \<Longrightarrow> hub_move u ff db db'"
  by (cases "validateRegisterNodeRequest req")
     (auto simp: RegisterNode_def hub_move_def Let_def split: prod.splits intro: hs_register)

lemma Heartbeat_move: "Heartbeat ff db clock n token hb = (db', r) \<Longrightarrow> hub_move u ff db db'"
  by (cases "validateHeartbeatFields ff hb")
     (auto simp: Heartbeat_def hub_move_def split: prod.splits sum.splits if_splits intro: hs_heartbeat)

lemma UpdateNodeProfile_move: "UpdateNodeProfile db clock n p v = (db', r) \<Longrightarrow> hub_move u ff db db'"
  by (auto simp: UpdateNodeProfile_def hub_move_def split: prod.splits sum.splits if_splits intro: hs_save)

lemma ApplyNodeProfile_move: "ApplyNodeProfile db clock n v = (db', r) \<Longrightarrow> hub_move u ff db db'"
  by (auto simp: ApplyNodeProfile_def hub_move_def split: sum.splits if_splits intro: hs_apply)

lemma CreateTask_move:
  "ValidateTaskRequest u req = Inr () \<Longrightarrow> CreateTask db n req now = (db', r) \<Longrightarrow> hub_move u ff db db'"
  by (auto simp: hub_move_def intro: hs_create)

lemma enqueueDeployDomainEnsure_move:
  "enqueueDeployDomainEnsure u db clock n req = (db', r) \<Longrightarrow> hub_move u ff db db'"
  by (cases "ValidateTaskRequest u req")
     (auto simp: enqueueDeployDomainEnsure_def hub_move_def split: sum.splits if_splits option.splits intro: hs_create)

lemma EnqueueTask_move: "EnqueueTask u db clock n req = (db', r) \<Longrightarrow> hub_move u ff db db'"
  by (cases "ValidateTaskRequest u req")
     (auto simp: EnqueueTask_def hub_move_def split: sum.splits if_splits intro: hs_create
      dest: enqueueDeployDomainEnsure_move [where ff = ff, unfolded hub_move_def])

lemma coalesced_valid:
  "kind \<in> {TaskIntegrationStatus, TaskMetricsRead} \<Longrightarrow> ValidateTaskRequest u \<lparr>req_Kind = kind, req_Payload = []\<rparr> = Inr ()"
  by (auto simp: ValidateTaskRequest_def panelKinds_def emptyPayloadKinds_def checkKind_def checkKindA_def
      checkKindB_def checkKindC_def noFields_def hub_consts)

lemma enqueueCoalesced_move:
  assumes "enqueueCoalesced kind cap db clock n = (db', r)" "kind \<in> {TaskIntegrationStatus, TaskMetricsRead}"
  shows "hub_move u ff db db'"
  using assms(1) CreateTask_move [OF coalesced_valid [OF assms(2)]]
  by (auto simp: enqueueCoalesced_def hub_move_def split: sum.splits if_splits option.splits)

lemma PollTaskForNode_move: "PollTaskForNode db clock n = (db', r) \<Longrightarrow> hub_move u ff db db'"
  by (auto simp: PollTaskForNode_def hub_move_def split: if_splits intro: hs_poll)

lemma CompleteTaskForNode_move: "CompleteTaskForNode db clock n t res = (db', r) \<Longrightarrow> hub_move u ff db db'"
  by (cases "ValidateTaskResultRequest res")
     (auto simp: CompleteTaskForNode_def hub_move_def split: sum.splits if_splits intro: hs_report)

lemma authenticated_move:
  assumes "(case AuthenticateNode db n token of Inl e \<Rightarrow> (db, Inl e) | Inr _ \<Rightarrow> f) = (db', r)"
    and "f = (db', r) \<Longrightarrow> hub_move u ff db db'"
  shows "hub_move u ff db db'"
  using assms by (auto simp: hub_move_def split: sum.splits)

lemma service_call_move: "service_call u ff db db' \<Longrightarrow> hub_move u ff db db'"
proof (induction rule: service_call.induct)
  case sc_register then show ?case by (rule RegisterNode_move)
next
  case sc_heartbeat then show ?case by (rule Heartbeat_move)
next
  case sc_profile then show ?case by (rule UpdateNodeProfile_move)
next
  case sc_apply then show ?case by (rule ApplyNodeProfile_move)
next
  case sc_enqueue then show ?case by (rule EnqueueTask_move)
next
  case sc_ensure then show ?case unfolding EnqueueDeployDomainEnsure_def Let_def by (rule EnqueueTask_move)
next
  case sc_status
  then show ?case unfolding EnqueueIntegrationStatusTask_def by (rule enqueueCoalesced_move) simp
next
  case sc_metrics
  then show ?case unfolding EnqueueMetricsTask_def by (rule enqueueCoalesced_move) simp
next
  case sc_poll
  then show ?case unfolding PollTask_def by (rule authenticated_move) (rule PollTaskForNode_move)
next
  case sc_poll_node then show ?case by (rule PollTaskForNode_move)
next
  case sc_complete
  then show ?case unfolding CompleteTask_def by (rule authenticated_move) (rule CompleteTaskForNode_move)
next
  case sc_complete_node then show ?case by (rule CompleteTaskForNode_move)
qed

lemma hub_move_inv: "hub_move u ff db db' \<Longrightarrow> hub_inv db \<Longrightarrow> hub_inv db'"
  by (auto simp: hub_move_def intro: hub_step_inv)

end
