(* ===== verification/HubContracts.thy ===== *)
theory HubContracts
  imports HubMachine
begin

text \<open>
  The contracts that clients of the repository rely on, as locales, with what follows from them for
  sequences of calls, and their interpretation on the repository:
  \<^item> \<open>work_queue\<close>: a poll hands out the oldest waiting task of a node and removes it from the queue;
    \<open>fifo_queue\<close> adds the producer, which appends;
  \<^item> \<open>cas_register\<close>: a save succeeds only against the current revision and increments it;
  \<^item> \<open>credential_store\<close>: registration stores a digest that later steps keep, and a login compares
    digests.
\<close>

section \<open>Queues\<close>

primrec poll_all :: "('s \<Rightarrow> 't \<Rightarrow> 's \<times> 'r) \<Rightarrow> 's \<Rightarrow> 't list \<Rightarrow> 's \<times> 'r list" where
  "poll_all f s [] = (s, [])"
| "poll_all f s (t # ts) =
     (case f s t of (s', r) \<Rightarrow> (case poll_all f s' ts of (s'', rs) \<Rightarrow> (s'', r # rs)))"

locale work_queue =
  fixes holds :: "'s \<Rightarrow> bool"
    and queued :: "'s \<Rightarrow> 'n \<Rightarrow> 'i list"
    and claim :: "'n \<Rightarrow> 's \<Rightarrow> 't \<Rightarrow> 's \<times> 'i option"
  assumes claim_holds: "holds s \<Longrightarrow> holds (fst (claim n s t))"
    and claim_empty: "holds s \<Longrightarrow> queued s n = [] \<Longrightarrow> claim n s t = (s, None)"
    and claim_head: "holds s \<Longrightarrow> queued s n = i # q \<Longrightarrow>
      snd (claim n s t) = Some i \<and> queued (fst (claim n s t)) n = q"
    and claim_other: "holds s \<Longrightarrow> m \<noteq> n \<Longrightarrow> queued (fst (claim n s t)) m = queued s m"
begin

lemma poll_all_holds: "holds s \<Longrightarrow> holds (fst (poll_all (claim n) s ts))"
proof (induction ts arbitrary: s)
  case (Cons t ts)
  then show ?case using claim_holds [of s n t] by (simp add: split_beta)
qed simp

text \<open>Polls in a row deliver the queue from its front, each task once, and then nothing.\<close>

lemma poll_all_results:
  "holds s \<Longrightarrow> snd (poll_all (claim n) s ts)
     = map Some (take (length ts) (queued s n)) @ replicate (length ts - length (queued s n)) None"
proof (induction ts arbitrary: s)
  case (Cons t ts)
  note IH = Cons.IH [OF claim_holds [OF Cons.prems, of n t]]
  show ?case
  proof (cases "queued s n")
    case Nil
    then show ?thesis using claim_empty [OF Cons.prems Nil] Cons.IH [OF Cons.prems] by (simp add: split_beta)
  next
    case (Cons i q)
    then show ?thesis using IH claim_head [OF Cons.prems Cons, of t] by (simp add: split_beta)
  qed
qed simp

lemma poll_all_rest: "holds s \<Longrightarrow> queued (fst (poll_all (claim n) s ts)) n = drop (length ts) (queued s n)"
proof (induction ts arbitrary: s)
  case (Cons t ts)
  note IH = Cons.IH [OF claim_holds [OF Cons.prems, of n t]]
  show ?case
  proof (cases "queued s n")
    case Nil
    then show ?thesis using claim_empty [OF Cons.prems Nil] Cons.IH [OF Cons.prems] by (simp add: split_beta)
  next
    case (Cons i q)
    then show ?thesis using IH claim_head [OF Cons.prems Cons, of t] by (simp add: split_beta)
  qed
qed simp

end

locale fifo_queue = work_queue +
  fixes put :: "'b \<Rightarrow> 'a \<Rightarrow> 'e \<Rightarrow> 'a \<times> 'c option"
  assumes put_holds: "holds s \<Longrightarrow> holds (fst (put n s x))"
    and put_snoc: "holds s \<Longrightarrow> snd (put n s x) = Some i \<Longrightarrow> queued (fst (put n s x)) n = queued s n @ [i]"
begin

text \<open>A task that was put behind \<open>k\<close> others is what the poll after \<open>k\<close> polls delivers.\<close>

lemma put_delivered:
  assumes "holds s" "snd (put n s x) = Some i" "length ts = length (queued s n)"
  shows "snd (claim n (fst (poll_all (claim n) (fst (put n s x)) ts)) t) = Some i"
proof -
  let ?s = "fst (put n s x)"
  have "queued (fst (poll_all (claim n) ?s ts)) n = [i]"
    using poll_all_rest [OF put_holds [OF assms(1)], of n n x ts] put_snoc [OF assms(1,2)] assms(3) by simp
  then show ?thesis
    using claim_head [OF poll_all_holds [OF put_holds [OF assms(1)]]] by blast
qed

end

section \<open>Compare and swap\<close>

text \<open>The saves of a sequence that succeeded.\<close>

definition winners :: "('s \<Rightarrow> 'w \<Rightarrow> 's \<times> bool) \<Rightarrow> 's \<Rightarrow> 'w list \<Rightarrow> 'w list" where
  "winners save s ws = map fst (filter snd (zip ws (snd (poll_all save s ws))))"

locale cas_register =
  fixes holds :: "'s \<Rightarrow> bool"
    and revision :: "'s \<Rightarrow> int"
    and save :: "'s \<Rightarrow> 'w \<Rightarrow> 's \<times> bool"
    and expects :: "'w \<Rightarrow> int"
  assumes save_holds: "holds s \<Longrightarrow> holds (fst (save s w))"
    and save_fail: "\<not> snd (save s w) \<Longrightarrow> fst (save s w) = s"
    and save_ok: "holds s \<Longrightarrow> snd (save s w) \<Longrightarrow> expects w = revision s \<and> revision (fst (save s w)) = revision s + 1"
begin

text \<open>Whoever wins did so against consecutive revisions: no two saves replaced the same one.\<close>

lemma winners_consecutive:
  "holds s \<Longrightarrow> map expects (winners save s ws) = map (\<lambda>i. revision s + int i) [0..<length (winners save s ws)]
     \<and> revision (fst (poll_all save s ws)) = revision s + int (length (winners save s ws))"
proof (induction ws arbitrary: s)
  case (Cons w ws)
  let ?s = "fst (save s w)"
  note IH = Cons.IH [OF save_holds [OF Cons.prems, of w]]
  have split: "winners save s (w # ws) = (if snd (save s w) then [w] else []) @ winners save ?s ws"
    by (simp add: winners_def split_beta)
  have last: "fst (poll_all save s (w # ws)) = fst (poll_all save ?s ws)"
    by (simp add: split_beta)
  show ?case
  proof (cases "snd (save s w)")
    case True
    then show ?thesis
      using IH save_ok [OF Cons.prems True]
      by (simp add: split last map_upt_Suc add.assoc add.commute del: upt_Suc poll_all.simps)
  next
    case False
    then show ?thesis using IH save_fail [OF False] by (simp add: split last del: poll_all.simps)
  qed
qed (simp add: winners_def)

lemma winners_distinct: "holds s \<Longrightarrow> distinct (map expects (winners save s ws))"
  using winners_consecutive [of s ws] by (simp add: distinct_map inj_on_def)

end

section \<open>Credentials\<close>

locale credential_store =
  fixes holds :: "'s \<Rightarrow> bool"
    and step :: "'s \<Rightarrow> 's \<Rightarrow> bool"
    and digest :: "'s \<Rightarrow> 'n \<Rightarrow> 'd option"
    and login :: "'s \<Rightarrow> 'n \<Rightarrow> 't \<Rightarrow> bool"
    and hash :: "'t \<Rightarrow> 'd"
  assumes step_holds: "holds s \<Longrightarrow> step s s' \<Longrightarrow> holds s'"
    and digest_stays: "holds s \<Longrightarrow> step s s' \<Longrightarrow> digest s n = Some d \<Longrightarrow> digest s' n = Some d"
    and login_iff: "holds s \<Longrightarrow> login s n t \<longleftrightarrow> digest s n = Some (hash t)"
begin

text \<open>A credential that logs in once keeps doing so, and only it, up to the digest.\<close>

lemma credential_stays:
  assumes "step\<^sup>*\<^sup>* s s'" "holds s" "login s n t"
  shows "holds s' \<and> (login s' n t' \<longleftrightarrow> hash t' = hash t)"
proof -
  have "holds s' \<and> digest s' n = Some (hash t)"
    using assms(1)
  proof (induction rule: rtranclp_induct)
    case base
    then show ?case using assms(2,3) login_iff by blast
  next
    case (step y z)
    then show ?case using step_holds digest_stays by blast
  qed
  then show ?thesis using login_iff [of s' n t'] by auto
qed

end

section \<open>The repository keeps the contracts\<close>

definition queued_ids :: "hub_db \<Rightarrow> string \<Rightarrow> int list" where
  "queued_ids db n = map tr_ID (filter (claimable n) (db_Tasks db))"

definition claim_id :: "string \<Rightarrow> hub_db \<Rightarrow> go_time \<Rightarrow> hub_db \<times> int option" where
  "claim_id n db now =
     (case ClaimNextTask db n now of
        (db', Inr (Some t)) \<Rightarrow> (db', Some (task_ID t))
      | (db', _) \<Rightarrow> (db', None))"

definition put_id :: "string \<Rightarrow> hub_db \<Rightarrow> TaskRequest \<times> go_time \<Rightarrow> hub_db \<times> int option" where
  "put_id n db x =
     (case CreateTask db n (fst x) (snd x) of
        (db', Inr t) \<Rightarrow> (db', Some (task_ID t))
      | (db', _) \<Rightarrow> (db', None))"

lemma queued_Nil: "queued_ids db n = [] \<longleftrightarrow> (\<forall>r \<in> set (db_Tasks db). \<not> claimable n r)"
  by (simp add: queued_ids_def filter_empty_conv)

lemma filter_head_find: "filter P xs = r # rs \<Longrightarrow> find P xs = Some r"
  by (induction xs) (auto split: if_splits)

lemma claimable_map_claimed:
  "filter (claimable m) (map (\<lambda>r. if tr_ID r = i then claimedRow now r else r) rs)
     = filter (\<lambda>r. claimable m r \<and> tr_ID r \<noteq> i) rs"
  by (induction rs) (auto simp: claimedRow_def claimable_def)

lemma queued_after_claim:
  "queued_ids (updateTask db i (claimedRow now)) m = filter (\<lambda>j. j \<noteq> i) (queued_ids db m)"
proof -
  have "filter (claimable m) (db_Tasks (updateTask db i (claimedRow now)))
      = filter (\<lambda>r. tr_ID r \<noteq> i) (filter (claimable m) (db_Tasks db))"
    by (simp only: updateTask_def hub_db.select_convs hub_db.update_convs hub_db.simps claimable_map_claimed
        filter_filter) (simp add: claimable_map_claimed del: filter_map filter.simps)
  then show ?thesis by (simp add: queued_ids_def filter_map comp_def)
qed

lemma queued_distinct: "hub_inv db \<Longrightarrow> distinct (queued_ids db n)"
  by (auto simp: queued_ids_def hub_inv_def tasks_ok_def strict_sorted_iff intro: distinct_map_filter)

text \<open>What a poll of a non-empty queue does.\<close>

lemma claim_id_head:
  assumes inv: "hub_inv db" and q: "queued_ids db n = i # q"
  shows "snd (claim_id n db now) = Some i" "fst (claim_id n db now) = updateTask db i (claimedRow now)"
proof -
  obtain r rs where r: "filter (claimable n) (db_Tasks db) = r # rs" and i: "tr_ID r = i"
    using q by (auto simp: queued_ids_def Cons_eq_map_conv)
  have in_r: "r \<in> set (db_Tasks db)" "claimable n r"
    using find_SomeD [OF filter_head_find [OF r]] by simp_all
  have sorted: "sorted_wrt (<) (map tr_ID (db_Tasks db))" using inv by (simp add: hub_inv_def tasks_ok_def)
  obtain t where "scanTask (claimedRow now r) = Inr t"
    "ClaimNextTask db n now = (updateTask db (tr_ID r) (claimedRow now), Inr (Some t))"
    using ClaimNextTask_Some [of db r n now] find_least [OF sorted filter_head_find [OF r]] inv in_r
    by (auto simp: hub_inv_def)
  then show "snd (claim_id n db now) = Some i" "fst (claim_id n db now) = updateTask db i (claimedRow now)"
    using scanTask_fields(1) [of "claimedRow now r" t] i by (simp_all add: claim_id_def claimedRow_def)
qed

lemma claim_id_db: "fst (claim_id n db now) = fst (ClaimNextTask db n now)"
  by (simp add: claim_id_def split: prod.splits sum.splits option.splits)

interpretation repo_queue: work_queue hub_inv queued_ids claim_id
proof unfold_locales
  fix db n now i q m
  assume inv: "hub_inv db"
  show "hub_inv (fst (claim_id n db now))"
    using ClaimNextTask_inv [OF inv, of n now "fst (ClaimNextTask db n now)" "snd (ClaimNextTask db n now)"]
    by (simp add: claim_id_db)
  show "claim_id n db now = (db, None)" if "queued_ids db n = []"
    using ClaimNextTask_None [of db n now db] that by (simp add: queued_Nil claim_id_def)
  show "snd (claim_id n db now) = Some i \<and> queued_ids (fst (claim_id n db now)) n = q"
    if q: "queued_ids db n = i # q"
    using claim_id_head [OF inv q] queued_distinct [OF inv, of n] q
    by (auto simp: queued_after_claim filter_id_conv)
  show "queued_ids (fst (claim_id n db now)) m = queued_ids db m" if "m \<noteq> n"
  proof -
    obtain db' r where c: "ClaimNextTask db n now = (db', r)" by fastforce
    have "filter (claimable m) (db_Tasks x) = filter (claimable m) (tasks_of x m)" for x
      by (auto simp: tasks_of_def claimable_def intro: filter_cong)
    then show ?thesis
      using ClaimNextTask_isolated [OF inv c that] by (simp add: queued_ids_def claim_id_db c)
  qed
qed

lemma CreateTask_Inr:
  assumes inv: "hub_inv db" and create: "CreateTask db n req now = (db', Inr t)"
  shows "\<exists>row. db_Tasks db' = db_Tasks db @ [row] \<and> tr_ID row = task_ID t \<and> claimable n row
    \<and> tr_Kind row = req_Kind req \<and> tr_PayloadJSON row = marshal_map (req_Payload req) \<and> scanTask row = Inr t"
proof -
  obtain i where ins: "insertTask db n (req_Kind req) (marshal_map (req_Payload req)) now = (db', Inr i)"
    and get: "GetTask db' i = Inr t"
    using create by (auto simp: CreateTask_def marshalStringMap_def andThen_Inr_iff split: if_splits prod.splits)
  have inv': "hub_inv db'" using CreateTask_inv [OF inv create] .
  obtain row where row: "db_Tasks db' = db_Tasks db @ [row]" "tr_ID row = i" "claimable n row"
    "tr_Kind row = req_Kind req" "tr_PayloadJSON row = marshal_map (req_Payload req)"
    using ins by (auto simp: insertTask_Inr claimable_def)
  have "findTask db' i = Some row"
    using findTask_in [of db' row] inv' row by (simp add: hub_inv_def)
  then have "scanTask row = Inr t" using get by (simp add: GetTask_def)
  then show ?thesis using row scanTask_fields(1) [of row t] by auto
qed

lemma CreateTask_holds: "hub_inv db \<Longrightarrow> hub_inv (fst (CreateTask db n req now))"
  using CreateTask_inv [of db n req now] by (cases "CreateTask db n req now") simp

interpretation repo_fifo: fifo_queue hub_inv queued_ids claim_id put_id
proof unfold_locales
  fix db n x i
  assume inv: "hub_inv db"
  have fst_put: "fst (put_id n db x) = fst (CreateTask db n (fst x) (snd x))"
    by (simp add: put_id_def split: prod.splits sum.splits)
  show "hub_inv (fst (put_id n db x))"
    using CreateTask_holds [OF inv] by (simp add: fst_put)
  show "queued_ids (fst (put_id n db x)) n = queued_ids db n @ [i]" if put: "snd (put_id n db x) = Some i"
  proof -
    obtain db' t where c: "CreateTask db n (fst x) (snd x) = (db', Inr t)" "task_ID t = i"
      using put by (cases "CreateTask db n (fst x) (snd x)") (auto simp: put_id_def split: sum.splits)
    then show ?thesis using CreateTask_Inr [OF inv c(1)] by (auto simp: fst_put queued_ids_def)
  qed
qed

definition save_for :: "string \<Rightarrow> hub_db \<Rightarrow> AgentProfile \<times> int \<times> go_time \<Rightarrow> hub_db \<times> bool" where
  "save_for n db w =
     (case w of (p, expected, now) \<Rightarrow> case SaveNodeProfile db n p expected now of (db', r) \<Rightarrow> (db', is_ok r))"

definition save_expects :: "AgentProfile \<times> int \<times> go_time \<Rightarrow> int" where
  "save_expects w = fst (snd w)"

interpretation repo_cas: cas_register hub_inv "\<lambda>db. currentRevision db n" "save_for n" save_expects for n
proof unfold_locales
  fix db :: hub_db and w :: "AgentProfile \<times> int \<times> go_time"
  obtain p e now where w: "w = (p, e, now)" by (cases w)
  obtain db' r where s: "SaveNodeProfile db n p e now = (db', r)" by fastforce
  have split: "fst (save_for n db w) = db'" "snd (save_for n db w) = is_ok r"
    by (simp_all add: save_for_def w s)
  show "hub_inv (fst (save_for n db w))" if "hub_inv db"
    using SaveNodeProfile_inv [OF that s] by (simp add: split)
  show "fst (save_for n db w) = db" if "\<not> snd (save_for n db w)"
    using that s by (auto simp: split SaveNodeProfile_def Let_def split: if_splits sum.splits)
  show "save_expects w = currentRevision db n
      \<and> currentRevision (fst (save_for n db w)) n = currentRevision db n + 1"
    if inv: "hub_inv db" and ok: "snd (save_for n db w)"
  proof -
    have "is_ok r" using ok by (simp only: split)
    then have "e = currentRevision db n \<and> currentRevision db' n = e + 1"
      using SaveNodeProfile_cases [OF inv s] currentRevision_update [of db' n _ db n] by auto
    then show ?thesis unfolding split by (simp add: save_expects_def w)
  qed
qed

lemma xor_zero_iff: "xor a b = 0 \<longleftrightarrow> a = b" for a b :: nat
  by (metis xor.assoc xor.left_neutral xor.right_neutral xor_self_eq)

lemma fold_or_zero: "fold (\<lambda>(a, b) v. or v (xor (byte a) (byte b))) ps (v::nat) = 0 \<longleftrightarrow> v = 0 \<and> (\<forall>(a, b) \<in> set ps. a = b)"
  by (induction ps arbitrary: v) (auto simp: or_eq_0_iff xor_zero_iff)

lemma zip_eq: "length s = length e \<Longrightarrow> \<forall>(a, b) \<in> set (zip s e). a = b \<Longrightarrow> s = e"
  by (induction s e rule: list_induct2) auto

lemma constantTimeEqual_eq: "constantTimeEqual s e \<longleftrightarrow> s = e"
  by (auto simp: constantTimeEqual_def fold_or_zero zip_same intro: zip_eq)

definition stored_digest :: "hub_db \<Rightarrow> string \<Rightarrow> string option" where
  "stored_digest db n = map_option nr_TokenHash (findNode db n)"

lemma AuthenticateToken_ok:
  assumes "hub_inv db"
  shows "is_ok (AuthenticateToken db n token) \<longleftrightarrow> stored_digest db n = Some (token_digest token)"
proof (cases "findNode db n")
  case (Some r)
  then have "n \<in> nodeIDs db" using findNode_None_iff [of db n] by auto
  then have "is_ok (GetNode db n)" using GetNode_ok [of db n] assms by (auto simp: hub_inv_def)
  then show ?thesis using Some by (auto simp: AuthenticateToken_def constantTimeEqual_eq stored_digest_def)
qed (simp add: AuthenticateToken_def stored_digest_def)

interpretation repo_credentials: credential_store hub_inv "\<lambda>db db'. \<exists>e. hub_step u ff e db db'" stored_digest
  "\<lambda>db n token. is_ok (AuthenticateToken db n token)" token_digest for u ff
proof unfold_locales
  show "hub_inv s'" if "hub_inv s" "\<exists>e. hub_step u ff e s s'" for s s'
    using that hub_step_inv by blast
  show "stored_digest s' n = Some d"
    if "hub_inv s" "\<exists>e. hub_step u ff e s s'" "stored_digest s n = Some d" for s s' n d
  proof -
    have "node_progress s s'" using that(1,2) hub_step_nodes by blast
    then show ?thesis using that(3) by (fastforce simp: stored_digest_def node_progress_def same_node_def)
  qed
qed (rule AuthenticateToken_ok)

end
