(* ===== verification/HubExamples.thy ===== *)
theory HubExamples
  imports HubContracts
begin

text \<open>
  A small concrete hub on which the properties are exercised: two nodes, of which the first is
  online with a handful of capabilities and a desired profile at revision 3, and four tasks, three
  of them for the first node. The facts below evaluate the definitions on it.
\<close>

definition demoTables :: uni_tables where
  "demoTables = \<lparr>letterTable = (\<lambda>_. False), digitTable = (\<lambda>_. False)\<rparr>"

definition demoFloat :: "rat \<Rightarrow> string" where
  "demoFloat = (\<lambda>_. ''0'')"

definition demoTime :: go_time where
  "demoTime = 63800000000000000000"

definition demoRegister :: RegisterNodeRequest where
  "demoRegister = \<lparr>reg_ID = ''node-9'', reg_Name = ''web''\<rparr>"

definition demoCapabilities :: "string list" where
  "demoCapabilities = [CapabilityServiceAction, CapabilityMetricsRead, CapabilityDeployDomainAction, CapabilityProfileApply]"

definition demoRow :: "string \<Rightarrow> node_row" where
  "demoRow n = \<lparr>nr_ID = n, nr_Name = ''web'', nr_Hostname = ''web'', nr_AgentVersion = ''1.2.3'',
     nr_ProtocolVersion = ''v1'', nr_CapabilitiesJSON = marshal_strings demoCapabilities, nr_Inventory = zeroInventory,
     nr_TokenHash = token_digest ''secret'', nr_LastSeenAt = Some demoTime, nr_CreatedAt = 1, nr_UpdatedAt = demoTime\<rparr>"

definition demoTask :: "int \<Rightarrow> string \<Rightarrow> string \<Rightarrow> gomap \<Rightarrow> task_row" where
  "demoTask i n kind payload = \<lparr>tr_ID = i, tr_NodeID = n, tr_Kind = kind, tr_PayloadJSON = marshal_map payload,
     tr_Status = TaskStatusQueued, tr_ResultJSON = ''{}'', tr_Error = [], tr_CreatedAt = demoTime,
     tr_StartedAt = None, tr_CompletedAt = None\<rparr>"

definition demoPayload :: gomap where
  "demoPayload = [(''action'', ''restart''), (''service'', ''nginx'')]"

definition demoProfile :: AgentProfile where
  "demoProfile = emptyAgentProfile\<lparr>prof_AllowDeployRead := True, prof_DeployWriteRoots := [''/srv/a'', ''/srv/b'']\<rparr>"

definition demoDB :: hub_db where
  "demoDB = \<lparr>db_Nodes = [demoRow ''node-1'', demoRow ''node-2''],
     db_Tasks = [demoTask 1 ''node-1'' TaskServiceAction demoPayload,
                 demoTask 2 ''node-2'' TaskMetricsRead [],
                 demoTask 3 ''node-1'' TaskMetricsRead [],
                 claimedRow demoTime (demoTask 4 ''node-1'' TaskServiceAction demoPayload)],
     db_Seq = 4,
     db_Profiles = [(''node-1'', \<lparr>pr_ProfileJSON = marshalProfile demoProfile, pr_Revision = 3, pr_UpdatedAt = demoTime\<rparr>)],
     db_Observations = []\<rparr>"

definition demoResult :: TaskResultRequest where
  "demoResult = \<lparr>res_Status = TaskStatusCompleted, res_Result = [], res_Error = []\<rparr>"

definition demoSnapshot :: MetricsSnapshot where
  "demoSnapshot = zeroSnapshot\<lparr>ms_ObservedAt := (demoTime, 0),
     ms_CPU := \<lparr>cpu_UsagePercent = Fin 0, cpu_CoreCount = 4\<rparr>,
     ms_Memory := \<lparr>mem_TotalBytes = 8, mem_UsedBytes = 0, mem_AvailableBytes = 8, mem_UsagePercent = Fin 0\<rparr>,
     ms_RootDisk := \<lparr>fs_TotalBytes = 8, fs_UsedBytes = 0, fs_AvailableBytes = 7, fs_UsagePercent = Fin 0\<rparr>\<rparr>"

definition demoRegistered :: hub_db where
  "demoRegistered = fst (CreateNode Migrate demoRegister (token_digest ''secret'') demoTime)"

section \<open>Evaluation\<close>

lemma ascii_runes:
  "list_all (\<lambda>c. byte c < 0x80) s \<Longrightarrow> runes s = map byte s"
  by (rule runes_ascii) (auto simp: list_all_iff)

lemma demo_validNodeID: "validNodeID ''node-1''" "validNodeID ''node-2''" "validNodeID ''node-9''"
  by (simp_all add: validNodeID_def first_rest_def ascii_runes asciiLetterOrDigit_def maxNodeIDLength_def
      TrimSpace_ascii asciiSpace_def)

lemma demo_register: "validateRegisterNodeRequest demoRegister = Inr ()"
  by (simp add: validateRegisterNodeRequest_def demoRegister_def demo_validNodeID maxNodeNameLength_def
      containsControl_def ascii_runes IsControl_def TrimSpace_ascii asciiSpace_def)

lemma demo_caps: "unmarshal_strings (marshal_strings demoCapabilities) = Some demoCapabilities"
  by (rule strings_roundtrip) (simp add: demoCapabilities_def hub_consts ascii_key)

lemma demo_scanNode:
  "scanNode (demoRow n) = Inr \<lparr>node_ID = n, node_Name = ''web'', node_Hostname = ''web'', node_AgentVersion = ''1.2.3'',
     node_ProtocolVersion = ''v1'', node_Capabilities = demoCapabilities, node_Inventory = zeroInventory,
     node_LastSeenAt = Some demoTime, node_CreatedAt = 1, node_UpdatedAt = demoTime\<rparr>"
proof -
  have "marshal_strings demoCapabilities \<noteq> []" by (simp add: marshal_strings_def)
  then show ?thesis by (simp add: scanNode_def demoRow_def demo_caps)
qed

lemma demo_goodPath: "goodPath ''/srv/a''" "goodPath ''/srv/b''"
  by (simp_all add: goodPath_def maxProfilePathBytes_def IsAbs_def HasPrefix_def Clean_def clean_step_def
      profileSafePathPattern_def safePathByte_def asciiLetterOrDigit_def)

lemma demo_canonical: "canonicalProfile demoProfile"
  by (simp add: canonicalProfile_def validProfile_def demoProfile_def emptyAgentProfile_def maxProfileWriteRoots_def
      demo_goodPath)


lemma dec_str_small: "n < 10 \<Longrightarrow> dec_str n = [char_of (48 + n)]"
  by (subst dec_str.simps) simp

lemma demo_document: "is_ok (canonicalProfileApplyDocument demoProfile 3)"
  using Normalize_fixed [OF demo_canonical]
  by (simp add: canonicalProfileApplyDocument_def Let_def marshalDocument_def document_json_def
      profile_json_def json_int_def json_strings_def FormatInt_def dec_str_small maxProfileJSONBytes_def
      demoProfile_def emptyAgentProfile_def profileApplySchemaVersion_def enc_str_plain plain_char_def)

lemma demo_row_ok: "profile_row_ok \<lparr>pr_ProfileJSON = marshalProfile demoProfile, pr_Revision = 3, pr_UpdatedAt = demoTime\<rparr>"
  using demo_canonical demo_document by (auto simp: profile_row_ok_def)

lemma demo_task_ok: "task_ok (demoTask i n kind payload)"
  using new_task_ok [of "marshal_map payload"] scanMap_marshal [of payload] by (simp add: demoTask_def)

lemma demo_inv: "hub_inv demoDB"
  unfolding hub_inv_def
proof (intro conjI)
  show "nodes_ok demoDB"
    by (simp add: nodes_ok_def demoDB_def node_ok_def demo_scanNode) (simp add: demoRow_def token_digest_hex)
  show "tasks_ok demoDB"
    using claimedRow_ok [OF demo_task_ok, of 4 "''node-1''" TaskServiceAction demoPayload demoTime]
    by (simp add: tasks_ok_def demoDB_def demo_task_ok nodeIDs_def) (simp add: demoTask_def demoRow_def claimedRow_def)
  show "profiles_ok demoDB"
    using demo_row_ok by (auto simp: profiles_ok_def demoDB_def nodeIDs_def demoRow_def split: if_splits)
  show "observations_ok demoDB"
    by (simp add: observations_ok_def demoDB_def)
  show "applies_ok demoDB"
    by (simp add: applies_ok_def demoDB_def apply_row_ok_def inFlightApply_def) (simp add: demoTask_def claimedRow_def hub_consts)
qed

lemma demo_auth: "is_ok (AuthenticateNode demoDB ''node-1'' ''secret'')"
proof -
  have "stored_digest demoDB ''node-1'' = Some (token_digest ''secret'')"
    by (simp add: stored_digest_def findNode_def demoDB_def) (simp add: demoRow_def)
  then have "is_ok (AuthenticateToken demoDB ''node-1'' ''secret'')" using AuthenticateToken_ok [OF demo_inv] by blast
  then show ?thesis by (simp add: AuthenticateNode_def demo_validNodeID)
qed

lemma demo_queued: "queued_ids demoDB ''node-1'' = [1, 3]"
  by (simp add: queued_ids_def demoDB_def claimable_def demoTask_def claimedRow_def)

lemma demo_result: "ValidateTaskResultRequest demoResult = Inr ()"
  by (simp add: ValidateTaskResultRequest_def demoResult_def maxTaskErrorLength_def containsControl_def ascii_runes)

lemma demo_GetNode:
  "GetNode demoDB ''node-1'' = scanNode (demoRow ''node-1'')"
  by (simp add: GetNode_def findNode_def demoDB_def) (simp add: demoRow_def)

lemma demo_online:
  "\<exists>node. GetNode demoDB ''node-1'' = Inr node \<and> node_Capabilities node = demoCapabilities \<and> IsNodeOnline demoTime node"
  by (simp add: demo_GetNode demo_scanNode IsNodeOnline_def NodeOnlineWindow_def time_sub_def Second_def
      minDuration_def maxDuration_def)

lemma demo_fileRoot: "validManagedFileRoot ''/srv/a''"
  using demo_goodPath(1)
  by (simp add: validManagedFileRoot_def goodPath_def containsControl_def ascii_runes IsControl_def)

lemma demo_inventory:
  "validateInventory demoFloat zeroInventory = Inr ()"
  "validateInventory demoFloat (zeroInventory\<lparr>inv_FileWriteRoots := [''/srv/a'']\<rparr>) = Inr ()"
  using demo_fileRoot
  by (simp_all add: validateInventory_def zeroInventory_def validManagedFileRootInventory_def slice_def badCounters_def
      IsNaN_def IsInf_def f_lt_def inventory_json_def json_float_def omit_empty_def json_uint_def json_int_def
      json_strings_def FormatInt_def dec_str_small demoFloat_def maxHeartbeatInventorySize_def
      enc_str_plain plain_char_def)

lemma demo_snapshot: "ValidateMetricsSnapshot demoSnapshot demoTime = Inr ()"
proof -
  have "closeMetricsPercent (Fin 0) (Fin 0)"
    using round_f64_nonneg [of "1 / 100"] by (simp add: closeMetricsPercent_def f_absdiff_def round_f64_def [of 0])
  moreover have "percentOf 0 w = Fin 0" for w
    by (simp add: percentOf_def f_of_u64_def f_div_def f_mul_def round_f64_def [of 0])
  ultimately show ?thesis
    by (simp add: ValidateMetricsSnapshot_def demoSnapshot_def zeroSnapshot_def IsZero_def demoTime_def freshSnapshot_def
        MetricsSnapshotMaxAge_def MetricsSnapshotFutureSkew_def Minute_def Second_def validMetricsPercent_def
        validMetricsLoad_def IsNaN_def IsInf_def f_le_def f_lt_def validMemory_def validRootDisk_def validDiskPercent_def)
qed

end
