(* ===== verification/HubSafety.thy ===== *)
theory HubSafety
  imports HubExamples
begin

text \<open>
  What the validators of the hub let through: names and paths that carry no way out of their
  place, counters whose sums do not wrap, snapshots and status documents of the promised shape,
  and the agreement of checks that the code states twice.
\<close>

section \<open>Values made of ASCII\<close>

definition ascii :: "string \<Rightarrow> bool" where
  "ascii s = list_all (\<lambda>c. byte c < 0x80) s"

lemma ascii_utf8: "ascii s \<Longrightarrow> utf8_valid s"
  by (rule utf8_valid_ascii) (simp add: ascii_def list_all_iff)

lemma first_rest_bytes:
  assumes "first_rest P Q s" "\<And>r. P r \<Longrightarrow> r < 0x80" "\<And>r. Q r \<Longrightarrow> r < 0x80"
  shows "s = [] \<or> (P (byte (hd s)) \<and> list_all (\<lambda>c. Q (byte c)) (tl s))"
proof (cases s)
  case (Cons c cs)
  have "\<forall>r \<in> set (runes s). r < 0x80"
    using assms by (auto simp: first_rest_def list_all_iff split: list.splits)
  then have "runes s = map byte s" using runes_ascii_conv runes_ascii by blast
  then show ?thesis using assms(1) Cons by (simp add: first_rest_def list.pred_map comp_def)
qed simp

text \<open>
  A name that starts with a letter, a digit or an underscore and continues with these and
  \<^verbatim>\<open>: _ . @ -\<close>: it is not empty, no option of a command line, not \<^verbatim>\<open>..\<close>, and has no slash, blank,
  quote or control character.
\<close>

definition nameByte :: "nat \<Rightarrow> bool" where
  "nameByte r = (asciiLetterOrDigit r \<or> rune_in '':_.@-'' r)"

definition plainName :: "string \<Rightarrow> bool" where
  "plainName s =
     (s \<noteq> [] \<and> (asciiLetterOrDigit (byte (hd s)) \<or> hd s = CHR ''_'') \<and> list_all (\<lambda>c. nameByte (byte c)) s)"

lemma nameByte_ascii: "nameByte r \<Longrightarrow> r < 0x80"
  by (auto simp: nameByte_def asciiLetterOrDigit_def rune_in_def)

lemma plainName_ascii: "plainName s \<Longrightarrow> ascii s"
  by (auto simp: plainName_def ascii_def list_all_iff dest: nameByte_ascii)

lemma plainNameI:
  assumes "s \<noteq> []" "first_rest P Q s" "\<And>r. P r \<Longrightarrow> asciiLetterOrDigit r \<or> r = byte (CHR ''_'')" "\<And>r. Q r \<Longrightarrow> nameByte r"
  shows "plainName s"
proof -
  have P: "P r \<Longrightarrow> nameByte r" for r using assms(3) [of r] by (auto simp: nameByte_def rune_in_def)
  have bytes: "P (byte (hd s)) \<and> list_all (\<lambda>c. Q (byte c)) (tl s)"
    using first_rest_bytes [OF assms(2)] assms(1) P assms(4) nameByte_ascii by blast
  have "hd s = CHR ''_'' \<longleftrightarrow> byte (hd s) = byte (CHR ''_'')" by (simp only: of_char_eq_iff)
  then show ?thesis using bytes assms(1,4) assms(3) [of "byte (hd s)"] P
    by (cases s) (auto simp: plainName_def list_all_iff)
qed

lemma word_name_plain:
  assumes "s \<noteq> []" "word_name extra s" "set extra \<subseteq> set '':_.@-''"
  shows "plainName s"
proof (rule plainNameI [OF assms(1) assms(2) [unfolded word_name_def]])
  fix r assume "asciiLetterOrDigit r \<or> rune_in extra r"
  then show "nameByte r" using assms(3) unfolding nameByte_def rune_in_def by blast
qed simp

section \<open>Names\<close>

text \<open>
  Every name a panel request can carry (node, unit, container, configuration, PHP pool,
  process, system user) is a plain name: it cannot be read as an option, leave a directory or
  inject a second argument when the agent puts it into a path or a command line.
\<close>

theorem accepted_names_plain:
  "validNodeID s \<or> validUnitName s \<or> validContainerName s \<or> validNginxConfigName s \<or> validPHPPool s
     \<or> validPM2Name s \<or> validSystemUser s \<Longrightarrow> plainName s"
proof (elim disjE)
  assume v: "validNodeID s"
  then have "s \<noteq> []" by (simp add: validNodeID_def)
  then show ?thesis
    by (rule plainNameI [OF _ conjunct2 [OF v [unfolded validNodeID_def]]]) (auto simp: nameByte_def rune_in_def)
next
  assume v: "validUnitName s"
  then have "s \<noteq> []" by (simp add: validUnitName_def)
  then show ?thesis
    by (rule plainNameI [OF _ conjunct2 [OF v [unfolded validUnitName_def]]]) (auto simp: nameByte_def)
next
  assume v: "validSystemUser s"
  then have "s \<noteq> []" by (simp add: validSystemUser_def)
  then show ?thesis
    by (rule plainNameI [OF _ conjunct2 [OF v [unfolded validSystemUser_def]]])
       (auto simp: nameByte_def rune_in_def asciiLetterOrDigit_def)
qed (auto intro!: word_name_plain simp: validContainerName_def validNginxConfigName_def validPHPPool_def validPM2Name_def)

lemma accepted_names_plain_witness: "plainName ''node-1''"
  by (rule accepted_names_plain) (simp add: demo_validNodeID)

lemma validNginxConfigName_ascii: "validNginxConfigName s \<Longrightarrow> ascii s"
  by (intro plainName_ascii word_name_plain [of s "''._-''"]) (auto simp: validNginxConfigName_def)

lemma runes_all_ascii: "list_all P (runes s) \<Longrightarrow> (\<And>r. P r \<Longrightarrow> r < 0x80) \<Longrightarrow> ascii s"
  using list_all_runes_ascii [of P s] by (auto simp: ascii_def list_all_iff)

lemma validSHA256_ascii: "validSHA256 s \<Longrightarrow> ascii s"
  unfolding validSHA256_def by (elim conjE runes_all_ascii) (auto simp: lowerHexRune_def)

lemma set_join_with: "set (join_with sep ps) \<subseteq> insert sep (\<Union> (set ` set ps))"
  by (induction ps rule: induct_list012) auto

lemma validDeployDomainName_ascii:
  assumes "validDeployDomainName s"
  shows "ascii s"
proof -
  have "ascii l" if "l \<in> set (split_on (CHR ''.'') s)" for l
  proof -
    have "list_all dnsRune (runes l)"
      using assms that by (auto simp: validDeployDomainName_def Let_def list_all_iff validDomainLabel_def)
    then show ?thesis by (rule runes_all_ascii) (auto simp: dnsRune_def)
  qed
  then show ?thesis
    using set_join_with [of "CHR ''.''" "split_on (CHR ''.'') s"] unfolding join_split_on
    by (fastforce simp: ascii_def list_all_iff)
qed

section \<open>Paths\<close>

text \<open>
  A managed file path that passes the validator is absolute, not the root, at most 4096 bytes
  long, without NUL, and none of its elements is empty, \<^verbatim>\<open>.\<close> or \<^verbatim>\<open>..\<close>; these conditions are also
  enough.
\<close>

theorem managed_path_iff:
  "validManagedAbsolutePath p \<longleftrightarrow>
     IsAbs p \<and> p \<noteq> ''/'' \<and> length p \<le> maxManagedPathLength \<and> CHR 0x00 \<notin> set p \<and> list_all plain_elem (path_elems p)"
proof (cases "IsAbs p")
  case True
  then obtain q where "p = CHR ''/'' # q" by (auto simp: IsAbs_Cons)
  then show ?thesis using Clean_abs_iff [OF True] True by (auto simp: validManagedAbsolutePath_def)
qed (simp add: validManagedAbsolutePath_def)

section \<open>Counters\<close>

text \<open>
  The 64-bit counters of an accepted inventory are consistent as numbers, not only modulo
  \<open>2 ^ 64\<close>: used and available space of the disk, of the swap and of every mount add up to at most
  the total, so that no reader's sum wraps.
\<close>

theorem inventory_counters_consistent:
  assumes "validateInventory ff i = Inr ()"
  shows "unat (inv_DiskUsed i + inv_DiskAvailable i) = unat (inv_DiskUsed i) + unat (inv_DiskAvailable i)
    \<and> inv_DiskUsed i + inv_DiskAvailable i \<le> inv_DiskTotal i
    \<and> unat (inv_SwapUsed i + inv_SwapFree i) = unat (inv_SwapUsed i) + unat (inv_SwapFree i)
    \<and> inv_SwapUsed i + inv_SwapFree i \<le> inv_SwapTotal i
    \<and> list_all (\<lambda>m. unat (mnt_Used m + mnt_Available m) = unat (mnt_Used m) + unat (mnt_Available m)
        \<and> mnt_Used m + mnt_Available m \<le> mnt_Size m) (inv_DiskMounts i)"
proof -
  have sum: "unat (a + b) = unat a + unat b \<and> a + b \<le> c" if "unat a + unat b \<le> unat c" for a b c :: u64
  proof -
    have "unat c < 2 ^ 64" using unsigned_less [of c] by simp
    then have "unat a + unat b < 2 ^ 64" using that by (rule order.strict_trans1 [rotated])
    then have "unat (a + b) = unat a + unat b" by (simp add: unat_word_ariths)
    then show ?thesis using that by (simp add: word_le_nat_alt)
  qed
  note counters = validateInventory_counters [OF assms]
  show ?thesis using sum [OF counters(1)] sum [OF counters(2)] sum [OF counters(3)] by (simp add: list_all_iff)
qed

lemma inventory_counters_consistent_witness:
  "unat (inv_DiskUsed zeroInventory + inv_DiskAvailable zeroInventory)
     = unat (inv_DiskUsed zeroInventory) + unat (inv_DiskAvailable zeroInventory)"
  using inventory_counters_consistent [OF demo_inventory(1)] by blast

text \<open>
  C39. An accepted metrics snapshot is fresh and means what its fields say: it was observed at
  most two minutes before and thirty seconds after the server's time, used and available memory
  add up to the total, used and available disk space stay within the total, without wrap-around.
\<close>

theorem metrics_snapshot_sound:
  assumes "ValidateMetricsSnapshot s now = Inr ()"
  shows "now - 120 * Second \<le> fst (ms_ObservedAt s) \<and> fst (ms_ObservedAt s) \<le> now + 30 * Second
    \<and> unat (mem_UsedBytes (ms_Memory s)) + unat (mem_AvailableBytes (ms_Memory s)) = unat (mem_TotalBytes (ms_Memory s))
    \<and> unat (fs_UsedBytes (ms_RootDisk s)) + unat (fs_AvailableBytes (ms_RootDisk s)) \<le> unat (fs_TotalBytes (ms_RootDisk s))
    \<and> unat (fs_UsedBytes (ms_RootDisk s) + fs_AvailableBytes (ms_RootDisk s))
        = unat (fs_UsedBytes (ms_RootDisk s)) + unat (fs_AvailableBytes (ms_RootDisk s))
    \<and> 1 \<le> cpu_CoreCount (ms_CPU s) \<and> cpu_CoreCount (ms_CPU s) \<le> 65536"
proof -
  have parts: "freshSnapshot s now" "validMemory (ms_Memory s)" "validRootDisk (ms_RootDisk s)"
    "1 \<le> cpu_CoreCount (ms_CPU s)" "cpu_CoreCount (ms_CPU s) \<le> 65536"
    using assms by (auto simp: ValidateMetricsSnapshot_def split: if_splits)
  have "now - 120 * Second \<le> fst (ms_ObservedAt s) \<and> fst (ms_ObservedAt s) \<le> now + 30 * Second"
    using parts(1) by (auto simp: freshSnapshot_def MetricsSnapshotMaxAge_def MetricsSnapshotFutureSkew_def
        Minute_def Second_def split: prod.splits)
  then show ?thesis using validMemory_split [OF parts(2)] validRootDisk_no_wrap [OF parts(3)] parts(4,5) by simp
qed

lemma metrics_snapshot_sound_witness:
  "unat (mem_UsedBytes (ms_Memory demoSnapshot)) + unat (mem_AvailableBytes (ms_Memory demoSnapshot))
     = unat (mem_TotalBytes (ms_Memory demoSnapshot))"
  using metrics_snapshot_sound [OF demo_snapshot] by blast

section \<open>Documents\<close>


lemma observation_check:
  "validateAgentProfileObservation (Some ob) = Inr () \<longleftrightarrow>
     observationCheck (obs_State ob) (obs_Revision ob) (obs_ErrorCode ob)"
proof -
  have "observationCheck s r c \<longleftrightarrow> s \<in> set observationStates \<and> 0 \<le> r \<and> c \<in> set ([] # profileErrorCodes)" for s r c
    unfolding observationCheck_def observationStates_def profileErrorCodes_def hub_consts by (simp only: list.set)
  then show ?thesis by (auto simp: validateAgentProfileObservation_def isSafeProfileErrorCode_def)
qed

section \<open>Checks stated twice\<close>

text \<open>
  The two definitions of a valid node id, in the hub and in the status document, accept the
  same strings, although one is a loop with a special first position and the other a loop
  followed by a test of the first rune.
\<close>

theorem node_id_checks_agree: "statusNodeID v \<longleftrightarrow> validNodeID v"
  by (rule statusNodeID_iff)

text \<open>
  What the agent may report about its profile, what the schema accepts and what a stored row
  must satisfy when it is read back are the same: the CHECK constraint of the observation table
  accepts an observation the validator accepts, and refuses no other 64-bit revision.
\<close>

theorem observation_check_agrees:
  "validateAgentProfileObservation (Some ob) = Inr () \<longleftrightarrow>
     observationCheck (obs_State ob) (obs_Revision ob) (obs_ErrorCode ob)"
  by (rule observation_check)

section \<open>Versions\<close>

text \<open>
  Comparing releases is a total order on the versions that parse and decides nothing else: the
  outcome is unknown exactly when one of them does not parse, current exactly when both parse to
  the same numbers, ahead exactly when the reverse comparison is behind, and being behind is
  transitive.
\<close>

theorem version_order:
  "(Compare v w = Unknown \<longleftrightarrow> parse_version v = None \<or> parse_version w = None)
    \<and> (Compare v w = Current \<longleftrightarrow> parse_version v \<noteq> None \<and> parse_version v = parse_version w)
    \<and> (Compare v w = Ahead \<longleftrightarrow> Compare w v = Behind)
    \<and> \<not> (Compare v w = Behind \<and> Compare w x = Behind \<and> Compare v x \<noteq> Behind)"
proof (intro conjI)
  show "Compare v w = Ahead \<longleftrightarrow> Compare w v = Behind" using Compare_Behind_Ahead [of w v] by blast
  show "\<not> (Compare v w = Behind \<and> Compare w x = Behind \<and> Compare v x \<noteq> Behind)" using Compare_trans by blast
qed (rule Compare_Unknown_iff Compare_Current_iff)+

section \<open>File roots\<close>

text \<open>
  When an inventory announces read roots, every write root is one of them. When it announces
  none, the check is off: any list of valid roots passes as write roots. The contract document
  asks for the subset in every case.
\<close>

theorem write_roots_need_read_roots:
  "\<not> (validateInventory ff i = Inr () \<and> inv_FileReadRoots i = Some rs \<and> \<not> set (inv_FileWriteRoots i) \<subseteq> set rs)
    \<and> validateInventory demoFloat (zeroInventory\<lparr>inv_FileWriteRoots := [''/srv/a'']\<rparr>) = Inr ()
    \<and> inv_FileReadRoots (zeroInventory\<lparr>inv_FileWriteRoots := [''/srv/a'']\<rparr>) = None"
proof (intro conjI)
  show "\<not> (validateInventory ff i = Inr () \<and> inv_FileReadRoots i = Some rs \<and> \<not> set (inv_FileWriteRoots i) \<subseteq> set rs)"
    by (auto simp: validateInventory_def validManagedFileRootInventory_def list_all_iff split: if_splits)
qed (use demo_inventory(2) in \<open>simp_all add: zeroInventory_def\<close>)

end
