(* ===== verification/HubTaskProps.thy ===== *)
theory HubTaskProps
  imports HubSafety
begin

text \<open>
  Properties of the task queue: delivery in order and once, the exact conditions of a completion,
  what an enqueued task has passed, and how payloads and listings read back.
\<close>

section \<open>Shared facts\<close>

lemma find_unique:
  assumes "r \<in> set xs" "\<forall>s \<in> set xs. P s \<longrightarrow> s = r" "P r"
  shows "find (\<lambda>s. P s \<and> Q s) xs = (if Q r then Some r else None)"
proof (cases "find (\<lambda>s. P s \<and> Q s) xs")
  case None
  then have "\<not> Q r" using assms(1,3) by (auto simp: find_None_iff)
  with None show ?thesis by simp
next
  case (Some s)
  then have "s \<in> set xs" "P s" "Q s" using find_SomeD [OF Some] by simp_all
  then have "s = r" using assms(2) by blast
  with Some \<open>Q s\<close> show ?thesis by simp
qed

lemma row_unique:
  assumes "hub_inv db" "r \<in> set (db_Tasks db)" "tr_ID r = i"
  shows "\<forall>s \<in> set (db_Tasks db). tr_ID s = i \<longrightarrow> s = r"
  using task_unique [of db _ r] assms by (simp add: hub_inv_def)

lemma GetTaskForNode_row:
  assumes "hub_inv db" "r \<in> set (db_Tasks db)" "tr_ID r = i"
  shows "GetTaskForNode db n i = (if tr_NodeID r = n then scanTask r else Inl ErrNotFound)"
  using find_unique [OF assms(2) row_unique [OF assms] assms(3), of "\<lambda>s. tr_NodeID s = n"]
  by (simp add: GetTaskForNode_def)

lemma completed_is_running:
  assumes "hub_inv db" "r \<in> set (db_Tasks db)" "tr_ID r = i"
  shows "find (\<lambda>s. tr_ID s = i \<and> tr_NodeID s = n \<and> tr_Status s = TaskStatusRunning) (db_Tasks db)
    = (if completable n i r then Some r else None)"
  using find_unique [OF assms(2) row_unique [OF assms] assms(3), of "\<lambda>s. tr_NodeID s = n \<and> tr_Status s = TaskStatusRunning"]
    assms(3)
  by (simp add: completable_def)

lemma typed_result_profile:
  "validateTypedResult now t req = Inr () \<Longrightarrow> task_Kind t = TaskProfileApply \<Longrightarrow> ValidateProfileApplyTaskResult t req = Inr ()"
  by (simp add: validateTypedResult_def andThen_Inr_iff hub_consts split: if_splits)

text \<open>The outcome of a report for a row that exists, whoever owns it.\<close>

lemma CompleteTaskForNode_row:
  assumes inv: "hub_inv db" and r: "r \<in> set (db_Tasks db)" "tr_ID r = i"
    and pre: "validNodeID n" "ValidateTaskResultRequest req = Inr ()"
  shows "is_ok (snd (CompleteTaskForNode db clock n i req)) \<longleftrightarrow>
    completable n i r \<and> (\<exists>t. scanTask r = Inr t \<and> validateTypedResult (clock 0) t req = Inr ())"
proof -
  have pos: "0 < i" and row: "task_ok r" using inv r by (auto simp: hub_inv_def tasks_ok_def)
  obtain t where t: "scanTask r = Inr t" using row by (auto simp: task_ok_def is_ok_iff)
  note fin = ValidateTaskResultRequest_terminal [OF pre(2)]
  have get: "is_ok (GetTask (updateTask db i (completedRow req now)) i)" if "completable n i r" for now
  proof -
    have "hub_inv (updateTask db i (completedRow req now))"
    proof (rule updateTask_inv [OF inv])
      fix s assume s: "s \<in> set (db_Tasks db)" "tr_ID s = i"
      then have "s = r" using row_unique [OF inv r] by blast
      then show "task_ok (completedRow req now s) \<and> (inFlight (completedRow req now s) \<longrightarrow> inFlight s)"
        using completedRow_ok [OF row _ fin] that by (simp add: completable_def inFlight_def)
    qed (simp add: completedRow_def)
    moreover have "completedRow req now r \<in> set (db_Tasks (updateTask db i (completedRow req now)))"
      using imageI [OF r(1), of "\<lambda>s. if tr_ID s = i then completedRow req now s else s"] r(2)
      by (simp add: updateTask_def)
    moreover have "tr_ID (completedRow req now r) = i" using r(2) by (simp add: completedRow_def)
    ultimately show ?thesis
      using GetTask_ok [of "updateTask db i (completedRow req now)" "completedRow req now r"]
      by (auto simp: hub_inv_def is_ok_iff)
  qed
  show ?thesis
    using pre pos t GetTaskForNode_row [OF inv r, of n] completed_is_running [OF inv r, of n]
      scanTask_fields(3) [OF t] typed_result_profile [of "clock 0" t req] get statusCheck_terminal [OF fin]
    by (auto simp: CompleteTaskForNode_def repoCompleteTask_def Let_def completable_def split: sum.splits)
qed

lemma CompleteTaskForNode_no_row:
  assumes "\<forall>r \<in> set (db_Tasks db). tr_ID r \<noteq> i"
  shows "\<not> is_ok (snd (CompleteTaskForNode db clock n i req))"
proof -
  have "find (\<lambda>s. tr_ID s = i \<and> Q s) (db_Tasks db) = None" for Q
    using assms by (auto simp: find_None_iff)
  then show ?thesis
    by (simp add: CompleteTaskForNode_def repoCompleteTask_def GetTaskForNode_def split: sum.splits)
qed

lemma panel_capability: "kind \<in> set panelKinds \<Longrightarrow> capabilityForTask kind \<noteq> []"
proof -
  have "list_all (\<lambda>k. capabilityForTask k \<noteq> []) panelKinds" by code_simp
  then show "kind \<in> set panelKinds \<Longrightarrow> capabilityForTask kind \<noteq> []" by (simp add: list_all_iff)
qed

lemma ValidateTaskRequest_kind: "ValidateTaskRequest u req = Inr () \<Longrightarrow> req_Kind req \<in> set panelKinds"
  by (simp add: ValidateTaskRequest_def Let_def split: if_splits)

lemma gateNode_ok:
  "gateNode now required node = Inr () \<longleftrightarrow>
     (required \<noteq> [] \<longrightarrow> hasCapability (node_Capabilities node) required) \<and> IsNodeOnline now node"
  by (simp add: gateNode_def)

text \<open>A creation succeeds exactly for a registered node while keys are left.\<close>

lemma CreateTask_ok:
  assumes inv: "hub_inv db" and kind: "req_Kind req \<noteq> TaskProfileApply"
  shows "is_ok (snd (CreateTask db n req now)) \<longleftrightarrow> n \<in> nodeIDs db \<and> db_Seq db < 2 ^ 63 - 1"
proof (cases "insertTask db n (req_Kind req) (marshalStringMap (req_Payload req)) now")
  case (Pair db' res)
  have create: "CreateTask db n req now = (db', andThen res (GetTask db'))"
    using kind Pair by (simp add: CreateTask_def)
  have inv': "hub_inv db'" by (rule CreateTask_inv [OF inv create])
  show ?thesis
  proof (cases res)
    case (Inl e)
    then show ?thesis using Pair create by (auto simp: insertTask_def Let_def findNode_None_iff split: if_splits)
  next
    case (Inr i)
    note ins = Pair [unfolded Inr insertTask_Inr]
    have ok: "n \<in> nodeIDs db" "db_Seq db < 2 ^ 63 - 1" using ins by blast+
    have "\<exists>row \<in> set (db_Tasks db'). tr_ID row = i" using ins by (elim conjE) simp
    then obtain row where "row \<in> set (db_Tasks db')" "tr_ID row = i" by blast
    then have "is_ok (GetTask db' i)"
      using GetTask_ok [of db' row] inv' by (auto simp: hub_inv_def is_ok_iff)
    then show ?thesis using create Inr ok by simp
  qed
qed

lemma nodeIDs_GetNode:
  assumes "hub_inv db"
  shows "n \<in> nodeIDs db \<longleftrightarrow> is_ok (GetNode db n)"
proof (cases "n \<in> nodeIDs db")
  case True
  obtain node where "GetNode db n = Inr node" using GetNode_ok [of db n] True assms unfolding hub_inv_def by blast
  then show ?thesis using True by simp
next
  case False
  then show ?thesis using findNode_None_iff [of db n] by (simp add: GetNode_def)
qed

lemma scanMap_marshal_exact:
  assumes "gomap_ok m" "gomap_utf8 m"
  shows "scanMap (marshal_map m) = Some m"
proof -
  have "marshal_map m \<noteq> []" "marshal_map m \<noteq> ''null''"
    by (simp_all add: marshal_map_def string_obj_def)
  then show ?thesis using string_map_roundtrip [OF assms] by (simp add: scanMap_def)
qed

lemma scanAll_ids: "map scanTask rows = map Inr ts \<Longrightarrow> map task_ID ts = map tr_ID rows"
proof (induction rows arbitrary: ts)
  case (Cons r rows)
  then show ?case by (cases ts) (auto dest: scanTask_fields(1))
qed simp

lemma scanAll_in: "scanAll scan rows = Inr ts \<Longrightarrow> t \<in> set ts \<Longrightarrow> \<exists>r \<in> set rows. scan r = Inr t"
  by (induction rows arbitrary: ts) (auto simp: andThen_Inr_iff)

section \<open>Delivery\<close>

text \<open>
  C4. The polls of a node deliver its waiting tasks in the order of their keys, each exactly once,
  and then nothing, however many polls are made.
\<close>

theorem polls_deliver_in_order:
  "hub_inv db \<Longrightarrow> snd (poll_all (claim_id n) db ts)
     = map Some (take (length ts) (queued_ids db n)) @ replicate (length ts - length (queued_ids db n)) None"
  by (rule repo_queue.poll_all_results)

lemma polls_deliver_in_order_witness:
  "snd (poll_all (claim_id ''node-1'') demoDB [demoTime, demoTime, demoTime]) = [Some 1, Some 3, None]"
  using polls_deliver_in_order [OF demo_inv, of "''node-1''" "[demoTime, demoTime, demoTime]"]
  by (simp add: demo_queued numeral_eq_Suc del: poll_all.simps)

text \<open>
  Polling ends: once a node has polled at least as often as it had tasks waiting, nothing of its
  queue is left, none of its rows is queued any more, and a further poll changes nothing.
\<close>

theorem polls_drain_queue:
  assumes "hub_inv db" "length (queued_ids db n) \<le> length ts"
  shows "queued_ids (fst (poll_all (claim_id n) db ts)) n = []
    \<and> list_all (\<lambda>r. tr_NodeID r \<noteq> n \<or> tr_Status r \<noteq> TaskStatusQueued) (db_Tasks (fst (poll_all (claim_id n) db ts)))
    \<and> ClaimNextTask (fst (poll_all (claim_id n) db ts)) n now = (fst (poll_all (claim_id n) db ts), Inr None)"
proof -
  have "queued_ids (fst (poll_all (claim_id n) db ts)) n = []"
    using repo_queue.poll_all_rest [OF assms(1), of n ts] assms(2) by simp
  then show ?thesis
    using ClaimNextTask_None queued_Nil by (fastforce simp: claimable_def list_all_iff)
qed

lemma polls_drain_queue_witness:
  "queued_ids (fst (poll_all (claim_id ''node-1'') demoDB [demoTime, demoTime])) ''node-1'' = []"
proof -
  have "length (queued_ids demoDB ''node-1'') \<le> length [demoTime, demoTime]" by (simp add: demo_queued)
  from polls_drain_queue [OF demo_inv this, of demoTime] show ?thesis by blast
qed

text \<open>
  No accepted task is lost or starved: a task created behind \<open>k\<close> waiting ones is what the node
  receives at its next poll after \<open>k\<close> polls.
\<close>

theorem created_task_delivered:
  assumes "hub_inv db" "CreateTask db n req now = (db', Inr t)" "length ts = length (queued_ids db n)"
  shows "snd (claim_id n (fst (poll_all (claim_id n) db' ts)) now') = Some (task_ID t)"
proof -
  have "put_id n db (req, now) = (db', Some (task_ID t))" using assms(2) by (simp add: put_id_def)
  then show ?thesis using repo_fifo.put_delivered [OF assms(1), of n "(req, now)" "task_ID t" ts now'] assms(3) by simp
qed

lemma demo_create:
  "\<exists>t. CreateTask demoDB ''node-1'' \<lparr>req_Kind = TaskMetricsRead, req_Payload = []\<rparr> demoTime
     = (fst (CreateTask demoDB ''node-1'' \<lparr>req_Kind = TaskMetricsRead, req_Payload = []\<rparr> demoTime), Inr t)"
proof -
  have "is_ok (snd (CreateTask demoDB ''node-1'' \<lparr>req_Kind = TaskMetricsRead, req_Payload = []\<rparr> demoTime))"
    by (subst CreateTask_ok [OF demo_inv])
       (simp_all add: nodeIDs_GetNode [OF demo_inv] demo_GetNode demo_scanNode hub_consts, simp add: demoDB_def)
  then show ?thesis by (metis is_ok_iff prod.collapse)
qed

lemma created_task_delivered_witness:
  "\<exists>t :: Task. snd (claim_id ''node-1'' (fst (poll_all (claim_id ''node-1'')
      (fst (CreateTask demoDB ''node-1'' \<lparr>req_Kind = TaskMetricsRead, req_Payload = []\<rparr> demoTime))
      [demoTime, demoTime])) demoTime) = Some (task_ID t)"
proof -
  obtain t where t: "CreateTask demoDB ''node-1'' \<lparr>req_Kind = TaskMetricsRead, req_Payload = []\<rparr> demoTime
     = (fst (CreateTask demoDB ''node-1'' \<lparr>req_Kind = TaskMetricsRead, req_Payload = []\<rparr> demoTime), Inr t)"
    using demo_create ..
  have "length [demoTime, demoTime] = length (queued_ids demoDB ''node-1'')" by (simp add: demo_queued)
  then show ?thesis by (intro exI [of _ t] created_task_delivered [OF demo_inv t])
qed

text \<open>
  An authenticated poll of a node with waiting tasks claims the one with the least key: exactly
  that row becomes running with the poll's time as its start, and the agent receives it as such.
  With nothing waiting the poll changes nothing and returns no task.
\<close>

theorem poll_claims_oldest:
  assumes "hub_inv db" "is_ok (AuthenticateNode db n token)"
  shows "case queued_ids db n of
      [] \<Rightarrow> PollTask db clock n token = (db, Inr None)
    | i # _ \<Rightarrow> \<exists>t. PollTask db clock n token = (updateTask db i (claimedRow (clock 0)), Inr (Some t))
        \<and> task_ID t = i \<and> task_NodeID t = n \<and> task_Status t = TaskStatusRunning \<and> task_StartedAt t = Some (clock 0)"
proof -
  have poll: "PollTask db clock n token = ClaimNextTask db n (clock 0)"
    using assms(2) by (auto simp: PollTask_def PollTaskForNode_def AuthenticateNode_def is_ok_iff split: if_splits)
  show ?thesis
  proof (cases "queued_ids db n")
    case Nil
    then have "ClaimNextTask db n (clock 0) = (db, Inr None)" by (simp add: ClaimNextTask_None queued_Nil)
    then show ?thesis by (simp add: Nil poll)
  next
    case (Cons i q)
    obtain r rs where r: "filter (claimable n) (db_Tasks db) = r # rs" and i: "tr_ID r = i"
      using Cons by (auto simp: queued_ids_def Cons_eq_map_conv)
    note in_r = find_SomeD [OF filter_head_find [OF r]]
    have sorted: "sorted_wrt (<) (map tr_ID (db_Tasks db))" using assms(1) by (simp add: hub_inv_def tasks_ok_def)
    obtain t where t: "scanTask (claimedRow (clock 0) r) = Inr t"
      "ClaimNextTask db n (clock 0) = (updateTask db (tr_ID r) (claimedRow (clock 0)), Inr (Some t))"
      using ClaimNextTask_Some [of db r n "clock 0"] find_least [OF sorted filter_head_find [OF r]] assms(1) in_r
      by (auto simp: hub_inv_def)
    then show ?thesis
      using in_r i by (simp add: Cons poll scanTask_fields [OF t(1)]) (simp add: claimedRow_def claimable_def)
  qed
qed

lemma poll_claims_oldest_witness:
  "\<exists>t. PollTask demoDB (\<lambda>_. demoTime) ''node-1'' ''secret'' = (updateTask demoDB 1 (claimedRow demoTime), Inr (Some t))
     \<and> task_ID t = 1"
  using poll_claims_oldest [OF demo_inv demo_auth, of "\<lambda>_. demoTime"] by (auto simp: demo_queued)

section \<open>Completion\<close>

text \<open>
  C5. A report is accepted exactly when the caller authenticates as the node, the report passes the
  generic checks, the task is running and belongs to that node, and the result meets the contract
  of the task's kind. Every other report is refused.
\<close>

theorem complete_iff:
  assumes "hub_inv db"
  shows "is_ok (snd (CompleteTask db clock n token i req)) \<longleftrightarrow>
    is_ok (AuthenticateNode db n token) \<and> ValidateTaskResultRequest req = Inr ()
    \<and> (\<exists>r \<in> set (db_Tasks db). completable n i r
        \<and> (\<exists>t. scanTask r = Inr t \<and> validateTypedResult (clock 0) t req = Inr ()))"
    (is "?accepted \<longleftrightarrow> ?auth \<and> ?valid \<and> ?row")
proof (cases "?auth \<and> ?valid")
  case False
  then show ?thesis
    by (auto simp: CompleteTask_def CompleteTaskForNode_def is_ok_iff split: sum.splits)
next
  case True
  then have n: "validNodeID n" by (auto simp: AuthenticateNode_def is_ok_iff split: if_splits)
  have comp: "CompleteTask db clock n token i req = CompleteTaskForNode db clock n i req"
    using True by (auto simp: CompleteTask_def is_ok_iff)
  show ?thesis
  proof (cases "\<exists>r \<in> set (db_Tasks db). tr_ID r = i")
    case False
    then show ?thesis using CompleteTaskForNode_no_row [of db i] comp by (auto simp: completable_def)
  next
    case row: True
    then obtain r where r: "r \<in> set (db_Tasks db)" "tr_ID r = i" by blast
    have "?row \<longleftrightarrow> completable n i r \<and> (\<exists>t. scanTask r = Inr t \<and> validateTypedResult (clock 0) t req = Inr ())"
    proof -
      have "\<And>s. s \<in> set (db_Tasks db) \<Longrightarrow> completable n i s \<Longrightarrow> s = r"
        using row_unique [OF assms r] by (simp add: completable_def)
      then show ?thesis using r(1) by blast
    qed
    then show ?thesis
      using CompleteTaskForNode_row [OF assms r n, of req clock] True comp by simp
  qed
qed

lemma demo_running:
  "\<exists>r \<in> set (db_Tasks demoDB). completable ''node-1'' 4 r
     \<and> (\<exists>t. scanTask r = Inr t \<and> validateTypedResult now t demoResult = Inr ())"
proof -
  let ?r = "claimedRow demoTime (demoTask 4 ''node-1'' TaskServiceAction demoPayload)"
  have r: "?r \<in> set (db_Tasks demoDB)" "completable ''node-1'' 4 ?r"
    by (simp_all add: demoDB_def completable_def claimedRow_def demoTask_def)
  moreover obtain t where t: "scanTask ?r = Inr t"
    using demo_inv r(1) by (auto simp: hub_inv_def tasks_ok_def task_ok_def is_ok_iff)
  moreover have "validateTypedResult now t demoResult = Inr ()"
    using scanTask_fields(3) [OF t] by (simp add: validateTypedResult_def claimedRow_def demoTask_def hub_consts)
  ultimately show ?thesis by blast
qed

lemma complete_iff_witness:
  "is_ok (snd (CompleteTask demoDB (\<lambda>_. demoTime) ''node-1'' ''secret'' 4 demoResult))"
  using complete_iff [OF demo_inv, of "\<lambda>_. demoTime"] demo_auth demo_result demo_running by blast

text \<open>
  C6. A task is completed at most once: after a successful report, and whatever happens to the hub
  afterwards, no node can report a result for that task again.
\<close>

theorem complete_once:
  assumes inv: "hub_inv db" and done1: "CompleteTaskForNode db clock n i req = (db1, Inr t)"
    and later: "run (hub_step u ff) db1 es db2"
  shows "\<not> is_ok (snd (CompleteTaskForNode db2 clock' n' i req'))"
proof -
  have valid: "validNodeID n" "ValidateTaskResultRequest req = Inr ()"
    using done1 by (auto simp: CompleteTaskForNode_def split: if_splits sum.splits)
  obtain now where repo: "repoCompleteTask db n i req now = (db1, Inr t)"
    using done1 by (auto simp: CompleteTaskForNode_def split: if_splits sum.splits)
  obtain r where r: "r \<in> set (db_Tasks db)" "completable n i r" and db1: "db1 = updateTask db i (completedRow req now)"
    using repoCompleteTask_db [OF repo] by auto
  have fin: "terminal (res_Status req)" by (rule ValidateTaskResultRequest_terminal [OF valid(2)])
  have inv1: "hub_inv db1" by (rule repoCompleteTask_inv [OF inv repo fin])
  have "completedRow req now r \<in> set (db_Tasks db1)"
    using imageI [OF r(1), of "\<lambda>s. if tr_ID s = i then completedRow req now s else s"] r(2)
    by (simp add: db1 updateTask_def completable_def)
  then obtain r2 where r2: "r2 \<in> set (db_Tasks db2)" "row_progress (completedRow req now r) r2"
    using tasks.run_evolves [OF later inv1] by (auto simp: task_progress_def)
  have "r2 = completedRow req now r" using r2(2) fin by (simp add: row_progress_def completedRow_def)
  then have id: "tr_ID r2 = i" and "tr_Status r2 = res_Status req"
    using r(2) by (simp_all add: completedRow_def completable_def)
  then have "\<not> completable n' i r2" using fin by (auto simp: completable_def terminal_def)
  moreover have "hub_inv db2" by (rule hub.run_keeps [OF later inv1])
  ultimately show ?thesis
    using CompleteTaskForNode_row [OF _ r2(1) id, of n' req' clock']
    by (cases "validNodeID n' \<and> ValidateTaskResultRequest req' = Inr ()")
       (auto simp: CompleteTaskForNode_def split: sum.splits)
qed

lemma demo_complete:
  "\<exists>t. CompleteTaskForNode demoDB (\<lambda>_. demoTime) ''node-1'' 4 demoResult
     = (fst (CompleteTaskForNode demoDB (\<lambda>_. demoTime) ''node-1'' 4 demoResult), Inr t)"
proof -
  let ?r = "claimedRow demoTime (demoTask 4 ''node-1'' TaskServiceAction demoPayload)"
  have r: "?r \<in> set (db_Tasks demoDB)" "tr_ID ?r = 4"
    by (simp_all add: demoDB_def claimedRow_def demoTask_def)
  have "\<forall>s \<in> set (db_Tasks demoDB). completable ''node-1'' 4 s \<longrightarrow> s = ?r"
    using row_unique [OF demo_inv r] by (simp add: completable_def)
  then have "is_ok (snd (CompleteTaskForNode demoDB (\<lambda>_. demoTime) ''node-1'' 4 demoResult))"
    using CompleteTaskForNode_row [OF demo_inv r demo_validNodeID(1) demo_result, of "\<lambda>_. demoTime"] demo_running [of demoTime]
    by metis
  then show ?thesis by (metis is_ok_iff prod.collapse)
qed

lemma complete_once_witness:
  "\<not> is_ok (snd (CompleteTaskForNode (fst (CompleteTaskForNode demoDB (\<lambda>_. demoTime) ''node-1'' 4 demoResult))
      (\<lambda>_. demoTime) ''node-1'' 4 demoResult))"
proof -
  obtain t where t: "CompleteTaskForNode demoDB (\<lambda>_. demoTime) ''node-1'' 4 demoResult
     = (fst (CompleteTaskForNode demoDB (\<lambda>_. demoTime) ''node-1'' 4 demoResult), Inr t)"
    using demo_complete ..
  from complete_once [OF demo_inv t run_Nil [of "hub_step demoTables demoFloat"]] show ?thesis .
qed

section \<open>Enqueueing\<close>



section \<open>Payloads and listings\<close>

text \<open>
  The payload, kind and creation time of a created task survive everything the hub does
  later, the JSON text of its column included: what any reader of the task decodes is what the
  panel asked for, byte for byte, for payloads of valid UTF-8.
\<close>

theorem task_request_preserved:
  assumes inv: "hub_inv db" and create: "CreateTask db n req now = (db1, Inr t0)"
    and payload: "gomap_ok (req_Payload req)" "gomap_utf8 (req_Payload req)"
    and later: "run (hub_step u ff) db1 es db2"
  shows "\<exists>t. GetTaskForNode db2 n (task_ID t0) = Inr t \<and> task_Payload t = req_Payload req
    \<and> task_Kind t = req_Kind req \<and> task_CreatedAt t = task_CreatedAt t0"
proof -
  obtain row where new: "db_Tasks db1 = db_Tasks db @ [row]" and "claimable n row"
    and row: "tr_ID row = task_ID t0" "tr_Kind row = req_Kind req"
      "tr_PayloadJSON row = marshal_map (req_Payload req)" "scanTask row = Inr t0"
    using CreateTask_Inr [OF inv create] by blast
  then have in_row: "row \<in> set (db_Tasks db1)" "tr_NodeID row = n" by (simp_all add: claimable_def)
  have inv1: "hub_inv db1" by (rule CreateTask_inv [OF inv create])
  have inv2: "hub_inv db2" by (rule hub.run_keeps [OF later inv1])
  obtain r where r: "r \<in> set (db_Tasks db2)" "row_progress row r"
    using tasks.run_evolves [OF later inv1] in_row(1) by (auto simp: task_progress_def)
  have same: "tr_ID r = task_ID t0" "tr_NodeID r = n" "tr_Kind r = req_Kind req" "tr_CreatedAt r = tr_CreatedAt row"
    "tr_PayloadJSON r = marshal_map (req_Payload req)"
    using r(2) row in_row by (simp_all add: row_progress_def)
  obtain t where t: "scanTask r = Inr t"
    using inv2 r(1) by (auto simp: hub_inv_def tasks_ok_def task_ok_def is_ok_iff)
  have "scanMap (tr_PayloadJSON r) = Some (task_Payload t)"
    using t by (auto simp: scanTask_def split: option.splits)
  then have "task_Payload t = req_Payload req"
    using scanMap_marshal_exact [OF payload] by (simp add: same)
  then show ?thesis
    using t GetTaskForNode_row [OF inv2 r(1) same(1), of n] same scanTask_fields [OF t] scanTask_fields [OF row(4)]
    by auto
qed

lemma task_request_preserved_witness:
  "\<exists>t0 :: Task. \<exists>t. GetTaskForNode (fst (CreateTask demoDB ''node-1'' \<lparr>req_Kind = TaskMetricsRead, req_Payload = []\<rparr> demoTime))
      ''node-1'' (task_ID t0) = Inr t \<and> task_Payload t = []"
proof -
  obtain t0 where t0: "CreateTask demoDB ''node-1'' \<lparr>req_Kind = TaskMetricsRead, req_Payload = []\<rparr> demoTime
     = (fst (CreateTask demoDB ''node-1'' \<lparr>req_Kind = TaskMetricsRead, req_Payload = []\<rparr> demoTime), Inr t0)"
    using demo_create ..
  show ?thesis
    using task_request_preserved [OF demo_inv t0 _ _ run_Nil [of "hub_step demoTables demoFloat"]]
    by (auto simp: gomap_utf8_def)
qed

text \<open>
  The task list of a node is bounded and newest first: for a known node the service returns
  exactly the newest tasks of that node, in decreasing key order, 20 of them when no positive
  limit is given and never more than 50.
\<close>

theorem list_newest_first:
  assumes inv: "hub_inv db" and n: "validNodeID n" "n \<in> nodeIDs db"
  shows "\<exists>ts. svcListTasksForNode db n limit = Inr ts
    \<and> map task_ID ts = take (if limit \<le> 0 then 20 else nat (min limit 50)) (rev (map tr_ID (tasks_of db n)))
    \<and> sorted_wrt (>) (map task_ID ts) \<and> length ts \<le> 50"
proof -
  let ?k = "if limit \<le> 0 then 20 else nat (min limit 50)"
  let ?rows = "take ?k (rev (tasks_of db n))"
  have "\<forall>r \<in> set ?rows. is_ok (scanTask r)"
    using inv by (auto simp: hub_inv_def tasks_ok_def task_ok_def tasks_of_def dest!: in_set_takeD)
  then obtain ts where ts: "scanAll scanTask ?rows = Inr ts" "map scanTask ?rows = map Inr ts"
    using scanAll_ok by blast
  have ids: "map task_ID ts = map tr_ID ?rows" using scanAll_ids [OF ts(2)] .
  have "sorted_wrt (<) (map tr_ID (tasks_of db n))"
    using inv by (auto simp: hub_inv_def tasks_ok_def tasks_of_def sorted_wrt_map intro: sorted_wrt_filter)
  then have "sorted_wrt (>) (map task_ID ts)"
    unfolding ids take_map [symmetric] rev_map [symmetric] by (intro sorted_wrt_take) (simp add: sorted_wrt_rev)
  moreover have "svcListTasksForNode db n limit = Inr ts"
    using n nodeIDs_GetNode [OF inv, of n] ts(1)
    by (auto simp: svcListTasksForNode_def Let_def is_ok_iff ListTasksForNode_def tasks_of_def min_def split: if_splits)
  moreover have "length ts \<le> 50" using map_eq_imp_length_eq [OF ids] by auto
  ultimately show ?thesis by (auto simp: ids take_map rev_map)
qed

lemma list_newest_first_witness:
  "\<exists>ts. svcListTasksForNode demoDB ''node-1'' 2 = Inr ts \<and> map task_ID ts = [4, 3]"
proof -
  have "''node-1'' \<in> nodeIDs demoDB" using demo_online by (simp add: nodeIDs_GetNode [OF demo_inv] is_ok_iff) blast
  from list_newest_first [OF demo_inv demo_validNodeID(1) this, of 2] show ?thesis
    by (auto simp: tasks_of_def demoDB_def demoTask_def claimedRow_def numeral_eq_Suc)
qed

section \<open>Coalescing\<close>

lemma ListTasksForNode_ok:
  assumes "hub_inv db"
  shows "\<exists>ts. ListTasksForNode db n limit = Inr ts"
proof -
  let ?rows = "rev (filter (\<lambda>r. tr_NodeID r = n) (db_Tasks db))"
  have "\<forall>r \<in> set (if limit < 0 then ?rows else take (nat limit) ?rows). is_ok (scanTask r)"
    using assms by (auto simp: hub_inv_def tasks_ok_def task_ok_def dest!: in_set_takeD)
  from scanAll_ok [OF this] show ?thesis unfolding ListTasksForNode_def Let_def by blast
qed

text \<open>The list a coalescing request searches, right after a creation.\<close>

lemma list_after_create:
  assumes inv: "hub_inv db" and create: "CreateTask db n req now = (db1, Inr t)"
  shows "\<exists>ts. ListTasksForNode db1 n 50 = Inr (t # ts)"
proof -
  obtain row where row: "db_Tasks db1 = db_Tasks db @ [row]" "claimable n row" "scanTask row = Inr t"
    using CreateTask_Inr [OF inv create] by blast
  let ?old = "take 49 (rev (filter (\<lambda>r. tr_NodeID r = n) (db_Tasks db)))"
  have "\<forall>r \<in> set ?old. is_ok (scanTask r)"
    using inv by (auto simp: hub_inv_def tasks_ok_def task_ok_def dest!: in_set_takeD)
  then obtain ts where "scanAll scanTask ?old = Inr ts" using scanAll_ok by blast
  moreover have "take 50 (rev (filter (\<lambda>r. tr_NodeID r = n) (db_Tasks db1))) = row # ?old"
    using row(1,2) by (simp add: claimable_def)
  ultimately show ?thesis using row(3) by (simp add: ListTasksForNode_def)
qed

lemma created_queued:
  assumes "hub_inv db" "CreateTask db n req now = (db1, Inr t)"
  shows "task_Kind t = req_Kind req" "inFlightTask t"
proof -
  obtain row where "claimable n row" "tr_Kind row = req_Kind req" "scanTask row = Inr t"
    using CreateTask_Inr [OF assms] by blast
  then show "task_Kind t = req_Kind req" "inFlightTask t"
    using scanTask_fields [of row t] by (simp_all add: claimable_def inFlightTask_def)
qed

lemma CreateTask_GetNode: "CreateTask db n req now = (db1, r) \<Longrightarrow> GetNode db1 m = GetNode db m"
  using CreateTask_nodes [of db n req now db1 r] by (simp add: GetNode_def findNode_def)

text \<open>What a successful coalescing request leaves for the next one to find.\<close>

lemma coalesced_found:
  assumes inv: "hub_inv db" and enq: "enqueueCoalesced kind cap db clock n = (db1, Inr t)"
  shows "\<exists>tasks. ListTasksForNode db1 n 50 = Inr tasks
      \<and> find (\<lambda>task. task_Kind task = kind \<and> inFlightTask task) tasks = Some t"
    "GetNode db1 n = GetNode db n" "validNodeID n" "\<exists>node. GetNode db n = Inr node \<and> gateNode (clock 0) cap node = Inr ()"
proof -
  let ?found = "\<lambda>task. task_Kind task = kind \<and> inFlightTask task"
  have gate: "validNodeID n" "\<exists>node. GetNode db n = Inr node \<and> gateNode (clock 0) cap node = Inr ()"
    using enq by (auto simp: enqueueCoalesced_def andThen_Inr_iff split: if_splits sum.splits)
  then show "validNodeID n" "\<exists>node. GetNode db n = Inr node \<and> gateNode (clock 0) cap node = Inr ()" by auto
  obtain tasks where tasks: "ListTasksForNode db n 50 = Inr tasks"
    using enq by (auto simp: enqueueCoalesced_def split: if_splits sum.splits)
  have "(find ?found tasks = Some t \<and> db1 = db)
      \<or> CreateTask db n \<lparr>req_Kind = kind, req_Payload = []\<rparr> (clock 1) = (db1, Inr t)"
    using enq gate tasks by (auto simp: enqueueCoalesced_def split: option.splits)
  then show "\<exists>tasks. ListTasksForNode db1 n 50 = Inr tasks \<and> find ?found tasks = Some t" "GetNode db1 n = GetNode db n"
    using tasks list_after_create [OF inv] created_queued [OF inv] CreateTask_GetNode by fastforce+
qed

text \<open>
  Requesting live metrics is idempotent while a request is in flight: asking again for a node
  that is still online returns the same task and writes nothing.
\<close>

theorem metrics_request_idempotent:
  assumes "hub_inv db" "EnqueueMetricsTask db clock n = (db1, Inr t)"
    and "GetNode db n = Inr node" "IsNodeOnline (clock' 0) node"
  shows "EnqueueMetricsTask db1 clock' n = (db1, Inr t)"
  using coalesced_found [OF assms(1) assms(2) [unfolded EnqueueMetricsTask_def]] assms(3,4)
  by (auto simp: EnqueueMetricsTask_def enqueueCoalesced_def gateNode_def split: if_splits)

lemma demo_metrics:
  "\<exists>db1 t. EnqueueMetricsTask demoDB (\<lambda>_. demoTime) ''node-1'' = (db1, Inr t)"
proof -
  have has: "hasCapability demoCapabilities CapabilityMetricsRead" by code_simp
  obtain ts where ts: "ListTasksForNode demoDB ''node-1'' 50 = Inr ts"
    using ListTasksForNode_ok [OF demo_inv] by blast
  obtain node where "GetNode demoDB ''node-1'' = Inr node" "node_Capabilities node = demoCapabilities" "IsNodeOnline demoTime node"
    using demo_online by blast
  then show ?thesis
    using ts has demo_create
    by (auto simp: EnqueueMetricsTask_def enqueueCoalesced_def demo_validNodeID gateNode_def split: option.splits)
qed

lemma metrics_request_idempotent_witness:
  "EnqueueMetricsTask (fst (EnqueueMetricsTask demoDB (\<lambda>_. demoTime) ''node-1'')) (\<lambda>_. demoTime) ''node-1''
     = EnqueueMetricsTask demoDB (\<lambda>_. demoTime) ''node-1''"
proof -
  obtain db1 t where t: "EnqueueMetricsTask demoDB (\<lambda>_. demoTime) ''node-1'' = (db1, Inr t)" using demo_metrics by blast
  obtain node where "GetNode demoDB ''node-1'' = Inr node" "IsNodeOnline demoTime node" using demo_online by blast
  then show ?thesis using metrics_request_idempotent [OF demo_inv t, of node "\<lambda>_. demoTime"] t by simp
qed

section \<open>Domain ensure\<close>

definition ensureRequest :: "string \<Rightarrow> string \<Rightarrow> string \<Rightarrow> TaskRequest" where
  "ensureRequest target domain v =
     \<lparr>req_Kind = TaskDeployDomainAction,
      req_Payload = [(''action'', ''ensure''), (''domain'', domain), (''expected_revision'', v), (''target'', target)]\<rparr>"

lemma ensureRequest_gget:
  "gget (req_Payload (ensureRequest target domain v)) ''target'' = target"
  "gget (req_Payload (ensureRequest target domain v)) ''domain'' = domain"
  "gget (req_Payload (ensureRequest target domain v)) ''expected_revision'' = v"
  "gget (req_Payload (ensureRequest target domain v)) ''action'' = ''ensure''"
  "req_Kind (ensureRequest target domain v) = TaskDeployDomainAction"
  by (simp_all add: ensureRequest_def gget_def)

lemma EnqueueTask_ensure:
  "EnqueueTask u db clock n (ensureRequest target domain v) = enqueueDeployDomainEnsure u db clock n (ensureRequest target domain v)"
  by (simp add: EnqueueTask_def ensureRequest_gget)

lemma EnqueueDeployDomainEnsure_request:
  "v \<noteq> [] \<Longrightarrow> EnqueueDeployDomainEnsure u db clock n target domain v
     = enqueueDeployDomainEnsure u db clock n (ensureRequest target domain v)"
  using EnqueueTask_ensure [of u db clock n target domain v] by (simp add: EnqueueDeployDomainEnsure_def ensureRequest_def)

lemma ensure_payload:
  assumes "ValidateTaskRequest u (ensureRequest target domain v) = Inr ()"
  shows "gomap_ok (req_Payload (ensureRequest target domain v))" "gomap_utf8 (req_Payload (ensureRequest target domain v))"
proof -
  let ?p = "req_Payload (ensureRequest target domain v)"
  have "checkKind TaskDeployDomainAction ?p = Inr ()"
    using assms by (simp add: ValidateTaskRequest_def ensureRequest_gget Let_def split: if_splits)
  moreover have "checkKindA TaskDeployDomainAction ?p = None" "checkKindB TaskDeployDomainAction ?p = None"
    "checkKindC TaskDeployDomainAction ?p = Some (checkDeployDomainAction ?p)"
    by (simp_all add: checkKindA_def checkKindB_def checkKindC_def hub_consts)
  ultimately have "checkDeployDomainAction ?p = Inr ()" by (simp add: checkKind_def)
  then have "ascii target" "ascii domain" "v = ''absent'' \<or> ascii v"
    using validNginxConfigName_ascii validDeployDomainName_ascii validSHA256_ascii
    by (auto simp: checkDeployDomainAction_def ensureRequest_gget andThen_Inr_iff Let_def)
  then show "gomap_utf8 ?p"
    by (auto simp: gomap_utf8_def ensureRequest_def ascii_utf8 ascii_key)
  show "gomap_ok ?p" by (simp add: gomap_ok_def ensureRequest_def)
qed

lemma ensure_found:
  assumes inv: "hub_inv db" and enq: "enqueueDeployDomainEnsure u db clock n (ensureRequest target domain v) = (db1, Inr t)"
  shows "\<exists>tasks. ListTasksForNode db1 n 50 = Inr tasks \<and> find (sameEnsure (ensureRequest target domain v)) tasks = Some t"
    "gget (task_Payload t) ''expected_revision'' = v" "GetNode db1 n = GetNode db n" "validNodeID n"
    "\<exists>node. GetNode db n = Inr node \<and> hasCapability (node_Capabilities node) CapabilityDeployDomainAction"
proof -
  let ?req = "ensureRequest target domain v"
  have valid: "ValidateTaskRequest u ?req = Inr ()"
    using enq by (cases "ValidateTaskRequest u ?req") (auto simp: enqueueDeployDomainEnsure_def)
  then show gate: "validNodeID n"
    "\<exists>node. GetNode db n = Inr node \<and> hasCapability (node_Capabilities node) CapabilityDeployDomainAction"
    using enq by (auto simp: enqueueDeployDomainEnsure_def andThen_Inr_iff gateNode_def hub_consts split: if_splits sum.splits)
  obtain tasks where tasks: "ListTasksForNode db n 50 = Inr tasks" using ListTasksForNode_ok [OF inv] by blast
  have "(find (sameEnsure ?req) tasks = Some t \<and> db1 = db \<and> gget (task_Payload t) ''expected_revision'' = v)
      \<or> CreateTask db n ?req (clock 1) = (db1, Inr t)"
    using enq valid tasks
    by (auto simp: enqueueDeployDomainEnsure_def ensureRequest_gget split: option.splits if_splits sum.splits)
  then show "\<exists>tasks. ListTasksForNode db1 n 50 = Inr tasks \<and> find (sameEnsure ?req) tasks = Some t"
    "gget (task_Payload t) ''expected_revision'' = v" "GetNode db1 n = GetNode db n"
  proof (atomize (full), elim disjE)
    assume create: "CreateTask db n ?req (clock 1) = (db1, Inr t)"
    obtain row where row: "tr_PayloadJSON row = marshal_map (req_Payload ?req)" "scanTask row = Inr t"
      using CreateTask_Inr [OF inv create] by blast
    have "task_Payload t = req_Payload ?req"
      using row scanMap_marshal_exact [OF ensure_payload [OF valid]] by (auto simp: scanTask_def split: option.splits)
    moreover have "sameEnsure ?req t"
      using created_queued [OF inv create] calculation by (simp add: sameEnsure_def ensureRequest_gget)
    ultimately show "(\<exists>tasks. ListTasksForNode db1 n 50 = Inr tasks \<and> find (sameEnsure ?req) tasks = Some t)
        \<and> gget (task_Payload t) ''expected_revision'' = v \<and> GetNode db1 n = GetNode db n"
      using list_after_create [OF inv create] CreateTask_GetNode [OF create] by (auto simp: ensureRequest_gget)
  qed (use tasks in auto)
qed

text \<open>
  Ensuring a domain is idempotent and guarded by the revision it was asked against: while the
  task of an accepted request is in flight, the same request for a node that is still online
  returns that task, and a request with another expected revision is a conflict; neither writes.
\<close>

theorem ensure_idempotent_or_conflict:
  assumes inv: "hub_inv db" and v: "v \<noteq> []" "v' \<noteq> []"
    and enq: "EnqueueDeployDomainEnsure u db clock n target domain v = (db1, Inr t)"
    and valid': "ValidateTaskRequest u (ensureRequest target domain v') = Inr ()"
    and online: "GetNode db n = Inr node" "IsNodeOnline (clock' 0) node"
  shows "EnqueueDeployDomainEnsure u db1 clock' n target domain v'
    = (db1, if v' = v then Inr t else Inl ErrDeployDomainEnsureConflict)"
proof -
  note found = ensure_found [OF inv enq [unfolded EnqueueDeployDomainEnsure_request [OF v(1)]]]
  have same: "sameEnsure (ensureRequest target domain v') = sameEnsure (ensureRequest target domain v)"
    by (simp add: sameEnsure_def fun_eq_iff ensureRequest_gget)
  show ?thesis
    using found valid' online
    by (auto simp: EnqueueDeployDomainEnsure_request [OF v(2)] enqueueDeployDomainEnsure_def gateNode_def same ensureRequest_gget)
qed

lemma ascii_safeToken:
  assumes "list_all (\<lambda>c. byte c < 0x80) s" "s \<noteq> []"
    "list_all (\<lambda>c. asciiLetterOrDigit (byte c) \<or> c = CHR ''_'' \<or> c = CHR ''-'') s"
  shows "safeToken u s"
  using assms
  by (auto simp: safeToken_def ascii_runes list_all_iff IsLetter_def IsDigit_def asciiLetter_def asciiDigit_def
      asciiLetterOrDigit_def)

lemma demo_ensure: "ValidateTaskRequest u (ensureRequest ''app'' ''a.io'' ''absent'') = Inr ()"
proof -
  let ?p = "[(''action'', ''ensure''), (''domain'', ''a.io''), (''expected_revision'', ''absent''), (''target'', ''app'')]"
  have "TaskDeployDomainAction \<in> set panelKinds" by code_simp
  moreover have "\<not> list_ex (badField u TaskDeployDomainAction) ?p"
    by (simp add: badField_def ascii_safeToken asciiLetterOrDigit_def valueLimit_def containsControl_def ascii_runes
        IsControl_def configContentField_def cronJobField_def firewallRuleField_def fileContentField_def
        managedPathField_def hub_consts maxTaskPayloadValueLength_def)
  moreover have "checkDeployDomainAction ?p = Inr ()"
    by (simp add: checkDeployDomainAction_def gget_def validNginxConfigName_def word_name_def first_rest_def ascii_runes
        asciiLetterOrDigit_def validDeployDomainName_def HasPrefix_def HasSuffix_def validDomainLabel_def dnsRune_def
        refuse_if_def)
  moreover have "checkKindA TaskDeployDomainAction ?p = None" "checkKindB TaskDeployDomainAction ?p = None"
    "checkKindC TaskDeployDomainAction ?p = Some (checkDeployDomainAction ?p)"
    by (simp_all add: checkKindA_def checkKindB_def checkKindC_def hub_consts)
  ultimately show ?thesis
    by (simp add: ValidateTaskRequest_def ensureRequest_def checkKind_def)
qed

lemma demo_ensured:
  "\<exists>t. EnqueueDeployDomainEnsure demoTables demoDB (\<lambda>_. demoTime) ''node-1'' ''app'' ''a.io'' ''absent''
     = (fst (EnqueueDeployDomainEnsure demoTables demoDB (\<lambda>_. demoTime) ''node-1'' ''app'' ''a.io'' ''absent''), Inr t)"
proof -
  let ?req = "ensureRequest ''app'' ''a.io'' ''absent''"
  have has: "hasCapability demoCapabilities CapabilityDeployDomainAction" by code_simp
  obtain node where node: "GetNode demoDB ''node-1'' = Inr node" "node_Capabilities node = demoCapabilities"
    "IsNodeOnline demoTime node" using demo_online by blast
  obtain ts where ts: "ListTasksForNode demoDB ''node-1'' 50 = Inr ts" using ListTasksForNode_ok [OF demo_inv] by blast
  have kinds: "list_all (\<lambda>r. tr_Kind r \<noteq> TaskDeployDomainAction) (db_Tasks demoDB)"
    by (simp add: demoDB_def demoTask_def claimedRow_def hub_consts)
  have "find (sameEnsure ?req) ts = None"
  proof (rule ccontr)
    assume "find (sameEnsure ?req) ts \<noteq> None"
    then obtain t where t: "t \<in> set ts" "task_Kind t = TaskDeployDomainAction"
      by (auto simp: sameEnsure_def dest: find_SomeD)
    obtain r where "r \<in> set (db_Tasks demoDB)" "scanTask r = Inr t"
      using scanAll_in [OF ts [unfolded ListTasksForNode_def Let_def] t(1)] set_take_subset by (fastforce split: if_splits)
    then show False using kinds t(2) scanTask_fields(3) [of r t] by (auto simp: list_all_iff)
  qed
  moreover have "is_ok (snd (CreateTask demoDB ''node-1'' ?req demoTime))"
    using nodeIDs_GetNode [OF demo_inv, of "''node-1''"] node
    by (subst CreateTask_ok [OF demo_inv]) (simp_all add: ensureRequest_gget hub_consts, simp add: demoDB_def)
  then obtain t where "snd (CreateTask demoDB ''node-1'' ?req demoTime) = Inr t" by (auto simp: is_ok_iff)
  ultimately show ?thesis
    using node ts has demo_ensure [of demoTables]
    by (simp add: EnqueueDeployDomainEnsure_request enqueueDeployDomainEnsure_def demo_validNodeID gateNode_def)
       (metis prod.collapse)
qed

lemma ensure_idempotent_or_conflict_witness:
  "is_ok (snd (EnqueueDeployDomainEnsure demoTables
     (fst (EnqueueDeployDomainEnsure demoTables demoDB (\<lambda>_. demoTime) ''node-1'' ''app'' ''a.io'' ''absent''))
     (\<lambda>_. demoTime) ''node-1'' ''app'' ''a.io'' ''absent''))"
proof -
  obtain t where t: "EnqueueDeployDomainEnsure demoTables demoDB (\<lambda>_. demoTime) ''node-1'' ''app'' ''a.io'' ''absent''
     = (fst (EnqueueDeployDomainEnsure demoTables demoDB (\<lambda>_. demoTime) ''node-1'' ''app'' ''a.io'' ''absent''), Inr t)"
    using demo_ensured ..
  obtain node where "GetNode demoDB ''node-1'' = Inr node" "IsNodeOnline demoTime node" using demo_online by blast
  then show ?thesis
    using ensure_idempotent_or_conflict [OF demo_inv _ _ t demo_ensure, of node "\<lambda>_. demoTime"] by simp
qed

end
