(* ===== verification/HubNodeProps.thy ===== *)
theory HubNodeProps
  imports HubTaskProps "HOL-Library.Multiset"
begin

text \<open>
  Properties of the node side of the hub: registration and credentials, what a request without a
  valid credential can do, the admission and the effect of a heartbeat, and the online window.
\<close>

definition demoHeartbeat :: HeartbeatRequest where
  "demoHeartbeat = \<lparr>hb_ProtocolVersion = ProtocolVersion, hb_NodeID = ''node-1'', hb_AgentVersion = ''1.2.3'',
     hb_Capabilities = [CapabilityProfileApply], hb_Hostname = ''web'', hb_SentAt = demoTime, hb_Inventory = zeroInventory,
     hb_Profile = Some \<lparr>obs_State = ProfileObservationApplied, obs_Revision = 3, obs_ErrorCode = []\<rparr>\<rparr>"

text \<open>Two nodes registered 20 milliseconds apart.\<close>

definition demoPair :: "node_row list" where
  "demoPair = [(demoRow ''node-1'')\<lparr>nr_CreatedAt := demoTime + 100000000\<rparr>,
     (demoRow ''node-2'')\<lparr>nr_CreatedAt := demoTime + 120000000\<rparr>]"

section \<open>Shared facts\<close>

lemma run_steps: "run step s es s' \<Longrightarrow> (\<lambda>a b. \<exists>e. step e a b)\<^sup>*\<^sup>* s s'"
  by (induction rule: run.induct) (auto intro: converse_rtranclp_into_rtranclp)

lemma AuthenticateNode_ok:
  assumes "hub_inv db"
  shows "is_ok (AuthenticateNode db n token) \<longleftrightarrow>
    validNodeID n \<and> token \<noteq> [] \<and> stored_digest db n = Some (token_digest token)"
  using AuthenticateToken_ok [OF assms, of n token] by (simp add: AuthenticateNode_def)

lemma TrimSpace_Nil: "TrimSpace [] = []"
  by (simp add: TrimSpace_def trim_left.simps [of "[]"] trim_right.simps [of "[]"])

lemma register_fields:
  assumes "validateRegisterNodeRequest req = Inr ()"
  shows "validNodeID (reg_ID req)" "reg_ID req \<noteq> []" "reg_Name req \<noteq> []"
  using assms by (auto simp: validateRegisterNodeRequest_def validNodeID_def TrimSpace_Nil split: if_splits)

lemma token_digest_ne: "token_digest t \<noteq> []"
proof -
  have "length (token_digest t) = 64" by (rule token_digest_length)
  then show ?thesis by (metis list.size(3) zero_neq_numeral)
qed

text \<open>The database after an accepted registration.\<close>

lemma RegisterNode_Inr:
  assumes "RegisterNode db clock raw req = (db', Inr resp)"
  shows "validateRegisterNodeRequest req = Inr ()" "rnr_Token resp = hex_encode raw"
    "CreateNode db req (token_digest (hex_encode raw)) (clock 0) = (db', Inr (rnr_Node resp))"
    "findNode db (reg_ID req) = None"
    "stored_digest db' (reg_ID req) = Some (token_digest (hex_encode raw))"
proof -
  show valid: "validateRegisterNodeRequest req = Inr ()"
    using assms by (cases "validateRegisterNodeRequest req") (auto simp: RegisterNode_def)
  show "rnr_Token resp = hex_encode raw"
    and create: "CreateNode db req (token_digest (hex_encode raw)) (clock 0) = (db', Inr (rnr_Node resp))"
    using assms valid by (auto simp: RegisterNode_def Let_def andThen_Inr_iff split: prod.splits)
  show none: "findNode db (reg_ID req) = None"
    using create by (auto simp: CreateNode_def split: if_splits)
  have "nr_TokenHash (the (findNode db' (reg_ID req))) = token_digest (hex_encode raw) \<and> findNode db' (reg_ID req) \<noteq> None"
    using create none by (auto simp: CreateNode_def Let_def findNode_def find_append split: if_splits option.splits)
  then show "stored_digest db' (reg_ID req) = Some (token_digest (hex_encode raw))"
    by (auto simp: stored_digest_def)
qed

lemma RegisterNode_ok:
  assumes inv: "hub_inv db"
  shows "(is_ok (snd (RegisterNode db clock raw req)) \<longleftrightarrow>
      validateRegisterNodeRequest req = Inr () \<and> reg_ID req \<notin> nodeIDs db)
    \<and> (is_ok (snd (RegisterNode db clock raw req)) \<or> fst (RegisterNode db clock raw req) = db)"
proof (cases "validateRegisterNodeRequest req")
  case (Inr x)
  then have ok: "validateRegisterNodeRequest req = Inr ()" by simp
  obtain db' r where create: "CreateNode db req (token_digest (hex_encode raw)) (clock 0) = (db', r)" by fastforce
  have reg: "RegisterNode db clock raw req = (db', andThen r (\<lambda>node. Inr \<lparr>rnr_Node = node, rnr_Token = hex_encode raw\<rparr>))"
    using ok create by (simp add: RegisterNode_def Let_def)
  show ?thesis
  proof (cases "reg_ID req \<in> nodeIDs db")
    case True
    then show ?thesis
      using create reg register_fields [OF ok] token_digest_ne findNode_None_iff [of db "reg_ID req"]
      by (auto simp: CreateNode_def)
  next
    case False
    then have new: "r = GetNode db' (reg_ID req)" "reg_ID req \<in> nodeIDs db'"
      using create register_fields [OF ok] token_digest_ne findNode_None_iff [of db "reg_ID req"]
      by (auto simp: CreateNode_def Let_def nodeIDs_def)
    have "is_ok r" using nodeIDs_GetNode [OF CreateNode_inv [OF inv create]] new by blast
    then show ?thesis using ok False reg by (auto simp: is_ok_iff)
  qed
qed (simp add: RegisterNode_def)

section \<open>Registration and credentials\<close>

text \<open>
  A registration is accepted exactly when the request is well formed and the node id is new.
  A second registration never replaces the credential of the first: it is refused and the database
  stays as it is.
\<close>

theorem register_iff:
  assumes inv: "hub_inv db"
  shows "(is_ok (snd (RegisterNode db clock raw req)) \<longleftrightarrow>
      validateRegisterNodeRequest req = Inr () \<and> reg_ID req \<notin> nodeIDs db)
    \<and> (is_ok (snd (RegisterNode db clock raw req)) \<or> fst (RegisterNode db clock raw req) = db)"
  using assms by (rule RegisterNode_ok)

lemma demo_registers: "\<exists>resp. RegisterNode demoDB (\<lambda>_. demoTime) ''r'' demoRegister
    = (fst (RegisterNode demoDB (\<lambda>_. demoTime) ''r'' demoRegister), Inr resp)"
proof -
  have "reg_ID demoRegister \<notin> nodeIDs demoDB" by (simp add: nodeIDs_def demoDB_def demoRegister_def demoRow_def)
  then have "is_ok (snd (RegisterNode demoDB (\<lambda>_. demoTime) ''r'' demoRegister))"
    using RegisterNode_ok [OF demo_inv] demo_register by blast
  then show ?thesis by (metis is_ok_iff prod.collapse)
qed

lemma register_iff_witness: "is_ok (snd (RegisterNode demoDB (\<lambda>_. demoTime) ''r'' demoRegister))"
proof -
  have "reg_ID demoRegister \<notin> nodeIDs demoDB" by (simp add: nodeIDs_def demoDB_def demoRegister_def demoRow_def)
  then show ?thesis using register_iff [OF demo_inv] demo_register by blast
qed

text \<open>
  C35. The token handed out at registration is the node's credential for good: after any further
  history the node authenticates with it, and with another token only if that one has the same
  SHA-256 digest.
\<close>

theorem issued_token_authenticates:
  assumes inv: "hub_inv db" and reg: "RegisterNode db clock raw req = (db1, Inr resp)"
    and later: "run (hub_step u ff) db1 es db2"
  shows "is_ok (AuthenticateNode db2 (reg_ID req) token) \<longleftrightarrow> token \<noteq> [] \<and> token_digest token = token_digest (rnr_Token resp)"
proof -
  note r = RegisterNode_Inr [OF reg]
  have inv1: "hub_inv db1" by (rule CreateNode_inv [OF inv r(3)])
  have login: "is_ok (AuthenticateToken db1 (reg_ID req) (rnr_Token resp))"
    using AuthenticateToken_ok [OF inv1] r(2,5) by simp
  from repo_credentials.credential_stays [OF run_steps [OF later] inv1 login, of token]
  show ?thesis using register_fields(1) [OF r(1)] by (auto simp: AuthenticateNode_def)
qed

lemma issued_token_authenticates_witness:
  "is_ok (AuthenticateNode (fst (RegisterNode demoDB (\<lambda>_. demoTime) ''r'' demoRegister)) ''node-9'' (hex_encode ''r''))"
proof -
  obtain resp where resp: "RegisterNode demoDB (\<lambda>_. demoTime) ''r'' demoRegister
    = (fst (RegisterNode demoDB (\<lambda>_. demoTime) ''r'' demoRegister), Inr resp)" using demo_registers ..
  have "rnr_Token resp = hex_encode ''r''" by (rule RegisterNode_Inr(2) [OF resp])
  moreover have "hex_encode ''r'' \<noteq> []" by simp
  ultimately show ?thesis
    using issued_token_authenticates [OF demo_inv resp run_Nil [of "hub_step demoTables demoFloat"], of "hex_encode ''r''"]
    by (simp add: demoRegister_def)
qed

text \<open>
  Without a credential nothing happens: when the authentication fails, a heartbeat, a poll and
  a report are refused and leave the database as it is.
\<close>

theorem unauthenticated_calls_inert:
  assumes "\<not> is_ok (AuthenticateNode db n token)"
  shows "fst (Heartbeat ff db clock n token hb) = db \<and> \<not> is_ok (snd (Heartbeat ff db clock n token hb))
    \<and> fst (PollTask db clock n token) = db \<and> \<not> is_ok (snd (PollTask db clock n token))
    \<and> fst (CompleteTask db clock n token i res) = db \<and> \<not> is_ok (snd (CompleteTask db clock n token i res))"
  using assms by (cases "AuthenticateNode db n token") (simp_all add: Heartbeat_def PollTask_def CompleteTask_def)

lemma unauthenticated_calls_inert_witness:
  "fst (PollTask demoDB (\<lambda>_. demoTime) ''node-1'' []) = demoDB"
proof -
  have "\<not> is_ok (AuthenticateNode demoDB ''node-1'' [])" by (simp add: AuthenticateNode_def)
  from unauthenticated_calls_inert [OF this] show ?thesis by blast
qed

section \<open>Heartbeats\<close>

lemma validateHeartbeatFields_observation:
  "validateHeartbeatFields ff hb = Inr () \<Longrightarrow> validateAgentProfileObservation (hb_Profile hb) = Inr ()"
  by (auto simp: validateHeartbeatFields_def validateHeartbeatHead_def andThen_Inr_iff split: if_splits)

text \<open>A write of a validated heartbeat for a registered node cannot fail.\<close>

lemma UpdateHeartbeat_ok:
  assumes "validateHeartbeatFields ff hb = Inr ()" "n \<in> nodeIDs db"
  shows "is_ok (snd (UpdateHeartbeat ff db n hb now))"
proof -
  obtain j where "inventory_json ff (hb_Inventory hb) = Some j"
    using validateInventory_json [OF validateHeartbeatFields_Inr(2) [OF assms(1)]] by blast
  moreover have "findNode db n \<noteq> None" using assms(2) by (simp add: findNode_None_iff)
  moreover note ob = validateHeartbeatFields_observation [OF assms(1)]
  moreover have "observationCheck (obs_State x) (obs_Revision x) (obs_ErrorCode x)" if "hb_Profile hb = Some x" for x
    using ob that observation_check by simp
  ultimately show ?thesis
    by (auto simp: UpdateHeartbeat_def Let_def putObservation_def split: bool.splits option.splits)
qed

lemma stored_digest_node: "stored_digest db n = Some d \<Longrightarrow> n \<in> nodeIDs db"
  using findNode_None_iff [of db n] by (auto simp: stored_digest_def)

text \<open>
  C36. A heartbeat is accepted exactly when the path and the body name the same node, the token is
  that node's, the protocol version is the hub's, the fields pass their checks, and the agent's
  clock, which must be set, is within the freshness window of the server's, on either side.
\<close>

theorem heartbeat_iff:
  assumes inv: "hub_inv db"
  shows "is_ok (snd (Heartbeat ff db clock n token hb)) \<longleftrightarrow>
    hb_NodeID hb = n \<and> is_ok (AuthenticateNode db n token) \<and> hb_ProtocolVersion hb = ProtocolVersion
    \<and> validateHeartbeatFields ff hb = Inr ()
    \<and> hb_SentAt hb \<noteq> 0 \<and> \<bar>clock 0 - hb_SentAt hb\<bar> \<le> HeartbeatFreshnessWindow"
proof (cases "hb_NodeID hb = n \<and> is_ok (AuthenticateNode db n token) \<and> validateHeartbeatFields ff hb = Inr ()")
  case True
  then have "validNodeID n" "n \<in> nodeIDs db"
    using AuthenticateNode_ok [OF inv, of n token] stored_digest_node by blast+
  moreover obtain node where "AuthenticateNode db n token = Inr node" using True by (auto simp: is_ok_iff)
  ultimately show ?thesis
    using True UpdateHeartbeat_ok [of ff hb n db "clock 0"] heartbeatAge_fresh [of "clock 0" "hb_SentAt hb"]
    by (cases "UpdateHeartbeat ff db n hb (clock 0)") (auto simp: Heartbeat_def not_less is_ok_iff)
next
  case False
  then show ?thesis
    by (cases "AuthenticateNode db n token"; cases "validateHeartbeatFields ff hb") (auto simp: Heartbeat_def)
qed

lemma demo_heartbeat_fields: "validateHeartbeatFields demoFloat demoHeartbeat = Inr ()"
proof -
  have "CapabilityProfileApply \<in> set knownCapabilities" by code_simp
  moreover have "ProfileObservationApplied \<in> set observationStates" by (simp add: observationStates_def)
  ultimately show ?thesis
    using demo_inventory(1)
    by (simp add: validateHeartbeatFields_def validateHeartbeatHead_def demoHeartbeat_def demo_validNodeID
        validateAgentProfileObservation_def isSafeProfileErrorCode_def refuse_if_def maxHostnameLength_def
        maxAgentVersionLength_def containsControl_def ascii_runes IsControl_def zeroInventory_def)
qed

lemma heartbeat_iff_witness:
  "is_ok (snd (Heartbeat demoFloat demoDB (\<lambda>_. demoTime) ''node-1'' ''secret'' demoHeartbeat))"
proof -
  have "hb_NodeID demoHeartbeat = ''node-1''" "hb_ProtocolVersion demoHeartbeat = ProtocolVersion"
    "hb_SentAt demoHeartbeat \<noteq> 0" "\<bar>demoTime - hb_SentAt demoHeartbeat\<bar> \<le> HeartbeatFreshnessWindow"
    by (simp_all add: demoHeartbeat_def demoTime_def HeartbeatFreshnessWindow_def Minute_def Second_def)
  then show ?thesis
    using heartbeat_iff [OF demo_inv, of demoFloat "\<lambda>_. demoTime" "''node-1''" "''secret''" demoHeartbeat]
      demo_auth demo_heartbeat_fields by blast
qed

lemma Heartbeat_update:
  assumes "Heartbeat ff db clock n token hb = (db', Inr resp)"
  shows "UpdateHeartbeat ff db n hb (clock 0) = (db', Inr ())" "validateHeartbeatFields ff hb = Inr ()"
    "resp = \<lparr>hbr_Accepted = True, hbr_ServerAt = clock 0\<rparr>"
  using assms
  by (auto simp: Heartbeat_def andThen_Inr_iff split: if_splits sum.splits prod.splits)

text \<open>
  After an accepted heartbeat the hub knows the node as the agent described it, with the
  server's time as the time it was last seen, whatever the agent's clock says; the node counts as
  online; and the profile observation on record is the one reported, or none when the agent
  reported none or does not announce the profile capability.
\<close>

theorem heartbeat_effect:
  assumes inv: "hub_inv db" and hb: "Heartbeat ff db clock n token hb = (db', Inr resp)"
  shows "(\<exists>node. GetNode db' n = Inr node \<and> node_LastSeenAt node = Some (clock 0)
      \<and> node_Capabilities node = hb_Capabilities hb \<and> node_Hostname node = hb_Hostname hb
      \<and> node_AgentVersion node = hb_AgentVersion hb \<and> IsNodeOnline (clock 0) node)
    \<and> map_of (db_Observations db') n =
      (if hasCapability (hb_Capabilities hb) CapabilityProfileApply
       then map_option (\<lambda>ob. observationRow ob (clock 0)) (hb_Profile hb) else None)"
    (is "?node \<and> ?observation")
proof
  note up = Heartbeat_update [OF hb]
  note cases = UpdateHeartbeat_cases [OF up(1)]
  obtain r where r: "findNode db n = Some r" using cases findNode_None_iff [of db n] by auto
  have row: "findNode db' n = Some (heartbeatRow hb (clock 0) r)"
    using UpdateHeartbeat_findNode [OF up(1), of n] r by simp
  have caps: "unmarshal_strings (marshal_strings (hb_Capabilities hb)) = Some (hb_Capabilities hb)"
    by (rule strings_roundtrip [OF validHeartbeat_utf8 [OF validateHeartbeatFields_Inr(1) [OF up(2)]]])
  have "marshal_strings (hb_Capabilities hb) \<noteq> []" by (simp add: marshal_strings_def)
  then show ?node
    using row caps
    by (simp add: GetNode_def scanNode_def heartbeatRow_def IsNodeOnline_def time_sub_def NodeOnlineWindow_def
        Second_def minDuration_def maxDuration_def)
  show ?observation
    using cases by (auto simp: update_conv delete_conv split: option.splits if_splits)
qed

lemma demo_heartbeat:
  "\<exists>resp. Heartbeat demoFloat demoDB (\<lambda>_. demoTime) ''node-1'' ''secret'' demoHeartbeat
     = (fst (Heartbeat demoFloat demoDB (\<lambda>_. demoTime) ''node-1'' ''secret'' demoHeartbeat), Inr resp)"
proof -
  obtain node where "AuthenticateNode demoDB ''node-1'' ''secret'' = Inr node" using demo_auth by (auto simp: is_ok_iff)
  moreover have "''node-1'' \<in> nodeIDs demoDB" by (simp add: nodeIDs_def demoDB_def demoRow_def)
  moreover have "heartbeatAge demoTime (hb_SentAt demoHeartbeat) \<le> HeartbeatFreshnessWindow"
    unfolding heartbeatAge_fresh
    by (simp add: demoHeartbeat_def demoTime_def HeartbeatFreshnessWindow_def Minute_def Second_def)
  moreover have "hb_NodeID demoHeartbeat = ''node-1''" "hb_ProtocolVersion demoHeartbeat = ProtocolVersion"
    by (simp_all add: demoHeartbeat_def)
  ultimately have "is_ok (snd (Heartbeat demoFloat demoDB (\<lambda>_. demoTime) ''node-1'' ''secret'' demoHeartbeat))"
    using UpdateHeartbeat_ok [OF demo_heartbeat_fields, of "''node-1''" demoDB demoTime] demo_heartbeat_fields
    by (cases "UpdateHeartbeat demoFloat demoDB ''node-1'' demoHeartbeat demoTime")
       (auto simp: Heartbeat_def demo_validNodeID is_ok_iff)
  then show ?thesis by (metis is_ok_iff prod.collapse)
qed

lemma heartbeat_effect_witness:
  "map_of (db_Observations (fst (Heartbeat demoFloat demoDB (\<lambda>_. demoTime) ''node-1'' ''secret'' demoHeartbeat))) ''node-1''
     = Some \<lparr>or_State = ProfileObservationApplied, or_Revision = 3, or_ErrorCode = [], or_UpdatedAt = demoTime\<rparr>"
proof -
  obtain resp where resp: "Heartbeat demoFloat demoDB (\<lambda>_. demoTime) ''node-1'' ''secret'' demoHeartbeat
     = (fst (Heartbeat demoFloat demoDB (\<lambda>_. demoTime) ''node-1'' ''secret'' demoHeartbeat), Inr resp)"
    using demo_heartbeat ..
  have "hasCapability (hb_Capabilities demoHeartbeat) CapabilityProfileApply"
    by (simp add: demoHeartbeat_def hasCapability_def)
  then show ?thesis using heartbeat_effect [OF demo_inv resp] by (simp add: demoHeartbeat_def observationRow_def)
qed

section \<open>The online window\<close>

text \<open>
  A node is online exactly from the instant it was last seen until the end of the window, 45
  seconds later, both included; a node never seen, or seen in the future of the reader's clock, is
  offline. The saturation of Go's time difference does not matter.
\<close>

theorem online_window_iff:
  "IsNodeOnline now node \<longleftrightarrow>
     (\<exists>seen. node_LastSeenAt node = Some seen \<and> seen \<le> now \<and> now \<le> seen + 45 * Second)"
  by (auto simp: IsNodeOnline_def time_sub_def NodeOnlineWindow_def Second_def minDuration_def maxDuration_def Let_def
      split: option.splits)

section \<open>The node list\<close>

lemma pad_numeral: "pad (numeral w) n = pad (pred_numeral w) (n div 10) @ [char_of (48 + n mod 10)]"
  by (simp only: numeral_eq_Suc [of w] pad.simps)

lemma digit_chars:
  "char_of (48::nat) = CHR ''0''" "char_of (49::nat) = CHR ''1''" "char_of (50::nat) = CHR ''2''" "char_of (51::nat) = CHR ''3''"
  "char_of (52::nat) = CHR ''4''" "char_of (53::nat) = CHR ''5''" "char_of (54::nat) = CHR ''6''" "char_of (55::nat) = CHR ''7''"
  "char_of (56::nat) = CHR ''8''" "char_of (57::nat) = CHR ''9''"
  by code_simp+

lemma demo_texts:
  "rfc3339nano (demoTime + 100000000) = ''2022-09-28T22:13:20.1Z''"
  "rfc3339nano (demoTime + 120000000) = ''2022-09-28T22:13:20.12Z''"
proof -
  have day: "civil 738425 = (2022, 9, 28)" by code_simp
  have split: "(demoTime + 100000000) div (86400 * Second) = 738425" "(demoTime + 100000000) mod (86400 * Second) = 80000100000000"
    "(demoTime + 120000000) div (86400 * Second) = 738425" "(demoTime + 120000000) mod (86400 * Second) = 80000120000000"
    by (simp_all add: demoTime_def Second_def)
  show "rfc3339nano (demoTime + 100000000) = ''2022-09-28T22:13:20.1Z''"
    "rfc3339nano (demoTime + 120000000) = ''2022-09-28T22:13:20.12Z''"
    unfolding rfc3339nano_def split day Let_def by (simp_all add: Second_def pad_numeral trim_zeros_def digit_chars)
qed

text \<open>
  The node list is ordered by the text of the creation time, in decreasing order. This is not
  newest first: RFC3339Nano drops trailing zeros of the fraction, so that of two nodes registered
  at \<open>.1\<close> and \<open>.12\<close> of the same second the older one is listed first.
\<close>

theorem node_list_text_order:
  "sorted_wrt (\<lambda>a b. rfc3339nano (nr_CreatedAt b) \<le> rfc3339nano (nr_CreatedAt a)) (nodeOrder rows)
    \<and> mset (nodeOrder rows) = mset rows
    \<and> map nr_ID (nodeOrder demoPair) = [''node-1'', ''node-2'']
    \<and> nr_CreatedAt (demoPair ! 0) < nr_CreatedAt (demoPair ! 1)"
proof (intro conjI)
  have "sorted (map (\<lambda>r. rfc3339nano (nr_CreatedAt r)) (sort_key (\<lambda>r. rfc3339nano (nr_CreatedAt r)) (rev (sort_key nr_ID rows))))"
    by (rule sorted_sort_key)
  then show "sorted_wrt (\<lambda>a b. rfc3339nano (nr_CreatedAt b) \<le> rfc3339nano (nr_CreatedAt a)) (nodeOrder rows)"
    by (simp add: nodeOrder_def sorted_wrt_rev sorted_wrt_map)
  show "mset (nodeOrder rows) = mset rows" by (simp add: nodeOrder_def)
  have later: "''2022-09-28T22:13:20.12Z'' < ''2022-09-28T22:13:20.1Z''" by simp
  show "map nr_ID (nodeOrder demoPair) = [''node-1'', ''node-2'']"
    using later by (simp add: nodeOrder_def demoPair_def demo_texts demoRow_def)
qed (simp add: demoPair_def)

end
