(* ===== verification/HubProfileProps.thy ===== *)
theory HubProfileProps
  imports HubTaskProps "HOL-Library.Multiset"
begin

text \<open>
  Properties of the desired profile of a node: its canonical form, the compare-and-swap of its
  revision, the exact payload of a profile-apply task, the single task in flight, and what the
  profile view may claim.
\<close>

section \<open>Shared facts\<close>

text \<open>A save succeeds exactly against the current revision, with a profile that fits its document.\<close>

lemma SaveNodeProfile_ok:
  assumes inv: "hub_inv db"
  shows "is_ok (snd (SaveNodeProfile db n p v now)) \<longleftrightarrow>
    n \<in> nodeIDs db \<and> v = currentRevision db n \<and> v + 1 < 2 ^ 63
    \<and> (\<exists>q. NormalizeAgentProfile p = Inr q \<and> is_ok (canonicalProfileApplyDocument q (v + 1)))" (is "?ok \<longleftrightarrow> ?rhs")
proof
  obtain db' r where save: "SaveNodeProfile db n p v now = (db', r)" by fastforce
  show "?ok \<Longrightarrow> ?rhs" using SaveNodeProfile_cases [OF inv save] save by auto
  assume rhs: ?rhs
  then obtain q where q: "NormalizeAgentProfile p = Inr q" "is_ok (canonicalProfileApplyDocument q (v + 1))" by blast
  have n: "findNode db n \<noteq> None" using rhs by (simp add: findNode_None_iff)
  show ?ok
  proof (cases "map_of (db_Profiles db) n")
    case None
    then show ?thesis using rhs q n by (auto simp: SaveNodeProfile_def Let_def currentRevision_def is_ok_iff)
  next
    case (Some row)
    then have "1 \<le> pr_Revision row" using inv by (auto simp: hub_inv_def profiles_ok_def profile_row_ok_def)
    moreover have "pr_Revision row = v" using rhs Some by (simp add: currentRevision_def)
    moreover have "wrap_int64 (v + 1) = v + 1" using rhs calculation by (intro wrap_int64_id) auto
    ultimately show ?thesis
      using Some q n by (auto simp: SaveNodeProfile_def Let_def is_ok_iff)
  qed
qed

lemma currentRevision_nonneg:
  assumes "hub_inv db"
  shows "0 \<le> currentRevision db n"
proof (cases "map_of (db_Profiles db) n")
  case (Some row)
  then have "1 \<le> pr_Revision row" using assms by (auto simp: hub_inv_def profiles_ok_def profile_row_ok_def)
  then show ?thesis using Some by (simp add: currentRevision_def)
qed (simp add: currentRevision_def)

lemma GetNodeProfileObservation_ok:
  assumes "hub_inv db" "n \<in> nodeIDs db"
  shows "GetNodeProfileObservation db n = Inr (map_of (db_Observations db) n)"
proof (cases "map_of (db_Observations db) n")
  case None
  then show ?thesis using assms(2) findNode_None_iff [of db n] by (simp add: GetNodeProfileObservation_def)
next
  case (Some ob)
  then have "observationCheck (or_State ob) (or_Revision ob) (or_ErrorCode ob)"
    using assms(1) by (auto simp: hub_inv_def observations_ok_def observation_row_ok_def)
  moreover from this have "0 \<le> or_Revision ob" by (simp add: observationCheck_def)
  ultimately show ?thesis
    using Some assms(2) findNode_None_iff [of db n]
      observation_check [of "\<lparr>obs_State = or_State ob, obs_Revision = or_Revision ob, obs_ErrorCode = or_ErrorCode ob\<rparr>"]
    by (simp add: GetNodeProfileObservation_def)
qed

lemma GetLatestProfileApplyTask_ok:
  assumes "hub_inv db"
  shows "\<exists>task. GetLatestProfileApplyTask db n = Inr task"
proof (cases "rev (filter (\<lambda>r. tr_NodeID r = n \<and> tr_Kind r = TaskProfileApply) (db_Tasks db))")
  case (Cons r rs)
  have "r \<in> set (rev (filter (\<lambda>r. tr_NodeID r = n \<and> tr_Kind r = TaskProfileApply) (db_Tasks db)))"
    unfolding Cons by simp
  then have "r \<in> set (db_Tasks db)" by simp
  then have "is_ok (scanTask r)" using assms by (auto simp: hub_inv_def tasks_ok_def task_ok_def)
  then show ?thesis using Cons by (auto simp: GetLatestProfileApplyTask_def is_ok_iff)
qed (simp add: GetLatestProfileApplyTask_def)

text \<open>The view of a known node, put together from the four reads.\<close>

lemma svcGetNodeProfile_view:
  assumes inv: "hub_inv db" and n: "validNodeID n" "n \<in> nodeIDs db"
  shows "\<exists>node rc task. GetNode db n = Inr node \<and> GetNodeProfile db n = Inr rc
    \<and> svcGetNodeProfile db clock n
      = Inr (profileResponse rc node (IsNodeOnline (clock 0) node) (map_of (db_Observations db) n) task)"
proof -
  obtain node where node: "GetNode db n = Inr node" using nodeIDs_GetNode [OF inv, of n] n(2) by (auto simp: is_ok_iff)
  obtain rc where rc: "GetNodeProfile db n = Inr rc" using GetNodeProfile_total [OF inv n(2)] by blast
  obtain task where "GetLatestProfileApplyTask db n = Inr task" using GetLatestProfileApplyTask_ok [OF inv] by blast
  then have "svcGetNodeProfile db clock n
      = Inr (profileResponse rc node (IsNodeOnline (clock 0) node) (map_of (db_Observations db) n) task)"
    using node rc GetNodeProfileObservation_ok [OF inv n(2)] n(1) by (simp add: svcGetNodeProfile_def svcGetNode_def)
  then show ?thesis using node rc by blast
qed

lemma svcGetNodeProfile_ok:
  assumes "hub_inv db"
  shows "is_ok (svcGetNodeProfile db clock n) \<longleftrightarrow> validNodeID n \<and> n \<in> nodeIDs db"
proof (cases "validNodeID n \<and> n \<in> nodeIDs db")
  case True
  then obtain r where "svcGetNodeProfile db clock n = Inr r" using svcGetNodeProfile_view [OF assms, of n clock] by blast
  then show ?thesis using True by simp
next
  case False
  then have "\<not> is_ok (svcGetNode db n)" using nodeIDs_GetNode [OF assms, of n] by (auto simp: svcGetNode_def)
  then show ?thesis using False by (cases "svcGetNode db n") (auto simp: svcGetNodeProfile_def)
qed

section \<open>The canonical form\<close>

text \<open>
  Normalising a profile gives its canonical form: the result satisfies every rule of a
  profile and has its write roots sorted, normalising it again changes nothing, and the order in
  which the roots were given does not matter.
\<close>

theorem normalize_canonical:
  assumes "NormalizeAgentProfile p = Inr q"
  shows "canonicalProfile q \<and> NormalizeAgentProfile q = Inr q
    \<and> (mset rs = mset (prof_DeployWriteRoots p) \<longrightarrow> NormalizeAgentProfile (p\<lparr>prof_DeployWriteRoots := rs\<rparr>) = Inr q)"
proof (intro conjI impI)
  show q: "canonicalProfile q" by (rule Normalize_canonical [OF assms])
  show "NormalizeAgentProfile q = Inr q" by (rule Normalize_fixed [OF q])
  assume perm: "mset rs = mset (prof_DeployWriteRoots p)"
  have "length rs = length (prof_DeployWriteRoots p)" "set rs = set (prof_DeployWriteRoots p)"
    "distinct rs = distinct (prof_DeployWriteRoots p)"
    using perm by (auto dest: mset_eq_length mset_eq_setD mset_eq_imp_distinct_iff)
  moreover have "sort rs = sort (prof_DeployWriteRoots p)"
    using perm by (metis mset_sort properties_for_sort sorted_sort)
  ultimately show "NormalizeAgentProfile (p\<lparr>prof_DeployWriteRoots := rs\<rparr>) = Inr q"
    using assms by (simp add: NormalizeAgentProfile_Inr validProfile_def)
qed

lemma normalize_canonical_witness:
  "NormalizeAgentProfile (demoProfile\<lparr>prof_DeployWriteRoots := [''/srv/b'', ''/srv/a'']\<rparr>) = Inr demoProfile"
  using normalize_canonical [OF Normalize_fixed [OF demo_canonical], of "[''/srv/b'', ''/srv/a'']"]
  by (simp add: demoProfile_def)

lemma UpdateNodeProfile_ok:
  assumes inv: "hub_inv db"
  shows "(is_ok (snd (UpdateNodeProfile db clock n p v)) \<longleftrightarrow>
      validNodeID n \<and> n \<in> nodeIDs db \<and> v = currentRevision db n \<and> v + 1 < 2 ^ 63
      \<and> (\<exists>q. NormalizeAgentProfile p = Inr q \<and> is_ok (canonicalProfileApplyDocument q (v + 1))))
    \<and> (is_ok (snd (UpdateNodeProfile db clock n p v)) \<or> fst (UpdateNodeProfile db clock n p v) = db)"
proof (cases "validNodeID n \<and> n \<in> nodeIDs db \<and> 0 \<le> v \<and> is_ok (NormalizeAgentProfile p)")
  case True
  then have n: "validNodeID n" "n \<in> nodeIDs db" by simp_all
  obtain node where node: "svcGetNode db n = Inr node"
    using n nodeIDs_GetNode [OF inv, of n] by (auto simp: svcGetNode_def is_ok_iff)
  obtain db' r where save: "SaveNodeProfile db n p v (clock 0) = (db', r)" by fastforce
  have upd: "UpdateNodeProfile db clock n p v = (db', andThen r (\<lambda>_. svcGetNodeProfile db' (\<lambda>k. clock (Suc k)) n))"
    using True node save by (auto simp: UpdateNodeProfile_def is_ok_iff)
  have "n \<in> nodeIDs db'" using SaveNodeProfile_cases [OF inv save] n(2) by (auto simp: nodeIDs_def)
  then have view: "is_ok (svcGetNodeProfile db' c n)" for c
    using svcGetNodeProfile_ok [OF SaveNodeProfile_inv [OF inv save]] n(1) by blast
  then have "is_ok (snd (UpdateNodeProfile db clock n p v)) \<longleftrightarrow> is_ok (snd (SaveNodeProfile db n p v (clock 0)))"
    by (cases r) (simp_all add: upd save)
  moreover have "is_ok r \<or> db' = db" using SaveNodeProfile_cases [OF inv save] by auto
  ultimately show ?thesis using SaveNodeProfile_ok [OF inv, of n p v "clock 0"] n(1) view upd save by auto
next
  case False
  note rev = currentRevision_nonneg [OF inv, of n]
  have "\<not> is_ok (svcGetNode db n)" if "\<not> (validNodeID n \<and> n \<in> nodeIDs db)"
    using that nodeIDs_GetNode [OF inv, of n] by (auto simp: svcGetNode_def)
  then show ?thesis
    using False rev
    by (cases "svcGetNode db n"; cases "NormalizeAgentProfile p") (auto simp: UpdateNodeProfile_def)
qed

section \<open>Revisions\<close>


lemma demo_revision: "currentRevision demoDB ''node-1'' = 3" "''node-1'' \<in> nodeIDs demoDB"
  by (simp_all add: currentRevision_def nodeIDs_def demoDB_def demoRow_def)

lemma demo_document4: "is_ok (canonicalProfileApplyDocument demoProfile 4)"
  using Normalize_fixed [OF demo_canonical]
  by (simp add: canonicalProfileApplyDocument_def Let_def marshalDocument_def document_json_def
      profile_json_def json_int_def json_strings_def FormatInt_def dec_str_small maxProfileJSONBytes_def
      demoProfile_def emptyAgentProfile_def profileApplySchemaVersion_def enc_str_plain plain_char_def)


text \<open>
  No update is lost: of any sequence of concurrent saves to one node, those that succeed were
  made against consecutive revisions starting at the current one, and the revision afterwards
  counts them. In particular no two of them replaced the same revision.
\<close>

theorem no_lost_update:
  assumes "hub_inv db"
  shows "map save_expects (winners (save_for n) db ws)
      = map (\<lambda>i. currentRevision db n + int i) [0..<length (winners (save_for n) db ws)]
    \<and> currentRevision (fst (poll_all (save_for n) db ws)) n = currentRevision db n + int (length (winners (save_for n) db ws))
    \<and> distinct (map save_expects (winners (save_for n) db ws))"
  using repo_cas.winners_consecutive [OF assms, where n = n and ws = ws] repo_cas.winners_distinct [OF assms, where n = n and ws = ws]
  by blast

lemma no_lost_update_witness:
  "distinct (map save_expects (winners (save_for ''node-1'') demoDB [(demoProfile, 3, demoTime), (demoProfile, 3, demoTime)]))"
  using no_lost_update [OF demo_inv] by blast

text \<open>
  What the panel saved is what it reads: after an accepted update the view of the node shows
  the normalised profile as configured under the next revision, through its JSON column, at
  whatever time it is read.
\<close>

theorem profile_update_read_back:
  assumes inv: "hub_inv db" and upd: "UpdateNodeProfile db clock n p v = (db', Inr resp)"
  shows "\<exists>q resp'. NormalizeAgentProfile p = Inr q \<and> svcGetNodeProfile db' clock' n = Inr resp'
    \<and> prs_Desired resp' = \<lparr>des_State = profileStateConfigured, des_Revision = v + 1, des_Profile = Some q\<rparr>"
proof -
  have n: "validNodeID n" using upd by (auto simp: UpdateNodeProfile_def svcGetNode_def split: if_splits)
  obtain r where save: "SaveNodeProfile db n p v (clock 0) = (db', r)" and "is_ok r"
    using upd by (auto simp: UpdateNodeProfile_def andThen_Inr_iff split: if_splits sum.splits prod.splits)
  then obtain q where q: "NormalizeAgentProfile p = Inr q" "n \<in> nodeIDs db"
    and db': "db' = db\<lparr>db_Profiles := AList.update n
      \<lparr>pr_ProfileJSON = marshalProfile q, pr_Revision = v + 1, pr_UpdatedAt = clock 0\<rparr> (db_Profiles db)\<rparr>"
    using SaveNodeProfile_cases [OF inv save] by auto
  have inv': "hub_inv db'" by (rule SaveNodeProfile_inv [OF inv save])
  have "map_of (db_Profiles db') n = Some \<lparr>pr_ProfileJSON = marshalProfile q, pr_Revision = v + 1, pr_UpdatedAt = clock 0\<rparr>"
    by (simp add: db' update_conv)
  from GetNodeProfile_current [OF inv' this Normalize_canonical [OF q(1)]]
  have rc: "GetNodeProfile db' n = Inr \<lparr>rec_Profile = q, rec_Revision = v + 1, rec_Configured = True\<rparr>" by simp
  have "n \<in> nodeIDs db'" using q(2) by (simp add: db' nodeIDs_def)
  then obtain node task where "svcGetNodeProfile db' clock' n = Inr (profileResponse
      \<lparr>rec_Profile = q, rec_Revision = v + 1, rec_Configured = True\<rparr> node (IsNodeOnline (clock' 0) node)
      (map_of (db_Observations db') n) task)"
    using svcGetNodeProfile_view [OF inv' n, of clock'] rc by auto
  then show ?thesis using q(1) by (auto simp: profileResponse_def Let_def)
qed

lemma demo_update:
  "\<exists>resp. UpdateNodeProfile demoDB (\<lambda>_. demoTime) ''node-1'' demoProfile 3
     = (fst (UpdateNodeProfile demoDB (\<lambda>_. demoTime) ''node-1'' demoProfile 3), Inr resp)"
proof -
  have "is_ok (snd (UpdateNodeProfile demoDB (\<lambda>_. demoTime) ''node-1'' demoProfile 3))"
    using UpdateNodeProfile_ok [OF demo_inv, of "\<lambda>_. demoTime" "''node-1''" demoProfile 3]
      demo_revision demo_validNodeID(1) Normalize_fixed [OF demo_canonical] demo_document4 by simp
  then show ?thesis by (metis is_ok_iff prod.collapse)
qed

lemma profile_update_read_back_witness:
  "\<exists>resp'. svcGetNodeProfile (fst (UpdateNodeProfile demoDB (\<lambda>_. demoTime) ''node-1'' demoProfile 3)) (\<lambda>_. demoTime) ''node-1''
       = Inr resp' \<and> des_Revision (prs_Desired resp') = 4"
proof -
  obtain resp where resp: "UpdateNodeProfile demoDB (\<lambda>_. demoTime) ''node-1'' demoProfile 3
     = (fst (UpdateNodeProfile demoDB (\<lambda>_. demoTime) ''node-1'' demoProfile 3), Inr resp)" using demo_update ..
  from profile_update_read_back [OF demo_inv resp, of "\<lambda>_. demoTime"] show ?thesis by auto
qed

section \<open>Profile-apply tasks\<close>

text \<open>
  C8. The payload of a profile-apply task is exact: the hub accepts a payload text for revision
  \<open>r\<close> if and only if it is, byte for byte, the one it writes itself for that revision and some
  canonical profile whose document fits the size limit.
\<close>

theorem apply_payload_exact:
  "profileApplyPayloadRevision payload = Inr r \<longleftrightarrow>
     (\<exists>p doc. r < 2 ^ 63 \<and> canonicalProfileApplyDocument p r = Inr (p, doc)
        \<and> payload = marshal_map (profileApplyPayload r doc))"
  using payload_revision payload_revision_exact by blast

text \<open>The revision of a decoded task is the one of its column.\<close>

lemma task_revision:
  assumes "scanTask row = Inr t" "profileApplyPayloadRevision (tr_PayloadJSON row) = Inr v"
  shows "profileApplyPayloadRevisionFromTask t = Inr v"
proof -
  obtain p doc where pl: "tr_PayloadJSON row = marshal_map (profileApplyPayload v doc)"
    using payload_revision_exact [OF assms(2)] by blast
  have "scanMap (tr_PayloadJSON row) = Some (profileApplyPayload v doc)"
    unfolding pl by (rule scanMap_marshal_exact [OF payload_ok payload_utf8])
  then have "task_Payload t = profileApplyPayload v doc"
    using assms(1) by (auto simp: scanTask_def split: option.splits)
  then show ?thesis using assms(2) pl by (simp add: profileApplyPayloadRevisionFromTask_def)
qed

lemma inFlightApply_row:
  assumes "r \<in> set (inFlightApply db n)"
  shows "r \<in> set (db_Tasks db)" "tr_NodeID r = n" "tr_Kind r = TaskProfileApply" "inFlight r"
  using assms by (auto simp: inFlightApply_def)

text \<open>What the transaction leaves behind when it hands out a task.\<close>

lemma CreateProfileApplyTask_Some:
  assumes inv: "hub_inv db" and create: "CreateProfileApplyTask db n v p now = (db', Inr (Some t))"
  shows "\<exists>row. inFlightApply db' n = [row] \<and> scanTask row = Inr t \<and> sameRevision v row
    \<and> (inFlightApply db n \<noteq> [] \<longrightarrow> db' = db)"
proof -
  obtain q doc where doc: "canonicalProfileApplyDocument p v = Inr (q, doc)" and desired: "checkDesired db n v q = Inr ()"
    and step: "coalesceOrInsert db n v (marshalStringMap (profileApplyPayload v doc)) now = (db', Inr (Some t))"
    using CreateProfileApplyTask_cases [OF create] by auto
  have "canonicalProfile q" using doc by (auto simp: canonicalProfileApplyDocument_Inr dest: Normalize_canonical)
  then have v: "v < 2 ^ 63"
    using desired inv checkDesired_Inr [OF inv] by (auto simp: hub_inv_def profiles_ok_def profile_row_ok_def)
  have inv': "hub_inv db'" by (rule CreateProfileApplyTask_inv [OF inv create])
  show ?thesis
  proof (cases "inFlightApply db n")
    case Nil
    then obtain i where ins: "insertTask db n TaskProfileApply (marshal_map (profileApplyPayload v doc)) now = (db', Inr i)"
      and get: "GetTask db' i = Inr t"
      using step by (auto simp: coalesceOrInsert_def marshalStringMap_def andThen_Inr_iff split: prod.splits)
    obtain row where row: "db_Tasks db' = db_Tasks db @ [row]" "tr_ID row = i" "tr_NodeID row = n" "tr_Kind row = TaskProfileApply"
      "inFlight row" "tr_PayloadJSON row = marshal_map (profileApplyPayload v doc)"
      using ins by (auto simp: insertTask_Inr inFlight_def)
    have "inFlightApply db' n = [row]" using Nil row by (simp add: inFlightApply_def)
    moreover have "findTask db' i = Some row" using findTask_in [of db' row] inv' row by (simp add: hub_inv_def)
    then have "scanTask row = Inr t" using get by (simp add: GetTask_def)
    moreover have "sameRevision v row" using payload_revision [OF doc v] row(6) by (simp add: sameRevision_def)
    ultimately show ?thesis using Nil by blast
  next
    case (Cons row rows)
    then have one: "inFlightApply db n = [row]" and rev: "sameRevision v row"
      using inv step by (auto simp: hub_inv_def applies_ok_def coalesceOrInsert_def le_Suc_eq split: if_splits dest: spec [of _ n])
    have db': "db' = db" and get: "GetTask db (tr_ID row) = Inr t"
      using step Cons rev one by (auto simp: coalesceOrInsert_def andThen_Inr_iff)
    have "row \<in> set (db_Tasks db)" using inFlightApply_row(1) [of row db n] one by simp
    then have "scanTask row = Inr t" using get GetTask_ok [of db row] inv by (auto simp: hub_inv_def)
    then show ?thesis using one rev db' by blast
  qed
qed

text \<open>The transaction again, on the database it left.\<close>

lemma CreateProfileApplyTask_again:
  assumes inv: "hub_inv db" and create: "CreateProfileApplyTask db n v p now = (db', Inr (Some t))"
  shows "CreateProfileApplyTask db' n v p now' = (db', Inr (Some t))"
proof -
  obtain q doc where doc: "canonicalProfileApplyDocument p v = Inr (q, doc)" and desired: "checkDesired db n v q = Inr ()"
    and obs: "\<not> observedApplied db n v"
    using CreateProfileApplyTask_cases [OF create] by auto
  have size: "1 \<le> v" "\<not> (length doc > maxProfileJSONBytes \<or> length (b64_encode doc) > maxProfileEncodedBytes)"
    using create doc by (auto simp: CreateProfileApplyTask_def split: if_splits)
  note same = CreateProfileApplyTask_nodes [OF create]
  obtain row where row: "inFlightApply db' n = [row]" "scanTask row = Inr t" "sameRevision v row"
    using CreateProfileApplyTask_Some [OF inv create] by blast
  have inv': "hub_inv db'" by (rule CreateProfileApplyTask_inv [OF inv create])
  have "row \<in> set (db_Tasks db')" using inFlightApply_row(1) [of row db' n] row(1) by simp
  then have "GetTask db' (tr_ID row) = Inr t" using GetTask_ok [of db' row] inv' row(2) by (auto simp: hub_inv_def)
  then have "coalesceOrInsert db' n v payload now' = (db', Inr (Some t))" for payload
    using row by (simp add: coalesceOrInsert_def)
  moreover have "checkDesired db' n v q = checkDesired db n v q" "observedApplied db' n v = observedApplied db n v"
    using same by (simp_all add: checkDesired_def observedApplied_def findNode_def)
  ultimately show ?thesis using doc size desired obs by (simp add: CreateProfileApplyTask_def)
qed

text \<open>Everything a request that returned a task went through.\<close>

lemma ApplyNodeProfile_Some:
  assumes "ApplyNodeProfile db clock n v = (db', Inr (Some t))"
  obtains node rc observation latest where
    "validNodeID n" "1 \<le> v" "GetNode db n = Inr node" "GetNodeProfile db n = Inr rc" "rec_Configured rc" "rec_Revision rc = v"
    "hasCapability (node_Capabilities node) CapabilityProfileApply"
    "GetNodeProfileObservation db n = Inr observation" "\<not> alreadyApplied v observation" "IsNodeOnline (clock 0) node"
    "GetLatestProfileApplyTask db n = Inr latest"
    "if awaitingReceipt v observation latest then db' = db \<and> latest = Some t
     else CreateProfileApplyTask db n v (rec_Profile rc) (clock 1) = (db', Inr (Some t))"
  using assms by (auto simp: ApplyNodeProfile_def not_less split: if_splits sum.splits)

lemma latest_row:
  assumes "GetLatestProfileApplyTask db n = Inr (Some t)"
  shows "task_NodeID t = n \<and> task_Kind t = TaskProfileApply"
proof -
  obtain r rs where rows: "rev (filter (\<lambda>r. tr_NodeID r = n \<and> tr_Kind r = TaskProfileApply) (db_Tasks db)) = r # rs"
    and t: "scanTask r = Inr t"
    using assms by (auto simp: GetLatestProfileApplyTask_def andThen_Inr_iff split: list.splits)
  have "r \<in> set (rev (filter (\<lambda>r. tr_NodeID r = n \<and> tr_Kind r = TaskProfileApply) (db_Tasks db)))"
    unfolding rows by simp
  then show ?thesis using scanTask_fields [OF t] by simp
qed

text \<open>
  A request to apply a profile that returns a task returns one of this node, of the
  profile-apply kind, whose document carries exactly the revision asked for, and that revision is
  the current desired one of a node that announced the capability and is online.
\<close>

theorem apply_hands_out_current:
  assumes inv: "hub_inv db" and req: "ApplyNodeProfile db clock n v = (db', Inr (Some t))"
  shows "v = currentRevision db n \<and> task_NodeID t = n \<and> task_Kind t = TaskProfileApply
    \<and> profileApplyPayloadRevisionFromTask t = Inr v
    \<and> (\<exists>node. GetNode db n = Inr node \<and> hasCapability (node_Capabilities node) CapabilityProfileApply
         \<and> IsNodeOnline (clock 0) node)"
proof -
  from req obtain node rc observation latest where node: "GetNode db n = Inr node"
    "hasCapability (node_Capabilities node) CapabilityProfileApply" "IsNodeOnline (clock 0) node"
    and rc: "GetNodeProfile db n = Inr rc" "rec_Revision rc = v"
    and latest: "GetLatestProfileApplyTask db n = Inr latest"
    and result: "if awaitingReceipt v observation latest then db' = db \<and> latest = Some t
      else CreateProfileApplyTask db n v (rec_Profile rc) (clock 1) = (db', Inr (Some t))"
    by (elim ApplyNodeProfile_Some) blast
  have "n \<in> nodeIDs db" using nodeIDs_GetNode [OF inv, of n] node(1) by simp
  then have "v = currentRevision db n" using GetNodeProfile_total [OF inv] rc by fastforce
  moreover have "task_NodeID t = n \<and> task_Kind t = TaskProfileApply \<and> profileApplyPayloadRevisionFromTask t = Inr v"
  proof (cases "awaitingReceipt v observation latest")
    case True
    then have "latest = Some t" using result by simp
    then show ?thesis using latest_row latest True by (auto simp: awaitingReceipt_def)
  next
    case False
    then have "CreateProfileApplyTask db n v (rec_Profile rc) (clock 1) = (db', Inr (Some t))" using result by simp
    from CreateProfileApplyTask_Some [OF inv this]
    obtain row where row: "inFlightApply db' n = [row]" "scanTask row = Inr t" "sameRevision v row" by blast
    have "tr_NodeID row = n" "tr_Kind row = TaskProfileApply" using inFlightApply_row [of row db' n] row(1) by simp_all
    then show ?thesis
      using scanTask_fields [OF row(2)] task_revision [OF row(2)] row(3) by (simp add: sameRevision_def)
  qed
  ultimately show ?thesis using node by blast
qed

text \<open>The latest profile-apply task after the transaction handed one out anew.\<close>

lemma latest_after_insert:
  assumes inv: "hub_inv db" and create: "CreateProfileApplyTask db n v p now = (db', Inr (Some t))" and new: "db' \<noteq> db"
  shows "GetLatestProfileApplyTask db' n = Inr (Some t) \<and> task_Status t \<noteq> TaskStatusCompleted"
proof -
  obtain q doc where step: "coalesceOrInsert db n v (marshalStringMap (profileApplyPayload v doc)) now = (db', Inr (Some t))"
    using CreateProfileApplyTask_cases [OF create] by auto
  then obtain i where "insertTask db n TaskProfileApply (marshalStringMap (profileApplyPayload v doc)) now = (db', i)"
    using coalesceOrInsert_cases [OF step] new by blast
  then obtain row where row: "db_Tasks db' = db_Tasks db @ [row]" "tr_NodeID row = n" "tr_Kind row = TaskProfileApply" "inFlight row"
    using new by (cases i) (auto simp: insertTask_Inr inFlight_def dest: insertTask_Inl)
  obtain row' where row': "inFlightApply db' n = [row']" "scanTask row' = Inr t"
    using CreateProfileApplyTask_Some [OF inv create] by blast
  have "row' = row" using row row'(1) by (simp add: inFlightApply_def)
  then show ?thesis
    using row row'(2) scanTask_fields(4) [OF row'(2)] by (auto simp: GetLatestProfileApplyTask_def inFlight_def)
qed


text \<open>With nothing in flight, an admissible request creates its task.\<close>

lemma CreateProfileApplyTask_fresh:
  assumes inv: "hub_inv db" and row: "map_of (db_Profiles db) n = Some row" "pr_Revision row = v" "pr_ProfileJSON row = marshalProfile q"
    and q: "canonicalProfile q" and free: "\<not> observedApplied db n v" "inFlightApply db n = []" "db_Seq db < 2 ^ 63 - 1"
  shows "\<exists>db' t. CreateProfileApplyTask db n v q now = (db', Inr (Some t))"
proof -
  have "profile_row_ok row" "n \<in> nodeIDs db" using inv row(1) by (auto simp: hub_inv_def profiles_ok_def)
  then obtain p where p: "canonicalProfile p" "pr_ProfileJSON row = marshalProfile p" and "1 \<le> v"
    "is_ok (canonicalProfileApplyDocument p v)"
    unfolding profile_row_ok_def row(2) by blast
  moreover have "p = q" using marshalProfile_inj [OF p(1) q] p(2) row(3) by simp
  ultimately obtain q' doc where doc: "canonicalProfileApplyDocument q v = Inr (q', doc)" by (auto simp: is_ok_iff)
  then have q': "q' = q" and len: "length doc \<le> maxProfileJSONBytes"
    using Normalize_fixed [OF q] by (auto simp: canonicalProfileApplyDocument_Inr)
  then have "length (b64_encode doc) \<le> maxProfileEncodedBytes"
    by (simp add: b64_encode_length maxProfileEncodedBytes_def maxProfileJSONBytes_def)
  moreover have "checkDesired db n v q = Inr ()" using checkDesired_Inr [OF inv q] row by blast
  ultimately have create: "CreateProfileApplyTask db n v q now
      = coalesceOrInsert db n v (marshalStringMap (profileApplyPayload v doc)) now"
    using doc q' len \<open>1 \<le> v\<close> free(1) by (simp add: CreateProfileApplyTask_def)
  let ?payload = "marshalStringMap (profileApplyPayload v doc)"
  obtain db' where ins: "insertTask db n TaskProfileApply ?payload now = (db', Inr (db_Seq db + 1))"
    using free(3) \<open>n \<in> nodeIDs db\<close> by (simp add: insertTask_Inr)
  have step: "coalesceOrInsert db n v ?payload now = (db', andThen (GetTask db' (db_Seq db + 1)) (\<lambda>t. Inr (Some t)))"
    using free(2) ins by (simp add: coalesceOrInsert_def)
  have inv': "hub_inv db'" using CreateProfileApplyTask_inv [OF inv] create step by metis
  have "\<exists>r \<in> set (db_Tasks db'). tr_ID r = db_Seq db + 1" using ins by (auto simp: insertTask_Inr)
  then obtain t where "GetTask db' (db_Seq db + 1) = Inr t"
    using GetTask_ok [of db'] inv' unfolding hub_inv_def by metis
  then show ?thesis using create step by simp
qed

lemma demo_apply:
  "\<exists>t. ApplyNodeProfile demoDB (\<lambda>_. demoTime) ''node-1'' 3
     = (fst (ApplyNodeProfile demoDB (\<lambda>_. demoTime) ''node-1'' 3), Inr (Some t))"
proof -
  let ?row = "\<lparr>pr_ProfileJSON = marshalProfile demoProfile, pr_Revision = 3, pr_UpdatedAt = demoTime\<rparr>"
  have row: "map_of (db_Profiles demoDB) ''node-1'' = Some ?row" by (simp add: demoDB_def)
  have rc: "GetNodeProfile demoDB ''node-1'' = Inr \<lparr>rec_Profile = demoProfile, rec_Revision = 3, rec_Configured = True\<rparr>"
    using GetNodeProfile_current [OF demo_inv row demo_canonical] by simp
  have none: "map_of (db_Observations demoDB) ''node-1'' = None" by (simp add: demoDB_def)
  have kinds: "filter (\<lambda>r. tr_NodeID r = ''node-1'' \<and> tr_Kind r = TaskProfileApply) (db_Tasks demoDB) = []"
    by (simp add: demoDB_def demoTask_def claimedRow_def hub_consts)
  have free: "inFlightApply demoDB ''node-1'' = []" "GetLatestProfileApplyTask demoDB ''node-1'' = Inr None"
    using kinds by (auto simp: inFlightApply_def GetLatestProfileApplyTask_def filter_empty_conv)
  have has: "hasCapability demoCapabilities CapabilityProfileApply" by code_simp
  obtain node where "GetNode demoDB ''node-1'' = Inr node" "node_Capabilities node = demoCapabilities" "IsNodeOnline demoTime node"
    using demo_online by blast
  moreover have "db_Seq demoDB < 2 ^ 63 - 1" by (simp add: demoDB_def)
  then obtain db' t where "CreateProfileApplyTask demoDB ''node-1'' 3 demoProfile demoTime = (db', Inr (Some t))"
    using CreateProfileApplyTask_fresh [OF demo_inv row _ _ demo_canonical, where v = 3 and now = demoTime] free none
    by (auto simp: observedApplied_def)
  moreover have "GetNodeProfileObservation demoDB ''node-1'' = Inr None"
    using GetNodeProfileObservation_ok [OF demo_inv demo_revision(2)] none by simp
  ultimately show ?thesis
    using rc free has by (simp add: ApplyNodeProfile_def demo_validNodeID alreadyApplied_def awaitingReceipt_def)
qed

lemma apply_hands_out_current_witness:
  "\<exists>t. profileApplyPayloadRevisionFromTask t = Inr 3"
proof -
  obtain t where t: "ApplyNodeProfile demoDB (\<lambda>_. demoTime) ''node-1'' 3
     = (fst (ApplyNodeProfile demoDB (\<lambda>_. demoTime) ''node-1'' 3), Inr (Some t))" using demo_apply ..
  from apply_hands_out_current [OF demo_inv t] show ?thesis by blast
qed


section \<open>The view\<close>

text \<open>
  C37. The view claims that a profile is applied only on the word of the node: the apply state is
  applied exactly when a profile is desired, the node announces the capability, and the last
  heartbeat reported the desired revision as applied. A completed task alone never suffices.
\<close>

theorem applied_iff_observed:
  assumes inv: "hub_inv db" and view: "svcGetNodeProfile db clock n = Inr resp"
  shows "app_State (prs_Apply resp) = profileApplyApplied \<longleftrightarrow>
    map_of (db_Profiles db) n \<noteq> None
    \<and> (\<exists>node ob. GetNode db n = Inr node \<and> hasCapability (node_Capabilities node) CapabilityProfileApply
         \<and> map_of (db_Observations db) n = Some ob \<and> or_State ob = ProfileObservationApplied
         \<and> or_Revision ob = currentRevision db n)"
proof -
  have n: "validNodeID n" "n \<in> nodeIDs db" using svcGetNodeProfile_ok [OF inv, of clock n] view by simp_all
  obtain node rc task where node: "GetNode db n = Inr node" and rc: "GetNodeProfile db n = Inr rc"
    and resp: "resp = profileResponse rc node (IsNodeOnline (clock 0) node) (map_of (db_Observations db) n) task"
    using svcGetNodeProfile_view [OF inv n, of clock] view by auto
  have "rec_Revision rc = currentRevision db n" "rec_Configured rc \<longleftrightarrow> map_of (db_Profiles db) n \<noteq> None"
    using GetNodeProfile_total [OF inv n(2)] rc by auto
  then show ?thesis
    using node by (auto simp: resp profileResponse_def Let_def profileApplyState_applied)
qed

lemma applied_iff_observed_witness:
  "\<exists>resp. svcGetNodeProfile demoDB (\<lambda>_. demoTime) ''node-1'' = Inr resp \<and> app_State (prs_Apply resp) \<noteq> profileApplyApplied"
proof -
  obtain resp where resp: "svcGetNodeProfile demoDB (\<lambda>_. demoTime) ''node-1'' = Inr resp"
    using svcGetNodeProfile_view [OF demo_inv demo_validNodeID(1) demo_revision(2)] by blast
  have "map_of (db_Observations demoDB) ''node-1'' = None" by (simp add: demoDB_def)
  then show ?thesis using applied_iff_observed [OF demo_inv resp] resp by auto
qed

text \<open>
  A node that does not announce the capability is shown as managed by hand, whatever tasks or
  reports are on record: no task, no observation, and the fixed reason.
\<close>

theorem incapable_node_manual:
  "hasCapability (node_Capabilities node) CapabilityProfileApply
     \<or> (prs_Apply (profileResponse rc node online observation task) =
          \<lparr>app_State = profileApplyManualRequired, app_Reason = profileApplySelfApplyReason,
           app_DesiredRevision = (if rec_Configured rc then Some (rec_Revision rc) else None), app_TaskID = None,
           app_ObservedRevision = None, app_ObservedState = None\<rparr>
        \<and> ors_ProfileState (prs_Observed (profileResponse rc node online observation task)) = profileObservedNotReported)"
  by (auto simp: profileResponse_def Let_def profileApplyState_incapable applyBase_def)

end
