(* ===== verification/GoOS.thy ===== *)
theory GoOS
  imports GoPath GoEncoding
begin

text \<open>
  What the agent uses of package \<^verbatim>\<open>os\<close>. The file system is a map from path names to nodes; a regular
  file has its permission bits, a flag that its bytes have been synced, and its contents, and of a
  symbolic link only whether it leads to a directory is kept. A call takes the world and returns a
  value or an error, with the new world; what the environment does to the call is read from a
  schedule: it works, it fails, or the process dies in it, and a write that fails or dies may have
  written a part of its data. An empty schedule means that everything works from there on.
  \<open>runs\<close> is a Hoare triple with a postcondition for each of the three ways to end, from which the facts
  about crashes are derived. Permission bits are plain numbers, 0600 being \<open>0x180\<close> and 0700 being \<open>0x1C0\<close>.
\<close>

section \<open>Programs\<close>

datatype fnode =
    FDir nat
  | FReg nat bool string
  | FLink bool

type_synonym fsys = "string \<rightharpoonup> fnode"

datatype fate = Works | Fails nat | Dies nat

datatype os_error = NotExist | OtherError

record world =
  w_fs :: fsys
  w_fates :: "fate list"
  w_rands :: "nat list"
  w_euid0 :: bool

datatype ('e, 'a) io_res = Ret 'a | Raise 'e | Dead

type_synonym ('e, 'a) io = "world \<Rightarrow> ('e, 'a) io_res \<times> world"

definition ret :: "'a \<Rightarrow> ('e, 'a) io" where
  "ret x = (\<lambda>w. (Ret x, w))"

definition throw :: "'e \<Rightarrow> ('e, 'a) io" where
  "throw e = (\<lambda>w. (Raise e, w))"

definition seqIO :: "('e, 'a) io \<Rightarrow> ('a \<Rightarrow> ('e, 'b) io) \<Rightarrow> ('e, 'b) io" where
  "seqIO m f = (\<lambda>w. case m w of (Ret x, w') \<Rightarrow> f x w' | (Raise e, w') \<Rightarrow> (Raise e, w') | (Dead, w') \<Rightarrow> (Dead, w'))"

text \<open>The error of a call as a value, as Go returns it.\<close>

definition attempt :: "('e, 'a) io \<Rightarrow> ('f, 'e + 'a) io" where
  "attempt m = (\<lambda>w. case m w of (Ret x, w') \<Rightarrow> (Ret (Inr x), w') | (Raise e, w') \<Rightarrow> (Ret (Inl e), w') | (Dead, w') \<Rightarrow> (Dead, w'))"

definition onError :: "('e \<Rightarrow> 'f) \<Rightarrow> ('e, 'a) io \<Rightarrow> ('f, 'a) io" where
  "onError g m = seqIO (attempt m) (\<lambda>r. case r of Inl e \<Rightarrow> throw (g e) | Inr x \<Rightarrow> ret x)"

definition getFS :: "('e, fsys) io" where
  "getFS = (\<lambda>w. (Ret (w_fs w), w))"

section \<open>Calls\<close>

text \<open>
  A call with its effect and its result, and what is left behind of it when it does not work.
\<close>

definition syscall :: "(fsys \<Rightarrow> os_error + 'a \<times> fsys) \<Rightarrow> (nat \<Rightarrow> fsys \<Rightarrow> fsys) \<Rightarrow> (os_error, 'a) io" where
  "syscall f partial = (\<lambda>w.
     let w' = w\<lparr>w_fates := tl (w_fates w)\<rparr> in
     case w_fates w of
       Fails n # _ \<Rightarrow> (Raise OtherError, w'\<lparr>w_fs := partial n (w_fs w)\<rparr>)
     | Dies n # _ \<Rightarrow> (Dead, w'\<lparr>w_fs := partial n (w_fs w)\<rparr>)
     | _ \<Rightarrow> (case f (w_fs w) of
               Inl e \<Rightarrow> (Raise e, w')
             | Inr (x, fs) \<Rightarrow> (Ret x, w'\<lparr>w_fs := fs\<rparr>)))"

abbreviation intact :: "nat \<Rightarrow> fsys \<Rightarrow> fsys" where
  "intact n fs \<equiv> fs"

definition osLstat :: "string \<Rightarrow> (os_error, fnode) io" where
  "osLstat p = syscall (\<lambda>fs. case fs p of None \<Rightarrow> Inl NotExist | Some x \<Rightarrow> Inr (x, fs)) intact"

definition osReadFile :: "string \<Rightarrow> (os_error, string) io" where
  "osReadFile p = syscall (\<lambda>fs. case fs p of
       Some (FReg _ _ d) \<Rightarrow> Inr (d, fs) | None \<Rightarrow> Inl NotExist | _ \<Rightarrow> Inl OtherError) intact"

definition osMkdir :: "string \<Rightarrow> nat \<Rightarrow> (os_error, unit) io" where
  "osMkdir p mode = syscall (\<lambda>fs. case fs p of
       None \<Rightarrow> Inr ((), fs(p \<mapsto> FDir mode)) | Some _ \<Rightarrow> Inl OtherError) intact"

definition osChmod :: "string \<Rightarrow> nat \<Rightarrow> (os_error, unit) io" where
  "osChmod p mode = syscall (\<lambda>fs. case fs p of
       Some (FDir _) \<Rightarrow> Inr ((), fs(p \<mapsto> FDir mode))
     | Some (FReg _ s d) \<Rightarrow> Inr ((), fs(p \<mapsto> FReg mode s d))
     | None \<Rightarrow> Inl NotExist
     | Some (FLink _) \<Rightarrow> Inr ((), fs)) intact"

text \<open>Ownership is not part of the model: the call can only fail.\<close>

definition osChown :: "string \<Rightarrow> (os_error, unit) io" where
  "osChown p = syscall (\<lambda>fs. case fs p of None \<Rightarrow> Inl NotExist | Some _ \<Rightarrow> Inr ((), fs)) intact"

definition osGeteuid0 :: "('e, bool) io" where
  "osGeteuid0 = (\<lambda>w. (Ret (w_euid0 w), w))"

text \<open>An external command that leaves the file system as it is, given by whether it succeeds.\<close>

definition runCommand :: "(string \<Rightarrow> string list \<Rightarrow> bool) \<Rightarrow> string \<Rightarrow> string list \<Rightarrow> (os_error, unit) io" where
  "runCommand runner bin args = syscall (\<lambda>fs. if runner bin args then Inr ((), fs) else Inl OtherError) intact"

text \<open>\<^verbatim>\<open>File.Write\<close> at the end of the file, \<^verbatim>\<open>File.Sync\<close> and \<^verbatim>\<open>File.Close\<close>, by the name of the file.\<close>

definition appendTo :: "string \<Rightarrow> string \<Rightarrow> fsys \<Rightarrow> fsys" where
  "appendTo p d fs = (case fs p of Some (FReg m _ old) \<Rightarrow> fs(p \<mapsto> FReg m False (old @ d)) | _ \<Rightarrow> fs)"

definition fileWrite :: "string \<Rightarrow> string \<Rightarrow> (os_error, unit) io" where
  "fileWrite p d = syscall (\<lambda>fs. Inr ((), appendTo p d fs)) (\<lambda>n. appendTo p (take n d))"

definition fileSync :: "string \<Rightarrow> (os_error, unit) io" where
  "fileSync p = syscall (\<lambda>fs. Inr ((), case fs p of Some (FReg m _ d) \<Rightarrow> fs(p \<mapsto> FReg m True d) | _ \<Rightarrow> fs)) intact"

text \<open>Syncing a directory persists its entries, which the model does not tell apart.\<close>

definition dirSync :: "string \<Rightarrow> (os_error, unit) io" where
  "dirSync p = syscall (\<lambda>fs. Inr ((), fs)) intact"

definition fileClose :: "string \<Rightarrow> (os_error, unit) io" where
  "fileClose p = syscall (\<lambda>fs. Inr ((), fs)) intact"

definition osOpen :: "string \<Rightarrow> (os_error, unit) io" where
  "osOpen p = syscall (\<lambda>fs. case fs p of None \<Rightarrow> Inl NotExist | Some _ \<Rightarrow> Inr ((), fs)) intact"

definition osRename :: "string \<Rightarrow> string \<Rightarrow> (os_error, unit) io" where
  "osRename p q = syscall (\<lambda>fs. case (fs p, fs q) of
       (None, _) \<Rightarrow> Inl NotExist
     | (_, Some (FDir _)) \<Rightarrow> Inl OtherError
     | (Some x, _) \<Rightarrow> Inr ((), fs(p := None, q \<mapsto> x))) intact"

definition osRemove :: "string \<Rightarrow> (os_error, unit) io" where
  "osRemove p = syscall (\<lambda>fs. if fs p = None then Inl NotExist else Inr ((), fs(p := None))) intact"

text \<open>
  \<^verbatim>\<open>os.CreateTemp\<close> draws a number for the star of its pattern until the name is free, and creates the
  file with mode 0600.
\<close>

definition tempName :: "string \<Rightarrow> string \<Rightarrow> nat \<Rightarrow> string" where
  "tempName dir pat n = dir @ ''/'' @ pat @ FormatInt (int n)"

fun freeName :: "fsys \<Rightarrow> string \<Rightarrow> string \<Rightarrow> nat list \<Rightarrow> (string \<times> nat list) option" where
  "freeName fs dir pat [] = None"
| "freeName fs dir pat (n # ns) =
     (if fs (tempName dir pat n) = None then Some (tempName dir pat n, ns) else freeName fs dir pat ns)"

definition osCreateTemp :: "string \<Rightarrow> string \<Rightarrow> (os_error, string) io" where
  "osCreateTemp dir pat = (\<lambda>w.
     case freeName (w_fs w) dir pat (w_rands w) of
       None \<Rightarrow> (Raise OtherError, w)
     | Some (p, ns) \<Rightarrow>
         syscall (\<lambda>fs. case fs dir of
             Some (FDir _) \<Rightarrow> Inr (p, fs(p \<mapsto> FReg 0x180 False [])) | _ \<Rightarrow> Inl OtherError) intact
           (w\<lparr>w_rands := ns\<rparr>))"

text \<open>
  \<^verbatim>\<open>os.MkdirAll\<close> on the elements of a clean absolute path, innermost first. The root exists.
\<close>

definition isDirNode :: "fnode \<Rightarrow> bool" where
  "isDirNode x = (case x of FDir _ \<Rightarrow> True | FReg _ _ _ \<Rightarrow> False | FLink d \<Rightarrow> d)"

definition absPath :: "string list \<Rightarrow> string" where
  "absPath es = concat (map (\<lambda>e. CHR ''/'' # e) (rev es))"

fun mkdirAll :: "string list \<Rightarrow> nat \<Rightarrow> (os_error, unit) io" where
  "mkdirAll [] mode = ret ()"
| "mkdirAll (e # es) mode =
     seqIO (attempt (osLstat (absPath (e # es)))) (\<lambda>r. case r of
         Inr x \<Rightarrow> if isDirNode x then ret () else throw OtherError
       | Inl _ \<Rightarrow>
           seqIO (mkdirAll es mode) (\<lambda>_.
           seqIO (attempt (osMkdir (absPath (e # es)) mode)) (\<lambda>r. case r of
               Inr _ \<Rightarrow> ret ()
             | Inl err \<Rightarrow>
                 seqIO (attempt (osLstat (absPath (e # es)))) (\<lambda>r. case r of
                     Inr (FDir _) \<Rightarrow> ret ()
                   | _ \<Rightarrow> throw err))))"

definition osMkdirAll :: "string \<Rightarrow> nat \<Rightarrow> (os_error, unit) io" where
  "osMkdirAll p mode = mkdirAll (rev (path_elems p)) mode"

section \<open>Paths\<close>

text \<open>\<^verbatim>\<open>filepath.Join\<close> of two elements and \<^verbatim>\<open>filepath.Dir\<close>.\<close>

definition Join :: "string \<Rightarrow> string \<Rightarrow> string" where
  "Join a b = (if a = [] \<and> b = [] then [] else Clean (if a = [] then b else if b = [] then a else a @ ''/'' @ b))"

definition DirOf :: "string \<Rightarrow> string" where
  "DirOf p = Clean (rev (dropWhile (\<lambda>c. c \<noteq> CHR ''/'') (rev p)))"

text \<open>A clean absolute path other than the root.\<close>

definition cleanDir :: "string \<Rightarrow> bool" where
  "cleanDir p \<longleftrightarrow> IsAbs p \<and> Clean p = p \<and> p \<noteq> ''/''"

lemma split_on_end: "split_on c (s @ c # t) = split_on c s @ split_on c t"
  by (induction s) (auto split: list.splits simp: Cons_eq_append_conv)

lemma path_elems_snoc:
  "IsAbs d \<Longrightarrow> CHR ''/'' \<notin> set e \<Longrightarrow> path_elems (d @ ''/'' @ e) = path_elems d @ [e]"
  by (auto simp: path_elems_def split_on_end split_on_single IsAbs_Cons)

lemma cleanDir_iff: "cleanDir p \<longleftrightarrow> IsAbs p \<and> p \<noteq> ''/'' \<and> list_all plain_elem (path_elems p)"
  using Clean_abs_iff by (auto simp: cleanDir_def)

lemma cleanDir_snoc: "cleanDir d \<Longrightarrow> plain_elem e \<Longrightarrow> cleanDir (d @ ''/'' @ e)"
proof -
  assume d: "cleanDir d" "plain_elem e"
  then have "list_all plain_elem (path_elems (d @ ''/'' @ e))"
    by (subst path_elems_snoc) (auto simp: cleanDir_iff plain_elem_def)
  then show ?thesis using d by (auto simp: cleanDir_iff IsAbs_Cons plain_elem_def)
qed

lemma Join_clean: "cleanDir d \<Longrightarrow> plain_elem e \<Longrightarrow> Join d e = d @ ''/'' @ e"
  using cleanDir_snoc [of d e] by (auto simp: Join_def cleanDir_def plain_elem_def IsAbs_Cons)

lemma Clean_slash: "cleanDir d \<Longrightarrow> Clean (d @ ''/'') = d"
proof -
  assume d: "cleanDir d"
  then obtain q where q: "d = CHR ''/'' # q" by (auto simp: cleanDir_def IsAbs_Cons)
  have "split_on (CHR ''/'') (d @ ''/'') = split_on (CHR ''/'') d @ [[]]"
    using split_on_end [of "CHR ''/''" d "[]"] by simp
  then have "Clean (d @ ''/'') = Clean d"
    by (simp add: Clean_def q IsAbs_Cons clean_step_def)
  then show ?thesis using d by (simp add: cleanDir_def)
qed

lemma DirOf_snoc: "cleanDir d \<Longrightarrow> CHR ''/'' \<notin> set e \<Longrightarrow> DirOf (d @ ''/'' @ e) = d"
proof -
  assume "cleanDir d" "CHR ''/'' \<notin> set e"
  then have "dropWhile (\<lambda>c. c \<noteq> CHR ''/'') (rev (d @ ''/'' @ e)) = CHR ''/'' # rev d"
    using dropWhile_append2 [of "rev e" "\<lambda>c. c \<noteq> CHR ''/''" "CHR ''/'' # rev d"] by auto
  with \<open>cleanDir d\<close> show ?thesis using Clean_slash [of d] by (simp add: DirOf_def)
qed

section \<open>Weakest preconditions over the file system\<close>

text \<open>
  \<open>runs P m Q E H\<close>: from a file system with \<open>P\<close>, whatever the schedule, the program \<open>m\<close> returns with \<open>Q\<close>, raises
  with \<open>E\<close>, or dies in a file system with \<open>H\<close>.
\<close>

definition runs ::
  "(fsys \<Rightarrow> bool) \<Rightarrow> ('e, 'a) io \<Rightarrow> ('a \<Rightarrow> fsys \<Rightarrow> bool) \<Rightarrow> ('e \<Rightarrow> fsys \<Rightarrow> bool) \<Rightarrow> (fsys \<Rightarrow> bool) \<Rightarrow> bool" where
  "runs P m Q E H \<longleftrightarrow> (\<forall>w. P (w_fs w) \<longrightarrow>
     (case m w of (Ret x, w') \<Rightarrow> Q x (w_fs w') | (Raise e, w') \<Rightarrow> E e (w_fs w') | (Dead, w') \<Rightarrow> H (w_fs w')))"

lemma runs_ret: "(\<And>fs. P fs \<Longrightarrow> Q x fs) \<Longrightarrow> runs P (ret x) Q E H"
  by (simp add: runs_def ret_def)

lemma runs_throw: "(\<And>fs. P fs \<Longrightarrow> E e fs) \<Longrightarrow> runs P (throw e) Q E H"
  by (simp add: runs_def throw_def)

lemma runs_seq:
  assumes "runs P m R E H" "\<And>x. runs (R x) (f x) Q E H"
  shows "runs P (seqIO m f) Q E H"
  using assms by (fastforce simp: runs_def seqIO_def split: prod.splits io_res.splits)

lemma runs_attempt: "runs P m (\<lambda>x. Q (Inr x)) (\<lambda>e. Q (Inl e)) H \<Longrightarrow> runs P (attempt m) Q E H"
  by (fastforce simp: runs_def attempt_def split: prod.splits io_res.splits)

lemma runs_onError: "runs P m Q (\<lambda>e. E (g e)) H \<Longrightarrow> runs P (onError g m) Q E H"
  unfolding onError_def
  by (rule runs_seq [OF runs_attempt [where Q = "\<lambda>r. case r of Inr x \<Rightarrow> Q x | Inl e \<Rightarrow> E (g e)"]])
    (auto intro: runs_ret runs_throw split: sum.splits)

lemma runs_cons:
  assumes "runs P' m Q' E' H'" "\<And>fs. P fs \<Longrightarrow> P' fs" "\<And>x fs. Q' x fs \<Longrightarrow> Q x fs"
    "\<And>e fs. E' e fs \<Longrightarrow> E e fs" "\<And>fs. H' fs \<Longrightarrow> H fs"
  shows "runs P m Q E H"
  using assms by (fastforce simp: runs_def split: prod.splits io_res.splits)

lemma runs_syscall:
  assumes "\<And>fs. P fs \<Longrightarrow> case f fs of Inl e \<Rightarrow> E e fs | Inr (x, fs') \<Rightarrow> Q x fs'"
    and "\<And>n fs. P fs \<Longrightarrow> E OtherError (partial n fs) \<and> H (partial n fs)"
  shows "runs P (syscall f partial) Q E H"
  unfolding runs_def syscall_def Let_def
proof (intro allI impI)
  fix w assume "P (w_fs w)"
  with assms(1) [OF this] assms(2) [OF this]
  show "case (case w_fates w of
       Fails n # _ \<Rightarrow> (Raise OtherError, w\<lparr>w_fates := tl (w_fates w), w_fs := partial n (w_fs w)\<rparr>)
     | Dies n # _ \<Rightarrow> (Dead, w\<lparr>w_fates := tl (w_fates w), w_fs := partial n (w_fs w)\<rparr>)
     | _ \<Rightarrow> (case f (w_fs w) of
               Inl e \<Rightarrow> (Raise e, w\<lparr>w_fates := tl (w_fates w)\<rparr>)
             | Inr (x, fs) \<Rightarrow> (Ret x, w\<lparr>w_fates := tl (w_fates w), w_fs := fs\<rparr>))) of
      (Ret x, w') \<Rightarrow> Q x (w_fs w') | (Raise e, w') \<Rightarrow> E e (w_fs w') | (Dead, w') \<Rightarrow> H (w_fs w')"
    by (auto split: list.splits fate.splits sum.splits)
qed

end
