(* ===== verification/AgentProfile.thy ===== *)
theory AgentProfile
  imports GoOS GoDecode HubProfile
begin

text \<open>
  The desired profile on the managed node, \<^verbatim>\<open>cmd/hserver-agent/profile_store.go\<close> and
  \<^verbatim>\<open>profile_apply.go\<close>: the strict wrapper document, the state document, the four files of the profile
  directory with their atomic replacement, the controller that admits a profile-apply task, and
  the observation that goes into a heartbeat. Programs are those of \<open>GoOS\<close>; a Go function that
  returns an error raises it. The mutex of the store is not modelled: one apply or observation runs
  at a time. The external command is the parameter \<open>runner\<close> of the controller.
\<close>

section \<open>Constants and records\<close>

definition profileSchemaVersion :: int where "profileSchemaVersion = 1"
definition maxProfileDocumentBytes :: nat where "maxProfileDocumentBytes = 16384"
definition profileDirectoryName :: string where "profileDirectoryName = ''profile''"
definition profileCandidateFileName :: string where "profileCandidateFileName = ''candidate.json''"
definition profileActiveFileName :: string where "profileActiveFileName = ''active.json''"
definition profilePreviousFileName :: string where "profilePreviousFileName = ''previous.json''"
definition profileStateFileName :: string where "profileStateFileName = ''state.json''"
definition profileStatePendingRestart :: string where [hub_consts]: "profileStatePendingRestart = ''pending_restart''"
definition profileStateActive :: string where [hub_consts]: "profileStateActive = ''active''"
definition profileStateFailed :: string where [hub_consts]: "profileStateFailed = ''failed''"

definition profileErrorMissing :: string where [hub_consts]: "profileErrorMissing = ''profile_missing''"
definition profileErrorCorrupt :: string where [hub_consts]: "profileErrorCorrupt = ''profile_corrupt''"
definition profileErrorStateCorrupt :: string where [hub_consts]: "profileErrorStateCorrupt = ''profile_state_corrupt''"
definition profileErrorRevision :: string where [hub_consts]: "profileErrorRevision = ''profile_revision_invalid''"
definition profileErrorPayload :: string where [hub_consts]: "profileErrorPayload = ''profile_payload_invalid''"
definition profileErrorPayloadTooLarge :: string where [hub_consts]: "profileErrorPayloadTooLarge = ''profile_payload_too_large''"
definition profileErrorNotReady :: string where [hub_consts]: "profileErrorNotReady = ''profile_apply_unavailable''"
definition profileErrorSchedule :: string where [hub_consts]: "profileErrorSchedule = ''profile_schedule_failed''"
definition profileErrorStore :: string where [hub_consts]: "profileErrorStore = ''profile_store_failed''"
definition profileErrorSuperseded :: string where [hub_consts]: "profileErrorSuperseded = ''profile_superseded''"

datatype profile_error =
    errProfileMissing
  | errProfileCorrupt
  | errProfileStateCorrupt
  | errProfileRevision
  | errProfilePayloadTooBig
  | errProfileOther

record profileWrapper =
  pw_SchemaVersion :: int
  pw_Revision :: int
  pw_Profile :: AgentProfile

record profileStateDocument =
  sd_SchemaVersion :: int
  sd_State :: string
  sd_Revision :: int
  sd_ErrorCode :: string

record profileStore =
  ps_stateDir :: string
  ps_readFile :: "string \<Rightarrow> (os_error, string) io"

definition zeroWrapper :: profileWrapper where
  "zeroWrapper = \<lparr>pw_SchemaVersion = 0, pw_Revision = 0, pw_Profile = emptyAgentProfile\<rparr>"

definition newProfileStore :: "string \<Rightarrow> profileStore" where
  "newProfileStore stateDir = \<lparr>ps_stateDir = stateDir, ps_readFile = osReadFile\<rparr>"

definition newProfileStoreWithReader :: "string \<Rightarrow> (string \<Rightarrow> (os_error, string) io) option \<Rightarrow> profileStore" where
  "newProfileStoreWithReader stateDir readFile =
     \<lparr>ps_stateDir = stateDir, ps_readFile = (case readFile of None \<Rightarrow> osReadFile | Some f \<Rightarrow> f)\<rparr>"

definition directory :: "profileStore \<Rightarrow> string" where
  "directory s = Join (ps_stateDir s) profileDirectoryName"

definition candidatePath :: "profileStore \<Rightarrow> string" where
  "candidatePath s = Join (directory s) profileCandidateFileName"

definition activePath :: "profileStore \<Rightarrow> string" where
  "activePath s = Join (directory s) profileActiveFileName"

definition previousPath :: "profileStore \<Rightarrow> string" where
  "previousPath s = Join (directory s) profilePreviousFileName"

definition statePath :: "profileStore \<Rightarrow> string" where
  "statePath s = Join (directory s) profileStateFileName"

section \<open>Directories and atomic replacement\<close>

definition checkPrivate :: "fnode \<Rightarrow> (os_error, unit) io" where
  "checkPrivate info = (case info of FDir _ \<Rightarrow> ret () | _ \<Rightarrow> throw OtherError)"

definition ensurePrivateDirectory :: "string \<Rightarrow> (os_error, unit) io" where
  "ensurePrivateDirectory dir =
     (if Clean dir = ''/'' then throw OtherError
      else
        seqIO (attempt (osLstat dir)) (\<lambda>r.
        seqIO (case r of
                 Inr info \<Rightarrow> checkPrivate info
               | Inl e \<Rightarrow> if e = NotExist then ret () else throw e) (\<lambda>_.
        seqIO (osMkdirAll dir 0x1C0) (\<lambda>_.
        seqIO (osLstat dir) (\<lambda>info.
        seqIO (checkPrivate info) (\<lambda>_.
        seqIO (osChmod dir 0x1C0) (\<lambda>_.
        seqIO osGeteuid0 (\<lambda>euid0.
        if euid0 then osChown dir else ret ()))))))))"

definition ensureDirectory :: "profileStore \<Rightarrow> (os_error, unit) io" where
  "ensureDirectory s =
     (if ps_stateDir s = [] \<or> \<not> IsAbs (ps_stateDir s) \<or> Clean (ps_stateDir s) \<noteq> ps_stateDir s then throw OtherError
      else seqIO (ensurePrivateDirectory (ps_stateDir s)) (\<lambda>_. ensurePrivateDirectory (directory s)))"

definition syncProfileDirectory :: "string \<Rightarrow> (os_error, unit) io" where
  "syncProfileDirectory dir = seqIO (osOpen dir) (\<lambda>_. dirSync dir)"

text \<open>
  From the open temporary file to the rename. The deferred clean-up removes the temporary file on
  every error on this way; its own error is dropped.
\<close>

definition publish :: "string \<Rightarrow> string \<Rightarrow> string \<Rightarrow> (os_error, unit) io" where
  "publish temporaryName filename data =
     seqIO (osChmod temporaryName 0x180) (\<lambda>_.
     seqIO osGeteuid0 (\<lambda>euid0.
     seqIO (if euid0 then osChown temporaryName else ret ()) (\<lambda>_.
     seqIO (fileWrite temporaryName data) (\<lambda>_.
     seqIO (fileSync temporaryName) (\<lambda>_.
     seqIO (fileClose temporaryName) (\<lambda>_.
     osRename temporaryName filename))))))"

definition profileTempPrefix :: string where
  "profileTempPrefix = ''.hserver-profile-''"

definition writeAtomicProfileFile :: "string \<Rightarrow> string \<Rightarrow> (os_error, unit) io" where
  "writeAtomicProfileFile filename data =
     (let dir = DirOf filename in
      seqIO (ensurePrivateDirectory dir) (\<lambda>_.
      seqIO (attempt (osLstat filename)) (\<lambda>r.
      seqIO (case r of
               Inr (FReg _ _ _) \<Rightarrow> ret ()
             | Inr _ \<Rightarrow> throw OtherError
             | Inl e \<Rightarrow> if e = NotExist then ret () else throw e) (\<lambda>_.
      seqIO (osCreateTemp dir profileTempPrefix) (\<lambda>temporaryName.
      seqIO (attempt (publish temporaryName filename data)) (\<lambda>r.
      case r of
        Inl e \<Rightarrow> seqIO (attempt (osRemove temporaryName)) (\<lambda>(_ :: os_error + unit). throw e)
      | Inr _ \<Rightarrow> syncProfileDirectory dir))))))"

section \<open>The wrapper document\<close>

definition wrapper_json :: "profileWrapper \<Rightarrow> json" where
  "wrapper_json w =
     JObj [(''schema_version'', json_int (pw_SchemaVersion w)), (''revision'', json_int (pw_Revision w)),
           (''profile'', profile_json (pw_Profile w))]"

definition marshalProfileWrapper :: "profileWrapper \<Rightarrow> profile_error + string" where
  "marshalProfileWrapper w =
     (if pw_SchemaVersion w \<noteq> profileSchemaVersion \<or> pw_Revision w \<le> 0 then Inl errProfileRevision
      else (case NormalizeAgentProfile (pw_Profile w) of
          Inl _ \<Rightarrow> Inl errProfileOther
        | Inr normalized \<Rightarrow>
            let data = json_print (wrapper_json (w\<lparr>pw_Profile := normalized\<rparr>)) in
            if length data > maxProfileDocumentBytes then Inl errProfilePayloadTooBig else Inr data))"

definition strictJSONObject :: "string \<Rightarrow> profile_error + (string \<times> json) list" where
  "strictJSONObject data =
     (case json_parse (Suc maxNestingDepth) data of
        Some (JObj ms) \<Rightarrow> if distinct (map fst ms) then Inr ms else Inl errProfileOther
      | _ \<Rightarrow> Inl errProfileOther)"

text \<open>A field that must be present and not null.\<close>

definition presentField :: "(string \<times> json) list \<Rightarrow> string \<Rightarrow> profile_error \<Rightarrow> profile_error + json" where
  "presentField fs name e =
     (case map_of fs name of None \<Rightarrow> Inl e | Some raw \<Rightarrow> if raw = JNull then Inl e else Inr raw)"

definition decodeProfileWrapper :: "string \<Rightarrow> profile_error + profileWrapper" where
  "decodeProfileWrapper data =
     (if length data = 0 \<or> length data > maxProfileDocumentBytes then Inl errProfilePayloadTooBig
      else
        andThen (strictJSONObject data) (\<lambda>fs.
        if \<not> list_all (\<lambda>(k, _). k \<in> {''schema_version'', ''revision'', ''profile''}) fs then Inl errProfileOther
        else
        andThen (presentField fs ''schema_version'' errProfileOther) (\<lambda>schemaRaw.
        if json_int64 schemaRaw \<noteq> Some profileSchemaVersion then Inl errProfileOther
        else
        andThen (presentField fs ''revision'' errProfileRevision) (\<lambda>revisionRaw.
        case json_int64 revisionRaw of
          None \<Rightarrow> Inl errProfileRevision
        | Some revision \<Rightarrow>
            if revision \<le> 0 then Inl errProfileRevision
            else
            andThen (presentField fs ''profile'' errProfileOther) (\<lambda>profileRaw.
            case decodeProfileValue profileRaw of
              Inl _ \<Rightarrow> Inl errProfileOther
            | Inr profile \<Rightarrow>
                (case NormalizeAgentProfile profile of
                   Inl _ \<Rightarrow> Inl errProfileOther
                 | Inr normalized \<Rightarrow>
                     let wrapper = \<lparr>pw_SchemaVersion = profileSchemaVersion, pw_Revision = revision,
                                    pw_Profile = normalized\<rparr> in
                     andThen (marshalProfileWrapper wrapper) (\<lambda>canonical.
                     if data \<noteq> canonical then Inl errProfileOther else Inr wrapper)))))))"

section \<open>Reading and writing the store\<close>

definition liftIO :: "('e, 'a) io \<Rightarrow> (profile_error, 'a) io" where
  "liftIO m = onError (\<lambda>_. errProfileOther) m"

definition liftResult :: "'e + 'a \<Rightarrow> ('e, 'a) io" where
  "liftResult r = (case r of Inl e \<Rightarrow> throw e | Inr x \<Rightarrow> ret x)"

text \<open>The contents of a regular file, \<open>None\<close> if nothing has the name.\<close>

definition readRegular :: "profileStore \<Rightarrow> string \<Rightarrow> profile_error \<Rightarrow> (profile_error, string option) io" where
  "readRegular s filename corrupt =
     seqIO (attempt (osLstat filename)) (\<lambda>r. case r of
         Inl e \<Rightarrow> if e = NotExist then ret None else throw errProfileOther
       | Inr (FReg _ _ _) \<Rightarrow> seqIO (liftIO (ps_readFile s filename)) (\<lambda>data. ret (Some data))
       | Inr _ \<Rightarrow> throw corrupt)"

definition readWrapper :: "profileStore \<Rightarrow> string \<Rightarrow> (profile_error, profileWrapper option) io" where
  "readWrapper s filename =
     seqIO (readRegular s filename errProfileCorrupt) (\<lambda>r. case r of
         None \<Rightarrow> ret None
       | Some data \<Rightarrow>
           if length data > maxProfileDocumentBytes then throw errProfilePayloadTooBig
           else seqIO (liftResult (decodeProfileWrapper data)) (\<lambda>wrapper. ret (Some wrapper)))"

text \<open>\<^verbatim>\<open>safeProfileErrorCode\<close>: a code of the closed list, or the fallback.\<close>

definition localErrorCodes :: "string list" where
  "localErrorCodes =
     [profileErrorMissing, profileErrorCorrupt, profileErrorStateCorrupt, profileErrorRevision,
      profileErrorPayload, profileErrorPayloadTooLarge, profileErrorNotReady, profileErrorSchedule,
      profileErrorStore, profileErrorSuperseded]"

definition safeProfileErrorCode :: "string \<Rightarrow> string \<Rightarrow> string" where
  "safeProfileErrorCode code fallback = (if code \<in> set localErrorCodes then code else fallback)"

definition state_json :: "profileStateDocument \<Rightarrow> json" where
  "state_json d =
     JObj ([(''schema_version'', json_int (sd_SchemaVersion d)), (''state'', JStr (sd_State d)),
            (''revision'', json_int (sd_Revision d))]
           @ (if sd_ErrorCode d = [] then [] else [(''error_code'', JStr (sd_ErrorCode d))]))"

definition unmarshalState :: "string \<Rightarrow> profileStateDocument option" where
  "unmarshalState data =
     Option.bind (json_parse maxNestingDepth data) (\<lambda>v.
     Option.bind (struct_members [''schema_version'', ''state'', ''revision'', ''error_code''] v) (\<lambda>ms.
     Option.bind (get_field json_int64 ''schema_version'' ms 0) (\<lambda>version.
     Option.bind (get_field json_string ''state'' ms []) (\<lambda>state.
     Option.bind (get_field json_int64 ''revision'' ms 0) (\<lambda>revision.
     map_option (\<lambda>code. \<lparr>sd_SchemaVersion = version, sd_State = state, sd_Revision = revision, sd_ErrorCode = code\<rparr>)
       (get_field json_string ''error_code'' ms []))))))"

definition decodeState :: "string \<Rightarrow> profile_error + profileStateDocument" where
  "decodeState data =
     (if length data > maxProfileDocumentBytes then Inl errProfileStateCorrupt
      else (case unmarshalState data of
          None \<Rightarrow> Inl errProfileOther
        | Some state \<Rightarrow>
            if sd_SchemaVersion state \<noteq> profileSchemaVersion \<or> sd_Revision state < 1 then Inl errProfileStateCorrupt
            else if sd_State state \<notin> {profileStatePendingRestart, profileStateActive, profileStateFailed}
              then Inl errProfileStateCorrupt
            else if sd_State state \<noteq> profileStateFailed \<and> sd_ErrorCode state \<noteq> [] then Inl errProfileStateCorrupt
            else if sd_ErrorCode state \<noteq> [] \<and> safeProfileErrorCode (sd_ErrorCode state) [] \<noteq> sd_ErrorCode state
              then Inl errProfileStateCorrupt
            else
              let canonical = json_print (state_json state) in
              if data \<noteq> canonical \<and> data \<noteq> canonical @ [CHR 0x0A] then Inl errProfileStateCorrupt
              else Inr state))"

definition readState :: "profileStore \<Rightarrow> (profile_error, profileStateDocument option) io" where
  "readState s =
     seqIO (readRegular s (statePath s) errProfileStateCorrupt) (\<lambda>r. case r of
         None \<Rightarrow> ret None
       | Some data \<Rightarrow> seqIO (liftResult (decodeState data)) (\<lambda>state. ret (Some state)))"

definition writeWrapper :: "string \<Rightarrow> profileWrapper \<Rightarrow> (profile_error, unit) io" where
  "writeWrapper filename wrapper =
     seqIO (liftResult (marshalProfileWrapper wrapper)) (\<lambda>data. liftIO (writeAtomicProfileFile filename data))"

definition writeState :: "profileStore \<Rightarrow> profileStateDocument \<Rightarrow> (profile_error, unit) io" where
  "writeState s state0 =
     (let state = (if sd_SchemaVersion state0 = 0 then state0\<lparr>sd_SchemaVersion := profileSchemaVersion\<rparr> else state0);
          data = json_print (state_json state) in
      if length data > maxProfileDocumentBytes then throw errProfileStateCorrupt
      else liftIO (writeAtomicProfileFile (statePath s) (data @ [CHR 0x0A])))"

section \<open>The observation\<close>

definition observed :: "string \<Rightarrow> int \<Rightarrow> string \<Rightarrow> AgentProfileObservation" where
  "observed state revision code = \<lparr>obs_State = state, obs_Revision = revision, obs_ErrorCode = code\<rparr>"

text \<open>\<^verbatim>\<open>loadActiveProfile\<close> on what the two files hold.\<close>

definition activeObservation ::
  "profileWrapper \<Rightarrow> profileStateDocument option \<Rightarrow> AgentProfileObservation \<times> profile_error option" where
  "activeObservation active state =
     (case state of
        None \<Rightarrow> (observed ProfileObservationApplied (pw_Revision active) [], None)
      | Some st \<Rightarrow>
          if sd_State st = profileStatePendingRestart then
            (observed ProfileObservationPendingRestart (sd_Revision st) [], None)
          else if sd_State st = profileStateFailed then
            (observed ProfileObservationFailed (sd_Revision st) (safeProfileErrorCode (sd_ErrorCode st) profileErrorStore), None)
          else if sd_State st = profileStateActive \<and> sd_Revision st \<noteq> pw_Revision active then
            (observed ProfileObservationFailed (pw_Revision active) profileErrorStateCorrupt, Some errProfileStateCorrupt)
          else (observed ProfileObservationApplied (pw_Revision active) [], None))"

definition missingObservation ::
  "profileStateDocument option \<Rightarrow> AgentProfileObservation \<times> profile_error option" where
  "missingObservation state =
     (case state of
        None \<Rightarrow> (observed ProfileObservationNotConfigured 0 [], Some errProfileMissing)
      | Some st \<Rightarrow>
          if sd_State st = profileStatePendingRestart then
            (observed ProfileObservationPendingRestart (sd_Revision st) [], None)
          else if sd_State st = profileStateFailed then
            (observed ProfileObservationFailed (sd_Revision st) (safeProfileErrorCode (sd_ErrorCode st) profileErrorStore), None)
          else if sd_State st = profileStateActive then
            (observed ProfileObservationFailed (sd_Revision st) profileErrorStateCorrupt, Some errProfileStateCorrupt)
          else activeObservation zeroWrapper state)"

definition loadActiveProfile ::
  "profileStore \<Rightarrow> ('e, profileWrapper \<times> AgentProfileObservation \<times> profile_error option) io" where
  "loadActiveProfile s =
     seqIO (attempt (readWrapper s (activePath s))) (\<lambda>r. case r of
         Inl _ \<Rightarrow> ret (zeroWrapper, observed ProfileObservationFailed 0 profileErrorCorrupt, Some errProfileCorrupt)
       | Inr activeOpt \<Rightarrow>
           let active = (case activeOpt of None \<Rightarrow> zeroWrapper | Some a \<Rightarrow> a) in
           seqIO (attempt (readState s)) (\<lambda>r. case r of
               Inl stateErr \<Rightarrow>
                 ret (active, observed ProfileObservationFailed (pw_Revision active) profileErrorStateCorrupt, Some stateErr)
             | Inr state \<Rightarrow>
                 ret (active, if activeOpt = None then missingObservation state else activeObservation active state)))"

section \<open>The controller\<close>

record profileApplyController =
  pc_store :: profileStore
  pc_installer :: string
  pc_systemdRun :: string
  pc_runner :: "(string \<Rightarrow> string list \<Rightarrow> bool) option"
  pc_readyFn :: "(fsys \<Rightarrow> bool) option"

record profileApplyOutcome =
  po_State :: string
  po_Revision :: int

definition regularExecutable :: "string \<Rightarrow> ('e, bool) io" where
  "regularExecutable filename =
     seqIO (attempt (osLstat filename)) (\<lambda>r. case r of
         Inr (FReg mode _ _) \<Rightarrow> ret (and mode 0x49 \<noteq> 0)
       | _ \<Rightarrow> ret False)"

definition executableReady :: "profileApplyController \<Rightarrow> ('e, bool) io" where
  "executableReady c =
     (if pc_runner c = None then ret False
      else seqIO (regularExecutable (pc_installer c)) (\<lambda>b.
           if b then regularExecutable (pc_systemdRun c) else ret False))"

definition ready :: "profileApplyController \<Rightarrow> ('e, bool) io" where
  "ready c = (case pc_readyFn c of None \<Rightarrow> executableReady c | Some f \<Rightarrow> seqIO getFS (\<lambda>fs. ret (f fs)))"

definition scheduleArgs :: "string \<Rightarrow> string list" where
  "scheduleArgs installer =
     [''--collect'', ''--quiet'', ''--unit=hserver-agent-profile'', ''--on-active=3s'',
      ''--timer-property=AccuracySec=1s'', installer, ''apply-profile'']"

definition scheduleProfileApply ::
  "(string \<Rightarrow> string list \<Rightarrow> bool) option \<Rightarrow> string \<Rightarrow> string \<Rightarrow> (os_error, unit) io" where
  "scheduleProfileApply runner systemdRun installer =
     (case runner of
        None \<Rightarrow> throw OtherError
      | Some r \<Rightarrow>
          if systemdRun = [] \<or> installer = [] then throw OtherError
          else runCommand r systemdRun (scheduleArgs installer))"

definition decodeProfileTaskPayload :: "gomap \<Rightarrow> string + profileWrapper" where
  "decodeProfileTaskPayload payload =
     (if length payload \<noteq> 2 then Inl profileErrorPayload
      else
        let rawRevision = gget payload ''revision''; encoded = gget payload ''profile_json_b64'' in
        if rawRevision = [] \<or> encoded = [] then Inl profileErrorPayload
        else (case ParseInt64 rawRevision of
            None \<Rightarrow> Inl profileErrorRevision
          | Some revision \<Rightarrow>
              if revision \<le> 0 \<or> FormatInt revision \<noteq> rawRevision then Inl profileErrorRevision
              else if length encoded > (maxProfileDocumentBytes + 2) div 3 * 4 then Inl profileErrorPayloadTooLarge
              else (case b64_decode encoded of
                  None \<Rightarrow> Inl profileErrorPayload
                | Some decoded \<Rightarrow>
                    if b64_encode decoded \<noteq> encoded then Inl profileErrorPayload
                    else if length decoded > maxProfileDocumentBytes then Inl profileErrorPayloadTooLarge
                    else (case decodeProfileWrapper decoded of
                        Inl e \<Rightarrow>
                          Inl (if e = errProfilePayloadTooBig then profileErrorPayloadTooLarge
                               else if e = errProfileRevision then profileErrorRevision
                               else profileErrorPayload)
                      | Inr wrapper \<Rightarrow>
                          if pw_Revision wrapper \<noteq> revision then Inl profileErrorRevision else Inr wrapper))))"

text \<open>The two switches that answer a request without writing, on the active and on the pending revision.\<close>

definition activeDecision :: "int \<Rightarrow> profileWrapper option \<Rightarrow> (string + profileApplyOutcome) option" where
  "activeDecision revision active =
     (case active of
        None \<Rightarrow> None
      | Some a \<Rightarrow>
          if revision < pw_Revision a then Some (Inl profileErrorSuperseded)
          else if revision = pw_Revision a then
            Some (Inr \<lparr>po_State = ProfileApplyResultAlreadyActive, po_Revision = pw_Revision a\<rparr>)
          else None)"

definition pendingDecision :: "int \<Rightarrow> profileStateDocument option \<Rightarrow> (string + profileApplyOutcome) option" where
  "pendingDecision revision state =
     (case state of
        None \<Rightarrow> None
      | Some st \<Rightarrow>
          if sd_State st \<noteq> profileStatePendingRestart then None
          else if revision < sd_Revision st then Some (Inl profileErrorSuperseded)
          else if revision = sd_Revision st then
            Some (Inr \<lparr>po_State = ProfileApplyResultRestartScheduled, po_Revision = sd_Revision st\<rparr>)
          else None)"

definition storeFailed :: "('e, 'a) io \<Rightarrow> (string, 'a) io" where
  "storeFailed m = onError (\<lambda>_. profileErrorStore) m"

text \<open>The part of \<^verbatim>\<open>apply\<close> that writes the candidate, marks it pending and schedules the installer.\<close>

definition stageCandidate ::
  "profileApplyController \<Rightarrow> profileWrapper \<Rightarrow> profileWrapper option \<Rightarrow> (string, profileApplyOutcome) io" where
  "stageCandidate c wrapper active =
     (let s = pc_store c in
      seqIO (storeFailed (ensureDirectory s)) (\<lambda>_.
      seqIO (case active of
               None \<Rightarrow> ret ()
             | Some a \<Rightarrow> storeFailed (writeWrapper (previousPath s) a)) (\<lambda>_.
      seqIO (storeFailed (writeWrapper (candidatePath s) wrapper)) (\<lambda>_.
      seqIO (storeFailed (writeState s \<lparr>sd_SchemaVersion = profileSchemaVersion, sd_State = profileStatePendingRestart,
               sd_Revision = pw_Revision wrapper, sd_ErrorCode = []\<rparr>)) (\<lambda>_.
      seqIO (attempt (scheduleProfileApply (pc_runner c) (pc_systemdRun c) (pc_installer c))) (\<lambda>r. case r of
          Inr _ \<Rightarrow> ret \<lparr>po_State = ProfileApplyResultRestartScheduled, po_Revision = pw_Revision wrapper\<rparr>
        | Inl _ \<Rightarrow>
            seqIO (attempt (writeState s \<lparr>sd_SchemaVersion = profileSchemaVersion, sd_State = profileStateFailed,
               sd_Revision = pw_Revision wrapper, sd_ErrorCode = profileErrorSchedule\<rparr>))
              (\<lambda>_. throw profileErrorSchedule)))))))"

definition applyProfile :: "profileApplyController \<Rightarrow> gomap \<Rightarrow> (string, profileApplyOutcome) io" where
  "applyProfile c payload =
     (case decodeProfileTaskPayload payload of
        Inl code \<Rightarrow> throw code
      | Inr wrapper \<Rightarrow>
          seqIO (ready c) (\<lambda>ok. if \<not> ok then throw profileErrorNotReady else
          seqIO (onError (\<lambda>_. profileErrorCorrupt) (readWrapper (pc_store c) (activePath (pc_store c)))) (\<lambda>active.
          seqIO (onError (\<lambda>_. profileErrorStateCorrupt) (readState (pc_store c))) (\<lambda>state.
          case activeDecision (pw_Revision wrapper) active of
            Some r \<Rightarrow> liftResult r
          | None \<Rightarrow>
              (case pendingDecision (pw_Revision wrapper) state of
                 Some r \<Rightarrow> liftResult r
               | None \<Rightarrow> stageCandidate c wrapper active)))))"

definition observation :: "profileApplyController \<Rightarrow> ('e, AgentProfileObservation) io" where
  "observation c = seqIO (loadActiveProfile (pc_store c)) (\<lambda>(_, ob, _). ret ob)"

section \<open>Results\<close>

definition profileApplyTaskResult :: "profileApplyOutcome \<Rightarrow> TaskResultRequest" where
  "profileApplyTaskResult outcome =
     \<lparr>res_Status = TaskStatusCompleted,
      res_Result = [(''revision'', FormatInt (po_Revision outcome)), (''state'', po_State outcome)], res_Error = []\<rparr>"

definition failedProfileTaskResult :: "string \<Rightarrow> TaskResultRequest" where
  "failedProfileTaskResult code =
     \<lparr>res_Status = TaskStatusFailed, res_Result = [], res_Error = safeProfileErrorCode code profileErrorStore\<rparr>"

end
