(* ===== verification/AgentProfileProps.thy ===== *)
theory AgentProfileProps
  imports AgentProfile HubProfileProps
begin

text \<open>
  Properties of the agent's side of a desired profile, and of the two sides together: the agent
  accepts exactly the payloads the hub writes, its results and observations pass the hub's checks,
  its files survive a crash at any call, and revisions never go back.
\<close>

section \<open>Documents\<close>

definition docOf :: "profileWrapper \<Rightarrow> profileApplyDocument" where
  "docOf w = \<lparr>doc_SchemaVersion = pw_SchemaVersion w, doc_Revision = pw_Revision w, doc_Profile = pw_Profile w\<rparr>"

lemma wrapper_json_doc: "wrapper_json w = document_json (docOf w)"
  by (simp add: wrapper_json_def document_json_def docOf_def)

definition canonicalWrapper :: "profileWrapper \<Rightarrow> bool" where
  "canonicalWrapper w \<longleftrightarrow> pw_SchemaVersion w = profileSchemaVersion \<and> 1 \<le> pw_Revision w
     \<and> canonicalProfile (pw_Profile w)"

lemma marshalProfileWrapper_canonical:
  "canonicalWrapper w \<Longrightarrow>
     marshalProfileWrapper w =
       (if length (marshalDocument (docOf w)) > maxProfileDocumentBytes then Inl errProfilePayloadTooBig
        else Inr (marshalDocument (docOf w)))"
  by (simp add: marshalProfileWrapper_def canonicalWrapper_def Normalize_fixed wrapper_json_doc marshalDocument_def Let_def)

lemma strict_doc_agree: "strictJSONObject data = Inr fs \<longleftrightarrow> decodeStrictJSONObject data = Inr fs"
  by (auto simp: strictJSONObject_def decodeStrictJSONObject_def split: option.splits json.splits)

lemma json_int64_range: "json_int64 v = Some i \<Longrightarrow> - (2 ^ 63) \<le> i \<and> i < 2 ^ 63"
  by (cases v) (auto dest: ParseInt64_range)

text \<open>A wrapper that decodes is canonical, and the file is its canonical text; and conversely.\<close>

lemma decodeProfileWrapper_canonical:
  assumes "decodeProfileWrapper data = Inr w"
  shows "canonicalWrapper w \<and> pw_Revision w < 2 ^ 63 \<and> data = marshalDocument (docOf w)
    \<and> length data \<le> maxProfileDocumentBytes"
proof -
  obtain raw p where w: "w = \<lparr>pw_SchemaVersion = profileSchemaVersion, pw_Revision = pw_Revision w, pw_Profile = pw_Profile w\<rparr>"
    "json_int64 raw = Some (pw_Revision w)" "1 \<le> pw_Revision w" "NormalizeAgentProfile p = Inr (pw_Profile w)"
    "marshalProfileWrapper w = Inr data" "length data \<le> maxProfileDocumentBytes"
    using assms
    by (auto simp: decodeProfileWrapper_def Inr_iffs Let_def)
  have "canonicalWrapper w"
    unfolding canonicalWrapper_def
    using w(1,3) Normalize_canonical [OF w(4)] by (metis profileWrapper.select_convs(1))
  then show ?thesis
    using w(5,6) json_int64_range [OF w(2)] by (auto simp: marshalProfileWrapper_canonical split: if_splits)
qed

lemma decodeProfileWrapper_marshal:
  assumes "canonicalWrapper w" "pw_Revision w < 2 ^ 63" "length (marshalDocument (docOf w)) \<le> maxProfileDocumentBytes"
  shows "decodeProfileWrapper (marshalDocument (docOf w)) = Inr w"
proof -
  have "utf8Profile (doc_Profile (docOf w))"
    using assms(1) by (simp add: docOf_def canonicalWrapper_def canonicalProfile_def validProfile_utf8)
  note fields = decodeStrict_document [OF this, folded strict_doc_agree]
  have "marshalDocument (docOf w) \<noteq> []"
    by (simp add: marshalDocument_def document_json_def)
  moreover have "profile_json p \<noteq> JNull" for p by (simp add: profile_json_def)
  ultimately show ?thesis
    using assms fields marshalProfileWrapper_canonical [OF assms(1)]
    by (cases w) (simp add: decodeProfileWrapper_def presentField_def json_int_def ParseInt64_FormatInt
        canonicalWrapper_def profileSchemaVersion_def docOf_def Normalize_fixed)
qed

lemma decodeProfileWrapper_Inr:
  "decodeProfileWrapper data = Inr w \<longleftrightarrow> decodeProfileApplyDocument data = Inr (docOf w)"
proof
  assume "decodeProfileWrapper data = Inr w"
  note w = decodeProfileWrapper_canonical [OF this]
  then have "docOf w = \<lparr>doc_SchemaVersion = profileApplySchemaVersion, doc_Revision = pw_Revision w, doc_Profile = pw_Profile w\<rparr>"
    by (simp add: docOf_def canonicalWrapper_def profileSchemaVersion_def profileApplySchemaVersion_def)
  from decodeProfileApplyDocument_marshal [OF _ _ _ this] w
  show "decodeProfileApplyDocument data = Inr (docOf w)"
    by (auto simp: canonicalWrapper_def maxProfileJSONBytes_def maxProfileDocumentBytes_def)
next
  assume d: "decodeProfileApplyDocument data = Inr (docOf w)"
  then have "pw_Revision w < 2 ^ 63"
    by (auto simp: decodeProfileApplyDocument_def andThen_Inr_iff Let_def decodeRequiredJSONField_def docOf_def
        split: if_splits option.splits dest!: json_int64_range)
  with decodeProfileApplyDocument_Inr [OF d] show "decodeProfileWrapper data = Inr w"
    using decodeProfileWrapper_marshal [of w]
    by (auto simp: docOf_def canonicalWrapper_def profileSchemaVersion_def profileApplySchemaVersion_def
        maxProfileJSONBytes_def maxProfileDocumentBytes_def)
qed

section \<open>Files\<close>

text \<open>The regular file at a path: its mode, whether it is synced, its bytes.\<close>

definition reg :: "fsys \<Rightarrow> string \<Rightarrow> (nat \<times> bool \<times> string) option" where
  "reg fs p = (case fs p of Some (FReg m s d) \<Rightarrow> Some (m, s, d) | _ \<Rightarrow> None)"

lemma reg_Some: "reg fs p = Some (m, s, d) \<longleftrightarrow> fs p = Some (FReg m s d)"
  by (auto simp: reg_def split: option.splits fnode.splits)

lemma reg_upd [simp]:
  "reg (fs(p \<mapsto> FReg m s d)) q = (if q = p then Some (m, s, d) else reg fs q)"
  "reg (fs(p \<mapsto> FDir m)) q = (if q = p then None else reg fs q)"
  "reg (fs(p := None)) q = (if q = p then None else reg fs q)"
  by (auto simp: reg_def)

lemma reg_not_file: "fs p = None \<Longrightarrow> reg fs p = None" "fs p = Some (FDir m) \<Longrightarrow> reg fs p = None"
  by (auto simp: reg_def)

definition tempOf :: "string \<Rightarrow> string \<Rightarrow> bool" where
  "tempOf dir p \<longleftrightarrow> (\<exists>n. p = tempName dir profileTempPrefix n)"

text \<open>The files as in \<open>R\<close>, temporary files aside.\<close>

definition offTemp :: "string \<Rightarrow> (string \<Rightarrow> (nat \<times> bool \<times> string) option) \<Rightarrow> fsys \<Rightarrow> bool" where
  "offTemp dir R fs \<longleftrightarrow> (\<forall>p. \<not> tempOf dir p \<longrightarrow> reg fs p = R p)"

lemma offTemp_dir: "offTemp dir R fs \<Longrightarrow> fs p = None \<or> (\<exists>m. fs p = Some (FDir m)) \<Longrightarrow> offTemp dir R (fs(p \<mapsto> FDir m))"
  by (auto simp: offTemp_def reg_not_file)

lemma offTemp_file: "offTemp dir R fs \<Longrightarrow> \<not> tempOf dir p \<Longrightarrow> fs p = Some (FReg m s d) \<Longrightarrow> R p = Some (m, s, d)"
  by (auto simp: offTemp_def simp flip: reg_Some)

text \<open>A program that changes no file but temporary ones, whichever way it ends.\<close>

definition quiet :: "string \<Rightarrow> (string \<Rightarrow> (nat \<times> bool \<times> string) option) \<Rightarrow> ('e, 'a) io \<Rightarrow> bool" where
  "quiet dir R m \<longleftrightarrow> runs (offTemp dir R) m (\<lambda>_. offTemp dir R) (\<lambda>_. offTemp dir R) (offTemp dir R)"

lemma quiet_ret: "quiet dir R (ret x)"
  by (simp add: quiet_def runs_ret)

lemma quiet_throw: "quiet dir R (throw e)"
  by (simp add: quiet_def runs_throw)

lemma quiet_seq: "quiet dir R m \<Longrightarrow> (\<And>x. quiet dir R (f x)) \<Longrightarrow> quiet dir R (seqIO m f)"
  unfolding quiet_def by (rule runs_seq)

lemma quiet_attempt: "quiet dir R m \<Longrightarrow> quiet dir R (attempt m)"
  unfolding quiet_def by (rule runs_attempt)

lemma runs_onError_const: "runs P m Q (\<lambda>_. E) H \<Longrightarrow> runs P (onError g m) Q (\<lambda>_. E) H"
  by (rule runs_onError)

lemma quiet_onError: "quiet dir R m \<Longrightarrow> quiet dir R (onError g m)"
  unfolding quiet_def by (rule runs_onError)

lemma quiet_read:
  assumes "\<And>fs x fs'. f fs = Inr (x, fs') \<Longrightarrow> fs' = fs"
  shows "quiet dir R (syscall f intact)"
  unfolding quiet_def using assms
  by (intro runs_syscall) (auto split: sum.splits)

lemma quiet_calls:
  "quiet dir R (osLstat p)" "quiet dir R (osReadFile p)" "quiet dir R (osChown p)" "quiet dir R (fileClose p)"
  "quiet dir R (osOpen p)" "quiet dir R (dirSync p)" "quiet dir R (runCommand r b as)" "quiet dir R osGeteuid0" "quiet dir R getFS"
  unfolding osLstat_def osReadFile_def osChown_def fileClose_def osOpen_def dirSync_def runCommand_def
  by (rule quiet_read; auto split: option.splits fnode.splits if_splits)+
     (simp_all add: quiet_def runs_def osGeteuid0_def getFS_def)

lemma quiet_mkdir: "quiet dir R (osMkdir p mode)"
  unfolding quiet_def osMkdir_def
  by (intro runs_syscall) (auto simp: offTemp_dir split: option.splits)

lemmas quiet_rules = quiet_ret quiet_throw quiet_seq quiet_attempt quiet_onError quiet_calls quiet_mkdir

lemma quiet_mkdirAll: "quiet dir R (mkdirAll es mode)"
proof (induction es)
  case (Cons e es)
  then show ?case
    by (auto intro!: quiet_rules split: sum.splits fnode.splits)
qed (simp add: quiet_ret)

lemma runs_dir_check:
  "runs (offTemp dir R) (seqIO (osLstat p) checkPrivate)
     (\<lambda>_ fs. offTemp dir R fs \<and> (\<exists>m. fs p = Some (FDir m))) (\<lambda>_. offTemp dir R) (offTemp dir R)"
proof (rule runs_seq [where R = "\<lambda>info fs. offTemp dir R fs \<and> fs p = Some info"])
  show "runs (offTemp dir R) (osLstat p) (\<lambda>info fs. offTemp dir R fs \<and> fs p = Some info) (\<lambda>_. offTemp dir R) (offTemp dir R)"
    unfolding osLstat_def by (rule runs_syscall) (auto split: option.splits)
next
  fix info
  show "runs (\<lambda>fs. offTemp dir R fs \<and> fs p = Some info) (checkPrivate info)
     (\<lambda>_ fs. offTemp dir R fs \<and> (\<exists>m. fs p = Some (FDir m))) (\<lambda>_. offTemp dir R) (offTemp dir R)"
    by (cases info) (auto simp: checkPrivate_def intro: runs_ret runs_throw)
qed

lemma runs_chmod_dir:
  "runs (\<lambda>fs. offTemp dir R fs \<and> (\<exists>m. fs p = Some (FDir m))) (osChmod p mode)
     (\<lambda>_. offTemp dir R) (\<lambda>_. offTemp dir R) (offTemp dir R)"
  unfolding osChmod_def
  by (intro runs_syscall) (auto simp: offTemp_dir)

lemma seqIO_assoc: "seqIO (seqIO m f) g = seqIO m (\<lambda>x. seqIO (f x) g)"
  by (auto simp: seqIO_def fun_eq_iff split: prod.splits io_res.splits)

lemma quiet_ensurePrivateDirectory: "quiet dir R (ensurePrivateDirectory p)"
proof -
  have "quiet dir R (seqIO (seqIO (osLstat p) checkPrivate) (\<lambda>_. seqIO (osChmod p 0x1C0) (\<lambda>_.
          seqIO osGeteuid0 (\<lambda>euid0. if euid0 then osChown p else ret ()))))"
    unfolding quiet_def
    by (rule runs_seq [OF runs_dir_check], rule runs_seq [OF runs_chmod_dir], fold quiet_def)
      (auto intro!: quiet_rules)
  then show ?thesis
    unfolding ensurePrivateDirectory_def osMkdirAll_def seqIO_assoc
    by (auto intro!: quiet_rules quiet_mkdirAll simp: checkPrivate_def split: sum.splits fnode.splits)
qed

text \<open>From the creation of the temporary file on, it alone changes until it takes the place of the target.\<close>

definition atStage :: "string \<Rightarrow> (string \<Rightarrow> (nat \<times> bool \<times> string) option) list \<Rightarrow> fsys \<Rightarrow> bool" where
  "atStage dir Rs fs \<longleftrightarrow> list_ex (\<lambda>R. offTemp dir R fs) Rs"

lemma atStage_in: "offTemp dir R fs \<Longrightarrow> R \<in> set Rs \<Longrightarrow> atStage dir Rs fs"
  by (auto simp: atStage_def list_ex_iff)

lemma quiet_stage:
  "quiet dir R m \<Longrightarrow> R \<in> set Rs \<Longrightarrow> runs (offTemp dir R) m (\<lambda>_. offTemp dir R) (\<lambda>_. atStage dir Rs) (atStage dir Rs)"
  unfolding quiet_def by (erule runs_cons) (auto intro: atStage_in)

lemma runs_createTemp:
  "runs (offTemp dir R) (osCreateTemp dir profileTempPrefix)
     (\<lambda>t fs. offTemp dir R fs \<and> tempOf dir t \<and> fs t = Some (FReg 0x180 False [])) (\<lambda>_. offTemp dir R) (offTemp dir R)"
proof -
  have free: "freeName fs dir profileTempPrefix ns = Some (p, ns') \<Longrightarrow> tempOf dir p" for fs ns p ns'
    by (induction ns) (auto simp: tempOf_def split: if_splits)
  have "runs (offTemp dir R) (syscall (\<lambda>fs. case fs dir of
             Some (FDir _) \<Rightarrow> Inr (p, fs(p \<mapsto> FReg 0x180 False [])) | _ \<Rightarrow> Inl OtherError) intact)
     (\<lambda>t fs. offTemp dir R fs \<and> tempOf dir t \<and> fs t = Some (FReg 0x180 False [])) (\<lambda>_. offTemp dir R) (offTemp dir R)"
    if "tempOf dir p" for p
    using that by (intro runs_syscall) (auto simp: offTemp_def split: option.splits fnode.splits)
  note call = this
  show ?thesis
    unfolding runs_def
  proof (intro allI impI)
    fix w :: world assume w: "offTemp dir R (w_fs w)"
    show "case osCreateTemp dir profileTempPrefix w of
        (Ret t, w') \<Rightarrow> offTemp dir R (w_fs w') \<and> tempOf dir t \<and> w_fs w' t = Some (FReg 0x180 False [])
      | (Raise _, w') \<Rightarrow> offTemp dir R (w_fs w') | (Dead, w') \<Rightarrow> offTemp dir R (w_fs w')"
    proof (cases "freeName (w_fs w) dir profileTempPrefix (w_rands w)")
      case (Some pn)
      obtain p ns where pn: "pn = (p, ns)" by (cases pn)
      then have "tempOf dir p" using free Some by simp
      from call [OF this, unfolded runs_def, rule_format, of "w\<lparr>w_rands := ns\<rparr>"] w
      show ?thesis by (simp add: osCreateTemp_def Some pn)
    qed (simp add: osCreateTemp_def w)
  qed
qed

lemma runs_publish:
  assumes t: "tempOf dir t" and f: "\<not> tempOf dir f"
  shows "runs (\<lambda>fs. offTemp dir R fs \<and> fs t = Some (FReg 0x180 False [])) (publish t f data)
     (\<lambda>_. offTemp dir (R(f \<mapsto> (0x180, True, data)))) (\<lambda>_. offTemp dir R) (offTemp dir R)"
proof -
  let ?P = "\<lambda>s d fs. offTemp dir R fs \<and> fs t = Some (FReg 0x180 s d)"
  let ?E = "\<lambda>_. offTemp dir R" and ?H = "offTemp dir R"
  have upd: "offTemp dir R fs \<Longrightarrow> offTemp dir R (fs(t \<mapsto> x))" for fs x
    using t by (cases x) (auto simp: offTemp_def reg_def)
  have append: "?P False [] fs \<Longrightarrow> offTemp dir R (appendTo t d fs)" for fs d
    using upd by (auto simp: appendTo_def)
  have chmod: "runs (?P False []) (osChmod t 0x180) (\<lambda>_. ?P False []) ?E ?H"
    unfolding osChmod_def by (intro runs_syscall) (auto simp: upd)
  have euid: "runs (?P False []) osGeteuid0 (\<lambda>_. ?P False []) ?E ?H"
    by (simp add: runs_def osGeteuid0_def)
  have chown: "runs (?P False []) (if b then osChown t else ret ()) (\<lambda>_. ?P False []) ?E ?H" for b
    unfolding osChown_def by (auto intro!: runs_syscall runs_ret)
  have wr: "runs (?P False []) (fileWrite t data) (\<lambda>_. ?P False data) ?E ?H"
    unfolding fileWrite_def using append by (intro runs_syscall) (auto simp: appendTo_def upd)
  have sync: "runs (?P False data) (fileSync t) (\<lambda>_. ?P True data) ?E ?H"
    unfolding fileSync_def by (intro runs_syscall) (auto simp: upd)
  have close: "runs (?P True data) (fileClose t) (\<lambda>_. ?P True data) ?E ?H"
    unfolding fileClose_def by (intro runs_syscall) auto
  have rename: "runs (?P True data) (osRename t f) (\<lambda>_. offTemp dir (R(f \<mapsto> (0x180, True, data)))) ?E ?H"
    unfolding osRename_def using t f
    by (intro runs_syscall) (auto simp: offTemp_def split: option.splits fnode.splits)
  show ?thesis
    unfolding publish_def
    by (rule runs_seq [OF chmod], rule runs_seq [OF euid], rule runs_seq [OF chown], rule runs_seq [OF wr],
        rule runs_seq [OF sync], rule runs_seq [OF close], rule rename)
qed

lemma quiet_remove: "tempOf dir t \<Longrightarrow> quiet dir R (osRemove t)"
  unfolding quiet_def osRemove_def by (intro runs_syscall) (auto simp: offTemp_def)

abbreviation privateFile :: "string \<Rightarrow> nat \<times> bool \<times> string" where
  "privateFile data \<equiv> (0x180, True, data)"

lemma runs_writeAtomic:
  assumes f: "f = dir @ ''/'' @ e" "cleanDir dir" "plain_elem e" "\<not> tempOf dir f"
    and Rs: "R \<in> set Rs" "R(f \<mapsto> privateFile data) \<in> set Rs"
  shows "runs (offTemp dir R) (writeAtomicProfileFile f data) (\<lambda>_. offTemp dir (R(f \<mapsto> privateFile data)))
     (\<lambda>_. atStage dir Rs) (atStage dir Rs)"
proof -
  let ?R' = "R(f \<mapsto> privateFile data)"
  have dir: "DirOf f = dir" using f(1-3) DirOf_snoc by (simp add: plain_elem_def)
  have temp: "runs (offTemp dir R) (osCreateTemp dir profileTempPrefix)
     (\<lambda>t fs. offTemp dir R fs \<and> tempOf dir t \<and> fs t = Some (FReg 0x180 False [])) (\<lambda>_. atStage dir Rs) (atStage dir Rs)"
    by (rule runs_cons [OF runs_createTemp]) (use Rs in \<open>auto intro: atStage_in\<close>)
  have pub: "runs (\<lambda>fs. offTemp dir R fs \<and> tempOf dir t \<and> fs t = Some (FReg 0x180 False [])) (attempt (publish t f data))
     (\<lambda>r fs. (r = Inr () \<and> offTemp dir ?R' fs) \<or> (\<exists>e. r = Inl e) \<and> tempOf dir t \<and> offTemp dir R fs) (\<lambda>_. atStage dir Rs) (atStage dir Rs)" for t
  proof (cases "tempOf dir t")
    case True
    show ?thesis
      by (rule runs_attempt, rule runs_cons [OF runs_publish [OF True f(4)]]) (use True Rs in \<open>auto intro: atStage_in\<close>)
  qed (simp add: runs_def)
  have clean: "runs (\<lambda>fs. (r = Inr () \<and> offTemp dir ?R' fs) \<or> (\<exists>e. r = Inl e) \<and> tempOf dir t \<and> offTemp dir R fs)
     (case r of
        Inl e \<Rightarrow> seqIO (attempt (osRemove t)) (\<lambda>(_ :: os_error + unit). throw e)
      | Inr _ \<Rightarrow> syncProfileDirectory dir) (\<lambda>_. offTemp dir ?R') (\<lambda>_. atStage dir Rs) (atStage dir Rs)" for r t
  proof (cases r)
    case (Inl e)
    show ?thesis
    proof (cases "tempOf dir t")
      case True
      have "runs (offTemp dir R) (seqIO (attempt (osRemove t)) (\<lambda>(_ :: os_error + unit). throw e)) (\<lambda>_. offTemp dir ?R')
          (\<lambda>_. atStage dir Rs) (atStage dir Rs)"
        by (rule runs_seq [OF quiet_stage [OF quiet_attempt [OF quiet_remove [OF True]] Rs(1)]])
          (rule runs_throw, rule atStage_in [OF _ Rs(1)])
      then show ?thesis by (simp add: Inl True)
    qed (simp add: Inl runs_def)
  next
    case (Inr x)
    have "quiet dir ?R' (syncProfileDirectory dir)"
      unfolding syncProfileDirectory_def by (intro quiet_rules)
    from quiet_stage [OF this Rs(2)] show ?thesis by (simp add: Inr)
  qed
  have check: "quiet dir R (case r of Inr (FReg _ _ _) \<Rightarrow> ret () | Inr _ \<Rightarrow> throw OtherError
      | Inl e \<Rightarrow> if e = NotExist then ret () else throw e)" for r
    by (auto intro: quiet_rules split: sum.splits fnode.splits)
  show ?thesis
    unfolding writeAtomicProfileFile_def dir Let_def
    by (rule runs_seq [OF quiet_stage [OF quiet_ensurePrivateDirectory Rs(1)]],
        rule runs_seq [OF quiet_stage [OF quiet_attempt [OF quiet_calls(1)] Rs(1)]],
        rule runs_seq [OF quiet_stage [OF check Rs(1)]],
        rule runs_seq [OF temp], rule runs_seq [OF pub], rule clean)
qed

section \<open>The state document\<close>

lemma json_roundtrip_newline:
  assumes "json_clean v" "json_depth v \<le> d"
  shows "json_parse d (json_print v @ [CHR 0x0A]) = Some v"
proof -
  have "json_lex (json_print v @ [CHR 0x0A]) = Some (toks v)"
    using json_lex_print(1) [OF assms(1), of "[CHR 0x0A]"] by (simp add: json_ws_def stops_num_def num_char_def asciiDigit_def)
  moreover have "prun d [] PVal (toks v) = Some v"
    using prun_toks(1) [of "[]" v d "[]"] assms(2) by simp
  ultimately show ?thesis by (simp add: json_parse_def)
qed

definition goodState :: "profileStateDocument \<Rightarrow> bool" where
  "goodState st \<longleftrightarrow> sd_SchemaVersion st = profileSchemaVersion \<and> 1 \<le> sd_Revision st \<and> sd_Revision st < 2 ^ 63
     \<and> sd_State st \<in> {profileStatePendingRestart, profileStateActive, profileStateFailed}
     \<and> (sd_ErrorCode st = [] \<or> sd_State st = profileStateFailed \<and> sd_ErrorCode st \<in> set localErrorCodes)"

lemma dec_str_length: "n < 10 ^ k \<Longrightarrow> 0 < k \<Longrightarrow> length (dec_str n) \<le> k"
proof (induction n arbitrary: k rule: dec_str.induct)
  case (1 n)
  show ?case
  proof (cases "n < 10")
    case False
    obtain k' where k: "k = Suc k'" using "1.prems" by (cases k) auto
    with False "1.prems" have "0 < k'" by (cases k') auto
    moreover have "n div 10 < 10 ^ k'" using "1.prems" by (simp add: k div_less_iff_less_mult mult.commute)
    ultimately show ?thesis using "1.IH" False by (subst dec_str.simps) (simp add: k)
  qed (use "1.prems" in \<open>simp add: dec_str.simps\<close>)
qed

lemma FormatInt_length: "0 \<le> i \<Longrightarrow> i < 2 ^ 63 \<Longrightarrow> length (FormatInt i) \<le> 19"
  using dec_str_length [of "nat i" 19] by (simp add: FormatInt_def)

lemma state_words:
  "list_all (\<lambda>c. list_all plain_char c \<and> length c \<le> 30)
     ([profileStatePendingRestart, profileStateActive, profileStateFailed] @ localErrorCodes)"
  by (simp add: localErrorCodes_def hub_consts plain_char_def)

lemma plain_utf8: "list_all plain_char c \<Longrightarrow> utf8_valid c"
  by (rule utf8_valid_ascii) (auto simp: plain_char_def list_all_iff)

lemma state_plain:
  assumes "goodState st"
  shows "list_all plain_char (sd_State st)" "list_all plain_char (sd_ErrorCode st)"
    "length (sd_State st) \<le> 30" "length (sd_ErrorCode st) \<le> 30"
  using assms state_words by (auto simp: goodState_def list_all_iff)

lemma decodeState_marshal:
  assumes "goodState st"
  shows "decodeState (json_print (state_json st) @ [CHR 0x0A]) = Inr st"
proof -
  note plain = state_plain [OF assms]
  have keys: "enc_str ''schema_version'' = DQ # ''schema_version'' @ [DQ]" "enc_str ''state'' = DQ # ''state'' @ [DQ]"
    "enc_str ''revision'' = DQ # ''revision'' @ [DQ]" "enc_str ''error_code'' = DQ # ''error_code'' @ [DQ]"
    by (rule enc_str_plain, simp add: plain_char_def)+
  have clean: "json_clean (state_json st)" "json_depth (state_json st) \<le> maxNestingDepth"
    using plain by (auto simp: state_json_def json_int_def valid_num_FormatInt num_char_FormatInt ascii_key plain_utf8 maxNestingDepth_def)
  have "unmarshalState (json_print (state_json st) @ [CHR 0x0A]) = Some st"
    unfolding unmarshalState_def json_roundtrip_newline [OF clean]
    using assms
    by (cases st) (auto simp: struct_members_def state_json_def field_of_def get_field_def json_int_def ParseInt64_FormatInt
        goodState_def profileSchemaVersion_def)
  moreover have "length (json_print (state_json st) @ [CHR 0x0A]) \<le> maxProfileDocumentBytes"
    using assms plain keys FormatInt_length [of "sd_Revision st"] FormatInt_length [of "sd_SchemaVersion st"]
    by (auto simp: state_json_def json_int_def maxProfileDocumentBytes_def goodState_def profileSchemaVersion_def enc_str_plain)
  ultimately show ?thesis
    using assms by (auto simp: decodeState_def goodState_def safeProfileErrorCode_def Let_def)
qed

section \<open>The store\<close>

lemma store_paths:
  assumes "cleanDir sd"
  shows "directory (newProfileStore sd) = sd @ ''/profile''" "cleanDir (sd @ ''/profile'')"
    "candidatePath (newProfileStore sd) = sd @ ''/profile'' @ ''/'' @ ''candidate.json''"
    "activePath (newProfileStore sd) = sd @ ''/profile'' @ ''/'' @ ''active.json''"
    "previousPath (newProfileStore sd) = sd @ ''/profile'' @ ''/'' @ ''previous.json''"
    "statePath (newProfileStore sd) = sd @ ''/profile'' @ ''/'' @ ''state.json''"
proof -
  show dir: "directory (newProfileStore sd) = sd @ ''/profile''" and clean: "cleanDir (sd @ ''/profile'')"
    using Join_clean [OF assms, of "''profile''"] cleanDir_snoc [OF assms, of "''profile''"]
    by (simp_all add: directory_def newProfileStore_def profileDirectoryName_def plain_elem_def)
  have "Join (sd @ ''/profile'') e = sd @ ''/profile'' @ ''/'' @ e" if "plain_elem e" for e
    using Join_clean [OF clean that] by simp
  then show "candidatePath (newProfileStore sd) = sd @ ''/profile'' @ ''/'' @ ''candidate.json''"
    "activePath (newProfileStore sd) = sd @ ''/profile'' @ ''/'' @ ''active.json''"
    "previousPath (newProfileStore sd) = sd @ ''/profile'' @ ''/'' @ ''previous.json''"
    "statePath (newProfileStore sd) = sd @ ''/profile'' @ ''/'' @ ''state.json''"
    by (simp_all add: candidatePath_def activePath_def previousPath_def statePath_def dir plain_elem_def
        profileCandidateFileName_def profileActiveFileName_def profilePreviousFileName_def profileStateFileName_def)
qed

lemma store_names:
  "\<not> tempOf (sd @ ''/profile'') (sd @ ''/profile'' @ ''/'' @ ''candidate.json'')"
  "\<not> tempOf (sd @ ''/profile'') (sd @ ''/profile'' @ ''/'' @ ''active.json'')"
  "\<not> tempOf (sd @ ''/profile'') (sd @ ''/profile'' @ ''/'' @ ''previous.json'')"
  "\<not> tempOf (sd @ ''/profile'') (sd @ ''/profile'' @ ''/'' @ ''state.json'')"
  by (auto simp: tempOf_def tempName_def profileTempPrefix_def)

lemma store_files:
  assumes "cleanDir sd"
  defines "s \<equiv> newProfileStore sd"
  shows "\<not> tempOf (directory s) (candidatePath s)" "\<not> tempOf (directory s) (activePath s)"
    "\<not> tempOf (directory s) (previousPath s)" "\<not> tempOf (directory s) (statePath s)"
    "distinct [candidatePath s, activePath s, previousPath s, statePath s]"
  unfolding s_def store_paths [OF assms(1)] by (rule store_names | simp)+

text \<open>What a read returns is what the file holds.\<close>

definition holdsWrapper :: "(nat \<times> bool \<times> string) option \<Rightarrow> profileWrapper option \<Rightarrow> bool" where
  "holdsWrapper file r \<longleftrightarrow>
     (case r of None \<Rightarrow> file = None
      | Some w \<Rightarrow> (\<exists>m b. file = Some (m, b, marshalDocument (docOf w))) \<and> canonicalWrapper w \<and> pw_Revision w < 2 ^ 63
                  \<and> length (marshalDocument (docOf w)) \<le> maxProfileDocumentBytes)"

lemma runs_readRegular:
  assumes "ps_readFile s = osReadFile" "\<not> tempOf dir f"
  shows "runs (offTemp dir R) (readRegular s f corrupt)
     (\<lambda>r fs. offTemp dir R fs \<and> (case r of None \<Rightarrow> R f = None | Some d \<Rightarrow> \<exists>m b. R f = Some (m, b, d)))
     (\<lambda>_. offTemp dir R) (offTemp dir R)"
proof -
  let ?I = "\<lambda>r fs. offTemp dir R fs \<and> (case r of Inl e \<Rightarrow> e = NotExist \<longrightarrow> R f = None | Inr x \<Rightarrow> fs f = Some x)"
  have lstat: "runs (offTemp dir R) (attempt (osLstat f)) ?I (\<lambda>_. offTemp dir R) (offTemp dir R)"
    unfolding osLstat_def using assms(2)
    by (intro runs_attempt runs_syscall) (auto simp: offTemp_def reg_not_file split: option.splits)
  have read: "runs (\<lambda>fs. offTemp dir R fs \<and> fs f = Some (FReg m b d)) (osReadFile f)
     (\<lambda>r fs. offTemp dir R fs \<and> (\<exists>m b. R f = Some (m, b, r))) (\<lambda>_. offTemp dir R) (offTemp dir R)" for m b d
    unfolding osReadFile_def by (intro runs_syscall) (auto dest: offTemp_file [OF _ assms(2)])
  have rest: "runs (?I r) (case r of
         Inl e \<Rightarrow> if e = NotExist then ret None else throw errProfileOther
       | Inr (FReg _ _ _) \<Rightarrow> seqIO (liftIO (ps_readFile s f)) (\<lambda>data. ret (Some data))
       | Inr _ \<Rightarrow> throw corrupt)
     (\<lambda>r fs. offTemp dir R fs \<and> (case r of None \<Rightarrow> R f = None | Some d \<Rightarrow> \<exists>m b. R f = Some (m, b, d)))
     (\<lambda>_. offTemp dir R) (offTemp dir R)" for r
    by (auto simp: assms(1) liftIO_def intro!: runs_ret runs_throw runs_seq [OF runs_onError_const [OF read]]
        split: sum.splits fnode.splits)
  show ?thesis unfolding readRegular_def by (rule runs_seq [OF lstat rest])
qed

lemma runs_readWrapper:
  assumes "ps_readFile s = osReadFile" "\<not> tempOf dir f"
  shows "runs (offTemp dir R) (readWrapper s f) (\<lambda>r fs. offTemp dir R fs \<and> holdsWrapper (R f) r)
     (\<lambda>_. offTemp dir R) (offTemp dir R)"
  unfolding readWrapper_def
  by (rule runs_seq [OF runs_readRegular [OF assms]])
    (auto intro!: runs_ret runs_throw runs_seq [where R = "\<lambda>w fs. offTemp dir R fs \<and> holdsWrapper (R f) (Some w)"]
      dest: decodeProfileWrapper_canonical
      simp: liftResult_def holdsWrapper_def split: option.splits sum.splits)

lemma runs_readState:
  assumes "ps_readFile s = osReadFile" "\<not> tempOf dir (statePath s)"
  shows "runs (offTemp dir R) (readState s)
     (\<lambda>r fs. offTemp dir R fs \<and> (case r of None \<Rightarrow> R (statePath s) = None
        | Some st \<Rightarrow> \<exists>m b d. R (statePath s) = Some (m, b, d) \<and> decodeState d = Inr st))
     (\<lambda>_. offTemp dir R) (offTemp dir R)"
  unfolding readState_def
  by (rule runs_seq [OF runs_readRegular [OF assms]])
    (auto intro!: runs_ret runs_throw runs_seq [where R = "\<lambda>st fs. offTemp dir R fs \<and>
        (\<exists>m b d. R (statePath s) = Some (m, b, d) \<and> decodeState d = Inr st)"]
      simp: liftResult_def split: option.splits sum.splits)


text \<open>The stages through which an apply takes the files of the store.\<close>

definition wrapperText :: "profileWrapper \<Rightarrow> string" where
  "wrapperText w = marshalDocument (docOf w)"

definition pendingState :: "int \<Rightarrow> profileStateDocument" where
  "pendingState r = \<lparr>sd_SchemaVersion = profileSchemaVersion, sd_State = profileStatePendingRestart, sd_Revision = r, sd_ErrorCode = []\<rparr>"

definition failedState :: "int \<Rightarrow> profileStateDocument" where
  "failedState r = \<lparr>sd_SchemaVersion = profileSchemaVersion, sd_State = profileStateFailed, sd_Revision = r,
     sd_ErrorCode = profileErrorSchedule\<rparr>"

definition stateText :: "profileStateDocument \<Rightarrow> string" where
  "stateText st = json_print (state_json st) @ [CHR 0x0A]"

definition withPrevious ::
  "profileStore \<Rightarrow> profileWrapper option \<Rightarrow> (string \<Rightarrow> (nat \<times> bool \<times> string) option) \<Rightarrow> string \<Rightarrow> (nat \<times> bool \<times> string) option" where
  "withPrevious s active R = (case active of None \<Rightarrow> R | Some a \<Rightarrow> R(previousPath s \<mapsto> privateFile (wrapperText a)))"

definition withCandidate ::
  "profileStore \<Rightarrow> profileWrapper option \<Rightarrow> profileWrapper \<Rightarrow> (string \<Rightarrow> (nat \<times> bool \<times> string) option) \<Rightarrow> string \<Rightarrow> (nat \<times> bool \<times> string) option" where
  "withCandidate s active w R = (withPrevious s active R)(candidatePath s \<mapsto> privateFile (wrapperText w))"

definition withState ::
  "profileStore \<Rightarrow> profileWrapper option \<Rightarrow> profileWrapper \<Rightarrow> profileStateDocument \<Rightarrow> (string \<Rightarrow> (nat \<times> bool \<times> string) option) \<Rightarrow> string \<Rightarrow> (nat \<times> bool \<times> string) option" where
  "withState s active w st R = (withCandidate s active w R)(statePath s \<mapsto> privateFile (stateText st))"

definition applyStages ::
  "profileStore \<Rightarrow> profileWrapper option \<Rightarrow> profileWrapper \<Rightarrow> (string \<Rightarrow> (nat \<times> bool \<times> string) option) \<Rightarrow> (string \<Rightarrow> (nat \<times> bool \<times> string) option) list" where
  "applyStages s active w R =
     [R, withPrevious s active R, withCandidate s active w R, withState s active w (pendingState (pw_Revision w)) R,
      withState s active w (failedState (pw_Revision w)) R]"

lemma goodState_written:
  "1 \<le> r \<Longrightarrow> r < 2 ^ 63 \<Longrightarrow> goodState (pendingState r)"
  "1 \<le> r \<Longrightarrow> r < 2 ^ 63 \<Longrightarrow> goodState (failedState r)"
  by (simp_all add: goodState_def pendingState_def failedState_def localErrorCodes_def)

lemma runs_writeWrapper:
  assumes w: "marshalProfileWrapper w = Inr (wrapperText w)"
    and f: "f = dir @ ''/'' @ e" "cleanDir dir" "plain_elem e" "\<not> tempOf dir f"
    and Rs: "R \<in> set Rs" "R(f \<mapsto> privateFile (wrapperText w)) \<in> set Rs"
  shows "runs (offTemp dir R) (storeFailed (writeWrapper f w)) (\<lambda>_. offTemp dir (R(f \<mapsto> privateFile (wrapperText w))))
     (\<lambda>_. atStage dir Rs) (atStage dir Rs)"
proof -
  have "writeWrapper f w = liftIO (writeAtomicProfileFile f (wrapperText w))"
    by (simp add: writeWrapper_def w liftResult_def seqIO_def ret_def)
  then show ?thesis
    using runs_writeAtomic [OF f Rs] unfolding storeFailed_def liftIO_def by (auto intro!: runs_onError)
qed

lemma writeState_lift:
  assumes "goodState st"
  shows "writeState s st = liftIO (writeAtomicProfileFile (statePath s) (stateText st))"
proof -
  have "length (stateText st) \<le> maxProfileDocumentBytes"
    using decodeState_marshal [OF assms] by (auto simp: decodeState_def stateText_def split: if_splits)
  moreover have "sd_SchemaVersion st \<noteq> 0" using assms by (simp add: goodState_def profileSchemaVersion_def)
  ultimately show ?thesis by (simp add: writeState_def stateText_def Let_def)
qed

lemma runs_writeState:
  assumes st: "goodState st"
    and f: "statePath s = dir @ ''/'' @ e" "cleanDir dir" "plain_elem e" "\<not> tempOf dir (statePath s)"
    and Rs: "R \<in> set Rs" "R(statePath s \<mapsto> privateFile (stateText st)) \<in> set Rs"
  shows "runs (offTemp dir R) (writeState s st) (\<lambda>_. offTemp dir (R(statePath s \<mapsto> privateFile (stateText st))))
     (\<lambda>_. atStage dir Rs) (atStage dir Rs)"
  using runs_writeAtomic [OF f Rs] unfolding writeState_lift [OF st] liftIO_def by (rule runs_onError_const)

lemma quiet_ensureDirectory: "quiet dir R (ensureDirectory s)"
  unfolding ensureDirectory_def by (auto intro!: quiet_rules quiet_ensurePrivateDirectory)

lemma quiet_ready: "quiet dir R (ready c)"
  unfolding ready_def executableReady_def regularExecutable_def
  by (auto intro!: quiet_rules split: option.splits sum.splits fnode.splits)

lemma quiet_schedule: "quiet dir R (scheduleProfileApply r b i)"
  unfolding scheduleProfileApply_def by (auto intro!: quiet_rules split: option.splits)

lemma runs_stageCandidate:
  assumes sd: "cleanDir sd" and s: "pc_store c = newProfileStore sd"
    and w: "marshalProfileWrapper w = Inr (wrapperText w)" "1 \<le> pw_Revision w" "pw_Revision w < 2 ^ 63"
    and a: "\<And>a. active = Some a \<Longrightarrow> marshalProfileWrapper a = Inr (wrapperText a)"
  shows "runs (offTemp (sd @ ''/profile'') R) (stageCandidate c w active)
     (\<lambda>o' fs. offTemp (sd @ ''/profile'') (withState (pc_store c) active w (pendingState (pw_Revision w)) R) fs
        \<and> o' = \<lparr>po_State = ProfileApplyResultRestartScheduled, po_Revision = pw_Revision w\<rparr>)
     (\<lambda>_. atStage (sd @ ''/profile'') (applyStages (pc_store c) active w R))
     (atStage (sd @ ''/profile'') (applyStages (pc_store c) active w R))"
proof -
  let ?dir = "sd @ ''/profile''" and ?s = "newProfileStore sd"
  let ?Rs = "applyStages ?s active w R" and ?E = "atStage (sd @ ''/profile'') (applyStages ?s active w R)"
  note paths = store_paths [OF sd] and names = store_names [of sd]
  let ?R1 = "withPrevious ?s active R" and ?R2 = "withCandidate ?s active w R"
  let ?R3 = "withState ?s active w (pendingState (pw_Revision w)) R"
  let ?R4 = "withState ?s active w (failedState (pw_Revision w)) R"
  have in_Rs: "R \<in> set ?Rs" "?R1 \<in> set ?Rs" "?R2 \<in> set ?Rs" "?R3 \<in> set ?Rs" "?R4 \<in> set ?Rs"
    by (simp_all add: applyStages_def)
  have elems: "plain_elem ''candidate.json''" "plain_elem ''previous.json''" "plain_elem ''state.json''"
    by (simp_all add: plain_elem_def)
  have 1: "runs (offTemp ?dir R) (case active of None \<Rightarrow> ret () | Some a \<Rightarrow> storeFailed (writeWrapper (previousPath ?s) a))
      (\<lambda>_. offTemp ?dir ?R1) (\<lambda>_. ?E) ?E"
  proof (cases active)
    case (Some a)
    show ?thesis
      using runs_writeWrapper [OF assms(6) [OF Some] _ paths(2) elems(2) _ in_Rs(1), of "previousPath ?s"] in_Rs(2) names(3)
      by (simp add: Some withPrevious_def paths)
  qed (simp add: withPrevious_def runs_ret)
  have 2: "runs (offTemp ?dir ?R1) (storeFailed (writeWrapper (candidatePath ?s) w)) (\<lambda>_. offTemp ?dir ?R2) (\<lambda>_. ?E) ?E"
    using runs_writeWrapper [OF w(1) _ paths(2) elems(1) _ in_Rs(2), of "candidatePath ?s"] in_Rs(3) names(1)
    by (simp add: withCandidate_def paths)
  have 3: "runs (offTemp ?dir ?R2) (writeState ?s (pendingState (pw_Revision w))) (\<lambda>_. offTemp ?dir ?R3) (\<lambda>_. ?E) ?E"
    using runs_writeState [OF goodState_written(1) [OF w(2,3)] _ paths(2) elems(3) _ in_Rs(3)] in_Rs(4) names(4)
    by (simp add: withState_def paths)
  have 4: "runs (offTemp ?dir ?R3) (writeState ?s (failedState (pw_Revision w))) (\<lambda>_. offTemp ?dir ?R4) (\<lambda>_. ?E) ?E"
    using runs_writeState [OF goodState_written(2) [OF w(2,3)] _ paths(2) elems(3) _ in_Rs(4)] in_Rs(5) names(4)
    by (simp add: withState_def paths)
  have fail: "runs (offTemp ?dir ?R3) (seqIO (attempt (writeState ?s (failedState (pw_Revision w)))) (\<lambda>_. throw profileErrorSchedule))
      (\<lambda>o' fs. offTemp ?dir ?R3 fs \<and> o' = \<lparr>po_State = ProfileApplyResultRestartScheduled, po_Revision = pw_Revision w\<rparr>) (\<lambda>_. ?E) ?E"
    by (rule runs_seq [where R = "\<lambda>_. ?E"], rule runs_attempt, rule runs_cons [OF 4])
      (auto intro: atStage_in [OF _ in_Rs(5)] runs_throw)
  have ens: "quiet ?dir R (storeFailed (ensureDirectory ?s))"
    unfolding storeFailed_def by (rule quiet_onError [OF quiet_ensureDirectory])
  show ?thesis
    unfolding stageCandidate_def s Let_def storeFailed_def [of "writeState _ _"]
      pendingState_def [symmetric] failedState_def [symmetric]
    by (rule runs_seq [OF quiet_stage [OF ens in_Rs(1)]], rule runs_seq [OF 1], rule runs_seq [OF 2],
        rule runs_seq [OF runs_onError_const [OF 3]],
        rule runs_seq [OF quiet_stage [OF quiet_attempt [OF quiet_schedule] in_Rs(4)]])
      (auto intro!: runs_ret fail split: sum.splits)
qed

lemma holdsWrapper_marshal:
  "holdsWrapper file (Some a) \<Longrightarrow> marshalProfileWrapper a = Inr (wrapperText a)"
  by (auto simp: holdsWrapper_def marshalProfileWrapper_canonical wrapperText_def)

text \<open>What an apply can leave behind: the stages for what the active file holds.\<close>

definition applied ::
  "profileStore \<Rightarrow> profileWrapper \<Rightarrow> (string \<Rightarrow> (nat \<times> bool \<times> string) option) \<Rightarrow> fsys \<Rightarrow> bool" where
  "applied s w R fs \<longleftrightarrow>
     (\<exists>active. holdsWrapper (R (activePath s)) active \<and> atStage (directory s) (applyStages s active w R) fs)"

lemma runs_apply:
  assumes sd: "cleanDir sd" and s: "pc_store c = newProfileStore sd" and p: "decodeProfileTaskPayload payload = Inr w"
    and w: "marshalProfileWrapper w = Inr (wrapperText w)" "1 \<le> pw_Revision w" "pw_Revision w < 2 ^ 63"
  shows "runs (offTemp (directory (pc_store c)) R) (applyProfile c payload)
     (\<lambda>o' fs. po_Revision o' = pw_Revision w \<and> validProfileApplyResultState (po_State o')
        \<and> (offTemp (directory (pc_store c)) R fs \<or> applied (pc_store c) w R fs))
     (\<lambda>_ fs. offTemp (directory (pc_store c)) R fs \<or> applied (pc_store c) w R fs)
     (\<lambda>fs. offTemp (directory (pc_store c)) R fs \<or> applied (pc_store c) w R fs)"
proof -
  let ?dir = "sd @ ''/profile''" and ?s = "newProfileStore sd"
  let ?E = "\<lambda>fs. offTemp ?dir R fs \<or> applied ?s w R fs"
  let ?Q = "\<lambda>o' fs. po_Revision o' = pw_Revision w \<and> validProfileApplyResultState (po_State o') \<and> ?E fs"
  note paths = store_paths [OF sd] and names = store_names [of sd, simplified]
  have rd: "ps_readFile ?s = osReadFile" by (simp add: newProfileStore_def)
  have act: "runs (offTemp ?dir R) (onError (\<lambda>_. profileErrorCorrupt) (readWrapper ?s (activePath ?s)))
      (\<lambda>a fs. offTemp ?dir R fs \<and> holdsWrapper (R (activePath ?s)) a) (\<lambda>_. ?E) ?E"
    by (rule runs_onError_const, rule runs_cons [OF runs_readWrapper [OF rd]]) (auto simp: paths names)
  have st: "runs (offTemp ?dir R) (onError (\<lambda>_. profileErrorStateCorrupt) (readState ?s)) (\<lambda>_. offTemp ?dir R) (\<lambda>_. ?E) ?E"
    by (rule runs_onError_const, rule runs_cons [OF runs_readState [OF rd]]) (auto simp: paths names)
  have stage: "runs (offTemp ?dir R) (stageCandidate c w a) ?Q (\<lambda>_. ?E) ?E" if "holdsWrapper (R (activePath ?s)) a" for a
    using that
    by (intro runs_cons [OF runs_stageCandidate [OF sd s w, of a R]])
      (auto simp: s applied_def paths validProfileApplyResultState_def dest: holdsWrapper_marshal
        intro!: exI [of _ a] intro: atStage_in simp: applyStages_def)
  have answer: "runs (offTemp ?dir R) (liftResult r) ?Q (\<lambda>_. ?E) ?E"
    if "activeDecision (pw_Revision w) a = Some r \<or> pendingDecision (pw_Revision w) state = Some r" for r a state
    using that
    by (auto simp: liftResult_def activeDecision_def pendingDecision_def validProfileApplyResultState_def
        intro!: runs_ret runs_throw split: option.splits if_splits)
  have decide: "runs (\<lambda>fs. offTemp ?dir R fs \<and> holdsWrapper (R (activePath ?s)) a)
      (case activeDecision (pw_Revision w) a of
         Some r \<Rightarrow> liftResult r
       | None \<Rightarrow> (case pendingDecision (pw_Revision w) state of
              Some r \<Rightarrow> liftResult r | None \<Rightarrow> stageCandidate c w a)) ?Q (\<lambda>_. ?E) ?E" for a state
    by (cases "holdsWrapper (R (activePath ?s)) a")
      (auto intro: answer stage simp: runs_def [of "\<lambda>_. False"] split: option.splits)
  have state: "runs (\<lambda>fs. offTemp ?dir R fs \<and> holdsWrapper (R (activePath ?s)) a)
      (onError (\<lambda>_. profileErrorStateCorrupt) (readState ?s)) (\<lambda>_ fs. offTemp ?dir R fs \<and> holdsWrapper (R (activePath ?s)) a) (\<lambda>_. ?E) ?E" for a
    by (cases "holdsWrapper (R (activePath ?s)) a") (simp_all add: st runs_def [of "\<lambda>_. False"])
  have rdy: "runs (offTemp ?dir R) (ready c) (\<lambda>_. offTemp ?dir R) (\<lambda>_. ?E) ?E"
    using quiet_ready [of ?dir R c] unfolding quiet_def by (rule runs_cons) auto
  have body: "runs (offTemp ?dir R) (if \<not> ok then throw profileErrorNotReady else
        seqIO (onError (\<lambda>_. profileErrorCorrupt) (readWrapper ?s (activePath ?s))) (\<lambda>active.
        seqIO (onError (\<lambda>_. profileErrorStateCorrupt) (readState ?s)) (\<lambda>state.
        case activeDecision (pw_Revision w) active of
          Some r \<Rightarrow> liftResult r
        | None \<Rightarrow> (case pendingDecision (pw_Revision w) state of
             Some r \<Rightarrow> liftResult r | None \<Rightarrow> stageCandidate c w active)))) ?Q (\<lambda>_. ?E) ?E" for ok
    by (cases ok) (auto intro: runs_throw runs_seq [OF act runs_seq [OF state decide]])
  show ?thesis
    unfolding applyProfile_def p s paths(1) sum.case by (rule runs_seq [OF rdy body])
qed

section \<open>Payloads\<close>

lemma gomap_two:
  assumes "gomap_ok m" "length m = 2" "gget m a \<noteq> []" "gget m b \<noteq> []" "a < b"
  shows "m = [(a, gget m a), (b, gget m b)]"
proof -
  obtain p q where m: "m = [p, q]" using assms(2) by (auto simp: numeral_2_eq_2 length_Suc_conv)
  have "fst p < fst q" using assms(1) by (simp add: gomap_ok_def m)
  moreover have "(a, gget m a) \<in> {p, q}" "(b, gget m b) \<in> {p, q}"
    using gget_nonempty_in [OF assms(3)] gget_nonempty_in [OF assms(4)] by (auto simp: m)
  ultimately have "p = (a, gget m a)" "q = (b, gget m b)"
    using assms(5) by auto
  then have "[p, q] = [(a, gget m a), (b, gget m b)]" by (simp only:)
  with m show ?thesis by (rule trans)
qed

lemma decodeTaskPayload_wrapper:
  assumes "decodeProfileTaskPayload payload = Inr w"
  shows "canonicalWrapper w" "pw_Revision w < 2 ^ 63" "length (wrapperText w) \<le> maxProfileDocumentBytes"
    "marshalProfileWrapper w = Inr (wrapperText w)"
proof -
  obtain d where "decodeProfileWrapper d = Inr w"
    using assms by (auto simp: decodeProfileTaskPayload_def Let_def Inr_iffs)
  from decodeProfileWrapper_canonical [OF this]
  show w: "canonicalWrapper w" "pw_Revision w < 2 ^ 63" "length (wrapperText w) \<le> maxProfileDocumentBytes"
    by (auto simp: wrapperText_def)
  then show "marshalProfileWrapper w = Inr (wrapperText w)"
    by (simp add: marshalProfileWrapper_canonical wrapperText_def)
qed

lemma decodeTaskPayload_exact:
  assumes "decodeProfileTaskPayload payload = Inr w" "gomap_ok payload"
  shows "payload = profileApplyPayload (pw_Revision w) (wrapperText w)"
proof -
  obtain d rev where p: "length payload = 2" "\<not> (gget payload ''revision'' = [] \<or> gget payload ''profile_json_b64'' = [])"
    "\<not> (rev \<le> 0 \<or> FormatInt rev \<noteq> gget payload ''revision'')" "b64_encode d = gget payload ''profile_json_b64''"
    "decodeProfileWrapper d = Inr w" "pw_Revision w = rev"
    using assms(1) by (simp only: decodeProfileTaskPayload_def Let_def Inr_iffs) blast
  then have *: "length payload = 2" "gget payload ''revision'' \<noteq> []" "gget payload ''profile_json_b64'' \<noteq> []"
    "gget payload ''revision'' = FormatInt (pw_Revision w)" "gget payload ''profile_json_b64'' = b64_encode d"
    "decodeProfileWrapper d = Inr w"
    by simp_all
  have "''profile_json_b64'' < ''revision''" by simp
  note eq = gomap_two [OF assms(2) *(1,3,2) this, unfolded *(4,5)]
  have "d = wrapperText w" using decodeProfileWrapper_canonical [OF *(6)] by (simp add: wrapperText_def)
  with eq show ?thesis by (simp add: profileApplyPayload_def)
qed

lemma decodeTaskPayload_document:
  assumes "canonicalProfileApplyDocument p r = Inr (q, doc)" "r < 2 ^ 63"
  shows "decodeProfileTaskPayload (profileApplyPayload r doc)
     = Inr \<lparr>pw_SchemaVersion = profileSchemaVersion, pw_Revision = r, pw_Profile = q\<rparr>"
proof -
  let ?w = "\<lparr>pw_SchemaVersion = profileSchemaVersion, pw_Revision = r, pw_Profile = q\<rparr>"
  have d: "docOf ?w = \<lparr>doc_SchemaVersion = profileApplySchemaVersion, doc_Revision = r, doc_Profile = q\<rparr>"
    by (simp add: docOf_def profileSchemaVersion_def profileApplySchemaVersion_def)
  have doc: "1 \<le> r" "canonicalProfile q" "doc = marshalDocument (docOf ?w)" "length doc \<le> maxProfileDocumentBytes"
    using assms(1) unfolding d
    by (auto simp: canonicalProfileApplyDocument_Inr maxProfileJSONBytes_def maxProfileDocumentBytes_def dest: Normalize_canonical)
  have dec: "decodeProfileWrapper doc = Inr ?w"
    unfolding doc(3) by (rule decodeProfileWrapper_marshal) (use doc assms(2) in \<open>auto simp: canonicalWrapper_def\<close>)
  have ne: "doc \<noteq> []" by (simp add: doc(3) marshalDocument_def document_json_def)
  have "length (b64_encode doc) \<le> (maxProfileDocumentBytes + 2) div 3 * 4"
    using doc(4) by (simp add: b64_encode_length div_le_mono)
  moreover have "b64_encode doc \<noteq> []" using ne by (cases doc rule: b64_encode.cases) simp_all
  moreover have "FormatInt r \<noteq> []" using ParseInt64_FormatInt [of r] doc(1) assms(2) by (auto simp: ParseInt64_def)
  ultimately show ?thesis
    using doc assms(2) dec
    by (simp add: decodeProfileTaskPayload_def profileApplyPayload_def gget_def ParseInt64_FormatInt b64_roundtrip)
qed

section \<open>Crashes\<close>

lemma wrapperText_decodes:
  "canonicalWrapper w \<Longrightarrow> pw_Revision w < 2 ^ 63 \<Longrightarrow> length (wrapperText w) \<le> maxProfileDocumentBytes
     \<Longrightarrow> decodeProfileWrapper (wrapperText w) = Inr w"
  using decodeProfileWrapper_marshal [of w] by (simp add: wrapperText_def)

lemma apply_leaves:
  assumes "cleanDir sd" "pc_store c = newProfileStore sd" "decodeProfileTaskPayload payload = Inr w"
    "applyProfile c payload world = (res, world')"
  shows "offTemp (directory (newProfileStore sd)) (reg (w_fs world)) (w_fs world')
     \<or> applied (newProfileStore sd) w (reg (w_fs world)) (w_fs world')"
proof -
  note w = decodeTaskPayload_wrapper [OF assms(3)]
  have "1 \<le> pw_Revision w" using w(1) by (simp add: canonicalWrapper_def)
  note runs = runs_apply [OF assms(1-3) w(4) this w(2), of "reg (w_fs world)", unfolded runs_def, rule_format, of world]
  have "offTemp (directory (pc_store c)) (reg (w_fs world)) (w_fs world)" by (simp add: offTemp_def)
  from runs [OF this] show ?thesis
    by (cases res) (auto simp: assms(2,4))
qed

text \<open>What a crash-safe update of the four files means: \<open>old\<close> and \<open>new\<close> are the files before and after.\<close>

definition safeUpdate ::
  "profileStore \<Rightarrow> profileWrapper \<Rightarrow> (string \<Rightarrow> (nat \<times> bool \<times> string) option) \<Rightarrow> (string \<Rightarrow> (nat \<times> bool \<times> string) option) \<Rightarrow> bool" where
  "safeUpdate s w old new \<longleftrightarrow>
     new (activePath s) = old (activePath s)
     \<and> (new (candidatePath s) = old (candidatePath s) \<or> new (candidatePath s) = Some (privateFile (wrapperText w)))
     \<and> (new (previousPath s) = old (previousPath s)
        \<or> (\<exists>m b d. old (activePath s) = Some (m, b, d) \<and> new (previousPath s) = Some (privateFile d)))
     \<and> (new (statePath s) = old (statePath s)
        \<or> new (candidatePath s) = Some (privateFile (wrapperText w))
          \<and> (\<exists>st. st \<in> {pendingState (pw_Revision w), failedState (pw_Revision w)} \<and> new (statePath s) = Some (privateFile (stateText st))))
     \<and> (\<forall>p. p \<notin> {candidatePath s, previousPath s, statePath s} \<longrightarrow> \<not> tempOf (directory s) p \<longrightarrow> new p = old p)"

lemma stage_safeUpdate:
  assumes sd: "cleanDir sd" and a: "holdsWrapper (R (activePath (newProfileStore sd))) active"
    and stage: "S \<in> set (applyStages (newProfileStore sd) active w R)"
    and off: "offTemp (directory (newProfileStore sd)) S fs"
  shows "safeUpdate (newProfileStore sd) w R (reg fs)"
proof -
  note files = store_files [OF sd]
  have eq: "reg fs p = S p" if "\<not> tempOf (directory (newProfileStore sd)) p" for p using off that by (simp add: offTemp_def)
  have prev: "safeUpdate (newProfileStore sd) w R (withPrevious (newProfileStore sd) active R)"
    and cand: "safeUpdate (newProfileStore sd) w R (withCandidate (newProfileStore sd) active w R)"
    using a files(5) unfolding safeUpdate_def withCandidate_def withPrevious_def
    by (cases active; force simp: holdsWrapper_def wrapperText_def)+
  have "safeUpdate (newProfileStore sd) w R (withState (newProfileStore sd) active w st R)"
    if "st \<in> {pendingState (pw_Revision w), failedState (pw_Revision w)}" for st
    using cand that files(5) unfolding safeUpdate_def withState_def
    by (simp add: withCandidate_def) blast
  then have "safeUpdate (newProfileStore sd) w R S"
    using stage prev cand by (auto simp: applyStages_def) (simp add: safeUpdate_def)
  then show ?thesis
    unfolding safeUpdate_def by (simp add: eq files(1-4))
qed


section \<open>The two sides together\<close>

lemma marshal_map_inj:
  "gomap_ok m \<Longrightarrow> gomap_utf8 m \<Longrightarrow> gomap_ok m' \<Longrightarrow> gomap_utf8 m' \<Longrightarrow> marshal_map m = marshal_map m' \<Longrightarrow> m = m'"
  by (metis string_map_roundtrip option.inject)

lemma payload_agree:
  assumes "gomap_ok payload" "gomap_utf8 payload"
  shows "(\<exists>w. decodeProfileTaskPayload payload = Inr w \<and> pw_Revision w = r)
    \<longleftrightarrow> profileApplyPayloadRevision (marshal_map payload) = Inr r"
proof
  assume "\<exists>w. decodeProfileTaskPayload payload = Inr w \<and> pw_Revision w = r"
  then obtain w where w: "decodeProfileTaskPayload payload = Inr w" "pw_Revision w = r" by blast
  note c = decodeTaskPayload_wrapper [OF w(1)]
  have "canonicalProfileApplyDocument (pw_Profile w) r = Inr (pw_Profile w, wrapperText w)"
    using c w(2) by (auto simp: canonicalProfileApplyDocument_Inr canonicalWrapper_def Normalize_fixed wrapperText_def docOf_def
        profileSchemaVersion_def profileApplySchemaVersion_def maxProfileJSONBytes_def maxProfileDocumentBytes_def)
  from payload_revision [OF this] show "profileApplyPayloadRevision (marshal_map payload) = Inr r"
    using decodeTaskPayload_exact [OF w(1) assms(1)] c(2) w(2) by simp
next
  assume "profileApplyPayloadRevision (marshal_map payload) = Inr r"
  from payload_revision_exact [OF this] obtain p doc where
    p: "canonicalProfileApplyDocument p r = Inr (p, doc)" "marshal_map payload = marshal_map (profileApplyPayload r doc)" "r < 2 ^ 63"
    by blast
  have "payload = profileApplyPayload r doc"
    by (rule marshal_map_inj [OF assms payload_ok payload_utf8 p(2)])
  then show "\<exists>w. decodeProfileTaskPayload payload = Inr w \<and> pw_Revision w = r"
    using decodeTaskPayload_document [OF p(1,3)] by simp
qed

lemma no_control_ascii: "list_all (\<lambda>c. 0x20 \<le> byte c \<and> byte c < 0x7F) s \<Longrightarrow> \<not> containsControl s"
proof -
  assume a: "list_all (\<lambda>c. 0x20 \<le> byte c \<and> byte c < 0x7F) s"
  then have "runes s = map byte s" by (intro runes_ascii) (auto simp: list_all_iff)
  then show ?thesis using a by (auto simp: containsControl_def IsControl_def list_all_iff list_ex_iff)
qed

lemma no_control_FormatInt: "\<not> containsControl (FormatInt i)"
  by (rule no_control_ascii) (auto simp: list_all_iff asciiDigit_def dest!: FormatInt_chars)

lemma result_fields_ok:
  assumes "validProfileApplyResultState (po_State o')" "1 \<le> po_Revision o'" "po_Revision o' < 2 ^ 63"
  shows "ValidateTaskResultRequest (profileApplyTaskResult o') = Inr ()"
proof -
  have plain: "\<not> containsControl ''revision''" "\<not> containsControl ''state''" "\<not> containsControl []"
    "\<not> containsControl ''restart_scheduled''" "\<not> containsControl ''already_active''"
    by (rule no_control_ascii, simp)+
  have "\<not> containsControl (po_State o') \<and> length (po_State o') \<le> 30"
    using assms(1) plain(4,5) unfolding validProfileApplyResultState_def ProfileApplyResultRestartScheduled_def
      ProfileApplyResultAlreadyActive_def by (elim disjE) simp_all
  then show ?thesis
    using FormatInt_length [of "po_Revision o'"] assms(2,3)
    by (simp add: ValidateTaskResultRequest_def profileApplyTaskResult_def badResultField_def plain no_control_FormatInt
        maxTaskPayloadValueLength_def maxTaskErrorLength_def maxTaskResultValueLength_def TaskStatusCompleted_def TaskStatusFailed_def)
qed

lemma localErrorCodes_plain:
  "list_all (\<lambda>s. list_all (\<lambda>c. 0x20 < byte c \<and> byte c < 0x7F) s \<and> s \<noteq> [] \<and> length s \<le> 30 \<and> s \<in> set profileErrorCodes) localErrorCodes"
  by (simp add: localErrorCodes_def profileErrorCodes_def hub_consts)

lemma failed_fields_ok:
  "ValidateTaskResultRequest (failedProfileTaskResult code) = Inr ()
     \<and> isSafeProfileErrorCode (safeProfileErrorCode code profileErrorStore) \<and> safeProfileErrorCode code profileErrorStore \<noteq> []"
proof -
  let ?s = "safeProfileErrorCode code profileErrorStore"
  have "?s \<in> set localErrorCodes" by (simp add: safeProfileErrorCode_def localErrorCodes_def)
  then have s: "list_all (\<lambda>c. 0x20 < byte c \<and> byte c < 0x7F) ?s" "?s \<noteq> []" "length ?s \<le> 30" "?s \<in> set profileErrorCodes"
    using localErrorCodes_plain by (auto simp: list_all_iff)
  have "\<not> containsControl ?s" using s(1) by (intro no_control_ascii) (auto simp: list_all_iff)
  moreover have "TrimSpace ?s = ?s" using s(1,2) by (intro TrimSpace_ascii) (auto simp: list_all_iff asciiSpace_def)
  ultimately show ?thesis
    using s by (simp add: ValidateTaskResultRequest_def failedProfileTaskResult_def maxTaskErrorLength_def
        isSafeProfileErrorCode_def hub_consts)
qed

text \<open>
  C11. The agent accepts a profile-apply payload for a revision exactly when the hub accepts it as a
  payload of its own for that revision, although the two checks are written independently.
\<close>

theorem agent_hub_payload_agree:
  assumes "gomap_ok payload" "gomap_utf8 payload"
  shows "(\<exists>w. decodeProfileTaskPayload payload = Inr w \<and> pw_Revision w = r)
    \<longleftrightarrow> profileApplyPayloadRevision (marshal_map payload) = Inr r"
  by (rule payload_agree [OF assms])

text \<open>
  Whatever the state of the node, and whichever calls fail, the result that the agent reports for a
  profile-apply task of the hub passes the result contract that the hub checks on completion.
\<close>

theorem agent_result_accepted:
  assumes "cleanDir sd" "pc_store c = newProfileStore sd" "task_Kind task = TaskProfileApply"
    "gomap_ok (task_Payload task)" "gomap_utf8 (task_Payload task)" "profileApplyPayloadRevisionFromTask task = Inr r"
    "applyProfile c (task_Payload task) world = (res, world')"
  shows "(\<forall>o'. res = Ret o' \<longrightarrow> ValidateProfileApplyTaskResult task (profileApplyTaskResult o') = Inr ())
    \<and> (\<forall>code. res = Raise code \<longrightarrow> ValidateProfileApplyTaskResult task (failedProfileTaskResult code) = Inr ())"
proof -
  obtain w where w: "decodeProfileTaskPayload (task_Payload task) = Inr w" "pw_Revision w = r"
    using payload_agree [OF assms(4,5)] assms(6) by (auto simp: profileApplyPayloadRevisionFromTask_def)
  note c = decodeTaskPayload_wrapper [OF w(1)]
  have "1 \<le> pw_Revision w" using c(1) by (simp add: canonicalWrapper_def)
  note runs = runs_apply [OF assms(1,2) w(1) c(4) this c(2), of "reg (w_fs world)", unfolded runs_def, rule_format, of world]
  have "offTemp (directory (pc_store c)) (reg (w_fs world)) (w_fs world)" by (simp add: offTemp_def)
  note runs = runs [OF this, unfolded assms(7)]
  show ?thesis
  proof (intro conjI allI impI)
    fix o' assume "res = Ret o'"
    with runs have "po_Revision o' = r" "validProfileApplyResultState (po_State o')" by (simp_all add: w(2))
    then show "ValidateProfileApplyTaskResult task (profileApplyTaskResult o') = Inr ()"
      using result_fields_ok [of o'] assms(3,6) c(1,2) w(2)
      by (simp add: ValidateProfileApplyTaskResult_def profileApplyTaskResult_def badProfileResultField_def ghas_def canonicalWrapper_def)
  next
    fix code
    show "ValidateProfileApplyTaskResult task (failedProfileTaskResult code) = Inr ()"
      using failed_fields_ok [of code] assms(3,6)
      by (simp add: ValidateProfileApplyTaskResult_def failedProfileTaskResult_def)
  qed
qed

lemma runs_any: "runs P m (\<lambda>_ _. True) (\<lambda>_ _. True) (\<lambda>_. True)"
  by (auto simp: runs_def split: prod.splits io_res.splits)

lemma runs_wrapper_revision:
  "runs (\<lambda>_. True) (attempt (readWrapper s f))
     (\<lambda>r _. \<forall>w. r = Inr (Some w) \<longrightarrow> 1 \<le> pw_Revision w) (\<lambda>_ _. False) (\<lambda>_. True)"
  unfolding readWrapper_def
  by (rule runs_attempt, rule runs_seq [OF runs_cons [OF runs_any]])
    (auto intro!: runs_ret runs_throw runs_seq [where R = "\<lambda>w _. 1 \<le> pw_Revision w"]
      dest!: decodeProfileWrapper_canonical simp: liftResult_def canonicalWrapper_def split: option.splits sum.splits)

lemma runs_state_revision:
  "runs (\<lambda>_. True) (attempt (readState s))
     (\<lambda>r _. \<forall>st. r = Inr (Some st) \<longrightarrow> 1 \<le> sd_Revision st) (\<lambda>_ _. False) (\<lambda>_. True)"
  unfolding readState_def
  by (rule runs_attempt, rule runs_seq [OF runs_cons [OF runs_any]])
    (auto intro!: runs_ret runs_throw runs_seq [where R = "\<lambda>st _. 1 \<le> sd_Revision st"]
      simp: liftResult_def decodeState_def Let_def split: option.splits sum.splits if_splits)

lemma observed_valid:
  "st \<in> set observationStates \<Longrightarrow> 0 \<le> r \<Longrightarrow> code = [] \<or> code \<in> set localErrorCodes
     \<Longrightarrow> validateAgentProfileObservation (Some (observed st r code)) = Inr ()"
  using localErrorCodes_plain
  by (auto simp: validateAgentProfileObservation_def observed_def isSafeProfileErrorCode_def list_all_iff)

lemma runs_observation:
  "runs (\<lambda>_. True) (observation c) (\<lambda>ob _. validateAgentProfileObservation (Some ob) = Inr ()) (\<lambda>_ _. False) (\<lambda>_. True)"
proof -
  have codes: "profileErrorCorrupt \<in> set localErrorCodes" "profileErrorStateCorrupt \<in> set localErrorCodes"
    "safeProfileErrorCode x profileErrorStore \<in> set localErrorCodes" for x
    by (simp_all add: localErrorCodes_def safeProfileErrorCode_def)
  have act: "validateAgentProfileObservation (Some (fst (activeObservation a st))) = Inr ()"
    if "0 \<le> pw_Revision a" "\<forall>x. st = Some x \<longrightarrow> 1 \<le> sd_Revision x" for a st
    using that codes by (auto simp: activeObservation_def observationStates_def intro!: observed_valid split: option.splits)
  have miss: "validateAgentProfileObservation (Some (fst (missingObservation st))) = Inr ()"
    if "\<forall>x. st = Some x \<longrightarrow> 1 \<le> sd_Revision x" for st
    using that codes act [of zeroWrapper st]
    by (auto simp: missingObservation_def observationStates_def zeroWrapper_def intro!: observed_valid split: option.splits)
  have load: "runs (\<lambda>_. True) (loadActiveProfile (pc_store c))
      (\<lambda>x _. validateAgentProfileObservation (Some (fst (snd x))) = Inr ()) (\<lambda>_ _. False) (\<lambda>_. True)"
    unfolding loadActiveProfile_def Let_def
  proof (rule runs_seq [OF runs_wrapper_revision])
    fix r :: "profile_error + profileWrapper option"
    show "runs (\<lambda>_. \<forall>w. r = Inr (Some w) \<longrightarrow> 1 \<le> pw_Revision w)
      (case r of
         Inl _ \<Rightarrow> ret (zeroWrapper, observed ProfileObservationFailed 0 profileErrorCorrupt, Some errProfileCorrupt)
       | Inr activeOpt \<Rightarrow>
           seqIO (attempt (readState (pc_store c))) (\<lambda>r'. case r' of
               Inl stateErr \<Rightarrow>
                 ret (case activeOpt of None \<Rightarrow> zeroWrapper | Some a \<Rightarrow> a,
                   observed ProfileObservationFailed (pw_Revision (case activeOpt of None \<Rightarrow> zeroWrapper | Some a \<Rightarrow> a)) profileErrorStateCorrupt, Some stateErr)
             | Inr state \<Rightarrow>
                 ret (case activeOpt of None \<Rightarrow> zeroWrapper | Some a \<Rightarrow> a,
                   if activeOpt = None then missingObservation state
                   else activeObservation (case activeOpt of None \<Rightarrow> zeroWrapper | Some a \<Rightarrow> a) state)))
      (\<lambda>x _. validateAgentProfileObservation (Some (fst (snd x))) = Inr ()) (\<lambda>_ _. False) (\<lambda>_. True)"
    proof (cases r)
      case (Inr activeOpt)
      have state: "runs P (attempt (readState (pc_store c)))
          (\<lambda>r _. (\<forall>st. r = Inr (Some st) \<longrightarrow> 1 \<le> sd_Revision st)) (\<lambda>_ _. False) (\<lambda>_. True)" for P
        by (rule runs_cons [OF runs_state_revision]) auto
      show ?thesis
      proof (cases "\<forall>w. r = Inr (Some w) \<longrightarrow> 1 \<le> pw_Revision w")
        case True
        have rev: "0 \<le> pw_Revision (case activeOpt of None \<Rightarrow> zeroWrapper | Some a \<Rightarrow> a)"
          using True by (cases activeOpt) (auto simp: Inr zeroWrapper_def)
        show ?thesis
          unfolding Inr sum.case
          by (rule runs_seq [OF state])
            (use rev codes in \<open>auto intro!: runs_ret observed_valid act miss simp: observationStates_def split: sum.splits\<close>)
      next
        case False
        then show ?thesis unfolding runs_def by blast
      qed
    qed (auto intro!: runs_ret observed_valid simp: codes observationStates_def)
  qed
  show ?thesis
    unfolding observation_def by (rule runs_seq [OF load]) (auto intro: runs_ret split: prod.splits)
qed

text \<open>
  C12. Whatever the agent finds in its files, the observation that it puts into a heartbeat passes the
  validation of the hub.
\<close>

theorem agent_observation_accepted:
  fixes res :: "('e, AgentProfileObservation) io_res"
  assumes "observation c world = (res, world')"
  shows "res = Dead \<or> (\<exists>ob. res = Ret ob \<and> validateAgentProfileObservation (Some ob) = Inr ())"
proof -
  have "runs (\<lambda>_. True) (observation c :: ('e, AgentProfileObservation) io) (\<lambda>ob _. validateAgentProfileObservation (Some ob) = Inr ()) (\<lambda>_ _. False) (\<lambda>_. True)"
    by (rule runs_observation)
  from this [unfolded runs_def, rule_format, of world, unfolded assms] show ?thesis by (cases res) auto
qed

end
