(* ===== verification/AgentProfileRuns.thy ===== *)
theory AgentProfileRuns
  imports AgentProfileProps
begin

text \<open>
  Runs of the agent's profile store in which every call works: the exact effect of an apply, and
  what the next heartbeat reports.
\<close>

section \<open>Calls that work\<close>

lemma syscall_works:
  "w_fates w = [] \<Longrightarrow> syscall f p w = (case f (w_fs w) of Inl e \<Rightarrow> (Raise e, w) | Inr (x, fs) \<Rightarrow> (Ret x, w\<lparr>w_fs := fs\<rparr>))"
  by (cases w) (auto simp: syscall_def split: sum.splits)

lemmas call_defs = osLstat_def osReadFile_def osMkdir_def osChmod_def osChown_def osGeteuid0_def fileWrite_def appendTo_def
  fileSync_def dirSync_def fileClose_def osOpen_def osRename_def osRemove_def runCommand_def getFS_def

lemmas io_defs = seqIO_def ret_def throw_def attempt_def onError_def

lemma absPath_elems:
  assumes "cleanDir d"
  shows "absPath (rev (path_elems d)) = d" "path_elems d \<noteq> []"
proof -
  obtain q where q: "d = CHR ''/'' # q" "q \<noteq> []" using assms by (auto simp: cleanDir_def IsAbs_Cons)
  have "concat (map (\<lambda>e. CHR ''/'' # e) es) = CHR ''/'' # join_with (CHR ''/'') es" if "es \<noteq> []" for es
    using that by (induction es rule: induct_list012) auto
  from this [of "split_on (CHR ''/'') q"] show "absPath (rev (path_elems d)) = d" "path_elems d \<noteq> []"
    by (simp_all add: absPath_def path_elems_def q join_split_on)
qed

lemma mkdirAll_works:
  assumes "w_fates w = []" "cleanDir d" "w_fs w d = Some (FDir m)"
  shows "osMkdirAll d mode w = (Ret (), w)"
proof -
  obtain e es where e: "rev (path_elems d) = e # es" using absPath_elems(2) [OF assms(2)] by (cases "rev (path_elems d)") auto
  have "absPath (e # es) = d" using absPath_elems(1) [OF assms(2)] by (simp add: e)
  then show ?thesis
    using assms by (simp add: osMkdirAll_def e io_defs call_defs syscall_works isDirNode_def)
qed

lemma ensurePrivate_works:
  assumes "w_fates w = []" "cleanDir d" "w_fs w d = Some (FDir m)"
  shows "ensurePrivateDirectory d w = (Ret (), w\<lparr>w_fs := (w_fs w)(d \<mapsto> FDir 0x1C0)\<rparr>)"
  using assms mkdirAll_works [OF assms]
  by (simp add: ensurePrivateDirectory_def cleanDir_def io_defs call_defs syscall_works checkPrivate_def)

lemma writeAtomic_works:
  assumes "w_fates w = []" "cleanDir d" "plain_elem e" "w_fs w d = Some (FDir m)"
    and f: "f = d @ ''/'' @ e" "\<not> tempOf d f" "w_fs w f = None \<or> (\<exists>m s x. w_fs w f = Some (FReg m s x))"
    and t: "w_rands w = n # ns" "t = tempName d profileTempPrefix n" "w_fs w t = None"
  shows "writeAtomicProfileFile f data w
     = (Ret (), w\<lparr>w_fs := (w_fs w)(d \<mapsto> FDir 0x1C0, t := None, f \<mapsto> FReg 0x180 True data), w_rands := ns\<rparr>)"
proof -
  have dir: "DirOf f = d" using f(1) assms(2,3) DirOf_snoc by (simp add: plain_elem_def)
  have ne: "t \<noteq> f" "t \<noteq> d" "f \<noteq> d" using f(1,2) t(2) by (auto simp: tempOf_def tempName_def)
  show ?thesis
    unfolding writeAtomicProfileFile_def dir
    using assms(1,4) f(3) t(1,3) ne
    by (auto simp: Let_def io_defs ensurePrivate_works [OF assms(1,2,4)] call_defs syscall_works t(2) [symmetric]
        osCreateTemp_def publish_def syncProfileDirectory_def fun_upd_twist)
qed

section \<open>An apply that works\<close>

definition filePath :: "fsys \<Rightarrow> string \<Rightarrow> bool" where
  "filePath fs p \<longleftrightarrow> fs p = None \<or> (\<exists>m s d. fs p = Some (FReg m s d))"

text \<open>A world that lets \<open>k\<close> files be written: nothing fails, the directory is there, and \<open>k\<close> free temporary names come up.\<close>

definition usable :: "profileStore \<Rightarrow> nat \<Rightarrow> world \<Rightarrow> bool" where
  "usable s k w \<longleftrightarrow> w_fates w = [] \<and> (\<exists>m. w_fs w (directory s) = Some (FDir m))
     \<and> filePath (w_fs w) (candidatePath s) \<and> filePath (w_fs w) (activePath s) \<and> filePath (w_fs w) (previousPath s)
     \<and> filePath (w_fs w) (statePath s)
     \<and> k \<le> length (w_rands w) \<and> (\<forall>n \<in> set (w_rands w). w_fs w (tempName (directory s) profileTempPrefix n) = None)"

lemma write_step:
  assumes sd: "cleanDir sd" and s: "s = newProfileStore sd" and u: "usable s (Suc k) w"
    and f: "f \<in> {candidatePath s, previousPath s, statePath s}"
  shows "\<exists>w'. writeAtomicProfileFile f data w = (Ret (), w') \<and> usable s k w' \<and> reg (w_fs w') = (reg (w_fs w))(f \<mapsto> privateFile data)"
proof -
  note files = store_files [OF sd, folded s] and paths = store_paths [OF sd, folded s]
  obtain e where e: "f = directory s @ ''/'' @ e" "plain_elem e"
    using f by (auto simp: paths plain_elem_def)
  have nt: "\<not> tempOf (directory s) f" using f files by auto
  obtain n ns where n: "w_rands w = n # ns" using u by (cases "w_rands w") (auto simp: usable_def)
  define t where "t = tempName (directory s) profileTempPrefix n"
  obtain m where m: "w_fs w (directory s) = Some (FDir m)" using u by (auto simp: usable_def)
  have fp: "w_fs w f = None \<or> (\<exists>m s x. w_fs w f = Some (FReg m s x))" using u f by (auto simp: usable_def filePath_def)
  have free: "w_fs w t = None" using u by (simp add: usable_def n t_def)
  note eq = writeAtomic_works [OF _ _ e(2) m e(1) nt fp n t_def free, of data]
  let ?w' = "w\<lparr>w_fs := (w_fs w)(directory s \<mapsto> FDir 0x1C0, t := None, f \<mapsto> FReg 0x180 True data), w_rands := ns\<rparr>"
  have ne: "t \<noteq> f" "f \<noteq> directory s" "t \<noteq> directory s"
    using nt e(1) by (auto simp: t_def tempOf_def tempName_def)
  have "tempOf (directory s) t" by (auto simp: t_def tempOf_def)
  then have nf: "t \<noteq> candidatePath s" "t \<noteq> activePath s" "t \<noteq> previousPath s" "t \<noteq> statePath s"
    using files(1-4) by auto
  have nd: "directory s \<noteq> candidatePath s" "directory s \<noteq> activePath s" "directory s \<noteq> previousPath s" "directory s \<noteq> statePath s"
    by (auto simp: paths)
  have nn: "tempName (directory s) profileTempPrefix i \<noteq> f" "tempName (directory s) profileTempPrefix i \<noteq> directory s" for i
    using nt by (auto simp: tempOf_def tempName_def)
  have "reg ((w_fs w)(directory s \<mapsto> FDir 0x1C0, t := None, f \<mapsto> FReg 0x180 True data)) = (reg (w_fs w))(f \<mapsto> privateFile data)"
    using ne m free by (auto simp: fun_eq_iff reg_not_file)
  moreover have "writeAtomicProfileFile f data w = (Ret (), ?w')"
    by (rule eq) (use u paths(1,2) in \<open>simp_all add: usable_def\<close>)
  moreover have "usable s k ?w'"
    using u f ne nf nd nn files(5) by (simp add: usable_def filePath_def n)
  ultimately show ?thesis by auto
qed

lemma readRegular_works:
  assumes "w_fates w = []" "ps_readFile s = osReadFile"
  shows "w_fs w f = None \<Longrightarrow> readRegular s f e w = (Ret None, w)"
    "w_fs w f = Some (FReg m b d) \<Longrightarrow> readRegular s f e w = (Ret (Some d), w)"
  using assms by (simp_all add: readRegular_def io_defs call_defs syscall_works liftIO_def)

lemma readWrapper_works:
  assumes "w_fates w = []" "ps_readFile s = osReadFile"
  shows "w_fs w f = None \<Longrightarrow> readWrapper s f w = (Ret None, w)"
    "w_fs w f = Some (FReg m b d) \<Longrightarrow> decodeProfileWrapper d = Inr a \<Longrightarrow> readWrapper s f w = (Ret (Some a), w)"
  using readRegular_works [OF assms] decodeProfileWrapper_canonical [of d a]
  by (auto simp: readWrapper_def io_defs liftResult_def)

lemma readState_works:
  assumes "w_fates w = []" "ps_readFile s = osReadFile"
  shows "w_fs w (statePath s) = None \<Longrightarrow> readState s w = (Ret None, w)"
    "w_fs w (statePath s) = Some (FReg m b d) \<Longrightarrow> decodeState d = Inr st \<Longrightarrow> readState s w = (Ret (Some st), w)"
  using readRegular_works [OF assms] by (simp_all add: readState_def io_defs liftResult_def)

lemma ensureDirectory_works:
  assumes sd: "cleanDir sd" and s: "s = newProfileStore sd" and w: "w_fates w = []"
    and dirs: "w_fs w sd = Some (FDir m)" "w_fs w (directory s) = None \<or> (\<exists>m. w_fs w (directory s) = Some (FDir m))"
  shows "ensureDirectory s w = (Ret (), w\<lparr>w_fs := (w_fs w)(sd \<mapsto> FDir 0x1C0, directory s \<mapsto> FDir 0x1C0)\<rparr>)"
proof -
  note paths = store_paths [OF sd, folded s]
  let ?w = "w\<lparr>w_fs := (w_fs w)(sd \<mapsto> FDir 0x1C0)\<rparr>"
  have clean: "ps_stateDir s = sd" "sd \<noteq> []" "IsAbs sd" "Clean sd = sd"
    using sd by (auto simp: s newProfileStore_def cleanDir_def IsAbs_Cons)
  have ne: "directory s \<noteq> sd" by (simp add: paths)
  have "ensurePrivateDirectory (directory s) ?w = (Ret (), ?w\<lparr>w_fs := (w_fs ?w)(directory s \<mapsto> FDir 0x1C0)\<rparr>)"
  proof (cases "w_fs w (directory s)")
    case None
    have elems: "rev (path_elems (directory s)) = ''profile'' # rev (path_elems sd)"
      using path_elems_snoc [of sd "''profile''"] clean by (simp add: paths)
    have "mkdirAll (rev (path_elems sd)) 0x1C0 ?w = (Ret (), ?w)"
      using mkdirAll_works [where w = ?w and d = sd] sd w by (simp add: osMkdirAll_def)
    moreover have "absPath (''profile'' # rev (path_elems sd)) = directory s"
      using absPath_elems(1) [OF paths(2)] elems by (simp add: paths)
    ultimately have "osMkdirAll (directory s) 0x1C0 ?w = (Ret (), ?w\<lparr>w_fs := (w_fs ?w)(directory s \<mapsto> FDir 0x1C0)\<rparr>)"
      using None w ne unfolding osMkdirAll_def elems
      by (simp add: io_defs call_defs syscall_works)
    then show ?thesis
      using None w ne paths(1,2)
      by (simp add: ensurePrivateDirectory_def cleanDir_def io_defs call_defs syscall_works checkPrivate_def)
  next
    case (Some x)
    then obtain m' where "w_fs ?w (directory s) = Some (FDir m')" using dirs(2) ne by auto
    from ensurePrivate_works [OF _ _ this] w paths(1,2) show ?thesis by simp
  qed
  with ensurePrivate_works [OF w sd dirs(1)] show ?thesis
    using clean by (simp add: ensureDirectory_def seqIO_def)
qed

lemma writeWrapper_run:
  "marshalProfileWrapper w = Inr (wrapperText w)
     \<Longrightarrow> storeFailed (writeWrapper f w) x = storeFailed (writeAtomicProfileFile f (wrapperText w)) x"
  by (auto simp: storeFailed_def writeWrapper_def liftIO_def liftResult_def io_defs split: prod.splits io_res.splits)

lemma writeState_run:
  "goodState st \<Longrightarrow> storeFailed (writeState s st) x = storeFailed (writeAtomicProfileFile (statePath s) (stateText st)) x"
  by (auto simp: storeFailed_def writeState_lift liftIO_def io_defs split: prod.splits io_res.splits)

lemma storeFailed_Ret: "m x = (Ret y, x') \<Longrightarrow> storeFailed m x = (Ret y, x')"
  by (simp add: storeFailed_def io_defs)

lemma stage_works:
  assumes sd: "cleanDir sd" and s: "pc_store c = newProfileStore sd" and u: "usable (newProfileStore sd) 3 w"
    and dir: "w_fs w sd = Some (FDir m)"
    and wr: "marshalProfileWrapper wr = Inr (wrapperText wr)" "1 \<le> pw_Revision wr" "pw_Revision wr < 2 ^ 63"
    and a: "\<And>a. active = Some a \<Longrightarrow> marshalProfileWrapper a = Inr (wrapperText a)"
    and cmd: "pc_runner c = Some r" "r (pc_systemdRun c) (scheduleArgs (pc_installer c))" "pc_systemdRun c \<noteq> []" "pc_installer c \<noteq> []"
  shows "\<exists>w'. stageCandidate c wr active w
        = (Ret \<lparr>po_State = ProfileApplyResultRestartScheduled, po_Revision = pw_Revision wr\<rparr>, w')
      \<and> usable (newProfileStore sd) 0 w'
      \<and> reg (w_fs w') = withState (newProfileStore sd) active wr (pendingState (pw_Revision wr)) (reg (w_fs w))"
proof -
  let ?s = "newProfileStore sd"
  let ?w = "w\<lparr>w_fs := (w_fs w)(sd \<mapsto> FDir 0x1C0, directory ?s \<mapsto> FDir 0x1C0)\<rparr>"
  note paths = store_paths [OF sd] and files = store_files [OF sd]
  have ens: "ensureDirectory ?s w = (Ret (), ?w)"
    using ensureDirectory_works [OF sd refl _ dir] u by (auto simp: usable_def)
  have ne: "sd \<noteq> directory ?s" "sd \<noteq> candidatePath ?s" "sd \<noteq> activePath ?s" "sd \<noteq> previousPath ?s" "sd \<noteq> statePath ?s"
    "directory ?s \<noteq> candidatePath ?s" "directory ?s \<noteq> activePath ?s" "directory ?s \<noteq> previousPath ?s" "directory ?s \<noteq> statePath ?s"
    "tempName (directory ?s) profileTempPrefix n \<noteq> sd" "tempName (directory ?s) profileTempPrefix n \<noteq> directory ?s" for n
    by (auto simp: paths tempName_def)
  have u0: "usable ?s 3 ?w" and r0: "reg (w_fs ?w) = reg (w_fs w)"
    using u dir ne by (auto simp: usable_def filePath_def fun_eq_iff reg_not_file)
  obtain w1 where w1: "(case active of None \<Rightarrow> ret () | Some a \<Rightarrow> storeFailed (writeWrapper (previousPath ?s) a)) ?w = (Ret (), w1)"
      "usable ?s 2 w1" "reg (w_fs w1) = withPrevious ?s active (reg (w_fs w))"
  proof (cases active)
    case None
    then show ?thesis using that [of ?w] u0 r0 by (simp add: withPrevious_def ret_def usable_def)
  next
    case (Some x)
    then show ?thesis
      using write_step [OF sd refl, of 2 ?w "previousPath ?s" "wrapperText x"] u0 r0 a that
      by (auto simp: withPrevious_def writeWrapper_run storeFailed_Ret numeral_3_eq_3)
  qed
  obtain w2 where w2: "storeFailed (writeWrapper (candidatePath ?s) wr) w1 = (Ret (), w2)"
      "usable ?s 1 w2" "reg (w_fs w2) = withCandidate ?s active wr (reg (w_fs w))"
    using write_step [OF sd refl, of 1 w1 "candidatePath ?s" "wrapperText wr"] w1(2,3)
    by (auto simp: withCandidate_def writeWrapper_run [OF wr(1)] storeFailed_Ret numeral_2_eq_2)
  obtain w3 where w3: "storeFailed (writeState ?s (pendingState (pw_Revision wr))) w2 = (Ret (), w3)"
      "usable ?s 0 w3" "reg (w_fs w3) = withState ?s active wr (pendingState (pw_Revision wr)) (reg (w_fs w))"
    using write_step [OF sd refl, of 0 w2 "statePath ?s" "stateText (pendingState (pw_Revision wr))"] w2(2,3)
    by (auto simp: withState_def writeState_run [OF goodState_written(1) [OF wr(2,3)]] storeFailed_Ret)
  have run: "scheduleProfileApply (pc_runner c) (pc_systemdRun c) (pc_installer c) w3 = (Ret (), w3)"
    using cmd w3(2) by (simp add: scheduleProfileApply_def runCommand_def syscall_works usable_def)
  show ?thesis
    using w1(1) w2(1) w3 run ens
    by (simp add: stageCandidate_def s Let_def storeFailed_def io_defs pendingState_def)
qed

lemma filePath_reg: "filePath fs p \<Longrightarrow> reg fs p = None \<longleftrightarrow> fs p = None"
  by (auto simp: filePath_def reg_def)

text \<open>What the active file and the state file hold, for calls that work.\<close>

definition activeFile :: "profileStore \<Rightarrow> fsys \<Rightarrow> profileWrapper option \<Rightarrow> bool" where
  "activeFile s fs active \<longleftrightarrow> (case active of None \<Rightarrow> fs (activePath s) = None
     | Some a \<Rightarrow> \<exists>m b d. fs (activePath s) = Some (FReg m b d) \<and> decodeProfileWrapper d = Inr a)"

definition stateFile :: "profileStore \<Rightarrow> fsys \<Rightarrow> profileStateDocument option \<Rightarrow> bool" where
  "stateFile s fs state \<longleftrightarrow> (case state of None \<Rightarrow> fs (statePath s) = None
     | Some st \<Rightarrow> \<exists>m b d. fs (statePath s) = Some (FReg m b d) \<and> decodeState d = Inr st)"

lemma read_files:
  assumes "w_fates w = []" "ps_readFile s = osReadFile" "activeFile s (w_fs w) active" "stateFile s (w_fs w) state"
  shows "readWrapper s (activePath s) w = (Ret active, w)" "readState s w = (Ret state, w)"
  using assms(3,4) readWrapper_works [OF assms(1,2)] readState_works [OF assms(1,2)]
  by (auto simp: activeFile_def stateFile_def split: option.splits)

lemma apply_run:
  assumes "w_fates w = []" "ps_readFile (pc_store c) = osReadFile" "activeFile (pc_store c) (w_fs w) active"
    "stateFile (pc_store c) (w_fs w) state" "decodeProfileTaskPayload payload = Inr wr" "(ready c :: (string, bool) io) w = (Ret True, w)"
  shows "applyProfile c payload w =
    (case activeDecision (pw_Revision wr) active of
       Some r \<Rightarrow> liftResult r w
     | None \<Rightarrow> (case pendingDecision (pw_Revision wr) state of
          Some r \<Rightarrow> liftResult r w | None \<Rightarrow> stageCandidate c wr active w))"
  using read_files [OF assms(1-4)] assms(5,6)
  by (simp add: applyProfile_def io_defs split: option.splits)

lemma observation_run:
  assumes "w_fates w = []" "ps_readFile (pc_store c) = osReadFile" "activeFile (pc_store c) (w_fs w) active"
    "stateFile (pc_store c) (w_fs w) state"
  shows "observation c w = (Ret (fst (if active = None then missingObservation state
       else activeObservation (case active of None \<Rightarrow> zeroWrapper | Some a \<Rightarrow> a) state)), w)"
  using read_files [OF assms]
  by (simp add: observation_def loadActiveProfile_def io_defs Let_def case_prod_unfold)

text \<open>
  When nothing fails, an apply of a newer revision is carried through: it reports the restart as
  scheduled, the candidate file holds the profile, the state file says pending, the bytes of the
  active file are saved as the previous one, the active file is as before, and the next
  observation reports the restart of that revision as pending.
\<close>

theorem apply_succeeds:
  assumes "cleanDir sd" "pc_store c = newProfileStore sd" "decodeProfileTaskPayload payload = Inr wr"
    "usable (pc_store c) 3 w" "w_fs w sd = Some (FDir m)" "(ready c :: (string, bool) io) w = (Ret True, w)"
    "pc_runner c = Some r" "r (pc_systemdRun c) (scheduleArgs (pc_installer c))" "pc_systemdRun c \<noteq> []" "pc_installer c \<noteq> []"
    "activeFile (pc_store c) (w_fs w) active" "\<forall>a. active = Some a \<longrightarrow> pw_Revision a < pw_Revision wr"
    "stateFile (pc_store c) (w_fs w) state"
    "\<forall>st. state = Some st \<longrightarrow> sd_State st = profileStatePendingRestart \<longrightarrow> sd_Revision st < pw_Revision wr"
  shows "\<exists>w'. applyProfile c payload w
        = (Ret \<lparr>po_State = ProfileApplyResultRestartScheduled, po_Revision = pw_Revision wr\<rparr>, w')
      \<and> reg (w_fs w') (candidatePath (pc_store c)) = Some (privateFile (wrapperText wr))
      \<and> reg (w_fs w') (activePath (pc_store c)) = reg (w_fs w) (activePath (pc_store c))
      \<and> (\<forall>m b d. reg (w_fs w) (activePath (pc_store c)) = Some (m, b, d) \<longrightarrow>
            reg (w_fs w') (previousPath (pc_store c)) = Some (privateFile d))
      \<and> (observation c :: (string, AgentProfileObservation) io) w' = (Ret (observed ProfileObservationPendingRestart (pw_Revision wr) []), w')"
proof -
  let ?s = "newProfileStore sd"
  note wr = decodeTaskPayload_wrapper [OF assms(3)] and files = store_files [OF assms(1)]
  have rev: "1 \<le> pw_Revision wr" using wr(1) by (simp add: canonicalWrapper_def)
  have fates: "w_fates w = []" and rd: "ps_readFile (pc_store c) = osReadFile"
    using assms(2,4) by (simp_all add: usable_def newProfileStore_def)
  have act: "marshalProfileWrapper a = Inr (wrapperText a) \<and> (\<exists>m b. reg (w_fs w) (activePath ?s) = Some (m, b, wrapperText a))"
    if "active = Some a" for a
    using assms(2,11) that decodeProfileWrapper_canonical
    by (fastforce simp: activeFile_def reg_Some marshalProfileWrapper_canonical wrapperText_def)
  obtain w' where w': "stageCandidate c wr active w
        = (Ret \<lparr>po_State = ProfileApplyResultRestartScheduled, po_Revision = pw_Revision wr\<rparr>, w')"
      "usable ?s 0 w'" "reg (w_fs w') = withState ?s active wr (pendingState (pw_Revision wr)) (reg (w_fs w))"
    using stage_works [OF assms(1,2) _ assms(5) wr(4) rev wr(2) _ assms(7-10), of active] assms(2,4) act by auto
  have dec: "activeDecision (pw_Revision wr) active = None" "pendingDecision (pw_Revision wr) state = None"
    using assms(12,14) by (auto simp: activeDecision_def pendingDecision_def split: option.splits)
  have "applyProfile c payload w = stageCandidate c wr active w"
    using apply_run [OF fates rd assms(11,13,3,6)] dec by simp
  moreover have regs: "reg (w_fs w') (candidatePath ?s) = Some (privateFile (wrapperText wr))"
    "reg (w_fs w') (activePath ?s) = reg (w_fs w) (activePath ?s)"
    "reg (w_fs w') (statePath ?s) = Some (privateFile (stateText (pendingState (pw_Revision wr))))"
    "\<And>a. active = Some a \<Longrightarrow> reg (w_fs w') (previousPath ?s) = Some (privateFile (wrapperText a))"
    using files(5) by (auto simp: w'(3) withState_def withCandidate_def withPrevious_def split: option.splits)
  moreover have "(observation c :: (string, AgentProfileObservation) io) w' = (Ret (observed ProfileObservationPendingRestart (pw_Revision wr) []), w')"
  proof -
    have "stateFile ?s (w_fs w') (Some (pendingState (pw_Revision wr)))"
      using regs(3) decodeState_marshal [OF goodState_written(1) [OF rev wr(2)]]
      by (auto simp: stateFile_def reg_Some stateText_def)
    moreover have "activeFile ?s (w_fs w') active"
      using assms(2,11) regs(2) w'(2) filePath_reg [of "w_fs w'" "activePath ?s"]
      by (auto simp: activeFile_def usable_def reg_not_file reg_Some [symmetric] split: option.splits)
    ultimately show ?thesis
      using w'(2) assms(2) rd
      by (subst observation_run [of w' c active "Some (pendingState (pw_Revision wr))"])
        (simp_all add: usable_def missingObservation_def activeObservation_def pendingState_def)
  qed
  moreover have "\<forall>m b d. reg (w_fs w) (activePath ?s) = Some (m, b, d) \<longrightarrow> reg (w_fs w') (previousPath ?s) = Some (privateFile d)"
    using assms(2,11) act regs(4) by (cases active) (auto simp: activeFile_def reg_not_file)
  ultimately show ?thesis using w'(1) assms(2) by auto
qed

section \<open>Requests that change nothing\<close>

lemma quiet_liftResult: "quiet dir R (liftResult r)"
  by (cases r) (simp_all add: liftResult_def quiet_rules)

lemma holdsWrapper_decodes:
  "holdsWrapper (Some (m, b, d)) r \<Longrightarrow> decodeProfileWrapper d = Inr a \<Longrightarrow> r = Some a"
  using wrapperText_decodes by (auto simp: holdsWrapper_def wrapperText_def split: option.splits)

lemma quiet_decided:
  assumes "activeDecision v a \<noteq> None \<or> pendingDecision v st \<noteq> None"
  shows "quiet dir R (case activeDecision v a of
         Some r \<Rightarrow> liftResult r
       | None \<Rightarrow> (case pendingDecision v st of Some r \<Rightarrow> liftResult r | None \<Rightarrow> m))"
  using assms by (auto simp: quiet_liftResult split: option.splits)

text \<open>
  The agent never goes back to an older revision: whichever calls fail, a request for a revision that is not
  above the active one, or not above one that is pending, leaves every file as it is.
\<close>

theorem stale_apply_inert:
  assumes "cleanDir sd" "pc_store c = newProfileStore sd" "decodeProfileTaskPayload payload = Inr wr"
    "applyProfile c payload w = (res, w')"
    "(\<exists>m b d a. reg (w_fs w) (activePath (pc_store c)) = Some (m, b, d) \<and> decodeProfileWrapper d = Inr a
        \<and> pw_Revision wr \<le> pw_Revision a)
     \<or> (\<exists>m b d st. reg (w_fs w) (statePath (pc_store c)) = Some (m, b, d) \<and> decodeState d = Inr st
        \<and> sd_State st = profileStatePendingRestart \<and> pw_Revision wr \<le> sd_Revision st)"
  shows "\<forall>p. \<not> tempOf (directory (pc_store c)) p \<longrightarrow> reg (w_fs w') p = reg (w_fs w) p"
proof -
  let ?s = "newProfileStore sd" and ?R = "reg (w_fs w)" and ?dir = "directory (newProfileStore sd)"
  note files = store_files [OF assms(1)]
  have rd: "ps_readFile ?s = osReadFile" by (simp add: newProfileStore_def)
  define holdsState where "holdsState = (\<lambda>st. case st of None \<Rightarrow> ?R (statePath ?s) = None
      | Some x \<Rightarrow> \<exists>m b d. ?R (statePath ?s) = Some (m, b, d) \<and> decodeState d = Inr x)"
  let ?I = "offTemp ?dir ?R"
  have decided: "activeDecision (pw_Revision wr) a \<noteq> None \<or> pendingDecision (pw_Revision wr) st \<noteq> None"
    if "holdsWrapper (?R (activePath ?s)) a" "holdsState st" for a st
    using assms(5)
  proof (elim disjE exE conjE)
    fix m b d a0
    assume "reg (w_fs w) (activePath (pc_store c)) = Some (m, b, d)" "decodeProfileWrapper d = Inr a0" "pw_Revision wr \<le> pw_Revision a0"
    then show ?thesis using that(1) holdsWrapper_decodes [of m b d a a0] by (simp add: assms(2) activeDecision_def)
  next
    fix m b d st0
    assume "reg (w_fs w) (statePath (pc_store c)) = Some (m, b, d)" "decodeState d = Inr st0"
      "sd_State st0 = profileStatePendingRestart" "pw_Revision wr \<le> sd_Revision st0"
    then show ?thesis using that(2) by (auto simp: assms(2) pendingDecision_def holdsState_def split: option.splits)
  qed
  have last: "runs (\<lambda>fs. ?I fs \<and> holdsWrapper (?R (activePath ?s)) a \<and> holdsState st)
      (case activeDecision (pw_Revision wr) a of
         Some r \<Rightarrow> liftResult r
       | None \<Rightarrow> (case pendingDecision (pw_Revision wr) st of Some r \<Rightarrow> liftResult r | None \<Rightarrow> stageCandidate c wr a))
      (\<lambda>_. ?I) (\<lambda>_. ?I) ?I" for a st
    using quiet_decided [OF decided, of a st ?dir ?R] by (auto simp: quiet_def runs_def)
  have state: "runs (\<lambda>fs. ?I fs \<and> holdsWrapper (?R (activePath ?s)) a) (onError (\<lambda>_. profileErrorStateCorrupt) (readState ?s))
      (\<lambda>st fs. ?I fs \<and> holdsWrapper (?R (activePath ?s)) a \<and> holdsState st) (\<lambda>_. ?I) ?I" for a
    using runs_onError_const [OF runs_readState [OF rd files(4), of ?R], of "\<lambda>_. profileErrorStateCorrupt"]
    by (cases "holdsWrapper (?R (activePath ?s)) a") (simp_all add: holdsState_def runs_def [of "\<lambda>_. False"])
  have body: "runs ?I (if \<not> ok then throw profileErrorNotReady else
        seqIO (onError (\<lambda>_. profileErrorCorrupt) (readWrapper ?s (activePath ?s))) (\<lambda>active.
        seqIO (onError (\<lambda>_. profileErrorStateCorrupt) (readState ?s)) (\<lambda>state.
        case activeDecision (pw_Revision wr) active of
          Some r \<Rightarrow> liftResult r
        | None \<Rightarrow> (case pendingDecision (pw_Revision wr) state of
             Some r \<Rightarrow> liftResult r | None \<Rightarrow> stageCandidate c wr active)))) (\<lambda>_. ?I) (\<lambda>_. ?I) ?I" for ok
    by (cases ok) (auto intro: runs_throw
        runs_seq [OF runs_onError_const [OF runs_readWrapper [OF rd files(2)]] runs_seq [OF state last]])
  have "runs ?I (applyProfile c payload) (\<lambda>_. ?I) (\<lambda>_. ?I) ?I"
    unfolding applyProfile_def assms(2,3) sum.case
    by (rule runs_seq [OF quiet_ready [of ?dir ?R c, unfolded quiet_def] body])
  from this [unfolded runs_def, rule_format, of w, unfolded assms(4)]
  have "?I (w_fs w')" by (cases res) (simp_all add: offTemp_def)
  then show ?thesis using assms(2) by (simp add: offTemp_def)
qed


section \<open>A small node\<close>

definition demoDir :: string where
  "demoDir = ''/var/lib/agent''"

definition demoController :: profileApplyController where
  "demoController = \<lparr>pc_store = newProfileStore demoDir, pc_installer = ''/opt/install'', pc_systemdRun = ''/bin/systemd-run'',
     pc_runner = Some (\<lambda>_ _. True), pc_readyFn = Some (\<lambda>_. True)\<rparr>"

definition demoWrapper :: profileWrapper where
  "demoWrapper = \<lparr>pw_SchemaVersion = profileSchemaVersion, pw_Revision = 3, pw_Profile = demoProfile\<rparr>"

definition demoApplyPayload :: gomap where
  "demoApplyPayload = profileApplyPayload 3 (wrapperText demoWrapper)"

definition demoFS :: fsys where
  "demoFS = [demoDir \<mapsto> FDir 0x1C0, demoDir @ ''/profile'' \<mapsto> FDir 0x1C0]"

definition demoWorld :: world where
  "demoWorld = \<lparr>w_fs = demoFS, w_fates = [], w_rands = [1, 2, 3], w_euid0 = True\<rparr>"

lemma demo_cleanDir: "cleanDir demoDir"
  by (simp add: cleanDir_iff demoDir_def path_elems_def IsAbs_def HasPrefix_def plain_elem_def)

lemma demo_doc: "canonicalProfileApplyDocument demoProfile 3 = Inr (demoProfile, wrapperText demoWrapper)"
  using demo_document demo_canonical
  by (auto simp: is_ok_iff canonicalProfileApplyDocument_Inr Normalize_fixed wrapperText_def docOf_def demoWrapper_def
      profileSchemaVersion_def profileApplySchemaVersion_def)

lemma demo_decode: "decodeProfileTaskPayload demoApplyPayload = Inr demoWrapper"
  using decodeTaskPayload_document [OF demo_doc] by (simp add: demoApplyPayload_def demoWrapper_def)

lemma demo_store: "pc_store demoController = newProfileStore demoDir"
  by (simp add: demoController_def)

lemma demo_files:
  "activeFile (pc_store demoController) demoFS None" "stateFile (pc_store demoController) demoFS None"
  "usable (pc_store demoController) 3 demoWorld" "demoFS demoDir = Some (FDir 0x1C0)"
  by (simp_all add: activeFile_def stateFile_def usable_def filePath_def demo_store store_paths [OF demo_cleanDir] demoFS_def
      demoWorld_def tempName_def profileTempPrefix_def)


lemma demo_agent_apply:
  "\<exists>w'. applyProfile demoController demoApplyPayload demoWorld
        = (Ret \<lparr>po_State = ProfileApplyResultRestartScheduled, po_Revision = 3\<rparr>, w')"
proof -
  note wr = decodeTaskPayload_wrapper [OF demo_decode]
  have w: "w_fates demoWorld = []" "ps_readFile (pc_store demoController) = osReadFile"
    by (simp_all add: demoWorld_def demo_store newProfileStore_def)
  have rdy: "(ready demoController :: (string, bool) io) demoWorld = (Ret True, demoWorld)"
    by (simp add: ready_def demoController_def io_defs getFS_def)
  have "applyProfile demoController demoApplyPayload demoWorld = stageCandidate demoController demoWrapper None demoWorld"
    using apply_run [OF w _ _ demo_decode rdy, of None None] demo_files
    by (simp add: activeDecision_def pendingDecision_def demoWorld_def)
  then show ?thesis
    using stage_works [OF demo_cleanDir demo_store _ _ wr(4) _ wr(2), of demoWorld "0x1C0" None "\<lambda>_ _. True"] demo_files
    by (auto simp: demo_store demoWorld_def demoWrapper_def) (auto simp: demoController_def)
qed

lemma apply_succeeds_witness:
  "\<exists>w'. applyProfile demoController demoApplyPayload demoWorld
        = (Ret \<lparr>po_State = ProfileApplyResultRestartScheduled, po_Revision = 3\<rparr>, w')"
  using apply_succeeds [OF demo_cleanDir demo_store demo_decode demo_files(3), of "0x1C0" "\<lambda>_ _. True" None None] demo_files
  by (auto simp: demoWorld_def demoController_def ready_def io_defs getFS_def demoWrapper_def)


lemma stale_apply_inert_witness:
  "let w = demoWorld\<lparr>w_fs := demoFS(activePath (newProfileStore demoDir) \<mapsto> FReg 0x180 True (wrapperText demoWrapper))\<rparr> in
   \<forall>p. tempOf (directory (newProfileStore demoDir)) p
     \<or> reg (w_fs (snd (applyProfile demoController demoApplyPayload w))) p = reg (w_fs w) p"
proof -
  let ?w = "demoWorld\<lparr>w_fs := demoFS(activePath (newProfileStore demoDir) \<mapsto> FReg 0x180 True (wrapperText demoWrapper))\<rparr>"
  note wr = decodeTaskPayload_wrapper [OF demo_decode]
  have "reg (w_fs ?w) (activePath (pc_store demoController)) = Some (0x180, True, wrapperText demoWrapper)"
    by (simp add: demo_store)
  with wrapperText_decodes [OF wr(1-3)]
  show ?thesis
    using stale_apply_inert [OF demo_cleanDir demo_store demo_decode prod.collapse [symmetric], of ?w]
    by (auto simp: demo_store)
qed

lemma agent_hub_payload_agree_witness:
  "profileApplyPayloadRevision (marshal_map demoApplyPayload) = Inr 3"
  using agent_hub_payload_agree [of demoApplyPayload 3] demo_decode payload_ok payload_utf8
  by (auto simp: demoApplyPayload_def demoWrapper_def)

definition demoApplyTask :: Task where
  "demoApplyTask = \<lparr>task_ID = 7, task_NodeID = ''node-1'', task_Kind = TaskProfileApply, task_Payload = demoApplyPayload,
     task_Status = TaskStatusRunning, task_Result = [], task_Error = [], task_CreatedAt = demoTime,
     task_StartedAt = Some demoTime, task_CompletedAt = None\<rparr>"

lemma agent_result_accepted_witness:
  "\<exists>o'. fst (applyProfile demoController demoApplyPayload demoWorld) = Ret o'
     \<and> ValidateProfileApplyTaskResult demoApplyTask (profileApplyTaskResult o') = Inr ()"
proof -
  have run: "\<exists>o'. fst (applyProfile demoController demoApplyPayload demoWorld) = Ret o'"
    using demo_agent_apply by auto
  have rev: "profileApplyPayloadRevisionFromTask demoApplyTask = Inr 3"
    using payload_revision [OF demo_doc] by (simp add: profileApplyPayloadRevisionFromTask_def demoApplyTask_def demoApplyPayload_def)
  have "gomap_ok demoApplyPayload" "gomap_utf8 demoApplyPayload"
    by (simp_all add: demoApplyPayload_def payload_ok payload_utf8)
  then show ?thesis
    using agent_result_accepted [OF demo_cleanDir demo_store _ _ _ rev, of demoWorld, OF _ _ _ prod.collapse [symmetric]] run
    by (auto simp: demoApplyTask_def)
qed

lemma agent_observation_accepted_witness:
  "validateAgentProfileObservation (Some (observed ProfileObservationNotConfigured 0 [])) = Inr ()"
proof -
  have "(observation demoController :: (string, AgentProfileObservation) io) demoWorld
      = (Ret (observed ProfileObservationNotConfigured 0 []), demoWorld)"
    using demo_files
    by (subst observation_run [of demoWorld demoController None None])
      (simp_all add: demoWorld_def demoController_def newProfileStore_def missingObservation_def)
  from agent_observation_accepted [OF this] show ?thesis by simp
qed

end
