(* ===== verification/AgentStatus.thy ===== *)
theory AgentStatus
  imports ManagedStatus
begin

text \<open>
  How the node agent answers an \<^verbatim>\<open>integration.status\<close> task, \<^verbatim>\<open>cmd/hserver-agent/integration_status.go\<close>. Two
  probes run in goroutines of their own, each with a deadline, and the aggregate has a deadline as
  well; what the collecting loop has of a probe at its end is one of three things, whatever the
  order of the goroutines: what the probe returned, with its measured duration; that the probe's own
  deadline passed; or nothing, when the aggregate deadline came first.
\<close>

definition managedIntegrationAggregateTimeout :: int where
  "managedIntegrationAggregateTimeout = 10000"

datatype probe_run =
    Returned string bool int
  | DeadlinePassed int
  | NothingReported

text \<open>The milliseconds a goroutine reports are at least 0; a probe that is nil is not configured.\<close>

definition invokeManagedIntegrationProbe :: "probe_run option \<Rightarrow> string \<times> bool \<times> bool \<times> int" where
  "invokeManagedIntegrationProbe run =
     (case run of
        None \<Rightarrow> (stNotConfigured, True, False, 0)
      | Some (Returned state failed duration) \<Rightarrow> (state, failed, False, max 0 duration)
      | Some (DeadlinePassed duration) \<Rightarrow> (stUnavailable, True, True, max 0 duration)
      | Some NothingReported \<Rightarrow> (stUnavailable, True, True, managedIntegrationAggregateTimeout))"

definition normalizeManagedIntegrationResult ::
  "string \<Rightarrow> string \<Rightarrow> string \<Rightarrow> bool \<Rightarrow> bool \<Rightarrow> int \<Rightarrow> ManagedIntegrationStatusResult" where
  "normalizeManagedIntegrationResult i probe state failed timedOut durationMS =
     (let r = \<lparr>mr_ID = i, mr_State = state, mr_Probe = probe, mr_ErrorCode = [], mr_DurationMS = durationMS\<rparr> in
      if timedOut then r\<lparr>mr_State := stUnavailable, mr_ErrorCode := ErrorCodeTimeout\<rparr>
      else if state = stNotConfigured then r\<lparr>mr_ErrorCode := ErrorCodeNotConfigured\<rparr>
      else if state = stHealthy \<and> \<not> failed then r
      else r\<lparr>mr_State := stUnavailable, mr_ErrorCode := ErrorCodeProbeFailed\<rparr>)"

definition collectProbe :: "string \<Rightarrow> string \<Rightarrow> probe_run option \<Rightarrow> ManagedIntegrationStatusResult" where
  "collectProbe i probe run =
     (case invokeManagedIntegrationProbe run of (state, failed, timedOut, duration) \<Rightarrow>
        normalizeManagedIntegrationResult i probe state failed timedOut duration)"

definition failedManagedIntegrationStatus :: TaskResultRequest where
  "failedManagedIntegrationStatus = \<lparr>res_Status = TaskStatusFailed, res_Result = [], res_Error = FatalErrorCode\<rparr>"

text \<open>The probes run, in a state of theirs, only when the task is well formed.\<close>

definition executeManagedIntegrationStatus ::
  "('s \<Rightarrow> (probe_run option \<times> probe_run option) \<times> 's) \<Rightarrow> go_time \<Rightarrow> Task \<Rightarrow> 's \<Rightarrow> TaskResultRequest \<times> 's" where
  "executeManagedIntegrationStatus probes now task s =
     (if length (task_Payload task) \<noteq> 0 \<or> task_NodeID task = [] then (failedManagedIntegrationStatus, s)
      else (case probes s of ((pm2, docker), s1) \<Rightarrow>
        let collected = [collectProbe ProcessPM2ID PM2InventoryProbe pm2, collectProbe DockerID DockerInfoProbe docker];
            response = \<lparr>msr_SchemaVersion = SchemaVersion, msr_ObservedAt = now,
                        msr_Target = \<lparr>tgt_Scope = ScopeManagedNode, tgt_NodeID = task_NodeID task\<rparr>,
                        msr_Results = Some collected,
                        msr_Partial = list_ex (\<lambda>r. mr_State r \<noteq> stHealthy) collected\<rparr>
        in (case Marshal response of
              Inl _ \<Rightarrow> (failedManagedIntegrationStatus, s1)
            | Inr data \<Rightarrow> (\<lparr>res_Status = TaskStatusCompleted, res_Result = [(''data'', data)], res_Error = []\<rparr>, s1))))"

end
