(* ===== verification/AgentTasks.thy ===== *)
theory AgentTasks
  imports AgentProfile AgentStatus HubMetrics
begin

text \<open>
  The task dispatch of the node agent, \<^verbatim>\<open>cmd/hserver-agent/tasks.go\<close>. For each kind the agent checks the
  payload and its local configuration, calls one of its controllers, and shapes the result. The
  three steps are \<open>dispatch\<close>, which refuses the task or names the call, the environment, which
  performs it, and \<open>finish\<close>; \<open>execute\<close> composes them. A call is a value of \<open>agent_call\<close>, one constructor per
  method of the controller interfaces. What the controllers do is a parameter: the environment
  answers a call with a reply and a new state. The reply has a component for everything a method can
  return; a value that is marshalled to JSON is kept as the JSON value.
\<close>

section \<open>Patterns\<close>

text \<open>A regular expression of one leading class and at most \<open>limit\<close> runes of another.\<close>

definition matchName :: "(nat \<Rightarrow> bool) \<Rightarrow> (nat \<Rightarrow> bool) \<Rightarrow> nat \<Rightarrow> string \<Rightarrow> bool" where
  "matchName first rest limit s =
     (case runes s of [] \<Rightarrow> False | r # rs \<Rightarrow> first r \<and> length rs \<le> limit \<and> list_all rest rs)"

definition wordRune :: "string \<Rightarrow> nat \<Rightarrow> bool" where
  "wordRune extra r = (asciiLetterOrDigit r \<or> rune_in extra r)"

definition servicePattern :: "string \<Rightarrow> bool" where
  "servicePattern = matchName asciiLetterOrDigit (wordRune '':_.@-'') 254"

definition agentContainerNamePattern :: "string \<Rightarrow> bool" where
  "agentContainerNamePattern = matchName asciiLetterOrDigit (wordRune ''_.-'') 127"

definition agentNginxConfigNamePattern :: "string \<Rightarrow> bool" where
  "agentNginxConfigNamePattern = matchName asciiLetterOrDigit (wordRune ''._-'') 254"

definition agentSHA256Pattern :: "string \<Rightarrow> bool" where
  "agentSHA256Pattern s = (length (runes s) = 64 \<and> list_all lowerHexRune (runes s))"

definition decimalRune :: "nat \<Rightarrow> bool" where
  "decimalRune r = (48 \<le> r \<and> r \<le> 57)"

definition agentPHPVersionPattern :: "string \<Rightarrow> bool" where
  "agentPHPVersionPattern s =
     (let major = takeWhile decimalRune (runes s); rest = dropWhile decimalRune (runes s) in
      major \<noteq> [] \<and> rest \<noteq> [] \<and> hd rest = byte (CHR ''.'') \<and> tl rest \<noteq> [] \<and> list_all decimalRune (tl rest))"

definition agentPHPPoolNamePattern :: "string \<Rightarrow> bool" where
  "agentPHPPoolNamePattern = matchName asciiLetterOrDigit (wordRune ''._-'') 127"

definition agentPM2NamePattern :: "string \<Rightarrow> bool" where
  "agentPM2NamePattern = matchName asciiLetterOrDigit (wordRune ''._:@-'') 127"

definition validAgentDeployAction :: "string \<Rightarrow> bool" where
  "validAgentDeployAction action =
     (action = ''preflight'' \<or> action = ''deploy'' \<or> action = ''restart'' \<or> action = ''rollback'')"

definition validAgentDeployDomainRevision :: "string \<Rightarrow> bool" where
  "validAgentDeployDomainRevision value = (value = ''absent'' \<or> agentSHA256Pattern value)"

text \<open>\<^verbatim>\<open>strconv.ParseBool\<close> and \<^verbatim>\<open>strconv.FormatBool\<close>.\<close>

definition ParseBool :: "string \<Rightarrow> bool option" where
  "ParseBool s =
     (if s \<in> {''1'', ''t'', ''T'', ''TRUE'', ''true'', ''True''} then Some True
      else if s \<in> {''0'', ''f'', ''F'', ''FALSE'', ''false'', ''False''} then Some False
      else None)"

definition FormatBool :: "bool \<Rightarrow> string" where
  "FormatBool b = (if b then ''true'' else ''false'')"

section \<open>Errors\<close>

text \<open>An error is its text and the sentinels that \<^verbatim>\<open>errors.Is\<close> finds in its chain.\<close>

datatype sentinel =
    errNginxConfigChanged | errNginxConfigInvalid | errNginxConfigTooLarge | errManagedFileTooLarge
  | errPHPConfigChanged | errPHPConfigInvalid | errPHPConfigTooLarge
  | errCronChanged | errCronNotFound | errCronInvalid
  | errFirewallChanged | errFirewallNotFound | errFirewallInvalid | errFirewallProtected | errFirewallPersistence
  | errManagedDeployDomainStale | errManagedDeployDomainDrift | errManagedDeployDomainConflict
  | errManagedDeployDomainCleanup | ErrProjectDomainCleanup | errManagedDeployDomainObservation

record go_error =
  err_Text :: string
  err_Chain :: "sentinel list"

definition errNew :: "string \<Rightarrow> go_error" where
  "errNew text = \<lparr>err_Text = text, err_Chain = []\<rparr>"

definition errIs :: "go_error \<Rightarrow> sentinel \<Rightarrow> bool" where
  "errIs e s = (s \<in> set (err_Chain e))"

section \<open>Results\<close>

definition completed :: "gomap \<Rightarrow> TaskResultRequest" where
  "completed result = \<lparr>res_Status = TaskStatusCompleted, res_Result = result, res_Error = []\<rparr>"

definition failedResult :: "go_error \<Rightarrow> TaskResultRequest" where
  "failedResult e = \<lparr>res_Status = TaskStatusFailed, res_Result = [], res_Error = err_Text e\<rparr>"

text \<open>A result with a code: the first sentinel of the switch that the error matches, or the fallback.\<close>

definition errorCode :: "string \<Rightarrow> (sentinel \<times> string) list \<Rightarrow> go_error \<Rightarrow> string" where
  "errorCode fallback codes e = (case find (\<lambda>(s, _). errIs e s) codes of None \<Rightarrow> fallback | Some (_, code) \<Rightarrow> code)"

definition failedCoded :: "string \<Rightarrow> go_error \<Rightarrow> TaskResultRequest" where
  "failedCoded code e = \<lparr>res_Status = TaskStatusFailed, res_Result = [(''code'', code)], res_Error = err_Text e\<rparr>"

definition failedNginxResult :: "go_error \<Rightarrow> TaskResultRequest" where
  "failedNginxResult e =
     failedCoded (errorCode ''nginx_operation_failed''
       [(errNginxConfigChanged, ''config_changed''), (errNginxConfigInvalid, ''config_invalid''),
        (errNginxConfigTooLarge, ''config_too_large''), (errManagedFileTooLarge, ''config_too_large'')] e) e"

definition failedPHPResult :: "go_error \<Rightarrow> TaskResultRequest" where
  "failedPHPResult e =
     failedCoded (errorCode ''php_operation_failed''
       [(errPHPConfigChanged, ''config_changed''), (errPHPConfigInvalid, ''config_invalid''),
        (errPHPConfigTooLarge, ''config_too_large''), (errManagedFileTooLarge, ''config_too_large'')] e) e"

definition failedCronResult :: "go_error \<Rightarrow> TaskResultRequest" where
  "failedCronResult e =
     failedCoded (errorCode ''cron_operation_failed''
       [(errCronChanged, ''cron_changed''), (errCronNotFound, ''cron_not_found''), (errCronInvalid, ''cron_invalid'')] e) e"

definition failedFirewallResult :: "go_error \<Rightarrow> TaskResultRequest" where
  "failedFirewallResult e =
     failedCoded (errorCode ''firewall_operation_failed''
       [(errFirewallChanged, ''firewall_changed''), (errFirewallNotFound, ''firewall_not_found''),
        (errFirewallInvalid, ''firewall_invalid''), (errFirewallProtected, ''firewall_protected''),
        (errFirewallPersistence, ''firewall_persistence_failed'')] e) e"

definition failedDeployDomainResult :: "go_error \<Rightarrow> TaskResultRequest" where
  "failedDeployDomainResult e =
     \<lparr>res_Status = TaskStatusFailed, res_Result = [],
      res_Error = errorCode ''domain_operation_failed''
        [(errManagedDeployDomainStale, ''stale_observation''), (errManagedDeployDomainDrift, ''domain_drift''),
         (errManagedDeployDomainConflict, ''domain_conflict''), (errManagedDeployDomainCleanup, ''domain_cleanup_failed''),
         (ErrProjectDomainCleanup, ''domain_cleanup_failed''),
         (errManagedDeployDomainObservation, ''domain_observation_failed'')] e\<rparr>"

text \<open>The value to be marshalled is its JSON, or the error that \<^verbatim>\<open>json.Marshal\<close> gives for it.\<close>

definition jsonTaskResult :: "go_error + json \<Rightarrow> TaskResultRequest" where
  "jsonTaskResult v =
     (case v of Inl e \<Rightarrow> failedResult e | Inr x \<Rightarrow> completed [(''data'', json_print x)])"

section \<open>Payloads\<close>

definition exactPayload :: "gomap \<Rightarrow> string \<Rightarrow> string option" where
  "exactPayload payload key =
     (if length payload \<noteq> 1 \<or> gget payload key = [] then None else Some (gget payload key))"

definition exactActionPayload :: "gomap \<Rightarrow> (string \<times> string) option" where
  "exactActionPayload payload =
     (if length payload \<noteq> 2 \<or> gget payload ''service'' = []
        \<or> gget payload ''action'' \<notin> {''start'', ''stop'', ''restart''} then None
      else Some (gget payload ''service'', gget payload ''action''))"

definition exactContainerPayload :: "gomap \<Rightarrow> (string \<times> string) option" where
  "exactContainerPayload payload =
     (if length payload \<noteq> 2 \<or> \<not> agentContainerNamePattern (gget payload ''container'')
        \<or> gget payload ''action'' \<notin> {''start'', ''stop'', ''restart''} then None
      else Some (gget payload ''container'', gget payload ''action''))"

text \<open>\<^verbatim>\<open>json.Unmarshal\<close> of an object into a struct: keys that match no field are skipped.\<close>

definition loose_members :: "string list \<Rightarrow> (string \<times> json) list \<Rightarrow> (string \<times> json) list" where
  "loose_members names ms = List.map_filter (name_member names) ms"

definition cronJobNames :: "string list" where
  "cronJobNames = [''id'', ''schedule'', ''user'', ''command'', ''description'', ''enabled'']"

definition decodeCronJob :: "string \<Rightarrow> cronTaskJob option" where
  "decodeCronJob raw =
     Option.bind (raw_members raw) (\<lambda>ms. fold cron_member (loose_members cronJobNames ms) (Some cronTaskJobZero))"

record firewallRule = firewallTaskRule +
  rule_ID :: string
  rule_Managed :: bool
  rule_Raw :: string

definition firewallRuleZero :: firewallRule where
  "firewallRuleZero = \<lparr>fw_Action = [], fw_Protocol = [], fw_Port = 0, fw_Source = [], fw_Comment = [],
     rule_ID = [], rule_Managed = False, rule_Raw = []\<rparr>"

definition firewallRuleNames :: "string list" where
  "firewallRuleNames = [''id'', ''action'', ''protocol'', ''port'', ''source'', ''comment'', ''managed'', ''raw'']"

definition rule_member :: "string \<times> json \<Rightarrow> firewallRule option \<Rightarrow> firewallRule option" where
  "rule_member m r0 =
     (case (r0, m) of
        (None, _) \<Rightarrow> None
      | (Some r, (k, v)) \<Rightarrow>
          if v = JNull then Some r
          else if k = ''id'' then map_option (\<lambda>s. r\<lparr>rule_ID := s\<rparr>) (json_string v)
          else if k = ''action'' then map_option (\<lambda>s. r\<lparr>fw_Action := s\<rparr>) (json_string v)
          else if k = ''protocol'' then map_option (\<lambda>s. r\<lparr>fw_Protocol := s\<rparr>) (json_string v)
          else if k = ''port'' then map_option (\<lambda>i. r\<lparr>fw_Port := i\<rparr>) (json_int64 v)
          else if k = ''source'' then map_option (\<lambda>s. r\<lparr>fw_Source := s\<rparr>) (json_string v)
          else if k = ''comment'' then map_option (\<lambda>s. r\<lparr>fw_Comment := s\<rparr>) (json_string v)
          else if k = ''managed'' then map_option (\<lambda>b. r\<lparr>rule_Managed := b\<rparr>) (json_bool v)
          else if k = ''raw'' then map_option (\<lambda>s. r\<lparr>rule_Raw := s\<rparr>) (json_string v)
          else Some r)"

definition decodeFirewallRule :: "string \<Rightarrow> firewallRule option" where
  "decodeFirewallRule raw =
     Option.bind (raw_members raw) (\<lambda>ms. fold rule_member (loose_members firewallRuleNames ms) (Some firewallRuleZero))"

section \<open>The executor and its calls\<close>

text \<open>Of a controller interface the executor only asks whether it is nil.\<close>

record taskExecutor =
  te_host :: bool
  te_disk :: bool
  te_logs :: bool
  te_containers :: bool
  te_nginx :: bool
  te_php :: bool
  te_pm2 :: bool
  te_cron :: bool
  te_firewall :: bool
  te_domains :: bool
  te_ssl :: bool
  te_databases :: bool
  te_backups :: bool
  te_files :: bool
  te_deploys :: bool
  te_deployDomains :: bool
  te_agentUpdates :: bool
  te_profileApply :: bool
  te_metrics :: bool
  te_observed :: "string list"
  te_allowed :: "string list"
  te_allowedHostActions :: "string list"
  te_allowProcessSignals :: bool
  te_allowAgentUpdates :: bool

datatype agent_call =
    UpdateStatus | Upgrade string | Rollback
  | CollectMetrics
  | ServiceStatus string | ServiceAction string string
  | OptimizeMemory | ResetSwap | CleanTemporaryFiles | ScheduleReboot | CancelScheduledReboot
  | TerminateProcess int string nat
  | DiskScan | DiskExecute "string list"
  | ReadLogs string int
  | ListContainers | ContainerAction string string
  | NginxAction string | NginxList | NginxRead string | NginxWrite string string string bool
  | PHPInventory | PHPRead string string | PHPWrite string string string string bool | PHPAction string string
  | PM2List | PM2Logs string int | PM2Action string string
  | CronInventory | CronCreate cronTaskJob string | CronUpdate cronTaskJob string | CronDelete string string | CronRun string
  | FirewallInventory | FirewallAdd firewallRule string | FirewallDelete string string
  | DomainInventory | DomainAction string string
  | SSLInventory | SSLAction string string
  | DatabaseInventory | DatabaseAction string string
  | BackupInventory | BackupRun string
  | FilesBrowse string | FilesRead string | FilesWrite string string string
  | DeployInventory | DeployRun string string
  | DeployDomainInventory string | DeployDomainHealth string string
  | DeployDomainCreate string string | DeployDomainEnsure string string string | DeployDomainDelete string string
  | EnableTLS string string string | DisableTLS string string | RenewTLS string string

record call_reply =
  rp_Err :: "go_error option"
  rp_Text :: string
  rp_Output :: string
  rp_Value :: "go_error + json"
  rp_Service :: ServiceState
  rp_Exited :: bool
  rp_Confirmed :: bool

section \<open>Dispatch\<close>

abbreviation refuse :: "string \<Rightarrow> TaskResultRequest + agent_call" where
  "refuse text \<equiv> Inl (failedResult (errNew text))"

definition maxLogLines :: int where "maxLogLines = 500"
definition maxCronStateBytes :: nat where "maxCronStateBytes = 1048576"

text \<open>A kind without payload whose controller must be there.\<close>

definition plainCall :: "gomap \<Rightarrow> bool \<Rightarrow> agent_call \<Rightarrow> string \<Rightarrow> TaskResultRequest + agent_call" where
  "plainCall payload present call text = (if length payload \<noteq> 0 \<or> \<not> present then refuse text else Inr call)"

definition dispatchUpdateAction :: "taskExecutor \<Rightarrow> gomap \<Rightarrow> TaskResultRequest + agent_call" where
  "dispatchUpdateAction e p =
     (if \<not> te_agentUpdates e \<or> \<not> te_allowAgentUpdates e then refuse ''agent update actions are not enabled locally''
      else if gget p ''action'' = ''upgrade'' then
        (if length p \<noteq> 2 \<or> gget p ''version'' = [] then refuse ''agent upgrade requires exactly action and version fields''
         else Inr (Upgrade (gget p ''version'')))
      else if gget p ''action'' = ''rollback'' then
        (if length p \<noteq> 1 then refuse ''agent rollback accepts only the action field'' else Inr Rollback)
      else refuse ''unsupported agent lifecycle action'')"

definition dispatchMetrics :: "taskExecutor \<Rightarrow> gomap \<Rightarrow> TaskResultRequest + agent_call" where
  "dispatchMetrics e p =
     (if length p \<noteq> 0 \<or> \<not> te_metrics e then
        Inl \<lparr>res_Status = TaskStatusFailed, res_Result = [], res_Error = MetricsUnavailableError\<rparr>
      else Inr CollectMetrics)"

definition dispatchServiceStatus :: "taskExecutor \<Rightarrow> gomap \<Rightarrow> TaskResultRequest + agent_call" where
  "dispatchServiceStatus e p =
     (case exactPayload p ''service'' of
        None \<Rightarrow> refuse ''service.status requires exactly the service payload field''
      | Some service \<Rightarrow>
          if service \<notin> set (te_observed e) then refuse ''service is not in the observed allowlist''
          else Inr (ServiceStatus service))"

definition dispatchServiceAction :: "taskExecutor \<Rightarrow> gomap \<Rightarrow> TaskResultRequest + agent_call" where
  "dispatchServiceAction e p =
     (case exactActionPayload p of
        None \<Rightarrow> refuse ''service.action requires exactly service and action payload fields''
      | Some (service, action) \<Rightarrow>
          if service \<notin> set (te_allowed e) then refuse ''service is not in the action allowlist''
          else Inr (ServiceAction service action))"

definition dispatchHostAction :: "taskExecutor \<Rightarrow> gomap \<Rightarrow> TaskResultRequest + agent_call" where
  "dispatchHostAction e p =
     (case exactPayload p ''action'' of
        None \<Rightarrow> refuse ''host.action requires exactly the action payload field''
      | Some action \<Rightarrow>
          if action \<notin> set (te_allowedHostActions e) then refuse ''host action is not in the local allowlist''
          else if \<not> te_host e then refuse ''host action executor is unavailable''
          else if action = ''memory-optimize'' then Inr OptimizeMemory
          else if action = ''swap-reset'' then Inr ResetSwap
          else if action = ''temp-clean'' then Inr CleanTemporaryFiles
          else if action = ''reboot'' then Inr ScheduleReboot
          else if action = ''reboot-cancel'' then Inr CancelScheduledReboot
          else refuse ''unsupported host action'')"

definition dispatchProcessSignal :: "taskExecutor \<Rightarrow> gomap \<Rightarrow> TaskResultRequest + agent_call" where
  "dispatchProcessSignal e p =
     (if \<not> te_allowProcessSignals e then refuse ''process signals are not enabled locally''
      else
        let signal = gget p ''signal''; wrong = refuse ''process.signal requires a valid pid, start_time, and signal'' in
        (case (ParseInt64 (gget p ''pid''), ParseUint64 (gget p ''start_time'')) of
           (Some pid, Some startTime) \<Rightarrow>
             if length p \<noteq> 3 \<or> pid \<le> 1 \<or> startTime = 0 \<or> (signal \<noteq> ''term'' \<and> signal \<noteq> ''kill'') then wrong
             else if \<not> te_host e then refuse ''process signal executor is unavailable''
             else Inr (TerminateProcess pid signal startTime)
         | _ \<Rightarrow> wrong))"

definition dispatchDiskExecute :: "taskExecutor \<Rightarrow> gomap \<Rightarrow> TaskResultRequest + agent_call" where
  "dispatchDiskExecute e p =
     (case exactPayload p ''targets'' of
        None \<Rightarrow> refuse ''disk cleanup execution is not enabled locally''
      | Some targets \<Rightarrow>
          if \<not> te_disk e then refuse ''disk cleanup execution is not enabled locally''
          else Inr (DiskExecute (split_on (CHR '','') targets)))"

text \<open>A line count of at most 500.\<close>

definition lineCount :: "string \<Rightarrow> int option" where
  "lineCount s =
     (case ParseInt64 s of
        None \<Rightarrow> None
      | Some lines \<Rightarrow> if lines < 1 \<or> lines > maxLogLines then None else Some lines)"

definition dispatchLogs :: "taskExecutor \<Rightarrow> gomap \<Rightarrow> TaskResultRequest + agent_call" where
  "dispatchLogs e p =
     (case lineCount (gget p ''lines'') of
        None \<Rightarrow> refuse ''log reading is not enabled locally''
      | Some lines \<Rightarrow>
          if length p \<noteq> 2 \<or> \<not> te_logs e then refuse ''log reading is not enabled locally''
          else Inr (ReadLogs (gget p ''source'') lines))"

definition dispatchContainerAction :: "taskExecutor \<Rightarrow> gomap \<Rightarrow> TaskResultRequest + agent_call" where
  "dispatchContainerAction e p =
     (case exactContainerPayload p of
        None \<Rightarrow> refuse ''container action is not enabled locally''
      | Some (container, action) \<Rightarrow>
          if \<not> te_containers e then refuse ''container action is not enabled locally''
          else Inr (ContainerAction container action))"

definition dispatchNginxAction :: "taskExecutor \<Rightarrow> gomap \<Rightarrow> TaskResultRequest + agent_call" where
  "dispatchNginxAction e p =
     (case exactPayload p ''action'' of
        None \<Rightarrow> refuse ''Nginx action is not enabled locally''
      | Some action \<Rightarrow>
          if \<not> te_nginx e \<or> (action \<noteq> ''test'' \<and> action \<noteq> ''reload'') then refuse ''Nginx action is not enabled locally''
          else Inr (NginxAction action))"

definition dispatchNginxRead :: "taskExecutor \<Rightarrow> gomap \<Rightarrow> TaskResultRequest + agent_call" where
  "dispatchNginxRead e p =
     (case exactPayload p ''name'' of
        None \<Rightarrow> refuse ''Nginx configuration reading is not enabled locally''
      | Some name \<Rightarrow>
          if \<not> te_nginx e then refuse ''Nginx configuration reading is not enabled locally'' else Inr (NginxRead name))"

definition dispatchNginxWrite :: "taskExecutor \<Rightarrow> gomap \<Rightarrow> TaskResultRequest + agent_call" where
  "dispatchNginxWrite e p =
     (if length p \<noteq> 4 \<or> \<not> te_nginx e then refuse ''Nginx configuration writing is not enabled locally''
      else (case (b64_decode (gget p ''content_b64''), ParseBool (gget p ''reload'')) of
          (Some content, Some reload) \<Rightarrow>
            if \<not> agentNginxConfigNamePattern (gget p ''name'') \<or> \<not> agentSHA256Pattern (gget p ''checksum'')
            then refuse ''invalid Nginx configuration write request''
            else Inr (NginxWrite (gget p ''name'') content (gget p ''checksum'') reload)
        | _ \<Rightarrow> refuse ''invalid Nginx configuration write request''))"

definition dispatchPHPWrite :: "taskExecutor \<Rightarrow> gomap \<Rightarrow> TaskResultRequest + agent_call" where
  "dispatchPHPWrite e p =
     (if length p \<noteq> 5 \<or> \<not> te_php e then refuse ''PHP-FPM configuration writing is not enabled locally''
      else (case (b64_decode (gget p ''content_b64''), ParseBool (gget p ''reload'')) of
          (Some content, Some reload) \<Rightarrow>
            if \<not> agentPHPVersionPattern (gget p ''version'') \<or> \<not> agentPHPPoolNamePattern (gget p ''pool'')
              \<or> \<not> agentSHA256Pattern (gget p ''checksum'')
            then refuse ''invalid PHP-FPM configuration write request''
            else Inr (PHPWrite (gget p ''version'') (gget p ''pool'') content (gget p ''checksum'') reload)
        | _ \<Rightarrow> refuse ''invalid PHP-FPM configuration write request''))"

definition dispatchPM2Logs :: "taskExecutor \<Rightarrow> gomap \<Rightarrow> TaskResultRequest + agent_call" where
  "dispatchPM2Logs e p =
     (case lineCount (gget p ''lines'') of
        None \<Rightarrow> refuse ''PM2 log reading is not enabled locally''
      | Some lines \<Rightarrow>
          if length p \<noteq> 2 \<or> \<not> te_pm2 e \<or> \<not> agentPM2NamePattern (gget p ''name'')
          then refuse ''PM2 log reading is not enabled locally''
          else Inr (PM2Logs (gget p ''name'') lines))"

definition dispatchCronWrite :: "taskExecutor \<Rightarrow> string \<Rightarrow> gomap \<Rightarrow> TaskResultRequest + agent_call" where
  "dispatchCronWrite e kind p =
     (if length p \<noteq> 2 \<or> \<not> te_cron e \<or> \<not> agentSHA256Pattern (gget p ''revision'')
      then refuse ''cron writing is not enabled locally''
      else (case b64_decode (gget p ''job_b64'') of
          None \<Rightarrow> refuse ''invalid cron job payload''
        | Some raw \<Rightarrow>
            if length raw > maxCronStateBytes then refuse ''invalid cron job payload''
            else (case decodeCronJob raw of
                None \<Rightarrow> refuse ''invalid cron job payload''
              | Some job \<Rightarrow>
                  Inr ((if kind = TaskCronCreate then CronCreate else CronUpdate) job (gget p ''revision'')))))"

definition dispatchFirewallAdd :: "taskExecutor \<Rightarrow> gomap \<Rightarrow> TaskResultRequest + agent_call" where
  "dispatchFirewallAdd e p =
     (if length p \<noteq> 2 \<or> \<not> te_firewall e \<or> \<not> agentSHA256Pattern (gget p ''revision'')
      then refuse ''firewall writing is not enabled locally''
      else (case b64_decode (gget p ''rule_b64'') of
          None \<Rightarrow> refuse ''invalid firewall rule payload''
        | Some raw \<Rightarrow>
            if length raw > 1024 then refuse ''invalid firewall rule payload''
            else (case decodeFirewallRule raw of
                None \<Rightarrow> refuse ''invalid firewall rule payload''
              | Some rule \<Rightarrow> Inr (FirewallAdd rule (gget p ''revision'')))))"

definition dispatchFilesWrite :: "taskExecutor \<Rightarrow> gomap \<Rightarrow> TaskResultRequest + agent_call" where
  "dispatchFilesWrite e p =
     (if length p \<noteq> 3 \<or> \<not> te_files e then refuse ''file writing is not enabled locally''
      else (case b64_decode (gget p ''content_b64'') of
          None \<Rightarrow> refuse ''invalid file content''
        | Some content \<Rightarrow> Inr (FilesWrite (gget p ''path'') content (gget p ''checksum''))))"

definition dispatchDeployDomainAction :: "taskExecutor \<Rightarrow> gomap \<Rightarrow> TaskResultRequest + agent_call" where
  "dispatchDeployDomainAction e p =
     (if \<not> te_deployDomains e \<or> \<not> agentNginxConfigNamePattern (gget p ''target'')
      then refuse ''project domain action request is invalid or disabled locally''
      else
        let target = gget p ''target''; domain = gget p ''domain''; action = gget p ''action'' in
        if action = ''create'' then
          (if length p \<noteq> 3 then refuse ''project domain create request is invalid'' else Inr (DeployDomainCreate target domain))
        else if action = ''ensure'' then
          (if length p \<noteq> 4 \<or> gget p ''expected_revision'' = [] \<or> \<not> validAgentDeployDomainRevision (gget p ''expected_revision'')
           then refuse ''project domain ensure request requires exactly target, domain, action, and expected_revision''
           else Inr (DeployDomainEnsure target domain (gget p ''expected_revision'')))
        else if action = ''delete'' then
          (if length p \<noteq> 3 then refuse ''project domain delete request is invalid'' else Inr (DeployDomainDelete target domain))
        else if action = ''tls-enable'' then
          (if length p \<noteq> 3 \<and> length p \<noteq> 4 then refuse ''project TLS enable request is invalid''
           else Inr (EnableTLS target domain (gget p ''email'')))
        else if action = ''tls-disable'' then
          (if length p \<noteq> 3 then refuse ''project TLS disable request is invalid'' else Inr (DisableTLS target domain))
        else if action = ''tls-renew'' then
          (if length p \<noteq> 3 then refuse ''project TLS renewal request is invalid'' else Inr (RenewTLS target domain))
        else refuse ''unsupported project domain action'')"

text \<open>A kind with a fixed number of fields and a further condition.\<close>

definition fieldsCall :: "nat \<Rightarrow> gomap \<Rightarrow> bool \<Rightarrow> agent_call \<Rightarrow> string \<Rightarrow> TaskResultRequest + agent_call" where
  "fieldsCall n payload cond call text = (if length payload \<noteq> n \<or> \<not> cond then refuse text else Inr call)"

text \<open>The switch over the kind, in three parts as for the hub's validator.\<close>

definition dispatchA :: "taskExecutor \<Rightarrow> string \<Rightarrow> gomap \<Rightarrow> (TaskResultRequest + agent_call) option" where
  "dispatchA e kind p =
     (if kind = TaskAgentUpdateStatus then
        Some (plainCall p (te_agentUpdates e) UpdateStatus ''agent update status is not enabled locally'')
      else if kind = TaskAgentUpdateAction then Some (dispatchUpdateAction e p)
      else if kind = TaskMetricsRead then Some (dispatchMetrics e p)
      else if kind = TaskServiceStatus then Some (dispatchServiceStatus e p)
      else if kind = TaskServiceAction then Some (dispatchServiceAction e p)
      else if kind = TaskHostAction then Some (dispatchHostAction e p)
      else if kind = TaskProcessSignal then Some (dispatchProcessSignal e p)
      else if kind = TaskDiskCleanupScan then
        Some (plainCall p (te_disk e) DiskScan ''disk cleanup scan is not enabled locally'')
      else if kind = TaskDiskCleanupExecute then Some (dispatchDiskExecute e p)
      else if kind = TaskLogsRead then Some (dispatchLogs e p)
      else if kind = TaskContainerList then
        Some (plainCall p (te_containers e) ListContainers ''container inventory is not enabled locally'')
      else if kind = TaskContainerAction then Some (dispatchContainerAction e p)
      else if kind = TaskNginxAction then Some (dispatchNginxAction e p)
      else if kind = TaskNginxConfigList then
        Some (plainCall p (te_nginx e) NginxList ''Nginx configuration reading is not enabled locally'')
      else if kind = TaskNginxConfigRead then Some (dispatchNginxRead e p)
      else if kind = TaskNginxConfigWrite then Some (dispatchNginxWrite e p)
      else None)"

definition dispatchB :: "taskExecutor \<Rightarrow> string \<Rightarrow> gomap \<Rightarrow> (TaskResultRequest + agent_call) option" where
  "dispatchB e kind p =
     (if kind = TaskPHPInventory then
        Some (plainCall p (te_php e) PHPInventory ''PHP-FPM inventory is not enabled locally'')
      else if kind = TaskPHPConfigRead then
        Some (fieldsCall 2 p (te_php e) (PHPRead (gget p ''version'') (gget p ''pool''))
                ''PHP-FPM configuration reading is not enabled locally'')
      else if kind = TaskPHPConfigWrite then Some (dispatchPHPWrite e p)
      else if kind = TaskPHPAction then
        Some (fieldsCall 2 p (te_php e) (PHPAction (gget p ''version'') (gget p ''action''))
                ''PHP-FPM action is not enabled locally'')
      else if kind = TaskPM2List then Some (plainCall p (te_pm2 e) PM2List ''PM2 inventory is not enabled locally'')
      else if kind = TaskPM2Logs then Some (dispatchPM2Logs e p)
      else if kind = TaskPM2Action then
        Some (fieldsCall 2 p (te_pm2 e \<and> agentPM2NamePattern (gget p ''name''))
                (PM2Action (gget p ''name'') (gget p ''action'')) ''PM2 action is not enabled locally'')
      else if kind = TaskCronInventory then
        Some (plainCall p (te_cron e) CronInventory ''cron inventory is not enabled locally'')
      else if kind = TaskCronCreate \<or> kind = TaskCronUpdate then Some (dispatchCronWrite e kind p)
      else if kind = TaskCronDelete then
        Some (fieldsCall 2 p (te_cron e) (CronDelete (gget p ''id'') (gget p ''revision''))
                ''cron deletion is not enabled locally'')
      else if kind = TaskCronRun then
        Some (fieldsCall 1 p (te_cron e) (CronRun (gget p ''id'')) ''manual cron execution is not enabled locally'')
      else if kind = TaskFirewallInventory then
        Some (plainCall p (te_firewall e) FirewallInventory ''firewall inventory is not enabled locally'')
      else if kind = TaskFirewallAdd then Some (dispatchFirewallAdd e p)
      else if kind = TaskFirewallDelete then
        Some (fieldsCall 2 p (te_firewall e) (FirewallDelete (gget p ''id'') (gget p ''revision''))
                ''firewall deletion is not enabled locally'')
      else None)"

definition dispatchC :: "taskExecutor \<Rightarrow> string \<Rightarrow> gomap \<Rightarrow> (TaskResultRequest + agent_call) option" where
  "dispatchC e kind p =
     (if kind = TaskDomainInventory then
        Some (plainCall p (te_domains e) DomainInventory ''domain inventory is not enabled locally'')
      else if kind = TaskDomainAction then
        Some (fieldsCall 2 p (te_domains e) (DomainAction (gget p ''config'') (gget p ''action''))
                ''domain actions are not enabled locally'')
      else if kind = TaskSSLInventory then
        Some (plainCall p (te_ssl e) SSLInventory ''SSL certificate inventory is not enabled locally'')
      else if kind = TaskSSLAction then
        Some (fieldsCall 2 p (te_ssl e) (SSLAction (gget p ''name'') (gget p ''action''))
                ''SSL certificate actions are not enabled locally'')
      else if kind = TaskDatabaseInventory then
        Some (plainCall p (te_databases e) DatabaseInventory ''database inventory is not enabled locally'')
      else if kind = TaskDatabaseAction then
        Some (fieldsCall 2 p (te_databases e) (DatabaseAction (gget p ''engine'') (gget p ''action''))
                ''database actions are not enabled locally'')
      else if kind = TaskBackupInventory then
        Some (plainCall p (te_backups e) BackupInventory ''backup inventory is not enabled locally'')
      else if kind = TaskBackupRun then
        Some (fieldsCall 1 p (te_backups e) (BackupRun (gget p ''plan'')) ''backup execution is not enabled locally'')
      else if kind = TaskFilesBrowse then
        Some (fieldsCall 1 p (te_files e) (FilesBrowse (gget p ''path'')) ''file browsing is not enabled locally'')
      else if kind = TaskFilesRead then
        Some (fieldsCall 1 p (te_files e) (FilesRead (gget p ''path'')) ''file reading is not enabled locally'')
      else if kind = TaskFilesWrite then Some (dispatchFilesWrite e p)
      else if kind = TaskDeployInventory then
        Some (plainCall p (te_deploys e) DeployInventory ''deploy inventory is not enabled locally'')
      else if kind = TaskDeployAction then
        Some (fieldsCall 2 p (te_deploys e \<and> agentNginxConfigNamePattern (gget p ''target'') \<and> validAgentDeployAction (gget p ''action''))
                (DeployRun (gget p ''target'') (gget p ''action'')) ''deploy action request is invalid or disabled locally'')
      else if kind = TaskDeployDomainInventory then
        Some (fieldsCall 1 p (te_deployDomains e \<and> agentNginxConfigNamePattern (gget p ''target''))
                (DeployDomainInventory (gget p ''target''))
                ''project domain inventory request is invalid or disabled locally'')
      else if kind = TaskDeployDomainHealth then
        Some (fieldsCall 2 p (te_deployDomains e \<and> agentNginxConfigNamePattern (gget p ''target''))
                (DeployDomainHealth (gget p ''target'') (gget p ''domain''))
                ''project domain health request is invalid or disabled locally'')
      else if kind = TaskDeployDomainAction then Some (dispatchDeployDomainAction e p)
      else None)"

definition dispatch :: "taskExecutor \<Rightarrow> string \<Rightarrow> gomap \<Rightarrow> TaskResultRequest + agent_call" where
  "dispatch e kind p =
     (case dispatchA e kind p of
        Some r \<Rightarrow> r
      | None \<Rightarrow> (case dispatchB e kind p of
          Some r \<Rightarrow> r
        | None \<Rightarrow> (case dispatchC e kind p of Some r \<Rightarrow> r | None \<Rightarrow> refuse ''unsupported task kind'')))"

section \<open>Results of the calls\<close>

definition messageResult :: "string \<Rightarrow> TaskResultRequest" where
  "messageResult message = completed [(''message'', message)]"

definition serviceResult :: "ServiceState \<Rightarrow> TaskResultRequest" where
  "serviceResult st = completed [(''active'', svc_Active st), (''service'', svc_Name st), (''sub'', svc_Sub st)]"

definition actionResult :: "string \<Rightarrow> ServiceState \<Rightarrow> TaskResultRequest" where
  "actionResult action st =
     completed [(''action'', action), (''active'', svc_Active st), (''service'', svc_Name st), (''sub'', svc_Sub st)]"

definition hostResult :: "string \<Rightarrow> call_reply \<Rightarrow> TaskResultRequest" where
  "hostResult action r = completed [(''action'', action), (''message'', rp_Text r)]"

definition savedResult :: "string \<Rightarrow> bool \<Rightarrow> call_reply \<Rightarrow> TaskResultRequest" where
  "savedResult what reload r =
     completed [(''backup'', rp_Text r),
       (''message'', what @ (if reload then '' saved, tested and reloaded'' else '' saved and tested''))]"

text \<open>The result after a call that succeeded.\<close>

fun succeeded :: "agent_call \<Rightarrow> call_reply \<Rightarrow> TaskResultRequest" where
  "succeeded (ServiceStatus _) r = serviceResult (rp_Service r)"
| "succeeded OptimizeMemory r = hostResult ''memory-optimize'' r"
| "succeeded ResetSwap r = hostResult ''swap-reset'' r"
| "succeeded CleanTemporaryFiles r = hostResult ''temp-clean'' r"
| "succeeded ScheduleReboot r = hostResult ''reboot'' r"
| "succeeded CancelScheduledReboot r = hostResult ''reboot-cancel'' r"
| "succeeded (TerminateProcess _ _ _) r =
     completed [(''confirmed'', FormatBool (rp_Confirmed r)), (''exited'', FormatBool (rp_Exited r)), (''message'', rp_Text r)]"
| "succeeded (ContainerAction _ _) r = messageResult (rp_Text r)"
| "succeeded (NginxAction _) r = messageResult (rp_Text r)"
| "succeeded (NginxWrite _ _ _ reload) r = savedResult ''Nginx configuration'' reload r"
| "succeeded (PHPWrite _ _ _ _ reload) r = savedResult ''PHP-FPM pool'' reload r"
| "succeeded (PHPAction _ _) r = messageResult (rp_Text r)"
| "succeeded (PM2Action _ _) r = messageResult (rp_Text r)"
| "succeeded (CronCreate _ _) r = completed [(''id'', rp_Text r), (''message'', ''Cron job created and validated'')]"
| "succeeded (CronUpdate _ _) r = messageResult ''Cron job updated and validated''"
| "succeeded (CronDelete _ _) r = messageResult ''Cron job deleted''"
| "succeeded (CronRun _) r =
     (let result = jsonTaskResult (Inr (JStr (rp_Text r))) in
      result\<lparr>res_Result := gput ''message'' ''Cron job completed'' (res_Result result)\<rparr>)"
| "succeeded (FirewallAdd _ _) r = completed [(''id'', rp_Text r), (''message'', ''Firewall rule added and persisted'')]"
| "succeeded (FirewallDelete _ _) r = messageResult ''Firewall rule deleted and persisted''"
| "succeeded (DomainAction _ _) r = messageResult (rp_Text r)"
| "succeeded (SSLAction _ _) r = messageResult (rp_Text r)"
| "succeeded (DatabaseAction _ _) r = messageResult (rp_Text r)"
| "succeeded (BackupRun _) r = messageResult (rp_Text r)"
| "succeeded (FilesWrite _ _ _) r = completed [(''backup'', rp_Text r), (''message'', ''File saved'')]"
| "succeeded (DeployRun _ _) r = completed [(''message'', rp_Text r), (''output'', rp_Output r)]"
| "succeeded (DeployDomainDelete _ _) r = messageResult ''Managed project domain removed''"
| "succeeded _ r = jsonTaskResult (rp_Value r)"

text \<open>The result after a call that returned an error.\<close>

fun failed :: "agent_call \<Rightarrow> call_reply \<Rightarrow> go_error \<Rightarrow> TaskResultRequest" where
  "failed CollectMetrics r e = \<lparr>res_Status = TaskStatusFailed, res_Result = [], res_Error = MetricsUnavailableError\<rparr>"
| "failed NginxList r e = failedNginxResult e"
| "failed (NginxRead _) r e = failedNginxResult e"
| "failed (NginxWrite _ _ _ _) r e = failedNginxResult e"
| "failed PHPInventory r e = failedPHPResult e"
| "failed (PHPRead _ _) r e = failedPHPResult e"
| "failed (PHPWrite _ _ _ _ _) r e = failedPHPResult e"
| "failed (PHPAction _ _) r e = failedPHPResult e"
| "failed CronInventory r e = failedCronResult e"
| "failed (CronCreate _ _) r e = failedCronResult e"
| "failed (CronUpdate _ _) r e = failedCronResult e"
| "failed (CronDelete _ _) r e = failedCronResult e"
| "failed (CronRun _) r e = failedCronResult e"
| "failed FirewallInventory r e = failedFirewallResult e"
| "failed (FirewallAdd _ _) r e = failedFirewallResult e"
| "failed (FirewallDelete _ _) r e = failedFirewallResult e"
| "failed (DomainAction _ _) r e = failedNginxResult e"
| "failed (FilesWrite _ _ _) r e = failedNginxResult e"
| "failed (DeployRun _ _) r e =
     \<lparr>res_Status = TaskStatusFailed, res_Result = [(''output'', rp_Output r)], res_Error = err_Text e\<rparr>"
| "failed (DeployDomainEnsure _ _ _) r e = failedDeployDomainResult e"
| "failed _ r e = failedResult e"

definition finish :: "agent_call \<Rightarrow> call_reply \<Rightarrow> TaskResultRequest" where
  "finish call r = (case rp_Err r of None \<Rightarrow> succeeded call r | Some e \<Rightarrow> failed call r e)"

section \<open>Execution\<close>

text \<open>
  What the executor reaches outside: the controllers, the profile controller (an outcome or a safe
  error code), the two status probes, and the clock.
\<close>

record 's agent_env =
  en_perform :: "agent_call \<Rightarrow> 's \<Rightarrow> call_reply \<times> 's"
  en_apply :: "gomap \<Rightarrow> 's \<Rightarrow> (string + profileApplyOutcome) \<times> 's"
  en_probes :: "'s \<Rightarrow> (probe_run option \<times> probe_run option) \<times> 's"
  en_now :: go_time

text \<open>A service action is followed by a status call.\<close>

definition executeServiceAction :: "'s agent_env \<Rightarrow> string \<Rightarrow> string \<Rightarrow> 's \<Rightarrow> TaskResultRequest \<times> 's" where
  "executeServiceAction env service action s =
     (case en_perform env (ServiceAction service action) s of (r, s1) \<Rightarrow>
        (case rp_Err r of
           Some e \<Rightarrow> (failedResult e, s1)
         | None \<Rightarrow>
             (case en_perform env (ServiceStatus service) s1 of (r2, s2) \<Rightarrow>
                (case rp_Err r2 of
                   Some e \<Rightarrow> (failedResult (e\<lparr>err_Text := ''action completed but status check failed: '' @ err_Text e\<rparr>), s2)
                 | None \<Rightarrow> (actionResult action (rp_Service r2), s2)))))"

definition executeCall :: "'s agent_env \<Rightarrow> agent_call \<Rightarrow> 's \<Rightarrow> TaskResultRequest \<times> 's" where
  "executeCall env call s =
     (case call of
        ServiceAction service action \<Rightarrow> executeServiceAction env service action s
      | _ \<Rightarrow> (case en_perform env call s of (r, s1) \<Rightarrow> (finish call r, s1)))"

definition execute :: "taskExecutor \<Rightarrow> 's agent_env \<Rightarrow> Task \<Rightarrow> 's \<Rightarrow> TaskResultRequest \<times> 's" where
  "execute e env task s =
     (if task_Kind task = TaskProfileApply then
        (if \<not> te_profileApply e then (failedProfileTaskResult profileErrorNotReady, s)
         else (case en_apply env (task_Payload task) s of
             (Inl code, s1) \<Rightarrow> (failedProfileTaskResult code, s1)
           | (Inr outcome, s1) \<Rightarrow> (profileApplyTaskResult outcome, s1)))
      else if task_Kind task = TaskIntegrationStatus then
        executeManagedIntegrationStatus (en_probes env) (en_now env) task s
      else (case dispatch e (task_Kind task) (task_Payload task) of
          Inl refusal \<Rightarrow> (refusal, s)
        | Inr call \<Rightarrow> executeCall env call s))"

end
