(* ===== verification/GoIPNet.thy ===== *)
theory GoIPNet
  imports GoNet GoJSON "HOL-Library.Word"
begin

text \<open>
  Networks of package \<^verbatim>\<open>net\<close>: \<^verbatim>\<open>IPNet\<close> as \<^verbatim>\<open>ParseCIDR\<close> returns it, \<^verbatim>\<open>Contains\<close>, and the texts of addresses and
  networks. An address is a list of 4 or 16 byte values, a mask likewise. The lemma of interest:
  two networks that share an IPv4 address are nested, so that one contains the base address of the
  other.
\<close>

unbundle bit_operations_syntax

section \<open>Masks and networks\<close>

definition mask_byte :: "nat \<Rightarrow> nat" where
  "mask_byte k = (if 8 \<le> k then 255 else 256 - 2 ^ (8 - k))"

definition CIDRMask :: "nat \<Rightarrow> nat \<Rightarrow> nat list" where
  "CIDRMask ones bits = map (\<lambda>i. mask_byte (ones - 8 * i)) [0..<bits div 8]"

definition and_bytes :: "nat list \<Rightarrow> nat list \<Rightarrow> nat list" where
  "and_bytes xs ys = map2 (AND) xs ys"

record IPNet =
  net_IP :: "nat list"
  net_Mask :: "nat list"

text \<open>\<^verbatim>\<open>IP.To4\<close>, for addresses of either length.\<close>

definition ip4 :: "nat list \<Rightarrow> nat list option" where
  "ip4 ip = (if length ip = 4 then Some ip else To4 ip)"

text \<open>\<^verbatim>\<open>IP.Mask\<close> for the masks that \<^verbatim>\<open>ParseCIDR\<close> makes.\<close>

definition IPMask :: "nat list \<Rightarrow> nat list \<Rightarrow> nat list" where
  "IPMask ip m = (if length m = 4 then (case ip4 ip of None \<Rightarrow> [] | Some v4 \<Rightarrow> and_bytes v4 m) else and_bytes ip m)"

definition cidr_parts :: "string \<Rightarrow> (nat list \<times> nat \<times> nat) option" where
  "cidr_parts s =
     (case split_on (CHR 0x2F) s of
        addr # m # ms \<Rightarrow>
          (let mask = join_with (CHR 0x2F) (m # ms) in
           case parse_addr addr of
             None \<Rightarrow> None
           | Some (ip, bits) \<Rightarrow>
               if mask \<noteq> [] \<and> all_digits mask \<and> dec_val 0 mask \<le> bits then Some (ip, bits, dec_val 0 mask) else None)
      | _ \<Rightarrow> None)"

definition ParseCIDRNet :: "string \<Rightarrow> (nat list \<times> IPNet) option" where
  "ParseCIDRNet s =
     map_option (\<lambda>(ip, bits, n). (ip, \<lparr>net_IP = IPMask ip (CIDRMask n bits), net_Mask = CIDRMask n bits\<rparr>)) (cidr_parts s)"

definition networkNumberAndMask :: "IPNet \<Rightarrow> nat list \<times> nat list" where
  "networkNumberAndMask n =
     (let ip = (case ip4 (net_IP n) of Some v4 \<Rightarrow> v4 | None \<Rightarrow> net_IP n)
      in (ip, if length (net_Mask n) = 16 \<and> length ip = 4 then drop 12 (net_Mask n) else net_Mask n))"

definition Contains :: "IPNet \<Rightarrow> nat list \<Rightarrow> bool" where
  "Contains n ip =
     (let x = (case ip4 ip of Some v4 \<Rightarrow> v4 | None \<Rightarrow> ip); (nn, m) = networkNumberAndMask n
      in length x = length nn \<and> and_bytes nn m = and_bytes x m)"

section \<open>Texts\<close>

definition ipv4_string :: "nat list \<Rightarrow> string" where
  "ipv4_string v4 = join_with (CHR ''.'') (map dec_str v4)"

fun hex_str :: "nat \<Rightarrow> string" where
  "hex_str n = (if n < 16 then [hex_digit n] else hex_str (n div 16) @ [hex_digit (n mod 16)])"

declare hex_str.simps [simp del]

fun groups16 :: "nat list \<Rightarrow> nat list" where
  "groups16 (a # b # r) = (256 * a + b) # groups16 r"
| "groups16 _ = []"

text \<open>The leftmost longest run of at least two zero groups, as its start and end.\<close>

definition zero_run :: "nat list \<Rightarrow> nat \<times> nat" where
  "zero_run gs =
     fold (\<lambda>i (s, e). let j = i + length (takeWhile (\<lambda>g. g = 0) (drop i gs))
                       in if 2 \<le> j - i \<and> e - s < j - i then (i, j) else (s, e))
       [0..<length gs] (0, 0)"

definition ipv6_string :: "nat list \<Rightarrow> string" where
  "ipv6_string ip =
     (let gs = groups16 ip; hex = (\<lambda>xs. join_with (CHR '':'') (map hex_str xs)) in
      case zero_run gs of (s, e) \<Rightarrow>
        if e = 0 then hex gs else hex (take s gs) @ ''::'' @ hex (drop e gs))"

definition IPString :: "nat list \<Rightarrow> string" where
  "IPString ip = (case ip4 ip of Some v4 \<Rightarrow> ipv4_string v4 | None \<Rightarrow> ipv6_string ip)"

text \<open>The number of leading ones of a mask.\<close>

definition mask_length :: "nat list \<Rightarrow> nat" where
  "mask_length m = sum_list (map (\<lambda>b. length (takeWhile (\<lambda>k. bit b (7 - k)) [0..<8])) m)"

definition IPNetString :: "IPNet \<Rightarrow> string" where
  "IPNetString n = (case networkNumberAndMask n of (nn, m) \<Rightarrow> IPString nn @ ''/'' @ dec_str (mask_length m))"

section \<open>Nested networks\<close>

lemma mask_byte_and:
  assumes "k \<le> j"
  shows "mask_byte j AND mask_byte k = mask_byte k"
proof (cases "8 \<le> j")
  case True
  then have m: "mask_byte j = mask 8" by (simp add: mask_byte_def mask_eq_exp_minus_1)
  have "mask_byte k < 2 ^ 8" by (simp add: mask_byte_def)
  then have "take_bit 8 (mask_byte k) = mask_byte k" by (simp only: take_bit_nat_eq_self_iff)
  then show ?thesis by (simp add: m and.commute flip: take_bit_eq_mask)
next
  case False
  then have "j \<in> {0, 1, 2, 3, 4, 5, 6, 7}" "k \<in> {0, 1, 2, 3, 4, 5, 6, 7}" using assms by auto
  then show ?thesis using assms by (auto simp: mask_byte_def)
qed

lemma CIDRMask_length [simp]: "length (CIDRMask n bits) = bits div 8"
  by (simp add: CIDRMask_def)

lemma and_bytes_length [simp]: "length (and_bytes xs ys) = min (length xs) (length ys)"
  by (simp add: and_bytes_def)

lemma and_bytes_nth: "i < length xs \<Longrightarrow> i < length ys \<Longrightarrow> and_bytes xs ys ! i = xs ! i AND ys ! i"
  by (simp add: and_bytes_def)

lemma and_bytes_mask:
  assumes "k \<le> j"
  shows "and_bytes (and_bytes xs (CIDRMask j bits)) (CIDRMask k bits) = and_bytes xs (CIDRMask k bits)"
proof (rule nth_equalityI)
  fix i assume "i < length (and_bytes (and_bytes xs (CIDRMask j bits)) (CIDRMask k bits))"
  then have i: "i < length xs" "i < bits div 8" by simp_all
  have "mask_byte (j - 8 * i) AND mask_byte (k - 8 * i) = mask_byte (k - 8 * i)"
    using assms by (intro mask_byte_and) simp
  then show "and_bytes (and_bytes xs (CIDRMask j bits)) (CIDRMask k bits) ! i = and_bytes xs (CIDRMask k bits) ! i"
    using i by (simp add: and_bytes_nth CIDRMask_def and.assoc)
qed simp

lemma CIDRMask_tail: "drop 12 (CIDRMask n 128) = CIDRMask (n - 96) 32"
  by (simp add: CIDRMask_def drop_map upt_conv_Cons)

text \<open>Of a parsed network with an IPv4 base, the number and mask are those of an IPv4 network.\<close>

lemma parse_addr_bits: "parse_addr s = Some (ip, bits) \<Longrightarrow> bits = 32 \<and> (\<exists>v4. ip = v4_mapped v4) \<or> bits = 128"
  by (auto simp: parse_addr_def split: if_splits option.splits)

lemma number_and_mask:
  assumes "ParseCIDRNet s = Some (ip, net)" "networkNumberAndMask net = (nn, m)" "length nn = 4"
  shows "\<exists>k. m = CIDRMask k 32"
proof -
  obtain bits n where net: "net = \<lparr>net_IP = IPMask ip (CIDRMask n bits), net_Mask = CIDRMask n bits\<rparr>" "bits = 32 \<or> bits = 128"
    using assms(1) by (auto simp: ParseCIDRNet_def cidr_parts_def Let_def split: list.splits option.splits if_splits dest: parse_addr_bits)
  then show ?thesis
    using assms(2,3) CIDRMask_tail [of n] by (auto simp: networkNumberAndMask_def Let_def)
qed

lemma contains_v4: "length a = 4 \<Longrightarrow> Contains net a \<longleftrightarrow>
    (case networkNumberAndMask net of (nn, m) \<Rightarrow> length nn = 4 \<and> and_bytes nn m = and_bytes a m)"
  by (auto simp: Contains_def ip4_def Let_def split: prod.splits)

lemma contains_base:
  assumes "networkNumberAndMask net = (nn, m)" "length nn = 4"
  shows "Contains other (net_IP net) = Contains other nn"
proof -
  have "ip4 (net_IP net) = Some nn"
    using assms by (auto simp: networkNumberAndMask_def Let_def ip4_def split: option.splits)
  then show ?thesis using assms(2) by (simp add: Contains_def ip4_def)
qed

lemma shared_address_nested:
  assumes "ParseCIDRNet s = Some (ip, left)" "ParseCIDRNet s' = Some (ip', right)" "length a = 4" "Contains left a" "Contains right a"
  shows "Contains left (net_IP right) \<or> Contains right (net_IP left)"
proof -
  obtain nn m nn' m' where num: "networkNumberAndMask left = (nn, m)" "networkNumberAndMask right = (nn', m')"
    by (metis surj_pair)
  then have len: "length nn = 4" "length nn' = 4" and eqs: "and_bytes nn m = and_bytes a m" "and_bytes nn' m' = and_bytes a m'"
    using assms(3-5) by (auto simp: contains_v4)
  obtain k k' where k: "m = CIDRMask k 32" "m' = CIDRMask k' 32"
    using number_and_mask [OF assms(1) num(1) len(1)] number_and_mask [OF assms(2) num(2) len(2)] by blast
  have nested: "and_bytes y (CIDRMask i 32) = and_bytes a (CIDRMask i 32)"
    if "i \<le> j" "and_bytes y (CIDRMask j 32) = and_bytes a (CIDRMask j 32)" for i j y
    using and_bytes_mask [OF that(1), of y 32] and_bytes_mask [OF that(1), of a 32] that(2) by simp
  show ?thesis
  proof (cases "k \<le> k'")
    case True
    then have "Contains left nn'" using nested [OF True, of nn'] eqs num len by (simp add: contains_v4 k)
    then show ?thesis using contains_base [OF num(2) len(2)] by simp
  next
    case False
    then have "Contains right nn" using nested [of k' k nn] eqs num len by (simp add: contains_v4 k)
    then show ?thesis using contains_base [OF num(1) len(1)] by simp
  qed
qed

section \<open>Texts of IPv4 networks\<close>

lemma octet_dec_str: "n < 256 \<Longrightarrow> ipv4_octet (dec_str n) = Some n"
proof -
  have "length (dec_str n) = 1" if "hd (dec_str n) = CHR ''0''"
  proof -
    have "n < 10" using that dec_str_lead [of n] by (cases "10 \<le> n") auto
    then show ?thesis by (subst dec_str.simps) simp
  qed
  then show "n < 256 \<Longrightarrow> ipv4_octet (dec_str n) = Some n" using dec_str_props [of n] by (simp add: ipv4_octet_def)
qed

lemma dec_str_no:
  assumes "c \<in> set (dec_str n)"
  shows "asciiDigit (byte c)" "c \<noteq> CHR ''.''" "c \<noteq> CHR '':''" "c \<noteq> CHR 0x2F" "c \<noteq> CHR 0x25"
proof -
  show "asciiDigit (byte c)" using dec_str_props [of n] assms by (auto simp: all_digits_def list_all_iff)
  then show "c \<noteq> CHR ''.''" "c \<noteq> CHR '':''" "c \<noteq> CHR 0x2F" "c \<noteq> CHR 0x25" by (auto simp: asciiDigit_def)
qed

lemma split_dotted:
  "split_on (CHR ''.'') (ipv4_string [a, b, c, d]) = map dec_str [a, b, c, d]"
  unfolding ipv4_string_def by (rule split_join_on) (auto dest: dec_str_no)

lemma parse_addr_ipv4:
  assumes "length v4 = 4" "\<forall>x \<in> set v4. x < 256"
  shows "parse_addr (ipv4_string v4) = Some (v4_mapped v4, 32)"
proof -
  obtain a b c d where v4: "v4 = [a, b, c, d]" using assms(1) by (auto simp: numeral_eq_Suc length_Suc_conv)
  let ?s = "ipv4_string v4"
  have s: "?s = dec_str a @ CHR ''.'' # dec_str b @ CHR ''.'' # dec_str c @ CHR ''.'' # dec_str d"
    by (simp add: ipv4_string_def v4)
  have "find (\<lambda>c. c = CHR ''.'' \<or> c = CHR '':'') (xs @ CHR ''.'' # ys) = Some (CHR ''.'')" if "\<forall>c \<in> set xs. asciiDigit (byte c)" for xs ys
    using that by (induction xs) (auto simp: asciiDigit_def)
  then have "find (\<lambda>c. c = CHR ''.'' \<or> c = CHR '':'') ?s = Some (CHR ''.'')" by (simp add: s dec_str_no)
  moreover have "CHR 0x25 \<notin> set ?s" by (auto simp: s dest: dec_str_no)
  moreover have "parse_ipv4 ?s = Some v4"
    using assms(2) by (simp add: parse_ipv4_def v4 split_dotted octet_dec_str)
  ultimately show ?thesis by (simp add: parse_addr_def)
qed

lemma ParseCIDRNet_v4:
  assumes "length v4 = 4" "\<forall>x \<in> set v4. x < 256" "n \<le> 32"
  shows "ParseCIDRNet (ipv4_string v4 @ ''/'' @ dec_str n) =
    Some (v4_mapped v4, \<lparr>net_IP = and_bytes v4 (CIDRMask n 32), net_Mask = CIDRMask n 32\<rparr>)"
proof -
  have slash: "CHR 0x2F \<notin> set (dec_str k)" for k by (auto dest: dec_str_no)
  obtain a b c d where v4: "v4 = [a, b, c, d]" using assms(1) by (auto simp: numeral_eq_Suc length_Suc_conv)
  have "CHR 0x2F \<notin> set (ipv4_string v4)" by (auto simp: ipv4_string_def v4 dest: dec_str_no)
  then have "split_on (CHR 0x2F) (ipv4_string v4 @ ''/'' @ dec_str n) = [ipv4_string v4, dec_str n]"
    using split_on_append [of "CHR 0x2F" "ipv4_string v4" "dec_str n"] split_on_single [OF slash] by simp
  then show ?thesis
    using assms dec_str_props [of n] parse_addr_ipv4 [OF assms(1,2)]
    by (simp add: ParseCIDRNet_def cidr_parts_def IPMask_def ip4_def To4_def v4_mapped_def)
qed

lemma mask_length_CIDR:
  assumes "n \<le> 32"
  shows "mask_length (CIDRMask n 32) = n"
proof -
  have b: "length (takeWhile (\<lambda>k. bit (mask_byte j) (7 - k)) [0..<8]) = min 8 j" for j :: nat
  proof (cases "8 \<le> j")
    case True
    have "length (takeWhile (\<lambda>k. bit (255 :: nat) (7 - k)) [0..<8]) = 8" by code_simp
    then show ?thesis using True by (simp add: mask_byte_def)
  next
    case False
    have "list_all (\<lambda>j. length (takeWhile (\<lambda>k. bit (mask_byte j) (7 - k)) [0..<8]) = j) [0..<8]" by code_simp
    then show ?thesis using False by (simp add: list_all_iff)
  qed
  have "[0..<32 div 8] = [0, 1, 2, 3 :: nat]" by code_simp
  then have "mask_length (CIDRMask n 32) = min 8 n + (min 8 (n - 8) + (min 8 (n - 16) + min 8 (n - 24)))"
    unfolding mask_length_def CIDRMask_def by (simp only: list.map b sum_list.Cons sum_list.Nil) simp
  then show ?thesis using assms by linarith
qed

end
