(* ===== verification/GoFields.thy ===== *)
theory GoFields
  imports GoEncoding
begin

text \<open>
  Words and short encodings of the agent: \<^verbatim>\<open>strings.Fields\<close>, \<^verbatim>\<open>strings.Trim\<close> with a set of ASCII characters,
  \<^verbatim>\<open>strings.SplitN\<close>, \<^verbatim>\<open>strconv.Atoi\<close> and \<^verbatim>\<open>base64.RawURLEncoding\<close>. What is written as words joined by single
  blanks is read back as those words, and a text survives the encoding.
\<close>

section \<open>Fields\<close>

text \<open>\<open>cur\<close> holds the bytes of the field that is being read.\<close>

function fields_from :: "string \<Rightarrow> string \<Rightarrow> string list" where
  "fields_from cur [] = (if cur = [] then [] else [cur])"
| "fields_from cur (c # s) =
     (case decode_rune c s of (r, w) \<Rightarrow>
        if IsSpace r then (if cur = [] then fields_from [] (drop (w - 1) s) else cur # fields_from [] (drop (w - 1) s))
        else fields_from (cur @ c # take (w - 1) s) (drop (w - 1) s))"
  by pat_completeness auto
termination
  by (relation "measure (length \<circ> snd)") auto

declare fields_from.simps(2) [simp del]

definition Fields :: "string \<Rightarrow> string list" where
  "Fields s = fields_from [] s"

definition word_char :: "char \<Rightarrow> bool" where
  "word_char c = (byte c < 0x80 \<and> \<not> IsSpace (byte c))"

abbreviation is_word :: "string \<Rightarrow> bool" where
  "is_word w \<equiv> w \<noteq> [] \<and> list_all word_char w"

lemma fields_from_word:
  "list_all word_char w \<Longrightarrow> fields_from cur (w @ s) = fields_from (cur @ w) s"
proof (induction w arbitrary: cur)
  case (Cons c w)
  then show ?case by (simp add: fields_from.simps(2) word_char_def decode_rune_ascii)
qed simp

lemma fields_from_blank:
  "cur \<noteq> [] \<Longrightarrow> fields_from cur (CHR '' '' # s) = cur # fields_from [] s"
  by (simp add: fields_from.simps(2) decode_rune_ascii IsSpace_def space_runes_def)

lemma Fields_join: "list_all is_word ws \<Longrightarrow> Fields (join_with (CHR '' '') ws) = ws"
proof (induction ws rule: induct_list012)
  case (2 w)
  then show ?case using fields_from_word [of w "[]" "[]"] by (simp add: Fields_def)
next
  case (3 w v ws)
  then show ?case
    using fields_from_word [of w "[]"] fields_from_blank [of w] by (simp add: Fields_def)
qed (simp add: Fields_def)

text \<open>The length of the result is the count that the hub checks a schedule with.\<close>

lemma fields_from_length:
  "length (fields_from cur s) = (if cur = [] then 0 else 1) + count_fields (cur \<noteq> []) (runes s)"
  by (induction cur s rule: fields_from.induct)
     (auto simp: fields_from.simps(2) runes_def split: prod.splits)

lemma Fields_length: "length (Fields s) = num_fields s"
  by (simp add: Fields_def fields_from_length num_fields_def)

section \<open>Trimming and splitting\<close>

definition Trim :: "string \<Rightarrow> string \<Rightarrow> string" where
  "Trim s cutset = rev (dropWhile (\<lambda>c. c \<in> set cutset) (rev (dropWhile (\<lambda>c. c \<in> set cutset) s)))"

lemma Trim_id: "\<forall>c \<in> set s. c \<notin> set cutset \<Longrightarrow> Trim s cutset = s"
proof -
  have id: "dropWhile (\<lambda>c. c \<in> set cutset) t = t" if "\<forall>c \<in> set t. c \<notin> set cutset" for t
    using that by (cases t) auto
  from id [of s] id [of "rev s"] show "\<forall>c \<in> set s. c \<notin> set cutset \<Longrightarrow> Trim s cutset = s" by (simp add: Trim_def)
qed

text \<open>At most \<open>n\<close> parts, the last of which takes the rest.\<close>

fun SplitN :: "char \<Rightarrow> nat \<Rightarrow> string \<Rightarrow> string list" where
  "SplitN sep 0 s = []"
| "SplitN sep (Suc 0) s = [s]"
| "SplitN sep (Suc (Suc n)) s =
     (case split_on sep s of
        p # q # ps \<Rightarrow> p # SplitN sep (Suc n) (join_with sep (q # ps))
      | ps \<Rightarrow> ps)"

lemma SplitN_first:
  "sep \<notin> set p \<Longrightarrow> SplitN sep (Suc (Suc n)) (p @ sep # s) = p # SplitN sep (Suc n) s"
  using join_split_on [of sep s] by (cases "split_on sep s") (auto simp: split_on_append)

text \<open>\<^verbatim>\<open>port, _ := strconv.Atoi(s)\<close>: 0 for a text that is no number; a number out of range is clamped.\<close>

definition AtoiLoose :: "string \<Rightarrow> int" where
  "AtoiLoose s =
     (let digits = (if s \<noteq> [] \<and> (hd s = CHR ''-'' \<or> hd s = CHR ''+'') then tl s else s);
          v = int (dec_val 0 digits); n = (if s \<noteq> [] \<and> hd s = CHR ''-'' then - v else v)
      in if digits = [] \<or> \<not> all_digits digits then 0 else max (- (2 ^ 63)) (min (2 ^ 63 - 1) n))"

lemma AtoiLoose_dec_str: "n < 2 ^ 63 \<Longrightarrow> AtoiLoose (dec_str n) = int n"
proof -
  assume n: "n < 2 ^ 63"
  obtain c cs where d: "dec_str n = c # cs" "c \<noteq> CHR ''-''" "c \<noteq> CHR ''+''" using dec_str_hd by blast
  have "int n \<le> 2 ^ 63 - 1" using n by (simp add: zle_diff1_eq flip: of_nat_less_iff)
  then show ?thesis
    using dec_str_props [of n] d by (auto simp: AtoiLoose_def Let_def)
qed

section \<open>Unpadded URL-safe base64\<close>

definition url_char :: "nat \<Rightarrow> char" where
  "url_char n = (if n = 62 then CHR ''-'' else if n = 63 then CHR ''_'' else b64_char n)"

definition url_val :: "char \<Rightarrow> nat option" where
  "url_val c =
     (if c = CHR ''-'' then Some 62 else if c = CHR ''_'' then Some 63
      else if c = CHR ''+'' \<or> c = CHR 0x2F then None else b64_val c)"

fun rawurl_encode :: "string \<Rightarrow> string" where
  "rawurl_encode [] = []"
| "rawurl_encode [x] = [url_char (byte x div 4), url_char (byte x mod 4 * 16)]"
| "rawurl_encode [x, y] =
     [url_char (byte x div 4), url_char (byte x mod 4 * 16 + byte y div 16), url_char (byte y mod 16 * 4)]"
| "rawurl_encode (x # y # z # s) =
     url_char (byte x div 4) # url_char (byte x mod 4 * 16 + byte y div 16)
     # url_char (byte y mod 16 * 4 + byte z div 64) # url_char (byte z mod 64) # rawurl_encode s"

text \<open>
  What \<^verbatim>\<open>DecodeString\<close> returns besides the error: the bytes of the quanta before the first that is
  malformed. The last quantum may have two or three symbols.
\<close>

fun rawurl_quanta :: "string \<Rightarrow> string" where
  "rawurl_quanta (a # b # c # d # s) =
     (case (url_val a, url_val b, url_val c, url_val d) of
        (Some p, Some q, Some r, Some t) \<Rightarrow>
          char_of (p * 4 + q div 16) # char_of (q mod 16 * 16 + r div 4) # char_of (r mod 4 * 64 + t) # rawurl_quanta s
      | _ \<Rightarrow> [])"
| "rawurl_quanta [a, b, c] =
     (case (url_val a, url_val b, url_val c) of
        (Some p, Some q, Some r) \<Rightarrow> [char_of (p * 4 + q div 16), char_of (q mod 16 * 16 + r div 4)]
      | _ \<Rightarrow> [])"
| "rawurl_quanta [a, b] =
     (case (url_val a, url_val b) of (Some p, Some q) \<Rightarrow> [char_of (p * 4 + q div 16)] | _ \<Rightarrow> [])"
| "rawurl_quanta _ = []"

definition rawurl_decode :: "string \<Rightarrow> string" where
  "rawurl_decode s = rawurl_quanta (filter (\<lambda>c. c \<noteq> CHR 0x0A \<and> c \<noteq> CHR 0x0D) s)"

lemma url_val_char:
  assumes "n < 64"
  shows "url_val (url_char n) = Some n"
proof (cases "n < 62")
  case True
  then have "byte (b64_char n) \<noteq> 45" "byte (b64_char n) \<noteq> 95" "byte (b64_char n) \<noteq> 43" "byte (b64_char n) \<noteq> 47"
    by (auto simp: byte_b64_char)
  then have "b64_char n \<noteq> CHR ''-''" "b64_char n \<noteq> CHR ''_''" "b64_char n \<noteq> CHR ''+''" "b64_char n \<noteq> CHR 0x2F" by auto
  then show ?thesis using True by (simp add: url_val_def url_char_def b64_val_char)
next
  case False
  then have "n = 62 \<or> n = 63" using assms by auto
  then show ?thesis by (auto simp: url_val_def url_char_def)
qed

definition url_safe :: "char \<Rightarrow> bool" where
  "url_safe c = (asciiLetter (byte c) \<or> asciiDigit (byte c) \<or> c = CHR ''-'' \<or> c = CHR ''_'')"

lemma url_char_safe: "n < 64 \<Longrightarrow> url_safe (url_char n)"
  using byte_b64_char [of n]
  by (auto simp: url_char_def url_safe_def asciiLetter_def asciiDigit_def)

lemma rawurl_encode_safe: "list_all url_safe (rawurl_encode s)"
  by (induction s rule: rawurl_encode.induct) (auto simp: url_char_safe b64_part)

lemma rawurl_quanta_encode: "rawurl_quanta (rawurl_encode s) = s"
proof (induction s rule: rawurl_encode.induct)
  case (2 x)
  have "byte x div 4 < 64" "byte x mod 4 * 16 < 64" by (rule b64_part)+
  then show ?case by (simp add: url_val_char)
next
  case (3 x y)
  show ?case
    using b64_part(1) [of x] b64_part(2) [of x y] b64_part(6) [of y] b64_part(7) [of x y] b64_split [of y x]
    by (simp add: url_val_char)
next
  case (4 x y z s)
  then show ?case
    using b64_part(1) [of x] b64_part(2) [of x y] b64_part(3) [of y z] b64_part(4) [of z]
      b64_part(7) [of x y] b64_part(8) [of x y z] b64_part(9) [of y z]
    by (simp add: url_val_char)
qed simp

lemma rawurl_roundtrip: "rawurl_decode (rawurl_encode s) = s"
proof -
  have "filter (\<lambda>c. c \<noteq> CHR 0x0A \<and> c \<noteq> CHR 0x0D) (rawurl_encode s) = rawurl_encode s"
    using rawurl_encode_safe [of s]
    by (intro filter_True) (auto simp: list_all_iff url_safe_def asciiLetter_def asciiDigit_def)
  then show ?thesis by (simp add: rawurl_decode_def rawurl_quanta_encode)
qed

end
