(* ===== verification/AgentFirewall.thy ===== *)
theory AgentFirewall
  imports AgentTasks GoIPNet GoFields GoSHA256
begin

text \<open>
  The firewall controller of the node agent, \<^verbatim>\<open>cmd/hserver-agent/firewall.go\<close>: it lists the rules of the
  managed iptables chain, adds and deletes rules against an expected revision, refuses rules that
  would cut off a protected management path, and takes a change back when it cannot be saved.

  The host is a parameter, a record of the commands that can be run on it, in a state of its own:
  the command runner, the acquisition of a lock file, which works or fails as a whole, and the
  random bytes of a new id. A step is a function of that state.
\<close>

section \<open>Steps on a host\<close>

type_synonym ('s, 'a) act = "'s \<Rightarrow> (go_error + 'a) \<times> 's"

record 's host =
  ho_Run :: "string \<Rightarrow> string list \<Rightarrow> ('s, string) act"
  ho_Lock :: "string \<Rightarrow> ('s, unit) act"
  ho_Rand :: "nat \<Rightarrow> ('s, string) act"

definition give :: "'a \<Rightarrow> ('s, 'a) act" where
  "give x s = (Inr x, s)"

definition fail :: "go_error \<Rightarrow> ('s, 'a) act" where
  "fail e s = (Inl e, s)"

definition bindA :: "('s, 'a) act \<Rightarrow> ('a \<Rightarrow> ('s, 'b) act) \<Rightarrow> ('s, 'b) act" where
  "bindA m f s = (case m s of (Inl e, s') \<Rightarrow> (Inl e, s') | (Inr x, s') \<Rightarrow> f x s')"

text \<open>The error as a value, where the code looks at it.\<close>

definition tryA :: "('s, 'a) act \<Rightarrow> ('s, go_error + 'a) act" where
  "tryA m s = (case m s of (r, s') \<Rightarrow> (Inr r, s'))"

text \<open>\<^verbatim>\<open>fmt.Errorf("...: %w", err)\<close>.\<close>

definition wrapErr :: "string \<Rightarrow> go_error \<Rightarrow> go_error" where
  "wrapErr text e = \<lparr>err_Text = text @ err_Text e, err_Chain = err_Chain e\<rparr>"

definition wrapA :: "string \<Rightarrow> ('s, 'a) act \<Rightarrow> ('s, 'a) act" where
  "wrapA text m s = (case m s of (Inl e, s') \<Rightarrow> (Inl (wrapErr text e), s') | (Inr x, s') \<Rightarrow> (Inr x, s'))"

section \<open>Data\<close>

definition firewallManagedChain :: string where "firewallManagedChain = ''HSERVER-INPUT''"

definition agentFirewallIDPattern :: "string \<Rightarrow> bool" where
  "agentFirewallIDPattern s =
     (HasPrefix s ''fw-'' \<and> length (runes (drop 3 s)) = 12 \<and> list_all lowerHexRune (runes (drop 3 s)))"

definition firewallError :: "sentinel \<Rightarrow> go_error" where
  "firewallError s =
     \<lparr>err_Text = (if s = errFirewallChanged then ''firewall rules changed on the server''
        else if s = errFirewallNotFound then ''firewall rule was not found''
        else if s = errFirewallInvalid then ''firewall rule is invalid''
        else if s = errFirewallProtected then ''firewall rule would block a locally protected management path''
        else ''firewall persistence failed''),
      err_Chain = [s]\<rparr>"

record firewallInventory =
  fi_Backend :: string
  fi_Policy :: string
  fi_Persistence :: string
  fi_Rules :: "firewallRule list"
  fi_Revision :: string
  fi_ProtectedSources :: "string list"
  fi_ProtectedPorts :: "int list"

record firewallController =
  fc_allowRead :: bool
  fc_allowWrite :: bool
  fc_iptables :: string
  fc_saveBinary :: string
  fc_lockPath :: string
  fc_persistenceSvc :: string
  fc_protectedSources :: "IPNet list"
  fc_protectedLabels :: "string list"
  fc_protectedPorts :: "int set"

definition protectedNetwork :: "string \<Rightarrow> IPNet option" where
  "protectedNetwork source =
     (case ParseCIDRNet source of
        None \<Rightarrow> None
      | Some (_, network) \<Rightarrow> if ip4 (net_IP network) \<noteq> None then Some network else None)"

definition newFirewallController ::
  "bool \<Rightarrow> bool \<Rightarrow> string \<Rightarrow> string \<Rightarrow> string \<Rightarrow> string \<Rightarrow> string list \<Rightarrow> int set \<Rightarrow> firewallController" where
  "newFirewallController allowRead allowWrite iptables saveBinary lockPath persistenceSvc protectedSources protectedPorts =
     \<lparr>fc_allowRead = allowRead, fc_allowWrite = allowWrite, fc_iptables = iptables, fc_saveBinary = saveBinary,
      fc_lockPath = lockPath, fc_persistenceSvc = persistenceSvc,
      fc_protectedSources = List.map_filter protectedNetwork protectedSources,
      fc_protectedLabels = protectedSources, fc_protectedPorts = protectedPorts\<rparr>"

section \<open>Rules\<close>

text \<open>\<^verbatim>\<open>normalizeIPv4Network\<close> of \<^verbatim>\<open>config.go\<close>.\<close>

definition normalizeIPv4Network :: "string \<Rightarrow> string option" where
  "normalizeIPv4Network raw =
     (case Option.bind (ParseIP raw) ip4 of
        Some v4 \<Rightarrow> Some (IPString v4 @ ''/32'')
      | None \<Rightarrow>
          (case ParseCIDRNet raw of
             None \<Rightarrow> None
           | Some (ip, network) \<Rightarrow> if ip4 ip = None then None else Some (IPNetString network)))"

definition normalizeFirewallRule :: "firewallRule \<Rightarrow> go_error + firewallRule" where
  "normalizeFirewallRule rule =
     (if fw_Action rule \<noteq> ''ACCEPT'' \<and> fw_Action rule \<noteq> ''DROP''
         \<or> fw_Protocol rule \<noteq> ''tcp'' \<and> fw_Protocol rule \<noteq> ''udp'' \<and> fw_Protocol rule \<noteq> ''all'' then
        Inl (firewallError errFirewallInvalid)
      else if fw_Protocol rule = ''all'' \<and> fw_Port rule \<noteq> 0
         \<or> fw_Protocol rule \<noteq> ''all'' \<and> (fw_Port rule < 0 \<or> fw_Port rule > 65535)
         \<or> length (fw_Comment rule) > 80 \<or> ContainsAny (fw_Comment rule) lineBreaks then
        Inl (firewallError errFirewallInvalid)
      else
        (let source = TrimSpace (fw_Source rule); source = (if source = [] then ''0.0.0.0/0'' else source) in
         case normalizeIPv4Network source of
           None \<Rightarrow> Inl (firewallError errFirewallInvalid)
         | Some normalized \<Rightarrow> Inr (rule\<lparr>fw_Source := normalized\<rparr>)))"

definition networksOverlap :: "IPNet \<Rightarrow> IPNet \<Rightarrow> bool" where
  "networksOverlap left right = (Contains left (net_IP right) \<or> Contains right (net_IP left))"

definition blocksProtectedPath :: "firewallController \<Rightarrow> firewallRule \<Rightarrow> bool" where
  "blocksProtectedPath c rule =
     (if fw_Action rule \<noteq> ''DROP'' \<or> fc_protectedSources c = [] \<or> fc_protectedPorts c = {} then False
      else if fw_Port rule \<noteq> 0 \<and> fw_Port rule \<notin> fc_protectedPorts c then False
      else (case ParseCIDRNet (fw_Source rule) of
              None \<Rightarrow> False
            | Some (_, source) \<Rightarrow> list_ex (networksOverlap source) (fc_protectedSources c)))"

definition firewallAppendArgs :: "firewallRule \<Rightarrow> string list" where
  "firewallAppendArgs rule =
     [''-A'', firewallManagedChain]
     @ (if fw_Source rule \<noteq> ''0.0.0.0/0'' then [''-s'', fw_Source rule] else [])
     @ (if fw_Protocol rule \<noteq> ''all'' then [''-p'', fw_Protocol rule] else [])
     @ (if fw_Port rule \<noteq> 0 then [''--dport'', FormatInt (fw_Port rule)] else [])
     @ [''-m'', ''comment'', ''--comment'', ''hserver:'' @ rule_ID rule @ '':'' @ rawurl_encode (fw_Comment rule),
        ''-j'', fw_Action rule]"

fun argAfter :: "string list \<Rightarrow> string \<Rightarrow> string" where
  "argAfter (a # b # args) key = (if a = key then Trim b [DQ, CHR 0x27] else argAfter (b # args) key)"
| "argAfter _ key = []"

definition containsArgPair :: "string list \<Rightarrow> string \<Rightarrow> string \<Rightarrow> bool" where
  "containsArgPair args key value = (argAfter args key = value)"

definition hasFirewallComment :: "string list \<Rightarrow> string \<Rightarrow> bool" where
  "hasFirewallComment args p = HasPrefix (argAfter args ''--comment'') p"

definition defaultString :: "string \<Rightarrow> string \<Rightarrow> string" where
  "defaultString value fallback = (if value = [] then fallback else value)"

definition systemRule :: "nat \<Rightarrow> string \<Rightarrow> firewallRule" where
  "systemRule index line =
     (let args = Fields line in
      \<lparr>fw_Action = argAfter args ''-j'', fw_Protocol = defaultString (argAfter args ''-p'') ''all'', fw_Port = 0,
       fw_Source = argAfter args ''-s'', fw_Comment = [], rule_ID = ''input-'' @ dec_str index, rule_Managed = False,
       rule_Raw = line\<rparr>)"

text \<open>One line of the listing: the policy and the rules so far.\<close>

definition inputLine :: "nat \<times> string \<Rightarrow> string \<times> firewallRule list \<Rightarrow> string \<times> firewallRule list" where
  "inputLine il acc =
     (case (il, acc) of ((index, raw), (policy, rules)) \<Rightarrow>
        let line = TrimSpace raw; args = Fields line in
        if length args \<ge> 3 \<and> args ! 0 = ''-P'' \<and> args ! 1 = ''INPUT'' then (args ! 2, rules)
        else if length args < 2 \<or> args ! 0 \<noteq> ''-A'' \<or> args ! 1 \<noteq> ''INPUT'' \<or> containsArgPair args ''-j'' firewallManagedChain
        then (policy, rules)
        else (policy, rules @ [systemRule index line]))"

definition parseInputRules :: "string \<Rightarrow> string \<times> firewallRule list" where
  "parseInputRules output = fold inputLine (List.enumerate 0 (split_on (CHR 0x0A) output)) (''unknown'', [])"

definition parseManagedFirewallRule :: "string \<Rightarrow> firewallRule option" where
  "parseManagedFirewallRule line =
     (let args = Fields line; parts = SplitN (CHR '':'') 3 (argAfter args ''--comment'') in
      if length parts \<noteq> 3 \<or> parts ! 0 \<noteq> ''hserver'' \<or> \<not> agentFirewallIDPattern (parts ! 1) then None
      else Some \<lparr>fw_Action = argAfter args ''-j'', fw_Protocol = defaultString (argAfter args ''-p'') ''all'',
                 fw_Port = AtoiLoose (argAfter args ''--dport''), fw_Source = defaultString (argAfter args ''-s'') ''0.0.0.0/0'',
                 fw_Comment = rawurl_decode (parts ! 2), rule_ID = parts ! 1, rule_Managed = True, rule_Raw = line\<rparr>)"

definition firewallRevision :: "string list \<Rightarrow> string" where
  "firewallRevision lines = hex_encode (Sum256 (marshal_strings lines))"

section \<open>Operations\<close>

definition newFirewallID :: "'s host \<Rightarrow> ('s, string) act" where
  "newFirewallID h = bindA (ho_Rand h 6) (\<lambda>raw. give (''fw-'' @ hex_encode raw))"

definition managedLine :: "string \<Rightarrow> bool" where
  "managedLine line =
     (let args = Fields line in
      length args \<ge> 2 \<and> args ! 0 = ''-A'' \<and> args ! 1 = firewallManagedChain \<and> hasFirewallComment args ''hserver:fw-'')"

text \<open>A chain that cannot be listed counts as absent.\<close>

definition managedLines :: "'s host \<Rightarrow> firewallController \<Rightarrow> ('s, string list \<times> bool) act" where
  "managedLines h c =
     bindA (tryA (ho_Run h (fc_iptables c) [''-S'', firewallManagedChain])) (\<lambda>r. case r of
         Inl _ \<Rightarrow> give ([], False)
       | Inr output \<Rightarrow> give (filter managedLine (map TrimSpace (split_on (CHR 0x0A) output)), True))"

definition persistenceState :: "'s host \<Rightarrow> firewallController \<Rightarrow> ('s, string) act" where
  "persistenceState h c =
     bindA (tryA (ho_Run h ''/usr/bin/systemctl'' [''show'', ''--property=ActiveState'', ''--value'', fc_persistenceSvc c])) (\<lambda>r.
       give (case r of Inl _ \<Rightarrow> ''unavailable'' | Inr output \<Rightarrow> if TrimSpace output = [] then ''unavailable'' else TrimSpace output))"

definition withMutationLock :: "'s host \<Rightarrow> firewallController \<Rightarrow> ('s, 'a) act \<Rightarrow> ('s, 'a) act" where
  "withMutationLock h c m = bindA (ho_Lock h (fc_lockPath c)) (\<lambda>_. m)"

definition Inventory :: "'s host \<Rightarrow> firewallController \<Rightarrow> ('s, firewallInventory) act" where
  "Inventory h c =
     (if \<not> fc_allowRead c then fail (errNew ''firewall inventory is not enabled locally'')
      else
        bindA (wrapA ''read INPUT rules: '' (ho_Run h (fc_iptables c) [''-S'', ''INPUT''])) (\<lambda>inputOutput.
        bindA (managedLines h c) (\<lambda>(managed, _).
        bindA (persistenceState h c) (\<lambda>persistence.
          case parseInputRules inputOutput of (policy, systemRules) \<Rightarrow>
            give \<lparr>fi_Backend = ''iptables'', fi_Policy = policy, fi_Persistence = persistence,
                  fi_Rules = List.map_filter parseManagedFirewallRule managed @ systemRules,
                  fi_Revision = firewallRevision managed, fi_ProtectedSources = fc_protectedLabels c,
                  fi_ProtectedPorts = sorted_list_of_set (fc_protectedPorts c)\<rparr>))))"

text \<open>A change that cannot be saved is taken back; the error tells whether that worked.\<close>

definition saveOrUndo :: "'s host \<Rightarrow> firewallController \<Rightarrow> string list \<Rightarrow> ('s, unit) act" where
  "saveOrUndo h c undo =
     bindA (tryA (ho_Run h (fc_saveBinary c) [''save''])) (\<lambda>r. case r of
         Inr _ \<Rightarrow> give ()
       | Inl _ \<Rightarrow>
           bindA (tryA (ho_Run h (fc_iptables c) undo)) (\<lambda>u. case u of
               Inr _ \<Rightarrow> fail (firewallError errFirewallPersistence)
             | Inl e \<Rightarrow> fail \<lparr>err_Text = err_Text (firewallError errFirewallPersistence) @ ''; rollback failed: '' @ err_Text e,
                              err_Chain = [errFirewallPersistence]\<rparr>))"

definition attachChain :: "'s host \<Rightarrow> firewallController \<Rightarrow> ('s, unit) act" where
  "attachChain h c =
     bindA (tryA (ho_Run h (fc_iptables c) [''-C'', ''INPUT'', ''-j'', firewallManagedChain])) (\<lambda>r. case r of
         Inr _ \<Rightarrow> give ()
       | Inl _ \<Rightarrow>
           bindA (wrapA ''attach managed firewall chain: ''
                   (ho_Run h (fc_iptables c) [''-I'', ''INPUT'', ''1'', ''-j'', firewallManagedChain])) (\<lambda>_. give ()))"

definition currentRevision :: "string list \<Rightarrow> string \<Rightarrow> bool" where
  "currentRevision lines expectedRevision =
     (agentSHA256Pattern expectedRevision \<and> firewallRevision lines = expectedRevision)"

definition addLocked :: "'s host \<Rightarrow> firewallController \<Rightarrow> firewallRule \<Rightarrow> string \<Rightarrow> ('s, unit) act" where
  "addLocked h c rule expectedRevision =
     bindA (managedLines h c) (\<lambda>(lines, chainExists).
       if \<not> currentRevision lines expectedRevision then fail (firewallError errFirewallChanged)
       else
         bindA (if chainExists then give []
                else wrapA ''create managed firewall chain: '' (ho_Run h (fc_iptables c) [''-N'', firewallManagedChain])) (\<lambda>_.
         bindA (attachChain h c) (\<lambda>_.
         bindA (wrapA ''append managed firewall rule: '' (ho_Run h (fc_iptables c) (firewallAppendArgs rule))) (\<lambda>_.
           saveOrUndo h c ([''-D'', firewallManagedChain] @ drop 2 (firewallAppendArgs rule))))))"

definition Add :: "'s host \<Rightarrow> firewallController \<Rightarrow> firewallRule \<Rightarrow> string \<Rightarrow> ('s, string) act" where
  "Add h c rule expectedRevision =
     (if \<not> fc_allowWrite c then fail (errNew ''firewall writing is not enabled locally'')
      else (case normalizeFirewallRule (rule\<lparr>rule_ID := [], rule_Managed := True, rule_Raw := []\<rparr>) of
          Inl e \<Rightarrow> fail e
        | Inr normalized \<Rightarrow>
            if blocksProtectedPath c normalized then fail (firewallError errFirewallProtected)
            else
              bindA (newFirewallID h) (\<lambda>i.
              bindA (withMutationLock h c (addLocked h c (normalized\<lparr>rule_ID := i\<rparr>) expectedRevision)) (\<lambda>_. give i))))"

text \<open>The first line of the chain with the comment of an id, and its position among the rules of the chain.\<close>

fun findRule :: "string \<Rightarrow> nat \<Rightarrow> string list \<Rightarrow> (string list \<times> nat) option" where
  "findRule i position [] = None"
| "findRule i position (line # lines) =
     (let args = Fields line in
      if length args < 2 \<or> args ! 0 \<noteq> ''-A'' \<or> args ! 1 \<noteq> firewallManagedChain then findRule i position lines
      else if hasFirewallComment args (''hserver:'' @ i @ '':'') then Some (args, position + 1)
      else findRule i (position + 1) lines)"

definition deleteLocked :: "'s host \<Rightarrow> firewallController \<Rightarrow> string \<Rightarrow> string \<Rightarrow> ('s, unit) act" where
  "deleteLocked h c i expectedRevision =
     bindA (managedLines h c) (\<lambda>(lines, _).
       if \<not> currentRevision lines expectedRevision then fail (firewallError errFirewallChanged)
       else
         bindA (tryA (ho_Run h (fc_iptables c) [''-S'', firewallManagedChain])) (\<lambda>r. case r of
             Inl _ \<Rightarrow> fail (firewallError errFirewallNotFound)
           | Inr chainOutput \<Rightarrow>
               (case findRule i 0 (split_on (CHR 0x0A) chainOutput) of
                  None \<Rightarrow> fail (firewallError errFirewallNotFound)
                | Some (target, position) \<Rightarrow>
                    bindA (wrapA ''delete managed firewall rule: '' (ho_Run h (fc_iptables c) (''-D'' # tl target))) (\<lambda>_.
                      saveOrUndo h c ([''-I'', firewallManagedChain, dec_str position] @ drop 2 target)))))"

definition Delete :: "'s host \<Rightarrow> firewallController \<Rightarrow> string \<Rightarrow> string \<Rightarrow> ('s, unit) act" where
  "Delete h c i expectedRevision =
     (if \<not> fc_allowWrite c then fail (errNew ''firewall writing is not enabled locally'')
      else if \<not> agentFirewallIDPattern i then fail (firewallError errFirewallInvalid)
      else withMutationLock h c (deleteLocked h c i expectedRevision))"

end
