(* ===== verification/GoIndent.thy ===== *)
theory GoIndent
  imports GoJSON
begin

text \<open>
  \<^verbatim>\<open>json.MarshalIndent\<close> with an empty prefix and an indentation of two blanks: every element and member
  stands on a line of its own, an empty array or object has none. The reader does not see the
  difference to the compact text.
\<close>

definition newline_at :: "nat \<Rightarrow> string" where
  "newline_at d = CHR 0x0A # replicate (2 * d) (CHR '' '')"

fun json_indent :: "nat \<Rightarrow> json \<Rightarrow> string" and indent_elems :: "nat \<Rightarrow> json list \<Rightarrow> string"
  and indent_members :: "nat \<Rightarrow> (string \<times> json) list \<Rightarrow> string" where
  "json_indent d JNull = ''null''"
| "json_indent d (JBool b) = (if b then ''true'' else ''false'')"
| "json_indent d (JNum n) = n"
| "json_indent d (JStr s) = enc_str s"
| "json_indent d (JArr vs) =
     (if vs = [] then ''[]''
      else CHR ''['' # newline_at (Suc d) @ indent_elems (Suc d) vs @ newline_at d @ '']'')"
| "json_indent d (JObj ms) =
     (if ms = [] then ''{}''
      else CHR ''{'' # newline_at (Suc d) @ indent_members (Suc d) ms @ newline_at d @ ''}'')"
| "indent_elems d [] = []"
| "indent_elems d [v] = json_indent d v"
| "indent_elems d (v # w # vs) = json_indent d v @ CHR '','' # newline_at d @ indent_elems d (w # vs)"
| "indent_members d [] = []"
| "indent_members d [(k, v)] = enc_str k @ CHR '':'' # CHR '' '' # json_indent d v"
| "indent_members d ((k, v) # m # ms) =
     enc_str k @ CHR '':'' # CHR '' '' # json_indent d v @ CHR '','' # newline_at d @ indent_members d (m # ms)"

lemma json_lex_ws: "list_all json_ws u \<Longrightarrow> json_lex (u @ s) = json_lex s"
  by (induction u) simp_all

lemma newline_at_ws: "list_all json_ws (newline_at d)"
  by (simp add: newline_at_def json_ws_def list_all_iff)

lemmas json_lex_newline = json_lex_ws [OF newline_at_ws]

lemma json_lex_blank: "json_lex (CHR '' '' # s) = json_lex s"
  by (simp add: json_ws_def)

lemma stops_num_newline [simp]: "stops_num (newline_at d @ s)"
  by (simp add: stops_num_def newline_at_def num_char_def asciiDigit_def)

lemma json_lex_indent:
  "json_clean v \<Longrightarrow> stops_num s \<Longrightarrow> json_lex (json_indent d v @ s) = map_option ((@) (toks v)) (json_lex s)"
  "clean_elems vs \<Longrightarrow> stops_num s \<Longrightarrow>
     json_lex (indent_elems d vs @ s) = map_option ((@) (toks_elems vs)) (json_lex s)"
  "clean_members ms \<Longrightarrow> stops_num s \<Longrightarrow>
     json_lex (indent_members d ms @ s) = map_option ((@) (toks_members ms)) (json_lex s)"
  supply json_lex.simps(2) [simp del]
  by (induction d v and d vs and d ms arbitrary: s and s and s
      rule: json_indent_indent_elems_indent_members.induct)
     (simp_all add: json_lex_literals json_lex_num json_lex_enc_str json_lex_punct json_lex_newline json_lex_blank
       option.map_comp comp_def option.map_ident append_fun)

text \<open>The indented text, with white space after it, reads back as the value.\<close>

lemma json_indent_roundtrip:
  assumes "json_clean v" "json_depth v \<le> d" "list_all json_ws u"
  shows "json_parse d (json_indent n v @ u) = Some v"
proof -
  have "stops_num u" "json_lex u = Some []"
    using assms(3) num_char_kind json_lex_ws [of u "[]"] by (cases u; auto simp: stops_num_def)+
  then have "json_lex (json_indent n v @ u) = Some (toks v)" using json_lex_indent(1) [OF assms(1)] by simp
  moreover have "prun d [] PVal (toks v) = Some v" using prun_toks(1) [of "[]" v d "[]"] assms(2) by simp
  ultimately show ?thesis by (simp add: json_parse_def)
qed

text \<open>The indentation only adds to the text.\<close>

lemma json_indent_longer:
  "length (json_print v) \<le> length (json_indent d v)" "length (print_elems vs) \<le> length (indent_elems d vs)"
  "length (print_members ms) \<le> length (indent_members d ms)"
  by (induction d v and d vs and d ms rule: json_indent_indent_elems_indent_members.induct) (auto simp: trans_le_add1 trans_le_add2)

end
