(* ===== verification/AgentCron.thy ===== *)
theory AgentCron
  imports AgentTasks GoOS GoFields GoIndent GoSHA256
begin

text \<open>
  The cron controller of the node agent, \<^verbatim>\<open>cmd/hserver-agent/cron.go\<close>, with \<^verbatim>\<open>readManagedFile\<close> of \<^verbatim>\<open>nginx.go\<close>.
  The managed jobs are kept twice: as JSON in a state file, which the controller reads, and rendered
  in a file of the cron daemon. The file system, its failures and crashes are those of \<open>GoOS\<close>. What else
  the controller asks the host for is the record \<open>cronHost\<close>: the command runner, which may change the
  file system, the directory for temporary files, the user database, directory listings with the
  times of their entries, and the clock. A nil slice of jobs is \<open>None\<close>: it has another revision than an
  empty one. The mutex and the lock keep other writers out, so that an operation runs by itself.
\<close>

section \<open>Types\<close>

definition maxCronJobs :: nat where "maxCronJobs = 256"
definition maxAgentNginxConfigBytes :: nat where "maxAgentNginxConfigBytes = 2097152"

record cronSource =
  cs_Path :: string
  cs_EntryCount :: nat
  cs_Managed :: bool

record cronInventory =
  ci_Service :: string
  ci_Jobs :: "cronTaskJob list option"
  ci_Sources :: "cronSource list"
  ci_Revision :: string

record cronController =
  cc_allowRead :: bool
  cc_allowWrite :: bool
  cc_allowRun :: bool
  cc_statePath :: string
  cc_cronPath :: string
  cc_lockPath :: string
  cc_crontabBinary :: string
  cc_runuserBinary :: string
  cc_shell :: string
  cc_service :: string

definition newCronController ::
  "bool \<Rightarrow> bool \<Rightarrow> bool \<Rightarrow> string \<Rightarrow> string \<Rightarrow> string \<Rightarrow> string \<Rightarrow> string \<Rightarrow> string \<Rightarrow> string \<Rightarrow> cronController" where
  "newCronController allowRead allowWrite allowRun state_path cron_path lock_path crontabBinary runuserBinary shell service =
     \<lparr>cc_allowRead = allowRead, cc_allowWrite = allowWrite, cc_allowRun = allowRun, cc_statePath = state_path,
      cc_cronPath = cron_path, cc_lockPath = lock_path, cc_crontabBinary = crontabBinary,
      cc_runuserBinary = runuserBinary, cc_shell = shell, cc_service = service\<rparr>"

record cronHost =
  ch_run :: "string \<Rightarrow> string list \<Rightarrow> fsys \<Rightarrow> string option \<times> fsys"
  ch_tempDir :: string
  ch_user :: "string \<Rightarrow> bool"
  ch_readDir :: "fsys \<Rightarrow> string \<Rightarrow> os_error + string list"
  ch_modTime :: "fsys \<Rightarrow> string \<Rightarrow> go_time"
  ch_now :: "nat \<Rightarrow> go_time"

section \<open>Errors and deferred calls\<close>

text \<open>The texts of the errors of the operating system are left out.\<close>

definition osError :: go_error where "osError = errNew ''operating system error''"
definition cronChanged :: go_error where
  "cronChanged = \<lparr>err_Text = ''cron jobs changed on the server'', err_Chain = [errCronChanged]\<rparr>"
definition cronNotFound :: go_error where
  "cronNotFound = \<lparr>err_Text = ''cron job was not found'', err_Chain = [errCronNotFound]\<rparr>"
definition cronInvalid :: go_error where
  "cronInvalid = \<lparr>err_Text = ''cron job is invalid'', err_Chain = [errCronInvalid]\<rparr>"
definition cronInvalidBecause :: "string \<Rightarrow> go_error" where
  "cronInvalidBecause why = \<lparr>err_Text = ''cron job is invalid: '' @ why, err_Chain = [errCronInvalid]\<rparr>"
definition managedFileTooLarge :: go_error where
  "managedFileTooLarge = \<lparr>err_Text = ''managed configuration file exceeds the size limit'', err_Chain = [errManagedFileTooLarge]\<rparr>"

definition sys :: "(os_error, 'a) io \<Rightarrow> (go_error, 'a) io" where
  "sys m = onError (\<lambda>_. osError) m"

definition deferred :: "('e, 'a) io \<Rightarrow> (os_error, unit) io \<Rightarrow> ('e, 'a) io" where
  "deferred m cleanup =
     seqIO (attempt m) (\<lambda>r. seqIO (attempt cleanup) (\<lambda>_. case r of Inl e \<Rightarrow> throw e | Inr x \<Rightarrow> ret x))"

text \<open>A command: when it is cut off, its effect may or may not have happened.\<close>

definition runHost :: "cronHost \<Rightarrow> string \<Rightarrow> string list \<Rightarrow> (os_error, string) io" where
  "runHost h bin args =
     seqIO (syscall (\<lambda>fs. Inr (ch_run h bin args fs)) (\<lambda>n fs. if n = 0 then fs else snd (ch_run h bin args fs)))
       (\<lambda>r. case r of None \<Rightarrow> throw OtherError | Some out \<Rightarrow> ret out)"

section \<open>Files\<close>

text \<open>
  \<^verbatim>\<open>readManagedFile\<close>: the file is opened without following a symbolic link. Its errors are those of the
  operating system, of which \<^verbatim>\<open>os.IsNotExist\<close> tells one, or the controller's own. The file information is the node.
\<close>

definition openNoFollow :: "string \<Rightarrow> (os_error, fnode) io" where
  "openNoFollow p = syscall (\<lambda>fs. case fs p of
       None \<Rightarrow> Inl NotExist | Some (FLink _) \<Rightarrow> Inl OtherError | Some x \<Rightarrow> Inr (x, fs)) intact"

definition readManagedFile :: "string \<Rightarrow> (os_error + go_error, fnode \<times> string \<times> string) io" where
  "readManagedFile path =
     seqIO (onError Inl (openNoFollow path)) (\<lambda>_.
     deferred
       (seqIO (onError Inl (osLstat path)) (\<lambda>info.
        case info of
          FReg _ _ content \<Rightarrow>
            if length content > maxAgentNginxConfigBytes then throw (Inr managedFileTooLarge)
            else seqIO (onError Inl (osReadFile path)) (\<lambda>content.
              if length content > maxAgentNginxConfigBytes then throw (Inr managedFileTooLarge)
              else ret (info, content, token_digest content))
        | _ \<Rightarrow> throw (Inr (errNew ''managed configuration is not a regular file''))))
       (fileClose path))"

text \<open>\<^verbatim>\<open>FileInfo.Mode().Perm()\<close>; a link has all bits.\<close>

definition infoMode :: "fnode \<Rightarrow> nat" where
  "infoMode info = (case info of FReg m _ _ \<Rightarrow> m | FDir m \<Rightarrow> m | FLink _ \<Rightarrow> 0x1FF)"

text \<open>\<^verbatim>\<open>os.OpenFile\<close> with \<^verbatim>\<open>O_CREATE\<close>, and with \<^verbatim>\<open>O_TRUNC\<close> for \<^verbatim>\<open>os.WriteFile\<close>. A link is followed out of the model.\<close>

definition osCreate :: "bool \<Rightarrow> string \<Rightarrow> nat \<Rightarrow> (os_error, unit) io" where
  "osCreate trunc p mode = syscall (\<lambda>fs. case fs p of
       None \<Rightarrow> (case fs (DirOf p) of
           Some x \<Rightarrow> if isDirNode x then Inr ((), fs(p \<mapsto> FReg mode False [])) else Inl OtherError
         | None \<Rightarrow> Inl NotExist)
     | Some (FReg m s d) \<Rightarrow> Inr ((), if trunc then fs(p \<mapsto> FReg m False []) else fs)
     | Some (FDir _) \<Rightarrow> Inl OtherError
     | Some (FLink d) \<Rightarrow> if d then Inl OtherError else Inr ((), fs)) intact"

definition osWriteFile :: "string \<Rightarrow> string \<Rightarrow> nat \<Rightarrow> (os_error, unit) io" where
  "osWriteFile p d mode =
     seqIO (osCreate True p mode) (\<lambda>_. seqIO (fileWrite p d) (\<lambda>_. fileClose p))"

definition osFlock :: "string \<Rightarrow> (os_error, unit) io" where
  "osFlock p = syscall (\<lambda>fs. Inr ((), fs)) intact"

definition osReadDir :: "cronHost \<Rightarrow> string \<Rightarrow> (os_error, string list) io" where
  "osReadDir h p = syscall (\<lambda>fs. case ch_readDir h fs p of Inl e \<Rightarrow> Inl e | Inr names \<Rightarrow> Inr (names, fs)) intact"

definition BaseOf :: "string \<Rightarrow> string" where
  "BaseOf p =
     (if p = [] then ''.''
      else let q = dropWhile (\<lambda>c. c = CHR ''/'') (rev p) in
        if q = [] then ''/'' else rev (takeWhile (\<lambda>c. c \<noteq> CHR ''/'') q))"

text \<open>\<^verbatim>\<open>time.Now().UTC().Format("20060102T150405.000000000Z")\<close>\<close>

definition stampText :: "go_time \<Rightarrow> string" where
  "stampText t =
     (let days = t div (86400 * Second); rest = t mod (86400 * Second); secs = rest div Second; ns = rest mod Second
      in case civil days of (y, m, d) \<Rightarrow>
        pad 4 (nat y) @ pad 2 (nat m) @ pad 2 (nat d) @ ''T''
        @ pad 2 (nat (secs div 3600)) @ pad 2 (nat (secs div 60 mod 60)) @ pad 2 (nat (secs mod 60))
        @ ''.'' @ pad 9 (nat ns) @ ''Z'')"

definition backupCronFile :: "go_time \<Rightarrow> string \<Rightarrow> string \<Rightarrow> (go_error, string \<times> bool) io" where
  "backupCronFile now path backupDir =
     seqIO (attempt (readManagedFile path)) (\<lambda>r.
       case r of
         Inl (Inl e) \<Rightarrow> if e = NotExist then ret ([], False) else throw osError
       | Inl (Inr e) \<Rightarrow> throw e
       | Inr (_, content, _) \<Rightarrow>
           seqIO (sys (osWriteFile (Join backupDir (BaseOf path @ ''.backup-'' @ stampText now)) content 0x180))
             (\<lambda>_. ret (content, True)))"

definition cronTempPrefix :: string where
  "cronTempPrefix = ''.hserver-cron-''"

definition atomicCronWrite :: "string \<Rightarrow> string \<Rightarrow> nat \<Rightarrow> (os_error, unit) io" where
  "atomicCronWrite path content mode =
     seqIO (osCreateTemp (DirOf path) cronTempPrefix) (\<lambda>temporaryPath.
     deferred
       (seqIO (osChmod temporaryPath mode) (\<lambda>_.
        seqIO (fileWrite temporaryPath content) (\<lambda>_.
        seqIO (fileSync temporaryPath) (\<lambda>_.
        seqIO (fileClose temporaryPath) (\<lambda>_.
        osRename temporaryPath path)))))
       (osRemove temporaryPath))"

definition restoreCronFile :: "string \<Rightarrow> string \<Rightarrow> bool \<Rightarrow> nat \<Rightarrow> (os_error, unit) io" where
  "restoreCronFile path content existed mode =
     (if \<not> existed then osRemove path else atomicCronWrite path content mode)"

text \<open>
  The oldest regular files of a directory are removed. Entries with the same time are taken in the order of the
  directory, which the source leaves open.
\<close>

fun regularEntries :: "cronHost \<Rightarrow> string \<Rightarrow> string list \<Rightarrow> ('e, (string \<times> go_time) list) io" where
  "regularEntries h folder [] = ret []"
| "regularEntries h folder (name # names) =
     seqIO (attempt (osLstat (Join folder name))) (\<lambda>info.
     seqIO getFS (\<lambda>fs.
     seqIO (regularEntries h folder names) (\<lambda>items.
     ret (case info of
            Inr (FReg _ _ _) \<Rightarrow> (Join folder name, ch_modTime h fs (Join folder name)) # items
          | _ \<Rightarrow> items))))"

fun removeAll_files :: "string list \<Rightarrow> ('e, unit) io" where
  "removeAll_files [] = ret ()"
| "removeAll_files (p # ps) = seqIO (attempt (osRemove p)) (\<lambda>_. removeAll_files ps)"

definition pruneCronBackups :: "cronHost \<Rightarrow> string \<Rightarrow> nat \<Rightarrow> ('e, unit) io" where
  "pruneCronBackups h folder keep =
     seqIO (attempt (osReadDir h folder)) (\<lambda>r.
       case r of
         Inl _ \<Rightarrow> ret ()
       | Inr names \<Rightarrow>
           seqIO (regularEntries h folder names) (\<lambda>items.
             removeAll_files (drop keep (map fst (sort_key (\<lambda>i. - snd i) items)))))"

section \<open>Jobs\<close>

definition userHead :: "nat \<Rightarrow> bool" where
  "userHead r = ((97 \<le> r \<and> r \<le> 122) \<or> r = byte (CHR ''_''))"

definition agentSystemUserPattern :: "string \<Rightarrow> bool" where
  "agentSystemUserPattern = matchName userHead (\<lambda>r. userHead r \<or> (48 \<le> r \<and> r \<le> 57) \<or> r = byte (CHR ''-'')) 31"

definition validAgentCronID :: "string \<Rightarrow> bool" where
  "validAgentCronID value = (length value = 17 \<and> HasPrefix value ''cron-'' \<and> list_all (\<lambda>c. hex_val c \<noteq> None) (drop 5 value))"

definition newCronID :: "string \<Rightarrow> string" where
  "newCronID raw = ''cron-'' @ hex_encode raw"

definition cronJobShape :: "cronTaskJob \<Rightarrow> bool \<Rightarrow> bool" where
  "cronJobShape job requireID =
     (\<not> ((requireID \<and> \<not> validAgentCronID (cron_ID job)) \<or> (\<not> requireID \<and> cron_ID job \<noteq> [])
         \<or> \<not> agentSystemUserPattern (cron_User job) \<or> length (cron_Command job) = 0 \<or> length (cron_Command job) > 4096
         \<or> ContainsAny (cron_Command job) lineBreaks \<or> length (cron_Description job) > 160
         \<or> ContainsAny (cron_Description job) lineBreaks \<or> length (cron_Schedule job) > 160
         \<or> ContainsAny (cron_Schedule job) lineBreaks \<or> length (Fields (cron_Schedule job)) \<noteq> 5))"

definition validateCronJob :: "cronHost \<Rightarrow> cronTaskJob \<Rightarrow> bool \<Rightarrow> go_error + unit" where
  "validateCronJob h job requireID =
     (if \<not> cronJobShape job requireID then Inl cronInvalid
      else if \<not> ch_user h (cron_User job) then Inl (cronInvalidBecause ''user does not exist'')
      else Inr ())"

fun validateAll :: "cronHost \<Rightarrow> cronTaskJob list \<Rightarrow> go_error + unit" where
  "validateAll h [] = Inr ()"
| "validateAll h (job # jobs) = (case validateCronJob h job True of Inl e \<Rightarrow> Inl e | Inr _ \<Rightarrow> validateAll h jobs)"

definition cron_json :: "cronTaskJob \<Rightarrow> json" where
  "cron_json job =
     JObj ([(''id'', JStr (cron_ID job)), (''schedule'', JStr (cron_Schedule job)), (''user'', JStr (cron_User job)),
            (''command'', JStr (cron_Command job))]
           @ (if cron_Description job = [] then [] else [(''description'', JStr (cron_Description job))])
           @ [(''enabled'', JBool (cron_Enabled job))])"

definition jobs_json :: "cronTaskJob list option \<Rightarrow> json" where
  "jobs_json jobs = (case jobs of None \<Rightarrow> JNull | Some js \<Rightarrow> JArr (map cron_json js))"

definition cronRevision :: "cronTaskJob list option \<Rightarrow> string" where
  "cronRevision jobs = token_digest (json_print (jobs_json jobs))"

text \<open>\<^verbatim>\<open>json.Unmarshal\<close> into a slice of structs.\<close>

definition decodeJob :: "json \<Rightarrow> cronTaskJob option" where
  "decodeJob v =
     (case v of
        JObj ms \<Rightarrow> fold cron_member (loose_members cronJobNames ms) (Some cronTaskJobZero)
      | JNull \<Rightarrow> Some cronTaskJobZero
      | _ \<Rightarrow> None)"

definition decodeJobs :: "string \<Rightarrow> cronTaskJob list option option" where
  "decodeJobs content =
     (case json_parse maxNestingDepth content of
        Some JNull \<Rightarrow> Some None
      | Some (JArr vs) \<Rightarrow> map_option Some (opt_seq (map decodeJob vs))
      | _ \<Rightarrow> None)"

definition jobLine :: "cronTaskJob \<Rightarrow> string" where
  "jobLine job = cron_Schedule job @ '' '' @ cron_User job @ '' '' @ cron_Command job"

definition renderJob :: "cronTaskJob \<Rightarrow> string" where
  "renderJob job =
     CHR 0x0A # ''# HSERVER '' @ cron_ID job
     @ (if cron_Description job = [] then [] else '' - '' @ cron_Description job)
     @ CHR 0x0A # (if cron_Enabled job then [] else ''# DISABLED '') @ jobLine job @ [CHR 0x0A]"

definition renderCronJobs :: "cronTaskJob list \<Rightarrow> string \<Rightarrow> string" where
  "renderCronJobs jobs shell =
     ''# Managed by Heyserver. Changes outside Heyserver will be replaced.'' @ CHR 0x0A # ''SHELL='' @ shell
     @ CHR 0x0A # ''PATH=/usr/local/sbin:/usr/local/bin:/usr/sbin:/usr/bin:/sbin:/bin'' @ CHR 0x0A # concat (map renderJob jobs)"

section \<open>The state\<close>

definition jobList :: "cronTaskJob list option \<Rightarrow> cronTaskJob list" where
  "jobList jobs = (case jobs of None \<Rightarrow> [] | Some js \<Rightarrow> js)"

definition loadJobs :: "cronHost \<Rightarrow> cronController \<Rightarrow> (go_error, cronTaskJob list option) io" where
  "loadJobs h c =
     seqIO (attempt (readManagedFile (cc_statePath c))) (\<lambda>r.
       case r of
         Inl (Inl e) \<Rightarrow> if e = NotExist then ret (Some []) else throw osError
       | Inl (Inr e) \<Rightarrow> throw e
       | Inr (_, content, _) \<Rightarrow>
           if length content > maxCronStateBytes then throw (errNew ''cron state exceeds the size limit'')
           else (case decodeJobs content of
               None \<Rightarrow> throw (errNew ''cron state is invalid'')
             | Some jobs \<Rightarrow>
                 if length (jobList jobs) > maxCronJobs then throw (errNew ''cron state is invalid'')
                 else (case validateAll h (jobList jobs) of Inl e \<Rightarrow> throw e | Inr _ \<Rightarrow> ret jobs)))"

definition checkPrefix :: string where
  "checkPrefix = ''.hserver-cron-check-''"

fun writeLines :: "string \<Rightarrow> cronTaskJob list \<Rightarrow> (os_error, unit) io" where
  "writeLines path [] = ret ()"
| "writeLines path (job # jobs) =
     seqIO (if cron_Enabled job then fileWrite path (cron_Schedule job @ '' '' @ cron_Command job @ [CHR 0x0A]) else ret ())
       (\<lambda>_. writeLines path jobs)"

definition validateRendered :: "cronHost \<Rightarrow> cronController \<Rightarrow> cronTaskJob list \<Rightarrow> (go_error, unit) io" where
  "validateRendered h c jobs =
     seqIO (sys (osCreateTemp (ch_tempDir h) checkPrefix)) (\<lambda>path.
     deferred
       (seqIO (sys (writeLines path jobs)) (\<lambda>_.
        seqIO (sys (fileClose path)) (\<lambda>_.
        seqIO (attempt (runHost h (cc_crontabBinary c) [''-n'', path])) (\<lambda>r.
        case r of
          Inl _ \<Rightarrow> throw (cronInvalidBecause ''cron syntax test failed'')
        | Inr _ \<Rightarrow> ret ()))))
       (osRemove path))"

definition cronStateText :: "cronTaskJob list \<Rightarrow> string" where
  "cronStateText jobs = json_indent 0 (jobs_json (Some jobs)) @ [CHR 0x0A]"

definition backupDirOf :: "cronController \<Rightarrow> string" where
  "backupDirOf c = Join (Join (DirOf (cc_statePath c)) ''backups'') ''cron''"

definition saveJobs :: "cronHost \<Rightarrow> cronController \<Rightarrow> cronTaskJob list \<Rightarrow> (go_error, unit) io" where
  "saveJobs h c jobs =
     seqIO (validateRendered h c jobs) (\<lambda>_.
     seqIO (sys (osMkdirAll (DirOf (cc_statePath c)) 0x1C0)) (\<lambda>_.
     seqIO (sys (osMkdirAll (DirOf (cc_cronPath c)) 0x1ED)) (\<lambda>_.
     seqIO (sys (osMkdirAll (backupDirOf c) 0x1C0)) (\<lambda>_.
     seqIO (backupCronFile (ch_now h 0) (cc_statePath c) (backupDirOf c)) (\<lambda>_.
     seqIO (backupCronFile (ch_now h 1) (cc_cronPath c) (backupDirOf c)) (\<lambda>(previousCron, cronExisted).
     seqIO (sys (atomicCronWrite (cc_cronPath c) (renderCronJobs jobs (cc_shell c)) 0x1A4)) (\<lambda>_.
     seqIO (attempt (atomicCronWrite (cc_statePath c) (cronStateText jobs) 0x180)) (\<lambda>r.
     case r of
       Inl _ \<Rightarrow> seqIO (attempt (restoreCronFile (cc_cronPath c) previousCron cronExisted 0x1A4)) (\<lambda>_. throw osError)
     | Inr _ \<Rightarrow> pruneCronBackups h (backupDirOf c) 20))))))))"

section \<open>Operations\<close>

definition mutateLocked ::
  "cronHost \<Rightarrow> cronController \<Rightarrow> string \<Rightarrow> (cronTaskJob list \<Rightarrow> go_error + cronTaskJob list) \<Rightarrow> (go_error, unit) io" where
  "mutateLocked h c expectedRevision change =
     seqIO (loadJobs h c) (\<lambda>jobs.
       if cronRevision jobs \<noteq> expectedRevision then throw cronChanged
       else (case change (jobList jobs) of
           Inl e \<Rightarrow> throw e
         | Inr jobs \<Rightarrow>
             if length jobs > maxCronJobs then throw cronInvalid
             else (case validateAll h jobs of Inl e \<Rightarrow> throw e | Inr _ \<Rightarrow> saveJobs h c jobs)))"

definition mutate ::
  "cronHost \<Rightarrow> cronController \<Rightarrow> string \<Rightarrow> (cronTaskJob list \<Rightarrow> go_error + cronTaskJob list) \<Rightarrow> (go_error, unit) io" where
  "mutate h c expectedRevision change =
     (if \<not> agentSHA256Pattern expectedRevision then throw cronChanged
      else
        seqIO (sys (osMkdirAll (DirOf (cc_lockPath c)) 0x1ED)) (\<lambda>_.
        seqIO (sys (osCreate False (cc_lockPath c) 0x180)) (\<lambda>_.
        deferred
          (seqIO (sys (osFlock (cc_lockPath c))) (\<lambda>_.
           deferred (mutateLocked h c expectedRevision change) (osFlock (cc_lockPath c))))
          (fileClose (cc_lockPath c)))))"

fun replaceJob :: "cronTaskJob \<Rightarrow> cronTaskJob list \<Rightarrow> go_error + cronTaskJob list" where
  "replaceJob job [] = Inl cronNotFound"
| "replaceJob job (j # js) =
     (if cron_ID j = cron_ID job then Inr (job # js)
      else case replaceJob job js of Inl e \<Rightarrow> Inl e | Inr js' \<Rightarrow> Inr (j # js'))"

fun deleteJob :: "string \<Rightarrow> cronTaskJob list \<Rightarrow> go_error + cronTaskJob list" where
  "deleteJob ident [] = Inl cronNotFound"
| "deleteJob ident (j # js) =
     (if cron_ID j = ident then Inr js
      else case deleteJob ident js of Inl e \<Rightarrow> Inl e | Inr js' \<Rightarrow> Inr (j # js'))"

text \<open>\<open>raw\<close> are the random bytes of the new id, or nothing when reading them fails.\<close>

definition cronCreate :: "cronHost \<Rightarrow> cronController \<Rightarrow> string option \<Rightarrow> cronTaskJob \<Rightarrow> string \<Rightarrow> (go_error, string) io" where
  "cronCreate h c raw job expectedRevision =
     (if \<not> cc_allowWrite c then throw (errNew ''cron writing is not enabled locally'')
      else case validateCronJob h (job\<lparr>cron_ID := []\<rparr>) False of
        Inl e \<Rightarrow> throw e
      | Inr _ \<Rightarrow>
          (case raw of
             None \<Rightarrow> throw osError
           | Some bytes \<Rightarrow>
               seqIO (mutate h c expectedRevision (\<lambda>jobs. Inr (jobs @ [job\<lparr>cron_ID := newCronID bytes\<rparr>])))
                 (\<lambda>_. ret (newCronID bytes))))"

definition cronUpdate :: "cronHost \<Rightarrow> cronController \<Rightarrow> cronTaskJob \<Rightarrow> string \<Rightarrow> (go_error, unit) io" where
  "cronUpdate h c job expectedRevision =
     (if \<not> cc_allowWrite c then throw (errNew ''cron writing is not enabled locally'')
      else case validateCronJob h job True of
        Inl e \<Rightarrow> throw e
      | Inr _ \<Rightarrow> mutate h c expectedRevision (replaceJob job))"

definition cronDelete :: "cronHost \<Rightarrow> cronController \<Rightarrow> string \<Rightarrow> string \<Rightarrow> (go_error, unit) io" where
  "cronDelete h c ident expectedRevision =
     (if \<not> cc_allowWrite c then throw (errNew ''cron writing is not enabled locally'')
      else if \<not> validAgentCronID ident then throw cronInvalid
      else mutate h c expectedRevision (deleteJob ident))"

definition cronRun :: "cronHost \<Rightarrow> cronController \<Rightarrow> string \<Rightarrow> (go_error, string) io" where
  "cronRun h c ident =
     (if \<not> cc_allowRun c then throw (errNew ''manual cron execution is not enabled locally'')
      else if \<not> validAgentCronID ident then throw cronInvalid
      else
        seqIO (loadJobs h c) (\<lambda>jobs.
          case find (\<lambda>j. cron_ID j = ident) (jobList jobs) of
            None \<Rightarrow> throw cronNotFound
          | Some job \<Rightarrow>
              onError (\<lambda>_. errNew ''cron job failed: operating system error'')
                (runHost h (cc_runuserBinary c) [''-u'', cron_User job, ''--'', cc_shell c, ''-lc'', cron_Command job])))"

section \<open>The inventory\<close>

text \<open>The lines that count as entries: of a file of the daemon, and of the crontab of root.\<close>

definition cronEntry :: "string \<Rightarrow> bool" where
  "cronEntry raw =
     (let line = TrimSpace raw; fields = Fields line in
      line \<noteq> [] \<and> \<not> HasPrefix line ''#'' \<and> fields \<noteq> [] \<and> CHR ''='' \<notin> set (hd fields))"

definition rootEntry :: "string \<Rightarrow> bool" where
  "rootEntry raw = (let line = TrimSpace raw in line \<noteq> [] \<and> \<not> HasPrefix line ''#'')"

fun fileSources :: "cronController \<Rightarrow> string \<Rightarrow> string list \<Rightarrow> (go_error, cronSource list) io" where
  "fileSources c folder [] = ret []"
| "fileSources c folder (name # names) =
     seqIO (attempt (osLstat (Join folder name))) (\<lambda>info.
     seqIO (case info of
              Inr (FReg _ _ _) \<Rightarrow> seqIO (attempt (osReadFile (Join folder name))) (\<lambda>r. ret (Some r))
            | _ \<Rightarrow> ret None) (\<lambda>content.
     seqIO (fileSources c folder names) (\<lambda>sources.
     ret (case content of
            Some (Inr text) \<Rightarrow>
              if length text > maxCronStateBytes then sources
              else \<lparr>cs_Path = Join folder name, cs_EntryCount = length (filter cronEntry (split_on (CHR 0x0A) text)),
                    cs_Managed = (Join folder name = cc_cronPath c)\<rparr> # sources
          | _ \<Rightarrow> sources))))"

definition cronSources :: "cronHost \<Rightarrow> cronController \<Rightarrow> (go_error, cronSource list) io" where
  "cronSources h c =
     (let folder = DirOf (cc_cronPath c) in
      seqIO (attempt (osReadDir h folder)) (\<lambda>r.
      seqIO (case r of Inr names \<Rightarrow> ret names | Inl e \<Rightarrow> if e = NotExist then ret [] else throw osError) (\<lambda>names.
      seqIO (fileSources c folder names) (\<lambda>sources.
      seqIO (attempt (runHost h (cc_crontabBinary c) [''-l''])) (\<lambda>out.
      let count = (case out of Inr text \<Rightarrow> length (filter rootEntry (split_on (CHR 0x0A) text)) | Inl _ \<Rightarrow> 0) in
      ret (sort_key cs_Path (sources @ [\<lparr>cs_Path = ''root crontab'', cs_EntryCount = count, cs_Managed = False\<rparr>])))))))"

definition serviceState :: "cronHost \<Rightarrow> cronController \<Rightarrow> ('e, string) io" where
  "serviceState h c =
     seqIO (attempt (runHost h ''systemctl'' [''show'', ''--property=ActiveState'', ''--value'', cc_service c])) (\<lambda>r.
       ret (case r of
              Inr out \<Rightarrow> if TrimSpace out = [] then ''unknown'' else TrimSpace out
            | Inl _ \<Rightarrow> ''unknown''))"

definition cronInventoryOf :: "cronHost \<Rightarrow> cronController \<Rightarrow> (go_error, cronInventory) io" where
  "cronInventoryOf h c =
     (if \<not> cc_allowRead c then throw (errNew ''cron inventory is not enabled locally'')
      else
        seqIO (loadJobs h c) (\<lambda>jobs.
        seqIO (cronSources h c) (\<lambda>sources.
        seqIO (serviceState h c) (\<lambda>service.
        ret \<lparr>ci_Service = service, ci_Jobs = jobs, ci_Sources = sources, ci_Revision = cronRevision jobs\<rparr>))))"

end
