(* ===== verification/AgentConfig.thy ===== *)
theory AgentConfig
  imports AgentFirewall AgentProfile AgentCron
begin

text \<open>
  The configuration of the node agent, \<^verbatim>\<open>cmd/hserver-agent/config.go\<close>, and what \<^verbatim>\<open>main.go\<close> makes of it: the
  task executor, the capabilities that a heartbeat announces, and one cycle of heartbeat, poll,
  execution and report. A configuration is read from environment variables; a rejected one ends the
  process, so that the reason is not kept and the result is an option.

  Three functions of the Go library whose grammar the code does not depend on are arguments:
  \<^verbatim>\<open>url.Parse\<close> (\<open>parseURL\<close>), \<^verbatim>\<open>url.ParseRequestURI\<close> (\<open>parseRequestURI\<close>) and \<^verbatim>\<open>time.ParseDuration\<close>
  (\<open>parseDuration\<close>). So are the environment (\<open>lookup\<close>) and the file reader.
\<close>

section \<open>Constants and data\<close>

definition defaultInterval :: duration where "defaultInterval = 30 * Second"
definition minInterval :: duration where "minInterval = 5 * Second"
definition maxInterval :: duration where "maxInterval = 3600 * Second"
definition maxServices :: nat where "maxServices = 128"
definition maxHostActions :: nat where "maxHostActions = 5"
definition maxDiskCleanupTargets :: nat where "maxDiskCleanupTargets = 4"
definition maxLogSources :: nat where "maxLogSources = 7"
definition maxContainerActions :: nat where "maxContainerActions = 3"
definition maxNginxActions :: nat where "maxNginxActions = 2"
definition maxPHPActions :: nat where "maxPHPActions = 3"
definition maxPM2Actions :: nat where "maxPM2Actions = 4"
definition maxFileRoots :: nat where "maxFileRoots = 16"
definition maxTokenBytes :: nat where "maxTokenBytes = 65536"
definition defaultNginxAvailable :: string where "defaultNginxAvailable = ''/etc/nginx/sites-available''"
definition defaultNginxEnabled :: string where "defaultNginxEnabled = ''/etc/nginx/sites-enabled''"
definition defaultCertConfigDir :: string where "defaultCertConfigDir = ''/etc/letsencrypt''"
definition defaultCertWorkDir :: string where "defaultCertWorkDir = ''/var/lib/letsencrypt''"
definition defaultCertLogsDir :: string where "defaultCertLogsDir = ''/var/log/letsencrypt''"
definition defaultCertbotBinary :: string where "defaultCertbotBinary = ''/usr/bin/certbot''"
definition defaultOpenSSLBinary :: string where "defaultOpenSSLBinary = ''/usr/bin/openssl''"
definition defaultCABundle :: string where "defaultCABundle = ''/etc/ssl/certs/ca-certificates.crt''"
definition defaultMariaDBBinary :: string where "defaultMariaDBBinary = ''/usr/bin/mariadb''"
definition defaultMariaAdmin :: string where "defaultMariaAdmin = ''/usr/bin/mariadb-admin''"
definition defaultPGClusters :: string where "defaultPGClusters = ''/usr/bin/pg_lsclusters''"
definition defaultPSQLBinary :: string where "defaultPSQLBinary = ''/usr/bin/psql''"
definition defaultPGIsReady :: string where "defaultPGIsReady = ''/usr/bin/pg_isready''"
definition defaultBackupPlans :: string where "defaultBackupPlans = ''/etc/hserver/backup-plans.json''"
definition defaultDeployPlans :: string where "defaultDeployPlans = ''/etc/hserver/deploy-plans.json''"
definition defaultDeployACMERoot :: string where "defaultDeployACMERoot = ''/var/www/hserver-acme''"
definition defaultAgentStateDir :: string where "defaultAgentStateDir = ''/var/lib/hserver-agent''"
definition defaultLifecycleTool :: string where "defaultLifecycleTool = ''/usr/local/libexec/hserver-agent-install''"
definition defaultSystemdRun :: string where "defaultSystemdRun = ''/usr/bin/systemd-run''"
definition defaultSystemctl :: string where "defaultSystemctl = ''/usr/bin/systemctl''"
definition defaultPHPConfigRoot :: string where "defaultPHPConfigRoot = ''/etc/php''"
definition defaultPHPBinaryRoot :: string where "defaultPHPBinaryRoot = ''/usr/sbin''"
definition defaultCronStatePath :: string where "defaultCronStatePath = ''/etc/hserver/cron-jobs.json''"
definition defaultCronFilePath :: string where "defaultCronFilePath = ''/etc/cron.d/hserver-managed''"
definition defaultCronLockPath :: string where "defaultCronLockPath = ''/run/lock/hserver-cron.lock''"
definition defaultCrontabBinary :: string where "defaultCrontabBinary = ''/usr/bin/crontab''"
definition defaultRunuserBinary :: string where "defaultRunuserBinary = ''/usr/sbin/runuser''"
definition defaultCronShell :: string where "defaultCronShell = ''/bin/bash''"
definition defaultCronService :: string where "defaultCronService = ''cron.service''"
definition defaultIPTablesBinary :: string where "defaultIPTablesBinary = ''/usr/sbin/iptables''"
definition defaultFirewallSave :: string where "defaultFirewallSave = ''/usr/sbin/netfilter-persistent''"
definition defaultFirewallLock :: string where "defaultFirewallLock = ''/run/lock/hserver-firewall.lock''"
definition defaultFirewallSvc :: string where "defaultFirewallSvc = ''netfilter-persistent.service''"
definition defaultFirewallState :: string where "defaultFirewallState = ''/etc/iptables''"

text \<open>The fields of a parsed URL that the code reads; of the user information only whether there is one.\<close>

record URL =
  url_Scheme :: string
  url_Host :: string
  url_User :: bool
  url_RawQuery :: string
  url_Fragment :: string
  url_Path :: string

definition zeroURL :: URL where
  "zeroURL = \<lparr>url_Scheme = [], url_Host = [], url_User = False, url_RawQuery = [], url_Fragment = [], url_Path = []\<rparr>"

text \<open>The sets of the struct, maps to the empty struct, are lists of their keys without repetition.\<close>

record config =
  cfg_hubURL :: URL
  cfg_nodeID :: string
  cfg_token :: string
  cfg_interval :: duration
  cfg_observedServices :: "string list"
  cfg_allowedServices :: "string list"
  cfg_allowedHostActions :: "string list"
  cfg_allowProcessSignals :: bool
  cfg_allowTerminal :: bool
  cfg_allowedDiskCleanup :: "string list"
  cfg_allowedLogSources :: "string list"
  cfg_allowContainerRead :: bool
  cfg_allowedContainerActions :: "string list"
  cfg_allowedNginxActions :: "string list"
  cfg_allowNginxConfigRead :: bool
  cfg_allowNginxConfigWrite :: bool
  cfg_allowDomainRead :: bool
  cfg_allowDomainActions :: bool
  cfg_allowSSLRead :: bool
  cfg_allowSSLActions :: bool
  cfg_certificateConfigDir :: string
  cfg_certificateWorkDir :: string
  cfg_certificateLogsDir :: string
  cfg_certbotBinary :: string
  cfg_openSSLBinary :: string
  cfg_caBundle :: string
  cfg_allowDatabaseRead :: bool
  cfg_allowedDatabaseRestarts :: "string list"
  cfg_mariaDBBinary :: string
  cfg_mariaDBAdminBinary :: string
  cfg_pgClustersBinary :: string
  cfg_psqlBinary :: string
  cfg_pgIsReadyBinary :: string
  cfg_allowBackupRead :: bool
  cfg_allowBackupRun :: bool
  cfg_backupPlansPath :: string
  cfg_allowDeployRead :: bool
  cfg_allowDeployActions :: bool
  cfg_allowDeployDomainRead :: bool
  cfg_allowDeployDomainActions :: bool
  cfg_deployPlansPath :: string
  cfg_deployACMEWebroot :: string
  cfg_deployWriteRoots :: "string list"
  cfg_allowAgentUpdateRead :: bool
  cfg_allowAgentUpdateActions :: bool
  cfg_agentUpdateManifestURL :: string
  cfg_agentUpdatePublicKeys :: string
  cfg_agentStateDir :: string
  cfg_agentLifecycleInstaller :: string
  cfg_systemdRunBinary :: string
  cfg_systemctlBinary :: string
  cfg_fileReadRoots :: "string list"
  cfg_fileWriteRoots :: "string list"
  cfg_nginxSitesAvailable :: string
  cfg_nginxSitesEnabled :: string
  cfg_allowedPHPActions :: "string list"
  cfg_allowPHPConfigRead :: bool
  cfg_allowPHPConfigWrite :: bool
  cfg_phpConfigRoot :: string
  cfg_phpBinaryRoot :: string
  cfg_allowPM2Read :: bool
  cfg_allowedPM2Actions :: "string list"
  cfg_pm2Binary :: string
  cfg_pm2Home :: string
  cfg_pm2User :: string
  cfg_allowCronRead :: bool
  cfg_allowCronWrite :: bool
  cfg_allowCronRun :: bool
  cfg_cronStatePath :: string
  cfg_cronFilePath :: string
  cfg_cronLockPath :: string
  cfg_crontabBinary :: string
  cfg_runuserBinary :: string
  cfg_cronShell :: string
  cfg_cronService :: string
  cfg_allowFirewallRead :: bool
  cfg_allowFirewallWrite :: bool
  cfg_iptablesBinary :: string
  cfg_firewallSaveBinary :: string
  cfg_firewallLockPath :: string
  cfg_firewallService :: string
  cfg_firewallPersistencePath :: string
  cfg_firewallProtectedSources :: "string list"
  cfg_firewallProtectedPorts :: "int list"
  cfg_profileObservation :: AgentProfileObservation

definition zeroConfig :: config where
  "zeroConfig =
    \<lparr>cfg_hubURL = zeroURL, cfg_nodeID = [], cfg_token = [], cfg_interval = 0, cfg_observedServices = [],
     cfg_allowedServices = [], cfg_allowedHostActions = [], cfg_allowProcessSignals = False, cfg_allowTerminal = False,
     cfg_allowedDiskCleanup = [], cfg_allowedLogSources = [], cfg_allowContainerRead = False,
     cfg_allowedContainerActions = [], cfg_allowedNginxActions = [], cfg_allowNginxConfigRead = False,
     cfg_allowNginxConfigWrite = False, cfg_allowDomainRead = False, cfg_allowDomainActions = False,
     cfg_allowSSLRead = False, cfg_allowSSLActions = False, cfg_certificateConfigDir = [], cfg_certificateWorkDir = [],
     cfg_certificateLogsDir = [], cfg_certbotBinary = [], cfg_openSSLBinary = [], cfg_caBundle = [],
     cfg_allowDatabaseRead = False, cfg_allowedDatabaseRestarts = [], cfg_mariaDBBinary = [],
     cfg_mariaDBAdminBinary = [], cfg_pgClustersBinary = [], cfg_psqlBinary = [], cfg_pgIsReadyBinary = [],
     cfg_allowBackupRead = False, cfg_allowBackupRun = False, cfg_backupPlansPath = [], cfg_allowDeployRead = False,
     cfg_allowDeployActions = False, cfg_allowDeployDomainRead = False, cfg_allowDeployDomainActions = False,
     cfg_deployPlansPath = [], cfg_deployACMEWebroot = [], cfg_deployWriteRoots = [], cfg_allowAgentUpdateRead = False,
     cfg_allowAgentUpdateActions = False, cfg_agentUpdateManifestURL = [], cfg_agentUpdatePublicKeys = [],
     cfg_agentStateDir = [], cfg_agentLifecycleInstaller = [], cfg_systemdRunBinary = [], cfg_systemctlBinary = [],
     cfg_fileReadRoots = [], cfg_fileWriteRoots = [], cfg_nginxSitesAvailable = [], cfg_nginxSitesEnabled = [],
     cfg_allowedPHPActions = [], cfg_allowPHPConfigRead = False, cfg_allowPHPConfigWrite = False,
     cfg_phpConfigRoot = [], cfg_phpBinaryRoot = [], cfg_allowPM2Read = False, cfg_allowedPM2Actions = [],
     cfg_pm2Binary = [], cfg_pm2Home = [], cfg_pm2User = [], cfg_allowCronRead = False, cfg_allowCronWrite = False,
     cfg_allowCronRun = False, cfg_cronStatePath = [], cfg_cronFilePath = [], cfg_cronLockPath = [],
     cfg_crontabBinary = [], cfg_runuserBinary = [], cfg_cronShell = [], cfg_cronService = [],
     cfg_allowFirewallRead = False, cfg_allowFirewallWrite = False, cfg_iptablesBinary = [],
     cfg_firewallSaveBinary = [], cfg_firewallLockPath = [], cfg_firewallService = [],
     cfg_firewallPersistencePath = [], cfg_firewallProtectedSources = [], cfg_firewallProtectedPorts = [],
     cfg_profileObservation = \<lparr>obs_State = [], obs_Revision = 0, obs_ErrorCode = []\<rparr>\<rparr>"

section \<open>Single values\<close>

definition envValue :: "(string \<Rightarrow> string option) \<Rightarrow> string \<Rightarrow> string" where
  "envValue lookup key = TrimSpace (case lookup key of None \<Rightarrow> [] | Some value \<Rightarrow> value)"

text \<open>
  \<^verbatim>\<open>strings.ToLower\<close> as far as the comparison with \<^verbatim>\<open>true\<close> and \<^verbatim>\<open>false\<close> can tell: no rune outside ASCII has a
  letter of these words as its lower case.
\<close>

definition asciiLower :: "string \<Rightarrow> string" where
  "asciiLower s = map (\<lambda>c. if 65 \<le> byte c \<and> byte c \<le> 90 then char_of (byte c + 32) else c) s"

definition parseOptionalBool :: "string \<Rightarrow> bool option" where
  "parseOptionalBool raw =
     (let value = asciiLower (TrimSpace raw) in
      if value = [] \<or> value = ''false'' then Some False
      else if value = ''true'' then Some True
      else None)"

definition nodeIDPattern :: "string \<Rightarrow> bool" where
  "nodeIDPattern s = matchName asciiLetterOrDigit (wordRune ''._-'') 127 s"

definition validToken :: "string \<Rightarrow> bool" where
  "validToken value =
     (\<not> (value = [] \<or> length value > maxTokenBytes) \<and> list_all (\<lambda>c. 0x21 \<le> byte c \<and> byte c \<le> 0x7E) value)"

definition parseAbsoluteDirectory :: "string \<Rightarrow> string \<Rightarrow> string option" where
  "parseAbsoluteDirectory raw fallback =
     (let raw = (if raw = [] then fallback else raw) in
      if length raw > 4096 \<or> \<not> IsAbs raw \<or> Clean raw \<noteq> raw \<or> raw = ''/'' then None else Some raw)"

definition parseAbsoluteFilePath :: "string \<Rightarrow> string \<Rightarrow> string option" where
  "parseAbsoluteFilePath raw fallback =
     (let raw = (if raw = [] then fallback else raw) in
      if length raw > 4096 \<or> \<not> IsAbs raw \<or> Clean raw \<noteq> raw \<or> raw = ''/'' \<or> HasSuffix raw ''/'' then None else Some raw)"

definition pathWithinAnyRoot :: "string \<Rightarrow> string list \<Rightarrow> bool" where
  "pathWithinAnyRoot candidate roots = list_ex (\<lambda>r. candidate = r \<or> HasPrefix candidate (r @ ''/'')) roots"

definition userRune :: "bool \<Rightarrow> nat \<Rightarrow> bool" where
  "userRune first r = (97 \<le> r \<and> r \<le> 122 \<or> 65 \<le> r \<and> r \<le> 90 \<or> r = 95 \<or> \<not> first \<and> (48 \<le> r \<and> r \<le> 57 \<or> r = 45))"

definition parseSystemUser :: "string \<Rightarrow> string \<Rightarrow> string option" where
  "parseSystemUser raw fallback =
     (let raw = (if raw = [] then fallback else raw) in
      if length raw > 64 then None
      else (case runes raw of
              [] \<Rightarrow> Some raw
            | r # rs \<Rightarrow> if userRune True r \<and> list_all (userRune False) rs then Some raw else None))"

section \<open>Lists\<close>

text \<open>The values without repetition, in the order of their first occurrence.\<close>

definition keysOf :: "'a list \<Rightarrow> 'a list" where
  "keysOf xs = rev (remdups (rev xs))"

text \<open>A comma-separated list of trimmed parts, each of which \<open>item\<close> reads, of bounded length.\<close>

definition parseParts :: "nat \<Rightarrow> (string \<Rightarrow> 'a option) \<Rightarrow> string \<Rightarrow> 'a list option" where
  "parseParts limit item raw =
     (if raw = [] then Some []
      else let parts = split_on (CHR '','') raw in
        if length parts > limit then None
        else map_option keysOf (opt_seq (map (item \<circ> TrimSpace) parts)))"

definition oneOf :: "string list \<Rightarrow> string \<Rightarrow> string option" where
  "oneOf values s = (if s \<in> set values then Some s else None)"

definition validAgentLogSource :: "string \<Rightarrow> bool" where
  "validAgentLogSource source =
     (source \<in> {''system'', ''nginx'', ''php'', ''mariadb'', ''postgresql'', ''pm2'', ''docker''})"

definition parseServices :: "string \<Rightarrow> string list option" where
  "parseServices = parseParts maxServices (\<lambda>s. if servicePattern s then Some s else None)"

definition parseHostActions :: "string \<Rightarrow> string list option" where
  "parseHostActions = parseParts maxHostActions (oneOf [''memory-optimize'', ''swap-reset'', ''temp-clean'', ''reboot'', ''reboot-cancel''])"

definition parseDiskCleanupTargets :: "string \<Rightarrow> string list option" where
  "parseDiskCleanupTargets = parseParts maxDiskCleanupTargets (oneOf [''apt-cache'', ''journal'', ''tmp-old'', ''rotated-logs''])"

definition parseLogSources :: "string \<Rightarrow> string list option" where
  "parseLogSources = parseParts maxLogSources (\<lambda>s. if validAgentLogSource s then Some s else None)"

definition parseContainerActions :: "string \<Rightarrow> string list option" where
  "parseContainerActions = parseParts maxContainerActions (oneOf [''start'', ''stop'', ''restart''])"

definition parseNginxActions :: "string \<Rightarrow> string list option" where
  "parseNginxActions = parseParts maxNginxActions (oneOf [''test'', ''reload''])"

definition parsePHPActions :: "string \<Rightarrow> string list option" where
  "parsePHPActions = parseParts maxPHPActions (oneOf [''test'', ''reload'', ''restart''])"

definition parsePM2Actions :: "string \<Rightarrow> string list option" where
  "parsePM2Actions = parseParts maxPM2Actions (oneOf [''start'', ''stop'', ''restart'', ''reload''])"

definition parseDatabaseEngines :: "string \<Rightarrow> string list option" where
  "parseDatabaseEngines = parseParts 2 (oneOf [''mariadb'', ''postgresql''])"

definition parseAbsoluteDirectories :: "string \<Rightarrow> string list option" where
  "parseAbsoluteDirectories = parseParts maxFileRoots (\<lambda>s. parseAbsoluteDirectory s [])"

definition parseFirewallSources :: "string \<Rightarrow> string list option" where
  "parseFirewallSources = parseParts 32 normalizeIPv4Network"

definition parseFirewallPort :: "string \<Rightarrow> int option" where
  "parseFirewallPort s =
     (case ParseInt64 s of None \<Rightarrow> None | Some port \<Rightarrow> if port < 1 \<or> port > 65535 then None else Some port)"

definition parseFirewallPorts :: "string \<Rightarrow> int list option" where
  "parseFirewallPorts = parseParts 32 parseFirewallPort"

section \<open>Loading\<close>

text \<open>A step of the loader: a field that is set from a variable, or a condition that rejects the configuration.\<close>

type_synonym load_step = "config \<Rightarrow> config option"

definition setting :: "'a option \<Rightarrow> ('a \<Rightarrow> config \<Rightarrow> config) \<Rightarrow> load_step" where
  "setting value upd c = map_option (\<lambda>x. upd x c) value"

definition reject :: "(config \<Rightarrow> bool) \<Rightarrow> load_step" where
  "reject bad c = (if bad c then None else Some c)"

definition steps :: "load_step list \<Rightarrow> load_step" where
  "steps fs c = fold (\<lambda>f acc. Option.bind acc f) fs (Some c)"

definition loadActions :: "(string \<Rightarrow> string option) \<Rightarrow> load_step" where
  "loadActions lookup =
     steps
      [setting (parseServices (envValue lookup ''HSERVER_AGENT_OBSERVED_SERVICES'')) (\<lambda>x. cfg_observedServices_update (\<lambda>_. x)),
       setting (parseServices (envValue lookup ''HSERVER_AGENT_ALLOWED_SERVICES'')) (\<lambda>x. cfg_allowedServices_update (\<lambda>_. x)),
       setting (parseHostActions (envValue lookup ''HSERVER_AGENT_ALLOWED_HOST_ACTIONS'')) (\<lambda>x. cfg_allowedHostActions_update (\<lambda>_. x)),
       setting (parseOptionalBool (envValue lookup ''HSERVER_AGENT_ALLOW_PROCESS_SIGNALS'')) (\<lambda>x. cfg_allowProcessSignals_update (\<lambda>_. x)),
       setting (parseOptionalBool (envValue lookup ''HSERVER_AGENT_ALLOW_TERMINAL'')) (\<lambda>x. cfg_allowTerminal_update (\<lambda>_. x)),
       setting (parseDiskCleanupTargets (envValue lookup ''HSERVER_AGENT_ALLOWED_DISK_CLEANUP'')) (\<lambda>x. cfg_allowedDiskCleanup_update (\<lambda>_. x)),
       setting (parseLogSources (envValue lookup ''HSERVER_AGENT_ALLOWED_LOG_SOURCES'')) (\<lambda>x. cfg_allowedLogSources_update (\<lambda>_. x)),
       setting (parseOptionalBool (envValue lookup ''HSERVER_AGENT_ALLOW_CONTAINER_READ'')) (\<lambda>x. cfg_allowContainerRead_update (\<lambda>_. x)),
       setting (parseContainerActions (envValue lookup ''HSERVER_AGENT_ALLOWED_CONTAINER_ACTIONS'')) (\<lambda>x. cfg_allowedContainerActions_update (\<lambda>_. x))]"

definition loadNginx :: "(string \<Rightarrow> string option) \<Rightarrow> load_step" where
  "loadNginx lookup =
     steps
      [setting (parseNginxActions (envValue lookup ''HSERVER_AGENT_ALLOWED_NGINX_ACTIONS'')) (\<lambda>x. cfg_allowedNginxActions_update (\<lambda>_. x)),
       setting (parseOptionalBool (envValue lookup ''HSERVER_AGENT_ALLOW_NGINX_CONFIG_READ'')) (\<lambda>x. cfg_allowNginxConfigRead_update (\<lambda>_. x)),
       setting (parseOptionalBool (envValue lookup ''HSERVER_AGENT_ALLOW_NGINX_CONFIG_WRITE'')) (\<lambda>x. cfg_allowNginxConfigWrite_update (\<lambda>_. x)),
       reject (\<lambda>c. cfg_allowNginxConfigWrite c \<and> \<not> cfg_allowNginxConfigRead c),
       setting (parseAbsoluteDirectory (envValue lookup ''HSERVER_AGENT_NGINX_SITES_AVAILABLE'') defaultNginxAvailable) (\<lambda>x. cfg_nginxSitesAvailable_update (\<lambda>_. x)),
       setting (parseAbsoluteDirectory (envValue lookup ''HSERVER_AGENT_NGINX_SITES_ENABLED'') defaultNginxEnabled) (\<lambda>x. cfg_nginxSitesEnabled_update (\<lambda>_. x)),
       setting (parseOptionalBool (envValue lookup ''HSERVER_AGENT_ALLOW_DOMAIN_READ'')) (\<lambda>x. cfg_allowDomainRead_update (\<lambda>_. x)),
       setting (parseOptionalBool (envValue lookup ''HSERVER_AGENT_ALLOW_DOMAIN_ACTIONS'')) (\<lambda>x. cfg_allowDomainActions_update (\<lambda>_. x)),
       reject (\<lambda>c. cfg_allowDomainActions c \<and> \<not> cfg_allowDomainRead c)]"

definition loadSSL :: "(string \<Rightarrow> string option) \<Rightarrow> load_step" where
  "loadSSL lookup =
     steps
      [setting (parseOptionalBool (envValue lookup ''HSERVER_AGENT_ALLOW_SSL_READ'')) (\<lambda>x. cfg_allowSSLRead_update (\<lambda>_. x)),
       setting (parseOptionalBool (envValue lookup ''HSERVER_AGENT_ALLOW_SSL_ACTIONS'')) (\<lambda>x. cfg_allowSSLActions_update (\<lambda>_. x)),
       reject (\<lambda>c. cfg_allowSSLActions c \<and> \<not> cfg_allowSSLRead c),
       setting (parseAbsoluteDirectory (envValue lookup ''HSERVER_AGENT_CERTBOT_CONFIG_DIR'') defaultCertConfigDir) (\<lambda>x. cfg_certificateConfigDir_update (\<lambda>_. x)),
       setting (parseAbsoluteDirectory (envValue lookup ''HSERVER_AGENT_CERTBOT_WORK_DIR'') defaultCertWorkDir) (\<lambda>x. cfg_certificateWorkDir_update (\<lambda>_. x)),
       setting (parseAbsoluteDirectory (envValue lookup ''HSERVER_AGENT_CERTBOT_LOGS_DIR'') defaultCertLogsDir) (\<lambda>x. cfg_certificateLogsDir_update (\<lambda>_. x)),
       setting (parseAbsoluteFilePath (envValue lookup ''HSERVER_AGENT_CERTBOT_BINARY'') defaultCertbotBinary) (\<lambda>x. cfg_certbotBinary_update (\<lambda>_. x)),
       setting (parseAbsoluteFilePath (envValue lookup ''HSERVER_AGENT_OPENSSL_BINARY'') defaultOpenSSLBinary) (\<lambda>x. cfg_openSSLBinary_update (\<lambda>_. x)),
       setting (parseAbsoluteFilePath (envValue lookup ''HSERVER_AGENT_CA_BUNDLE'') defaultCABundle) (\<lambda>x. cfg_caBundle_update (\<lambda>_. x))]"

definition loadBackup :: "(string \<Rightarrow> string option) \<Rightarrow> load_step" where
  "loadBackup lookup =
     steps
      [setting (parseOptionalBool (envValue lookup ''HSERVER_AGENT_ALLOW_BACKUP_READ'')) (\<lambda>x. cfg_allowBackupRead_update (\<lambda>_. x)),
       setting (parseOptionalBool (envValue lookup ''HSERVER_AGENT_ALLOW_BACKUP_RUN'')) (\<lambda>x. cfg_allowBackupRun_update (\<lambda>_. x)),
       reject (\<lambda>c. cfg_allowBackupRun c \<and> \<not> cfg_allowBackupRead c),
       setting (parseAbsoluteFilePath (envValue lookup ''HSERVER_AGENT_BACKUP_PLANS_FILE'') defaultBackupPlans) (\<lambda>x. cfg_backupPlansPath_update (\<lambda>_. x))]"

definition loadDeploy :: "(string \<Rightarrow> string option) \<Rightarrow> load_step" where
  "loadDeploy lookup =
     steps
      [setting (parseOptionalBool (envValue lookup ''HSERVER_AGENT_ALLOW_DEPLOY_READ'')) (\<lambda>x. cfg_allowDeployRead_update (\<lambda>_. x)),
       setting (parseOptionalBool (envValue lookup ''HSERVER_AGENT_ALLOW_DEPLOY_ACTIONS'')) (\<lambda>x. cfg_allowDeployActions_update (\<lambda>_. x)),
       reject (\<lambda>c. cfg_allowDeployActions c \<and> \<not> cfg_allowDeployRead c),
       setting (parseOptionalBool (envValue lookup ''HSERVER_AGENT_ALLOW_DEPLOY_DOMAIN_READ'')) (\<lambda>x. cfg_allowDeployDomainRead_update (\<lambda>_. x)),
       reject (\<lambda>c. cfg_allowDeployDomainRead c \<and> \<not> cfg_allowDeployRead c),
       setting (parseOptionalBool (envValue lookup ''HSERVER_AGENT_ALLOW_DEPLOY_DOMAIN_ACTIONS'')) (\<lambda>x. cfg_allowDeployDomainActions_update (\<lambda>_. x)),
       reject (\<lambda>c. cfg_allowDeployDomainActions c \<and> \<not> cfg_allowDeployDomainRead c),
       setting (parseAbsoluteFilePath (envValue lookup ''HSERVER_AGENT_DEPLOY_PLANS_FILE'') defaultDeployPlans) (\<lambda>x. cfg_deployPlansPath_update (\<lambda>_. x)),
       setting (parseAbsoluteDirectory (envValue lookup ''HSERVER_AGENT_DEPLOY_ACME_WEBROOT'') defaultDeployACMERoot) (\<lambda>x. cfg_deployACMEWebroot_update (\<lambda>_. x)),
       setting (parseAbsoluteDirectories (envValue lookup ''HSERVER_AGENT_DEPLOY_WRITE_ROOTS'')) (\<lambda>x. cfg_deployWriteRoots_update (\<lambda>_. x))]"

definition loadUpdate :: "(string \<Rightarrow> bool) \<Rightarrow> (string \<Rightarrow> string option) \<Rightarrow> load_step" where
  "loadUpdate manifestURL lookup =
     steps
      [setting (parseOptionalBool (envValue lookup ''HSERVER_AGENT_ALLOW_UPDATE_READ'')) (\<lambda>x. cfg_allowAgentUpdateRead_update (\<lambda>_. x)),
       setting (parseOptionalBool (envValue lookup ''HSERVER_AGENT_ALLOW_UPDATE_ACTIONS'')) (\<lambda>x. cfg_allowAgentUpdateActions_update (\<lambda>_. x)),
       reject (\<lambda>c. cfg_allowAgentUpdateActions c \<and> \<not> cfg_allowAgentUpdateRead c),
       setting (Some (TrimSpace (envValue lookup ''HSERVER_AGENT_UPDATE_MANIFEST_URL''))) (\<lambda>x. cfg_agentUpdateManifestURL_update (\<lambda>_. x)),
       reject (\<lambda>c. cfg_agentUpdateManifestURL c \<noteq> [] \<and> \<not> manifestURL (cfg_agentUpdateManifestURL c)),
       setting (Some (TrimSpace (envValue lookup ''HSERVER_AGENT_UPDATE_MANIFEST_PUBLIC_KEYS''))) (\<lambda>x. cfg_agentUpdatePublicKeys_update (\<lambda>_. x)),
       setting (parseAbsoluteDirectory (envValue lookup ''HSERVER_AGENT_STATE_DIR'') defaultAgentStateDir) (\<lambda>x. cfg_agentStateDir_update (\<lambda>_. x)),
       setting (parseAbsoluteFilePath (envValue lookup ''HSERVER_AGENT_LIFECYCLE_INSTALLER'') defaultLifecycleTool) (\<lambda>x. cfg_agentLifecycleInstaller_update (\<lambda>_. x)),
       setting (parseAbsoluteFilePath (envValue lookup ''HSERVER_AGENT_SYSTEMD_RUN_BINARY'') defaultSystemdRun) (\<lambda>x. cfg_systemdRunBinary_update (\<lambda>_. x)),
       setting (parseAbsoluteFilePath (envValue lookup ''HSERVER_AGENT_SYSTEMCTL_BINARY'') defaultSystemctl) (\<lambda>x. cfg_systemctlBinary_update (\<lambda>_. x))]"

definition loadFiles :: "(string \<Rightarrow> string option) \<Rightarrow> load_step" where
  "loadFiles lookup =
     steps
      [setting (parseAbsoluteDirectories (envValue lookup ''HSERVER_AGENT_FILE_READ_ROOTS'')) (\<lambda>x. cfg_fileReadRoots_update (\<lambda>_. x)),
       setting (parseAbsoluteDirectories (envValue lookup ''HSERVER_AGENT_FILE_WRITE_ROOTS'')) (\<lambda>x. cfg_fileWriteRoots_update (\<lambda>_. x)),
       reject (\<lambda>c. \<not> list_all (\<lambda>r. pathWithinAnyRoot r (cfg_fileReadRoots c)) (cfg_fileWriteRoots c))]"

definition loadDatabase :: "(string \<Rightarrow> string option) \<Rightarrow> load_step" where
  "loadDatabase lookup =
     steps
      [setting (parseOptionalBool (envValue lookup ''HSERVER_AGENT_ALLOW_DATABASE_READ'')) (\<lambda>x. cfg_allowDatabaseRead_update (\<lambda>_. x)),
       setting (parseDatabaseEngines (envValue lookup ''HSERVER_AGENT_ALLOWED_DATABASE_RESTARTS'')) (\<lambda>x. cfg_allowedDatabaseRestarts_update (\<lambda>_. x)),
       reject (\<lambda>c. length (cfg_allowedDatabaseRestarts c) > 0 \<and> \<not> cfg_allowDatabaseRead c),
       setting (parseAbsoluteFilePath (envValue lookup ''HSERVER_AGENT_MARIADB_BINARY'') defaultMariaDBBinary) (\<lambda>x. cfg_mariaDBBinary_update (\<lambda>_. x)),
       setting (parseAbsoluteFilePath (envValue lookup ''HSERVER_AGENT_MARIADB_ADMIN_BINARY'') defaultMariaAdmin) (\<lambda>x. cfg_mariaDBAdminBinary_update (\<lambda>_. x)),
       setting (parseAbsoluteFilePath (envValue lookup ''HSERVER_AGENT_PG_LSCLUSTERS_BINARY'') defaultPGClusters) (\<lambda>x. cfg_pgClustersBinary_update (\<lambda>_. x)),
       setting (parseAbsoluteFilePath (envValue lookup ''HSERVER_AGENT_PSQL_BINARY'') defaultPSQLBinary) (\<lambda>x. cfg_psqlBinary_update (\<lambda>_. x)),
       setting (parseAbsoluteFilePath (envValue lookup ''HSERVER_AGENT_PG_ISREADY_BINARY'') defaultPGIsReady) (\<lambda>x. cfg_pgIsReadyBinary_update (\<lambda>_. x))]"

definition loadPHP :: "(string \<Rightarrow> string option) \<Rightarrow> load_step" where
  "loadPHP lookup =
     steps
      [setting (parsePHPActions (envValue lookup ''HSERVER_AGENT_ALLOWED_PHP_ACTIONS'')) (\<lambda>x. cfg_allowedPHPActions_update (\<lambda>_. x)),
       setting (parseOptionalBool (envValue lookup ''HSERVER_AGENT_ALLOW_PHP_CONFIG_READ'')) (\<lambda>x. cfg_allowPHPConfigRead_update (\<lambda>_. x)),
       setting (parseOptionalBool (envValue lookup ''HSERVER_AGENT_ALLOW_PHP_CONFIG_WRITE'')) (\<lambda>x. cfg_allowPHPConfigWrite_update (\<lambda>_. x)),
       reject (\<lambda>c. cfg_allowPHPConfigWrite c \<and> \<not> cfg_allowPHPConfigRead c),
       setting (parseAbsoluteDirectory (envValue lookup ''HSERVER_AGENT_PHP_CONFIG_ROOT'') defaultPHPConfigRoot) (\<lambda>x. cfg_phpConfigRoot_update (\<lambda>_. x)),
       setting (parseAbsoluteDirectory (envValue lookup ''HSERVER_AGENT_PHP_BINARY_ROOT'') defaultPHPBinaryRoot) (\<lambda>x. cfg_phpBinaryRoot_update (\<lambda>_. x))]"

definition loadPM2 :: "(string \<Rightarrow> string option) \<Rightarrow> load_step" where
  "loadPM2 lookup =
     steps
      [setting (parseOptionalBool (envValue lookup ''HSERVER_AGENT_ALLOW_PM2_READ'')) (\<lambda>x. cfg_allowPM2Read_update (\<lambda>_. x)),
       setting (parsePM2Actions (envValue lookup ''HSERVER_AGENT_ALLOWED_PM2_ACTIONS'')) (\<lambda>x. cfg_allowedPM2Actions_update (\<lambda>_. x)),
       \<lambda>c. setting (if envValue lookup ''HSERVER_AGENT_PM2_BINARY'' = [] then Some (cfg_pm2Binary c) else parseAbsoluteFilePath (envValue lookup ''HSERVER_AGENT_PM2_BINARY'') []) (\<lambda>x. cfg_pm2Binary_update (\<lambda>_. x)) c,
       \<lambda>c. setting (if envValue lookup ''HSERVER_AGENT_PM2_HOME'' = [] then Some (cfg_pm2Home c) else parseAbsoluteDirectory (envValue lookup ''HSERVER_AGENT_PM2_HOME'') []) (\<lambda>x. cfg_pm2Home_update (\<lambda>_. x)) c,
       \<lambda>c. setting (if envValue lookup ''HSERVER_AGENT_PM2_USER'' = [] then Some (cfg_pm2User c) else parseSystemUser (envValue lookup ''HSERVER_AGENT_PM2_USER'') []) (\<lambda>x. cfg_pm2User_update (\<lambda>_. x)) c,
       reject (\<lambda>c. envValue lookup ''HSERVER_AGENT_PM2_USER'' \<noteq> [] \<and> cfg_pm2User c = ''root''),
       reject (\<lambda>c. (cfg_allowPM2Read c \<or> length (cfg_allowedPM2Actions c) > 0) \<and> (cfg_pm2Binary c = [] \<or> cfg_pm2Home c = [] \<or> cfg_pm2User c = []))]"

definition loadCron :: "(string \<Rightarrow> string option) \<Rightarrow> load_step" where
  "loadCron lookup =
     steps
      [setting (parseOptionalBool (envValue lookup ''HSERVER_AGENT_ALLOW_CRON_READ'')) (\<lambda>x. cfg_allowCronRead_update (\<lambda>_. x)),
       setting (parseOptionalBool (envValue lookup ''HSERVER_AGENT_ALLOW_CRON_WRITE'')) (\<lambda>x. cfg_allowCronWrite_update (\<lambda>_. x)),
       setting (parseOptionalBool (envValue lookup ''HSERVER_AGENT_ALLOW_CRON_RUN'')) (\<lambda>x. cfg_allowCronRun_update (\<lambda>_. x)),
       reject (\<lambda>c. (cfg_allowCronWrite c \<or> cfg_allowCronRun c) \<and> \<not> cfg_allowCronRead c),
       setting (parseAbsoluteFilePath (envValue lookup ''HSERVER_AGENT_CRON_STATE_PATH'') defaultCronStatePath) (\<lambda>x. cfg_cronStatePath_update (\<lambda>_. x)),
       setting (parseAbsoluteFilePath (envValue lookup ''HSERVER_AGENT_CRON_FILE_PATH'') defaultCronFilePath) (\<lambda>x. cfg_cronFilePath_update (\<lambda>_. x)),
       setting (parseAbsoluteFilePath (envValue lookup ''HSERVER_AGENT_CRON_LOCK_PATH'') defaultCronLockPath) (\<lambda>x. cfg_cronLockPath_update (\<lambda>_. x)),
       setting (parseAbsoluteFilePath (envValue lookup ''HSERVER_AGENT_CRONTAB_BINARY'') defaultCrontabBinary) (\<lambda>x. cfg_crontabBinary_update (\<lambda>_. x)),
       setting (parseAbsoluteFilePath (envValue lookup ''HSERVER_AGENT_RUNUSER_BINARY'') defaultRunuserBinary) (\<lambda>x. cfg_runuserBinary_update (\<lambda>_. x)),
       setting (parseAbsoluteFilePath (envValue lookup ''HSERVER_AGENT_CRON_SHELL'') defaultCronShell) (\<lambda>x. cfg_cronShell_update (\<lambda>_. x)),
       setting ((let s = (if envValue lookup ''HSERVER_AGENT_CRON_SERVICE'' = [] then defaultCronService else envValue lookup ''HSERVER_AGENT_CRON_SERVICE'') in if servicePattern s then Some s else None)) (\<lambda>x. cfg_cronService_update (\<lambda>_. x))]"

definition loadFirewall :: "(string \<Rightarrow> string option) \<Rightarrow> load_step" where
  "loadFirewall lookup =
     steps
      [setting (parseOptionalBool (envValue lookup ''HSERVER_AGENT_ALLOW_FIREWALL_READ'')) (\<lambda>x. cfg_allowFirewallRead_update (\<lambda>_. x)),
       setting (parseOptionalBool (envValue lookup ''HSERVER_AGENT_ALLOW_FIREWALL_WRITE'')) (\<lambda>x. cfg_allowFirewallWrite_update (\<lambda>_. x)),
       reject (\<lambda>c. cfg_allowFirewallWrite c \<and> \<not> cfg_allowFirewallRead c),
       setting (parseAbsoluteFilePath (envValue lookup ''HSERVER_AGENT_IPTABLES_BINARY'') defaultIPTablesBinary) (\<lambda>x. cfg_iptablesBinary_update (\<lambda>_. x)),
       setting (parseAbsoluteFilePath (envValue lookup ''HSERVER_AGENT_FIREWALL_SAVE_BINARY'') defaultFirewallSave) (\<lambda>x. cfg_firewallSaveBinary_update (\<lambda>_. x)),
       setting (parseAbsoluteFilePath (envValue lookup ''HSERVER_AGENT_FIREWALL_LOCK_PATH'') defaultFirewallLock) (\<lambda>x. cfg_firewallLockPath_update (\<lambda>_. x)),
       setting ((let s = (if envValue lookup ''HSERVER_AGENT_FIREWALL_PERSISTENCE_SERVICE'' = [] then defaultFirewallSvc else envValue lookup ''HSERVER_AGENT_FIREWALL_PERSISTENCE_SERVICE'') in if servicePattern s then Some s else None)) (\<lambda>x. cfg_firewallService_update (\<lambda>_. x)),
       setting (parseAbsoluteDirectory (envValue lookup ''HSERVER_AGENT_FIREWALL_PERSISTENCE_PATH'') defaultFirewallState) (\<lambda>x. cfg_firewallPersistencePath_update (\<lambda>_. x)),
       setting (parseFirewallSources (envValue lookup ''HSERVER_AGENT_FIREWALL_PROTECTED_SOURCES'')) (\<lambda>x. cfg_firewallProtectedSources_update (\<lambda>_. x)),
       setting (parseFirewallPorts (envValue lookup ''HSERVER_AGENT_FIREWALL_PROTECTED_PORTS'')) (\<lambda>x. cfg_firewallProtectedPorts_update (\<lambda>_. x))]"


section \<open>Identity\<close>

definition validHubURL :: "URL \<Rightarrow> bool" where
  "validHubURL u =
     (\<not> (url_Scheme u \<noteq> ''http'' \<and> url_Scheme u \<noteq> ''https'' \<or> url_Host u = [] \<or> url_User u \<or> url_RawQuery u \<noteq> []
         \<or> url_Fragment u \<noteq> []))"

definition trimSlashes :: "string \<Rightarrow> string" where
  "trimSlashes p = rev (dropWhile (\<lambda>c. c = CHR 0x2F) (rev p))"

definition validAgentUpdateManifestURL :: "(string \<Rightarrow> URL option) \<Rightarrow> string \<Rightarrow> bool" where
  "validAgentUpdateManifestURL parseRequestURI raw =
     (case parseRequestURI raw of
        None \<Rightarrow> False
      | Some u \<Rightarrow> (url_Scheme u = ''http'' \<or> url_Scheme u = ''https'') \<and> url_Host u \<noteq> [] \<and> \<not> url_User u)"

definition loadNode :: "(string \<Rightarrow> URL option) \<Rightarrow> (string \<Rightarrow> string option) \<Rightarrow> load_step" where
  "loadNode parseURL lookup =
     steps
      [reject (\<lambda>_. envValue lookup ''HSERVER_AGENT_HUB_URL'' = []),
       setting (case parseURL (envValue lookup ''HSERVER_AGENT_HUB_URL'') of
                  None \<Rightarrow> None
                | Some u \<Rightarrow> if validHubURL u then Some (u\<lparr>url_Path := trimSlashes (url_Path u)\<rparr>) else None)
         (\<lambda>x. cfg_hubURL_update (\<lambda>_. x)),
       setting (Some (envValue lookup ''HSERVER_AGENT_NODE_ID'')) (\<lambda>x. cfg_nodeID_update (\<lambda>_. x)),
       reject (\<lambda>c. \<not> nodeIDPattern (cfg_nodeID c))]"

text \<open>The token, from its variable or from its file, not both.\<close>

definition tokenSource :: "(string \<Rightarrow> (os_error, string) io) \<Rightarrow> (string \<Rightarrow> string option) \<Rightarrow> ('e, string option) io" where
  "tokenSource readFile lookup =
     (let tokenValue = envValue lookup ''HSERVER_AGENT_TOKEN''; tokenFile = envValue lookup ''HSERVER_AGENT_TOKEN_FILE'' in
      if tokenValue \<noteq> [] \<and> tokenFile \<noteq> [] then ret None
      else if tokenFile \<noteq> [] then
        seqIO (attempt (readFile tokenFile)) (\<lambda>r. ret (case r of
            Inl _ \<Rightarrow> None
          | Inr data \<Rightarrow> if length data > maxTokenBytes then None else Some (TrimSpace data)))
      else ret (Some tokenValue))"

definition loadToken :: "string option \<Rightarrow> load_step" where
  "loadToken token = setting (case token of None \<Rightarrow> None | Some t \<Rightarrow> if validToken t then Some t else None) (\<lambda>x. cfg_token_update (\<lambda>_. x))"

definition loadInterval :: "(string \<Rightarrow> duration option) \<Rightarrow> (string \<Rightarrow> string option) \<Rightarrow> load_step" where
  "loadInterval parseDuration lookup =
     setting
       (let raw = envValue lookup ''HSERVER_AGENT_INTERVAL'' in
        if raw = [] then Some defaultInterval
        else (case parseDuration raw of
                None \<Rightarrow> None
              | Some d \<Rightarrow> if d < minInterval \<or> d > maxInterval then None else Some d))
       (\<lambda>x. cfg_interval_update (\<lambda>_. x))"

section \<open>The configuration\<close>

text \<open>The part of the loader that reads only variables.\<close>

definition loadEnvironment ::
  "(string \<Rightarrow> URL option) \<Rightarrow> (string \<Rightarrow> duration option) \<Rightarrow> (string \<Rightarrow> string option) \<Rightarrow> load_step" where
  "loadEnvironment parseRequestURI parseDuration lookup =
     steps
      [loadInterval parseDuration lookup, loadActions lookup, loadNginx lookup, loadSSL lookup, loadBackup lookup,
       loadDeploy lookup, loadUpdate (validAgentUpdateManifestURL parseRequestURI) lookup, loadFiles lookup, loadDatabase lookup,
       loadPHP lookup, loadPM2 lookup, loadCron lookup, loadFirewall lookup]"

definition applyProfileOverlay :: "AgentProfile \<Rightarrow> config \<Rightarrow> config" where
  "applyProfileOverlay profile cfg =
     cfg\<lparr>cfg_allowDeployRead := prof_AllowDeployRead profile, cfg_allowDeployActions := prof_AllowDeployActions profile,
         cfg_allowDeployDomainRead := prof_AllowDeployDomainRead profile,
         cfg_allowDeployDomainActions := prof_AllowDeployDomainActions profile,
         cfg_deployPlansPath := prof_DeployPlansFile profile, cfg_deployACMEWebroot := prof_DeployAcmeWebroot profile,
         cfg_deployWriteRoots := prof_DeployWriteRoots profile\<rparr>"

definition overlaid :: "profileWrapper \<times> AgentProfileObservation \<times> profile_error option \<Rightarrow> config \<Rightarrow> config" where
  "overlaid loaded c =
     (case loaded of (active, ob, profileErr) \<Rightarrow>
        (let c = c\<lparr>cfg_profileObservation := ob\<rparr> in
         if profileErr = None \<and> pw_Revision active > 0 then applyProfileOverlay (pw_Profile active) c else c))"

definition loadConfigFromEnv ::
  "(string \<Rightarrow> URL option) \<Rightarrow> (string \<Rightarrow> URL option) \<Rightarrow> (string \<Rightarrow> duration option) \<Rightarrow>
   (string \<Rightarrow> string option) \<Rightarrow> (string \<Rightarrow> (os_error, string) io) \<Rightarrow> ('e, config option) io" where
  "loadConfigFromEnv parseURL parseRequestURI parseDuration lookup readFile =
     (case loadNode parseURL lookup zeroConfig of
        None \<Rightarrow> ret None
      | Some c0 \<Rightarrow>
          seqIO (tokenSource readFile lookup) (\<lambda>token.
            case steps [loadToken token, loadEnvironment parseRequestURI parseDuration lookup] c0 of
              None \<Rightarrow> ret None
            | Some c \<Rightarrow>
                seqIO (loadActiveProfile (newProfileStoreWithReader (cfg_agentStateDir c) (Some readFile))) (\<lambda>loaded.
                  ret (Some (overlaid loaded c)))))"

definition loadConfig ::
  "(string \<Rightarrow> URL option) \<Rightarrow> (string \<Rightarrow> URL option) \<Rightarrow> (string \<Rightarrow> duration option) \<Rightarrow>
   (string \<Rightarrow> string option) \<Rightarrow> ('e, config option) io" where
  "loadConfig parseURL parseRequestURI parseDuration lookup =
     loadConfigFromEnv parseURL parseRequestURI parseDuration lookup osReadFile"

section \<open>The executor\<close>

text \<open>\<^verbatim>\<open>newTaskExecutor\<close>: the controllers it is not given are absent.\<close>

definition newTaskExecutor :: "bool \<Rightarrow> bool \<Rightarrow> bool \<Rightarrow> string list \<Rightarrow> string list \<Rightarrow> string list \<Rightarrow> bool \<Rightarrow> taskExecutor" where
  "newTaskExecutor host disk logs watched allowed allowedHostActions allowProcessSignals =
     \<lparr>te_host = host, te_disk = disk, te_logs = logs, te_containers = False, te_nginx = False, te_php = False, te_pm2 = False,
      te_cron = False, te_firewall = False, te_domains = False, te_ssl = False, te_databases = False, te_backups = False,
      te_files = False, te_deploys = False, te_deployDomains = False, te_agentUpdates = False, te_profileApply = False,
      te_metrics = False, te_observed = keysOf (watched @ allowed), te_allowed = allowed,
      te_allowedHostActions = allowedHostActions, te_allowProcessSignals = allowProcessSignals, te_allowAgentUpdates = False\<rparr>"

text \<open>The executor that \<^verbatim>\<open>main\<close> assembles.\<close>

definition agentExecutor :: "config \<Rightarrow> taskExecutor" where
  "agentExecutor cfg =
     (let e = (newTaskExecutor True True True (cfg_observedServices cfg) (cfg_allowedServices cfg) (cfg_allowedHostActions cfg)
                 (cfg_allowProcessSignals cfg))
              \<lparr>te_metrics := True, te_profileApply := True, te_containers := True, te_nginx := True, te_domains := True, te_ssl := True,
               te_databases := True, te_backups := True, te_deploys := True, te_deployDomains := True\<rparr>;
          e = (if cfg_allowAgentUpdateRead cfg then e\<lparr>te_agentUpdates := True, te_allowAgentUpdates := cfg_allowAgentUpdateActions cfg\<rparr>
               else e)
      in e\<lparr>te_files := True, te_php := True, te_pm2 := True, te_cron := True, te_firewall := True\<rparr>)"

definition agentFirewallController :: "config \<Rightarrow> firewallController" where
  "agentFirewallController cfg =
     newFirewallController (cfg_allowFirewallRead cfg) (cfg_allowFirewallWrite cfg) (cfg_iptablesBinary cfg) (cfg_firewallSaveBinary cfg)
       (cfg_firewallLockPath cfg) (cfg_firewallService cfg) (cfg_firewallProtectedSources cfg) (set (cfg_firewallProtectedPorts cfg))"

definition agentCronController :: "config \<Rightarrow> cronController" where
  "agentCronController cfg =
     newCronController (cfg_allowCronRead cfg) (cfg_allowCronWrite cfg) (cfg_allowCronRun cfg) (cfg_cronStatePath cfg) (cfg_cronFilePath cfg)
       (cfg_cronLockPath cfg) (cfg_crontabBinary cfg) (cfg_runuserBinary cfg) (cfg_cronShell cfg) (cfg_cronService cfg)"

text \<open>Readiness is \<^verbatim>\<open>executableReady\<close>, which an absent \<^verbatim>\<open>readyFn\<close> stands for.\<close>

definition newProfileApplyController :: "string \<Rightarrow> string \<Rightarrow> string \<Rightarrow> (string \<Rightarrow> string list \<Rightarrow> bool) \<Rightarrow> profileApplyController" where
  "newProfileApplyController stateDir installer systemdRun runner =
     \<lparr>pc_store = newProfileStore stateDir, pc_installer = installer, pc_systemdRun = systemdRun, pc_runner = Some runner, pc_readyFn = None\<rparr>"

definition agentProfileController :: "config \<Rightarrow> (string \<Rightarrow> string list \<Rightarrow> bool) \<Rightarrow> profileApplyController" where
  "agentProfileController cfg runner =
     newProfileApplyController (cfg_agentStateDir cfg) (cfg_agentLifecycleInstaller cfg) (cfg_systemdRunBinary cfg) runner"

section \<open>A cycle\<close>

definition configuredManagedFileRoots :: "config \<Rightarrow> string list option \<times> string list" where
  "configuredManagedFileRoots cfg =
     (if cfg_fileReadRoots cfg = [] then None else Some (cfg_fileReadRoots cfg), cfg_fileWriteRoots cfg)"

definition configuredLogSources :: "string list \<Rightarrow> string list" where
  "configuredLogSources allowed = sorted_list_of_set (set allowed)"

definition announce :: "bool \<Rightarrow> string \<Rightarrow> string list" where
  "announce b capability = (if b then [capability] else [])"

definition advertisedCapabilities :: "bool \<Rightarrow> config \<Rightarrow> string list" where
  "advertisedCapabilities profileReady cfg =
     [CapabilityInventory, CapabilityProcessRead]
     @ announce (cfg_observedServices cfg \<noteq> [] \<or> cfg_allowedServices cfg \<noteq> []) CapabilityServiceStatus
     @ announce (cfg_allowedServices cfg \<noteq> []) CapabilityServiceAction
     @ announce (cfg_allowedHostActions cfg \<noteq> []) CapabilityHostAction
     @ announce (cfg_allowProcessSignals cfg) CapabilityProcessSignal
     @ announce (cfg_allowTerminal cfg) CapabilityTerminal
     @ announce (cfg_allowedDiskCleanup cfg \<noteq> []) CapabilityDiskCleanup
     @ announce (cfg_allowedLogSources cfg \<noteq> []) CapabilityLogsRead
     @ announce (cfg_allowContainerRead cfg) CapabilityContainerRead
     @ announce (cfg_allowedContainerActions cfg \<noteq> []) CapabilityContainerAction
     @ announce (cfg_allowedNginxActions cfg \<noteq> []) CapabilityNginxAction
     @ announce (cfg_allowNginxConfigRead cfg) CapabilityNginxConfigRead
     @ announce (cfg_allowNginxConfigWrite cfg) CapabilityNginxConfigWrite
     @ announce (cfg_allowPHPConfigRead cfg) CapabilityPHPRead
     @ announce (cfg_allowPHPConfigWrite cfg) CapabilityPHPWrite
     @ announce (cfg_allowedPHPActions cfg \<noteq> []) CapabilityPHPAction
     @ announce (cfg_allowPM2Read cfg) CapabilityPM2Read
     @ announce (cfg_allowedPM2Actions cfg \<noteq> []) CapabilityPM2Action
     @ announce (cfg_allowCronRead cfg) CapabilityCronRead
     @ announce (cfg_allowCronWrite cfg) CapabilityCronWrite
     @ announce (cfg_allowCronRun cfg) CapabilityCronRun
     @ announce (cfg_allowFirewallRead cfg) CapabilityFirewallRead
     @ announce (cfg_allowFirewallWrite cfg) CapabilityFirewallWrite
     @ announce (cfg_allowDomainRead cfg) CapabilityDomainRead
     @ announce (cfg_allowDomainActions cfg) CapabilityDomainAction
     @ announce (cfg_allowSSLRead cfg) CapabilitySSLRead
     @ announce (cfg_allowSSLActions cfg) CapabilitySSLAction
     @ announce (cfg_allowDatabaseRead cfg) CapabilityDatabaseRead
     @ announce (cfg_allowedDatabaseRestarts cfg \<noteq> []) CapabilityDatabaseAction
     @ announce (cfg_allowBackupRead cfg) CapabilityBackupRead
     @ announce (cfg_allowBackupRun cfg) CapabilityBackupRun
     @ announce (cfg_fileReadRoots cfg \<noteq> []) CapabilityFilesRead
     @ announce (cfg_fileWriteRoots cfg \<noteq> []) CapabilityFilesWrite
     @ announce (cfg_allowDeployRead cfg) CapabilityDeployRead
     @ announce (cfg_allowDeployActions cfg) CapabilityDeployAction
     @ announce (cfg_allowDeployDomainRead cfg) CapabilityDeployDomainRead
     @ announce (cfg_allowDeployDomainActions cfg) CapabilityDeployDomainAction
     @ announce (cfg_allowAgentUpdateRead cfg) CapabilityAgentUpdateRead
     @ announce (cfg_allowAgentUpdateActions cfg) CapabilityAgentUpdateAction
     @ announce profileReady CapabilityProfileApply
     @ [CapabilityIntegrationStatus, CapabilityMetricsRead]"

definition profileApplyReady :: "config \<Rightarrow> ('e, bool) io" where
  "profileApplyReady cfg =
     seqIO (regularExecutable (cfg_agentLifecycleInstaller cfg)) (\<lambda>b.
       if b then regularExecutable (cfg_systemdRunBinary cfg) else ret False)"

definition attachProfileObservation :: "AgentProfileObservation \<Rightarrow> HeartbeatRequest \<Rightarrow> HeartbeatRequest" where
  "attachProfileObservation ob request =
     request\<lparr>hb_Profile := Some \<lparr>obs_State = obs_State ob, obs_Revision = obs_Revision ob, obs_ErrorCode = obs_ErrorCode ob\<rparr>\<rparr>"

text \<open>
  The heartbeat of a cycle, from the collected inventory and the clock. The readiness of the profile
  controller is asked for twice, for the capabilities and for the observation.
\<close>

definition heartbeatRequest ::
  "config \<Rightarrow> string \<Rightarrow> string \<Rightarrow> Inventory \<Rightarrow> go_time \<Rightarrow> profileApplyController \<Rightarrow> ('e, HeartbeatRequest) io" where
  "heartbeatRequest cfg agentVersion hostname collected now profileApply =
     seqIO (profileApplyReady cfg) (\<lambda>r.
       let hb = \<lparr>hb_ProtocolVersion = ProtocolVersion, hb_NodeID = cfg_nodeID cfg, hb_AgentVersion = agentVersion,
                 hb_Capabilities = advertisedCapabilities r cfg, hb_Hostname = hostname, hb_SentAt = now,
                 hb_Inventory = collected\<lparr>inv_LogSources := configuredLogSources (cfg_allowedLogSources cfg),
                                    inv_FileReadRoots := fst (configuredManagedFileRoots cfg),
                                    inv_FileWriteRoots := snd (configuredManagedFileRoots cfg)\<rparr>,
                 hb_Profile = None\<rparr> in
       seqIO (profileApplyReady cfg) (\<lambda>r.
         if r then seqIO (observation profileApply) (\<lambda>ob. ret (attachProfileObservation ob hb))
         else ret hb))"

text \<open>The connection to the hub: what the methods of \<^verbatim>\<open>agentClient\<close> do to the rest of the world.\<close>

record 's agentClient =
  cl_heartbeat :: "HeartbeatRequest \<Rightarrow> 's \<Rightarrow> bool \<times> 's"
  cl_poll :: "'s \<Rightarrow> (unit + Task option) \<times> 's"
  cl_report :: "int \<Rightarrow> TaskResultRequest \<Rightarrow> 's \<Rightarrow> bool \<times> 's"

text \<open>A cycle with its heartbeat: a heartbeat that fails does not keep the agent from polling.\<close>

definition runCycle :: "'s agentClient \<Rightarrow> (Task \<Rightarrow> 's \<Rightarrow> TaskResultRequest \<times> 's) \<Rightarrow> HeartbeatRequest \<Rightarrow> 's \<Rightarrow> 's" where
  "runCycle client executor heartbeat s =
     (let s1 = snd (cl_heartbeat client heartbeat s) in
      case cl_poll client s1 of
        (Inl _, s2) \<Rightarrow> s2
      | (Inr None, s2) \<Rightarrow> s2
      | (Inr (Some task), s2) \<Rightarrow>
          (case executor task s2 of (result, s3) \<Rightarrow> snd (cl_report client (task_ID task) result s3)))"

end
