(* ===== verification/AgentFirewallProps.thy ===== *)
theory AgentFirewallProps
  imports AgentFirewall
begin

text \<open>
  The firewall controller: which commands it issues, whatever the host answers. A host is given a
  log of its commands, and what a step adds to the log is read off its composition.
\<close>

section \<open>The log of a host\<close>

type_synonym command = "string \<times> string list"

definition logged :: "'s host \<Rightarrow> (command list \<times> 's) host" where
  "logged h =
     \<lparr>ho_Run = (\<lambda>name args (log, s). case ho_Run h name args s of (r, s') \<Rightarrow> (r, log @ [(name, args)], s')),
      ho_Lock = (\<lambda>path (log, s). case ho_Lock h path s of (r, s') \<Rightarrow> (r, log, s')),
      ho_Rand = (\<lambda>n (log, s). case ho_Rand h n s of (r, s') \<Rightarrow> (r, log, s'))\<rparr>"

text \<open>The commands that a step of a logged host issues, and its result.\<close>

definition issued :: "(command list \<times> 's, 'a) act \<Rightarrow> 's \<Rightarrow> command list" where
  "issued m s = fst (snd (m ([], s)))"

definition result :: "(command list \<times> 's, 'a) act \<Rightarrow> 's \<Rightarrow> go_error + 'a" where
  "result m s = fst (m ([], s))"

definition after :: "(command list \<times> 's, 'a) act \<Rightarrow> 's \<Rightarrow> 's" where
  "after m s = snd (snd (m ([], s)))"

text \<open>A step that only adds to the log.\<close>

definition extends :: "(command list \<times> 's, 'a) act \<Rightarrow> bool" where
  "extends m = (\<forall>log s. m (log, s) = (result m s, log @ issued m s, after m s))"

lemma extendsI:
  assumes "\<And>log s. m (log, s) = (r s, log @ cs s, a s)"
  shows "extends m"
  using assms by (simp add: extends_def result_def issued_def after_def)

lemma extends_give [intro!]: "extends (give x)"
  by (rule extendsI [where cs = "\<lambda>_. []"]) (simp add: give_def)

lemma extends_fail [intro!]: "extends (fail e)"
  by (rule extendsI [where cs = "\<lambda>_. []"]) (simp add: fail_def)

lemma logged_extends [intro!]:
  "extends (ho_Run (logged h) name args)" "extends (ho_Lock (logged h) path)" "extends (ho_Rand (logged h) n)"
  by (rule extendsI [where cs = "\<lambda>_. [(name, args)]" and r = "\<lambda>s. fst (ho_Run h name args s)" and a = "\<lambda>s. snd (ho_Run h name args s)"],
      simp add: logged_def split: prod.split)
     (rule extendsI [where cs = "\<lambda>_. []" and r = "\<lambda>s. fst (ho_Lock h path s)" and a = "\<lambda>s. snd (ho_Lock h path s)"],
      simp add: logged_def split: prod.split,
      rule extendsI [where cs = "\<lambda>_. []" and r = "\<lambda>s. fst (ho_Rand h n s)" and a = "\<lambda>s. snd (ho_Rand h n s)"],
      simp add: logged_def split: prod.split)

lemma extends_bindA [intro!]:
  assumes "extends m" "\<And>x. extends (f x)"
  shows "extends (bindA m f)"
proof (rule extendsI)
  fix log s
  show "bindA m f (log, s) =
      (case result m s of Inl e \<Rightarrow> Inl e | Inr x \<Rightarrow> result (f x) (after m s),
       log @ (issued m s @ (case result m s of Inl e \<Rightarrow> [] | Inr x \<Rightarrow> issued (f x) (after m s))),
       case result m s of Inl e \<Rightarrow> after m s | Inr x \<Rightarrow> after (f x) (after m s))"
    using assms by (auto simp: bindA_def extends_def split: sum.splits)
qed

lemma extends_tryA [intro!]: "extends m \<Longrightarrow> extends (tryA m)"
  by (rule extendsI [where cs = "issued m" and r = "\<lambda>s. Inr (result m s)" and a = "after m"])
     (simp add: tryA_def extends_def)

lemma extends_wrapA [intro!]: "extends m \<Longrightarrow> extends (wrapA text m)"
  by (rule extendsI [where cs = "issued m" and a = "after m"
        and r = "\<lambda>s. case result m s of Inl e \<Rightarrow> Inl (wrapErr text e) | Inr x \<Rightarrow> Inr x"])
     (simp add: wrapA_def extends_def split: sum.splits)

section \<open>Traces\<close>

text \<open>A condition on the result and the commands of a step, from every state of the host.\<close>

definition traces :: "(command list \<times> 's, 'a) act \<Rightarrow> (go_error + 'a \<Rightarrow> command list \<Rightarrow> bool) \<Rightarrow> bool" where
  "traces m Q = (extends m \<and> (\<forall>s. Q (result m s) (issued m s)))"

lemma tracesD: "traces m Q \<Longrightarrow> Q (result m s) (issued m s)"
  by (simp add: traces_def)

lemma traces_give: "Q (Inr x) [] \<Longrightarrow> traces (give x) Q"
  by (auto simp: traces_def) (simp add: give_def result_def issued_def)

lemma traces_fail: "Q (Inl e) [] \<Longrightarrow> traces (fail e) Q"
  by (auto simp: traces_def) (simp add: fail_def result_def issued_def)

lemma logged_issued [simp]:
  "issued (ho_Run (logged h) name args) s = [(name, args)]" "issued (ho_Lock (logged h) path) s = []"
  "issued (ho_Rand (logged h) n) s = []"
  "result (ho_Run (logged h) name args) s = fst (ho_Run h name args s)" "result (ho_Lock (logged h) path) s = fst (ho_Lock h path s)"
  "result (ho_Rand (logged h) n) s = fst (ho_Rand h n s)"
  by (simp_all add: issued_def result_def logged_def split: prod.split)

lemma traces_run: "(\<And>r. Q r [(name, args)]) \<Longrightarrow> traces (ho_Run (logged h) name args) Q"
  by (auto simp: traces_def)

lemma traces_lock: "(\<And>r. Q r []) \<Longrightarrow> traces (ho_Lock (logged h) path) Q"
  by (auto simp: traces_def)

lemma traces_rand: "(\<And>r. Q r []) \<Longrightarrow> traces (ho_Rand (logged h) n) Q"
  by (auto simp: traces_def)

lemma bindA_log:
  assumes "extends m"
  shows "result (bindA m f) s = (case result m s of Inl e \<Rightarrow> Inl e | Inr x \<Rightarrow> fst (f x (issued m s, after m s)))"
    "issued (bindA m f) s = (case result m s of Inl e \<Rightarrow> issued m s | Inr x \<Rightarrow> fst (snd (f x (issued m s, after m s))))"
proof -
  have "m ([], s) = (result m s, issued m s, after m s)" using assms by (simp add: extends_def)
  then show "result (bindA m f) s = (case result m s of Inl e \<Rightarrow> Inl e | Inr x \<Rightarrow> fst (f x (issued m s, after m s)))"
    "issued (bindA m f) s = (case result m s of Inl e \<Rightarrow> issued m s | Inr x \<Rightarrow> fst (snd (f x (issued m s, after m s))))"
    unfolding result_def [of "bindA m f"] issued_def [of "bindA m f"] bindA_def by (simp_all split: sum.split)
qed

lemma traces_bindA:
  assumes "traces m (\<lambda>r cs. case r of Inl e \<Rightarrow> Q (Inl e) cs | Inr x \<Rightarrow> traces (f x) (\<lambda>r' cs'. Q r' (cs @ cs')))"
    "\<And>x. extends (f x)"
  shows "traces (bindA m f) Q"
proof -
  have m: "extends m" using assms(1) by (simp add: traces_def)
  have "Q (result (bindA m f) s) (issued (bindA m f) s)" for s
  proof (cases "result m s")
    case (Inl e)
    then show ?thesis using tracesD [OF assms(1), of s] by (simp add: bindA_log [OF m])
  next
    case (Inr x)
    then have "traces (f x) (\<lambda>r' cs'. Q r' (issued m s @ cs'))" using tracesD [OF assms(1), of s] by simp
    from tracesD [OF this, of "after m s"] assms(2) [of x] Inr show ?thesis
      by (simp add: bindA_log [OF m] extends_def)
  qed
  then show ?thesis using m assms(2) by (auto simp: traces_def)
qed

lemma traces_tryA:
  assumes "traces m (\<lambda>r cs. Q (Inr r) cs)"
  shows "traces (tryA m) Q"
proof -
  have "result (tryA m) s = Inr (result m s)" "issued (tryA m) s = issued m s" for s
    by (auto simp: result_def issued_def tryA_def split: prod.splits)
  then show ?thesis using assms by (auto simp: traces_def)
qed

lemma traces_wrapA:
  assumes "traces m (\<lambda>r cs. Q (case r of Inl e \<Rightarrow> Inl (wrapErr text e) | Inr x \<Rightarrow> Inr x) cs)"
  shows "traces (wrapA text m) Q"
proof -
  have "result (wrapA text m) s = (case result m s of Inl e \<Rightarrow> Inl (wrapErr text e) | Inr x \<Rightarrow> Inr x)"
    "issued (wrapA text m) s = issued m s" for s
    by (auto simp: result_def issued_def wrapA_def split: prod.splits sum.splits)
  then show ?thesis using assms by (auto simp: traces_def)
qed

lemma traces_mono: "traces m Q \<Longrightarrow> (\<And>r cs. Q r cs \<Longrightarrow> Q' r cs) \<Longrightarrow> traces m Q'"
  by (auto simp: traces_def)

lemmas traces_intros = traces_give traces_fail traces_run traces_lock traces_rand traces_bindA traces_tryA traces_wrapA

section \<open>The operations only add to the log\<close>

lemma extends_managedLines [intro!]: "extends (managedLines (logged h) c)"
  unfolding managedLines_def by (auto split: sum.split)

lemma extends_saveOrUndo [intro!]: "extends (saveOrUndo (logged h) c undo)"
  unfolding saveOrUndo_def by (auto split: sum.split)

lemma extends_attachChain [intro!]: "extends (attachChain (logged h) c)"
  unfolding attachChain_def by (auto split: sum.split)

lemma extends_addLocked [intro!]: "extends (addLocked (logged h) c rule expected)"
  unfolding addLocked_def by (auto split: prod.split)

lemma extends_deleteLocked [intro!]: "extends (deleteLocked (logged h) c i expected)"
  unfolding deleteLocked_def by (auto split: prod.split sum.split option.split)

lemma extends_operations [intro!]:
  "extends (Add (logged h) c rule expected)" "extends (Delete (logged h) c i expected)"
  unfolding Add_def Delete_def withMutationLock_def newFirewallID_def by (auto split: sum.split)

section \<open>Committed or taken back\<close>

text \<open>A command that leaves the rules of the managed chain alone.\<close>

definition quiet :: "command \<Rightarrow> bool" where
  "quiet cmd = (take 2 (snd cmd) \<notin> {[''-A'', firewallManagedChain], [''-D'', firewallManagedChain], [''-I'', firewallManagedChain]})"

text \<open>The command that undoes a change of the chain, and what a whole operation may issue.\<close>

inductive undoes :: "command \<Rightarrow> command \<Rightarrow> bool" where
  appended: "undoes (ipt, [''-D'', firewallManagedChain] @ spec) (ipt, [''-A'', firewallManagedChain] @ spec)"
| deleted: "undoes (ipt, [''-I'', firewallManagedChain, position] @ spec) (ipt, [''-D'', firewallManagedChain] @ spec)"

inductive atomic :: "string \<Rightarrow> bool \<Rightarrow> command list \<Rightarrow> bool" where
  saved: "list_all quiet pre \<Longrightarrow> atomic save True (pre @ [change, (save, [''save''])])"
| untouched: "list_all quiet cs \<Longrightarrow> atomic save False cs"
| refused: "list_all quiet pre \<Longrightarrow> atomic save False (pre @ [change])"
| undone: "list_all quiet pre \<Longrightarrow> undoes undo change \<Longrightarrow> atomic save False (pre @ [change, (save, [''save'']), undo])"

lemma atomic_pre: "atomic save b cs \<Longrightarrow> list_all quiet pre \<Longrightarrow> atomic save b (pre @ cs)"
proof (induction rule: atomic.induct)
  case (saved p save change)
  then show ?case using atomic.saved [of "pre @ p" save change] by simp
next
  case (undone p undo change save)
  then show ?case using atomic.undone [of "pre @ p" undo change save] by simp
next
  case (refused p save change)
  then show ?case using atomic.refused [of "pre @ p" save change] by simp
qed (simp add: untouched)

lemmas atomic_changes = saved [of "[]", simplified] refused [of "[]", simplified] undone [of "[]", simplified]

lemma quiet_simps [simp]:
  "quiet (n, [''-S'', x])" "quiet (n, [''-N'', x])" "quiet (n, [''-C'', x, y, z])" "quiet (n, [''-I'', ''INPUT'', x, y, z])"
  by (simp_all add: quiet_def firewallManagedChain_def)

lemma traces_managedLines: "(\<And>x. Q (Inr x) [(fc_iptables c, [''-S'', firewallManagedChain])]) \<Longrightarrow> traces (managedLines (logged h) c) Q"
  unfolding managedLines_def by (auto intro!: traces_intros split: sum.split)

lemma traces_attachChain:
  assumes "\<And>r cs. list_all quiet cs \<Longrightarrow> Q r cs"
  shows "traces (attachChain (logged h) c) Q"
  unfolding attachChain_def by (auto intro!: traces_intros assms split: sum.split)

lemma traces_saveOrUndo:
  assumes "undoes (fc_iptables c, undo) change"
  shows "traces (saveOrUndo (logged h) c undo) (\<lambda>r cs. atomic (fc_saveBinary c) (is_ok r) (change # cs))"
  unfolding saveOrUndo_def using assms
  by (auto intro!: traces_intros simp: atomic_changes split: sum.split)

lemma traces_addLocked: "traces (addLocked (logged h) c rule expected) (\<lambda>r cs. atomic (fc_saveBinary c) (is_ok r) cs)"
proof -
  let ?args = "firewallAppendArgs rule" and ?ipt = "fc_iptables c"
  have undo: "undoes (?ipt, [''-D'', firewallManagedChain] @ drop 2 ?args) (?ipt, ?args)"
    using appended [of ?ipt "drop 2 ?args"] by (simp add: firewallAppendArgs_def)
  have saveUndo: "traces (saveOrUndo (logged h) c ([''-D'', firewallManagedChain] @ drop 2 ?args))
      (\<lambda>r cs. atomic (fc_saveBinary c) (is_ok r) (pre @ (?ipt, ?args) # cs))" if "list_all quiet pre" for pre
    by (rule traces_mono [OF traces_saveOrUndo [OF undo]]) (rule atomic_pre [OF _ that])
  have change: "traces (bindA (wrapA ''append managed firewall rule: '' (ho_Run (logged h) ?ipt ?args)) (\<lambda>_. saveOrUndo (logged h) c ([''-D'', firewallManagedChain] @ drop 2 ?args)))
      (\<lambda>r cs. atomic (fc_saveBinary c) (is_ok r) (pre @ cs))" if "list_all quiet pre" for pre
    using saveUndo [OF that] that
    by (auto intro!: traces_bindA traces_wrapA traces_run refused split: sum.split)
  show ?thesis
    unfolding addLocked_def
    by (auto intro!: traces_bindA traces_managedLines traces_attachChain traces_wrapA traces_run traces_give traces_fail change
        simp: untouched append_assoc [symmetric] simp del: append_assoc append.append_Cons split: prod.split sum.split)
qed

lemma findRule_target:
  "findRule i position lines = Some (target, k) \<Longrightarrow> ''-D'' # tl target = [''-D'', firewallManagedChain] @ drop 2 target"
proof (induction lines arbitrary: position)
  case (Cons line lines)
  have "xs = xs ! 0 # xs ! 1 # drop 2 xs" if "2 \<le> length xs" for xs :: "string list"
    using that by (cases xs; cases "tl xs") auto
  from this [of "Fields line"] Cons show ?case by (auto simp: Let_def not_less split: if_splits) (metis list.sel(3))
qed simp

lemma traces_deleteLocked: "traces (deleteLocked (logged h) c i expected) (\<lambda>r cs. atomic (fc_saveBinary c) (is_ok r) cs)"
proof -
  let ?ipt = "fc_iptables c"
  have change: "traces (bindA (wrapA ''delete managed firewall rule: '' (ho_Run (logged h) ?ipt (''-D'' # tl target)))
        (\<lambda>_. saveOrUndo (logged h) c ([''-I'', firewallManagedChain, dec_str position] @ drop 2 target)))
      (\<lambda>r cs. atomic (fc_saveBinary c) (is_ok r) (pre @ cs))"
    if "list_all quiet pre" "findRule i 0 lines = Some (target, position)" for pre lines target position
  proof -
    have undo: "undoes (?ipt, [''-I'', firewallManagedChain, dec_str position] @ drop 2 target) (?ipt, ''-D'' # tl target)"
      unfolding findRule_target [OF that(2)] by (rule deleted)
    have "traces (saveOrUndo (logged h) c ([''-I'', firewallManagedChain, dec_str position] @ drop 2 target))
        (\<lambda>r cs. atomic (fc_saveBinary c) (is_ok r) (pre @ (?ipt, ''-D'' # tl target) # cs))"
      by (rule traces_mono [OF traces_saveOrUndo [OF undo]]) (rule atomic_pre [OF _ that(1)])
    with that(1) show ?thesis by (auto intro!: traces_bindA traces_wrapA traces_run refused split: sum.split)
  qed
  show ?thesis
    unfolding deleteLocked_def
    by (auto intro!: traces_bindA traces_managedLines traces_tryA traces_run traces_fail change
        simp: untouched append_assoc [symmetric] simp del: append_assoc append.append_Cons split: prod.split sum.split option.split)
qed


section \<open>Rules as words\<close>

definition netChar :: "char \<Rightarrow> bool" where
  "netChar c = (lower_hex c \<or> c = CHR ''.'' \<or> c = CHR '':'' \<or> c = CHR 0x2F)"

text \<open>A character of a word that is not trimmed as a quote.\<close>

definition tame :: "char \<Rightarrow> bool" where
  "tame c = (word_char c \<and> c \<noteq> DQ \<and> c \<noteq> CHR 0x27)"

lemma tame_ascii: "40 \<le> byte c \<Longrightarrow> byte c < 0x7F \<Longrightarrow> tame c"
  by (auto simp: tame_def word_char_def IsSpace_def space_runes_def)

lemma netChar_tame: "netChar c \<Longrightarrow> tame c" "netChar c \<Longrightarrow> c \<noteq> CHR ''-''"
  by (auto simp: netChar_def lower_hex_def asciiDigit_def intro!: tame_ascii)

lemma netChar_words: "list_all netChar w \<Longrightarrow> list_all tame w \<and> (\<forall>k. w \<noteq> CHR ''-'' # k)"
  using netChar_tame(2) [of "CHR ''-''"] by (auto simp: list_all_iff netChar_tame(1))

lemma url_safe_tame: "url_safe c \<Longrightarrow> tame c"
  by (rule tame_ascii) (auto simp: url_safe_def asciiLetter_def asciiDigit_def)

lemma Trim_tame: "list_all tame s \<Longrightarrow> Trim s [DQ, CHR 0x27] = s"
  by (rule Trim_id) (auto simp: list_all_iff tame_def)

lemma netChar_join: "list_all (list_all netChar) ws \<Longrightarrow> netChar sep \<Longrightarrow> list_all netChar (join_with sep ws)"
  by (induction ws rule: induct_list012) auto

lemma netChar_dec: "list_all netChar (dec_str n)"
  using dec_str_no(1) [of _ n] by (auto simp: list_all_iff netChar_def lower_hex_def)

lemma netChar_hex: "list_all netChar (hex_str n)"
proof (induction n rule: hex_str.induct)
  case (1 n)
  have "netChar (hex_digit k)" if "k < 16" for k using hex_digit_lower [OF that] by (simp add: netChar_def)
  with 1 show ?case by (subst hex_str.simps) simp
qed

lemma IPString_chars: "list_all netChar (IPString ip)"
proof -
  have sep: "netChar (CHR ''.'')" "netChar (CHR '':'')" by (simp_all add: netChar_def)
  have v4: "list_all netChar (ipv4_string v)" for v
    unfolding ipv4_string_def by (rule netChar_join) (auto simp: list_all_iff sep netChar_dec [unfolded list_all_iff])
  have hex: "list_all netChar (join_with (CHR '':'') (map hex_str gs))" for gs
    by (rule netChar_join) (auto simp: list_all_iff sep netChar_hex [unfolded list_all_iff])
  show ?thesis using v4 hex sep by (auto simp: IPString_def ipv6_string_def Let_def split: option.splits prod.splits)
qed

lemma normalized_source:
  assumes "normalizeIPv4Network raw = Some src"
  shows "list_all netChar src \<and> src \<noteq> []"
proof -
  have tail: "list_all netChar ''/32''" by (simp add: netChar_def lower_hex_def asciiDigit_def)
  show ?thesis
    using assms IPString_chars tail netChar_dec
    by (auto simp: normalizeIPv4Network_def IPNetString_def netChar_def [of "CHR 0x2F"] split: option.splits prod.splits if_splits)
qed

lemma normalized_rule:
  assumes "normalizeFirewallRule raw = Inr rule"
  shows "list_all netChar (fw_Source rule)" "fw_Source rule \<noteq> []" "fw_Action rule = ''ACCEPT'' \<or> fw_Action rule = ''DROP''"
    "fw_Protocol rule = ''all'' \<or> fw_Protocol rule = ''tcp'' \<or> fw_Protocol rule = ''udp''"
    "0 \<le> fw_Port rule" "fw_Port rule \<le> 65535" "rule_ID rule = rule_ID raw"
  using assms normalized_source
  by (auto simp: normalizeFirewallRule_def Let_def split: if_splits option.splits)

text \<open>The arguments of an appended rule are read back by their keys.\<close>

definition ruleComment :: "firewallRule \<Rightarrow> string" where
  "ruleComment rule = ''hserver:'' @ rule_ID rule @ '':'' @ rawurl_encode (fw_Comment rule)"

lemma firewall_id_chars:
  assumes "agentFirewallIDPattern i"
  shows "list_all tame i" "i \<noteq> []" "CHR '':'' \<notin> set i"
proof -
  have low: "lowerHexRune r \<Longrightarrow> r < 0x80" for r by (auto simp: lowerHexRune_def)
  have "list_all lowerHexRune (runes (drop 3 i))" using assms by (simp add: agentFirewallIDPattern_def)
  then have hex: "list_all (\<lambda>c. lowerHexRune (byte c)) (drop 3 i)" using list_all_runes_ascii [OF low] by simp
  have p: "take 3 i = ''fw-''" using assms by (simp add: agentFirewallIDPattern_def HasPrefix_def numeral_3_eq_3)
  have i: "i = ''fw-'' @ drop 3 i" using append_take_drop_id [of 3 i] p by simp
  have "list_all tame (drop 3 i)"
    using hex by (auto simp: list_all_iff lowerHexRune_def intro!: tame_ascii)
  then show "list_all tame i" by (subst i) (simp add: tame_ascii)
  have "CHR '':'' \<notin> set (drop 3 i)" using hex by (auto simp: list_all_iff lowerHexRune_def)
  then show "CHR '':'' \<notin> set i" by (subst i) simp
  show "i \<noteq> []" using p by auto
qed

lemma ruleComment_tame: "list_all tame (rule_ID rule) \<Longrightarrow> list_all tame (ruleComment rule)"
  using rawurl_encode_safe [of "fw_Comment rule"]
  by (auto simp: ruleComment_def tame_ascii list_all_iff url_safe_tame)

lemma FormatInt_tame: "0 \<le> i \<Longrightarrow> list_all netChar (FormatInt i)"
  using netChar_dec by (simp add: FormatInt_def)

text \<open>A normalised rule that has been given an id.\<close>

definition goodRule :: "firewallRule \<Rightarrow> bool" where
  "goodRule rule =
     (list_all netChar (fw_Source rule) \<and> fw_Source rule \<noteq> [] \<and> fw_Action rule \<in> {''ACCEPT'', ''DROP''}
      \<and> fw_Protocol rule \<in> {''all'', ''tcp'', ''udp''} \<and> 0 \<le> fw_Port rule \<and> fw_Port rule \<le> 65535
      \<and> list_all tame (rule_ID rule))"

lemma goodRule_normalized:
  "normalizeFirewallRule raw = Inr rule \<Longrightarrow> list_all tame i \<Longrightarrow> goodRule (rule\<lparr>rule_ID := i\<rparr>)"
  using normalized_rule [of raw rule] by (auto simp: goodRule_def)

lemma appendArgs_keys:
  assumes "goodRule rule"
  shows "argAfter (firewallAppendArgs rule) ''-j'' = fw_Action rule"
    "argAfter (firewallAppendArgs rule) ''-s'' = (if fw_Source rule = ''0.0.0.0/0'' then [] else fw_Source rule)"
    "argAfter (firewallAppendArgs rule) ''-p'' = (if fw_Protocol rule = ''all'' then [] else fw_Protocol rule)"
    "argAfter (firewallAppendArgs rule) ''--dport'' = (if fw_Port rule = 0 then [] else FormatInt (fw_Port rule))"
    "argAfter (firewallAppendArgs rule) ''--comment'' = ruleComment rule"
proof -
  have dash: "w \<noteq> CHR ''-'' # k" "Trim w [DQ, CHR 0x27] = w" if "list_all netChar w" for w k
    using netChar_words [OF that] by (auto intro!: Trim_tame)
  note src = dash [of "fw_Source rule"] and port = dash [OF FormatInt_tame, of "fw_Port rule"]
  have good: "list_all netChar (fw_Source rule)" "fw_Action rule = ''ACCEPT'' \<or> fw_Action rule = ''DROP''"
    "fw_Protocol rule = ''all'' \<or> fw_Protocol rule = ''tcp'' \<or> fw_Protocol rule = ''udp''" "0 \<le> fw_Port rule"
    using assms by (auto simp: goodRule_def)
  have com: "Trim (''hserver:'' @ rule_ID rule @ '':'' @ rawurl_encode (fw_Comment rule)) [DQ, CHR 0x27] = ruleComment rule"
    using Trim_tame [OF ruleComment_tame, of rule] assms by (simp add: ruleComment_def goodRule_def)
  have words: "Trim w [DQ, CHR 0x27] = w" if "w \<in> {''ACCEPT'', ''DROP'', ''tcp'', ''udp''}" for w
    using that by (auto intro!: Trim_tame tame_ascii)
  have act: "Trim (fw_Action rule) [DQ, CHR 0x27] = fw_Action rule" using good(2) words by auto
  show "argAfter (firewallAppendArgs rule) ''-j'' = fw_Action rule"
    using src port good act by (auto simp: firewallAppendArgs_def firewallManagedChain_def)
  show "argAfter (firewallAppendArgs rule) ''-s'' = (if fw_Source rule = ''0.0.0.0/0'' then [] else fw_Source rule)"
    using src port good by (auto simp: firewallAppendArgs_def firewallManagedChain_def)
  show "argAfter (firewallAppendArgs rule) ''-p'' = (if fw_Protocol rule = ''all'' then [] else fw_Protocol rule)"
    using src port good words by (auto simp: firewallAppendArgs_def firewallManagedChain_def)
  show "argAfter (firewallAppendArgs rule) ''--dport'' = (if fw_Port rule = 0 then [] else FormatInt (fw_Port rule))"
    using src port good by (auto simp: firewallAppendArgs_def firewallManagedChain_def)
  show "argAfter (firewallAppendArgs rule) ''--comment'' = ruleComment rule"
    using src port good com by (auto simp: firewallAppendArgs_def firewallManagedChain_def)
qed

lemma literal_words:
  "is_word ''-A''" "is_word firewallManagedChain" "is_word ''-s''" "is_word ''-p''" "is_word ''--dport''" "is_word ''-m''"
  "is_word ''comment''" "is_word ''--comment''" "is_word ''-j''" "is_word ''ACCEPT''" "is_word ''DROP''" "is_word ''tcp''" "is_word ''udp''"
  "is_word ''all''"
  by (simp_all add: firewallManagedChain_def word_char_def IsSpace_def space_runes_def)

lemma tame_words: "list_all tame w \<Longrightarrow> list_all word_char w"
  by (auto simp: list_all_iff tame_def)

lemma goodRule_words:
  assumes "goodRule rule"
  shows "is_word (fw_Source rule)" "is_word (FormatInt (fw_Port rule))" "is_word (fw_Action rule)" "is_word (fw_Protocol rule)"
    "is_word (ruleComment rule)"
proof -
  show "is_word (fw_Source rule)" "is_word (FormatInt (fw_Port rule))"
    using assms FormatInt_tame [of "fw_Port rule"] netChar_words valid_num_ne [OF valid_num_FormatInt]
    by (simp_all add: goodRule_def tame_words)
  have "fw_Action rule \<in> {''ACCEPT'', ''DROP''}" "fw_Protocol rule \<in> {''all'', ''tcp'', ''udp''}"
    using assms by (simp_all add: goodRule_def)
  then show "is_word (fw_Action rule)" "is_word (fw_Protocol rule)"
    using literal_words by (metis insertE singletonD)+
  show "is_word (ruleComment rule)" using assms by (simp add: tame_words ruleComment_tame goodRule_def) (simp add: ruleComment_def)
qed

lemma appendArgs_words:
  assumes "goodRule rule"
  shows "list_all is_word (firewallAppendArgs rule)"
proof -
  have "\<forall>w \<in> set (firewallAppendArgs rule). is_word w"
    using literal_words goodRule_words [OF assms, unfolded ruleComment_def] unfolding firewallAppendArgs_def
    by (simp only: set_append set_simps ball_Un ball_simps simp_thms split: if_split)
  then show ?thesis by (simp only: list_all_iff)
qed

section \<open>What is appended is listed\<close>

text \<open>
  A rule that the agent appends is read back from the chain as it was: from the line that holds
  its arguments, in any listing that keeps them as words, the inventory recovers the id, the action,
  protocol, port and source, and the comment byte for byte, whatever characters it has.
\<close>

theorem firewall_rule_roundtrip:
  assumes "normalizeFirewallRule raw = Inr rule" "agentFirewallIDPattern i"
  defines "line \<equiv> join_with (CHR '' '') (firewallAppendArgs (rule\<lparr>rule_ID := i\<rparr>))"
  shows "parseManagedFirewallRule line = Some (rule\<lparr>rule_ID := i, rule_Managed := True, rule_Raw := line\<rparr>)"
proof -
  let ?rule = "rule\<lparr>rule_ID := i\<rparr>"
  have good: "goodRule ?rule" using goodRule_normalized [OF assms(1) firewall_id_chars(1) [OF assms(2)]] .
  have args: "Fields line = firewallAppendArgs ?rule" unfolding line_def by (rule Fields_join [OF appendArgs_words [OF good]])
  have "CHR '':'' \<notin> set ''hserver''" "CHR '':'' \<notin> set i" using firewall_id_chars(3) [OF assms(2)] by simp_all
  then have parts: "SplitN (CHR '':'') 3 (ruleComment ?rule) = [''hserver'', i, rawurl_encode (fw_Comment rule)]"
    using SplitN_first [of "CHR '':''" "''hserver''" 1 "i @ CHR '':'' # rawurl_encode (fw_Comment rule)"]
      SplitN_first [of "CHR '':''" i 0 "rawurl_encode (fw_Comment rule)"]
    by (simp add: ruleComment_def numeral_3_eq_3)
  have port: "AtoiLoose (if fw_Port rule = 0 then [] else FormatInt (fw_Port rule)) = fw_Port rule"
  proof (cases "fw_Port rule = 0")
    case False
    then show ?thesis
      using good AtoiLoose_dec_str [of "nat (fw_Port rule)"] by (auto simp: goodRule_def FormatInt_def)
  qed (simp add: AtoiLoose_def)
  have dflt: "defaultString (if fw_Source rule = ''0.0.0.0/0'' then [] else fw_Source rule) ''0.0.0.0/0'' = fw_Source rule"
    "defaultString (if fw_Protocol rule = ''all'' then [] else fw_Protocol rule) ''all'' = fw_Protocol rule"
    using good by (auto simp: defaultString_def goodRule_def)
  have "parseManagedFirewallRule line =
      Some \<lparr>fw_Action = fw_Action rule, fw_Protocol = fw_Protocol rule, fw_Port = fw_Port rule, fw_Source = fw_Source rule,
            fw_Comment = fw_Comment rule, rule_ID = i, rule_Managed = True, rule_Raw = line\<rparr>"
    using assms(2)
    by (simp add: parseManagedFirewallRule_def args appendArgs_keys [OF good] parts port dflt rawurl_roundtrip Let_def cong: if_cong split del: if_split)
  also have "\<dots> = Some (rule\<lparr>rule_ID := i, rule_Managed := True, rule_Raw := line\<rparr>)" by (cases rule) simp
  finally show ?thesis .
qed

section \<open>Protected paths\<close>

text \<open>
  Whether a rule given as arguments drops a TCP or UDP packet from an IPv4 address to a port: the
  options \<^verbatim>\<open>-s\<close> and \<^verbatim>\<open>--dport\<close> restrict it where they are present.
\<close>

definition dropsPacket :: "string list \<Rightarrow> nat list \<Rightarrow> int \<Rightarrow> bool" where
  "dropsPacket args a port =
     (argAfter args ''-j'' = ''DROP''
      \<and> (argAfter args ''-s'' = [] \<or> (\<exists>ip net. ParseCIDRNet (argAfter args ''-s'') = Some (ip, net) \<and> Contains net a))
      \<and> (argAfter args ''--dport'' = [] \<or> argAfter args ''--dport'' = FormatInt port))"

lemma any_source: "length a = 4 \<Longrightarrow> \<exists>ip net. ParseCIDRNet ''0.0.0.0/0'' = Some (ip, net) \<and> Contains net a"
proof -
  assume "length a = 4"
  then obtain w x y z where a: "a = [w, x, y, z]" by (auto simp: numeral_eq_Suc length_Suc_conv)
  have t: "''0.0.0.0/0'' = ipv4_string [0, 0, 0, 0] @ ''/'' @ dec_str 0" by code_simp
  have m: "CIDRMask 0 32 = [0, 0, 0, 0]" by code_simp
  show ?thesis
    unfolding t by (subst ParseCIDRNet_v4) (auto simp: a m Contains_def networkNumberAndMask_def and_bytes_def ip4_def)
qed

lemma dropsPacket_undo:
  "dropsPacket ([''-D'', firewallManagedChain] @ drop 2 (firewallAppendArgs rule)) a port = dropsPacket (firewallAppendArgs rule) a port"
proof -
  obtain r where r: "firewallAppendArgs rule = ''-A'' # firewallManagedChain # r" by (simp add: firewallAppendArgs_def)
  have "argAfter (''-D'' # firewallManagedChain # r) key = argAfter (''-A'' # firewallManagedChain # r) key"
    if "key \<in> {''-j'', ''-s'', ''--dport''}" for key
    using that by auto
  then show ?thesis unfolding r by (simp add: dropsPacket_def numeral_2_eq_2 del: argAfter.simps)
qed

lemma protected_not_dropped:
  assumes "goodRule rule" "\<not> blocksProtectedPath c rule" "net \<in> set (fc_protectedSources c)" "port \<in> fc_protectedPorts c"
    "ParseCIDRNet source = Some (ip, net)" "length a = 4" "Contains net a"
  shows "\<not> dropsPacket (firewallAppendArgs rule) a port"
proof
  assume d: "dropsPacket (firewallAppendArgs rule) a port"
  note keys = appendArgs_keys [OF assms(1)]
  have drop: "fw_Action rule = ''DROP''" using d by (simp add: dropsPacket_def keys)
  have "FormatInt (fw_Port rule) \<noteq> []" using valid_num_ne [OF valid_num_FormatInt] .
  then have hit: "fw_Port rule = 0 \<or> fw_Port rule = port"
    using d FormatInt_inj by (auto simp: dropsPacket_def keys split: if_splits)
  obtain ip' net' where src: "ParseCIDRNet (fw_Source rule) = Some (ip', net')" "Contains net' a"
    using d any_source [OF assms(6)] assms(1) by (auto simp: dropsPacket_def keys goodRule_def split: if_splits)
  have "networksOverlap net' net"
    using shared_address_nested [OF src(1) assms(5,6) src(2) assms(7)] by (simp add: networksOverlap_def)
  then have "blocksProtectedPath c rule"
    using drop hit src(1) assms(3,4) by (auto simp: blocksProtectedPath_def list_ex_iff)
  then show False using assms(2) by contradiction
qed

definition spares :: "nat list \<Rightarrow> int \<Rightarrow> command \<Rightarrow> bool" where
  "spares a port cmd = (\<not> dropsPacket (snd cmd) a port)"

lemma spares_simps [simp]:
  "spares a port (n, [''-S'', x])" "spares a port (n, [''-N'', x])" "spares a port (n, [''-C'', ''INPUT'', ''-j'', firewallManagedChain])"
  "spares a port (n, [''-I'', ''INPUT'', ''1'', ''-j'', firewallManagedChain])" "spares a port (n, [''save''])"
  by (simp_all add: spares_def dropsPacket_def firewallManagedChain_def Trim_def)

lemma traces_add_spares:
  assumes "\<not> dropsPacket (firewallAppendArgs rule) a port"
  shows "traces (addLocked (logged h) c rule expected) (\<lambda>_ cs. list_all (spares a port) cs)"
proof -
  have cmds: "spares a port (n, firewallAppendArgs rule)" "spares a port (n, [''-D'', firewallManagedChain] @ drop 2 (firewallAppendArgs rule))" for n
    using assms dropsPacket_undo [of rule a port] by (simp_all only: spares_def snd_conv simp_thms)
  show ?thesis
    unfolding addLocked_def attachChain_def saveOrUndo_def
    using cmds by (auto intro!: traces_intros traces_managedLines split: prod.split sum.split)
qed

lemma firewallProtects:
  assumes "source \<in> set sources" "ParseCIDRNet source = Some (ip, net)" "Contains net a" "length a = 4" "port \<in> ports"
    "c = newFirewallController allowRead allowWrite iptables save lock svc sources ports"
    "(name, args) \<in> set (issued (Add (logged h) c rule expected) s)"
  shows "\<not> dropsPacket args a port"
proof -
  obtain nn m where num: "networkNumberAndMask net = (nn, m)" "length nn = 4"
    using assms(3,4) by (auto simp: contains_v4 split: prod.splits)
  then have "ip4 (net_IP net) \<noteq> None" by (auto simp: networkNumberAndMask_def Let_def ip4_def split: option.splits)
  then have "net \<in> set (fc_protectedSources c)"
    using assms(1,2) by (auto simp: assms(6) newFirewallController_def protectedNetwork_def List.map_filter_def intro!: rev_image_eqI)
  note safe = protected_not_dropped [OF _ _ this _ assms(2,4,3)]
  have "port \<in> fc_protectedPorts c" using assms(5,6) by (simp add: newFirewallController_def)
  have tame_id: "list_all tame (''fw-'' @ hex_encode raw)" for raw
    using hex_encode_lower [of raw] by (auto simp: tame_ascii list_all_iff netChar_def netChar_tame)
  have "blocksProtectedPath c (x\<lparr>rule_ID := i\<rparr>) = blocksProtectedPath c x" for x i by (simp add: blocksProtectedPath_def)
  then have "\<not> dropsPacket (firewallAppendArgs (x\<lparr>rule_ID := ''fw-'' @ hex_encode raw\<rparr>)) a port"
    if "normalizeFirewallRule r = Inr x" "\<not> blocksProtectedPath c x" for r x raw
    using safe [OF goodRule_normalized [OF that(1) tame_id]] that(2) \<open>port \<in> fc_protectedPorts c\<close> by blast
  then have "traces (Add (logged h) c rule expected) (\<lambda>_ cs. list_all (spares a port) cs)"
    unfolding Add_def newFirewallID_def withMutationLock_def
    by (auto intro!: traces_bindA traces_fail traces_rand traces_lock traces_give traces_mono [OF traces_add_spares] split: sum.split) blast
  then show ?thesis using assms(7) by (fastforce simp: traces_def list_all_iff spares_def)
qed

text \<open>
  C18. The agent never issues a command that cuts off a protected management path: with the sources and
  ports that the node configuration protects, no command of an \<^verbatim>\<open>Add\<close>, whatever rule is requested and
  whatever the host answers, carries a rule that drops packets from an address in a protected
  network to a protected port.
\<close>

theorem firewall_protects_management:
  assumes "source \<in> set sources" "ParseCIDRNet source = Some (ip, net)" "Contains net a" "length a = 4" "port \<in> ports"
    "c = newFirewallController allowRead allowWrite iptables save lock svc sources ports"
    "(name, args) \<in> set (issued (Add (logged h) c rule expected) s)"
  shows "\<not> dropsPacket args a port"
  using assms by (rule firewallProtects)

section \<open>Stale requests\<close>

text \<open>The lines that the controller takes for the rules of the chain, in a state of the host.\<close>

definition listing :: "'s host \<Rightarrow> firewallController \<Rightarrow> 's \<Rightarrow> string list" where
  "listing h c s =
     (case fst (ho_Run h (fc_iptables c) [''-S'', firewallManagedChain] s) of
        Inl _ \<Rightarrow> []
      | Inr output \<Rightarrow> filter managedLine (map TrimSpace (split_on (CHR 0x0A) output)))"

lemma managedLines_logged:
  "managedLines (logged h) c (l, s) =
     (Inr (listing h c s, is_ok (fst (ho_Run h (fc_iptables c) [''-S'', firewallManagedChain] s))),
      l @ [(fc_iptables c, [''-S'', firewallManagedChain])], snd (ho_Run h (fc_iptables c) [''-S'', firewallManagedChain] s))"
  by (simp add: managedLines_def listing_def bindA_def tryA_def give_def logged_def split: prod.split sum.split)

text \<open>
  A change against a revision that is not the current one is refused, and changes nothing: when the
  rules that the chain has after the lock is taken do not have the expected revision, neither \<^verbatim>\<open>Add\<close> nor
  \<^verbatim>\<open>Delete\<close> succeeds, and the only command that either issues is the listing of the chain.
\<close>

theorem stale_firewall_change_refused:
  assumes "\<not> currentRevision (listing h c (snd (ho_Lock h (fc_lockPath c) (snd (ho_Rand h 6 s))))) expected"
    "\<not> currentRevision (listing h c (snd (ho_Lock h (fc_lockPath c) s'))) expected'"
  shows "\<not> is_ok (result (Add (logged h) c rule expected) s) \<and> \<not> is_ok (result (Delete (logged h) c i expected') s')
    \<and> set (issued (Add (logged h) c rule expected) s @ issued (Delete (logged h) c i expected') s')
        \<subseteq> {(fc_iptables c, [''-S'', firewallManagedChain])}"
proof -
  have lock: "ho_Lock (logged h) path (l, s) = (fst (ho_Lock h path s), l, snd (ho_Lock h path s))"
    and rand: "ho_Rand (logged h) n (l, s) = (fst (ho_Rand h n s), l, snd (ho_Rand h n s))" for path n l s
    by (simp_all add: logged_def split: prod.split)
  have "addLocked (logged h) c r expected (l, s) = (Inl (firewallError errFirewallChanged), l @ [(fc_iptables c, [''-S'', firewallManagedChain])],
        snd (ho_Run h (fc_iptables c) [''-S'', firewallManagedChain] s))" if "\<not> currentRevision (listing h c s) expected" for r l s
    using that by (simp add: addLocked_def bindA_def managedLines_logged fail_def)
  moreover have "deleteLocked (logged h) c i expected' (l, s) = (Inl (firewallError errFirewallChanged), l @ [(fc_iptables c, [''-S'', firewallManagedChain])],
        snd (ho_Run h (fc_iptables c) [''-S'', firewallManagedChain] s))" if "\<not> currentRevision (listing h c s) expected'" for l s
    using that by (simp add: deleteLocked_def bindA_def managedLines_logged fail_def)
  ultimately show ?thesis
    using assms
    by (auto simp: result_def issued_def Add_def Delete_def withMutationLock_def newFirewallID_def bindA_def fail_def give_def lock rand
        split: sum.splits prod.splits if_splits)
qed

section \<open>Quoted comments\<close>

text \<open>The arguments of a rule as a listing gives them that puts the comment in double quotes.\<close>

definition quotedArgs :: "firewallRule \<Rightarrow> string list" where
  "quotedArgs rule =
     [''-A'', firewallManagedChain]
     @ (if fw_Source rule \<noteq> ''0.0.0.0/0'' then [''-s'', fw_Source rule] else [])
     @ (if fw_Protocol rule \<noteq> ''all'' then [''-p'', fw_Protocol rule] else [])
     @ (if fw_Port rule \<noteq> 0 then [''--dport'', FormatInt (fw_Port rule)] else [])
     @ [''-m'', ''comment'', ''--comment'', DQ # ruleComment rule @ [DQ], ''-j'', fw_Action rule]"

lemma TrimSpace_ends:
  assumes "s \<noteq> []" "byte (hd s) < 0x80" "\<not> asciiSpace (hd s)" "byte (last s) < 0x80" "\<not> asciiSpace (last s)"
  shows "TrimSpace s = s"
proof -
  have "trim_left s = s" using assms(1-3) by (cases s) (simp_all add: trim_left.simps [of "_ # _"] front_space_ascii)
  moreover have "trim_right s = s" using back_space_ascii [OF assms(1,4,5)] by (simp add: trim_right.simps [of s])
  ultimately show ?thesis by (simp add: TrimSpace_def)
qed

lemma Trim_quoted: "list_all tame w \<Longrightarrow> w \<noteq> [] \<Longrightarrow> Trim (DQ # w @ [DQ]) [DQ, CHR 0x27] = w"
proof -
  have id: "dropWhile (\<lambda>c. c \<in> set [DQ, CHR 0x27]) (t @ u) = t @ u" if "\<forall>c \<in> set t. tame c" "t \<noteq> []" for t u
    using that by (cases t) (auto simp: tame_def)
  show "list_all tame w \<Longrightarrow> w \<noteq> [] \<Longrightarrow> Trim (DQ # w @ [DQ]) [DQ, CHR 0x27] = w"
    using id [of w "[DQ]"] id [of "rev w" "[]"] by (simp add: Trim_def list_all_iff)
qed

lemma ruleComment_ne: "ruleComment rule \<noteq> []" "hd (ruleComment rule) = CHR ''h''"
  by (simp_all add: ruleComment_def)

lemma quotedArgs_comment:
  assumes "goodRule rule"
  shows "ruleComment rule \<notin> set (quotedArgs rule)"
proof -
  have head: "w \<noteq> ruleComment rule" if "hd w \<noteq> CHR ''h''" for w
    using that ruleComment_ne(2) [of rule] by blast
  have "hd w \<noteq> CHR ''h''" if "list_all netChar w" "w \<noteq> []" for w
    using that by (cases w) (auto simp: netChar_def lower_hex_def asciiDigit_def)
  then have "fw_Source rule \<noteq> ruleComment rule" "FormatInt (fw_Port rule) \<noteq> ruleComment rule"
    "fw_Protocol rule \<noteq> ruleComment rule" "fw_Action rule \<noteq> ruleComment rule"
    using assms FormatInt_tame [of "fw_Port rule"] valid_num_ne [OF valid_num_FormatInt, of "fw_Port rule"]
    by (auto simp: goodRule_def intro!: head)
  moreover have "w \<noteq> ruleComment rule" if "w \<in> {''-A'', firewallManagedChain, ''-s'', ''-p'', ''--dport'', ''-m'', ''comment'', ''--comment'', ''-j''}" for w
    using that by (intro head) (auto simp: firewallManagedChain_def)
  ultimately show ?thesis by (auto simp: quotedArgs_def)
qed

lemma quotedArgs_words:
  assumes "goodRule rule"
  shows "\<forall>w \<in> set (quotedArgs rule). is_word w"
proof -
  have "is_word (DQ # ruleComment rule @ [DQ])" using goodRule_words(5) [OF assms] by (simp add: word_char_def IsSpace_def space_runes_def)
  then show ?thesis
    using literal_words goodRule_words [OF assms] unfolding quotedArgs_def
    by (simp only: set_append set_simps ball_Un ball_simps simp_thms split: if_split)
qed

lemma quotedArgs_key:
  assumes "goodRule rule"
  shows "argAfter (quotedArgs rule) ''--comment'' = ruleComment rule"
proof -
  have "w \<noteq> ''--comment''" if "list_all netChar w" for w using netChar_words [OF that] by blast
  then have "fw_Source rule \<noteq> ''--comment''" "FormatInt (fw_Port rule) \<noteq> ''--comment''" "fw_Protocol rule \<noteq> ''--comment''"
    using assms FormatInt_tame [of "fw_Port rule"] by (auto simp: goodRule_def)
  moreover have "Trim (DQ # ruleComment rule @ [DQ]) [DQ, CHR 0x27] = ruleComment rule"
    using assms by (simp add: Trim_quoted ruleComment_tame ruleComment_ne goodRule_def)
  ultimately show ?thesis by (simp add: quotedArgs_def firewallManagedChain_def)
qed

definition chainListing :: "string list \<Rightarrow> string" where
  "chainListing args = ''-N HSERVER-INPUT'' @ [CHR 0x0A] @ join_with (CHR '' '') args @ [CHR 0x0A]"

lemma join_last: "ws \<noteq> [] \<Longrightarrow> last ws \<noteq> [] \<Longrightarrow> join_with sep ws \<noteq> [] \<and> last (join_with sep ws) = last (last ws)"
  by (induction ws rule: induct_list012) auto

lemma join_no: "c \<in> set (join_with sep ws) \<Longrightarrow> c = sep \<or> (\<exists>w \<in> set ws. c \<in> set w)"
  by (induction ws rule: induct_list012) auto

lemma quoted_listing:
  assumes "goodRule rule" "agentFirewallIDPattern (rule_ID rule)"
  defines "line \<equiv> join_with (CHR '' '') (quotedArgs rule)"
  shows "split_on (CHR 0x0A) (chainListing (quotedArgs rule)) = [''-N HSERVER-INPUT'', line, []]"
    "TrimSpace line = line" "managedLine line" "Fields line = quotedArgs rule" "Fields ''-N HSERVER-INPUT'' = [''-N'', ''HSERVER-INPUT'']"
proof -
  have words: "list_all is_word (quotedArgs rule)" using quotedArgs_words [OF assms(1)] by (simp only: list_all_iff)
  then show args: "Fields line = quotedArgs rule" unfolding line_def by (rule Fields_join)
  have "CHR 0x0A \<notin> set line"
    using join_no [of "CHR 0x0A" "CHR '' ''" "quotedArgs rule"] quotedArgs_words [OF assms(1)]
    by (fastforce simp: line_def list_all_iff word_char_def IsSpace_def space_runes_def)
  then show "split_on (CHR 0x0A) (chainListing (quotedArgs rule)) = [''-N HSERVER-INPUT'', line, []]"
    using split_on_append [of "CHR 0x0A" "''-N HSERVER-INPUT''" "line @ [CHR 0x0A]"] split_on_append [of "CHR 0x0A" line "[]"]
    by (simp add: chainListing_def line_def)
  have "last line = last (fw_Action rule)" "line \<noteq> []" "hd line = CHR ''-''"
    using join_last [of "quotedArgs rule" "CHR '' ''"] assms(1)
    by (auto simp: line_def quotedArgs_def goodRule_def) 
  then show "TrimSpace line = line" using assms(1) by (intro TrimSpace_ends) (auto simp: goodRule_def asciiSpace_def)
  obtain r where r: "quotedArgs rule = ''-A'' # firewallManagedChain # r" by (simp add: quotedArgs_def)
  have "take 3 (rule_ID rule) = ''fw-''" using assms(2) by (simp add: agentFirewallIDPattern_def HasPrefix_def numeral_3_eq_3)
  then have "HasPrefix (ruleComment rule) ''hserver:fw-''"
    by (cases "rule_ID rule"; cases "tl (rule_ID rule)"; cases "tl (tl (rule_ID rule))")
       (auto simp: HasPrefix_def ruleComment_def numeral_3_eq_3)
  then show "managedLine line"
    using quotedArgs_key [OF assms(1)] by (simp add: managedLine_def args hasFirewallComment_def Let_def) (simp add: r)
  have "list_all is_word [''-N'', ''HSERVER-INPUT'']" by (simp add: word_char_def IsSpace_def space_runes_def)
  from Fields_join [OF this] show "Fields ''-N HSERVER-INPUT'' = [''-N'', ''HSERVER-INPUT'']" by simp
qed

lemma revision_pattern: "agentSHA256Pattern (firewallRevision lines)"
proof -
  have low: "lowerHexRune r \<Longrightarrow> r < 0x80" for r by (auto simp: lowerHexRune_def)
  let ?r = "hex_encode (Sum256 (marshal_strings lines))"
  have hex: "list_all (\<lambda>c. lowerHexRune (byte c)) ?r"
    using hex_encode_lower [of "Sum256 (marshal_strings lines)"] by (auto simp: list_all_iff lower_hex_def lowerHexRune_def asciiDigit_def)
  then have "runes ?r = map byte ?r" by (intro runes_ascii) (auto simp: list_all_iff dest: low)
  then show ?thesis using hex by (simp add: agentSHA256Pattern_def firewallRevision_def Sum256_length list_all_iff)
qed

lemma HasPrefix_append [simp]: "HasPrefix (p @ r) p"
  by (simp add: HasPrefix_def)


section \<open>Examples\<close>

text \<open>A host on which every command works and prints the same text.\<close>

definition steadyHost :: "string \<Rightarrow> unit host" where
  "steadyHost output = \<lparr>ho_Run = (\<lambda>_ _ s. (Inr output, s)), ho_Lock = (\<lambda>_ s. (Inr (), s)), ho_Rand = (\<lambda>n s. (Inr (replicate n (CHR ''a'')), s))\<rparr>"

definition demoRequest :: firewallRule where
  "demoRequest = \<lparr>fw_Action = ''DROP'', fw_Protocol = ''tcp'', fw_Port = 80, fw_Source = ''10.1.2.3/8'', fw_Comment = ''web only'',
     rule_ID = [], rule_Managed = True, rule_Raw = []\<rparr>"

definition demoFirewall :: firewallController where
  "demoFirewall = newFirewallController True True ''iptables'' ''save'' ''lock'' ''svc'' [''10.0.0.0/8''] {22}"

lemma demo_normalized: "normalizeFirewallRule demoRequest = Inr (demoRequest\<lparr>fw_Source := ''10.0.0.0/8''\<rparr>)"
proof -
  have "normalizeIPv4Network ''10.1.2.3/8'' = Some ''10.0.0.0/8''" by code_simp
  moreover have "TrimSpace ''10.1.2.3/8'' = ''10.1.2.3/8''" by (rule TrimSpace_ascii) (simp_all add: asciiSpace_def)
  ultimately show ?thesis by (simp add: normalizeFirewallRule_def demoRequest_def ContainsAny_def lineBreaks_def)
qed

lemma demo_id: "agentFirewallIDPattern ''fw-0123456789ab''"
  by (simp add: agentFirewallIDPattern_def HasPrefix_def lowerHexRune_def runes_ascii)

lemma firewall_rule_roundtrip_witness:
  "\<exists>line. parseManagedFirewallRule line =
     Some (demoRequest\<lparr>fw_Source := ''10.0.0.0/8'', rule_ID := ''fw-0123456789ab'', rule_Managed := True, rule_Raw := line\<rparr>)"
  using firewall_rule_roundtrip [OF demo_normalized demo_id] by auto

lemma demo_add:
  "\<exists>args. (''iptables'', args) \<in> set (issued (Add (logged (steadyHost [])) demoFirewall demoRequest (firewallRevision [])) ())
     \<and> argAfter args ''-j'' = ''DROP''"
proof -
  let ?rule = "demoRequest\<lparr>fw_Source := ''10.0.0.0/8'', rule_ID := ''fw-'' @ hex_encode ''aaaaaa''\<rparr>"
  have "\<not> blocksProtectedPath demoFirewall (demoRequest\<lparr>fw_Source := ''10.0.0.0/8''\<rparr>)"
    by (simp add: blocksProtectedPath_def demoRequest_def demoFirewall_def newFirewallController_def)
  moreover have "TrimSpace [] = []" by (simp add: TrimSpace_def trim_left.simps trim_right.simps)
  then have "listing (steadyHost []) demoFirewall () = []"
    by (simp add: listing_def steadyHost_def managedLine_def Fields_def)
  moreover have "currentRevision [] (firewallRevision [])" using revision_pattern by (simp add: currentRevision_def)
  moreover have "fc_allowWrite demoFirewall" "fc_iptables demoFirewall = ''iptables''"
    by (simp_all add: demoFirewall_def newFirewallController_def)
  moreover have "demoRequest\<lparr>rule_ID := [], rule_Managed := True, rule_Raw := []\<rparr> = demoRequest" by (simp add: demoRequest_def)
  moreover have "ho_Run (logged (steadyHost [])) name args (l, s) = (Inr [], l @ [(name, args)], s)"
    "ho_Lock (logged (steadyHost [])) path (l, s) = (Inr (), l, s)" "ho_Rand (logged (steadyHost [])) 6 (l, s) = (Inr ''aaaaaa'', l, s)" for name args path l s
    by (simp_all add: logged_def steadyHost_def numeral_eq_Suc)
  moreover have "ho_Run (steadyHost []) n a s = (Inr [], s)" for n a s by (simp add: steadyHost_def)
  ultimately have "(''iptables'', firewallAppendArgs ?rule) \<in>
      set (issued (Add (logged (steadyHost [])) demoFirewall demoRequest (firewallRevision [])) ())"
    by (simp add: issued_def Add_def demo_normalized newFirewallID_def withMutationLock_def addLocked_def attachChain_def saveOrUndo_def
        bindA_def tryA_def wrapA_def give_def managedLines_logged)
  moreover have "argAfter (firewallAppendArgs ?rule) ''-j'' = ''DROP''"
  proof -
    have "FormatInt 80 = ''80''" by code_simp
    then show ?thesis by (simp add: firewallAppendArgs_def demoRequest_def firewallManagedChain_def Trim_def)
  qed
  ultimately show ?thesis by blast
qed

lemma firewall_protects_management_witness:
  "\<exists>args. (''iptables'', args) \<in> set (issued (Add (logged (steadyHost [])) demoFirewall demoRequest (firewallRevision [])) ())
     \<and> argAfter args ''-j'' = ''DROP'' \<and> \<not> dropsPacket args [10, 1, 1, 1] 22"
proof -
  obtain ip net where net: "ParseCIDRNet ''10.0.0.0/8'' = Some (ip, net)" "Contains net [10, 1, 1, 1]"
  proof -
    have "(case ParseCIDRNet ''10.0.0.0/8'' of None \<Rightarrow> False | Some (ip, net) \<Rightarrow> Contains net [10, 1, 1, 1])" by code_simp
    then show thesis using that by (auto split: option.splits)
  qed
  show ?thesis
    using demo_add firewall_protects_management [of "''10.0.0.0/8''" "[''10.0.0.0/8'']", OF _ net _ _ demoFirewall_def, of 22] by force
qed

lemma stale_firewall_change_refused_witness:
  "\<not> is_ok (result (Add (logged (steadyHost [])) demoFirewall demoRequest []) ())
   \<and> \<not> is_ok (result (Delete (logged (steadyHost [])) demoFirewall ''fw-0123456789ab'' []) ())"
  using stale_firewall_change_refused [of "steadyHost []" demoFirewall "()" "[]" "()" "[]" demoRequest "''fw-0123456789ab''"]
  by (simp add: currentRevision_def agentSHA256Pattern_def)


end
