(* ===== verification/AgentTaskProps.thy ===== *)
theory AgentTaskProps
  imports AgentTasks HubTaskProps
begin

text \<open>
  The task executor of the agent against the hub: what the agent refuses of the tasks that the hub
  admits, what it calls whatever the hub sends, and which of its results the hub takes.
\<close>

section \<open>The patterns of the agent and the validators of the hub\<close>

lemma matchName_iff:
  assumes "ascii extra"
  shows "matchName asciiLetterOrDigit (wordRune extra) n s \<longleftrightarrow> s \<noteq> [] \<and> length s \<le> Suc n \<and> word_name extra s"
proof -
  have cls: "wordRune extra r \<Longrightarrow> r < 0x80" "asciiLetterOrDigit r \<Longrightarrow> wordRune extra r" for r
    using assms by (auto simp: wordRune_def asciiLetterOrDigit_def rune_in_def ascii_def list_all_iff)
  show ?thesis
  proof (cases "list_all (wordRune extra) (runes s)")
    case True
    then have "length (runes s) = length s"
      using list_all_runes_ascii [OF cls(1)] runes_ascii [of s] cls(1) by (auto simp: list_all_iff)
    then show ?thesis
      by (cases "runes s") (auto simp: matchName_def word_name_def first_rest_def wordRune_def [abs_def])
  next
    case False
    then show ?thesis
      using cls(2) by (cases "runes s") (auto simp: matchName_def word_name_def first_rest_def wordRune_def [abs_def])
  qed
qed

lemma patterns_agree:
  "agentContainerNamePattern s \<longleftrightarrow> validContainerName s"
  "agentNginxConfigNamePattern s \<longleftrightarrow> validNginxConfigName s"
  "agentPHPPoolNamePattern s \<longleftrightarrow> validPHPPool s"
  "agentPM2NamePattern s \<longleftrightarrow> validPM2Name s"
  by (auto simp: agentContainerNamePattern_def agentNginxConfigNamePattern_def agentPHPPoolNamePattern_def
      agentPM2NamePattern_def matchName_iff ascii_def validContainerName_def validNginxConfigName_def
      validPHPPool_def validPM2Name_def)

lemma sha_agree: "agentSHA256Pattern s \<longleftrightarrow> validSHA256 s"
proof (cases "list_all lowerHexRune (runes s)")
  case True
  then have "ascii s" by (rule runes_all_ascii) (auto simp: lowerHexRune_def)
  then show ?thesis
    using runes_ascii [of s] by (simp add: agentSHA256Pattern_def validSHA256_def ascii_def list_all_iff)
qed (simp add: agentSHA256Pattern_def validSHA256_def)

lemma php_agree:
  assumes "validPHPVersion s"
  shows "agentPHPVersionPattern s"
proof -
  obtain a b where ab: "split_on (CHR ''.'') s = [a, b]" "a \<noteq> []" "b \<noteq> []"
    "list_all decimalRune (runes a)" "list_all decimalRune (runes b)"
    using assms by (auto simp: validPHPVersion_def Let_def decimalRune_def [abs_def] numeral_2_eq_2 length_Suc_conv not_less)
  have s: "s = a @ CHR ''.'' # b" using join_split_on [of "CHR ''.''" s] ab(1) by simp
  have dec: "decimalRune r \<Longrightarrow> r < 0x80" for r by (simp add: decimalRune_def)
  have digits: "list_all (\<lambda>c. decimalRune (byte c)) a" "list_all (\<lambda>c. decimalRune (byte c)) b"
    using ab(4,5) list_all_runes_ascii [OF dec] by blast+
  then have "runes s = map byte a @ 46 # map byte b"
    using runes_ascii [of s] dec by (auto simp: s list_all_iff)
  then show ?thesis
    using digits ab(2,3)
    by (simp add: agentPHPVersionPattern_def takeWhile_append dropWhile_append list_all_iff takeWhile_eq_all_conv dropWhile_eq_Nil_conv
        decimalRune_def Let_def)
qed

section \<open>Documents the hub has checked decode at the agent\<close>

lemma loose_members_exact: "list_all (\<lambda>(k, _). k \<in> set names) ms \<Longrightarrow> loose_members names ms = ms"
  by (induction ms) (auto simp: loose_members_def List.map_filter_simps field_of_def)

lemma member_keys_all: "list_all (\<lambda>k. k \<in> A) (member_keys ms) \<longleftrightarrow> list_all (\<lambda>(k, _). k \<in> A) ms"
  by (auto simp: member_keys_def list_all_iff)

lemma cron_payload_decodes:
  assumes "validCronJobPayload encoded requireID"
  obtains raw job where "b64_decode encoded = Some raw" "length raw \<le> maxCronStateBytes" "decodeCronJob raw = Some job"
    "validCronJob job requireID"
proof -
  obtain raw ms job where *: "b64_decode encoded = Some raw" "length raw \<le> maxCronJobBytes" "raw_members raw = Some ms"
    "list_all (\<lambda>k. k \<in> set cronJobNames) (member_keys ms)" "fold cron_member ms (Some cronTaskJobZero) = Some job"
    "validCronJob job requireID"
    using assms by (auto simp: validCronJobPayload_def Let_def cronJobNames_def not_less split: option.splits if_splits)
  then have "decodeCronJob raw = Some job"
    by (simp add: decodeCronJob_def loose_members_exact member_keys_all)
  with * that show thesis by (force simp: maxCronJobBytes_def maxCronStateBytes_def)
qed

definition hubRule :: "firewallRule \<Rightarrow> firewallTaskRule" where
  "hubRule r = firewallTaskRule.truncate r"

lemma rule_members_fw:
  "list_all (\<lambda>(k, _). k \<in> {''action'', ''protocol'', ''port'', ''source'', ''comment''}) ms \<Longrightarrow>
     map_option hubRule (fold rule_member ms r) = fold fw_member ms (map_option hubRule r)"
proof (induction ms arbitrary: r)
  case (Cons m ms)
  have "map_option hubRule (rule_member m r) = fw_member m (map_option hubRule r)"
    using Cons.prems
    by (cases r; cases m) (auto simp: rule_member_def fw_member_def hubRule_def firewallTaskRule.defs option.map_comp comp_def)
  then show ?case using Cons by simp
qed simp

lemma firewall_payload_decodes:
  assumes "validFirewallRulePayload encoded"
  obtains raw rule where "b64_decode encoded = Some raw" "length raw \<le> 1024" "decodeFirewallRule raw = Some rule"
    "validFirewallRule (hubRule rule)"
proof -
  define K where "K = {''action'', ''protocol'', ''port'', ''source'', ''comment''}"
  obtain raw where raw: "b64_decode encoded = Some raw" using assms by (cases "b64_decode encoded") (simp_all add: validFirewallRulePayload_def)
  obtain ms where ms: "raw_members raw = Some ms"
    using assms raw by (cases "raw_members raw") (simp_all add: validFirewallRulePayload_def split: if_splits)
  have *: "length raw \<le> maxFirewallRuleBytes" "list_all (\<lambda>k. k \<in> K) (member_keys ms)"
    and fw: "case fold fw_member ms (Some firewallTaskRuleZero) of None \<Rightarrow> False | Some rule \<Rightarrow> validFirewallRule rule"
    using assms raw ms unfolding validFirewallRulePayload_def K_def [symmetric] by (simp_all add: Let_def not_less split: if_splits)
  obtain rule where rule: "fold fw_member ms (Some firewallTaskRuleZero) = Some rule" "validFirewallRule rule"
    using fw by (cases "fold fw_member ms (Some firewallTaskRuleZero)") simp_all
  have keys: "list_all (\<lambda>(k, _). k \<in> {''action'', ''protocol'', ''port'', ''source'', ''comment''}) ms"
    using *(2) by (simp only: member_keys_all K_def)
  have "K \<subseteq> set firewallRuleNames" by (simp add: K_def firewallRuleNames_def)
  then have "loose_members firewallRuleNames ms = ms"
    using *(2) unfolding member_keys_all by (intro loose_members_exact) (auto simp: list_all_iff)
  moreover have "map_option hubRule (fold rule_member ms (Some firewallRuleZero)) = Some rule"
    using rule_members_fw [OF keys, of "Some firewallRuleZero"] rule(1)
    by (simp add: hubRule_def firewallTaskRule.defs firewallRuleZero_def firewallTaskRuleZero_def)
  ultimately obtain r where "decodeFirewallRule raw = Some r" "hubRule r = rule"
    using ms by (auto simp: decodeFirewallRule_def)
  with * rule raw that show thesis by (auto simp: maxFirewallRuleBytes_def)
qed

lemma content_decodes: "checkContent p = Inr () \<Longrightarrow> \<exists>content. b64_decode (gget p ''content_b64'') = Some content"
  by (auto simp: checkContent_def split: option.splits)

lemma reload_parses: "\<not> badReload p \<Longrightarrow> \<exists>b. ParseBool (gget p ''reload'') = Some b"
  by (auto simp: badReload_def ParseBool_def)

lemma lines_parse: "validLineCount s \<Longrightarrow> \<exists>n. lineCount s = Some n"
  by (auto simp: validLineCount_def lineCount_def maxLogLines_def split: option.splits)

section \<open>What the agent refuses of an admitted task\<close>

text \<open>Whether the local configuration of the agent has what a task of this kind needs.\<close>

definition enabledFor :: "taskExecutor \<Rightarrow> string \<Rightarrow> gomap \<Rightarrow> bool" where
  "enabledFor e kind p =
     (if kind = TaskServiceStatus then gget p ''service'' \<in> set (te_observed e)
      else if kind = TaskServiceAction then gget p ''service'' \<in> set (te_allowed e)
      else if kind = TaskHostAction then te_host e \<and> gget p ''action'' \<in> set (te_allowedHostActions e)
      else if kind = TaskProcessSignal then te_host e \<and> te_allowProcessSignals e
      else if kind \<in> {TaskDiskCleanupScan, TaskDiskCleanupExecute} then te_disk e
      else if kind = TaskLogsRead then te_logs e
      else if kind \<in> {TaskContainerList, TaskContainerAction} then te_containers e
      else if kind \<in> {TaskNginxAction, TaskNginxConfigList, TaskNginxConfigRead, TaskNginxConfigWrite} then te_nginx e
      else if kind \<in> {TaskPHPInventory, TaskPHPConfigRead, TaskPHPConfigWrite, TaskPHPAction} then te_php e
      else if kind \<in> {TaskPM2List, TaskPM2Logs, TaskPM2Action} then te_pm2 e
      else if kind \<in> {TaskCronInventory, TaskCronCreate, TaskCronUpdate, TaskCronDelete, TaskCronRun} then te_cron e
      else if kind \<in> {TaskFirewallInventory, TaskFirewallAdd, TaskFirewallDelete} then te_firewall e
      else if kind \<in> {TaskDomainInventory, TaskDomainAction} then te_domains e
      else if kind \<in> {TaskSSLInventory, TaskSSLAction} then te_ssl e
      else if kind \<in> {TaskDatabaseInventory, TaskDatabaseAction} then te_databases e
      else if kind \<in> {TaskBackupInventory, TaskBackupRun} then te_backups e
      else if kind \<in> {TaskFilesBrowse, TaskFilesRead, TaskFilesWrite} then te_files e
      else if kind \<in> {TaskDeployInventory, TaskDeployAction} then te_deploys e
      else if kind \<in> {TaskDeployDomainInventory, TaskDeployDomainHealth, TaskDeployDomainAction} then te_deployDomains e
      else if kind = TaskAgentUpdateStatus then te_agentUpdates e
      else if kind = TaskAgentUpdateAction then te_agentUpdates e \<and> te_allowAgentUpdates e
      else if kind = TaskMetricsRead then te_metrics e
      else False)"

lemmas switch_defs = dispatch_def dispatchA_def dispatchB_def dispatchC_def
  checkKind_def checkKindA_def checkKindB_def checkKindC_def enabledFor_def

definition agrees :: "taskExecutor \<Rightarrow> gomap \<Rightarrow> string \<Rightarrow> bool" where
  "agrees e p kind \<longleftrightarrow> (checkKind kind p = Inr () \<longrightarrow> is_ok (dispatch e kind p) = enabledFor e kind p)"

lemma agrees_plain:
  "agrees e p TaskAgentUpdateStatus"
  "agrees e p TaskMetricsRead"
  "agrees e p TaskDiskCleanupScan"
  "agrees e p TaskContainerList"
  "agrees e p TaskNginxConfigList"
  "agrees e p TaskPHPInventory"
  "agrees e p TaskPM2List"
  "agrees e p TaskCronInventory"
  "agrees e p TaskFirewallInventory"
  "agrees e p TaskDomainInventory"
  "agrees e p TaskSSLInventory"
  "agrees e p TaskDatabaseInventory"
  "agrees e p TaskBackupInventory"
  "agrees e p TaskDeployInventory"
  by (simp_all add: agrees_def switch_defs hub_consts plainCall_def dispatchMetrics_def noFields_def)

lemma agrees_fields:
  "agrees e p TaskPHPConfigRead"
  "agrees e p TaskPHPAction"
  "agrees e p TaskPM2Action"
  "agrees e p TaskCronDelete"
  "agrees e p TaskCronRun"
  "agrees e p TaskFirewallDelete"
  "agrees e p TaskDomainAction"
  "agrees e p TaskSSLAction"
  "agrees e p TaskDatabaseAction"
  "agrees e p TaskBackupRun"
  "agrees e p TaskFilesBrowse"
  "agrees e p TaskFilesRead"
  "agrees e p TaskDeployAction"
  "agrees e p TaskDeployDomainInventory"
  "agrees e p TaskDeployDomainHealth"
  by (simp_all add: agrees_def switch_defs hub_consts fieldsCall_def patterns_agree validDeployAction_def validAgentDeployAction_def)

lemma agrees_services:
  "agrees e p TaskServiceStatus"
  "agrees e p TaskServiceAction"
  "agrees e p TaskHostAction"
  "agrees e p TaskProcessSignal"
  by (auto simp: agrees_def switch_defs hub_consts dispatchServiceStatus_def dispatchServiceAction_def dispatchHostAction_def
      dispatchProcessSignal_def exactPayload_def exactActionPayload_def checkServiceStatus_def checkServiceAction_def
      checkHostAction_def checkProcessSignal_def Let_def andThen_Inr_iff split: option.splits)

lemma agrees_payloads:
  "agrees e p TaskDiskCleanupExecute"
  "agrees e p TaskContainerAction"
  "agrees e p TaskNginxAction"
  "agrees e p TaskNginxConfigRead"
  by (auto simp: agrees_def switch_defs hub_consts dispatchDiskExecute_def dispatchContainerAction_def dispatchNginxAction_def
      dispatchNginxRead_def exactPayload_def exactContainerPayload_def patterns_agree validDiskCleanupTargets_def
      validContainerAction_def validNginxConfigName_def)

lemma agrees_lines:
  "agrees e p TaskLogsRead"
  "agrees e p TaskPM2Logs"
  by (auto simp: agrees_def switch_defs hub_consts dispatchLogs_def dispatchPM2Logs_def checkLogsRead_def patterns_agree
      dest!: lines_parse split: if_splits)

lemma agrees_writes:
  "agrees e p TaskNginxConfigWrite"
  "agrees e p TaskPHPConfigWrite"
  "agrees e p TaskFilesWrite"
  by (auto simp: agrees_def switch_defs hub_consts dispatchNginxWrite_def dispatchPHPWrite_def dispatchFilesWrite_def
      checkNginxConfigWrite_def checkPHPConfigWrite_def checkFilesWrite_def andThen_Inr_iff patterns_agree sha_agree php_agree
      dest!: content_decodes reload_parses)

lemma agrees_documents:
  "agrees e p TaskCronCreate"
  "agrees e p TaskCronUpdate"
  "agrees e p TaskFirewallAdd"
  by (auto simp: agrees_def switch_defs hub_consts dispatchCronWrite_def dispatchFirewallAdd_def sha_agree
      elim!: cron_payload_decodes firewall_payload_decodes)

lemma empty_values: "\<not> validSHA256 []" "Compare [] [] \<noteq> Current"
  by (simp add: validSHA256_def) code_simp

lemma agrees_lifecycle:
  "agrees e p TaskDeployDomainAction"
  "agrees e p TaskAgentUpdateAction"
  by (auto simp: agrees_def switch_defs hub_consts dispatchDeployDomainAction_def checkDeployDomainAction_def dispatchUpdateAction_def
      checkAgentUpdateAction_def Let_def andThen_Inr_iff patterns_agree sha_agree validAgentDeployDomainRevision_def validDeployDomainAction_def
      empty_values split: if_splits)

lemmas agrees_kinds = agrees_plain agrees_fields agrees_services agrees_payloads agrees_lines agrees_writes agrees_documents agrees_lifecycle

lemma admittedDispatch:
  assumes "ValidateTaskRequest u req = Inr ()" "req_Kind req \<noteq> TaskIntegrationStatus"
  shows "(\<exists>call. dispatch e (req_Kind req) (req_Payload req) = Inr call) \<longleftrightarrow> enabledFor e (req_Kind req) (req_Payload req)"
proof -
  have "checkKind (req_Kind req) (req_Payload req) = Inr ()" "req_Kind req \<in> set panelKinds"
    using assms(1) by (simp_all add: ValidateTaskRequest_def Let_def split: if_splits)
  moreover have "agrees e (req_Payload req) kind" if "kind \<in> set panelKinds" "kind \<noteq> TaskIntegrationStatus" for kind
    using that agrees_kinds [of e "req_Payload req"] by (auto simp: panelKinds_def)
  ultimately show ?thesis using assms(2) by (simp add: agrees_def is_ok_iff)
qed

text \<open>
  C14. The agent does not second-guess the hub on well-formed requests: of the tasks that the hub
  admits, other than the two kinds with a handler of their own, it refuses exactly those that its local
  configuration does not enable, and dispatches every other one. Names, digests, encoded documents and
  line counts that pass the validators of the hub pass the patterns and decoders of the agent.
\<close>

theorem admitted_task_dispatched:
  assumes "ValidateTaskRequest u req = Inr ()" "req_Kind req \<noteq> TaskIntegrationStatus"
  shows "(\<exists>call. dispatch e (req_Kind req) (req_Payload req) = Inr call) \<longleftrightarrow> enabledFor e (req_Kind req) (req_Payload req)"
  using assms by (rule admittedDispatch)

text \<open>An executor of the demonstration node.\<close>

definition demoExecutor :: taskExecutor where
  "demoExecutor =
     \<lparr>te_host = True, te_disk = True, te_logs = True, te_containers = True, te_nginx = True, te_php = True, te_pm2 = True,
      te_cron = True, te_firewall = True, te_domains = True, te_ssl = True, te_databases = True, te_backups = True,
      te_files = True, te_deploys = True, te_deployDomains = True, te_agentUpdates = False, te_profileApply = True,
      te_metrics = True, te_observed = [''nginx''], te_allowed = [''nginx''], te_allowedHostActions = [''reboot''],
      te_allowProcessSignals = False, te_allowAgentUpdates = False\<rparr>"

lemma admitted_task_dispatched_witness:
  "\<exists>call. dispatch demoExecutor TaskDeployDomainAction (req_Payload (ensureRequest ''app'' ''a.io'' ''absent'')) = Inr call"
  using admitted_task_dispatched [OF demo_ensure, where e = demoExecutor]
  by (simp add: ensureRequest_def enabledFor_def demoExecutor_def hub_consts)

section \<open>What the agent calls, whatever it is sent\<close>

text \<open>The calls that the local configuration allows, with well-formed arguments.\<close>

fun localPolicy :: "taskExecutor \<Rightarrow> agent_call \<Rightarrow> bool" where
  "localPolicy e (ServiceStatus service) = (service \<in> set (te_observed e))"
| "localPolicy e (ServiceAction service action) = (service \<in> set (te_allowed e) \<and> action \<in> {''start'', ''stop'', ''restart''})"
| "localPolicy e OptimizeMemory = (te_host e \<and> ''memory-optimize'' \<in> set (te_allowedHostActions e))"
| "localPolicy e ResetSwap = (te_host e \<and> ''swap-reset'' \<in> set (te_allowedHostActions e))"
| "localPolicy e CleanTemporaryFiles = (te_host e \<and> ''temp-clean'' \<in> set (te_allowedHostActions e))"
| "localPolicy e ScheduleReboot = (te_host e \<and> ''reboot'' \<in> set (te_allowedHostActions e))"
| "localPolicy e CancelScheduledReboot = (te_host e \<and> ''reboot-cancel'' \<in> set (te_allowedHostActions e))"
| "localPolicy e (TerminateProcess pid signal startTime) =
     (te_host e \<and> te_allowProcessSignals e \<and> 1 < pid \<and> 0 < startTime \<and> signal \<in> {''term'', ''kill''})"
| "localPolicy e UpdateStatus = te_agentUpdates e"
| "localPolicy e (Upgrade version) = (te_agentUpdates e \<and> te_allowAgentUpdates e \<and> version \<noteq> [])"
| "localPolicy e Rollback = (te_agentUpdates e \<and> te_allowAgentUpdates e)"
| "localPolicy e CollectMetrics = te_metrics e"
| "localPolicy e DiskScan = te_disk e"
| "localPolicy e (DiskExecute targets) = (te_disk e \<and> targets \<noteq> [])"
| "localPolicy e (ReadLogs _ lines) = (te_logs e \<and> 1 \<le> lines \<and> lines \<le> 500)"
| "localPolicy e ListContainers = te_containers e"
| "localPolicy e (ContainerAction container action) =
     (te_containers e \<and> plainName container \<and> action \<in> {''start'', ''stop'', ''restart''})"
| "localPolicy e (NginxAction action) = (te_nginx e \<and> action \<in> {''test'', ''reload''})"
| "localPolicy e NginxList = te_nginx e"
| "localPolicy e (NginxRead name) = (te_nginx e \<and> name \<noteq> [])"
| "localPolicy e (NginxWrite name _ checksum _) = (te_nginx e \<and> plainName name \<and> validSHA256 checksum)"
| "localPolicy e (PHPWrite version pool _ checksum _) =
     (te_php e \<and> agentPHPVersionPattern version \<and> plainName pool \<and> validSHA256 checksum)"
| "localPolicy e PHPInventory = te_php e"
| "localPolicy e (PHPRead _ _) = te_php e"
| "localPolicy e (PHPAction _ _) = te_php e"
| "localPolicy e PM2List = te_pm2 e"
| "localPolicy e (PM2Logs name lines) = (te_pm2 e \<and> plainName name \<and> 1 \<le> lines \<and> lines \<le> 500)"
| "localPolicy e (PM2Action name _) = (te_pm2 e \<and> plainName name)"
| "localPolicy e (CronCreate _ revision) = (te_cron e \<and> validSHA256 revision)"
| "localPolicy e (CronUpdate _ revision) = (te_cron e \<and> validSHA256 revision)"
| "localPolicy e CronInventory = te_cron e"
| "localPolicy e (CronDelete _ _) = te_cron e"
| "localPolicy e (CronRun _) = te_cron e"
| "localPolicy e (FirewallAdd _ revision) = (te_firewall e \<and> validSHA256 revision)"
| "localPolicy e FirewallInventory = te_firewall e"
| "localPolicy e (FirewallDelete _ _) = te_firewall e"
| "localPolicy e DomainInventory = te_domains e"
| "localPolicy e (DomainAction _ _) = te_domains e"
| "localPolicy e SSLInventory = te_ssl e"
| "localPolicy e (SSLAction _ _) = te_ssl e"
| "localPolicy e DatabaseInventory = te_databases e"
| "localPolicy e (DatabaseAction _ _) = te_databases e"
| "localPolicy e BackupInventory = te_backups e"
| "localPolicy e (BackupRun _) = te_backups e"
| "localPolicy e (FilesBrowse _) = te_files e"
| "localPolicy e (FilesRead _) = te_files e"
| "localPolicy e (FilesWrite _ _ _) = te_files e"
| "localPolicy e DeployInventory = te_deploys e"
| "localPolicy e (DeployRun target action) =
     (te_deploys e \<and> plainName target \<and> action \<in> {''preflight'', ''deploy'', ''restart'', ''rollback''})"
| "localPolicy e (DeployDomainInventory target) = (te_deployDomains e \<and> plainName target)"
| "localPolicy e (DeployDomainHealth target _) = (te_deployDomains e \<and> plainName target)"
| "localPolicy e (DeployDomainCreate target _) = (te_deployDomains e \<and> plainName target)"
| "localPolicy e (DeployDomainEnsure target _ revision) =
     (te_deployDomains e \<and> plainName target \<and> (revision = ''absent'' \<or> validSHA256 revision))"
| "localPolicy e (DeployDomainDelete target _) = (te_deployDomains e \<and> plainName target)"
| "localPolicy e (EnableTLS target _ _) = (te_deployDomains e \<and> plainName target)"
| "localPolicy e (DisableTLS target _) = (te_deployDomains e \<and> plainName target)"
| "localPolicy e (RenewTLS target _) = (te_deployDomains e \<and> plainName target)"

lemma pattern_plain:
  "agentContainerNamePattern s \<Longrightarrow> plainName s"
  "agentNginxConfigNamePattern s \<Longrightarrow> plainName s"
  "agentPHPPoolNamePattern s \<Longrightarrow> plainName s"
  "agentPM2NamePattern s \<Longrightarrow> plainName s"
  by (auto intro!: word_name_plain simp: patterns_agree validContainerName_def validNginxConfigName_def validPHPPool_def validPM2Name_def)

lemma lineCount_bounds: "lineCount s = Some n \<Longrightarrow> 1 \<le> n \<and> n \<le> 500"
  by (auto simp: lineCount_def maxLogLines_def split: option.splits if_splits)

lemma split_on_nonempty: "split_on c s \<noteq> []"
  using split_on_ne by blast

lemma policyA: "dispatchA e kind p = Some (Inr call) \<Longrightarrow> localPolicy e call"
  unfolding dispatchA_def
  by (auto simp: plainCall_def dispatchUpdateAction_def dispatchMetrics_def dispatchServiceStatus_def dispatchServiceAction_def
      dispatchHostAction_def dispatchProcessSignal_def dispatchDiskExecute_def dispatchLogs_def dispatchContainerAction_def
      dispatchNginxAction_def dispatchNginxRead_def dispatchNginxWrite_def exactPayload_def exactActionPayload_def
      exactContainerPayload_def Let_def sha_agree split_on_nonempty
      dest: pattern_plain lineCount_bounds split: if_splits option.splits)

lemma policyB: "dispatchB e kind p = Some (Inr call) \<Longrightarrow> localPolicy e call"
  unfolding dispatchB_def
  by (auto simp: plainCall_def fieldsCall_def dispatchPHPWrite_def dispatchPM2Logs_def dispatchCronWrite_def dispatchFirewallAdd_def
      sha_agree dest: pattern_plain lineCount_bounds split: if_splits option.splits)

lemma policyC: "dispatchC e kind p = Some (Inr call) \<Longrightarrow> localPolicy e call"
  unfolding dispatchC_def
  by (auto simp: plainCall_def fieldsCall_def dispatchFilesWrite_def dispatchDeployDomainAction_def validAgentDeployDomainRevision_def
      validAgentDeployAction_def Let_def sha_agree dest: pattern_plain split: if_splits option.splits)

text \<open>
  C15. The agent protects its node from the hub: whatever kind and payload a task has, the call that
  is made for it, if any, is one that the local configuration allows, for a service or host action on
  the local list, with plain names, digests and bounded counts as arguments.
\<close>

theorem calls_within_policy:
  assumes "dispatch e kind p = Inr call"
  shows "localPolicy e call"
  using assms policyA [of e kind p call] policyB [of e kind p call] policyC [of e kind p call]
  by (simp add: dispatch_def split: option.splits)

lemma calls_within_policy_witness: "localPolicy demoExecutor (ServiceAction ''nginx'' ''restart'')"
proof -
  have "dispatch demoExecutor TaskServiceAction [(''action'', ''restart''), (''service'', ''nginx'')] = Inr (ServiceAction ''nginx'' ''restart'')"
    by code_simp
  then show ?thesis by (rule calls_within_policy)
qed

end
