(* ===== verification/AgentReports.thy ===== *)
theory AgentReports
  imports AgentTaskProps
begin

text \<open>
  Which reports of the agent the hub accepts. The hub refuses a report with a control character in
  its error or in one of its values, so the question is what can contain one: the JSON encoder escapes
  the control characters below the blank, but neither DEL nor the C1 block, and the output of a deploy
  action is not encoded at all.
\<close>

section \<open>Control characters in encoded text\<close>

definition hiddenRune :: "nat \<Rightarrow> bool" where
  "hiddenRune r = (0x7F \<le> r \<and> r < 0xA0)"

lemma containsControl_ascii:
  assumes "byte c < 0x80"
  shows "containsControl (c # s) \<longleftrightarrow> IsControl (byte c) \<or> containsControl s"
  using assms by (simp add: containsControl_def runes_def decode_rune_ascii)

lemma containsControl_Nil [simp]: "\<not> containsControl []"
  by (simp add: containsControl_def)

lemma containsControl_printable:
  "list_all (\<lambda>c. 0x20 \<le> byte c \<and> byte c < 0x7F) a \<Longrightarrow> containsControl (a @ s) \<longleftrightarrow> containsControl s"
  by (induction a) (auto simp: containsControl_ascii IsControl_def)

lemma control_enc_ascii:
  assumes "byte c < 0x80"
  shows "containsControl (enc_ascii c @ s) \<longleftrightarrow> c = CHR 0x7F \<or> containsControl s"
proof -
  have hex: "0x20 \<le> byte (hex_digit n) \<and> byte (hex_digit n) < 0x7F" if "n < 16" for n
    using byte_hex_digit [OF that] that by (simp split: if_splits)
  show ?thesis
  proof (cases "enc_ascii c = [c]")
    case True
    then have "0x20 \<le> byte c" using assms by (auto simp: enc_ascii_def enc_u_def split: if_splits)
    moreover have "byte c = 0x7F \<longleftrightarrow> c = CHR 0x7F" using of_char_eq_iff [of c "CHR 0x7F"] by simp
    ultimately show ?thesis using True assms by (auto simp: containsControl_ascii IsControl_def)
  next
    case False
    then have "c \<noteq> CHR 0x7F" by (auto simp: enc_ascii_def enc_u_def)
    moreover have "list_all (\<lambda>d. 0x20 \<le> byte d \<and> byte d < 0x7F) (enc_ascii c)"
      using False assms hex [of "byte c div 16"] hex [of "byte c mod 16"] by (auto simp: enc_ascii_def split: if_splits)
    ultimately show ?thesis by (simp add: containsControl_printable)
  qed
qed

lemma control_enc_step:
  "containsControl (enc_step c s @ u) \<longleftrightarrow> hiddenRune (fst (decode_rune c s)) \<or> containsControl u"
proof (cases "byte c < 0x80")
  case True
  have "byte c = 0x7F \<longleftrightarrow> c = CHR 0x7F" using of_char_eq_iff [of c "CHR 0x7F"] by simp
  then show ?thesis
    using True by (auto simp: enc_step_def control_enc_ascii decode_rune_ascii hiddenRune_def)
next
  case False
  let ?r = "decode_rune c s"
  consider (bad) "?r = (RuneError, 1)" | (sep) "?r \<noteq> (RuneError, 1)" "fst ?r = 0x2028 \<or> fst ?r = 0x2029"
    | (ok) "?r \<noteq> (RuneError, 1)" "fst ?r \<noteq> 0x2028" "fst ?r \<noteq> 0x2029" by blast
  then show ?thesis
  proof cases
    case bad
    with False show ?thesis
      using containsControl_printable [of "BS # ''ufffd''" u] by (simp add: enc_step_def hiddenRune_def RuneError_def)
  next
    case sep
    with False show ?thesis
      using containsControl_printable [of "BS # ''u2028''" u] containsControl_printable [of "BS # ''u2029''" u]
      by (auto simp: enc_step_def hiddenRune_def Let_def)
  next
    case ok
    let ?w = "take (snd ?r - 1) s"
    have n: "1 \<le> snd ?r" "snd ?r - 1 \<le> length s" using decode_rune_width [of c s] by auto
    have e: "enc_step c s = c # ?w"
      using ok False n by (cases "snd ?r") (auto simp: enc_step_def Let_def)
    have "\<not> fst ?r < 0x80" using decode_rune_lt128 False by blast
    then have "IsControl (fst ?r) \<longleftrightarrow> hiddenRune (fst ?r)" by (auto simp: IsControl_def hiddenRune_def)
    moreover have "drop (snd ?r - 1) (?w @ u) = u" using n by simp
    ultimately show ?thesis
      unfolding e using decode_rune_prefix [OF ok(1), of u] by (simp add: containsControl_def runes_def)
  qed
qed

lemma control_enc_body: "containsControl (enc_body s @ u) \<longleftrightarrow> list_ex hiddenRune (runes s) \<or> containsControl u"
  by (induction s rule: enc_body.induct) (simp_all add: control_enc_step runes_def)

lemma control_enc_str: "containsControl (enc_str s @ u) \<longleftrightarrow> list_ex hiddenRune (runes s) \<or> containsControl u"
  by (simp add: enc_str_def containsControl_ascii IsControl_def control_enc_body)

text \<open>Whether a string or a key of a JSON value has such a character, and that its numbers are number texts.\<close>

fun jsonHidden :: "json \<Rightarrow> bool" and hiddenElems :: "json list \<Rightarrow> bool" and hiddenMembers :: "(string \<times> json) list \<Rightarrow> bool" where
  "jsonHidden (JStr s) = list_ex hiddenRune (runes s)"
| "jsonHidden (JArr vs) = hiddenElems vs"
| "jsonHidden (JObj ms) = hiddenMembers ms"
| "jsonHidden _ = False"
| "hiddenElems [] = False"
| "hiddenElems (v # vs) = (jsonHidden v \<or> hiddenElems vs)"
| "hiddenMembers [] = False"
| "hiddenMembers ((k, v) # ms) = (list_ex hiddenRune (runes k) \<or> jsonHidden v \<or> hiddenMembers ms)"

fun plainNums :: "json \<Rightarrow> bool" and plainElems :: "json list \<Rightarrow> bool" and plainMembers :: "(string \<times> json) list \<Rightarrow> bool" where
  "plainNums (JNum n) = list_all num_char n"
| "plainNums (JArr vs) = plainElems vs"
| "plainNums (JObj ms) = plainMembers ms"
| "plainNums _ = True"
| "plainElems [] = True"
| "plainElems (v # vs) = (plainNums v \<and> plainElems vs)"
| "plainMembers [] = True"
| "plainMembers ((k, v) # ms) = (plainNums v \<and> plainMembers ms)"

lemma num_char_printable: "num_char c \<Longrightarrow> 0x20 \<le> byte c \<and> byte c < 0x7F"
  by (auto simp: num_char_def num_digit_def asciiDigit_def)

lemma control_json:
  "plainNums v \<Longrightarrow> containsControl (json_print v @ u) \<longleftrightarrow> jsonHidden v \<or> containsControl u"
  "plainElems vs \<Longrightarrow> containsControl (print_elems vs @ u) \<longleftrightarrow> hiddenElems vs \<or> containsControl u"
  "plainMembers ms \<Longrightarrow> containsControl (print_members ms @ u) \<longleftrightarrow> hiddenMembers ms \<or> containsControl u"
proof (induction v and vs and ms arbitrary: u and u and u rule: json_print_print_elems_print_members.induct)
  case (3 n)
  then have "list_all (\<lambda>c. 0x20 \<le> byte c \<and> byte c < 0x7F) n" by (auto simp: list_all_iff dest: num_char_printable)
  then show ?case by (simp add: containsControl_printable)
qed (simp_all add: containsControl_ascii IsControl_def control_enc_str)

section \<open>Reports\<close>



section \<open>Refusals\<close>

text \<open>A failure with a fixed text, without a result.\<close>

definition fixedFailure :: "TaskResultRequest \<Rightarrow> bool" where
  "fixedFailure res \<longleftrightarrow> res_Status res = TaskStatusFailed \<and> res_Result res = [] \<and> res_Error res \<noteq> []
     \<and> length (res_Error res) \<le> maxTaskErrorLength \<and> hd (res_Error res) \<noteq> CHR '' '' \<and> last (res_Error res) \<noteq> CHR '' ''
     \<and> list_all (\<lambda>c. 0x20 \<le> byte c \<and> byte c < 0x7F) (res_Error res)"

lemma TrimSpace_printable:
  assumes "list_all (\<lambda>c. 0x20 \<le> byte c \<and> byte c < 0x7F) s" "s \<noteq> []" "hd s \<noteq> CHR '' ''" "last s \<noteq> CHR '' ''"
  shows "TrimSpace s = s"
proof -
  have "byte (hd s) \<noteq> byte (CHR '' '')" "byte (last s) \<noteq> byte (CHR '' '')"
    using assms(3,4) by (simp_all only: of_char_eq_iff not_False_eq_True)
  moreover have "0x20 \<le> byte (hd s)" "byte (hd s) < 0x7F" "0x20 \<le> byte (last s)" "byte (last s) < 0x7F"
    using assms(1,2) by (auto simp: list_all_iff)
  ultimately have "\<not> asciiSpace (hd s)" "\<not> asciiSpace (last s)" "byte (hd s) < 0x80" "byte (last s) < 0x80"
    by (auto simp: asciiSpace_def)
  then have "front_space s = 0" "back_space s = 0"
    using assms(2) front_space_ascii [of "hd s" "tl s"] back_space_ascii [of s] by simp_all
  then show ?thesis by (simp add: TrimSpace_def trim_left.simps [of s] trim_right.simps [of s])
qed

lemma fixedFailure_ok: "fixedFailure res \<Longrightarrow> ValidateTaskResultRequest res = Inr ()"
  using containsControl_printable [of "res_Error res" "[]"] TrimSpace_printable [of "res_Error res"]
  by (auto simp: fixedFailure_def ValidateTaskResultRequest_def hub_consts)

lemmas fixed_defs = fixedFailure_def failedResult_def errNew_def maxTaskErrorLength_def

text \<open>The texts of the dispatch.\<close>

lemma refusal_texts [simp]:
  "fixedFailure (failedResult (errNew ''agent update actions are not enabled locally''))"
  "fixedFailure (failedResult (errNew ''agent upgrade requires exactly action and version fields''))"
  "fixedFailure (failedResult (errNew ''agent rollback accepts only the action field''))"
  "fixedFailure (failedResult (errNew ''unsupported agent lifecycle action''))"
  "fixedFailure (failedResult (errNew ''service.status requires exactly the service payload field''))"
  "fixedFailure (failedResult (errNew ''service is not in the observed allowlist''))"
  "fixedFailure (failedResult (errNew ''service.action requires exactly service and action payload fields''))"
  "fixedFailure (failedResult (errNew ''service is not in the action allowlist''))"
  "fixedFailure (failedResult (errNew ''host.action requires exactly the action payload field''))"
  "fixedFailure (failedResult (errNew ''host action is not in the local allowlist''))"
  "fixedFailure (failedResult (errNew ''host action executor is unavailable''))"
  "fixedFailure (failedResult (errNew ''unsupported host action''))"
  "fixedFailure (failedResult (errNew ''process signals are not enabled locally''))"
  "fixedFailure (failedResult (errNew ''process.signal requires a valid pid, start_time, and signal''))"
  "fixedFailure (failedResult (errNew ''process signal executor is unavailable''))"
  "fixedFailure (failedResult (errNew ''disk cleanup execution is not enabled locally''))"
  "fixedFailure (failedResult (errNew ''log reading is not enabled locally''))"
  "fixedFailure (failedResult (errNew ''container action is not enabled locally''))"
  "fixedFailure (failedResult (errNew ''Nginx action is not enabled locally''))"
  "fixedFailure (failedResult (errNew ''Nginx configuration reading is not enabled locally''))"
  "fixedFailure (failedResult (errNew ''Nginx configuration writing is not enabled locally''))"
  "fixedFailure (failedResult (errNew ''invalid Nginx configuration write request''))"
  "fixedFailure (failedResult (errNew ''PHP-FPM configuration writing is not enabled locally''))"
  "fixedFailure (failedResult (errNew ''invalid PHP-FPM configuration write request''))"
  "fixedFailure (failedResult (errNew ''PM2 log reading is not enabled locally''))"
  "fixedFailure (failedResult (errNew ''cron writing is not enabled locally''))"
  "fixedFailure (failedResult (errNew ''invalid cron job payload''))"
  "fixedFailure (failedResult (errNew ''firewall writing is not enabled locally''))"
  "fixedFailure (failedResult (errNew ''invalid firewall rule payload''))"
  "fixedFailure (failedResult (errNew ''file writing is not enabled locally''))"
  "fixedFailure (failedResult (errNew ''invalid file content''))"
  "fixedFailure (failedResult (errNew ''project domain action request is invalid or disabled locally''))"
  "fixedFailure (failedResult (errNew ''project domain create request is invalid''))"
  "fixedFailure (failedResult (errNew ''project domain ensure request requires exactly target, domain, action, and expected_revision''))"
  "fixedFailure (failedResult (errNew ''project domain delete request is invalid''))"
  "fixedFailure (failedResult (errNew ''project TLS enable request is invalid''))"
  "fixedFailure (failedResult (errNew ''project TLS disable request is invalid''))"
  "fixedFailure (failedResult (errNew ''project TLS renewal request is invalid''))"
  "fixedFailure (failedResult (errNew ''unsupported project domain action''))"
  "fixedFailure (failedResult (errNew ''unsupported task kind''))"
  "fixedFailure (failedResult (errNew ''agent update status is not enabled locally''))"
  "fixedFailure (failedResult (errNew ''disk cleanup scan is not enabled locally''))"
  "fixedFailure (failedResult (errNew ''container inventory is not enabled locally''))"
  "fixedFailure (failedResult (errNew ''PHP-FPM inventory is not enabled locally''))"
  "fixedFailure (failedResult (errNew ''PHP-FPM configuration reading is not enabled locally''))"
  "fixedFailure (failedResult (errNew ''PHP-FPM action is not enabled locally''))"
  "fixedFailure (failedResult (errNew ''PM2 inventory is not enabled locally''))"
  "fixedFailure (failedResult (errNew ''PM2 action is not enabled locally''))"
  "fixedFailure (failedResult (errNew ''cron inventory is not enabled locally''))"
  "fixedFailure (failedResult (errNew ''cron deletion is not enabled locally''))"
  "fixedFailure (failedResult (errNew ''manual cron execution is not enabled locally''))"
  "fixedFailure (failedResult (errNew ''firewall inventory is not enabled locally''))"
  "fixedFailure (failedResult (errNew ''firewall deletion is not enabled locally''))"
  "fixedFailure (failedResult (errNew ''domain inventory is not enabled locally''))"
  "fixedFailure (failedResult (errNew ''domain actions are not enabled locally''))"
  "fixedFailure (failedResult (errNew ''SSL certificate inventory is not enabled locally''))"
  "fixedFailure (failedResult (errNew ''SSL certificate actions are not enabled locally''))"
  "fixedFailure (failedResult (errNew ''database inventory is not enabled locally''))"
  "fixedFailure (failedResult (errNew ''database actions are not enabled locally''))"
  "fixedFailure (failedResult (errNew ''backup inventory is not enabled locally''))"
  "fixedFailure (failedResult (errNew ''backup execution is not enabled locally''))"
  "fixedFailure (failedResult (errNew ''file browsing is not enabled locally''))"
  "fixedFailure (failedResult (errNew ''file reading is not enabled locally''))"
  "fixedFailure (failedResult (errNew ''deploy inventory is not enabled locally''))"
  "fixedFailure (failedResult (errNew ''deploy action request is invalid or disabled locally''))"
  "fixedFailure (failedResult (errNew ''project domain inventory request is invalid or disabled locally''))"
  "fixedFailure (failedResult (errNew ''project domain health request is invalid or disabled locally''))"
  by (simp_all add: fixed_defs)

lemma refusal_metrics_text:
  "fixedFailure \<lparr>res_Status = TaskStatusFailed, res_Result = [], res_Error = MetricsUnavailableError\<rparr>"
  by (simp add: fixed_defs MetricsUnavailableError_def)

lemma refusalA: "dispatchA e kind p = Some (Inl res) \<Longrightarrow> fixedFailure res"
  unfolding dispatchA_def
  by (auto simp: plainCall_def dispatchUpdateAction_def dispatchMetrics_def dispatchServiceStatus_def dispatchServiceAction_def
      dispatchHostAction_def dispatchProcessSignal_def dispatchDiskExecute_def dispatchLogs_def dispatchContainerAction_def
      dispatchNginxAction_def dispatchNginxRead_def dispatchNginxWrite_def Let_def refusal_metrics_text
      split: if_splits option.splits)

lemma refusalB: "dispatchB e kind p = Some (Inl res) \<Longrightarrow> fixedFailure res"
  unfolding dispatchB_def
  by (auto simp: plainCall_def fieldsCall_def dispatchPHPWrite_def dispatchPM2Logs_def dispatchCronWrite_def dispatchFirewallAdd_def
      split: if_splits option.splits)

lemma refusalC: "dispatchC e kind p = Some (Inl res) \<Longrightarrow> fixedFailure res"
  unfolding dispatchC_def
  by (auto simp: plainCall_def fieldsCall_def dispatchFilesWrite_def dispatchDeployDomainAction_def Let_def
      split: if_splits option.splits)

lemma refusal_fixed:
  assumes "dispatch e kind p = Inl res"
  shows "fixedFailure res"
  using assms refusalA [of e kind p res] refusalB [of e kind p res] refusalC [of e kind p res]
  by (auto simp: dispatch_def split: option.splits)

lemma refusal_metrics:
  assumes "dispatch e TaskMetricsRead p = Inl res"
  shows "res = \<lparr>res_Status = TaskStatusFailed, res_Result = [], res_Error = MetricsUnavailableError\<rparr>"
proof -
  have "dispatch e TaskMetricsRead p = dispatchMetrics e p" by (simp add: switch_defs hub_consts)
  then show ?thesis using assms by (simp add: dispatchMetrics_def split: if_splits)
qed


section \<open>The output of a deploy action\<close>

lemma tail_bytes_high:
  assumes "d \<in> set (take (snd (decode_rune c s) - 1) s)"
  shows "0x80 \<le> byte d"
proof -
  have ne: "decode_rune c s \<noteq> (RuneError, 1)" using assms by auto
  then consider (1) "byte c < 0x80" | (2) "0xC2 \<le> byte c" "byte c < 0xE0"
    | (3) "0xE0 \<le> byte c" "byte c < 0xF0" | (4) "0xF0 \<le> byte c" "byte c < 0xF5"
    by (fastforce simp: decode_rune_def Let_def split: if_splits)
  then show ?thesis
  proof cases
    case 1
    then show ?thesis using assms by (simp add: decode_rune_ascii)
  next
    case 2
    then obtain c1 t where s: "s = c1 # t" "cont_byte c1" using ne by (auto simp: decode_rune_def Let_def split: list.splits if_splits)
    then have "snd (decode_rune c s) = 2" using 2 by (simp add: decode_rune_def)
    then show ?thesis using assms s by (simp add: cont_byte_def)
  next
    case 3
    then obtain c1 c2 t where s: "s = c1 # c2 # t" "0x80 \<le> byte c1" "cont_byte c2"
      using ne by (auto simp: decode_rune_def Let_def split: list.splits if_splits)
    have "snd (decode_rune c s) = 3" using ne 3 by (simp add: decode_rune_def Let_def s(1) split: if_splits)
    then show ?thesis using assms s by (auto simp: cont_byte_def numeral_2_eq_2)
  next
    case 4
    then obtain c1 c2 c3 t where s: "s = c1 # c2 # c3 # t" "0x80 \<le> byte c1" "cont_byte c2" "cont_byte c3"
      using ne by (auto simp: decode_rune_def Let_def split: list.splits if_splits)
    have "snd (decode_rune c s) = 4" using ne 4 by (simp add: decode_rune_def Let_def s(1) split: if_splits)
    then show ?thesis using assms s by (auto simp: cont_byte_def numeral_3_eq_3)
  qed
qed

lemma ascii_byte_rune:
  "c \<in> set s \<Longrightarrow> byte c < 0x80 \<Longrightarrow> byte c \<in> set (runes s)"
proof (induction s rule: rune_list.induct)
  case (2 d s)
  let ?n = "snd (decode_rune d s) - 1"
  have "c = d \<or> c \<in> set (take ?n s) \<or> c \<in> set (drop ?n s)"
    using 2(2) by (metis Un_iff append_take_drop_id set_ConsD set_append)
  then show ?case
  proof (elim disjE)
    assume "c = d" then show ?thesis using 2(3) by (simp add: runes_def decode_rune_ascii)
  next
    assume "c \<in> set (take ?n s)" then show ?thesis using tail_bytes_high 2(3) by fastforce
  next
    assume "c \<in> set (drop ?n s)" then show ?thesis using 2(1,3) by (simp add: runes_def)
  qed
qed simp

lemma newline_control:
  assumes "CHR 0x0A \<in> set s"
  shows "containsControl s"
proof -
  have "10 \<in> set (runes s)" using ascii_byte_rune [OF assms] by simp
  moreover have "IsControl 10" by (simp add: IsControl_def)
  ultimately show ?thesis by (auto simp: containsControl_def list_ex_iff)
qed

text \<open>
  A deploy action whose output has more than one line cannot be reported: the agent puts the
  output into the result as it is, the hub refuses every result with a control character, and so the
  report of that deploy is refused, whether the action succeeded or failed, and the database does not
  change. The task stays running.
\<close>

theorem multiline_deploy_refused:
  assumes "dispatch e (task_Kind task) (task_Payload task) = Inr (DeployRun target action)"
    "task_Kind task \<noteq> TaskProfileApply" "task_Kind task \<noteq> TaskIntegrationStatus"
    "en_perform env (DeployRun target action) s = (reply, s')" "CHR 0x0A \<in> set (rp_Output reply)"
    "validNodeID n" "0 < i"
  shows "snd (execute e env task s) = s'
    \<and> CompleteTaskForNode db clock n i (fst (execute e env task s)) = (db, Inl ErrInvalidInput)"
proof -
  let ?res = "finish (DeployRun target action) reply"
  have run: "execute e env task s = (?res, s')"
    using assms(1-4) by (simp add: execute_def executeCall_def)
  have "list_ex badResultField (res_Result ?res)"
    using newline_control [OF assms(5)]
    by (auto simp: finish_def completed_def badResultField_def split: option.splits)
  then have "ValidateTaskResultRequest ?res = invalid"
    by (auto simp: ValidateTaskResultRequest_def refuse_if_def)
  then show ?thesis using run assms(6,7) by (simp add: CompleteTaskForNode_def)
qed

section \<open>Examples\<close>

definition demoReply :: call_reply where
  "demoReply = \<lparr>rp_Err = None, rp_Text = ''done'', rp_Output = ''pull'' @ [CHR 0x0A] @ ''restart'', rp_Value = Inr JNull,
     rp_Service = \<lparr>svc_Name = ''nginx'', svc_Active = ''active'', svc_Sub = ''running''\<rparr>, rp_Exited = True, rp_Confirmed = True\<rparr>"

definition demoEnv :: "unit agent_env" where
  "demoEnv = \<lparr>en_perform = (\<lambda>_ s. (demoReply, s)), en_apply = (\<lambda>_ s. (Inl profileErrorStore, s)),
     en_probes = (\<lambda>s. ((None, None), s)), en_now = demoTime\<rparr>"

definition demoDeploy :: Task where
  "demoDeploy = \<lparr>task_ID = 9, task_NodeID = ''node-1'', task_Kind = TaskDeployAction,
     task_Payload = [(''action'', ''deploy''), (''target'', ''app'')], task_Status = TaskStatusRunning, task_Result = [],
     task_Error = [], task_CreatedAt = demoTime, task_StartedAt = Some demoTime, task_CompletedAt = None\<rparr>"

lemma dispatch_deploy:
  "dispatch e TaskDeployAction p =
     fieldsCall 2 p (te_deploys e \<and> agentNginxConfigNamePattern (gget p ''target'') \<and> validAgentDeployAction (gget p ''action''))
       (DeployRun (gget p ''target'') (gget p ''action'')) ''deploy action request is invalid or disabled locally''"
  by (simp add: switch_defs hub_consts)

lemma multiline_deploy_refused_witness:
  "CompleteTaskForNode demoDB (\<lambda>_. demoTime) ''node-1'' 9 (fst (execute demoExecutor demoEnv demoDeploy ()))
     = (demoDB, Inl ErrInvalidInput)"
proof -
  have "dispatch demoExecutor TaskDeployAction (task_Payload demoDeploy) = Inr (DeployRun ''app'' ''deploy'')"
    by (simp add: dispatch_deploy fieldsCall_def demoExecutor_def demoDeploy_def patterns_agree validNginxConfigName_def word_name_def
        first_rest_def ascii_runes asciiLetterOrDigit_def validAgentDeployAction_def gget_def)
  then have "dispatch demoExecutor (task_Kind demoDeploy) (task_Payload demoDeploy) = Inr (DeployRun ''app'' ''deploy'')"
    by (simp add: demoDeploy_def)
  moreover have "task_Kind demoDeploy \<noteq> TaskProfileApply" "task_Kind demoDeploy \<noteq> TaskIntegrationStatus"
    by (simp_all add: demoDeploy_def hub_consts)
  ultimately show ?thesis
    using multiline_deploy_refused [of demoExecutor demoDeploy "''app''" "''deploy''" demoEnv "()" demoReply "()" "''node-1''" 9]
    by (simp add: demoEnv_def demo_validNodeID) (simp add: demoReply_def)
qed

text \<open>An executor that has nothing enabled.\<close>

definition bareExecutor :: taskExecutor where
  "bareExecutor =
     \<lparr>te_host = False, te_disk = False, te_logs = False, te_containers = False, te_nginx = False, te_php = False, te_pm2 = False,
      te_cron = False, te_firewall = False, te_domains = False, te_ssl = False, te_databases = False, te_backups = False,
      te_files = False, te_deploys = False, te_deployDomains = False, te_agentUpdates = False, te_profileApply = False,
      te_metrics = False, te_observed = [], te_allowed = [], te_allowedHostActions = [],
      te_allowProcessSignals = False, te_allowAgentUpdates = False\<rparr>"

lemma dispatch_bare: "\<exists>res. dispatch bareExecutor TaskServiceAction p = Inl res"
proof -
  have "dispatch bareExecutor TaskServiceAction p = dispatchServiceAction bareExecutor p" by (simp add: switch_defs hub_consts)
  moreover have "te_allowed bareExecutor = []" by (simp add: bareExecutor_def)
  ultimately show ?thesis by (auto simp: dispatchServiceAction_def split: option.splits)
qed


end
