(* ===== verification/GoCalendar.thy ===== *)
theory GoCalendar
  imports GoDecode
begin

text \<open>
  The text of an instant reads back: \<^verbatim>\<open>time.Parse\<close> of the RFC3339Nano text gives the instant, for the years
  that \<^verbatim>\<open>MarshalJSON\<close> accepts. The calendar part rests on the decomposition of a day within a
  400-year era into centuries, four-year cycles, years and days.
\<close>

section \<open>Days and dates\<close>

lemma era_parts:
  fixes doe :: int
  assumes "0 \<le> doe" "doe < 146097"
  obtains c q s t where "doe = 36524 * c + 1461 * q + 365 * s + t" "0 \<le> c" "c \<le> 3" "0 \<le> q" "q \<le> 24" "0 \<le> s" "s \<le> 3"
    "0 \<le> t" "t \<le> 365" "t = 365 \<Longrightarrow> s = 3 \<and> (q = 24 \<longrightarrow> c = 3)"
proof -
  define c where "c = min 3 (doe div 36524)"
  define r where "r = doe - 36524 * c"
  have "c = 3 \<or> r = doe mod 36524" by (auto simp: c_def r_def min_def minus_mult_div_eq_mod)
  then have last: "r = 36524 \<Longrightarrow> c = 3" using pos_mod_bound [of 36524 doe] by auto
  have c: "0 \<le> c" "c \<le> 3" "0 \<le> r" "r \<le> 36524"
    using assms by (auto simp: c_def r_def min_def)
  define q where "q = r div 1461"
  define p where "p = r mod 1461"
  have q: "r = 1461 * q + p" "0 \<le> p" "p \<le> 1460" "0 \<le> q" by (simp_all add: q_def p_def c(3) pos_imp_zdiv_nonneg_iff)
  have q24: "q \<le> 24" "q = 24 \<Longrightarrow> p = 1460 \<Longrightarrow> c = 3" using q c(4) last by auto
  define s where "s = min 3 (p div 365)"
  define t where "t = p - 365 * s"
  have "s = 3 \<or> t = p mod 365" by (auto simp: s_def t_def min_def minus_mult_div_eq_mod)
  then have "t = 365 \<Longrightarrow> s = 3" using pos_mod_bound [of 365 p] by auto
  then have s3: "t = 365 \<Longrightarrow> s = 3 \<and> p = 1460" by (auto simp: t_def)
  have u: "365 * (p div 365) \<le> p" "p < 365 * (p div 365) + 365" by simp_all
  have s: "0 \<le> s" "s \<le> 3" "0 \<le> t" "t \<le> 365"
    using q(2,3) u unfolding s_def t_def by linarith+
  show thesis
  proof (rule that)
    show "doe = 36524 * c + 1461 * q + 365 * s + t" using q(1) by (simp add: r_def t_def)
    show "t = 365 \<Longrightarrow> s = 3 \<and> (q = 24 \<longrightarrow> c = 3)" using s3 q24(2) by blast
  qed (fact c q24 q s)+
qed

text \<open>The year within the era and the day within the year, as the conversion computes them.\<close>

lemma era_year:
  fixes doe :: int
  assumes "doe = 36524 * c + 1461 * q + 365 * s + t" "0 \<le> c" "c \<le> 3" "0 \<le> q" "q \<le> 24" "0 \<le> s" "s \<le> 3"
    "0 \<le> t" "t \<le> 365" "t = 365 \<Longrightarrow> s = 3 \<and> (q = 24 \<longrightarrow> c = 3)"
  shows "(doe - doe div 1460 + doe div 36524 - doe div 146096) div 365 = 100 * c + 4 * q + s"
    and "365 * (100 * c + 4 * q + s) + (100 * c + 4 * q + s) div 4 - (100 * c + 4 * q + s) div 100 = doe - t"
proof -
  let ?a = "100 * c + 4 * q + s"
  define k :: int where "k = (if 1460 \<le> 24 * c + 365 * s + q + t then 1 else 0)"
  have d1: "doe div 1460 = 25 * c + q + k"
    by (rule int_div_pos_eq [of _ _ _ "24 * c + 365 * s + q + t - 1460 * k"]) (use assms in \<open>auto simp: k_def\<close>)
  have d2: "doe div 36524 - doe div 146096 = c"
  proof (cases "doe = 146096")
    case True
    then have "c = 3" using assms by auto
    then show ?thesis using True by simp
  next
    case False
    have r: "1461 * q + 365 * s + t < 36524"
    proof (rule ccontr)
      assume "\<not> ?thesis"
      then have "t = 365" "s = 3" "q = 24" using assms by auto
      then show False using False assms by auto
    qed
    have "doe div 36524 = c" by (rule int_div_pos_eq [of _ _ _ "1461 * q + 365 * s + t"]) (use assms r in auto)
    moreover have "doe div 146096 = 0" using assms r False by (intro div_pos_pos_trivial) auto
    ultimately show ?thesis by simp
  qed
  have "doe - doe div 1460 + doe div 36524 - doe div 146096 = 365 * ?a + (t - k)"
    using d1 d2 assms(1) by simp
  moreover have "0 \<le> t - k" "t - k < 365" using assms by (cases "t = 365"; auto simp: k_def)+
  ultimately show "(doe - doe div 1460 + doe div 36524 - doe div 146096) div 365 = ?a"
    by (intro int_div_pos_eq [of _ _ _ "t - k"]) auto
  have "?a div 4 = 25 * c + q" by (rule int_div_pos_eq [of _ _ _ s]) (use assms in auto)
  moreover have "?a div 100 = c" by (rule int_div_pos_eq [of _ _ _ "4 * q + s"]) (use assms in auto)
  ultimately show "365 * ?a + ?a div 4 - ?a div 100 = doe - t" using assms(1) by simp
qed

text \<open>The month, counted from March, and the day of the month.\<close>

lemma month_parts:
  fixes t :: int
  assumes "0 \<le> t" "t \<le> 365"
  defines "mp \<equiv> (5 * t + 2) div 153"
  defines "d \<equiv> t - (153 * mp + 2) div 5 + 1"
  shows "0 \<le> mp" "mp \<le> 11" "1 \<le> d"
    "d \<le> (if mp = 11 then (if t = 365 then 29 else 28) else if mp \<in> {1, 3, 6, 8} then 30 else 31)"
proof -
  have b: "153 * mp \<le> 5 * t + 2" "5 * t + 2 < 153 * mp + 153" by (simp_all add: mp_def)
  show m: "0 \<le> mp" "mp \<le> 11" using assms(1,2) by (simp_all add: mp_def)
  then have "mp \<in> {0, 1, 2, 3, 4, 5, 6, 7, 8, 9, 10, 11}" by (simp only: insert_iff empty_iff) presburger
  then show "1 \<le> d" "d \<le> (if mp = 11 then (if t = 365 then 29 else 28) else if mp \<in> {1, 3, 6, 8} then 30 else 31)"
    using b assms(2) by (auto simp: d_def)
qed

lemma civil_date:
  assumes "civil days = (y, m, d)"
  shows "1 \<le> m" "m \<le> 12" "1 \<le> d" "0 \<le> y \<Longrightarrow> d \<le> int (days_in (nat m) (nat y))" "days_of y m d = days"
proof -
  define z where "z = days + 306"
  define era where "era = z div 146097"
  define doe where "doe = z mod 146097"
  have z: "z = era * 146097 + doe" "0 \<le> doe" "doe < 146097" by (simp_all add: era_def doe_def)
  obtain c q s t where parts: "doe = 36524 * c + 1461 * q + 365 * s + t" "0 \<le> c" "c \<le> 3" "0 \<le> q" "q \<le> 24" "0 \<le> s" "s \<le> 3"
    "0 \<le> t" "t \<le> 365" "t = 365 \<Longrightarrow> s = 3 \<and> (q = 24 \<longrightarrow> c = 3)" using era_parts [OF z(2,3)] by metis
  define a where "a = 100 * c + 4 * q + s"
  have yoe: "(doe - doe div 1460 + doe div 36524 - doe div 146096) div 365 = a"
    and doy: "doe - (365 * a + a div 4 - a div 100) = t"
    using era_year [OF parts] by (simp_all add: a_def)
  have a: "0 \<le> a" "a < 400" using parts by (simp_all add: a_def)
  define mp where "mp = (5 * t + 2) div 153"
  note month = month_parts [OF parts(8,9), folded mp_def]
  have civ: "y = a + era * 400 + (if mp < 10 then 0 else 1)" "m = (if mp < 10 then mp + 3 else mp - 9)" "d = t - (153 * mp + 2) div 5 + 1"
    using assms month(1,2) unfolding civil_def Let_def z_def [symmetric] era_def [symmetric] doe_def [symmetric] yoe doy mp_def [symmetric]
    by (auto split: if_splits)
  show m: "1 \<le> m" "m \<le> 12" and d: "1 \<le> d" using month civ by auto
  have y': "(if m \<le> 2 then y - 1 else y) = a + era * 400" using civ month(1,2) by auto
  have mp: "(m + 9) mod 12 = mp" using civ(2) month(1,2) by auto
  have "(a + era * 400) div 400 = era" "(a + era * 400) mod 400 = a" using a by auto
  then show "days_of y m d = days"
    unfolding days_of_def Let_def y' mp using civ(3) doy z(1) by (simp add: z_def)
  assume y: "0 \<le> y"
  show "d \<le> int (days_in (nat m) (nat y))"
  proof (cases "mp = 11")
    case False
    then have "nat m \<noteq> 2" "nat m \<in> {4, 6, 9, 11} \<longleftrightarrow> mp \<in> {1, 3, 6, 8}" using civ(2) month(1,2) by auto
    then show ?thesis using month(4) civ(3) False by (auto simp: days_in_def split: if_splits)
  next
    case True
    then have "m = 2" using civ(2) by simp
    moreover have "leap (nat y)" if "t = 365"
    proof -
      have e: "s = 3" "q = 24 \<longrightarrow> c = 3" using parts(10) [OF that] by auto
      have yy: "y = 4 * (25 * c + q + 1 + 100 * era)" using civ(1) True e(1) by (simp add: a_def)
      then have "y mod 4 = 0" by simp
      moreover have "y mod 100 \<noteq> 0 \<or> y mod 400 = 0"
      proof (cases "q = 24")
        case True
        then have "y = 400 * (era + 1)" using e yy by simp
        then show ?thesis by simp
      next
        case False
        have "y = (c + 4 * era) * 100 + (4 * q + 4)" using yy by simp
        then have "y mod 100 = (4 * q + 4) mod 100" by (simp only: mod_mult_self3)
        then have "y mod 100 = 4 * q + 4" using False parts(4,5) by simp
        then show ?thesis using parts(4) by simp
      qed
      ultimately show ?thesis using y by (simp add: leap_def nat_eq_iff flip: nat_mod_distrib) (auto simp: zmod_int nat_mod_as_int)
    qed
    ultimately show ?thesis using month(4) civ(3) True by (auto simp: days_in_def split: if_splits)
  qed
qed

section \<open>Digits\<close>

lemma pad_length [simp]: "length (pad w n) = w"
  by (induction w arbitrary: n) simp_all

lemma pad_digits: "list_all (\<lambda>c. asciiDigit (byte c)) (pad w n)"
  by (induction w arbitrary: n) (auto simp: asciiDigit_def)

lemma pad_val: "dec_val 0 (pad w n) = n mod 10 ^ w"
proof (induction w arbitrary: n)
  case (Suc w)
  have "n mod 10 ^ Suc w = 10 * (n div 10 mod 10 ^ w) + n mod 10"
    by (simp add: mod_mult2_eq)
  then show ?case using Suc by (simp add: dec_val_append)
qed simp

lemma digit1_digit: "k < 10 \<Longrightarrow> digit1 (char_of (48 + k) # r) = Some (k, r)"
  by (simp add: digit1_def asciiDigit_def)

lemma digits2_pad: "n < 100 \<Longrightarrow> digits2 (pad 2 n @ r) = Some (n, r)"
  by (simp add: numeral_2_eq_2 digits2_def digit1_digit)

lemma digits4_pad:
  assumes "n < 10000"
  shows "digits4 (pad 4 n @ r) = Some (n, r)"
proof -
  have hundred: "n div 10 div 10 = n div 100" by (simp flip: div_mult2_eq)
  have w: "(4 :: nat) = Suc (Suc (Suc (Suc 0)))" by simp
  have "pad 4 n = pad 2 (n div 100) @ pad 2 n"
    unfolding w numeral_2_eq_2 by (simp add: hundred)
  moreover have "n mod 100 = 10 * (n div 10 mod 10) + n mod 10" using mod_mult2_eq [of n 10 10] by simp
  then have "pad 2 n = pad 2 (n mod 100)" by (simp add: numeral_2_eq_2)
  ultimately show ?thesis using assms digits2_pad [of "n div 100"] digits2_pad [of "n mod 100" r] by (simp add: digits4_def)
qed

lemma digits12_pad: "n < 100 \<Longrightarrow> digits12 (pad 2 n @ r) = Some (n, r)"
  by (simp add: digits12_def digits2_pad)

lemma expect_same [simp]: "expect c (c # r) = Some r"
  by (simp add: expect_def)

section \<open>The parts of the text\<close>

lemma parse_date_civil:
  assumes "civil days = (y, m, d)" "0 \<le> y" "y \<le> 9999"
  shows "parse_date (pad 4 (nat y) @ ''-'' @ pad 2 (nat m) @ ''-'' @ pad 2 (nat d) @ r) = Some (days, r)"
proof -
  note c = civil_date [OF assms(1)]
  have "days_in k n \<le> 31" for k n by (simp add: days_in_def)
  then have d: "d \<le> 31" "nat d \<le> days_in (nat m) (nat y)" using c(4) [OF assms(2)] by (auto simp: nat_le_iff intro: order_trans)
  then show ?thesis
    using assms c by (simp add: parse_date_def digits4_pad digits2_pad)
qed

lemma parse_clock_text:
  assumes "0 \<le> secs" "secs < 86400"
  shows "parse_clock (pad 2 (nat (secs div 3600)) @ '':'' @ pad 2 (nat (secs div 60 mod 60)) @ '':'' @ pad 2 (nat (secs mod 60)) @ r)
    = Some (secs, r)"
proof -
  have b: "nat (secs div 3600) < 24" "nat (secs div 60 mod 60) < 60" "nat (secs mod 60) < 60" using assms by auto
  have "secs div 3600 = secs div 60 div 60" by (simp flip: zdiv_zmult2_eq)
  then have "secs div 3600 * 3600 + secs div 60 mod 60 * 60 + secs mod 60 = secs"
    using div_mult_mod_eq [of "secs div 60" 60] div_mult_mod_eq [of secs 60] by linarith
  then show ?thesis
    using b assms by (simp add: parse_clock_def digits12_pad digits2_pad pos_imp_zdiv_nonneg_iff)
qed

lemma trim_zeros_split: "\<exists>k. s = trim_zeros s @ replicate k (CHR ''0'')"
proof -
  have "takeWhile (\<lambda>c. c = CHR ''0'') (rev s) = replicate (length (takeWhile (\<lambda>c. c = CHR ''0'') (rev s))) (CHR ''0'')"
    by (induction s rule: rev_induct) auto
  moreover have "s = rev (dropWhile (\<lambda>c. c = CHR ''0'') (rev s)) @ rev (takeWhile (\<lambda>c. c = CHR ''0'') (rev s))"
    by (metis rev_append rev_rev_ident takeWhile_dropWhile_id)
  ultimately show ?thesis by (metis rev_replicate trim_zeros_def)
qed

lemma dec_val_zeros: "dec_val a (replicate k (CHR ''0'')) = a * 10 ^ k"
  by (induction k arbitrary: a) simp_all

lemma fraction_text:
  assumes "n < 10 ^ 9"
  defines "fr \<equiv> trim_zeros (pad 9 n)"
  shows "fraction ((if fr = [] then [] else CHR ''.'' # fr) @ ''Z'') = (int n, ''Z'')"
proof -
  obtain k where k: "pad 9 n = fr @ replicate k (CHR ''0'')" using trim_zeros_split by (metis fr_def)
  have len: "length fr + k = 9" using arg_cong [OF k, of length] by simp
  have val: "n = dec_val 0 fr * 10 ^ k"
    using arg_cong [OF k, of "dec_val 0"] assms(1) by (simp add: pad_val dec_val_append dec_val_zeros)
  have digits: "list_all (\<lambda>c. asciiDigit (byte c)) fr" using pad_digits [of 9 n] unfolding k by simp
  show ?thesis
  proof (cases fr)
    case Nil
    then show ?thesis using val by (simp add: fraction_def)
  next
    case (Cons c cs)
    have z: "\<not> asciiDigit (byte (CHR ''Z''))" by (simp add: asciiDigit_def)
    have tw: "takeWhile (\<lambda>x. asciiDigit (byte x)) (fr @ ''Z'') = fr" "dropWhile (\<lambda>x. asciiDigit (byte x)) (fr @ ''Z'') = ''Z''"
      using digits z by (auto simp: takeWhile_append dropWhile_append list_all_iff)
    show ?thesis
      using tw digits len val Cons by (auto simp add: fraction_def Let_def)
  qed
qed

text \<open>
  The text of an instant whose year has at most four digits parses to the instant, in UTC.
\<close>

theorem rfc3339_roundtrip:
  assumes "marshal_time t = Some tx"
  shows "parse_rfc3339 tx = Some (t, 0)"
proof -
  define days rest where "days = t div (86400 * Second)" and "rest = t mod (86400 * Second)"
  define secs ns where "secs = rest div Second" and "ns = rest mod Second"
  obtain y m d where civ: "civil days = (y, m, d)" by (metis prod_cases3)
  have y: "0 \<le> y" "y \<le> 9999" and tx: "tx = rfc3339nano t"
    using assms civ by (auto simp: marshal_time_def days_def split: if_splits)
  have bounds: "0 \<le> rest" "rest < 86400 * Second" "0 \<le> secs" "secs < 86400" "0 \<le> ns" "ns < Second"
    by (simp_all add: days_def rest_def secs_def ns_def Second_def pos_imp_zdiv_nonneg_iff)
  define fr where "fr = trim_zeros (pad 9 (nat ns))"
  have eq: "tx = pad 4 (nat y) @ ''-'' @ pad 2 (nat m) @ ''-'' @ pad 2 (nat d) @ CHR ''T''
        # pad 2 (nat (secs div 3600)) @ '':'' @ pad 2 (nat (secs div 60 mod 60)) @ '':''
        @ pad 2 (nat (secs mod 60)) @ (if fr = [] then [] else CHR ''.'' # fr) @ ''Z''"
    using civ by (simp add: tx rfc3339nano_def Let_def days_def rest_def secs_def ns_def fr_def)
  have "fraction ((if fr = [] then [] else CHR ''.'' # fr) @ ''Z'') = (ns, ''Z'')"
    using fraction_text [of "nat ns"] bounds(5,6) unfolding fr_def [symmetric] by (simp add: Second_def nat_less_iff)
  moreover have "(days * 86400 + secs - 0) * Second + ns = t"
    using div_mult_mod_eq [of t "86400 * Second"] div_mult_mod_eq [of rest Second]
    by (simp add: days_def rest_def secs_def ns_def algebra_simps)
  ultimately show ?thesis
    unfolding eq parse_rfc3339_def using parse_date_civil [OF civ y] parse_clock_text [OF bounds(3,4)] by (simp add: zone_def)
qed

end
