(* ===== verification/GoRaw.thy ===== *)
theory GoRaw
  imports GoCalendar
begin

text \<open>
  Structs and times in texts that the encoder has written: the members of a printed object under
  their field names, and the raw literals that \<^verbatim>\<open>time.Time\<close> is decoded from. In a text whose strings are
  plain a raw literal is the string itself.
\<close>

section \<open>Exact keys\<close>

lemma opt_seq_Some: "opt_seq (map Some xs) = Some xs"
  by (induction xs) simp_all

lemma struct_members_exact:
  assumes "\<forall>m \<in> set ms. fst m \<in> set names"
  shows "struct_members names (JObj ms) = Some ms"
proof -
  have "map (name_member names) ms = map Some ms"
    using assms by (auto simp: field_of_def)
  then show ?thesis by (simp only: struct_members_def json.case opt_seq_Some)
qed

section \<open>Plain texts\<close>

text \<open>Printable ASCII that the encoder writes as it is.\<close>

definition plain :: "string \<Rightarrow> bool" where
  "plain s = list_all (\<lambda>c. plain_char c \<and> byte c < 0x7F) s"

lemma plain_simps [simp]:
  "plain []" "plain (a @ b) \<longleftrightarrow> plain a \<and> plain b"
  by (simp_all add: plain_def)

lemma plain_chars: "plain s \<Longrightarrow> list_all plain_char s"
  by (auto simp: plain_def list_all_iff)

lemma plain_valid: "plain s \<Longrightarrow> utf8_valid s"
  by (rule utf8_valid_ascii) (auto simp: plain_def list_all_iff)

fun json_plain :: "json \<Rightarrow> bool" and plain_elems :: "json list \<Rightarrow> bool"
  and plain_members :: "(string \<times> json) list \<Rightarrow> bool" where
  "json_plain (JNum n) = list_all num_char n"
| "json_plain (JStr s) = plain s"
| "json_plain (JArr vs) = plain_elems vs"
| "json_plain (JObj ms) = plain_members ms"
| "json_plain _ = True"
| "plain_elems [] = True"
| "plain_elems (v # vs) = (json_plain v \<and> plain_elems vs)"
| "plain_members [] = True"
| "plain_members ((k, v) # ms) = (plain k \<and> json_plain v \<and> plain_members ms)"

text \<open>The strings of a value, keys included, in the order of its text.\<close>

fun strs :: "json \<Rightarrow> string list" and strs_elems :: "json list \<Rightarrow> string list"
  and strs_members :: "(string \<times> json) list \<Rightarrow> string list" where
  "strs (JStr s) = [s]"
| "strs (JArr vs) = strs_elems vs"
| "strs (JObj ms) = strs_members ms"
| "strs _ = []"
| "strs_elems [] = []"
| "strs_elems (v # vs) = strs v @ strs_elems vs"
| "strs_members [] = []"
| "strs_members ((k, v) # ms) = k # strs v @ strs_members ms"

lemma raw_in_plain: "plain s \<Longrightarrow> raw_in acc (s @ DQ # u) = (rev acc @ s) # raw_strs u"
  by (induction s arbitrary: acc) (auto simp: plain_def plain_char_def)

lemma raw_strs_str: "plain s \<Longrightarrow> raw_strs (enc_str s @ u) = s # raw_strs u"
  using raw_in_plain [of s "[]" u] by (simp add: enc_str_plain plain_chars)

lemma raw_strs_num: "list_all num_char n \<Longrightarrow> raw_strs (n @ u) = raw_strs u"
  by (induction n) (auto simp: num_char_ne)

lemma raw_strs_print:
  "json_plain v \<Longrightarrow> raw_strs (json_print v @ u) = strs v @ raw_strs u"
  "plain_elems vs \<Longrightarrow> raw_strs (print_elems vs @ u) = strs_elems vs @ raw_strs u"
  "plain_members ms \<Longrightarrow> raw_strs (print_members ms @ u) = strs_members ms @ raw_strs u"
  by (induction v and vs and ms arbitrary: u and u and u rule: json_print_print_elems_print_members.induct)
     (simp_all add: raw_strs_str raw_strs_num)

lemma plain_length:
  "plain s \<Longrightarrow> length (enc_str s) = length s + 2"
  by (simp add: enc_str_plain plain_chars)

section \<open>The raw members of an object\<close>

definition closes :: "jtok \<Rightarrow> bool" where
  "closes t = (t = TComma \<or> t = TRBrace \<or> t = TRBrack)"

lemma closes_token: "closes t \<Longrightarrow> token_str t = None \<and> t \<noteq> TColon"
  by (auto simp: closes_def)

lemma closes_simps [simp]: "closes TComma" "closes TRBrace" "closes TRBrack"
  by (simp_all add: closes_def)

text \<open>Below the outermost object nothing is collected, and what ends a value resets the state.\<close>

lemma member_raws_inner:
  "2 \<le> d \<Longrightarrow> closes t \<Longrightarrow> member_raws (toks v @ t # ts) d (strs v @ rs) key colon = member_raws ts (token_depth d t) rs None False"
  "2 \<le> d \<Longrightarrow> member_raws (toks_elems vs @ TRBrack # ts) d (strs_elems vs @ rs) key colon = member_raws ts (d - 1) rs None False"
  "2 \<le> d \<Longrightarrow> member_raws (toks_members ms @ TRBrace # ts) d (strs_members ms @ rs) key colon = member_raws ts (d - 1) rs None False"
  by (induction v and vs and ms arbitrary: d t ts rs key colon and d ts rs key colon and d ts rs key colon
      rule: toks_toks_elems_toks_members.induct)
     (simp_all add: closes_token split: option.splits)

lemma member_raws_value:
  assumes "\<And>s. v \<noteq> JStr s" "closes t"
  shows "member_raws (toks v @ t # ts) 1 (strs v @ rs) key colon = member_raws ts (token_depth 1 t) rs None False"
  using assms by (cases v) (auto simp: closes_def member_raws_inner)

definition string_members :: "(string \<times> json) list \<Rightarrow> (string \<times> string) list" where
  "string_members ms = concat (map (\<lambda>(k, v). case json_string v of None \<Rightarrow> [] | Some s \<Rightarrow> [(k, s)]) ms)"

lemma string_members_simps [simp]:
  "string_members [] = []" "string_members ((k, JStr s) # ms) = (k, s) # string_members ms"
  "json_string v = None \<Longrightarrow> string_members ((k, v) # ms) = string_members ms"
  by (simp_all add: string_members_def)

lemma member_raws_member:
  assumes "closes t"
  shows "member_raws (TStr k # TColon # toks v @ t # ts) 1 (k # strs v @ rs) None False
    = string_members [(k, v)] @ member_raws ts (token_depth 1 t) rs None False"
proof (cases "json_string v")
  case None
  then have "\<And>s. v \<noteq> JStr s" by auto
  from member_raws_value [OF this assms] None show ?thesis by simp
next
  case (Some s)
  then have "v = JStr s" by (cases v) auto
  then show ?thesis using assms by (auto simp: closes_def)
qed

lemma member_raws_top:
  "member_raws (toks_members ms @ TRBrace # ts) 1 (strs_members ms @ rs) None False
     = string_members ms @ member_raws ts 0 rs None False"
proof (induction ms rule: induct_list012)
  case (2 m)
  obtain k v where "m = (k, v)" by (cases m)
  then show ?case using member_raws_member [of TRBrace k v ts rs] by simp
next
  case (3 m m' ms)
  obtain k v where "m = (k, v)" by (cases m)
  then show ?case
    using member_raws_member [of TComma k v "toks_members (m' # ms) @ TRBrace # ts" "strs_members (m' # ms) @ rs"] 3(2)
    by (simp add: string_members_def del: strs_members.simps toks_members.simps)
       (simp add: string_members_def)
qed simp

text \<open>The text of a plain object hands each string member to its decoder unchanged.\<close>

lemma top_raws_print:
  assumes "plain_members ms" "clean_members ms"
  shows "top_raws (json_print (JObj ms)) = string_members ms"
proof -
  have "json_lex (json_print (JObj ms)) = Some (toks (JObj ms))"
    using json_lex_print(1) [of "JObj ms" "[]"] assms(2) by simp
  moreover have "raw_strs (json_print (JObj ms)) = strs_members ms"
    using raw_strs_print(1) [of "JObj ms" "[]"] assms(1) by simp
  ultimately show ?thesis using member_raws_top [of ms "[]" "[]"] by (simp add: top_raws_def)
qed

end
