(* ===== verification/AgentStatusProps.thy ===== *)
theory AgentStatusProps
  imports AgentReports AgentProfileProps GoRaw
begin

text \<open>
  The status document: what \<^verbatim>\<open>Marshal\<close> writes \<^verbatim>\<open>Decode\<close> reads back, and the agent's answer to an
  \<^verbatim>\<open>integration.status\<close> task is one that the hub takes, whatever the probes do.
\<close>

section \<open>Plain parts of the document\<close>

lemma digits_plain: "list_all (\<lambda>c. asciiDigit (byte c)) s \<Longrightarrow> plain s"
proof -
  have "plain_char c \<and> byte c < 0x7F" if "asciiDigit (byte c)" for c
    using that by (auto simp: plain_char_def asciiDigit_def)
  then show "list_all (\<lambda>c. asciiDigit (byte c)) s \<Longrightarrow> plain s" by (auto simp: plain_def list_all_iff)
qed

lemma trim_zeros_digits: "list_all P s \<Longrightarrow> list_all P (trim_zeros s)"
  by (auto simp: trim_zeros_def list_all_iff dest: set_dropWhileD)

lemma trim_zeros_length: "length (trim_zeros s) \<le> length s"
  using length_dropWhile_le [of "\<lambda>c. c = CHR ''0''" "rev s"] by (simp add: trim_zeros_def)

lemma marshal_time_plain:
  assumes "marshal_time t = Some tx"
  shows "plain tx \<and> length tx \<le> 30"
proof -
  have "plain (CHR ''-'' # s) = plain s" "plain (CHR '':'' # s) = plain s" "plain (CHR ''T'' # s) = plain s"
    "plain (CHR ''.'' # s) = plain s" "plain (CHR ''Z'' # s) = plain s" for s
    by (simp_all add: plain_def plain_char_def)
  then show ?thesis
    using assms trim_zeros_length [of "pad 9 n" for n]
    by (auto simp: marshal_time_def rfc3339nano_def Let_def digits_plain pad_digits trim_zeros_digits
        split: prod.splits if_splits)
qed

lemma nodeID_plain:
  assumes "statusNodeID v"
  shows "plain v"
proof -
  have "nodeIDRune r \<Longrightarrow> r < 0x80" for r by (auto simp: nodeIDRune_def asciiLetterOrDigit_def)
  then have "list_all (\<lambda>c. nodeIDRune (byte c)) v"
    using assms list_all_runes_ascii [of nodeIDRune v] by (simp add: statusNodeID_def)
  moreover have "plain_char c \<and> byte c < 0x7F" if "nodeIDRune (byte c)" for c
    using that by (auto simp: plain_char_def nodeIDRune_def asciiLetterOrDigit_def)
  ultimately show ?thesis by (auto simp: plain_def list_all_iff)
qed

lemma result_plain:
  assumes "resultOk r"
  shows "plain (mr_ID r)" "plain (mr_State r)" "plain (mr_Probe r)" "plain (mr_ErrorCode r)"
    "length (mr_ID r) \<le> 20" "length (mr_State r) \<le> 20" "length (mr_Probe r) \<le> 20" "length (mr_ErrorCode r) \<le> 20"
  using assms by (auto simp: resultOk_def IsValid_def hub_consts plain_def plain_char_def split: if_splits)

section \<open>The document reads back\<close>

definition int64 :: "int \<Rightarrow> bool" where
  "int64 i = (- (2 ^ 63) \<le> i \<and> i < 2 ^ 63)"

lemma get_field_none [simp]: "get_field f name [] old = Some old"
  by (simp add: get_field_def)

lemma get_field_cons [simp]:
  "v \<noteq> JNull \<Longrightarrow> get_field f name ((k, v) # ms) old =
     (if k = name then (case f v of None \<Rightarrow> fold (put_field f) (filter (\<lambda>m. fst m = name) ms) None | Some y \<Rightarrow> get_field f name ms y)
      else get_field f name ms old)"
  by (simp add: get_field_def split: option.splits)

lemma json_int_ne [simp]: "json_int i \<noteq> JNull" "json_string (json_int i) = None"
  by (simp_all add: json_int_def)

lemma decodeResult_json:
  assumes "int64 (mr_DurationMS r)"
  shows "decodeResult (result_json r) zeroResult = Some r"
proof -
  have "struct_members [''id'', ''state'', ''probe'', ''error_code'', ''duration_ms''] (result_json r)
    = Some ([(''id'', JStr (mr_ID r)), (''state'', JStr (mr_State r)), (''probe'', JStr (mr_Probe r))]
        @ omit_empty (mr_ErrorCode r = []) (''error_code'', JStr (mr_ErrorCode r))
        @ omit_empty (mr_DurationMS r = 0) (''duration_ms'', json_int (mr_DurationMS r)))"
    unfolding result_json_def by (rule struct_members_exact) (auto simp: omit_empty_def)
  then show ?thesis
    using assms by (cases r) (auto simp: decodeResult_def omit_empty_def zeroResult_def int64_def json_int64_json_int)
qed

lemma result_json_plain:
  assumes "resultOk r"
  shows "json_plain (result_json r)" "json_clean (result_json r)"
  using result_plain [OF assms]
  by (auto simp: result_json_def omit_empty_def json_int_def num_char_FormatInt valid_num_FormatInt plain_valid plain_def plain_char_def utf8_valid_ascii)

lemma response_fields:
  assumes "Validate r"
  shows "msr_SchemaVersion r = 1" "plain (tgt_NodeID (msr_Target r))" "tgt_Scope (msr_Target r) = ''managed_node''"
    "length (tgt_NodeID (msr_Target r)) \<le> 128"
  using assms nodeID_plain by (auto simp: Validate_def SchemaVersion_def statusNodeID_def hub_consts)

lemma response_json_plain:
  assumes "Validate r" "marshal_time (msr_ObservedAt r) = Some tx"
  shows "json_plain (response_json tx r)" "json_clean (response_json tx r)"
proof -
  obtain a b where ab: "msr_Results r = Some [a, b]" "resultOk a" "resultOk b"
    using Validate_results [OF assms(1)] by blast
  then show "json_plain (response_json tx r)" "json_clean (response_json tx r)"
    using response_fields [OF assms(1)] marshal_time_plain [OF assms(2)] result_json_plain [OF ab(2)] result_json_plain [OF ab(3)]
    by (simp_all add: response_json_def plain_valid json_int_def num_char_FormatInt valid_num_FormatInt)
       (simp_all add: plain_def plain_char_def utf8_valid_ascii)
qed

lemma unmarshal_response:
  assumes "Validate r" "marshal_time (msr_ObservedAt r) = Some tx"
    "\<forall>rs. msr_Results r = Some rs \<longrightarrow> list_all (\<lambda>x. int64 (mr_DurationMS x)) rs"
  shows "unmarshalResponse (json_print (response_json tx r)) = Some r"
proof -
  obtain a b where ab: "msr_Results r = Some [a, b]" "resultOk a" "resultOk b"
    using Validate_results [OF assms(1)] by blast
  let ?ms = "[(''schema_version'', json_int (msr_SchemaVersion r)), (''observed_at'', JStr tx),
           (''target'', JObj [(''scope'', JStr (tgt_Scope (msr_Target r))), (''node_id'', JStr (tgt_NodeID (msr_Target r)))]),
           (''results'', JArr [result_json a, result_json b]), (''partial'', JBool (msr_Partial r))]"
  have js: "response_json tx r = JObj ?ms" by (simp add: response_json_def ab(1))
  have plain: "plain_members ?ms" "clean_members ?ms"
    using response_json_plain [OF assms(1,2)] by (simp_all only: js json_plain.simps json_clean.simps)
  have depth: "json_depth (response_json tx r) \<le> maxNestingDepth"
    by (simp add: js maxNestingDepth_def json_int_def result_json_def omit_empty_def)
  have parse: "json_parse maxNestingDepth (json_print (response_json tx r)) = Some (JObj ?ms)"
    using json_roundtrip [OF _ depth] plain(2) by (simp add: js)
  have mem: "struct_members responseNames (JObj ?ms) = Some ?ms"
    by (rule struct_members_exact) (simp add: responseNames_def)
  have "top_raws (json_print (response_json tx r)) = [(''observed_at'', tx)]"
    unfolding js top_raws_print [OF plain] by simp
  then have time: "time_field responseNames ''observed_at'' (json_print (response_json tx r)) ?ms = Some (msr_ObservedAt r, 0)"
    using rfc3339_roundtrip [OF assms(2)] by (simp add: time_field_def field_of_def responseNames_def)
  have tgt: "struct_members [''scope'', ''node_id''] (JObj [(''scope'', JStr x), (''node_id'', JStr y)])
      = Some [(''scope'', JStr x), (''node_id'', JStr y)]" for x y
    by (rule struct_members_exact) simp
  have elems: "decodeElems [result_json a, result_json b] [] = Some [a, b]"
    using assms(3) ab(1) by (simp add: decodeResult_json)
  have int: "json_int64 (json_int (msr_SchemaVersion r)) = Some (msr_SchemaVersion r)"
    using response_fields(1) [OF assms(1)] by (simp add: json_int64_json_int)
  have "unmarshalResponse (json_print (response_json tx r)) =
      Some \<lparr>msr_SchemaVersion = msr_SchemaVersion r, msr_ObservedAt = msr_ObservedAt r,
         msr_Target = \<lparr>tgt_Scope = tgt_Scope (msr_Target r), tgt_NodeID = tgt_NodeID (msr_Target r)\<rparr>,
         msr_Results = Some [a, b], msr_Partial = msr_Partial r\<rparr>"
    by (simp add: unmarshalResponse_def parse mem time int putTarget_def decodeTarget_def tgt decodeResults_def elems
        del: decodeElems.simps)
  also have "\<dots> = Some r" using ab(1) by (cases r) simp
  finally show ?thesis .
qed

lemma Marshal_decodes:
  assumes "Marshal r = Inr data" "\<forall>x \<in> set (the (msr_Results r)). int64 (mr_DurationMS x)"
  shows "Decode data = Inr r"
proof -
  obtain tx where tx: "Validate r" "marshal_time (msr_ObservedAt r) = Some tx" "data = json_print (response_json tx r)"
    "length data \<le> MaxResultBytes"
    using assms(1) by (auto simp: Marshal_def Let_def split: if_splits option.splits)
  then have "unmarshalResponse data = Some r"
    using unmarshal_response [of r tx] assms(2) by (auto simp: list_all_iff)
  then show ?thesis using tx by (simp add: Decode_def)
qed

text \<open>
  What \<^verbatim>\<open>Marshal\<close> writes for a status document, \<^verbatim>\<open>Decode\<close> reads back as the same document: the instant
  to the nanosecond, the target, the two results with their omitted members, and the flag. A
  document that is not valid is not written at all.
\<close>

theorem status_roundtrip:
  assumes "Marshal r = Inr data" "\<forall>x \<in> set (the (msr_Results r)). int64 (mr_DurationMS x)"
  shows "Decode data = Inr r"
  using assms by (rule Marshal_decodes)

section \<open>The size of the document\<close>

lemma result_json_size:
  assumes "resultOk r" "int64 (mr_DurationMS r)"
  shows "length (json_print (result_json r)) \<le> 250"
  using result_plain [OF assms(1)] FormatInt_length [of "mr_DurationMS r"] assms
  by (auto simp: result_json_def omit_empty_def json_int_def plain_length int64_def resultOk_def)
     (simp_all add: enc_str_plain plain_char_def)

lemma response_json_size:
  assumes "Validate r" "marshal_time (msr_ObservedAt r) = Some tx" "\<forall>x \<in> set (the (msr_Results r)). int64 (mr_DurationMS x)"
  shows "length (json_print (response_json tx r)) \<le> 1000"
proof -
  obtain a b where ab: "msr_Results r = Some [a, b]" "resultOk a" "resultOk b"
    using Validate_results [OF assms(1)] by blast
  then show ?thesis
    using response_fields [OF assms(1)] marshal_time_plain [OF assms(2)] result_json_size [OF ab(2)] result_json_size [OF ab(3)] assms(3) ab(1)
      FormatInt_length [of 1]
    by (auto simp: response_json_def json_int_def plain_length int64_def)
       (simp_all add: enc_str_plain plain_char_def)
qed

section \<open>The answer of the agent\<close>

text \<open>The durations that a probe is measured with are int64 values, as \<^verbatim>\<open>Milliseconds\<close> returns them.\<close>

definition measured :: "probe_run option \<Rightarrow> bool" where
  "measured outcome = (case outcome of Some (Returned _ _ d) \<Rightarrow> int64 d | Some (DeadlinePassed d) \<Rightarrow> int64 d | _ \<Rightarrow> True)"

lemma collectProbe_ok:
  assumes "measured outcome" "(i, probe) = (ProcessPM2ID, PM2InventoryProbe) \<or> (i, probe) = (DockerID, DockerInfoProbe)"
  shows "resultOk (collectProbe i probe outcome)" "int64 (mr_DurationMS (collectProbe i probe outcome))" "mr_ID (collectProbe i probe outcome) = i"
    "resultPartial (collectProbe i probe outcome) \<longleftrightarrow> mr_State (collectProbe i probe outcome) \<noteq> stHealthy"
  using assms
  by (auto simp: collectProbe_def invokeManagedIntegrationProbe_def normalizeManagedIntegrationResult_def measured_def int64_def
      resultOk_def resultPartial_def IsValid_def hub_consts managedIntegrationAggregateTimeout_def Let_def
      split: option.splits probe_run.splits)

lemma json_plain_hidden:
  "json_plain v \<Longrightarrow> plainNums v \<and> \<not> jsonHidden v"
  "plain_elems vs \<Longrightarrow> plainElems vs \<and> \<not> hiddenElems vs"
  "plain_members ms \<Longrightarrow> plainMembers ms \<and> \<not> hiddenMembers ms"
proof -
  have hid: "plain s \<Longrightarrow> \<not> list_ex hiddenRune (runes s)" for s
    by (subst runes_ascii) (auto simp: plain_def list_all_iff list_ex_iff hiddenRune_def)
  show "json_plain v \<Longrightarrow> plainNums v \<and> \<not> jsonHidden v"
    "plain_elems vs \<Longrightarrow> plainElems vs \<and> \<not> hiddenElems vs"
    "plain_members ms \<Longrightarrow> plainMembers ms \<and> \<not> hiddenMembers ms"
    by (induction v and vs and ms rule: json_plain_plain_elems_plain_members.induct) (simp_all add: hid)
qed

text \<open>The document that the agent builds from the outcomes of its probes.\<close>

definition agentResponse :: "go_time \<Rightarrow> string \<Rightarrow> probe_run option \<Rightarrow> probe_run option \<Rightarrow> ManagedIntegrationStatusResponse" where
  "agentResponse now node pm2 docker =
     (let collected = [collectProbe ProcessPM2ID PM2InventoryProbe pm2, collectProbe DockerID DockerInfoProbe docker]
      in \<lparr>msr_SchemaVersion = SchemaVersion, msr_ObservedAt = now, msr_Target = \<lparr>tgt_Scope = ScopeManagedNode, tgt_NodeID = node\<rparr>,
          msr_Results = Some collected, msr_Partial = list_ex (\<lambda>r. mr_State r \<noteq> stHealthy) collected\<rparr>)"

lemma agentResponse_valid:
  assumes "measured pm2" "measured docker"
  shows "Validate (agentResponse now node pm2 docker) \<longleftrightarrow> \<not> IsZero now \<and> validNodeID node"
    "\<forall>x \<in> set (the (msr_Results (agentResponse now node pm2 docker))). int64 (mr_DurationMS x)"
  using collectProbe_ok [OF assms(1), of ProcessPM2ID PM2InventoryProbe] collectProbe_ok [OF assms(2), of DockerID DockerInfoProbe]
  by (auto simp: Validate_def agentResponse_def Let_def statusNodeID_iff) (simp_all add: hub_consts)

lemma agentResponse_marshal:
  assumes "measured pm2" "measured docker" "Marshal (agentResponse now node pm2 docker) = Inr data"
  shows "Decode data = Inr (agentResponse now node pm2 docker)" "data \<noteq> []" "length data \<le> 1000" "\<not> containsControl data"
proof -
  let ?r = "agentResponse now node pm2 docker"
  note valid = agentResponse_valid [OF assms(1,2), of now node]
  obtain tx where tx: "Validate ?r" "marshal_time (msr_ObservedAt ?r) = Some tx" "data = json_print (response_json tx ?r)"
    using assms(3) by (auto simp: Marshal_def Let_def split: if_splits option.splits)
  show "Decode data = Inr ?r" by (rule Marshal_decodes [OF assms(3) valid(2)])
  show "data \<noteq> []" by (simp add: tx(3) response_json_def)
  show "length data \<le> 1000" using response_json_size [OF tx(1,2) valid(2)] tx(3) by simp
  show "\<not> containsControl data"
    using json_plain_hidden(1) [OF response_json_plain(1) [OF tx(1,2)]] control_json(1) [of _ "[]"] by (auto simp: tx(3))
qed

lemma agentResponse_marshals:
  assumes "measured pm2" "measured docker" "\<not> IsZero now" "validNodeID node" "marshal_time now \<noteq> None"
  shows "\<exists>data. Marshal (agentResponse now node pm2 docker) = Inr data"
proof -
  obtain tx where "marshal_time now = Some tx" using assms(5) by blast
  moreover have "msr_ObservedAt (agentResponse now node pm2 docker) = now" by (simp add: agentResponse_def Let_def)
  moreover note agentResponse_valid [OF assms(1,2), of now node]
  ultimately show ?thesis
    using response_json_size [of "agentResponse now node pm2 docker" tx] assms(3,4) by (simp add: Marshal_def MaxResultBytes_def)
qed

text \<open>
  C20. Whatever the probes do, time out, fail or answer with a state of their own invention, the
  answer of the agent to an \<^verbatim>\<open>integration.status\<close> task passes the generic and the typed check of the
  hub. For a task as the hub creates it the answer is a completed one, with a document that decodes to
  the outcomes of the two probes.
\<close>

theorem integration_report_accepted:
  assumes "probes s = ((pm2, docker), s')" "measured pm2" "measured docker"
  shows "\<exists>res st. executeManagedIntegrationStatus probes now task s = (res, st)
    \<and> ValidateTaskResultRequest res = Inr () \<and> ValidateIntegrationStatusTaskResult res = Inr ()
    \<and> (task_Payload task = [] \<and> validNodeID (task_NodeID task) \<and> \<not> IsZero now \<and> marshal_time now \<noteq> None \<longrightarrow>
        st = s' \<and> res_Status res = TaskStatusCompleted
        \<and> Decode (gget (res_Result res) ''data'') = Inr (agentResponse now (task_NodeID task) pm2 docker))"
proof -
  have failed: "ValidateTaskResultRequest failedManagedIntegrationStatus = Inr ()"
    "ValidateIntegrationStatusTaskResult failedManagedIntegrationStatus = Inr ()"
    by (simp_all add: failedManagedIntegrationStatus_def ValidateIntegrationStatusTaskResult_def ValidateTaskResultRequest_def
        hub_consts maxTaskErrorLength_def containsControl_ascii IsControl_def TrimSpace_printable)
  have node: "\<not> validNodeID []" by (simp add: validNodeID_def)
  let ?r = "agentResponse now (task_NodeID task) pm2 docker"
  have run: "executeManagedIntegrationStatus probes now task s =
     (if task_Payload task \<noteq> [] \<or> task_NodeID task = [] then (failedManagedIntegrationStatus, s)
      else (case Marshal ?r of
              Inl _ \<Rightarrow> (failedManagedIntegrationStatus, s')
            | Inr data \<Rightarrow> (\<lparr>res_Status = TaskStatusCompleted, res_Result = [(''data'', data)], res_Error = []\<rparr>, s')))"
    by (simp add: executeManagedIntegrationStatus_def assms(1) agentResponse_def Let_def)
  show ?thesis
  proof (cases "Marshal ?r")
    case (Inl e)
    then show ?thesis using failed node agentResponse_marshals [OF assms(2,3), of now "task_NodeID task"] unfolding run
      by (cases "task_Payload task = []") auto
  next
    case (Inr data)
    note doc = agentResponse_marshal [OF assms(2,3) Inr]
    let ?ok = "\<lparr>res_Status = TaskStatusCompleted, res_Result = [(''data'', data)], res_Error = []\<rparr>"
    have "ValidateTaskResultRequest ?ok = Inr ()" "ValidateIntegrationStatusTaskResult ?ok = Inr ()" "gget (res_Result ?ok) ''data'' = data"
      using doc by (simp_all add: ValidateTaskResultRequest_def ValidateIntegrationStatusTaskResult_def badResultField_def gget_def
          maxTaskResultValueLength_def maxTaskPayloadValueLength_def containsControl_ascii IsControl_def hub_consts)
    then show ?thesis using failed node doc(1) unfolding run by (auto simp: Inr)
  qed
qed

section \<open>Examples\<close>

lemma demo_marshal_time: "marshal_time demoTime \<noteq> None" "\<not> IsZero demoTime"
proof -
  have "fst (civil 738425) = 2022" by code_simp
  then show "marshal_time demoTime \<noteq> None" by (auto simp: marshal_time_def demoTime_def Second_def split: prod.splits)
qed (simp add: IsZero_def demoTime_def)

abbreviation demoPM2 :: "probe_run option" where
  "demoPM2 \<equiv> Some (Returned stHealthy False 12)"

abbreviation demoDocker :: "probe_run option" where
  "demoDocker \<equiv> Some (DeadlinePassed 5000)"

lemma demo_measured: "measured demoPM2" "measured demoDocker"
  by (simp_all add: measured_def int64_def)

lemma status_roundtrip_witness:
  "\<exists>data. Marshal (agentResponse demoTime ''node-1'' demoPM2 demoDocker) = Inr data
     \<and> Decode data = Inr (agentResponse demoTime ''node-1'' demoPM2 demoDocker)"
  using agentResponse_marshals [OF demo_measured demo_marshal_time(2) demo_validNodeID(1) demo_marshal_time(1)]
    status_roundtrip [OF _ agentResponse_valid(2) [OF demo_measured, of demoTime "''node-1''"]] by blast

definition demoStatusTask :: Task where
  "demoStatusTask = \<lparr>task_ID = 4, task_NodeID = ''node-1'', task_Kind = TaskIntegrationStatus,
     task_Payload = [], task_Status = TaskStatusRunning, task_Result = [], task_Error = [], task_CreatedAt = demoTime,
     task_StartedAt = Some demoTime, task_CompletedAt = None\<rparr>"

lemma integration_report_accepted_witness:
  "\<exists>res. executeManagedIntegrationStatus (\<lambda>s. ((demoPM2, demoDocker), s)) demoTime demoStatusTask () = (res, ())
     \<and> res_Status res = TaskStatusCompleted \<and> ValidateIntegrationStatusTaskResult res = Inr ()"
  using integration_report_accepted [of "\<lambda>s. ((demoPM2, demoDocker), s)" "()", OF refl demo_measured, of demoTime demoStatusTask]
    demo_marshal_time demo_validNodeID by (auto simp: demoStatusTask_def)

end
