(* ===== verification/AgentConfigProps.thy ===== *)
theory AgentConfigProps
  imports AgentConfig AgentFirewallProps AgentStatusProps
begin

text \<open>
  The configuration of the agent and what follows from it: which settings a loaded configuration can
  have, that its heartbeats pass the checks of the hub, that what it announces it also dispatches, and
  what a cycle does to the database of the hub.
\<close>

section \<open>Steps of the loader\<close>

definition ensures :: "(config \<Rightarrow> bool) \<Rightarrow> load_step \<Rightarrow> bool" where
  "ensures P f \<longleftrightarrow> (\<forall>c c'. f c = Some c' \<longrightarrow> P c')"

definition keepsCfg :: "(config \<Rightarrow> bool) \<Rightarrow> load_step \<Rightarrow> bool" where
  "keepsCfg P f \<longleftrightarrow> (\<forall>c c'. f c = Some c' \<longrightarrow> P c \<longrightarrow> P c')"

lemma fold_bind_None: "fold (\<lambda>f acc. Option.bind acc f) fs None = None"
  by (induction fs) simp_all

lemma steps_Nil: "steps [] c = Some c"
  by (simp add: steps_def)

lemma steps_Cons: "steps (f # fs) c = Option.bind (f c) (steps fs)"
  by (cases "f c") (simp_all add: steps_def fold_bind_None)

lemma keepsCfg_Nil: "keepsCfg P (steps [])"
  by (simp add: keepsCfg_def steps_Nil)

lemma keepsCfg_Cons: "keepsCfg P f \<Longrightarrow> keepsCfg P (steps fs) \<Longrightarrow> keepsCfg P (steps (f # fs))"
  unfolding keepsCfg_def by (auto simp: steps_Cons Option.bind_eq_Some_conv)

lemma keepsCfg_setting: "(\<And>x c. P c \<Longrightarrow> P (upd x c)) \<Longrightarrow> keepsCfg P (setting v upd)"
  by (auto simp: keepsCfg_def setting_def)

lemma keepsCfg_choice: "(\<And>x c. P c \<Longrightarrow> P (upd x c)) \<Longrightarrow> keepsCfg P (\<lambda>c. setting (v c) upd c)"
  by (auto simp: keepsCfg_def setting_def)

lemma keepsCfg_reject: "keepsCfg P (reject bad)"
  by (simp add: keepsCfg_def reject_def)

lemma ensures_here: "ensures P f \<Longrightarrow> keepsCfg P (steps fs) \<Longrightarrow> ensures P (steps (f # fs))"
  unfolding keepsCfg_def ensures_def by (auto simp: steps_Cons Option.bind_eq_Some_conv)

lemma ensures_later: "ensures P (steps fs) \<Longrightarrow> ensures P (steps (f # fs))"
  unfolding ensures_def by (auto simp: steps_Cons Option.bind_eq_Some_conv)

lemma ensures_reject: "(\<And>c. \<not> bad c \<Longrightarrow> P c) \<Longrightarrow> ensures P (reject bad)"
  by (simp add: ensures_def reject_def)

lemma ensures_setting: "(\<And>x c. v = Some x \<Longrightarrow> P (upd x c)) \<Longrightarrow> ensures P (setting v upd)"
  by (auto simp: ensures_def setting_def)

lemma ensures_conj: "ensures P f \<Longrightarrow> ensures Q f \<Longrightarrow> ensures (\<lambda>c. P c \<and> Q c) f"
  by (simp add: ensures_def)

lemmas keepsCfg_rules = keepsCfg_Nil keepsCfg_Cons keepsCfg_setting keepsCfg_choice keepsCfg_reject

lemmas group_defs = loadInterval_def loadActions_def loadNginx_def loadSSL_def loadBackup_def loadDeploy_def loadUpdate_def
  loadFiles_def loadDatabase_def loadPHP_def loadPM2_def loadCron_def loadFirewall_def

section \<open>What a loaded configuration can be\<close>

text \<open>A grant to change something comes with the grant to read it.\<close>

definition writesNeedReads :: "config \<Rightarrow> bool" where
  "writesNeedReads c \<longleftrightarrow>
     (cfg_allowNginxConfigWrite c \<longrightarrow> cfg_allowNginxConfigRead c) \<and> (cfg_allowDomainActions c \<longrightarrow> cfg_allowDomainRead c)
     \<and> (cfg_allowSSLActions c \<longrightarrow> cfg_allowSSLRead c) \<and> (cfg_allowBackupRun c \<longrightarrow> cfg_allowBackupRead c)
     \<and> (cfg_allowAgentUpdateActions c \<longrightarrow> cfg_allowAgentUpdateRead c)
     \<and> (cfg_allowedDatabaseRestarts c \<noteq> [] \<longrightarrow> cfg_allowDatabaseRead c)
     \<and> (cfg_allowPHPConfigWrite c \<longrightarrow> cfg_allowPHPConfigRead c)
     \<and> (cfg_allowCronWrite c \<or> cfg_allowCronRun c \<longrightarrow> cfg_allowCronRead c)
     \<and> (cfg_allowFirewallWrite c \<longrightarrow> cfg_allowFirewallRead c)"

definition deployNeedsRead :: "config \<Rightarrow> bool" where
  "deployNeedsRead c \<longleftrightarrow>
     (cfg_allowDeployActions c \<or> cfg_allowDeployDomainRead c \<longrightarrow> cfg_allowDeployRead c)
     \<and> (cfg_allowDeployDomainActions c \<longrightarrow> cfg_allowDeployDomainRead c)"

definition cleanRoot :: "string \<Rightarrow> bool" where
  "cleanRoot r \<longleftrightarrow> IsAbs r \<and> Clean r = r \<and> r \<noteq> ''/'' \<and> length r \<le> 4096"

definition rootList :: "string list \<Rightarrow> bool" where
  "rootList rs \<longleftrightarrow> length rs \<le> 16 \<and> distinct rs \<and> (\<forall>r \<in> set rs. cleanRoot r)"

definition fileRootsNested :: "config \<Rightarrow> bool" where
  "fileRootsNested c \<longleftrightarrow>
     rootList (cfg_fileReadRoots c) \<and> rootList (cfg_fileWriteRoots c)
     \<and> (\<forall>r \<in> set (cfg_fileWriteRoots c). pathWithinAnyRoot r (cfg_fileReadRoots c))"

definition pm2Unprivileged :: "config \<Rightarrow> bool" where
  "pm2Unprivileged c \<longleftrightarrow>
     cfg_pm2User c \<noteq> ''root''
     \<and> (cfg_allowPM2Read c \<or> cfg_allowedPM2Actions c \<noteq> [] \<longrightarrow>
          cfg_pm2Binary c \<noteq> [] \<and> cfg_pm2Home c \<noteq> [] \<and> cfg_pm2User c \<noteq> [])"

lemma keysOf_props [simp]: "set (keysOf xs) = set xs" "distinct (keysOf xs)" "length (keysOf xs) \<le> length xs"
  by (simp_all add: keysOf_def length_remdups_leq order_trans [OF length_remdups_leq])

lemma opt_seq_Some_iff: "opt_seq xs = Some ys \<longleftrightarrow> xs = map Some ys"
  by (induction xs arbitrary: ys) (auto split: option.splits)

lemma split_on_subset: "\<forall>p \<in> set (split_on sep s). set p \<subseteq> set s"
  by (induction s) (auto split: if_splits list.splits)

lemma set_trim: "set (trim_left s) \<subseteq> set s" "set (trim_right t) \<subseteq> set t"
proof (induction s rule: trim_left.induct)
  case (1 s)
  then show "set (trim_left s) \<subseteq> set s"
    using set_drop_subset [of "front_space s" s] by (subst trim_left.simps) (auto split: if_splits)
next
  show "set (trim_right t) \<subseteq> set t"
  proof (induction t rule: trim_right.induct)
    case (1 s)
    then show ?case
      using set_take_subset [of "length s - back_space s" s] by (subst trim_right.simps) (auto split: if_splits)
  qed
qed

lemma set_TrimSpace: "set (TrimSpace s) \<subseteq> set s"
  using set_trim by (force simp: TrimSpace_def)

lemma parseParts_Some:
  assumes "parseParts n item raw = Some xs"
  shows "length xs \<le> n" "distinct xs" "x \<in> set xs \<Longrightarrow> \<exists>s. set s \<subseteq> set raw \<and> item s = Some x"
proof -
  let ?items = "map (item \<circ> TrimSpace) (split_on (CHR '','') raw)"
  have xs: "xs = [] \<or> (\<exists>ys. xs = keysOf ys \<and> length ys \<le> n \<and> ?items = map Some ys)"
  proof (cases "raw = []")
    case False
    then obtain ys where "?items = map Some ys" "xs = keysOf ys" "length (split_on (CHR '','') raw) \<le> n"
      using assms by (auto simp: parseParts_def Let_def opt_seq_Some_iff split: if_splits)
    then show ?thesis using map_eq_imp_length_eq by fastforce
  qed (use assms in \<open>simp add: parseParts_def\<close>)
  then show "length xs \<le> n" "distinct xs" by (auto intro: order_trans [OF keysOf_props(3)])
  assume "x \<in> set xs"
  then obtain ys where "?items = map Some ys" "x \<in> set ys" using xs by auto
  then have "Some x \<in> set ?items" by simp
  then obtain p where "p \<in> set (split_on (CHR '','') raw)" "item (TrimSpace p) = Some x" by auto
  moreover have "set (TrimSpace p) \<subseteq> set raw" using split_on_subset set_TrimSpace calculation(1) by fast
  ultimately show "\<exists>s. set s \<subseteq> set raw \<and> item s = Some x" by blast
qed

lemma parseAbsoluteDirectories_roots: "parseAbsoluteDirectories raw = Some rs \<Longrightarrow> rootList rs"
  using parseParts_Some [of maxFileRoots _ raw rs]
  by (fastforce simp: parseAbsoluteDirectories_def rootList_def cleanRoot_def maxFileRoots_def parseAbsoluteDirectory_def Let_def
      split: if_splits)

text \<open>Each guard is established by its own group of variables and touched by no other.\<close>

lemma parseLogSources_Some:
  assumes "parseLogSources raw = Some xs"
  shows "set xs \<subseteq> Collect validAgentLogSource \<and> distinct xs \<and> length xs \<le> 7"
proof -
  note p = parseParts_Some [OF assms [unfolded parseLogSources_def]]
  have "validAgentLogSource x" if "x \<in> set xs" for x using p(3) [OF that] by (auto split: if_splits)
  then show ?thesis using p(1,2) by (auto simp: maxLogSources_def)
qed

lemma guard_nginx: "ensures (\<lambda>c. cfg_allowNginxConfigWrite c \<longrightarrow> cfg_allowNginxConfigRead c) (loadNginx lookup)"
  unfolding loadNginx_def
  by ((rule ensures_here, rule ensures_reject, (auto; fail)[1], (intro keepsCfg_rules; simp)[1]) | rule ensures_later)+

lemma guard_domain: "ensures (\<lambda>c. cfg_allowDomainActions c \<longrightarrow> cfg_allowDomainRead c) (loadNginx lookup)"
  unfolding loadNginx_def
  by ((rule ensures_here, rule ensures_reject, (auto; fail)[1], (intro keepsCfg_rules; simp)[1]) | rule ensures_later)+

lemma guard_ssl: "ensures (\<lambda>c. cfg_allowSSLActions c \<longrightarrow> cfg_allowSSLRead c) (loadSSL lookup)"
  unfolding loadSSL_def
  by ((rule ensures_here, rule ensures_reject, (auto; fail)[1], (intro keepsCfg_rules; simp)[1]) | rule ensures_later)+

lemma guard_backup: "ensures (\<lambda>c. cfg_allowBackupRun c \<longrightarrow> cfg_allowBackupRead c) (loadBackup lookup)"
  unfolding loadBackup_def
  by ((rule ensures_here, rule ensures_reject, (auto; fail)[1], (intro keepsCfg_rules; simp)[1]) | rule ensures_later)+

lemma guard_deploy: "ensures (\<lambda>c. cfg_allowDeployActions c \<longrightarrow> cfg_allowDeployRead c) (loadDeploy lookup)"
  unfolding loadDeploy_def
  by ((rule ensures_here, rule ensures_reject, (auto; fail)[1], (intro keepsCfg_rules; simp)[1]) | rule ensures_later)+

lemma guard_deploy_domain: "ensures (\<lambda>c. cfg_allowDeployDomainRead c \<longrightarrow> cfg_allowDeployRead c) (loadDeploy lookup)"
  unfolding loadDeploy_def
  by ((rule ensures_here, rule ensures_reject, (auto; fail)[1], (intro keepsCfg_rules; simp)[1]) | rule ensures_later)+

lemma guard_deploy_domain_actions: "ensures (\<lambda>c. cfg_allowDeployDomainActions c \<longrightarrow> cfg_allowDeployDomainRead c) (loadDeploy lookup)"
  unfolding loadDeploy_def
  by ((rule ensures_here, rule ensures_reject, (auto; fail)[1], (intro keepsCfg_rules; simp)[1]) | rule ensures_later)+

lemma guard_update: "ensures (\<lambda>c. cfg_allowAgentUpdateActions c \<longrightarrow> cfg_allowAgentUpdateRead c) (loadUpdate uri lookup)"
  unfolding loadUpdate_def
  by ((rule ensures_here, rule ensures_reject, (auto; fail)[1], (intro keepsCfg_rules; simp)[1]) | rule ensures_later)+

lemma guard_files: "ensures (\<lambda>c. \<forall>r \<in> set (cfg_fileWriteRoots c). pathWithinAnyRoot r (cfg_fileReadRoots c)) (loadFiles lookup)"
  unfolding loadFiles_def
  by ((rule ensures_here, rule ensures_reject, ((auto simp: list_all_iff); fail)[1], (intro keepsCfg_rules; simp)[1]) | rule ensures_later)+

lemma guard_database: "ensures (\<lambda>c. cfg_allowedDatabaseRestarts c \<noteq> [] \<longrightarrow> cfg_allowDatabaseRead c) (loadDatabase lookup)"
  unfolding loadDatabase_def
  by ((rule ensures_here, rule ensures_reject, (auto; fail)[1], (intro keepsCfg_rules; simp)[1]) | rule ensures_later)+

lemma guard_php: "ensures (\<lambda>c. cfg_allowPHPConfigWrite c \<longrightarrow> cfg_allowPHPConfigRead c) (loadPHP lookup)"
  unfolding loadPHP_def
  by ((rule ensures_here, rule ensures_reject, (auto; fail)[1], (intro keepsCfg_rules; simp)[1]) | rule ensures_later)+

lemma guard_pm2: "ensures (\<lambda>c. cfg_allowPM2Read c \<or> cfg_allowedPM2Actions c \<noteq> [] \<longrightarrow> cfg_pm2Binary c \<noteq> [] \<and> cfg_pm2Home c \<noteq> [] \<and> cfg_pm2User c \<noteq> []) (loadPM2 lookup)"
  unfolding loadPM2_def
  by ((rule ensures_here, rule ensures_reject, (auto; fail)[1], (intro keepsCfg_rules; simp)[1]) | rule ensures_later)+

lemma guard_cron: "ensures (\<lambda>c. cfg_allowCronWrite c \<or> cfg_allowCronRun c \<longrightarrow> cfg_allowCronRead c) (loadCron lookup)"
  unfolding loadCron_def
  by ((rule ensures_here, rule ensures_reject, (auto; fail)[1], (intro keepsCfg_rules; simp)[1]) | rule ensures_later)+

lemma guard_firewall: "ensures (\<lambda>c. cfg_allowFirewallWrite c \<longrightarrow> cfg_allowFirewallRead c) (loadFirewall lookup)"
  unfolding loadFirewall_def
  by ((rule ensures_here, rule ensures_reject, (auto; fail)[1], (intro keepsCfg_rules; simp)[1]) | rule ensures_later)+

lemma value_interval: "ensures (\<lambda>c. minInterval \<le> cfg_interval c \<and> cfg_interval c \<le> maxInterval) (loadInterval dur lookup)"
  unfolding loadInterval_def
  by (rule ensures_setting) (auto simp: Let_def defaultInterval_def minInterval_def maxInterval_def Second_def split: if_splits option.splits)

lemma value_logs: "ensures (\<lambda>c. set (cfg_allowedLogSources c) \<subseteq> Collect validAgentLogSource \<and> distinct (cfg_allowedLogSources c) \<and> length (cfg_allowedLogSources c) \<le> 7) (loadActions lookup)"
  unfolding loadActions_def
  by ((rule ensures_here, rule ensures_setting, ((simp add: parseLogSources_Some); fail)[1], (intro keepsCfg_rules; simp)[1]) | rule ensures_later)+

lemma value_read_roots: "ensures (\<lambda>c. parseAbsoluteDirectories (envValue lookup ''HSERVER_AGENT_FILE_READ_ROOTS'') = Some (cfg_fileReadRoots c)) (loadFiles lookup)"
  unfolding loadFiles_def
  by ((rule ensures_here, rule ensures_setting, (simp; fail)[1], (intro keepsCfg_rules; simp)[1]) | rule ensures_later)+

lemma value_write_roots: "ensures (\<lambda>c. parseAbsoluteDirectories (envValue lookup ''HSERVER_AGENT_FILE_WRITE_ROOTS'') = Some (cfg_fileWriteRoots c)) (loadFiles lookup)"
  unfolding loadFiles_def
  by ((rule ensures_here, rule ensures_setting, (simp; fail)[1], (intro keepsCfg_rules; simp)[1]) | rule ensures_later)+

lemma value_sources: "ensures (\<lambda>c. parseFirewallSources (envValue lookup ''HSERVER_AGENT_FIREWALL_PROTECTED_SOURCES'') = Some (cfg_firewallProtectedSources c)) (loadFirewall lookup)"
  unfolding loadFirewall_def
  by ((rule ensures_here, rule ensures_setting, (simp; fail)[1], (intro keepsCfg_rules; simp)[1]) | rule ensures_later)+

lemma value_ports: "ensures (\<lambda>c. parseFirewallPorts (envValue lookup ''HSERVER_AGENT_FIREWALL_PROTECTED_PORTS'') = Some (cfg_firewallProtectedPorts c)) (loadFirewall lookup)"
  unfolding loadFirewall_def
  by ((rule ensures_here, rule ensures_setting, (simp; fail)[1], (intro keepsCfg_rules; simp)[1]) | rule ensures_later)+

lemmas guards = guard_nginx guard_domain guard_ssl guard_backup guard_deploy guard_deploy_domain guard_deploy_domain_actions guard_update guard_files guard_database guard_php guard_pm2 guard_cron guard_firewall
  value_interval value_logs value_read_roots value_write_roots value_sources value_ports

text \<open>No later group touches what a guard is about.\<close>

lemma env_guards:
  "ensures (\<lambda>c. cfg_allowNginxConfigWrite c \<longrightarrow> cfg_allowNginxConfigRead c) (loadEnvironment uri dur lookup)"
  "ensures (\<lambda>c. cfg_allowDomainActions c \<longrightarrow> cfg_allowDomainRead c) (loadEnvironment uri dur lookup)"
  "ensures (\<lambda>c. cfg_allowSSLActions c \<longrightarrow> cfg_allowSSLRead c) (loadEnvironment uri dur lookup)"
  "ensures (\<lambda>c. cfg_allowBackupRun c \<longrightarrow> cfg_allowBackupRead c) (loadEnvironment uri dur lookup)"
  "ensures (\<lambda>c. cfg_allowDeployActions c \<longrightarrow> cfg_allowDeployRead c) (loadEnvironment uri dur lookup)"
  "ensures (\<lambda>c. cfg_allowDeployDomainRead c \<longrightarrow> cfg_allowDeployRead c) (loadEnvironment uri dur lookup)"
  "ensures (\<lambda>c. cfg_allowDeployDomainActions c \<longrightarrow> cfg_allowDeployDomainRead c) (loadEnvironment uri dur lookup)"
  "ensures (\<lambda>c. cfg_allowAgentUpdateActions c \<longrightarrow> cfg_allowAgentUpdateRead c) (loadEnvironment uri dur lookup)"
  "ensures (\<lambda>c. \<forall>r \<in> set (cfg_fileWriteRoots c). pathWithinAnyRoot r (cfg_fileReadRoots c)) (loadEnvironment uri dur lookup)"
  "ensures (\<lambda>c. cfg_allowedDatabaseRestarts c \<noteq> [] \<longrightarrow> cfg_allowDatabaseRead c) (loadEnvironment uri dur lookup)"
  "ensures (\<lambda>c. cfg_allowPHPConfigWrite c \<longrightarrow> cfg_allowPHPConfigRead c) (loadEnvironment uri dur lookup)"
  "ensures (\<lambda>c. cfg_allowPM2Read c \<or> cfg_allowedPM2Actions c \<noteq> [] \<longrightarrow> cfg_pm2Binary c \<noteq> [] \<and> cfg_pm2Home c \<noteq> [] \<and> cfg_pm2User c \<noteq> []) (loadEnvironment uri dur lookup)"
  "ensures (\<lambda>c. cfg_allowCronWrite c \<or> cfg_allowCronRun c \<longrightarrow> cfg_allowCronRead c) (loadEnvironment uri dur lookup)"
  "ensures (\<lambda>c. cfg_allowFirewallWrite c \<longrightarrow> cfg_allowFirewallRead c) (loadEnvironment uri dur lookup)"
  "ensures (\<lambda>c. minInterval \<le> cfg_interval c \<and> cfg_interval c \<le> maxInterval) (loadEnvironment uri dur lookup)"
  "ensures (\<lambda>c. set (cfg_allowedLogSources c) \<subseteq> Collect validAgentLogSource \<and> distinct (cfg_allowedLogSources c) \<and> length (cfg_allowedLogSources c) \<le> 7) (loadEnvironment uri dur lookup)"
  "ensures (\<lambda>c. parseAbsoluteDirectories (envValue lookup ''HSERVER_AGENT_FILE_READ_ROOTS'') = Some (cfg_fileReadRoots c)) (loadEnvironment uri dur lookup)"
  "ensures (\<lambda>c. parseAbsoluteDirectories (envValue lookup ''HSERVER_AGENT_FILE_WRITE_ROOTS'') = Some (cfg_fileWriteRoots c)) (loadEnvironment uri dur lookup)"
  "ensures (\<lambda>c. parseFirewallSources (envValue lookup ''HSERVER_AGENT_FIREWALL_PROTECTED_SOURCES'') = Some (cfg_firewallProtectedSources c)) (loadEnvironment uri dur lookup)"
  "ensures (\<lambda>c. parseFirewallPorts (envValue lookup ''HSERVER_AGENT_FIREWALL_PROTECTED_PORTS'') = Some (cfg_firewallProtectedPorts c)) (loadEnvironment uri dur lookup)"
  unfolding loadEnvironment_def
  by ((rule ensures_here, rule guards, ((unfold group_defs)?, (intro keepsCfg_rules; simp))[1]) | rule ensures_later)+

lemma keepsCfg_pair:
  "(\<And>c c' c''. f c = Some c' \<Longrightarrow> g c' = Some c'' \<Longrightarrow> P c \<Longrightarrow> P c'') \<Longrightarrow> keepsCfg P (steps fs) \<Longrightarrow> keepsCfg P (steps (f # g # fs))"
  unfolding keepsCfg_def by (fastforce simp: steps_Cons Option.bind_eq_Some_conv)

text \<open>The account of PM2 is not root, since no step makes it so.\<close>

lemma pm2User_group: "keepsCfg (\<lambda>c. cfg_pm2User c \<noteq> ''root'') (loadPM2 lookup)"
  unfolding loadPM2_def
  apply (rule keepsCfg_Cons, (intro keepsCfg_rules; simp; fail)[1])+
  apply (rule keepsCfg_pair, (auto simp: setting_def reject_def split: if_splits)[1])
  apply (intro keepsCfg_rules; simp)
  done

lemma pm2User_env: "keepsCfg (\<lambda>c. cfg_pm2User c \<noteq> ''root'') (loadEnvironment uri dur lookup)"
proof -
  let ?P = "\<lambda>c. cfg_pm2User c \<noteq> ''root''"
  have "keepsCfg ?P (loadInterval dur lookup)" "keepsCfg ?P (loadActions lookup)" "keepsCfg ?P (loadNginx lookup)"
    "keepsCfg ?P (loadSSL lookup)" "keepsCfg ?P (loadBackup lookup)" "keepsCfg ?P (loadDeploy lookup)"
    "keepsCfg ?P (loadUpdate (validAgentUpdateManifestURL uri) lookup)" "keepsCfg ?P (loadFiles lookup)"
    "keepsCfg ?P (loadDatabase lookup)" "keepsCfg ?P (loadPHP lookup)" "keepsCfg ?P (loadCron lookup)" "keepsCfg ?P (loadFirewall lookup)"
    unfolding group_defs by (intro keepsCfg_rules; simp)+
  then show ?thesis
    unfolding loadEnvironment_def by (intro keepsCfg_Cons keepsCfg_Nil pm2User_group)
qed

section \<open>The loaded configuration\<close>

lemma runs_any_ret: "m w = (Ret x, w') \<Longrightarrow> runs (\<lambda>_. True) m Q E H \<Longrightarrow> Q x (w_fs w')"
  by (auto simp: runs_def dest: spec [of _ w])

lemma seqIO_Ret: "seqIO m f w = (Ret y, w'') \<longleftrightarrow> (\<exists>x w'. m w = (Ret x, w') \<and> f x w' = (Ret y, w''))"
  by (auto simp: seqIO_def split: prod.splits io_res.splits)

lemma ret_Ret: "ret x w = (Ret y, w') \<longleftrightarrow> y = x \<and> w' = w"
  by (auto simp: ret_def)

text \<open>A configuration comes from the variables, with the overlay of the active profile.\<close>

lemma loadConfig_cases:
  assumes "loadConfigFromEnv url uri dur lookup readFile w = (Ret (Some c) :: ('e, config option) io_res, w')"
  obtains c0 token c1 c2 store loaded w1 where "loadNode url lookup zeroConfig = Some c0"
    "loadToken token c0 = Some c1" "loadEnvironment uri dur lookup c1 = Some c2"
    "loadActiveProfile store w1 = (Ret loaded :: ('e, _) io_res, w')" "c = overlaid loaded c2"
proof -
  obtain c0 where c0: "loadNode url lookup zeroConfig = Some c0"
    using assms by (auto simp: loadConfigFromEnv_def ret_Ret split: option.splits)
  obtain token w1 where "(case steps [loadToken token, loadEnvironment uri dur lookup] c0 of
      None \<Rightarrow> ret None
    | Some c \<Rightarrow> seqIO (loadActiveProfile (newProfileStoreWithReader (cfg_agentStateDir c) (Some readFile))) (\<lambda>loaded.
        ret (Some (overlaid loaded c)))) w1 = (Ret (Some c) :: ('e, config option) io_res, w')"
    using assms by (auto simp: loadConfigFromEnv_def c0 seqIO_Ret)
  then obtain c2 loaded where "steps [loadToken token, loadEnvironment uri dur lookup] c0 = Some c2" "c = overlaid loaded c2"
      "loadActiveProfile (newProfileStoreWithReader (cfg_agentStateDir c2) (Some readFile)) w1 = (Ret loaded :: ('e, _) io_res, w')"
    by (fastforce simp: seqIO_Ret ret_Ret split: option.splits)
  moreover from this obtain c1 where "loadToken token c0 = Some c1" "loadEnvironment uri dur lookup c1 = Some c2"
    by (auto simp: steps_Cons steps_Nil Option.bind_eq_Some_conv)
  ultimately show ?thesis using that [OF c0] by blast
qed

text \<open>A profile in the store keeps the dependencies of its grants.\<close>

lemma runs_wrapper_profile:
  "runs (\<lambda>_. True) (attempt (readWrapper s f))
     (\<lambda>r _. \<forall>w. r = Inr (Some w) \<longrightarrow> validProfile (pw_Profile w)) (\<lambda>_ _. False) (\<lambda>_. True)"
  unfolding readWrapper_def
  by (rule runs_attempt, rule runs_seq [OF runs_cons [OF runs_any]])
    (auto intro!: runs_ret runs_throw runs_seq [where R = "\<lambda>w _. validProfile (pw_Profile w)"]
      dest!: decodeProfileWrapper_canonical simp: liftResult_def canonicalWrapper_def canonicalProfile_def split: option.splits sum.splits)

lemma loaded_profile:
  assumes "loadActiveProfile s w = (Ret (active, ob, err) :: ('e, _) io_res, w')"
  shows "validProfile (pw_Profile active)"
proof -
  have zero: "validProfile (pw_Profile zeroWrapper)"
    by (simp add: zeroWrapper_def emptyAgentProfile_def validProfile_def)
  obtain r w1 where "attempt (readWrapper s (activePath s)) w = (Ret r :: ('e, _) io_res, w1)"
    and "(case r of
         Inl _ \<Rightarrow> ret (zeroWrapper, observed ProfileObservationFailed 0 profileErrorCorrupt, Some errProfileCorrupt)
       | Inr activeOpt \<Rightarrow>
           let active = (case activeOpt of None \<Rightarrow> zeroWrapper | Some a \<Rightarrow> a) in
           seqIO (attempt (readState s)) (\<lambda>r. case r of
               Inl stateErr \<Rightarrow>
                 ret (active, observed ProfileObservationFailed (pw_Revision active) profileErrorStateCorrupt, Some stateErr)
             | Inr state \<Rightarrow>
                 ret (active, if activeOpt = None then missingObservation state else activeObservation active state))) w1
        = (Ret (active, ob, err) :: ('e, _) io_res, w')"
    using assms unfolding loadActiveProfile_def seqIO_Ret [of "attempt (readWrapper s (activePath s))"] by blast
  moreover from this(2) have r: "active = (case r of Inr (Some x) \<Rightarrow> x | _ \<Rightarrow> zeroWrapper)"
    by (cases r) (auto simp: seqIO_Ret ret_Ret Let_def split: sum.splits option.splits, (metis sumE)+)
  ultimately have "\<forall>w. r = Inr (Some w) \<longrightarrow> validProfile (pw_Profile w)"
    using runs_any_ret [OF _ runs_wrapper_profile] by fast
  then show ?thesis using r zero by (auto split: sum.splits option.splits)
qed

section \<open>The invariant of a configuration\<close>

lemma node_token_kept:
  "ensures (\<lambda>c. nodeIDPattern (cfg_nodeID c)) (loadNode url lookup)"
  "ensures (\<lambda>c. validToken (cfg_token c)) (loadToken token)"
  "keepsCfg (\<lambda>c. nodeIDPattern (cfg_nodeID c)) (loadToken token)"
  "keepsCfg (\<lambda>c. nodeIDPattern (cfg_nodeID c)) (loadEnvironment uri dur lookup)"
  "keepsCfg (\<lambda>c. validToken (cfg_token c)) (loadEnvironment uri dur lookup)"
  "keepsCfg (\<lambda>c. cfg_pm2User c \<noteq> ''root'') (loadNode url lookup)"
  "keepsCfg (\<lambda>c. cfg_pm2User c \<noteq> ''root'') (loadToken token)"
proof -
  show "ensures (\<lambda>c. nodeIDPattern (cfg_nodeID c)) (loadNode url lookup)"
    unfolding loadNode_def by ((rule ensures_here, rule ensures_reject, (simp; fail)[1], (intro keepsCfg_rules; simp)[1]) | rule ensures_later)+
  show "ensures (\<lambda>c. validToken (cfg_token c)) (loadToken token)"
    unfolding loadToken_def by (rule ensures_setting) (auto split: option.splits if_splits)
qed (unfold loadNode_def loadToken_def loadEnvironment_def group_defs, (intro keepsCfg_rules; simp)+)

lemma keepsD: "keepsCfg P f \<Longrightarrow> f c = Some c' \<Longrightarrow> P c \<Longrightarrow> P c'"
  unfolding keepsCfg_def by blast

lemma ensuresD: "ensures P f \<Longrightarrow> f c = Some c' \<Longrightarrow> P c'"
  unfolding ensures_def by blast

text \<open>The overlay touches the settings of deployments and the observation only.\<close>

lemma overlaid_fields [simp]:
  "cfg_nodeID (overlaid l c) = cfg_nodeID c" "cfg_token (overlaid l c) = cfg_token c" "cfg_interval (overlaid l c) = cfg_interval c"
  "cfg_fileReadRoots (overlaid l c) = cfg_fileReadRoots c" "cfg_fileWriteRoots (overlaid l c) = cfg_fileWriteRoots c"
  "cfg_allowedLogSources (overlaid l c) = cfg_allowedLogSources c" "cfg_pm2User (overlaid l c) = cfg_pm2User c"
  "cfg_firewallProtectedSources (overlaid l c) = cfg_firewallProtectedSources c"
  "cfg_firewallProtectedPorts (overlaid l c) = cfg_firewallProtectedPorts c"
  "writesNeedReads (overlaid l c) = writesNeedReads c" "pm2Unprivileged (overlaid l c) = pm2Unprivileged c"
proof -
  have over: "writesNeedReads (applyProfileOverlay p c) = writesNeedReads c" "pm2Unprivileged (applyProfileOverlay p c) = pm2Unprivileged c"
    "writesNeedReads (c\<lparr>cfg_profileObservation := ob\<rparr>) = writesNeedReads c" "pm2Unprivileged (c\<lparr>cfg_profileObservation := ob\<rparr>) = pm2Unprivileged c" for p ob c
    unfolding writesNeedReads_def pm2Unprivileged_def applyProfileOverlay_def by simp_all
  show "writesNeedReads (overlaid l c) = writesNeedReads c" "pm2Unprivileged (overlaid l c) = pm2Unprivileged c"
    unfolding overlaid_def Let_def by (simp_all add: over split: prod.split)
qed (simp_all add: overlaid_def applyProfileOverlay_def Let_def split: prod.split)

lemma overlaid_deploy:
  assumes "validProfile (pw_Profile (fst l))" "deployNeedsRead c"
  shows "deployNeedsRead (overlaid l c)"
proof -
  have "deployNeedsRead (applyProfileOverlay p c)" if "validProfile p" for p c
    using that unfolding validProfile_def deployNeedsRead_def applyProfileOverlay_def by simp
  moreover have "deployNeedsRead (c\<lparr>cfg_profileObservation := ob\<rparr>)" for ob
    using assms(2) unfolding deployNeedsRead_def by simp
  ultimately show ?thesis using assms(1) unfolding overlaid_def Let_def by (auto split: prod.split)
qed

lemma nodeID_agree:
  assumes "nodeIDPattern s"
  shows "validNodeID s"
proof -
  have n: "s \<noteq> []" "length s \<le> 128" "word_name ''._-'' s"
    using assms by (simp_all add: nodeIDPattern_def matchName_iff ascii_def)
  then have "plainName s" by (auto intro: word_name_plain)
  then have "TrimSpace s = s"
    by (intro TrimSpace_ascii) (auto simp: plainName_def list_all_iff nameByte_def asciiSpace_def rune_in_def asciiLetterOrDigit_def)
  moreover have "(\<lambda>r. asciiLetterOrDigit r \<or> rune_in ''._-'' r)
      = (\<lambda>r. asciiLetterOrDigit r \<or> r = byte (CHR ''.'') \<or> r = byte (CHR ''_'') \<or> r = byte (CHR ''-''))"
    by (auto simp: rune_in_def)
  ultimately show ?thesis using n by (simp add: validNodeID_def word_name_def maxNodeIDLength_def)
qed

lemma loaded_facts:
  assumes "loadConfigFromEnv url uri dur lookup readFile w = (Ret (Some c) :: ('e, config option) io_res, w')"
  shows "validNodeID (cfg_nodeID c)" "validToken (cfg_token c)" "minInterval \<le> cfg_interval c" "cfg_interval c \<le> maxInterval"
    "writesNeedReads c" "deployNeedsRead c" "fileRootsNested c" "pm2Unprivileged c"
    "set (cfg_allowedLogSources c) \<subseteq> Collect validAgentLogSource" "length (cfg_allowedLogSources c) \<le> 7"
    "parseFirewallSources (envValue lookup ''HSERVER_AGENT_FIREWALL_PROTECTED_SOURCES'') = Some (cfg_firewallProtectedSources c)"
    "parseFirewallPorts (envValue lookup ''HSERVER_AGENT_FIREWALL_PROTECTED_PORTS'') = Some (cfg_firewallProtectedPorts c)"
    "parseAbsoluteDirectories (envValue lookup ''HSERVER_AGENT_FILE_READ_ROOTS'') = Some (cfg_fileReadRoots c)"
    "parseAbsoluteDirectories (envValue lookup ''HSERVER_AGENT_FILE_WRITE_ROOTS'') = Some (cfg_fileWriteRoots c)"
proof -
  obtain c0 token c1 c2 store loaded w1 where l: "loadNode url lookup zeroConfig = Some c0"
    "loadToken token c0 = Some c1" "loadEnvironment uri dur lookup c1 = Some c2"
    "loadActiveProfile store w1 = (Ret loaded :: ('e, _) io_res, w')" "c = overlaid loaded c2"
    using assms by (rule loadConfig_cases)
  note env = env_guards [THEN ensuresD, OF l(3)]
  have c2: "nodeIDPattern (cfg_nodeID c2)" "validToken (cfg_token c2)"
    using node_token_kept(1,2) [THEN ensuresD] node_token_kept(3,4,5) [THEN keepsD] l by blast+
  have user: "cfg_pm2User c2 \<noteq> ''root''"
    using node_token_kept(6,7) [THEN keepsD] pm2User_env [THEN keepsD] l by (fastforce simp: zeroConfig_def)
  have guards2: "writesNeedReads c2" "deployNeedsRead c2" "pm2Unprivileged c2"
    using env user by (simp_all add: writesNeedReads_def deployNeedsRead_def pm2Unprivileged_def)
  have "validProfile (pw_Profile (fst loaded))" using l(4) loaded_profile by (cases loaded) auto
  then show "deployNeedsRead c" using guards2 overlaid_deploy by (simp add: l(5))
  show "fileRootsNested c" using env(9) env(17,18) [THEN parseAbsoluteDirectories_roots] by (simp add: l(5) fileRootsNested_def)
  show "validNodeID (cfg_nodeID c)" using c2 nodeID_agree by (simp add: l(5))
  show "validToken (cfg_token c)" "minInterval \<le> cfg_interval c" "cfg_interval c \<le> maxInterval" "writesNeedReads c" "pm2Unprivileged c"
    "set (cfg_allowedLogSources c) \<subseteq> Collect validAgentLogSource" "length (cfg_allowedLogSources c) \<le> 7"
    "parseFirewallSources (envValue lookup ''HSERVER_AGENT_FIREWALL_PROTECTED_SOURCES'') = Some (cfg_firewallProtectedSources c)"
    "parseFirewallPorts (envValue lookup ''HSERVER_AGENT_FIREWALL_PROTECTED_PORTS'') = Some (cfg_firewallProtectedPorts c)"
    "parseAbsoluteDirectories (envValue lookup ''HSERVER_AGENT_FILE_READ_ROOTS'') = Some (cfg_fileReadRoots c)"
    "parseAbsoluteDirectories (envValue lookup ''HSERVER_AGENT_FILE_WRITE_ROOTS'') = Some (cfg_fileWriteRoots c)"
    using c2 guards2 env by (simp_all add: l(5))
qed


section \<open>A configuration that loads\<close>

text \<open>
  A step succeeds, with \<open>P\<close> kept: for an environment that sets no grant the guards hold all along.
\<close>

definition succeeds :: "(config \<Rightarrow> bool) \<Rightarrow> load_step \<Rightarrow> bool" where
  "succeeds P f \<longleftrightarrow> (\<forall>c. P c \<longrightarrow> (\<exists>c'. f c = Some c' \<and> P c'))"

lemma succeeds_Nil: "succeeds P (steps [])"
  by (simp add: succeeds_def steps_Nil)

lemma succeeds_Cons: "succeeds P f \<Longrightarrow> succeeds P (steps fs) \<Longrightarrow> succeeds P (steps (f # fs))"
  unfolding succeeds_def by (fastforce simp: steps_Cons)

lemma succeeds_setting:
  "v \<noteq> None \<Longrightarrow> (\<And>x c. v = Some x \<Longrightarrow> P c \<Longrightarrow> P (upd x c)) \<Longrightarrow> succeeds P (setting v upd)"
  by (auto simp: succeeds_def setting_def)

lemma succeeds_choice:
  "(\<And>c. P c \<Longrightarrow> v c \<noteq> None) \<Longrightarrow> (\<And>x c. v c = Some x \<Longrightarrow> P c \<Longrightarrow> P (upd x c)) \<Longrightarrow> succeeds P (\<lambda>c. setting (v c) upd c)"
  by (fastforce simp: succeeds_def setting_def)

lemma succeeds_reject: "(\<And>c. P c \<Longrightarrow> \<not> bad c) \<Longrightarrow> succeeds P (reject bad)"
  by (simp add: succeeds_def reject_def)

lemmas succeeds_rules = succeeds_Nil succeeds_Cons succeeds_setting succeeds_choice succeeds_reject

definition noGrants :: "config \<Rightarrow> bool" where
  "noGrants c \<longleftrightarrow>
     \<not> cfg_allowNginxConfigWrite c \<and> \<not> cfg_allowDomainActions c \<and> \<not> cfg_allowSSLActions c \<and> \<not> cfg_allowBackupRun c
     \<and> \<not> cfg_allowDeployActions c \<and> \<not> cfg_allowDeployDomainRead c \<and> \<not> cfg_allowDeployDomainActions c
     \<and> \<not> cfg_allowAgentUpdateActions c \<and> cfg_agentUpdateManifestURL c = [] \<and> cfg_allowedDatabaseRestarts c = []
     \<and> \<not> cfg_allowPHPConfigWrite c \<and> \<not> cfg_allowPM2Read c \<and> cfg_allowedPM2Actions c = [] \<and> cfg_pm2User c = []
     \<and> \<not> cfg_allowCronWrite c \<and> \<not> cfg_allowCronRun c \<and> \<not> cfg_allowFirewallWrite c"

text \<open>A node of the demonstration hub, with a write root below its read root.\<close>

definition demoURL :: URL where
  "demoURL = \<lparr>url_Scheme = ''https'', url_Host = ''hub.test'', url_User = False, url_RawQuery = [], url_Fragment = [], url_Path = ''/''\<rparr>"

definition demoEnv :: "string \<Rightarrow> string option" where
  "demoEnv = map_of
     [(''HSERVER_AGENT_HUB_URL'', ''https://hub.test/''), (''HSERVER_AGENT_NODE_ID'', ''node-1''), (''HSERVER_AGENT_TOKEN'', ''t0ken''),
      (''HSERVER_AGENT_ALLOWED_SERVICES'', ''nginx''), (''HSERVER_AGENT_ALLOWED_LOG_SOURCES'', ''system,nginx''),
      (''HSERVER_AGENT_FILE_READ_ROOTS'', ''/srv''), (''HSERVER_AGENT_FILE_WRITE_ROOTS'', ''/srv/app''),
      (''HSERVER_AGENT_ALLOW_FIREWALL_READ'', ''TRUE''),
      (''HSERVER_AGENT_FIREWALL_PROTECTED_SOURCES'', ''10.0.0.0/8''), (''HSERVER_AGENT_FIREWALL_PROTECTED_PORTS'', ''22'')]"

lemma TrimSpace_blank [simp]: "TrimSpace [] = []"
  by (simp add: TrimSpace_def trim_left.simps trim_right.simps)

lemma env_unset: "k \<notin> set [''HSERVER_AGENT_HUB_URL'', ''HSERVER_AGENT_NODE_ID'', ''HSERVER_AGENT_TOKEN'', ''HSERVER_AGENT_ALLOWED_SERVICES'',
     ''HSERVER_AGENT_ALLOWED_LOG_SOURCES'', ''HSERVER_AGENT_FILE_READ_ROOTS'', ''HSERVER_AGENT_FILE_WRITE_ROOTS'',
     ''HSERVER_AGENT_ALLOW_FIREWALL_READ'', ''HSERVER_AGENT_FIREWALL_PROTECTED_SOURCES'', ''HSERVER_AGENT_FIREWALL_PROTECTED_PORTS'']
   \<Longrightarrow> envValue demoEnv k = []"
  unfolding envValue_def demoEnv_def by (simp del: of_char_eq_iff)

lemma TrimSpace_words:
  "TrimSpace ''nginx'' = ''nginx''" "TrimSpace ''system'' = ''system''" "TrimSpace ''system,nginx'' = ''system,nginx''" "TrimSpace ''/srv'' = ''/srv''"
  "TrimSpace ''/srv/app'' = ''/srv/app''" "TrimSpace ''TRUE'' = ''TRUE''" "TrimSpace ''10.0.0.0/8'' = ''10.0.0.0/8''" "TrimSpace ''22'' = ''22''"
  "TrimSpace ''node-1'' = ''node-1''" "TrimSpace ''t0ken'' = ''t0ken''" "TrimSpace ''https://hub.test/'' = ''https://hub.test/''"
  by (simp_all add: TrimSpace_ascii asciiSpace_def)

lemma item_values:
  "servicePattern ''nginx''" "parseAbsoluteDirectory ''/srv'' [] = Some ''/srv''" "parseAbsoluteDirectory ''/srv/app'' [] = Some ''/srv/app''"
  "normalizeIPv4Network ''10.0.0.0/8'' = Some ''10.0.0.0/8''" "parseFirewallPort ''22'' = Some 22" "asciiLower ''TRUE'' = ''true''"
  "nodeIDPattern ''node-1''" "validToken ''t0ken''"
proof -
  show "servicePattern ''nginx''" "nodeIDPattern ''node-1''"
    by (simp_all add: servicePattern_def nodeIDPattern_def matchName_def ascii_runes wordRune_def rune_in_def asciiLetterOrDigit_def)
  show "parseFirewallPort ''22'' = Some 22"
  proof -
    have "dec_str 22 = ''22''" by code_simp
    then show ?thesis using ParseInt64_dec_str [of 22] by (simp add: parseFirewallPort_def)
  qed
  show "validToken ''t0ken''" by (simp add: validToken_def maxTokenBytes_def)
qed code_simp+

lemma env_set:
  "parseServices (envValue demoEnv ''HSERVER_AGENT_ALLOWED_SERVICES'') = Some [''nginx'']"
  "parseLogSources (envValue demoEnv ''HSERVER_AGENT_ALLOWED_LOG_SOURCES'') = Some [''system'', ''nginx'']"
  "parseAbsoluteDirectories (envValue demoEnv ''HSERVER_AGENT_FILE_READ_ROOTS'') = Some [''/srv'']"
  "parseAbsoluteDirectories (envValue demoEnv ''HSERVER_AGENT_FILE_WRITE_ROOTS'') = Some [''/srv/app'']"
  "parseOptionalBool (envValue demoEnv ''HSERVER_AGENT_ALLOW_FIREWALL_READ'') = Some True"
  "parseFirewallSources (envValue demoEnv ''HSERVER_AGENT_FIREWALL_PROTECTED_SOURCES'') = Some [''10.0.0.0/8'']"
  "parseFirewallPorts (envValue demoEnv ''HSERVER_AGENT_FIREWALL_PROTECTED_PORTS'') = Some [22]"
  by (simp_all add: envValue_def demoEnv_def parseServices_def parseLogSources_def validAgentLogSource_def parseAbsoluteDirectories_def
      parseOptionalBool_def parseFirewallSources_def parseFirewallPorts_def parseParts_def keysOf_def
      maxServices_def maxLogSources_def maxFileRoots_def TrimSpace_words item_values Let_def)

lemma unset_values:
  "parseOptionalBool [] = Some False" "parseServices [] = Some []" "parseHostActions [] = Some []"
  "parseDiskCleanupTargets [] = Some []" "parseContainerActions [] = Some []" "parseNginxActions [] = Some []"
  "parsePHPActions [] = Some []" "parsePM2Actions [] = Some []" "parseDatabaseEngines [] = Some []" "parseAbsoluteDirectories [] = Some []"
  by (simp_all add: parseOptionalBool_def asciiLower_def Let_def parseServices_def parseHostActions_def parseDiskCleanupTargets_def
      parseContainerActions_def parseNginxActions_def parsePHPActions_def parsePM2Actions_def parseDatabaseEngines_def
      parseAbsoluteDirectories_def parseParts_def)

lemma default_paths:
  "parseAbsoluteDirectory [] defaultNginxAvailable = Some defaultNginxAvailable"
  "parseAbsoluteDirectory [] defaultNginxEnabled = Some defaultNginxEnabled"
  "parseAbsoluteDirectory [] defaultCertConfigDir = Some defaultCertConfigDir"
  "parseAbsoluteDirectory [] defaultCertWorkDir = Some defaultCertWorkDir"
  "parseAbsoluteDirectory [] defaultCertLogsDir = Some defaultCertLogsDir"
  "parseAbsoluteFilePath [] defaultCertbotBinary = Some defaultCertbotBinary"
  "parseAbsoluteFilePath [] defaultOpenSSLBinary = Some defaultOpenSSLBinary"
  "parseAbsoluteFilePath [] defaultCABundle = Some defaultCABundle"
  "parseAbsoluteFilePath [] defaultBackupPlans = Some defaultBackupPlans"
  "parseAbsoluteFilePath [] defaultDeployPlans = Some defaultDeployPlans"
  "parseAbsoluteDirectory [] defaultDeployACMERoot = Some defaultDeployACMERoot"
  "parseAbsoluteDirectory [] defaultAgentStateDir = Some defaultAgentStateDir"
  "parseAbsoluteFilePath [] defaultLifecycleTool = Some defaultLifecycleTool"
  "parseAbsoluteFilePath [] defaultSystemdRun = Some defaultSystemdRun"
  "parseAbsoluteFilePath [] defaultSystemctl = Some defaultSystemctl"
  "parseAbsoluteFilePath [] defaultMariaDBBinary = Some defaultMariaDBBinary"
  "parseAbsoluteFilePath [] defaultMariaAdmin = Some defaultMariaAdmin"
  "parseAbsoluteFilePath [] defaultPGClusters = Some defaultPGClusters"
  "parseAbsoluteFilePath [] defaultPSQLBinary = Some defaultPSQLBinary"
  "parseAbsoluteFilePath [] defaultPGIsReady = Some defaultPGIsReady"
  "parseAbsoluteDirectory [] defaultPHPConfigRoot = Some defaultPHPConfigRoot"
  "parseAbsoluteDirectory [] defaultPHPBinaryRoot = Some defaultPHPBinaryRoot"
  "parseAbsoluteFilePath [] defaultCronStatePath = Some defaultCronStatePath"
  "parseAbsoluteFilePath [] defaultCronFilePath = Some defaultCronFilePath"
  "parseAbsoluteFilePath [] defaultCronLockPath = Some defaultCronLockPath"
  "parseAbsoluteFilePath [] defaultCrontabBinary = Some defaultCrontabBinary"
  "parseAbsoluteFilePath [] defaultRunuserBinary = Some defaultRunuserBinary"
  "parseAbsoluteFilePath [] defaultCronShell = Some defaultCronShell"
  "parseAbsoluteFilePath [] defaultIPTablesBinary = Some defaultIPTablesBinary"
  "parseAbsoluteFilePath [] defaultFirewallSave = Some defaultFirewallSave"
  "parseAbsoluteFilePath [] defaultFirewallLock = Some defaultFirewallLock"
  "parseAbsoluteDirectory [] defaultFirewallState = Some defaultFirewallState"
  by code_simp+

lemmas env_values = env_unset env_set unset_values default_paths

lemma default_services: "servicePattern defaultCronService" "servicePattern defaultFirewallSvc"
  by (simp_all add: servicePattern_def defaultCronService_def defaultFirewallSvc_def matchName_def ascii_runes wordRune_def rune_in_def
      asciiLetterOrDigit_def)

lemma succeeds_pm2: "succeeds noGrants (loadPM2 demoEnv)"
  unfolding group_defs by (intro succeeds_rules) (simp_all add: env_values noGrants_def)

lemma succeeds_groups:
  "succeeds noGrants (loadInterval dur demoEnv)" "succeeds noGrants (loadActions demoEnv)" "succeeds noGrants (loadNginx demoEnv)"
  "succeeds noGrants (loadSSL demoEnv)" "succeeds noGrants (loadBackup demoEnv)" "succeeds noGrants (loadDeploy demoEnv)"
  "succeeds noGrants (loadUpdate manifest demoEnv)" "succeeds noGrants (loadDatabase demoEnv)" "succeeds noGrants (loadPHP demoEnv)"
  "succeeds noGrants (loadCron demoEnv)" "succeeds noGrants (loadFirewall demoEnv)"
  unfolding group_defs
  by (intro succeeds_rules; simp add: env_values default_services noGrants_def Let_def; fail)+

lemma succeeds_files: "succeeds noGrants (loadFiles demoEnv)"
  unfolding succeeds_def loadFiles_def
  by (simp add: steps_Cons steps_Nil setting_def reject_def env_values pathWithinAnyRoot_def HasPrefix_def noGrants_def)

lemma succeeds_env: "succeeds noGrants (loadEnvironment uri dur demoEnv)"
  unfolding loadEnvironment_def by (intro succeeds_Nil succeeds_Cons succeeds_groups succeeds_pm2 succeeds_files)

lemma succeeds_node:
  "succeeds noGrants (loadNode (\<lambda>_. Some demoURL) demoEnv)" "succeeds noGrants (loadToken (Some ''t0ken''))"
proof -
  have env: "envValue demoEnv ''HSERVER_AGENT_HUB_URL'' = ''https://hub.test/''" "envValue demoEnv ''HSERVER_AGENT_NODE_ID'' = ''node-1''"
    by (simp_all add: envValue_def demoEnv_def TrimSpace_words)
  show "succeeds noGrants (loadNode (\<lambda>_. Some demoURL) demoEnv)"
    unfolding succeeds_def loadNode_def
    by (simp add: steps_Cons steps_Nil setting_def reject_def env item_values validHubURL_def demoURL_def noGrants_def)
  show "succeeds noGrants (loadToken (Some ''t0ken''))"
    unfolding succeeds_def loadToken_def by (simp add: setting_def item_values noGrants_def)
qed

definition demoLoad :: "(unit, config option) io" where
  "demoLoad = loadConfigFromEnv (\<lambda>_. Some demoURL) (\<lambda>_. None) (\<lambda>_. None) demoEnv osReadFile"

definition bareWorld :: world where
  "bareWorld = \<lparr>w_fs = (\<lambda>_. None), w_fates = [], w_rands = [], w_euid0 = True\<rparr>"

lemma demo_load: "\<exists>c. demoLoad bareWorld = (Ret (Some c), bareWorld)"
proof -
  have zero: "noGrants zeroConfig" by (simp add: noGrants_def zeroConfig_def)
  then obtain c0 where c0: "loadNode (\<lambda>_. Some demoURL) demoEnv zeroConfig = Some c0" "noGrants c0"
    using succeeds_node(1) unfolding succeeds_def by blast
  then obtain c1 where c1: "loadToken (Some ''t0ken'') c0 = Some c1" "noGrants c1"
    using succeeds_node(2) unfolding succeeds_def by blast
  then obtain c2 where c2: "loadEnvironment (\<lambda>_. None) (\<lambda>_. None) demoEnv c1 = Some c2"
    using succeeds_env unfolding succeeds_def by blast
  have token: "envValue demoEnv ''HSERVER_AGENT_TOKEN'' = ''t0ken''" "envValue demoEnv ''HSERVER_AGENT_TOKEN_FILE'' = []"
    by (simp_all add: envValue_def demoEnv_def TrimSpace_words)
  have "\<exists>l. loadActiveProfile s bareWorld = (Ret l :: (unit, _) io_res, bareWorld)" for s
    by (cases "missingObservation None") (simp add: loadActiveProfile_def readWrapper_def readRegular_def readState_def bareWorld_def
        seqIO_def ret_def attempt_def osLstat_def syscall_def Let_def)
  then obtain l where "loadActiveProfile (newProfileStoreWithReader (cfg_agentStateDir c2) (Some osReadFile)) bareWorld = (Ret l :: (unit, _) io_res, bareWorld)"
    by blast
  then show ?thesis
    by (simp add: demoLoad_def loadConfigFromEnv_def c0 c1 c2 steps_Cons steps_Nil tokenSource_def token seqIO_def ret_def)
qed


section \<open>Heartbeats\<close>

text \<open>What a configuration announces, as a table of conditions and capabilities.\<close>

definition capabilityTable :: "bool \<Rightarrow> config \<Rightarrow> (bool \<times> string) list" where
  "capabilityTable profileReady cfg =
     [(True, CapabilityInventory), (True, CapabilityProcessRead),
      (cfg_observedServices cfg \<noteq> [] \<or> cfg_allowedServices cfg \<noteq> [], CapabilityServiceStatus),
      (cfg_allowedServices cfg \<noteq> [], CapabilityServiceAction), (cfg_allowedHostActions cfg \<noteq> [], CapabilityHostAction),
      (cfg_allowProcessSignals cfg, CapabilityProcessSignal), (cfg_allowTerminal cfg, CapabilityTerminal),
      (cfg_allowedDiskCleanup cfg \<noteq> [], CapabilityDiskCleanup), (cfg_allowedLogSources cfg \<noteq> [], CapabilityLogsRead),
      (cfg_allowContainerRead cfg, CapabilityContainerRead), (cfg_allowedContainerActions cfg \<noteq> [], CapabilityContainerAction),
      (cfg_allowedNginxActions cfg \<noteq> [], CapabilityNginxAction), (cfg_allowNginxConfigRead cfg, CapabilityNginxConfigRead),
      (cfg_allowNginxConfigWrite cfg, CapabilityNginxConfigWrite), (cfg_allowPHPConfigRead cfg, CapabilityPHPRead),
      (cfg_allowPHPConfigWrite cfg, CapabilityPHPWrite), (cfg_allowedPHPActions cfg \<noteq> [], CapabilityPHPAction),
      (cfg_allowPM2Read cfg, CapabilityPM2Read), (cfg_allowedPM2Actions cfg \<noteq> [], CapabilityPM2Action),
      (cfg_allowCronRead cfg, CapabilityCronRead), (cfg_allowCronWrite cfg, CapabilityCronWrite), (cfg_allowCronRun cfg, CapabilityCronRun),
      (cfg_allowFirewallRead cfg, CapabilityFirewallRead), (cfg_allowFirewallWrite cfg, CapabilityFirewallWrite),
      (cfg_allowDomainRead cfg, CapabilityDomainRead), (cfg_allowDomainActions cfg, CapabilityDomainAction), (cfg_allowSSLRead cfg, CapabilitySSLRead),
      (cfg_allowSSLActions cfg, CapabilitySSLAction), (cfg_allowDatabaseRead cfg, CapabilityDatabaseRead),
      (cfg_allowedDatabaseRestarts cfg \<noteq> [], CapabilityDatabaseAction), (cfg_allowBackupRead cfg, CapabilityBackupRead),
      (cfg_allowBackupRun cfg, CapabilityBackupRun), (cfg_fileReadRoots cfg \<noteq> [], CapabilityFilesRead),
      (cfg_fileWriteRoots cfg \<noteq> [], CapabilityFilesWrite), (cfg_allowDeployRead cfg, CapabilityDeployRead),
      (cfg_allowDeployActions cfg, CapabilityDeployAction), (cfg_allowDeployDomainRead cfg, CapabilityDeployDomainRead),
      (cfg_allowDeployDomainActions cfg, CapabilityDeployDomainAction), (cfg_allowAgentUpdateRead cfg, CapabilityAgentUpdateRead),
      (cfg_allowAgentUpdateActions cfg, CapabilityAgentUpdateAction), (profileReady, CapabilityProfileApply), (True, CapabilityIntegrationStatus),
      (True, CapabilityMetricsRead)]"

lemma table_row:
  "map snd (filter fst ((b, x) # t)) = announce b x @ map snd (filter fst t)" "announce True x = [x]" "map snd (filter fst []) = []"
  by (simp_all add: announce_def)

lemma advertised_table: "advertisedCapabilities r c = map snd (filter fst (capabilityTable r c))"
  unfolding advertisedCapabilities_def capabilityTable_def by (simp only: table_row append_Cons append_Nil append_Nil2)

lemma table_capabilities: "set (map snd (capabilityTable r c)) \<subseteq> set knownCapabilities" "distinct (map snd (capabilityTable r c))"
  unfolding capabilityTable_def list.map snd_conv knownCapabilities_def by (simp_all add: hub_consts)

lemma advertised_valid: "list_all (\<lambda>x. x \<in> set knownCapabilities) (advertisedCapabilities r c)" "distinct (advertisedCapabilities r c)"
  using table_capabilities [of r c] by (auto simp: advertised_table list_all_iff intro: distinct_map_filter)

lemma advertised_iff: "x \<in> set (advertisedCapabilities r c) \<longleftrightarrow> (True, x) \<in> set (capabilityTable r c)"
  by (force simp: advertised_table)

lemma heartbeat_parts:
  assumes "heartbeatRequest c version hostname collected now pc w = (Ret hb :: ('e, _) io_res, w')"
  shows "hb_ProtocolVersion hb = ProtocolVersion" "hb_NodeID hb = cfg_nodeID c" "hb_AgentVersion hb = version" "hb_Hostname hb = hostname"
    "hb_SentAt hb = now" "\<exists>r. hb_Capabilities hb = advertisedCapabilities r c"
    "inv_LogSources (hb_Inventory hb) = configuredLogSources (cfg_allowedLogSources c)"
    "inv_FileReadRoots (hb_Inventory hb) = (if cfg_fileReadRoots c = [] then None else Some (cfg_fileReadRoots c))"
    "inv_FileWriteRoots (hb_Inventory hb) = cfg_fileWriteRoots c" "inv_Arch (hb_Inventory hb) = inv_Arch collected"
    "validateAgentProfileObservation (hb_Profile hb) = Inr ()"
proof -
  define base where "base r = \<lparr>hb_ProtocolVersion = ProtocolVersion, hb_NodeID = cfg_nodeID c, hb_AgentVersion = version,
                 hb_Capabilities = advertisedCapabilities r c, hb_Hostname = hostname, hb_SentAt = now,
                 hb_Inventory = collected\<lparr>inv_LogSources := configuredLogSources (cfg_allowedLogSources c),
                                    inv_FileReadRoots := fst (configuredManagedFileRoots c),
                                    inv_FileWriteRoots := snd (configuredManagedFileRoots c)\<rparr>,
                 hb_Profile = None\<rparr>" for r
  obtain r r2 w2 where "(if r2 then seqIO (observation pc) (\<lambda>ob. ret (attachProfileObservation ob (base r))) else ret (base r)) w2
      = (Ret hb :: ('e, _) io_res, w')"
    using assms unfolding heartbeatRequest_def seqIO_Ret [of "profileApplyReady c"] Let_def base_def by blast
  then have "hb = base r \<or> (\<exists>ob w3 w4. observation pc w3 = (Ret ob :: ('e, _) io_res, w4) \<and> hb = attachProfileObservation ob (base r))"
    by (cases r2) (auto simp: seqIO_Ret ret_Ret)
  then obtain p where hb: "hb = (base r)\<lparr>hb_Profile := p\<rparr>" "validateAgentProfileObservation p = Inr ()"
  proof (elim disjE exE conjE)
    assume "hb = base r"
    then show ?thesis using that [of None] by (simp add: base_def validateAgentProfileObservation_def)
  next
    fix ob w3 w4 assume "observation pc w3 = (Ret ob :: ('e, _) io_res, w4)" "hb = attachProfileObservation ob (base r)"
    then show ?thesis using that [of "Some ob"] runs_any_ret [OF _ runs_observation] by (auto simp: attachProfileObservation_def)
  qed
  then show "hb_ProtocolVersion hb = ProtocolVersion" "hb_NodeID hb = cfg_nodeID c" "hb_AgentVersion hb = version" "hb_Hostname hb = hostname"
    "hb_SentAt hb = now" "\<exists>r. hb_Capabilities hb = advertisedCapabilities r c"
    "inv_LogSources (hb_Inventory hb) = configuredLogSources (cfg_allowedLogSources c)"
    "inv_FileReadRoots (hb_Inventory hb) = (if cfg_fileReadRoots c = [] then None else Some (cfg_fileReadRoots c))"
    "inv_FileWriteRoots (hb_Inventory hb) = cfg_fileWriteRoots c" "inv_Arch (hb_Inventory hb) = inv_Arch collected"
    "validateAgentProfileObservation (hb_Profile hb) = Inr ()"
    by (auto simp: base_def configuredManagedFileRoots_def)
qed

text \<open>
  C31. The heartbeat of a loaded configuration passes the checks of the hub on names, capabilities,
  profile and log sources, as long as host name, release and architecture are of ordinary length
  and without control characters: the node id is valid, every capability is known to the hub and
  announced once, the observation is one that the hub takes, and the log sources are known and distinct.
\<close>

theorem loaded_heartbeat_accepted:
  assumes "loadConfigFromEnv parseURL parseRequestURI parseDuration lookup readFile w0 = (Ret (Some c) :: ('e, config option) io_res, w1)"
    "heartbeatRequest c version hostname collected now pc w = (Ret hb :: ('e, HeartbeatRequest) io_res, w')"
    "length hostname \<le> maxHostnameLength" "\<not> containsControl hostname" "length version \<le> maxAgentVersionLength" "\<not> containsControl version"
    "length (inv_Arch collected) \<le> 32" "\<not> containsControl (inv_Arch collected)"
  shows "validateHeartbeatHead hb = Inr () \<and> hb_ProtocolVersion hb = ProtocolVersion \<and> length (inv_LogSources (hb_Inventory hb)) \<le> 7
    \<and> list_all validLogSource (inv_LogSources (hb_Inventory hb)) \<and> distinct (inv_LogSources (hb_Inventory hb))"
proof -
  note hb = heartbeat_parts [OF assms(2)] and cfg = loaded_facts [OF assms(1)]
  obtain r where "hb_Capabilities hb = advertisedCapabilities r c" using hb(6) by blast
  then have "validateHeartbeatHead hb = Inr ()"
    using assms(3-) cfg(1) advertised_valid [of r c] by (simp add: validateHeartbeatHead_def hb)
  moreover have "validLogSource s" if "s \<in> set (cfg_allowedLogSources c)" for s
    using that cfg(9) by (auto simp: validAgentLogSource_def validLogSource_def)
  moreover have "length (configuredLogSources (cfg_allowedLogSources c)) \<le> 7"
    using cfg(10) card_length [of "cfg_allowedLogSources c"] by (simp add: configuredLogSources_def)
  ultimately show ?thesis by (simp add: hb configuredLogSources_def list_all_iff)
qed


section \<open>What is announced is dispatched\<close>

text \<open>
  C30. An agent carries out what it announces: a task that the hub admits, and for which the node has
  announced the capability, is dispatched to a controller by the executor that the same configuration
  gives; only for services and host actions the name in the task has to be on the configured list too.
\<close>

theorem announced_task_dispatched:
  assumes "loadConfigFromEnv parseURL parseRequestURI parseDuration lookup readFile w0 = (Ret (Some c) :: ('e, config option) io_res, w1)"
    "ValidateTaskRequest u req = Inr ()" "req_Kind req \<noteq> TaskIntegrationStatus"
    "hasCapability (advertisedCapabilities ready1 c) (capabilityForTask (req_Kind req))"
  shows "(\<exists>call. dispatch (agentExecutor c) (req_Kind req) (req_Payload req) = Inr call) \<longleftrightarrow>
    (if req_Kind req = TaskServiceStatus then
       gget (req_Payload req) ''service'' \<in> set (cfg_observedServices c) \<union> set (cfg_allowedServices c)
     else if req_Kind req = TaskServiceAction then gget (req_Payload req) ''service'' \<in> set (cfg_allowedServices c)
     else if req_Kind req = TaskHostAction then gget (req_Payload req) ''action'' \<in> set (cfg_allowedHostActions c)
     else True)"
proof -
  let ?e = "agentExecutor c" and ?p = "req_Payload req"
  have upd: "cfg_allowAgentUpdateActions c \<Longrightarrow> cfg_allowAgentUpdateRead c"
    using loaded_facts(5) [OF assms(1)] by (simp add: writesNeedReads_def)
  have e: "te_host ?e" "te_disk ?e" "te_logs ?e" "te_containers ?e" "te_nginx ?e" "te_php ?e" "te_pm2 ?e" "te_cron ?e" "te_firewall ?e"
    "te_domains ?e" "te_ssl ?e" "te_databases ?e" "te_backups ?e" "te_files ?e" "te_deploys ?e" "te_deployDomains ?e" "te_metrics ?e"
    "te_allowProcessSignals ?e = cfg_allowProcessSignals c" "te_agentUpdates ?e = cfg_allowAgentUpdateRead c"
    "cfg_allowAgentUpdateRead c \<and> te_allowAgentUpdates ?e \<longleftrightarrow> cfg_allowAgentUpdateActions c"
    "set (te_observed ?e) = set (cfg_observedServices c) \<union> set (cfg_allowedServices c)" "te_allowed ?e = cfg_allowedServices c"
    "te_allowedHostActions ?e = cfg_allowedHostActions c"
    using upd by (auto simp: agentExecutor_def newTaskExecutor_def Let_def)
  have flags: "hasCapability (advertisedCapabilities ready1 c) CapabilityProcessSignal \<Longrightarrow> cfg_allowProcessSignals c"
    "hasCapability (advertisedCapabilities ready1 c) CapabilityAgentUpdateRead \<Longrightarrow> cfg_allowAgentUpdateRead c"
    "hasCapability (advertisedCapabilities ready1 c) CapabilityAgentUpdateAction \<Longrightarrow> cfg_allowAgentUpdateActions c"
    by (simp_all add: hasCapability_def advertised_iff capabilityTable_def hub_consts)
  have "req_Kind req \<in> set panelKinds" using assms(2) by (simp add: ValidateTaskRequest_def Let_def split: if_splits)
  moreover have "enabledFor ?e kind ?p \<longleftrightarrow>
      (if kind = TaskServiceStatus then gget ?p ''service'' \<in> set (cfg_observedServices c) \<union> set (cfg_allowedServices c)
       else if kind = TaskServiceAction then gget ?p ''service'' \<in> set (cfg_allowedServices c)
       else if kind = TaskHostAction then gget ?p ''action'' \<in> set (cfg_allowedHostActions c)
       else if kind = TaskProcessSignal then cfg_allowProcessSignals c
       else if kind = TaskAgentUpdateStatus then cfg_allowAgentUpdateRead c
       else if kind = TaskAgentUpdateAction then cfg_allowAgentUpdateActions c
       else True)" if "kind \<in> set panelKinds" "kind \<noteq> TaskIntegrationStatus" for kind
  proof -
    let ?special = "[TaskServiceStatus, TaskServiceAction, TaskHostAction, TaskProcessSignal, TaskAgentUpdateStatus, TaskAgentUpdateAction]"
    have "distinct ?special" by (simp add: hub_consts)
    moreover have "enabledFor ?e TaskServiceStatus ?p \<longleftrightarrow> gget ?p ''service'' \<in> set (cfg_observedServices c) \<union> set (cfg_allowedServices c)"
      "enabledFor ?e TaskServiceAction ?p \<longleftrightarrow> gget ?p ''service'' \<in> set (cfg_allowedServices c)"
      "enabledFor ?e TaskHostAction ?p \<longleftrightarrow> gget ?p ''action'' \<in> set (cfg_allowedHostActions c)"
      "enabledFor ?e TaskProcessSignal ?p = cfg_allowProcessSignals c" "enabledFor ?e TaskAgentUpdateStatus ?p = cfg_allowAgentUpdateRead c"
      "enabledFor ?e TaskAgentUpdateAction ?p = cfg_allowAgentUpdateActions c"
      by (simp_all add: enabledFor_def e hub_consts)
    moreover have "enabledFor ?e kind ?p" if "kind \<notin> set ?special"
      using that \<open>kind \<in> set panelKinds\<close> \<open>kind \<noteq> TaskIntegrationStatus\<close> unfolding panelKinds_def enabledFor_def
      by (simp add: e) blast
    ultimately show ?thesis by (cases "kind \<in> set ?special") auto
  qed
  moreover have "capabilityForTask TaskProcessSignal = CapabilityProcessSignal"
    "capabilityForTask TaskAgentUpdateStatus = CapabilityAgentUpdateRead" "capabilityForTask TaskAgentUpdateAction = CapabilityAgentUpdateAction"
    by (simp_all add: capabilityForTask_def hub_consts)
  ultimately show ?thesis
    using admittedDispatch [OF assms(2,3)] assms(3,4) flags by auto
qed

section \<open>The protected sources\<close>

lemma parse_ipv4_octets: "parse_ipv4 s = Some v4 \<Longrightarrow> length v4 = 4 \<and> (\<forall>x \<in> set v4. x < 256)"
  by (auto simp: parse_ipv4_def ipv4_octet_def split: list.splits option.splits if_splits)

lemma parse_addr_dotted:
  assumes "parse_addr s = Some (ip, bits)" "CHR '':'' \<notin> set s"
  shows "\<exists>v4. ip = v4_mapped v4 \<and> bits = 32 \<and> length v4 = 4 \<and> (\<forall>x \<in> set v4. x < 256)"
  using assms
  by (auto simp: parse_addr_def find_Some_iff split: option.splits if_splits dest!: parse_ipv4_octets nth_mem)

lemma and_bytes_bounded: "\<forall>x \<in> set xs. x < 256 \<Longrightarrow> \<forall>x \<in> set (and_bytes xs ys). x < 256"
proof -
  have "x AND y < 256" if "x < 256" for x y :: nat
    using that AND_upper1'' [of "int x" 256 "int y"] by (simp add: of_nat_and_eq [symmetric])
  then show "\<forall>x \<in> set xs. x < 256 \<Longrightarrow> \<forall>x \<in> set (and_bytes xs ys). x < 256"
    by (auto simp: and_bytes_def dest!: set_zip_leftD)
qed

text \<open>A source in dotted notation is normalised to a network in dotted notation.\<close>

lemma normalized_dotted:
  assumes "normalizeIPv4Network raw = Some src" "CHR '':'' \<notin> set raw"
  shows "\<exists>v4 n. src = ipv4_string v4 @ ''/'' @ dec_str n \<and> length v4 = 4 \<and> (\<forall>x \<in> set v4. x < 256) \<and> n \<le> 32"
proof (cases "ParseIP raw")
  case None
  then obtain ip net where net: "ParseCIDRNet raw = Some (ip, net)" "src = IPNetString net"
    using assms(1) by (auto simp: normalizeIPv4Network_def split: option.splits if_splits)
  then obtain addr rest bits n where parts: "split_on (CHR 0x2F) raw = addr # rest" "parse_addr addr = Some (ip, bits)" "n \<le> bits"
    "net = \<lparr>net_IP = IPMask ip (CIDRMask n bits), net_Mask = CIDRMask n bits\<rparr>"
    by (auto simp: ParseCIDRNet_def cidr_parts_def Let_def split: list.splits option.splits if_splits)
  have "CHR '':'' \<notin> set addr" using split_on_subset [of "CHR 0x2F" raw] parts(1) assms(2) by auto
  then obtain v4 where v4: "ip = v4_mapped v4" "bits = 32" "length v4 = 4" "\<forall>x \<in> set v4. x < 256"
    using parse_addr_dotted [OF parts(2)] by blast
  let ?nn = "and_bytes v4 (CIDRMask n 32)"
  have "src = ipv4_string ?nn @ ''/'' @ dec_str n" "length ?nn = 4"
    using parts(3,4) v4 net(2) mask_length_CIDR [of n]
    by (simp_all add: IPNetString_def networkNumberAndMask_def IPMask_def ip4_def To4_def v4_mapped_def IPString_def Let_def)
  then show ?thesis using and_bytes_bounded [OF v4(4)] parts(3) v4(2) by blast
next
  case (Some ip)
  then obtain v4 where v4: "ip = v4_mapped v4" "length v4 = 4" "\<forall>x \<in> set v4. x < 256"
    using parse_addr_dotted assms(2) by (fastforce simp: ParseIP_def)
  have "dec_str 32 = ''32''" by code_simp
  moreover have "src = ipv4_string v4 @ ''/32''"
    using assms(1) v4(2) by (simp add: normalizeIPv4Network_def Some v4(1) ip4_def To4_def v4_mapped_def IPString_def)
  ultimately show ?thesis using v4 by (intro exI [of _ v4] exI [of _ 32]) simp
qed

text \<open>The mapped network \<^verbatim>\<open>::ffff:10.0.0.0/64\<close> is read, and written as a network that is no IPv4 network any more.\<close>

lemma mapped_addr:
  "parse_addr ''::ffff:10.0.0.0'' = Some (v4_mapped [10, 0, 0, 0], 128)" "parse_addr ''::ffff:10.0.0.0/64'' = None"
proof -
  have v4: "parse_ipv4 ''10.0.0.0'' = Some [10, 0, 0, 0]" "parse_ipv4 ''10.0.0.0/64'' = None" by code_simp+
  have tail: "v6_loop 7 ''10.0.0.0'' [255, 255] (Some 0) = Some ([255, 255, 10, 0, 0, 0], Some 0, [])"
    "v6_loop 7 ''10.0.0.0/64'' [255, 255] (Some 0) = None"
    using v6_loop.simps(2) [of 6 "''10.0.0.0''" "[255, 255]" "Some 0"] v6_loop.simps(2) [of 6 "''10.0.0.0/64''" "[255, 255]" "Some 0"]
    by (simp_all add: v4 Let_def hex_char_def asciiDigit_def)
  have "v6_loop 8 ''ffff:10.0.0.0'' [] (Some 0) = Some ([255, 255, 10, 0, 0, 0], Some 0, [])" "v6_loop 8 ''ffff:10.0.0.0/64'' [] (Some 0) = None"
    using v6_loop.simps(2) [of 7 "''ffff:10.0.0.0''" "[]" "Some 0"] v6_loop.simps(2) [of 7 "''ffff:10.0.0.0/64''" "[]" "Some 0"]
    by (simp_all add: tail Let_def hex_char_def asciiDigit_def hex_char_val_def)
  then show "parse_addr ''::ffff:10.0.0.0'' = Some (v4_mapped [10, 0, 0, 0], 128)" "parse_addr ''::ffff:10.0.0.0/64'' = None"
    by (simp_all add: parse_addr_def parse_ipv6_def HasPrefix_def v6_finish_def v4_mapped_def del: v6_loop.simps)
qed

lemma mapped_source: "normalizeIPv4Network ''::ffff:10.0.0.0/64'' = Some ''::/64''" "protectedNetwork ''::/64'' = None"
proof -
  have facts: "CIDRMask 64 128 = replicate 8 255 @ replicate 8 0" "ipv6_string (replicate 16 0) = ''::''"
    "mask_length (replicate 8 255 @ replicate 8 0) = 64" "dec_str 64 = ''64''" "dec_val 0 ''64'' = 64" "all_digits ''64''"
    "and_bytes (v4_mapped [10, 0, 0, 0]) (replicate 8 255 @ replicate 8 0) = replicate 16 0"
    "ip4 (replicate 16 0) = None" "ip4 (v4_mapped [10, 0, 0, 0]) = Some [10, 0, 0, 0]"
    by code_simp+
  have "cidr_parts ''::ffff:10.0.0.0/64'' = Some (v4_mapped [10, 0, 0, 0], 128, 64)"
    by (simp add: cidr_parts_def mapped_addr facts)
  then have "ParseCIDRNet ''::ffff:10.0.0.0/64''
      = Some (v4_mapped [10, 0, 0, 0], \<lparr>net_IP = replicate 16 0, net_Mask = replicate 8 255 @ replicate 8 0\<rparr>)"
    by (simp add: ParseCIDRNet_def facts IPMask_def)
  then show "normalizeIPv4Network ''::ffff:10.0.0.0/64'' = Some ''::/64''"
    by (simp add: normalizeIPv4Network_def ParseIP_def mapped_addr IPNetString_def networkNumberAndMask_def IPString_def facts Let_def)
  show "protectedNetwork ''::/64'' = None" by code_simp
qed


section \<open>Witnesses\<close>

lemma demo_values:
  assumes "demoLoad bareWorld = (Ret (Some c), w')"
  shows "cfg_fileReadRoots c = [''/srv'']" "cfg_fileWriteRoots c = [''/srv/app'']" "cfg_firewallProtectedSources c = [''10.0.0.0/8'']"
    "cfg_firewallProtectedPorts c = [22]"
  using loaded_facts(11-14) [OF assms [unfolded demoLoad_def]] by (simp_all add: env_set)

definition bareController :: profileApplyController where
  "bareController = newProfileApplyController ''/var/lib/hserver-agent'' ''/opt/install'' ''/usr/bin/systemd-run'' (\<lambda>_ _. True)"

definition demoHeartbeat :: "config \<Rightarrow> (unit, HeartbeatRequest) io" where
  "demoHeartbeat c = heartbeatRequest c ''1.2.0'' ''host'' zeroInventory demoTime bareController"

lemma demo_request: "\<exists>hb. demoHeartbeat c bareWorld = (Ret hb, bareWorld)"
  by (simp add: demoHeartbeat_def heartbeatRequest_def profileApplyReady_def regularExecutable_def bareWorld_def seqIO_def ret_def attempt_def
      osLstat_def syscall_def Let_def)

lemma loaded_heartbeat_accepted_witness:
  "\<exists>c hb. demoLoad bareWorld = (Ret (Some c), bareWorld) \<and> demoHeartbeat c bareWorld = (Ret hb, bareWorld)
     \<and> validateHeartbeatHead hb = Inr ()"
proof -
  obtain c where c: "demoLoad bareWorld = (Ret (Some c), bareWorld)" using demo_load by blast
  obtain hb where hb: "demoHeartbeat c bareWorld = (Ret hb, bareWorld)" using demo_request by blast
  have "validateHeartbeatHead hb = Inr ()"
    using loaded_heartbeat_accepted [OF c [unfolded demoLoad_def] hb [unfolded demoHeartbeat_def]]
    by (simp add: hub_consts maxHostnameLength_def maxAgentVersionLength_def containsControl_ascii IsControl_def zeroInventory_def)
  then show ?thesis using c hb by blast
qed


lemma announced_task_dispatched_witness:
  "\<exists>c call. demoLoad bareWorld = (Ret (Some c), bareWorld)
     \<and> dispatch (agentExecutor c) TaskMetricsRead [] = Inr call"
proof -
  obtain c where c: "demoLoad bareWorld = (Ret (Some c), bareWorld)" using demo_load by blast
  have "ValidateTaskRequest demoTables \<lparr>req_Kind = TaskMetricsRead, req_Payload = []\<rparr> = Inr ()"
    by (simp add: ValidateTaskRequest_def Let_def panelKinds_def emptyPayloadKinds_def checkKind_def checkKindA_def checkKindB_def checkKindC_def
        noFields_def hub_consts)
  moreover have "hasCapability (advertisedCapabilities False c) (capabilityForTask TaskMetricsRead)"
    by (simp add: hasCapability_def advertised_iff capabilityTable_def capabilityForTask_def hub_consts)
  ultimately have "\<exists>call. dispatch (agentExecutor c) TaskMetricsRead [] = Inr call"
    using announced_task_dispatched [OF c [unfolded demoLoad_def], of demoTables "\<lparr>req_Kind = TaskMetricsRead, req_Payload = []\<rparr>" False]
    by (simp add: hub_consts)
  then show ?thesis using c by blast
qed


end
