(* ===== verification/FileView.thy ===== *)
theory FileView
  imports AgentCron
begin

text \<open>
  Reasoning about programs over the file system by a view of it. \<open>runsOn v\<close> is a triple whose conditions only
  speak of the view \<open>v\<close>, and \<open>steadyOn v\<close> says that a program leaves the view as it is however it ends. The view
  used by the controllers is \<open>slotsOf proj S\<close>: the regular files at the paths \<open>S\<close>, each seen through \<open>proj\<close>. A file
  that is written aside and renamed is replaced in this view at one instant.
\<close>

section \<open>Triples over a view\<close>

definition runsOn ::
  "(fsys \<Rightarrow> 'v) \<Rightarrow> ('v \<Rightarrow> bool) \<Rightarrow> ('e, 'a) io \<Rightarrow> ('a \<Rightarrow> 'v \<Rightarrow> bool) \<Rightarrow> ('e \<Rightarrow> 'v \<Rightarrow> bool) \<Rightarrow> ('v \<Rightarrow> bool) \<Rightarrow> bool" where
  "runsOn v P m Q E H \<longleftrightarrow> runs (\<lambda>fs. P (v fs)) m (\<lambda>x fs. Q x (v fs)) (\<lambda>e fs. E e (v fs)) (\<lambda>fs. H (v fs))"

definition steadyOn :: "(fsys \<Rightarrow> 'v) \<Rightarrow> ('e, 'a) io \<Rightarrow> bool" where
  "steadyOn v m \<longleftrightarrow> (\<forall>V. runs (\<lambda>fs. v fs = V) m (\<lambda>_ fs. v fs = V) (\<lambda>_ fs. v fs = V) (\<lambda>fs. v fs = V))"

lemma steadyI:
  assumes "\<And>V. runs (\<lambda>fs. v fs = V) m (\<lambda>_ fs. v fs = V) (\<lambda>_ fs. v fs = V) (\<lambda>fs. v fs = V)"
  shows "steadyOn v m"
  using assms by (simp add: steadyOn_def)

lemma steadyD:
  "steadyOn v m \<Longrightarrow> runs (\<lambda>fs. v fs = V) m (\<lambda>_ fs. v fs = V) (\<lambda>_ fs. v fs = V) (\<lambda>fs. v fs = V)"
  by (simp add: steadyOn_def)

lemma steady_ret: "steadyOn v (ret x)"
  by (simp add: steadyOn_def runs_ret)

lemma steady_throw: "steadyOn v (throw e)"
  by (simp add: steadyOn_def runs_throw)

lemma steady_seq: "steadyOn v m \<Longrightarrow> (\<And>x. steadyOn v (f x)) \<Longrightarrow> steadyOn v (seqIO m f)"
  unfolding steadyOn_def by (blast intro: runs_seq)

lemma steady_attempt: "steadyOn v m \<Longrightarrow> steadyOn v (attempt m)"
  unfolding steadyOn_def by (blast intro: runs_attempt)

lemma steady_onError: "steadyOn v m \<Longrightarrow> steadyOn v (onError g m)"
  unfolding steadyOn_def by (blast intro: runs_onError)

lemma steady_deferred: "steadyOn v m \<Longrightarrow> steadyOn v d \<Longrightarrow> steadyOn v (deferred m d)"
  unfolding deferred_def by (intro steady_seq steady_attempt) (auto intro: steady_ret steady_throw split: sum.split)

lemma steady_sys: "steadyOn v m \<Longrightarrow> steadyOn v (sys m)"
  unfolding sys_def by (rule steady_onError)

lemma steady_syscall:
  assumes "\<And>fs x fs'. f fs = Inr (x, fs') \<Longrightarrow> v fs' = v fs" "\<And>n fs. v (partial n fs) = v fs"
  shows "steadyOn v (syscall f partial)"
  using assms by (intro steadyI runs_syscall) (auto split: sum.split)

lemma steady_reads:
  "steadyOn v (osLstat p)" "steadyOn v (osReadFile p)" "steadyOn v (fileClose p)" "steadyOn v (openNoFollow p)" "steadyOn v (osFlock p)"
  "steadyOn v (osReadDir h p)" "steadyOn v getFS"
  unfolding osLstat_def osReadFile_def fileClose_def openNoFollow_def osFlock_def osReadDir_def
  by (rule steady_syscall; auto split: option.splits fnode.splits sum.splits)+ (simp add: steadyOn_def runs_def getFS_def)

lemma steady_runHost: "(\<And>fs. v (snd (ch_run h b as fs)) = v fs) \<Longrightarrow> steadyOn v (runHost h b as)"
  unfolding runHost_def
  by (rule steady_seq [OF steady_syscall]) (auto intro: steady_ret steady_throw split: option.split, metis snd_conv)

lemma runsOn_ret: "(\<And>V. P V \<Longrightarrow> Q x V) \<Longrightarrow> runsOn v P (ret x) Q E H"
  by (simp add: runsOn_def runs_ret)

lemma runsOn_throw: "(\<And>V. P V \<Longrightarrow> E e V) \<Longrightarrow> runsOn v P (throw e) Q E H"
  by (simp add: runsOn_def runs_throw)

lemma runsOn_seq: "runsOn v P m R E H \<Longrightarrow> (\<And>x. runsOn v (R x) (f x) Q E H) \<Longrightarrow> runsOn v P (seqIO m f) Q E H"
  unfolding runsOn_def by (rule runs_seq)

lemma runsOn_attempt: "runsOn v P m (\<lambda>x. Q (Inr x)) (\<lambda>e. Q (Inl e)) H \<Longrightarrow> runsOn v P (attempt m) Q E H"
  unfolding runsOn_def by (rule runs_attempt)

lemma runsOn_onError: "runsOn v P m Q (\<lambda>e. E (g e)) H \<Longrightarrow> runsOn v P (onError g m) Q E H"
  unfolding runsOn_def by (rule runs_onError)

lemma runsOn_cons:
  assumes "runsOn v P' m Q' E' H'" "\<And>V. P V \<Longrightarrow> P' V" "\<And>x V. Q' x V \<Longrightarrow> Q x V" "\<And>e V. E' e V \<Longrightarrow> E e V" "\<And>V. H' V \<Longrightarrow> H V"
  shows "runsOn v P m Q E H"
  using assms(1) unfolding runsOn_def by (rule runs_cons) (auto intro: assms)

lemma runsOn_pure: "(A \<Longrightarrow> runsOn v P m Q E H) \<Longrightarrow> runsOn v (\<lambda>V. P V \<and> A) m Q E H"
  by (cases A) (simp_all add: runsOn_def runs_def)

lemma runsOn_errors:
  assumes "runsOn v P m Q E H" "\<And>w e w'. m w = (Raise e, w') \<Longrightarrow> A e"
  shows "runsOn v P m Q (\<lambda>e V. E e V \<and> A e) H"
  using assms by (fastforce simp: runsOn_def runs_def split: prod.splits io_res.splits)

lemma runsOn_if: "(A \<Longrightarrow> runsOn v P m Q E H) \<Longrightarrow> (\<not> A \<Longrightarrow> runsOn v P n Q E H) \<Longrightarrow> runsOn v P (if A then m else n) Q E H"
  by simp

lemma runsOn_given: "(A \<Longrightarrow> runsOn v P m Q E H) \<Longrightarrow> runsOn v (\<lambda>V. A \<and> P V) m Q E H"
  by (cases A) (simp_all add: runsOn_def runs_def)

lemma steady_runsOn:
  assumes "steadyOn v m" "\<And>V. P V \<Longrightarrow> H V" "\<And>x V. P V \<Longrightarrow> Q x V" "\<And>e V. P V \<Longrightarrow> E e V"
  shows "runsOn v P m Q E H"
  unfolding runsOn_def runs_def
proof (intro allI impI)
  fix w :: world assume "P (v (w_fs w))"
  with assms(1) [unfolded steadyOn_def runs_def, rule_format, of w "v (w_fs w)"] assms(2-)
  show "case m w of (Ret x, w') \<Rightarrow> Q x (v (w_fs w')) | (Raise e, w') \<Rightarrow> E e (v (w_fs w')) | (Dead, w') \<Rightarrow> H (v (w_fs w'))"
    by (auto split: prod.splits io_res.splits)
qed

lemma steady_attempt_runsOn:
  "steadyOn v m \<Longrightarrow> (\<And>V. P V \<Longrightarrow> H V) \<Longrightarrow> (\<And>x V. P V \<Longrightarrow> Q x V) \<Longrightarrow> runsOn v P (attempt m) Q E H"
  by (rule runsOn_attempt, rule steady_runsOn) auto

lemma runs_deferred:
  assumes "runs P m (\<lambda>x fs. Q x (v fs)) (\<lambda>e fs. E e (v fs)) (\<lambda>fs. H (v fs))" "steadyOn v d"
    "\<And>x V. Q x V \<Longrightarrow> H V" "\<And>e V. E e V \<Longrightarrow> H V"
  shows "runs P (deferred m d) (\<lambda>x fs. Q x (v fs)) (\<lambda>e fs. E e (v fs)) (\<lambda>fs. H (v fs))"
proof -
  have "runsOn v (case r of Inr x \<Rightarrow> Q x | Inl e \<Rightarrow> E e)
      (seqIO (attempt d) (\<lambda>_. case r of Inl e \<Rightarrow> throw e | Inr x \<Rightarrow> ret x)) Q E H" for r
  proof (cases r)
    case (Inl e)
    show ?thesis
      by (rule runsOn_seq [OF steady_attempt_runsOn [OF assms(2)], where R = "\<lambda>_. E e"])
        (auto simp: Inl intro: assms(4) runsOn_throw)
  next
    case (Inr x)
    show ?thesis
      by (rule runsOn_seq [OF steady_attempt_runsOn [OF assms(2)], where R = "\<lambda>_. Q x"])
        (auto simp: Inr intro: assms(3) runsOn_ret)
  qed
  then have after: "runs (\<lambda>fs. (case r of Inr x \<Rightarrow> Q x | Inl e \<Rightarrow> E e) (v fs))
      (seqIO (attempt d) (\<lambda>_. case r of Inl e \<Rightarrow> throw e | Inr x \<Rightarrow> ret x))
      (\<lambda>x fs. Q x (v fs)) (\<lambda>e fs. E e (v fs)) (\<lambda>fs. H (v fs))" for r
    by (simp add: runsOn_def)
  show ?thesis
    unfolding deferred_def
    by (rule runs_seq [OF runs_attempt after]) (simp add: assms(1))
qed

lemma runsOn_deferred:
  "runsOn v P m Q E H \<Longrightarrow> steadyOn v d \<Longrightarrow> (\<And>x V. Q x V \<Longrightarrow> H V) \<Longrightarrow> (\<And>e V. E e V \<Longrightarrow> H V) \<Longrightarrow> runsOn v P (deferred m d) Q E H"
  unfolding runsOn_def by (rule runs_deferred)

section \<open>The regular files at some paths\<close>

definition slotsOf :: "(nat \<Rightarrow> string \<Rightarrow> 'c) \<Rightarrow> string set \<Rightarrow> fsys \<Rightarrow> string \<rightharpoonup> 'c" where
  "slotsOf proj S fs = (\<lambda>p. if p \<in> S then (case fs p of Some (FReg m _ d) \<Rightarrow> Some (proj m d) | _ \<Rightarrow> None) else None)"

lemma slots_aside [simp]: "p \<notin> S \<Longrightarrow> slotsOf proj S (fs(p := x)) = slotsOf proj S fs"
  by (auto simp: slotsOf_def fun_eq_iff)

lemma slots_dir: "fs p = None \<Longrightarrow> slotsOf proj S (fs(p \<mapsto> FDir m)) = slotsOf proj S fs"
  by (auto simp: slotsOf_def fun_eq_iff)

lemma slots_put: "p \<in> S \<Longrightarrow> slotsOf proj S (fs(p \<mapsto> FReg m s d)) = (slotsOf proj S fs)(p \<mapsto> proj m d)"
  by (auto simp: slotsOf_def fun_eq_iff)

lemma slots_gone: "p \<in> S \<Longrightarrow> slotsOf proj S (fs(p := None)) = (slotsOf proj S fs)(p := None)"
  by (auto simp: slotsOf_def fun_eq_iff)

lemma slots_append: "p \<notin> S \<Longrightarrow> slotsOf proj S (appendTo p d fs) = slotsOf proj S fs"
  by (simp add: appendTo_def split: option.split fnode.split)

lemma steady_mkdir: "steadyOn (slotsOf proj S) (osMkdir p mode)"
  unfolding osMkdir_def by (rule steady_syscall) (auto simp: slots_dir split: option.splits)

lemma steady_mkdirAll: "steadyOn (slotsOf proj S) (mkdirAll es mode)"
  by (induction es) (auto intro!: steady_ret steady_throw steady_seq steady_attempt steady_reads steady_mkdir split: sum.splits fnode.splits)

lemma steady_writes:
  assumes "p \<notin> S"
  shows "steadyOn (slotsOf proj S) (fileWrite p d)" "steadyOn (slotsOf proj S) (osRemove p)"
    "steadyOn (slotsOf proj S) (osCreate b p mode)"
  unfolding fileWrite_def osRemove_def osCreate_def
  by (rule steady_syscall; use assms in \<open>auto simp: slots_append split: option.splits fnode.splits if_splits\<close>)+

lemmas steady_rules = steady_ret steady_throw steady_seq steady_attempt steady_onError steady_deferred steady_sys
  steady_reads steady_mkdirAll steady_writes

text \<open>A temporary file gets a free name, so it is none of the files that are there.\<close>

lemma runs_temp:
  assumes "\<And>n. tempName d pat n \<in> S \<Longrightarrow> V (tempName d pat n) \<noteq> None"
  shows "runs (\<lambda>fs. slotsOf proj S fs = V) (osCreateTemp d pat)
     (\<lambda>t fs. slotsOf proj S fs = V \<and> t \<notin> S \<and> (\<exists>n. t = tempName d pat n) \<and> (\<exists>m. fs t = Some (FReg m False [])))
     (\<lambda>_ fs. slotsOf proj S fs = V) (\<lambda>fs. slotsOf proj S fs = V)"
proof -
  let ?v = "slotsOf proj S"
  let ?Q = "\<lambda>t fs. ?v fs = V \<and> t \<notin> S \<and> (\<exists>n. t = tempName d pat n) \<and> (\<exists>m. fs t = Some (FReg m False []))"
  have free: "freeName fs d pat ns = Some (p, ns') \<Longrightarrow> fs p = None \<and> (\<exists>n. p = tempName d pat n)" for fs ns p ns'
    by (induction ns) (auto split: if_splits)
  have call: "runs (\<lambda>fs. ?v fs = V) (syscall (\<lambda>fs. case fs d of
             Some (FDir _) \<Rightarrow> Inr (p, fs(p \<mapsto> FReg 0x180 False [])) | _ \<Rightarrow> Inl OtherError) intact)
     ?Q (\<lambda>_ fs. ?v fs = V) (\<lambda>fs. ?v fs = V)" if "p = tempName d pat n" "p \<notin> S" for p n
    using that by (intro runs_syscall) (auto split: option.splits fnode.splits)
  show ?thesis
    unfolding runs_def
  proof (intro allI impI)
    fix w :: world assume w: "?v (w_fs w) = V"
    show "case osCreateTemp d pat w of (Ret t, w') \<Rightarrow> ?Q t (w_fs w') | (Raise _, w') \<Rightarrow> ?v (w_fs w') = V | (Dead, w') \<Rightarrow> ?v (w_fs w') = V"
    proof (cases "freeName (w_fs w) d pat (w_rands w)")
      case (Some pn)
      obtain p ns where pn: "pn = (p, ns)" by (cases pn)
      then obtain n where n: "p = tempName d pat n" "w_fs w p = None" using free Some by blast
      then have "p \<notin> S" using assms [of n] w by (auto simp: slotsOf_def)
      from call [OF n(1) this, unfolded runs_def, rule_format, of "w\<lparr>w_rands := ns\<rparr>"] w
      show ?thesis by (simp add: osCreateTemp_def Some pn)
    qed (simp add: osCreateTemp_def w)
  qed
qed

text \<open>The calls that fill a file aside and rename it onto a path of the view.\<close>

abbreviation filling :: "(nat \<Rightarrow> string \<Rightarrow> 'c) \<Rightarrow> string set \<Rightarrow> (string \<rightharpoonup> 'c) \<Rightarrow> string \<Rightarrow> (nat \<Rightarrow> bool) \<Rightarrow> string \<Rightarrow> fsys \<Rightarrow> bool" where
  "filling proj S V t M d fs \<equiv> slotsOf proj S fs = V \<and> (\<exists>m s. M m \<and> fs t = Some (FReg m s d))"

lemma runs_fill:
  assumes "t \<notin> S"
  shows "runs (filling proj S V t M d) (osChmod t mode) (\<lambda>_. filling proj S V t (\<lambda>m. m = mode) d)
      (\<lambda>_ fs. slotsOf proj S fs = V) (\<lambda>fs. slotsOf proj S fs = V)"
    "runs (filling proj S V t M d) (osChown t) (\<lambda>_. filling proj S V t M d)
      (\<lambda>_ fs. slotsOf proj S fs = V) (\<lambda>fs. slotsOf proj S fs = V)"
    "runs (filling proj S V t M d) (fileWrite t e) (\<lambda>_. filling proj S V t M (d @ e))
      (\<lambda>_ fs. slotsOf proj S fs = V) (\<lambda>fs. slotsOf proj S fs = V)"
    "runs (filling proj S V t M d) (fileSync t) (\<lambda>_. filling proj S V t M d)
      (\<lambda>_ fs. slotsOf proj S fs = V) (\<lambda>fs. slotsOf proj S fs = V)"
    "runs (filling proj S V t M d) (fileClose t) (\<lambda>_. filling proj S V t M d)
      (\<lambda>_ fs. slotsOf proj S fs = V) (\<lambda>fs. slotsOf proj S fs = V)"
  unfolding osChmod_def osChown_def fileWrite_def fileSync_def fileClose_def
  by (rule runs_syscall; use assms in \<open>auto simp: slots_append appendTo_def\<close>)+

lemma runs_fill_rename:
  assumes "t \<notin> S" "p \<in> S"
  shows "runs (filling proj S V t (\<lambda>m. m = mode) d) (osRename t p) (\<lambda>_ fs. slotsOf proj S fs = V(p \<mapsto> proj mode d))
    (\<lambda>_ fs. slotsOf proj S fs = V) (\<lambda>fs. slotsOf proj S fs = V)"
proof -
  have "t \<noteq> p" using assms by auto
  then show ?thesis
    unfolding osRename_def using assms
    by (intro runs_syscall) (auto simp: slots_put split: option.splits fnode.splits)
qed

section \<open>Reading\<close>

text \<open>A reading call: what it returns is in the file, and a missing file is not there.\<close>

abbreviation absent :: "string \<Rightarrow> (string \<rightharpoonup> 'c) \<Rightarrow> os_error \<Rightarrow> (string \<rightharpoonup> 'c) \<Rightarrow> bool" where
  "absent p V0 \<equiv> \<lambda>e V. V = V0 \<and> (e = NotExist \<longrightarrow> V0 p = None)"

lemma runsOn_reads:
  assumes "p \<in> S"
  shows "runsOn (slotsOf proj S) (\<lambda>V. V = V0) (openNoFollow p) (\<lambda>_ V. V = V0) (absent p V0) (\<lambda>V. V = V0)"
    "runsOn (slotsOf proj S) (\<lambda>V. V = V0) (osReadFile p) (\<lambda>d V. V = V0 \<and> (\<exists>m. V0 p = Some (proj m d))) (absent p V0) (\<lambda>V. V = V0)"
  unfolding runsOn_def openNoFollow_def osReadFile_def using assms
  by (intro runs_syscall; auto simp: slotsOf_def split: option.splits fnode.splits)+

text \<open>
  A managed file is read as it stands: the mode of the file information and the content are those of one
  state of the file, since no other writer comes between the two calls.
\<close>

lemma runsOn_readManagedFile:
  assumes "p \<in> S"
  shows "runsOn (slotsOf proj S) (\<lambda>V. V = V0) (readManagedFile p)
    (\<lambda>(info, d, sum) V. V = V0 \<and> V0 p = Some (proj (infoMode info) d) \<and> sum = token_digest d)
    (\<lambda>e V. V = V0 \<and> (e = Inl NotExist \<longrightarrow> V0 p = None)) (\<lambda>V. V = V0)"
proof -
  let ?v = "slotsOf proj S" and ?E = "\<lambda>e V. V = V0 \<and> (e = Inl NotExist \<longrightarrow> V0 p = None)"
  let ?Q = "\<lambda>(info, d, sum) V. V = V0 \<and> V0 p = Some (proj (infoMode info) d) \<and> sum = token_digest d"
  have open': "runsOn ?v (\<lambda>V. V = V0) (onError Inl (openNoFollow p)) (\<lambda>_ V. V = V0) ?E (\<lambda>V. V = V0)"
    by (rule runsOn_onError, rule runsOn_cons [OF runsOn_reads(1) [OF assms]]) auto
  have lstat: "runs (\<lambda>fs. ?v fs = V0) (onError Inl (osLstat p)) (\<lambda>info fs. ?v fs = V0 \<and> fs p = Some info) (\<lambda>e fs. ?E e (?v fs)) (\<lambda>fs. ?v fs = V0)"
    unfolding osLstat_def
    by (rule runs_onError, rule runs_syscall) (use assms in \<open>auto simp: slotsOf_def split: option.splits\<close>)
  have rd: "runs (\<lambda>fs. ?v fs = V0 \<and> fs p = Some info) (onError Inl (osReadFile p)) (\<lambda>d fs. ?v fs = V0 \<and> fs p = Some info \<and> (\<exists>m s. info = FReg m s d))
      (\<lambda>e fs. ?E e (?v fs)) (\<lambda>fs. ?v fs = V0)" for info
    unfolding osReadFile_def
    by (rule runs_onError, rule runs_syscall) (use assms in \<open>auto simp: slotsOf_def split: option.splits fnode.splits\<close>)
  have read: "runs (\<lambda>fs. ?v fs = V0 \<and> fs p = Some info) (seqIO (onError Inl (osReadFile p)) (\<lambda>content.
      if length content > maxAgentNginxConfigBytes then throw (Inr managedFileTooLarge) else ret (info, content, token_digest content)))
      (\<lambda>x fs. ?Q x (?v fs)) (\<lambda>e fs. ?E e (?v fs)) (\<lambda>fs. ?v fs = V0)" for info
    by (rule runs_seq [OF rd]) (use assms in \<open>auto intro!: runs_throw runs_ret simp: slotsOf_def infoMode_def\<close>)
  have body: "runsOn ?v (\<lambda>V. V = V0) (seqIO (onError Inl (osLstat p)) (\<lambda>info.
        case info of
          FReg _ _ content \<Rightarrow>
            if length content > maxAgentNginxConfigBytes then throw (Inr managedFileTooLarge)
            else seqIO (onError Inl (osReadFile p)) (\<lambda>content.
              if length content > maxAgentNginxConfigBytes then throw (Inr managedFileTooLarge) else ret (info, content, token_digest content))
        | _ \<Rightarrow> throw (Inr (errNew ''managed configuration is not a regular file''))))
      ?Q ?E (\<lambda>V. V = V0)"
    unfolding runsOn_def
    by (rule runs_seq [OF lstat]) (auto intro: runs_throw read split: fnode.split)
  show ?thesis
    unfolding readManagedFile_def
    by (rule runsOn_seq [OF open' runsOn_deferred [OF body steady_reads(3)]]) auto
qed

end
