(* ===== verification/AgentCronProps.thy ===== *)
theory AgentCronProps
  imports FileView AgentTaskProps AgentProfileProps GoCalendar GoRaw
begin

text \<open>
  Properties of the cron controller: what the rendered file makes the daemon run, what a crash can
  leave of the two files, that a stored state reads back, and where it does not.
\<close>

section \<open>White space\<close>

lemma space_encs_bytes: "e \<in> set space_encs \<Longrightarrow> x \<in> set e \<Longrightarrow> byte x < 0x80 \<Longrightarrow> asciiSpace x"
  by (auto simp: space_encs_eq asciiSpace_def)

abbreviation dark :: "char \<Rightarrow> bool" where
  "dark c \<equiv> byte c < 0x80 \<and> \<not> asciiSpace c"

text \<open>Trimming stops at the last visible ASCII character, and at the first one.\<close>

lemma back_space_bound:
  assumes "u \<noteq> []" "dark (last u)"
  shows "back_space (u @ v) \<le> length v"
proof (cases "find (HasSuffix (u @ v)) space_encs")
  case (Some e)
  then have e: "e \<in> set space_encs" "HasSuffix (u @ v) e" by (auto simp: find_Some_iff)
  show ?thesis
  proof (rule ccontr)
    assume long: "\<not> ?thesis"
    then have "length v < length e" by (simp add: back_space_def Some)
    moreover have "drop (length (u @ v) - length e) (u @ v) = e" "length e \<le> length (u @ v)"
      using e(2) by (simp_all add: HasSuffix_def)
    ultimately have "e = drop (length u + length v - length e) u @ v" "length u + length v - length e < length u" by auto
    then have "last u \<in> set e" using assms(1) by (metis UnI1 in_set_conv_decomp last_drop last_in_set drop_eq_Nil leD set_append)
    then show False using space_encs_bytes [OF e(1)] assms(2) by blast
  qed
qed (simp add: back_space_def)

lemma trim_right_stop:
  assumes "u \<noteq> []" "dark (last u)"
  shows "\<exists>v'. trim_right (u @ v) = u @ v' \<and> set v' \<subseteq> set v"
proof (induction "length v" arbitrary: v rule: less_induct)
  case less
  show ?case
  proof (cases "back_space (u @ v) = 0")
    case False
    let ?v = "take (length v - back_space (u @ v)) v"
    have b: "back_space (u @ v) \<le> length v" using back_space_bound [OF assms] .
    then have "take (length (u @ v) - back_space (u @ v)) (u @ v) = u @ ?v" by simp
    then have "trim_right (u @ v) = trim_right (u @ ?v)" using False assms(1) by (subst trim_right.simps) simp
    moreover have "length ?v < length v" using False b by simp
    ultimately show ?thesis using less [of ?v] set_take_subset by fastforce
  qed (auto simp: trim_right.simps [of "u @ v"])
qed

lemma front_space_ascii_space: "asciiSpace c \<Longrightarrow> front_space (c # s) = 1"
proof -
  assume "asciiSpace c"
  then have "c \<in> {CHR 0x09, CHR 0x0A, CHR 0x0B, CHR 0x0C, CHR 0x0D, CHR 0x20}"
    using byte_inject [of c "CHR 0x09"] byte_inject [of c "CHR 0x0A"] byte_inject [of c "CHR 0x0B"] byte_inject [of c "CHR 0x0C"]
      byte_inject [of c "CHR 0x0D"] byte_inject [of c "CHR 0x20"] by (simp add: asciiSpace_def)
  then show ?thesis by (elim insertE emptyE) (simp_all add: front_space_def space_encs_eq HasPrefix_def)
qed

lemma trim_left_ascii:
  "\<forall>x \<in> set s. byte x < 0x80 \<Longrightarrow> \<exists>x \<in> set s. \<not> asciiSpace x \<Longrightarrow> trim_left (s @ t) = dropWhile asciiSpace s @ t"
proof (induction s)
  case (Cons c s)
  show ?case
  proof (cases "asciiSpace c")
    case True
    then have "trim_left ((c # s) @ t) = trim_left (s @ t)" by (subst trim_left.simps) (simp add: front_space_ascii_space)
    then show ?thesis using Cons True by simp
  next
    case False
    then show ?thesis using Cons.prems front_space_ascii [of c "s @ t"] by (subst trim_left.simps) simp
  qed
qed simp

lemma IsSpace_ascii: "byte c < 0x80 \<Longrightarrow> IsSpace (byte c) \<longleftrightarrow> asciiSpace c"
  by (auto simp: IsSpace_def space_runes_def asciiSpace_def)

lemma fields_from_ascii:
  "\<forall>x \<in> set s. byte x < 0x80 \<Longrightarrow>
     fields_from cur (s @ CHR '' '' # t) = fields_from cur s @ fields_from [] t"
proof (induction s arbitrary: cur)
  case Nil
  show ?case by (simp add: fields_from.simps(2) decode_rune_ascii IsSpace_def space_runes_def)
next
  case (Cons c s)
  then show ?case by (simp add: fields_from.simps(2) decode_rune_ascii)
qed

lemma Fields_dropWhile: "\<forall>x \<in> set s. byte x < 0x80 \<Longrightarrow> Fields (dropWhile asciiSpace s @ t) = Fields (s @ t)"
  unfolding Fields_def by (induction s) (simp_all add: fields_from.simps(2) decode_rune_ascii IsSpace_ascii)

lemma fields_from_hd: "cur \<noteq> [] \<Longrightarrow> \<exists>w ws. fields_from cur s = (cur @ w) # ws"
proof (induction cur s rule: fields_from.induct)
  case (2 cur c s)
  obtain r w where d: "decode_rune c s = (r, w)" by (cases "decode_rune c s")
  show ?case
  proof (cases "IsSpace r")
    case False
    then have "\<exists>w' ws. fields_from (cur @ c # take (w - 1) s) (drop (w - 1) s) = ((cur @ c # take (w - 1) s) @ w') # ws"
      using 2(3) [OF d [symmetric]] by simp
    then show ?thesis using False d by (fastforce simp: fields_from.simps(2))
  qed (use d 2 in \<open>simp add: fields_from.simps(2)\<close>)
qed simp

lemma Fields_first: "dark c \<Longrightarrow> \<exists>w ws. Fields (c # s) = (c # w) # ws"
  using fields_from_hd [of "[c]" s] by (simp add: Fields_def fields_from.simps(2) decode_rune_ascii IsSpace_ascii)

section \<open>The rendered file\<close>

text \<open>A schedule that starts an entry: its first word is no comment and no assignment.\<close>

definition entrySchedule :: "string \<Rightarrow> bool" where
  "entrySchedule s = (case Fields s of [] \<Rightarrow> False | w # _ \<Rightarrow> hd w \<noteq> CHR ''#'' \<and> CHR ''='' \<notin> set w)"

lemma agentUser_bytes:
  assumes "agentSystemUserPattern u"
  shows "u \<noteq> [] \<and> (\<forall>x \<in> set u. dark x)"
proof -
  have cls: "userHead r \<Longrightarrow> r < 0x80 \<and> 45 \<le> r" for r by (auto simp: userHead_def)
  have "runes u \<noteq> [] \<and> (\<forall>r \<in> set (runes u). r < 0x80 \<and> 45 \<le> r)"
    using assms cls unfolding agentSystemUserPattern_def matchName_def
    by (fastforce simp: list_all_iff split: list.splits)
  then have "u \<noteq> [] \<and> (\<forall>x \<in> set u. byte x < 0x80 \<and> 45 \<le> byte x)" using runes_ascii_conv [of u] runes_ascii [of u] by (auto simp: list_all_iff)
  then show ?thesis by (auto simp: asciiSpace_def)
qed

lemma cronEntry_line:
  assumes "\<forall>x \<in> set s. byte x < 0x80" "Fields s \<noteq> []" "u \<noteq> []" "\<forall>x \<in> set u. dark x"
  shows "cronEntry (s @ CHR '' '' # u @ v) \<longleftrightarrow> entrySchedule s"
proof -
  have some: "\<exists>x \<in> set s. \<not> asciiSpace x"
  proof (rule ccontr)
    assume "\<not> ?thesis"
    then have "dropWhile asciiSpace s = []" by simp
    then have "Fields s = Fields []" using Fields_dropWhile [OF assms(1), of "[]"] by (simp only: append_Nil2)
    then show False using assms(2) by (simp add: Fields_def)
  qed
  then obtain c r where d: "dropWhile asciiSpace s = c # r" by (cases "dropWhile asciiSpace s") auto
  then have c: "dark c" using assms(1) hd_dropWhile [of asciiSpace s] set_dropWhileD [of c asciiSpace s] by auto
  have dr: "\<forall>x \<in> set (c # r). byte x < 0x80" using assms(1) set_dropWhileD [of _ asciiSpace s] by (simp flip: d)
  obtain v' where v': "trim_right ((c # r @ CHR '' '' # u) @ v) = (c # r @ CHR '' '' # u) @ v'"
    using trim_right_stop [of "c # r @ CHR '' '' # u" v] assms(3,4) by auto
  have line: "TrimSpace (s @ CHR '' '' # u @ v) = (c # r) @ CHR '' '' # u @ v'"
    using trim_left_ascii [OF assms(1) some, of "CHR '' '' # u @ v"] v' by (simp add: TrimSpace_def d)
  have "Fields s = Fields (c # r)" using Fields_dropWhile [OF assms(1), of "[]"] by (simp add: d)
  moreover have "Fields ((c # r) @ CHR '' '' # u @ v') = Fields (c # r) @ Fields (u @ v')"
    unfolding Fields_def by (rule fields_from_ascii [OF dr])
  moreover obtain w ws where "Fields (c # r) = (c # w) # ws" using Fields_first [OF c] by blast
  ultimately show ?thesis unfolding cronEntry_def line by (simp add: Let_def entrySchedule_def HasPrefix_def)
qed

lemma comment_no_entry: "\<not> cronEntry (CHR ''#'' # s)"
proof -
  obtain v where "trim_right ([CHR ''#''] @ s) = [CHR ''#''] @ v" using trim_right_stop [of "''#''" s] by (auto simp: asciiSpace_def)
  then have "TrimSpace (CHR ''#'' # s) = CHR ''#'' # v"
    using trim_left_ascii [of "''#''" s] by (simp add: TrimSpace_def asciiSpace_def)
  then show ?thesis by (simp add: cronEntry_def Let_def HasPrefix_def)
qed

lemma assignment_no_entry: "\<not> cronEntry (''SHELL='' @ s)" "\<not> cronEntry (''PATH='' @ s)"
proof -
  have "\<not> cronEntry (u @ s)" if u: "u \<noteq> []" "\<forall>x \<in> set u. dark x" "CHR ''='' \<in> set u" for u
  proof -
    have "list_all word_char u" using u(2) by (simp add: list_all_iff word_char_def IsSpace_ascii)
    moreover obtain v where v: "trim_right (u @ s) = u @ v" using trim_right_stop [of u s] u by auto
    moreover have "dropWhile asciiSpace u = u" using u(1,2) by (cases u) auto
    moreover have "trim_left (u @ s) = dropWhile asciiSpace u @ s" using u by (intro trim_left_ascii) auto
    ultimately have "TrimSpace (u @ s) = u @ v" "Fields (u @ v) = fields_from u v"
      using fields_from_word [of u "[]" v] by (simp_all add: TrimSpace_def Fields_def)
    then show ?thesis using fields_from_hd [of u v] u by (auto simp: cronEntry_def Let_def)
  qed
  from this [of "''SHELL=''"] this [of "''PATH=''"] show "\<not> cronEntry (''SHELL='' @ s)" "\<not> cronEntry (''PATH='' @ s)"
    by (simp_all add: asciiSpace_def)
qed

lemma blank_no_entry: "\<not> cronEntry []"
  by (simp add: cronEntry_def TrimSpace_def trim_left.simps trim_right.simps)

lemma cronID_bytes: "validAgentCronID i \<Longrightarrow> CHR 0x0A \<notin> set i"
proof -
  assume v: "validAgentCronID i"
  then have "take 5 i = ''cron-''" by (simp add: validAgentCronID_def HasPrefix_def numeral_eq_Suc)
  then have "i = ''cron-'' @ drop 5 i" using append_take_drop_id [of 5 i] by simp
  moreover have "CHR 0x0A \<notin> set (drop 5 i)" using v by (auto simp: validAgentCronID_def list_all_iff hex_val_def)
  moreover have "CHR 0x0A \<notin> set ''cron-''" by simp
  ultimately show ?thesis by (metis Un_iff set_append)
qed

lemma shape_lines:
  assumes "cronJobShape j True"
  shows "CHR 0x0A \<notin> set (cron_ID j)" "CHR 0x0A \<notin> set (cron_Description j)" "CHR 0x0A \<notin> set (jobLine j)"
    "Fields (cron_Schedule j) \<noteq> []" "cron_User j \<noteq> []" "\<forall>x \<in> set (cron_User j). dark x"
proof -
  have u: "cron_User j \<noteq> [] \<and> (\<forall>x \<in> set (cron_User j). dark x)"
    by (rule agentUser_bytes) (use assms in \<open>simp add: cronJobShape_def\<close>)
  then have "CHR 0x0A \<notin> set (cron_User j)" by (auto simp: asciiSpace_def)
  then show "CHR 0x0A \<notin> set (cron_ID j)" "CHR 0x0A \<notin> set (cron_Description j)" "CHR 0x0A \<notin> set (jobLine j)"
    "Fields (cron_Schedule j) \<noteq> []" "cron_User j \<noteq> []" "\<forall>x \<in> set (cron_User j). dark x"
    using assms cronID_bytes u by (auto simp: cronJobShape_def jobLine_def ContainsAny_def lineBreaks_def list_ex_iff)
qed

lemma entries_job:
  assumes "cronJobShape j True" "\<forall>x \<in> set (cron_Schedule j). byte x < 0x80"
  shows "filter cronEntry (split_on (CHR 0x0A) (renderJob j @ t)) =
    (if cron_Enabled j \<and> entrySchedule (cron_Schedule j) then [jobLine j] else []) @ filter cronEntry (split_on (CHR 0x0A) t)"
proof -
  note l = shape_lines [OF assms(1)]
  let ?head = "''# HSERVER '' @ cron_ID j @ (if cron_Description j = [] then [] else '' - '' @ cron_Description j)"
  let ?line = "(if cron_Enabled j then [] else ''# DISABLED '') @ jobLine j"
  have "split_on (CHR 0x0A) ?head = [?head]" "split_on (CHR 0x0A) ?line = [?line]"
    using l by (intro split_on_single; simp)+
  moreover have "renderJob j @ t = [] @ CHR 0x0A # ?head @ CHR 0x0A # ?line @ CHR 0x0A # t" by (simp add: renderJob_def)
  ultimately have "split_on (CHR 0x0A) (renderJob j @ t) = [] # ?head # ?line # split_on (CHR 0x0A) t"
    by (simp only: split_on_end) simp
  moreover have "cronEntry ?line \<longleftrightarrow> cron_Enabled j \<and> entrySchedule (cron_Schedule j)"
    using cronEntry_line [OF assms(2) l(4-6), of "CHR '' '' # cron_Command j"] comment_no_entry by (simp add: jobLine_def)
  ultimately show ?thesis using blank_no_entry comment_no_entry by simp
qed

lemma entries_jobs:
  "list_all (\<lambda>j. cronJobShape j True \<and> (\<forall>x \<in> set (cron_Schedule j). byte x < 0x80)) jobs \<Longrightarrow>
     filter cronEntry (split_on (CHR 0x0A) (concat (map renderJob jobs))) =
     map jobLine (filter (\<lambda>j. cron_Enabled j \<and> entrySchedule (cron_Schedule j)) jobs)"
  by (induction jobs) (simp_all add: blank_no_entry entries_job)


section \<open>The two files\<close>

definition contents :: "fsys \<Rightarrow> string \<rightharpoonup> string" where
  "contents fs p = (case fs p of Some (FReg _ _ d) \<Rightarrow> Some d | _ \<Rightarrow> None)"

definition cronFiles :: "cronController \<Rightarrow> fsys \<Rightarrow> string \<rightharpoonup> string" where
  "cronFiles c fs = contents fs |` {cc_cronPath c, cc_statePath c}"

definition lastElem :: "string \<Rightarrow> string" where
  "lastElem p = rev (takeWhile (\<lambda>x. x \<noteq> CHR ''/'') (rev p))"

text \<open>
  The layout of a controller: the two files are different, and neither is the lock, a temporary file, or
  in the directory of the backups.
\<close>

definition managedFile :: "cronController \<Rightarrow> string \<Rightarrow> bool" where
  "managedFile c p \<longleftrightarrow> p \<noteq> cc_lockPath c \<and> lastElem p \<noteq> [] \<and> \<not> HasPrefix (lastElem p) cronTempPrefix \<and> DirOf p \<noteq> backupDirOf c"

definition cronLayout :: "cronController \<Rightarrow> bool" where
  "cronLayout c \<longleftrightarrow> cc_cronPath c \<noteq> cc_statePath c \<and> managedFile c (cc_cronPath c) \<and> managedFile c (cc_statePath c)
     \<and> cleanDir (backupDirOf c)"

text \<open>
  What the controller relies on: a listing has names of entries, and the syntax check of the crontab command
  leaves the two files alone.
\<close>

definition cronHostOk :: "cronHost \<Rightarrow> cronController \<Rightarrow> bool" where
  "cronHostOk h c \<longleftrightarrow> (\<forall>fs d names. ch_readDir h fs d = Inr names \<longrightarrow> list_all plain_elem names)
     \<and> (\<forall>p fs. cronFiles c (snd (ch_run h (cc_crontabBinary c) [''-n'', p] fs)) = cronFiles c fs)"

definition aside :: "cronController \<Rightarrow> string \<Rightarrow> bool" where
  "aside c p \<longleftrightarrow> p \<noteq> cc_cronPath c \<and> p \<noteq> cc_statePath c"

lemma cronFiles_aside [simp]: "aside c p \<Longrightarrow> cronFiles c (fs(p := x)) = cronFiles c fs"
  by (auto simp: cronFiles_def aside_def contents_def restrict_map_def fun_eq_iff)

lemma lastElem_snoc: "CHR ''/'' \<notin> set e \<Longrightarrow> lastElem (d @ ''/'' @ e) = e"
proof -
  assume "CHR ''/'' \<notin> set e"
  then have "takeWhile (\<lambda>x. x \<noteq> CHR ''/'') (rev e @ CHR ''/'' # rev d) = rev e"
    by (subst takeWhile_append2) auto
  then show ?thesis by (simp add: lastElem_def)
qed

lemma lastElem_temp: "CHR ''/'' \<notin> set pat \<Longrightarrow> lastElem (tempName d pat n) = pat @ FormatInt (int n)"
  using lastElem_snoc [of "pat @ FormatInt (int n)" d] FormatInt_chars [of "CHR ''/''" "int n"]
  by (auto simp: tempName_def asciiDigit_def)

lemma layout_aside:
  assumes "cronLayout c"
  shows "aside c (tempName d cronTempPrefix n)" "aside c (tempName d checkPrefix n)" "aside c (cc_lockPath c)"
    "plain_elem e \<Longrightarrow> aside c (Join (backupDirOf c) e)"
proof -
  have "HasPrefix (lastElem (tempName d cronTempPrefix n)) cronTempPrefix" "HasPrefix (lastElem (tempName d checkPrefix n)) cronTempPrefix"
    by (simp_all add: lastElem_temp cronTempPrefix_def checkPrefix_def HasPrefix_def)
  then show "aside c (tempName d cronTempPrefix n)" "aside c (tempName d checkPrefix n)" "aside c (cc_lockPath c)"
    using assms by (auto simp: aside_def cronLayout_def managedFile_def)
  assume e: "plain_elem e"
  then have "DirOf (Join (backupDirOf c) e) = backupDirOf c"
    using assms DirOf_snoc Join_clean by (auto simp: cronLayout_def plain_elem_def)
  then show "aside c (Join (backupDirOf c) e)" using assms by (auto simp: aside_def cronLayout_def managedFile_def)
qed

lemma backup_elem: "lastElem p \<noteq> [] \<Longrightarrow> plain_elem (BaseOf p @ ''.backup-'' @ stampText t)"
proof -
  assume l: "lastElem p \<noteq> []"
  have digit: "CHR ''/'' \<notin> set (pad k n)" for k n
    using pad_digits [of k n] by (auto simp: asciiDigit_def list_all_iff)
  have "dropWhile (\<lambda>x. x = CHR ''/'') (rev p) = rev p" "p \<noteq> []"
    using l by (cases "rev p"; auto simp: lastElem_def split: if_splits)+
  then have "CHR ''/'' \<notin> set (BaseOf p)" by (auto simp: BaseOf_def Let_def dest: set_takeWhileD)
  moreover have "CHR ''/'' \<notin> set (stampText t)" using digit by (auto simp: stampText_def Let_def split: prod.splits)
  ultimately show ?thesis by (auto simp: plain_elem_def append_eq_Cons_conv)
qed

section \<open>Programs over the two files\<close>

lemma cronFiles_slots: "cronFiles c = slotsOf (\<lambda>_ d. d) {cc_cronPath c, cc_statePath c}"
  by (auto simp: cronFiles_def slotsOf_def contents_def restrict_map_def fun_eq_iff)

abbreviation steady :: "cronController \<Rightarrow> ('e, 'a) io \<Rightarrow> bool" where
  "steady c \<equiv> steadyOn (cronFiles c)"

abbreviation runsC ::
  "cronController \<Rightarrow> ((string \<rightharpoonup> string) \<Rightarrow> bool) \<Rightarrow> ('e, 'a) io \<Rightarrow> ('a \<Rightarrow> (string \<rightharpoonup> string) \<Rightarrow> bool) \<Rightarrow>
     ('e \<Rightarrow> (string \<rightharpoonup> string) \<Rightarrow> bool) \<Rightarrow> ((string \<rightharpoonup> string) \<Rightarrow> bool) \<Rightarrow> bool" where
  "runsC c \<equiv> runsOn (cronFiles c)"

lemma aside_slots: "aside c p \<longleftrightarrow> p \<notin> {cc_cronPath c, cc_statePath c}"
  by (auto simp: aside_def)

lemma cronMkdirAll: "steady c (mkdirAll es mode)"
  unfolding cronFiles_slots by (rule steady_mkdirAll)

lemma cronWrites:
  assumes "aside c p"
  shows "steady c (fileWrite p d)" "steady c (osRemove p)" "steady c (osCreate b p mode)"
  using assms unfolding cronFiles_slots aside_slots by (rule steady_writes)+

lemmas cron_rules = steady_ret steady_throw steady_seq steady_attempt steady_onError steady_deferred steady_sys
  steady_reads cronMkdirAll cronWrites

lemma runs_tempCron:
  assumes "\<And>n. aside c (tempName d pat n)"
  shows "runs (\<lambda>fs. cronFiles c fs = V) (osCreateTemp d pat)
     (\<lambda>t fs. cronFiles c fs = V \<and> aside c t \<and> (\<exists>m. fs t = Some (FReg m False []))) (\<lambda>_ fs. cronFiles c fs = V) (\<lambda>fs. cronFiles c fs = V)"
  using assms runs_temp [of d pat "{cc_cronPath c, cc_statePath c}" V "\<lambda>_ d. d"]
  by (auto simp: aside_slots cronFiles_slots intro: runs_cons)

section \<open>Replacing a file\<close>

lemma runsC_atomicCronWrite:
  assumes c: "cronLayout c" and p: "p \<in> {cc_cronPath c, cc_statePath c}"
  shows "runsC c (\<lambda>V. V = V0) (atomicCronWrite p d mode) (\<lambda>_ V. V = V0(p \<mapsto> d)) (\<lambda>_ V. V = V0) (\<lambda>V. V = V0 \<or> V = V0(p \<mapsto> d))"
proof -
  let ?S = "{cc_cronPath c, cc_statePath c}" and ?F = "\<lambda>fs. cronFiles c fs = V0"
  let ?steps = "\<lambda>t. seqIO (osChmod t mode) (\<lambda>_. seqIO (fileWrite t d) (\<lambda>_. seqIO (fileSync t) (\<lambda>_. seqIO (fileClose t) (\<lambda>_. osRename t p))))"
  have body: "runs (\<lambda>fs. ?F fs \<and> aside c t \<and> (\<exists>m. fs t = Some (FReg m False []))) (deferred (?steps t) (osRemove t))
     (\<lambda>_ fs. cronFiles c fs = V0(p \<mapsto> d)) (\<lambda>_ fs. ?F fs) (\<lambda>fs. ?F fs \<or> cronFiles c fs = V0(p \<mapsto> d))" for t
  proof (cases "aside c t")
    case True
    then have t: "t \<notin> ?S" by (simp add: aside_slots)
    note fill = runs_fill [where proj = "\<lambda>_ d. d" and S = ?S and V = V0 and t = t, OF t, folded cronFiles_slots]
    have "runs (\<lambda>fs. ?F fs \<and> (\<exists>m s. True \<and> fs t = Some (FReg m s []))) (?steps t) (\<lambda>_ fs. cronFiles c fs = V0(p \<mapsto> d)) (\<lambda>_. ?F) ?F"
      by (rule runs_seq [OF fill(1)], rule runs_seq [OF fill(3)], rule runs_seq [OF fill(4)], rule runs_seq [OF fill(5)])
        (use runs_fill_rename [where proj = "\<lambda>_ d. d" and V = V0 and mode = mode and d = d, OF t p] in \<open>simp add: cronFiles_slots\<close>)
    then have "runs (\<lambda>fs. ?F fs \<and> aside c t \<and> (\<exists>m. fs t = Some (FReg m False []))) (?steps t) (\<lambda>_ fs. cronFiles c fs = V0(p \<mapsto> d)) (\<lambda>_. ?F)
        (\<lambda>fs. ?F fs \<or> cronFiles c fs = V0(p \<mapsto> d))"
      by (rule runs_cons) auto
    from runs_deferred [where Q = "\<lambda>_ V. V = V0(p \<mapsto> d)" and E = "\<lambda>_ V. V = V0" and H = "\<lambda>V. V = V0 \<or> V = V0(p \<mapsto> d)",
        OF this cronWrites(2) [OF True]]
    show ?thesis by simp
  qed (simp add: runs_def)
  show ?thesis
    unfolding runsOn_def atomicCronWrite_def
    by (rule runs_seq [OF runs_cons [OF runs_tempCron [OF layout_aside(1) [OF c]]] body]) auto
qed

section \<open>Reading, backups and restoring\<close>

abbreviation mine :: "cronController \<Rightarrow> string \<Rightarrow> bool" where
  "mine c p \<equiv> p \<in> {cc_cronPath c, cc_statePath c}"

lemma cronFiles_at: "mine c p \<Longrightarrow> cronFiles c fs p = contents fs p"
  by (auto simp: cronFiles_def)

lemma runsC_readManagedFile:
  assumes "mine c p"
  shows "runsC c (\<lambda>V. V = V0) (readManagedFile p) (\<lambda>x V. V = V0 \<and> V0 p = Some (fst (snd x)))
    (\<lambda>e V. V = V0 \<and> (e = Inl NotExist \<longrightarrow> V0 p = None)) (\<lambda>V. V = V0)"
  unfolding cronFiles_slots by (rule runsOn_cons [OF runsOn_readManagedFile [OF assms]]) auto

lemma steady_osWriteFile: "aside c p \<Longrightarrow> steady c (osWriteFile p d mode)"
  unfolding osWriteFile_def by (intro steady_seq cronWrites steady_reads)

lemma runsC_backupCronFile:
  assumes "cronLayout c" "mine c p"
  shows "runsC c (\<lambda>V. V = V0) (backupCronFile now p (backupDirOf c))
    (\<lambda>(d, existed) V. V = V0 \<and> V0 p = (if existed then Some d else None)) (\<lambda>_ V. V = V0) (\<lambda>V. V = V0)"
proof -
  have "lastElem p \<noteq> []" using assms by (auto simp: cronLayout_def managedFile_def)
  note off = layout_aside(4) [OF assms(1) backup_elem [OF this, of now]]
  have keep: "runsC c (\<lambda>V. V = V0 \<and> V0 p = Some d)
      (seqIO (sys (osWriteFile (Join (backupDirOf c) (BaseOf p @ ''.backup-'' @ stampText now)) d 0x180)) (\<lambda>_. ret (d, True)))
      (\<lambda>(d, existed) V. V = V0 \<and> V0 p = (if existed then Some d else None)) (\<lambda>_ V. V = V0) (\<lambda>V. V = V0)" for d
    by (rule steady_runsOn [THEN runsOn_seq [where R = "\<lambda>_ V. V = V0 \<and> V0 p = Some d"], OF steady_sys [OF steady_osWriteFile [OF off]]])
      (auto intro: runsOn_ret)
  let ?R = "\<lambda>r V. V = V0 \<and> (case r of Inr x \<Rightarrow> V0 p = Some (fst (snd x)) | Inl e \<Rightarrow> e = Inl NotExist \<longrightarrow> V0 p = None)"
  have "runsC c (\<lambda>V. V = V0) (attempt (readManagedFile p)) ?R (\<lambda>_ V. V = V0) (\<lambda>V. V = V0)"
    by (rule runsOn_attempt, rule runsOn_cons [OF runsC_readManagedFile [OF assms(2)]]) auto
  then show ?thesis
    unfolding backupCronFile_def
    by (rule runsOn_seq) (auto intro: runsOn_ret runsOn_throw keep [simplified] split: sum.split)
qed

lemma runsC_restoreCronFile:
  assumes "cronLayout c" "V0 (cc_cronPath c) = (if existed then Some d else None)"
  shows "runsC c (\<lambda>V. V = V0(cc_cronPath c \<mapsto> x)) (restoreCronFile (cc_cronPath c) d existed mode)
    (\<lambda>_ V. V = V0) (\<lambda>_ V. V = V0 \<or> V = V0(cc_cronPath c \<mapsto> x)) (\<lambda>V. V = V0 \<or> V = V0(cc_cronPath c \<mapsto> x))"
proof (cases existed)
  case True
  then have "V0(cc_cronPath c \<mapsto> x, cc_cronPath c \<mapsto> d) = V0" using assms(2) by (auto simp: fun_eq_iff)
  then show ?thesis
    using True by (simp add: restoreCronFile_def)
      (rule runsOn_cons [OF runsC_atomicCronWrite [OF assms(1), of "cc_cronPath c" "V0(cc_cronPath c \<mapsto> x)" d mode]]; auto)
next
  case False
  have "cronFiles c (fs(cc_cronPath c := None)) = (cronFiles c fs)(cc_cronPath c := None)" for fs
    by (auto simp: cronFiles_def contents_def restrict_map_def fun_eq_iff)
  moreover have "V0(cc_cronPath c := None) = V0" using assms(2) False by (auto simp: fun_eq_iff)
  ultimately show ?thesis
    using False by (simp add: restoreCronFile_def runsOn_def osRemove_def) (rule runs_syscall; auto)
qed

lemma steady_writeLines: "aside c p \<Longrightarrow> steady c (writeLines p jobs)"
  by (induction jobs) (auto intro: cron_rules)

lemma steady_validateRendered:
  assumes "cronLayout c" "cronHostOk h c"
  shows "steady c (validateRendered h c jobs)"
proof -
  let ?body = "\<lambda>t. deferred
       (seqIO (sys (writeLines t jobs)) (\<lambda>_.
        seqIO (sys (fileClose t)) (\<lambda>_.
        seqIO (attempt (runHost h (cc_crontabBinary c) [''-n'', t])) (\<lambda>r.
        case r of
          Inl _ \<Rightarrow> throw (cronInvalidBecause ''cron syntax test failed'')
        | Inr _ \<Rightarrow> ret ()))))
       (osRemove t)"
  have body: "steady c (?body t)" if "aside c t" for t
    using that assms(2)
    by (intro steady_deferred steady_seq steady_sys steady_attempt steady_writeLines steady_runHost steady_reads cronWrites)
      (auto simp: cronHostOk_def intro: cron_rules split: sum.split)
  have "runs (\<lambda>fs. cronFiles c fs = V \<and> aside c t) (?body t) (\<lambda>_ fs. cronFiles c fs = V) (\<lambda>_ fs. cronFiles c fs = V) (\<lambda>fs. cronFiles c fs = V)" for t V
  proof (cases "aside c t")
    case True
    then show ?thesis by (simp add: steadyD [OF body])
  qed (simp add: runs_def)
  note after = this
  have temp: "runs (\<lambda>fs. cronFiles c fs = V) (sys (osCreateTemp (ch_tempDir h) checkPrefix))
      (\<lambda>t fs. cronFiles c fs = V \<and> aside c t) (\<lambda>_ fs. cronFiles c fs = V) (\<lambda>fs. cronFiles c fs = V)" for V
    unfolding sys_def by (rule runs_onError, rule runs_cons [OF runs_tempCron [OF layout_aside(2) [OF assms(1)]]]) auto
  show ?thesis
    unfolding validateRendered_def by (intro steadyI) (rule runs_seq [OF temp after])
qed

lemma steady_removes: "list_all (aside c) ps \<Longrightarrow> steady c (removeAll_files ps)"
  by (induction ps) (auto intro: cron_rules)

lemma runs_regularEntries:
  assumes "cronLayout c" "list_all plain_elem names"
  shows "runs (\<lambda>fs. cronFiles c fs = V) (regularEntries h (backupDirOf c) names)
    (\<lambda>items fs. cronFiles c fs = V \<and> list_all (aside c) (map fst items)) (\<lambda>_ fs. cronFiles c fs = V) (\<lambda>fs. cronFiles c fs = V)"
  using assms(2)
proof (induction names)
  case (Cons n ns)
  have lstat: "runs (\<lambda>fs. cronFiles c fs = V) (attempt (osLstat (Join (backupDirOf c) n))) (\<lambda>_ fs. cronFiles c fs = V)
      (\<lambda>_ fs. cronFiles c fs = V) (\<lambda>fs. cronFiles c fs = V)"
    by (rule steadyD [OF steady_attempt [OF steady_reads(1)]])
  have get: "runs (\<lambda>fs. cronFiles c fs = V) getFS (\<lambda>_ fs. cronFiles c fs = V) (\<lambda>_ fs. cronFiles c fs = V) (\<lambda>fs. cronFiles c fs = V)"
    by (simp add: runs_def getFS_def)
  have "aside c (Join (backupDirOf c) n)" using Cons.prems layout_aside(4) [OF assms(1)] by simp
  then show ?case
    unfolding regularEntries.simps
    by (intro runs_seq [OF lstat] runs_seq [OF get] runs_seq [OF Cons.IH] runs_ret) (use Cons.prems in \<open>auto split: sum.split fnode.split\<close>)
qed (simp add: runs_ret)

lemma steady_pruneCronBackups:
  assumes "cronLayout c" "cronHostOk h c"
  shows "steady c (pruneCronBackups h (backupDirOf c) keep)"
proof -
  have list: "runs (\<lambda>fs. cronFiles c fs = V) (attempt (osReadDir h (backupDirOf c)))
      (\<lambda>r fs. cronFiles c fs = V \<and> (case r of Inr names \<Rightarrow> list_all plain_elem names | Inl _ \<Rightarrow> True))
      (\<lambda>_ fs. cronFiles c fs = V) (\<lambda>fs. cronFiles c fs = V)" for V
    unfolding osReadDir_def
    by (rule runs_attempt, rule runs_syscall) (use assms(2) in \<open>auto simp: cronHostOk_def split: sum.split\<close>)
  have rest: "runs (\<lambda>fs. cronFiles c fs = V \<and> list_all (aside c) (map fst items))
      (removeAll_files (drop keep (map fst (sort_key (\<lambda>i. - snd i) items))))
      (\<lambda>_ fs. cronFiles c fs = V) (\<lambda>_ fs. cronFiles c fs = V) (\<lambda>fs. cronFiles c fs = V)" for V and items :: "(string \<times> go_time) list"
  proof (cases "list_all (aside c) (map fst items)")
    case True
    then have "list_all (aside c) (drop keep (map fst (sort_key (\<lambda>i. - snd i) items)))"
      by (auto simp: list_all_iff dest!: in_set_dropD)
    then show ?thesis using True by (simp add: steadyD [OF steady_removes])
  qed (simp add: runs_def)
  have "runs (\<lambda>fs. cronFiles c fs = V \<and> (case r of Inr names \<Rightarrow> list_all plain_elem names | Inl _ \<Rightarrow> True))
      (case r of Inl _ \<Rightarrow> ret () | Inr names \<Rightarrow> seqIO (regularEntries h (backupDirOf c) names) (\<lambda>items.
         removeAll_files (drop keep (map fst (sort_key (\<lambda>i. - snd i) items)))))
      (\<lambda>_ fs. cronFiles c fs = V) (\<lambda>_ fs. cronFiles c fs = V) (\<lambda>fs. cronFiles c fs = V)" for r :: "os_error + string list" and V
  proof (cases r)
    case (Inr names)
    show ?thesis
    proof (cases "list_all plain_elem names")
      case True
      then show ?thesis using runs_seq [OF runs_regularEntries [OF assms(1) True] rest] by (simp add: Inr)
    qed (simp add: Inr runs_def)
  qed (simp add: runs_ret)
  then show ?thesis
    unfolding pruneCronBackups_def by (intro steadyI) (rule runs_seq [OF list])
qed

section \<open>Changes of the jobs\<close>

text \<open>Pruning the backups raises no error.\<close>

definition silent :: "('e, 'a) io \<Rightarrow> bool" where
  "silent m \<longleftrightarrow> (\<forall>w e. fst (m w) \<noteq> Raise e)"

lemma silent_rules:
  "silent (ret x)" "silent (attempt m)" "silent getFS" "silent m \<Longrightarrow> (\<And>x. silent (f x)) \<Longrightarrow> silent (seqIO m f)"
  by (auto simp: silent_def ret_def attempt_def getFS_def seqIO_def split: prod.split io_res.split) (metis fst_conv)+

lemma silent_prune: "silent (pruneCronBackups h d k)"
proof -
  have "silent (regularEntries h d names)" for names
    by (induction names) (auto intro!: silent_rules)
  moreover have "silent (removeAll_files ps)" for ps
    by (induction ps) (auto intro!: silent_rules)
  ultimately show ?thesis unfolding pruneCronBackups_def by (auto intro!: silent_rules split: sum.split)
qed

lemma silent_runsC:
  assumes "steady c m" "silent m" "\<And>V. P V \<Longrightarrow> H V"
  shows "runsC c P m (\<lambda>_. P) E H"
proof -
  note keep = steady_runsOn [OF assms(1), of P H "\<lambda>_. P" "\<lambda>_. P", OF assms(3), unfolded runsOn_def runs_def, rule_format]
  show ?thesis
    unfolding runsOn_def runs_def
  proof (intro allI impI)
    fix w :: world assume "P (cronFiles c (w_fs w))"
    note keep [OF _ _ _ this]
    moreover have "fst (m w) \<noteq> Raise e" for e using assms(2) by (simp add: silent_def)
    ultimately show "case m w of (Ret x, w') \<Rightarrow> P (cronFiles c (w_fs w')) | (Raise e, w') \<Rightarrow> E e (cronFiles c (w_fs w'))
      | (Dead, w') \<Rightarrow> H (cronFiles c (w_fs w'))"
      by (cases "m w"; cases "fst (m w)") auto
  qed
qed

text \<open>The files after the first and after the second replacement.\<close>

definition rendered :: "cronController \<Rightarrow> cronTaskJob list \<Rightarrow> (string \<rightharpoonup> string) \<Rightarrow> string \<rightharpoonup> string" where
  "rendered c jobs V = V(cc_cronPath c \<mapsto> renderCronJobs jobs (cc_shell c))"

definition saved :: "cronController \<Rightarrow> cronTaskJob list \<Rightarrow> (string \<rightharpoonup> string) \<Rightarrow> string \<rightharpoonup> string" where
  "saved c jobs V = (rendered c jobs V)(cc_statePath c \<mapsto> cronStateText jobs)"

lemma runsC_saveJobs:
  assumes "cronLayout c" "cronHostOk h c"
  shows "runsC c (\<lambda>V. V = V0) (saveJobs h c jobs) (\<lambda>_ V. V = saved c jobs V0) (\<lambda>_ V. V \<in> {V0, rendered c jobs V0})
    (\<lambda>V. V \<in> {V0, rendered c jobs V0, saved c jobs V0})"
proof -
  let ?E = "\<lambda>_ V. V \<in> {V0, rendered c jobs V0}" and ?H = "\<lambda>V. V \<in> {V0, rendered c jobs V0, saved c jobs V0}"
  have calm: "runsC c (\<lambda>V. V = V0) m (\<lambda>_ V. V = V0) ?E ?H" if "steady c m" for m :: "(go_error, 'x) io"
    by (rule steady_runsOn [OF that]) auto
  have backup: "runsC c (\<lambda>V. V = V0) (backupCronFile t p (backupDirOf c))
      (\<lambda>x V. V = V0 \<and> V0 p = (if snd x then Some (fst x) else None)) ?E ?H" if "mine c p" for t p
    by (rule runsOn_cons [OF runsC_backupCronFile [OF assms(1) that]]) auto
  have cron: "runsC c (\<lambda>V. V = V0) (sys (atomicCronWrite (cc_cronPath c) (renderCronJobs jobs (cc_shell c)) 0x1A4)) (\<lambda>_ V. V = rendered c jobs V0) ?E ?H"
    unfolding sys_def
    by (rule runsOn_onError, rule runsOn_cons [OF runsC_atomicCronWrite [OF assms(1), of "cc_cronPath c" V0]]) (auto simp: rendered_def)
  have state: "runsC c (\<lambda>V. V = rendered c jobs V0) (attempt (atomicCronWrite (cc_statePath c) (cronStateText jobs) 0x180))
      (\<lambda>r V. V = (case r of Inr _ \<Rightarrow> saved c jobs V0 | Inl _ \<Rightarrow> rendered c jobs V0)) ?E ?H"
    by (rule runsOn_attempt, rule runsOn_cons [OF runsC_atomicCronWrite [OF assms(1), of "cc_statePath c" "rendered c jobs V0"]]) (auto simp: saved_def)
  have undo: "runsC c (\<lambda>V. V = rendered c jobs V0) (attempt (restoreCronFile (cc_cronPath c) d b 0x1A4)) (\<lambda>_. ?E ()) ?E ?H"
    if "V0 (cc_cronPath c) = (if b then Some d else None)" for d b
    by (rule runsOn_attempt, rule runsOn_cons [OF runsC_restoreCronFile [OF assms(1), of V0 b d, OF that]]) (auto simp: rendered_def)
  have last: "runsC c (\<lambda>V. V = (case r of Inr _ \<Rightarrow> saved c jobs V0 | Inl _ \<Rightarrow> rendered c jobs V0))
      (case r of Inl _ \<Rightarrow> seqIO (attempt (restoreCronFile (cc_cronPath c) d b 0x1A4)) (\<lambda>_. throw osError)
       | Inr _ \<Rightarrow> pruneCronBackups h (backupDirOf c) 20) (\<lambda>_ V. V = saved c jobs V0) ?E ?H"
    if "V0 (cc_cronPath c) = (if b then Some d else None)" for d b r
  proof (cases r)
    case (Inl e)
    show ?thesis using runsOn_seq [OF undo [OF that] runsOn_throw] by (simp add: Inl)
  next
    case (Inr u)
    have "runsC c (\<lambda>V. V = saved c jobs V0) (pruneCronBackups h (backupDirOf c) 20) (\<lambda>_ V. V = saved c jobs V0) ?E ?H"
      by (rule silent_runsC [OF steady_pruneCronBackups [OF assms] silent_prune]) simp
    then show ?thesis by (simp add: Inr)
  qed
  have tail: "runsC c (\<lambda>V. V = V0 \<and> V0 (cc_cronPath c) = (if snd x then Some (fst x) else None))
      (case x of (previousCron, cronExisted) \<Rightarrow>
         seqIO (sys (atomicCronWrite (cc_cronPath c) (renderCronJobs jobs (cc_shell c)) 0x1A4)) (\<lambda>_.
         seqIO (attempt (atomicCronWrite (cc_statePath c) (cronStateText jobs) 0x180)) (\<lambda>r.
         case r of
           Inl _ \<Rightarrow> seqIO (attempt (restoreCronFile (cc_cronPath c) previousCron cronExisted 0x1A4)) (\<lambda>_. throw osError)
         | Inr _ \<Rightarrow> pruneCronBackups h (backupDirOf c) 20))) (\<lambda>_ V. V = saved c jobs V0) ?E ?H" for x
    by (rule runsOn_pure, cases x) (simp only: prod.case fst_conv snd_conv, rule runsOn_seq [OF cron runsOn_seq [OF state last]])
  have first: "runsC c (\<lambda>V. V = V0) (backupCronFile (ch_now h 0) (cc_statePath c) (backupDirOf c)) (\<lambda>_ V. V = V0) ?E ?H"
    by (rule runsOn_cons [OF backup [of "cc_statePath c"]]) auto
  note dirs = calm [OF steady_sys [OF cronMkdirAll]]
  have "mine c (cc_cronPath c)" by simp
  note second = runsOn_seq [OF backup [OF this] tail]
  show ?thesis
    unfolding saveJobs_def osMkdirAll_def
    by (rule runsOn_seq [OF calm [OF steady_validateRendered [OF assms]]], rule runsOn_seq [OF dirs], rule runsOn_seq [OF dirs],
        rule runsOn_seq [OF dirs], rule runsOn_seq [OF first], rule second)
qed

text \<open>What the state file stands for.\<close>

definition storedJobs :: "cronHost \<Rightarrow> string option \<Rightarrow> cronTaskJob list option option" where
  "storedJobs h b =
     (case b of
        None \<Rightarrow> Some (Some [])
      | Some content \<Rightarrow>
          if length content > maxCronStateBytes then None
          else Option.bind (decodeJobs content) (\<lambda>jobs.
            if length (jobList jobs) \<le> maxCronJobs \<and> validateAll h (jobList jobs) = Inr () then Some jobs else None))"

lemma runsC_loadJobs:
  assumes "cronLayout c"
  shows "runsC c (\<lambda>V. V = V0) (loadJobs h c) (\<lambda>jobs V. V = V0 \<and> storedJobs h (V0 (cc_statePath c)) = Some jobs)
    (\<lambda>_ V. V = V0) (\<lambda>V. V = V0)"
proof -
  let ?p = "cc_statePath c"
  let ?R = "\<lambda>r V. V = V0 \<and> (case r of Inr x \<Rightarrow> V0 ?p = Some (fst (snd x)) | Inl e \<Rightarrow> e = Inl NotExist \<longrightarrow> V0 ?p = None)"
  have "runsC c (\<lambda>V. V = V0) (attempt (readManagedFile ?p)) ?R (\<lambda>_ V. V = V0) (\<lambda>V. V = V0)"
    by (rule runsOn_attempt, rule runsOn_cons [OF runsC_readManagedFile [of ?p c]]) auto
  then show ?thesis
    unfolding loadJobs_def
    by (rule runsOn_seq) (auto intro!: runsOn_ret runsOn_throw simp: storedJobs_def is_ok_unit_iff split: sum.split option.split)
qed

text \<open>A change that is accepted: the jobs that it leads from the stored ones to.\<close>

definition accepted ::
  "cronHost \<Rightarrow> string option \<Rightarrow> string \<Rightarrow> (cronTaskJob list \<Rightarrow> go_error + cronTaskJob list) \<Rightarrow> cronTaskJob list \<Rightarrow> bool" where
  "accepted h b revision change jobs \<longleftrightarrow> (\<exists>old. storedJobs h b = Some old \<and> cronRevision old = revision
     \<and> change (jobList old) = Inr jobs \<and> length jobs \<le> maxCronJobs \<and> validateAll h jobs = Inr ())"

lemma runsC_mutate:
  assumes "cronLayout c" "cronHostOk h c"
  shows "runsC c (\<lambda>V. V = V0) (mutate h c revision change)
    (\<lambda>_ V. \<exists>jobs. accepted h (V0 (cc_statePath c)) revision change jobs \<and> V = saved c jobs V0)
    (\<lambda>_ V. V = V0 \<or> (\<exists>jobs. accepted h (V0 (cc_statePath c)) revision change jobs \<and> V = rendered c jobs V0))
    (\<lambda>V. V = V0 \<or> (\<exists>jobs. accepted h (V0 (cc_statePath c)) revision change jobs \<and> V \<in> {rendered c jobs V0, saved c jobs V0}))"
    (is "runsC c _ _ ?Q ?E ?H")
proof -
  let ?ok = "accepted h (V0 (cc_statePath c)) revision change"
  have saving: "runsC c (\<lambda>V. V = V0) (saveJobs h c jobs) ?Q ?E ?H" if "?ok jobs" for jobs
    using that by (intro runsOn_cons [OF runsC_saveJobs [OF assms]]) auto
  have load: "runsC c (\<lambda>V. V = V0) (loadJobs h c) (\<lambda>jobs V. V = V0 \<and> storedJobs h (V0 (cc_statePath c)) = Some jobs) ?E ?H"
    by (rule runsOn_cons [OF runsC_loadJobs [OF assms(1)]]) auto
  have change: "runsC c (\<lambda>V. V = V0) (if cronRevision old \<noteq> revision then throw cronChanged
      else case change (jobList old) of Inl e \<Rightarrow> throw e
        | Inr jobs \<Rightarrow> if length jobs > maxCronJobs then throw cronInvalid
            else (case validateAll h jobs of Inl e \<Rightarrow> throw e | Inr _ \<Rightarrow> saveJobs h c jobs)) ?Q ?E ?H"
    if old: "storedJobs h (V0 (cc_statePath c)) = Some old" for old
  proof (cases "cronRevision old = revision")
    case rev: True
    show ?thesis
    proof (cases "change (jobList old)")
      case (Inr jobs)
      show ?thesis
      proof (cases "maxCronJobs < length jobs \<or> (\<exists>e. validateAll h jobs = Inl e)")
        case True
        then show ?thesis using rev Inr by (auto intro!: runsOn_throw)
      next
        case False
        then have valid: "length jobs \<le> maxCronJobs" "validateAll h jobs = Inr ()" by (cases "validateAll h jobs"; simp)+
        then have "?ok jobs" using old rev Inr by (auto simp: accepted_def)
        from saving [OF this] show ?thesis using rev Inr valid by simp
      qed
    qed (simp add: rev runsOn_throw)
  qed (simp add: runsOn_throw)
  have "runsC c (\<lambda>V. V = V0) (mutateLocked h c revision change) ?Q ?E ?H"
    unfolding mutateLocked_def by (rule runsOn_seq [OF load], rule runsOn_pure, rule change)
  note inner = runsOn_deferred [OF this steady_reads(5)]
  have calm: "runsC c (\<lambda>V. V = V0) (sys m) (\<lambda>_ V. V = V0) ?E ?H" if "steady c m" for m :: "(os_error, unit) io"
    by (rule steady_runsOn [OF steady_sys [OF that]]) auto
  have "runsC c (\<lambda>V. V = V0) (deferred (seqIO (sys (osFlock (cc_lockPath c))) (\<lambda>_.
      deferred (mutateLocked h c revision change) (osFlock (cc_lockPath c)))) (fileClose (cc_lockPath c))) ?Q ?E ?H"
    by (rule runsOn_deferred [OF runsOn_seq [OF calm [OF steady_reads(5)] inner] steady_reads(3)]) auto
  note locked = runsOn_seq [OF calm [OF cronMkdirAll] runsOn_seq [OF calm [OF cronWrites(3) [OF layout_aside(3) [OF assms(1)]]] this]]
  show ?thesis
    unfolding mutate_def osMkdirAll_def
    by (cases "agentSHA256Pattern revision") (simp_all only: if_False if_True not_True_eq_False not_False_eq_True locked, rule runsOn_throw, simp)
qed

text \<open>
  C24. A change of the managed jobs is a compare-and-swap that survives crashes. Whatever calls fail and
  wherever the agent dies in it: when it reports success, the change was made to the stored jobs of the
  expected revision, its result is valid, and both files hold it. When it reports an error, the state
  file is as it was, and so is the file of the daemon, unless it holds the complete new rendering because
  restoring it failed. After a crash each file is the old or the complete new one, the state file never
  ahead of the file of the daemon.
\<close>

theorem cron_mutation_atomic:
  assumes "cronLayout c" "cronHostOk h c"
  shows "let before = cronFiles c (w_fs w); ok = accepted h (before (cc_statePath c)) revision change in
    case mutate h c revision change w of
      (Ret _, w') \<Rightarrow> (\<exists>jobs. ok jobs \<and> cronFiles c (w_fs w') = saved c jobs before)
    | (Raise _, w') \<Rightarrow> cronFiles c (w_fs w') = before \<or> (\<exists>jobs. ok jobs \<and> cronFiles c (w_fs w') = rendered c jobs before)
    | (Dead, w') \<Rightarrow> cronFiles c (w_fs w') = before
        \<or> (\<exists>jobs. ok jobs \<and> cronFiles c (w_fs w') \<in> {rendered c jobs before, saved c jobs before})"
  using runsC_mutate [OF assms, of "cronFiles c (w_fs w)" revision change, unfolded runsOn_def runs_def, rule_format, of w]
  by (simp add: Let_def)

section \<open>Reading the state back\<close>

definition utf8Job :: "cronTaskJob \<Rightarrow> bool" where
  "utf8Job j \<longleftrightarrow> utf8_valid (cron_ID j) \<and> utf8_valid (cron_Schedule j) \<and> utf8_valid (cron_User j) \<and> utf8_valid (cron_Command j)
     \<and> utf8_valid (cron_Description j)"

lemma decodeJob_json: "decodeJob (cron_json j) = Some j"
proof -
  have "loose_members cronJobNames ms = ms" if "cron_json j = JObj ms" for ms
    by (rule loose_members_exact) (use that in \<open>auto simp: cron_json_def cronJobNames_def\<close>)
  then show ?thesis by (cases j) (simp add: decodeJob_def cron_json_def cron_member_def cronTaskJobZero_def)
qed

lemma cron_json_clean:
  assumes "list_all utf8Job jobs"
  shows "json_clean (jobs_json (Some jobs))" "json_depth (jobs_json (Some jobs)) \<le> 2"
proof -
  have keys: "utf8_valid ''id''" "utf8_valid ''schedule''" "utf8_valid ''user''" "utf8_valid ''command''" "utf8_valid ''description''"
    "utf8_valid ''enabled''" by (intro utf8_valid_ascii; simp)+
  have "clean_elems (map cron_json jobs)" "depth_elems (map cron_json jobs) \<le> 1"
    using assms by (induction jobs) (auto simp: cron_json_def utf8Job_def keys)
  then show "json_clean (jobs_json (Some jobs))" "json_depth (jobs_json (Some jobs)) \<le> 2" by (simp_all add: jobs_json_def)
qed

lemma decodeJobs_stateText:
  assumes "list_all utf8Job jobs"
  shows "decodeJobs (cronStateText jobs) = Some (Some jobs)"
proof -
  have "json_parse maxNestingDepth (cronStateText jobs) = Some (jobs_json (Some jobs))"
    unfolding cronStateText_def using cron_json_clean [OF assms]
    by (intro json_indent_roundtrip) (simp_all add: maxNestingDepth_def json_ws_def)
  moreover have "opt_seq (map decodeJob (map cron_json jobs)) = Some jobs"
    by (simp add: comp_def decodeJob_json opt_seq_Some)
  ultimately show ?thesis by (simp add: decodeJobs_def jobs_json_def)
qed

lemma storedJobs_saved:
  assumes "list_all utf8Job jobs" "length jobs \<le> maxCronJobs" "validateAll h jobs = Inr ()"
  shows "storedJobs h (Some (cronStateText jobs)) = (if length (cronStateText jobs) \<le> maxCronStateBytes then Some (Some jobs) else None)"
  using assms by (simp add: storedJobs_def decodeJobs_stateText jobList_def)

text \<open>The state of as many jobs with as long commands as are valid is larger than what is read.\<close>

definition bulkyJob :: "string \<Rightarrow> cronTaskJob" where
  "bulkyJob u = \<lparr>cron_ID = ''cron-000000000000'', cron_Schedule = ''0 0 * * *'', cron_User = u,
     cron_Command = replicate 4096 (CHR ''x''), cron_Description = [], cron_Enabled = True\<rparr>"

lemma bulky_valid:
  assumes "ch_user h u" "agentSystemUserPattern u"
  shows "validateAll h (replicate n (bulkyJob u)) = Inr ()"
proof -
  have "Fields ''0 0 * * *'' = [''0'', ''0'', ''*'', ''*'', ''*'']" using Fields_join [of "[''0'', ''0'', ''*'', ''*'', ''*'']"]
    by (simp add: word_char_def IsSpace_def space_runes_def)
  moreover have "validAgentCronID ''cron-000000000000''" by code_simp
  ultimately have "validateCronJob h (bulkyJob u) True = Inr ()"
    using assms by (simp add: validateCronJob_def cronJobShape_def bulkyJob_def ContainsAny_def lineBreaks_def list_ex_iff)
  then show ?thesis by (induction n) simp_all
qed

lemma bulky_long: "maxCronStateBytes < length (cronStateText (replicate maxCronJobs (bulkyJob u)))"
proof -
  have body: "4096 < length (json_print (cron_json (bulkyJob u)))"
  proof -
    have "enc_str (replicate 4096 (CHR ''x'')) = DQ # replicate 4096 (CHR ''x'') @ [DQ]"
      by (rule enc_str_plain) (simp add: list_all_iff plain_char_def)
    then show ?thesis by (simp add: cron_json_def bulkyJob_def)
  qed
  have "n * 4097 \<le> length (print_elems (replicate n (cron_json (bulkyJob u))))" for n
  proof (induction n)
    case (Suc n)
    then show ?case using body by (cases n) simp_all
  qed simp
  from this [of maxCronJobs] have "maxCronStateBytes < length (json_print (jobs_json (Some (replicate maxCronJobs (bulkyJob u)))))"
    by (simp add: jobs_json_def maxCronJobs_def maxCronStateBytes_def)
  also have "\<dots> \<le> length (cronStateText (replicate maxCronJobs (bulkyJob u)))"
    using json_indent_longer(1) [of "jobs_json (Some (replicate maxCronJobs (bulkyJob u)))" 0] by (simp add: cronStateText_def)
  finally show ?thesis .
qed

lemma cronSyscall_works:
  "syscall f partial (w\<lparr>w_fates := []\<rparr>) =
     (case f (w_fs w) of Inl e \<Rightarrow> (Raise e, w\<lparr>w_fates := []\<rparr>) | Inr (x, fs) \<Rightarrow> (Ret x, w\<lparr>w_fs := fs, w_fates := []\<rparr>))"
  by (simp add: syscall_def split: sum.split prod.split)

lemma loadJobs_works:
  assumes "contents (w_fs w) (cc_statePath c) = Some d"
  shows "\<exists>e. loadJobs h c (w\<lparr>w_fates := []\<rparr>) = (case storedJobs h (Some d) of Some jobs \<Rightarrow> Ret jobs | None \<Rightarrow> Raise e, w\<lparr>w_fates := []\<rparr>)"
proof -
  let ?w = "w\<lparr>w_fates := []\<rparr>"
  obtain m s where f: "w_fs w (cc_statePath c) = Some (FReg m s d)"
    using assms by (auto simp: contents_def split: option.splits fnode.splits)
  have same: "w\<lparr>w_fs := w_fs w, w_fates := []\<rparr> = ?w" by simp
  have calls: "openNoFollow (cc_statePath c) ?w = (Ret (FReg m s d), ?w)" "osLstat (cc_statePath c) ?w = (Ret (FReg m s d), ?w)"
    "osReadFile (cc_statePath c) ?w = (Ret d, ?w)" "fileClose (cc_statePath c) ?w = (Ret (), ?w)"
    by (simp_all add: openNoFollow_def osLstat_def osReadFile_def fileClose_def cronSyscall_works f)
  have "readManagedFile (cc_statePath c) ?w =
      (if length d > maxAgentNginxConfigBytes then Raise (Inr managedFileTooLarge) else Ret (FReg m s d, d, token_digest d), ?w)"
    by (simp add: readManagedFile_def seqIO_def onError_def attempt_def deferred_def calls ret_def throw_def)
  then show ?thesis
    by (cases "maxAgentNginxConfigBytes < length d"; cases "decodeJobs d")
      (auto simp: loadJobs_def seqIO_def attempt_def ret_def throw_def storedJobs_def maxAgentNginxConfigBytes_def maxCronStateBytes_def
        is_ok_unit_iff split: sum.split)
qed

text \<open>Reading after a change: the jobs are there, or they are lost for good.\<close>

definition reloads :: "cronHost \<Rightarrow> cronController \<Rightarrow> cronTaskJob list \<Rightarrow> world \<Rightarrow> bool" where
  "reloads h c jobs w \<longleftrightarrow>
     (if length (cronStateText jobs) \<le> maxCronStateBytes then fst (loadJobs h c (w\<lparr>w_fates := []\<rparr>)) = Ret (Some jobs)
      else (\<exists>e. fst (loadJobs h c (w\<lparr>w_fates := []\<rparr>)) = Raise e)
        \<and> (\<forall>w2 r ch x. cronFiles c (w_fs w2) = cronFiles c (w_fs w) \<longrightarrow> fst (mutate h c r ch w2) \<noteq> Ret x))"

lemma mutate_reloads:
  assumes "cronLayout c" "cronHostOk h c" "mutate h c revision change w = (Ret x, w')"
  shows "\<exists>jobs. accepted h (cronFiles c (w_fs w) (cc_statePath c)) revision change jobs \<and> (list_all utf8Job jobs \<longrightarrow> reloads h c jobs w')"
proof -
  note run = runsC_mutate [OF assms(1,2), unfolded runsOn_def runs_def, rule_format, OF refl]
  obtain jobs where jobs: "accepted h (cronFiles c (w_fs w) (cc_statePath c)) revision change jobs"
    "cronFiles c (w_fs w') = saved c jobs (cronFiles c (w_fs w))"
    using run [of w revision change] assms(3) by auto
  then have st: "cronFiles c (w_fs w') (cc_statePath c) = Some (cronStateText jobs)" by (simp add: saved_def)
  then have "contents (w_fs w') (cc_statePath c) = Some (cronStateText jobs)" by (simp add: cronFiles_at)
  from loadJobs_works [OF this, of h] obtain e where load: "loadJobs h c (w'\<lparr>w_fates := []\<rparr>) =
      (case storedJobs h (Some (cronStateText jobs)) of Some jobs \<Rightarrow> Ret jobs | None \<Rightarrow> Raise e, w'\<lparr>w_fates := []\<rparr>)" by blast
  have "fst (mutate h c r ch w2) \<noteq> Ret x" if "storedJobs h (Some (cronStateText jobs)) = None" "cronFiles c (w_fs w2) = cronFiles c (w_fs w')" for w2 r ch x
    using run [of w2 r ch] that st by (cases "mutate h c r ch w2") (auto simp: accepted_def)
  moreover have "list_all utf8Job jobs \<Longrightarrow> storedJobs h (Some (cronStateText jobs)) = (if length (cronStateText jobs) \<le> maxCronStateBytes then Some (Some jobs) else None)"
    using jobs(1) by (intro storedJobs_saved) (auto simp: accepted_def)
  ultimately show ?thesis using jobs(1) load by (intro exI [of _ jobs]) (auto simp: reloads_def)
qed


section \<open>The contract with the hub\<close>

lemma systemUser_agree: "agentSystemUserPattern u \<longleftrightarrow> validSystemUser u"
proof -
  let ?rest = "\<lambda>r. userHead r \<or> (48 \<le> r \<and> r \<le> 57) \<or> r = byte (CHR ''-'')"
  have cls: "?rest r \<Longrightarrow> r < 0x80" "userHead r \<Longrightarrow> ?rest r" for r by (auto simp: userHead_def)
  have len: "length (runes u) = length u" if "list_all ?rest (runes u)"
    using list_all_runes_ascii [of ?rest u, OF cls(1)] runes_ascii [of u] that cls(1) by (auto simp: list_all_iff)
  have eq: "(\<lambda>r. (97 \<le> r \<and> r \<le> 122) \<or> r = byte (CHR ''_'') \<or> (48 \<le> r \<and> r \<le> 57) \<or> r = byte (CHR ''-'')) = ?rest"
    by (auto simp: userHead_def fun_eq_iff)
  show ?thesis
    unfolding validSystemUser_def agentSystemUserPattern_def matchName_def first_rest_def eq userHead_def [symmetric]
    using len cls(2) by (cases "runes u") auto
qed

lemma lower_hex_rune: "lower_hex c \<Longrightarrow> lowerHexRune (byte c) \<and> byte c < 0x80 \<and> hex_val c \<noteq> None"
  by (auto simp: lower_hex_def lowerHexRune_def hex_val_def asciiDigit_def)

text \<open>
  The two sides agree on jobs: of a job that the hub admits the agent only asks that its user exists on
  the node, and an id that the agent gives to a new job is one that the hub takes in later tasks for it.
\<close>

theorem cron_contract:
  assumes "validCronJob job requireID" "length raw = 6"
  shows "(validateCronJob h job requireID = Inr () \<longleftrightarrow> ch_user h (cron_User job))
    \<and> validCronID (newCronID raw) \<and> validateCronJob h (job\<lparr>cron_ID := newCronID raw\<rparr>) True = validateCronJob h job requireID"
proof -
  have low: "\<forall>x \<in> set (hex_encode raw). lowerHexRune (byte x) \<and> byte x < 0x80 \<and> hex_val x \<noteq> None"
    using hex_encode_lower [of raw] lower_hex_rune by (auto simp: list_all_iff)
  then have new: "validCronID (newCronID raw)" "validAgentCronID (newCronID raw)"
    using assms(2) by (auto simp: validCronID_def validAgentCronID_def idWithPrefix_def newCronID_def HasPrefix_def runes_ascii list_all_iff)
  have old: "validCronID i \<Longrightarrow> validAgentCronID i" for i
  proof -
    assume v: "validCronID i"
    have cls: "lowerHexRune r \<Longrightarrow> r < 0x80" for r by (auto simp: lowerHexRune_def)
    have "list_all (\<lambda>c. lowerHexRune (byte c)) (drop 5 i)"
      using v list_all_runes_ascii [of lowerHexRune "drop 5 i", OF cls] by (simp add: validCronID_def idWithPrefix_def numeral_eq_Suc)
    then show ?thesis using v
      by (auto simp: validCronID_def idWithPrefix_def validAgentCronID_def list_all_iff lowerHexRune_def hex_val_def asciiDigit_def)
  qed
  have shape: "cronJobShape job requireID" "cronJobShape (job\<lparr>cron_ID := newCronID raw\<rparr>) True"
    using assms(1) old new(2) by (auto simp: validCronJob_def cronJobShape_def systemUser_agree Fields_length)
  then show ?thesis using new by (simp add: validateCronJob_def)
qed

section \<open>Witnesses\<close>

definition demoHost :: cronHost where
  "demoHost = \<lparr>ch_run = (\<lambda>_ _ fs. (Some [], fs)), ch_tempDir = ''/tmp'', ch_user = (\<lambda>u. u = ''root''), ch_readDir = (\<lambda>_ _. Inr []),
     ch_modTime = (\<lambda>_ _. 0), ch_now = (\<lambda>_. 0)\<rparr>"

definition demoCron :: cronController where
  "demoCron = newCronController True True True ''/etc/hserver/cron-jobs.json'' ''/etc/cron.d/hserver-managed'' ''/run/lock/hserver-cron.lock''
     ''/usr/bin/crontab'' ''/usr/sbin/runuser'' ''/bin/bash'' ''cron.service''"

definition demoJob :: cronTaskJob where
  "demoJob = \<lparr>cron_ID = ''cron-00112233aabb'', cron_Schedule = ''5 4 * * *'', cron_User = ''root'', cron_Command = ''/bin/true'',
     cron_Description = ''nightly'', cron_Enabled = True\<rparr>"

definition demoCronWorld :: world where
  "demoCronWorld = \<lparr>w_fs = Map.empty, w_fates = [Works, Dies 0], w_rands = [], w_euid0 = True\<rparr>"

lemma demo_layout: "cronLayout demoCron" "cronHostOk demoHost demoCron"
proof -
  have "DirOf ''/etc/hserver/cron-jobs.json'' = ''/etc/hserver''" "DirOf ''/etc/cron.d/hserver-managed'' = ''/etc/cron.d''" by code_simp+
  moreover have "Join (Join ''/etc/hserver'' ''backups'') ''cron'' = ''/etc/hserver/backups/cron''" "cleanDir ''/etc/hserver/backups/cron''" by code_simp+
  ultimately show "cronLayout demoCron"
    by (simp add: cronLayout_def managedFile_def demoCron_def newCronController_def backupDirOf_def lastElem_def HasPrefix_def cronTempPrefix_def)
  show "cronHostOk demoHost demoCron" by (simp add: cronHostOk_def demoHost_def)
qed

lemma demo_user: "ch_user demoHost ''root''" "agentSystemUserPattern ''root''"
  by (simp_all add: demoHost_def agentSystemUserPattern_def matchName_def userHead_def runes_ascii)

lemma cron_mutation_atomic_witness:
  "let before = cronFiles demoCron (w_fs demoCronWorld); ok = accepted demoHost (before (cc_statePath demoCron)) (cronRevision (Some [])) (deleteJob ''cron-00112233aabb'') in
    case mutate demoHost demoCron (cronRevision (Some [])) (deleteJob ''cron-00112233aabb'') demoCronWorld of
      (Ret _, w') \<Rightarrow> (\<exists>jobs. ok jobs \<and> cronFiles demoCron (w_fs w') = saved demoCron jobs before)
    | (Raise _, w') \<Rightarrow> cronFiles demoCron (w_fs w') = before \<or> (\<exists>jobs. ok jobs \<and> cronFiles demoCron (w_fs w') = rendered demoCron jobs before)
    | (Dead, w') \<Rightarrow> cronFiles demoCron (w_fs w') = before
        \<or> (\<exists>jobs. ok jobs \<and> cronFiles demoCron (w_fs w') \<in> {rendered demoCron jobs before, saved demoCron jobs before})"
  by (rule cron_mutation_atomic [OF demo_layout])



lemma cron_contract_witness: "validCronID (newCronID ''abcdef'') \<and> (validateCronJob demoHost demoJob True = Inr ())"
proof -
  have "Fields ''5 4 * * *'' = [''5'', ''4'', ''*'', ''*'', ''*'']" using Fields_join [of "[''5'', ''4'', ''*'', ''*'', ''*'']"]
    by (simp add: word_char_def IsSpace_def space_runes_def)
  then have "num_fields ''5 4 * * *'' = 5" by (simp flip: Fields_length)
  moreover have "validCronID ''cron-00112233aabb''"
    by (simp add: validCronID_def idWithPrefix_def HasPrefix_def runes_ascii lowerHexRune_def)
  ultimately have "validCronJob demoJob True"
    using demo_user(2) by (simp add: validCronJob_def demoJob_def ContainsAny_def lineBreaks_def systemUser_agree)
  from cron_contract [OF this, of "''abcdef''" demoHost] show ?thesis by (simp add: demoHost_def demoJob_def)
qed

end
