(* ===== verification/AgentManaged.thy ===== *)
theory AgentManaged
  imports AgentCron
begin

text \<open>
  The controllers of the node agent that edit configuration files of other programs: \<^verbatim>\<open>nginx.go\<close>, \<^verbatim>\<open>php.go\<close>,
  \<^verbatim>\<open>files.go\<close> and the actions of \<^verbatim>\<open>domains.go\<close>, all in \<^verbatim>\<open>cmd/hserver-agent\<close>. The file system, its failures and
  crashes are those of \<open>GoOS\<close>, commands and the clock those of \<open>cronHost\<close>. What a symbolic link leads to is
  not part of the file system: \<^verbatim>\<open>filepath.EvalSymlinks\<close> is the function \<open>fh_resolve\<close> of the host, and \<^verbatim>\<open>os.Stat\<close>
  looks at the path that it gives. Ownership is left out, so that \<^verbatim>\<open>Chown\<close> can only fail, and so is the case
  that the file information has none. The mutexes keep other operations of the controllers out.
\<close>

section \<open>Files\<close>

record fileHost =
  fh_host :: cronHost
  fh_resolve :: "fsys \<Rightarrow> string \<Rightarrow> string option"
  fh_size :: "fsys \<Rightarrow> string \<Rightarrow> int"
  fh_lower :: "string \<Rightarrow> string"

definition osFailed :: "string \<Rightarrow> go_error" where
  "osFailed text = errNew (text @ '': operating system error'')"

text \<open>The error that a caller of \<^verbatim>\<open>readManagedFile\<close> passes on.\<close>

definition readFailed :: "os_error + go_error \<Rightarrow> go_error" where
  "readFailed e = (case e of Inl _ \<Rightarrow> osError | Inr e \<Rightarrow> e)"

definition validManagedTextContent :: "string \<Rightarrow> bool" where
  "validManagedTextContent content =
     (utf8_valid content \<and> list_all (\<lambda>c. \<not> (byte c < 0x20 \<and> c \<noteq> CHR 0x0A \<and> c \<noteq> CHR 0x0D \<and> c \<noteq> CHR 0x09)) content)"

definition infoSize :: "fileHost \<Rightarrow> fsys \<Rightarrow> string \<Rightarrow> fnode \<Rightarrow> int" where
  "infoSize h fs p info = (case info of FReg _ _ d \<Rightarrow> int (length d) | _ \<Rightarrow> fh_size h fs p)"

definition modifiedAt :: "fileHost \<Rightarrow> fsys \<Rightarrow> string \<Rightarrow> string" where
  "modifiedAt h fs p = rfc3339nano (ch_modTime (fh_host h) fs p)"

definition regularManagedFile :: "string \<Rightarrow> (go_error, fnode) io" where
  "regularManagedFile path =
     seqIO (sys (osLstat path)) (\<lambda>info.
       case info of
         FReg _ _ _ \<Rightarrow> ret info
       | _ \<Rightarrow> throw (errNew ''managed configuration is not a regular file''))"

text \<open>\<^verbatim>\<open>os.OpenFile\<close> with \<^verbatim>\<open>O_CREATE|O_EXCL\<close>.\<close>

definition osCreateNew :: "string \<Rightarrow> nat \<Rightarrow> (os_error, unit) io" where
  "osCreateNew p mode = syscall (\<lambda>fs. case fs p of
       Some _ \<Rightarrow> Inl OtherError
     | None \<Rightarrow> (case fs (DirOf p) of
           Some x \<Rightarrow> if isDirNode x then Inr ((), fs(p \<mapsto> FReg mode False [])) else Inl OtherError
         | None \<Rightarrow> Inl NotExist)) intact"

text \<open>The deferred function of the two writers: it closes the file, and removes it unless everything worked.\<close>

definition cleaningUp :: "string \<Rightarrow> (os_error, 'a) io \<Rightarrow> (os_error, 'a) io" where
  "cleaningUp path m =
     seqIO (attempt m) (\<lambda>r.
     seqIO (attempt (fileClose path)) (\<lambda>_.
     case r of
       Inl e \<Rightarrow> seqIO (attempt (osRemove path)) (\<lambda>_. throw e)
     | Inr x \<Rightarrow> ret x))"

definition writeNewManagedFile :: "string \<Rightarrow> string \<Rightarrow> nat \<Rightarrow> (os_error, unit) io" where
  "writeNewManagedFile path content mode =
     seqIO (osCreateNew path mode) (\<lambda>_.
     cleaningUp path
       (seqIO (osChown path) (\<lambda>_.
        seqIO (fileWrite path content) (\<lambda>_.
        seqIO (fileSync path) (\<lambda>_.
        fileClose path)))))"

definition nginxTempPrefix :: string where
  "nginxTempPrefix = ''.hserver-nginx-''"

definition replaceManagedFile :: "string \<Rightarrow> string \<Rightarrow> nat \<Rightarrow> (os_error, unit) io" where
  "replaceManagedFile target content mode =
     seqIO (osCreateTemp (DirOf target) nginxTempPrefix) (\<lambda>temporaryPath.
     cleaningUp temporaryPath
       (seqIO (osChmod temporaryPath mode) (\<lambda>_.
        seqIO (osChown temporaryPath) (\<lambda>_.
        seqIO (fileWrite temporaryPath content) (\<lambda>_.
        seqIO (fileSync temporaryPath) (\<lambda>_.
        seqIO (fileClose temporaryPath) (\<lambda>_.
        osRename temporaryPath target)))))))"

definition backupName :: "go_time \<Rightarrow> string \<Rightarrow> string" where
  "backupName now target = target @ ''.hserver-backup-'' @ stampText now"

text \<open>
  The part that the three writers have in common: the file is read and must have the expected
  checksum, its content goes to a backup, the checksum is taken again, and the file is replaced. The result
  is the name of the backup, the mode and the old content.
\<close>

definition swapManagedFile ::
  "cronHost \<Rightarrow> string \<Rightarrow> string \<Rightarrow> string \<Rightarrow> go_error \<Rightarrow> string \<Rightarrow> (go_error, string \<times> nat \<times> string) io" where
  "swapManagedFile h target content expectedChecksum changed what =
     seqIO (onError readFailed (readManagedFile target)) (\<lambda>(info, current, checksum).
     if checksum \<noteq> expectedChecksum then throw changed
     else
       let backup = backupName (ch_now h 0) target in
       seqIO (onError (\<lambda>_. osFailed (''create '' @ what @ '' backup'')) (writeNewManagedFile backup current (infoMode info))) (\<lambda>_.
       seqIO (onError readFailed (readManagedFile target)) (\<lambda>(_, _, latestChecksum).
       if latestChecksum \<noteq> expectedChecksum then throw changed
       else
         seqIO (onError (\<lambda>_. osFailed (''replace '' @ what)) (replaceManagedFile target content (infoMode info))) (\<lambda>_.
         ret (backup, infoMode info, current)))))"

section \<open>Nginx\<close>

definition nginxChanged :: go_error where
  "nginxChanged = \<lparr>err_Text = ''Nginx configuration changed on the server'', err_Chain = [errNginxConfigChanged]\<rparr>"
definition nginxInvalid :: go_error where
  "nginxInvalid = \<lparr>err_Text = ''Nginx configuration test failed'', err_Chain = [errNginxConfigInvalid]\<rparr>"
definition nginxInvalidBecause :: "string \<Rightarrow> go_error" where
  "nginxInvalidBecause why = \<lparr>err_Text = ''Nginx configuration test failed'' @ why, err_Chain = [errNginxConfigInvalid]\<rparr>"
definition nginxTooLarge :: go_error where
  "nginxTooLarge = \<lparr>err_Text = ''Nginx configuration exceeds the size limit'', err_Chain = [errNginxConfigTooLarge]\<rparr>"

record nginxConfig =
  nc_Name :: string
  nc_Enabled :: bool
  nc_Size :: int
  nc_ModifiedAt :: string
  nc_Content :: string
  nc_Checksum :: string

record nginxController =
  nx_allowedActions :: "string list"
  nx_allowRead :: bool
  nx_allowWrite :: bool
  nx_availableDir :: string
  nx_enabledDir :: string

definition newNginxController :: "string list \<Rightarrow> bool \<Rightarrow> bool \<Rightarrow> string \<Rightarrow> string \<Rightarrow> nginxController" where
  "newNginxController allowedActions allowRead allowWrite availableDir enabledDir =
     \<lparr>nx_allowedActions = allowedActions, nx_allowRead = allowRead, nx_allowWrite = allowWrite,
      nx_availableDir = availableDir, nx_enabledDir = enabledDir\<rparr>"

definition nginxTestLocked :: "cronHost \<Rightarrow> (go_error, unit) io" where
  "nginxTestLocked h =
     seqIO (onError (\<lambda>_. nginxInvalidBecause '': operating system error'') (runHost h ''nginx'' [''-t''])) (\<lambda>_. ret ())"

definition nginxReloadLocked :: "cronHost \<Rightarrow> (go_error, unit) io" where
  "nginxReloadLocked h =
     seqIO (onError (\<lambda>_. osFailed ''Nginx reload failed'') (runHost h ''systemctl'' [''reload'', ''nginx.service''])) (\<lambda>_. ret ())"

definition nginxEnabled :: "nginxController \<Rightarrow> string \<Rightarrow> ('e, bool) io" where
  "nginxEnabled c name =
     seqIO (attempt (osLstat (Join (nx_enabledDir c) name))) (\<lambda>r. ret (case r of Inr _ \<Rightarrow> True | Inl _ \<Rightarrow> False))"

definition nginxAction :: "cronHost \<Rightarrow> nginxController \<Rightarrow> string \<Rightarrow> (go_error, string) io" where
  "nginxAction h c action =
     (if action \<notin> set (nx_allowedActions c) then throw (errNew ''Nginx action is not in the local allowlist'')
      else
        seqIO (nginxTestLocked h) (\<lambda>_.
        if action = ''test'' then ret ''Nginx configuration is valid''
        else seqIO (nginxReloadLocked h) (\<lambda>_. ret ''Nginx configuration tested and reloaded'')))"

definition contains :: "string \<Rightarrow> string \<Rightarrow> bool" where
  "contains s t = list_ex (\<lambda>u. HasPrefix u t) (suffixes s)"

definition listedName :: "string \<Rightarrow> bool" where
  "listedName name = (agentNginxConfigNamePattern name \<and> \<not> contains name ''.hserver-backup-'')"

fun nginxEntries :: "fileHost \<Rightarrow> nginxController \<Rightarrow> string list \<Rightarrow> (go_error, nginxConfig list) io" where
  "nginxEntries h c [] = ret []"
| "nginxEntries h c (name # names) =
     (if \<not> listedName name then nginxEntries h c names
      else
        seqIO (attempt (regularManagedFile (Join (nx_availableDir c) name))) (\<lambda>r.
        case r of
          Inl _ \<Rightarrow> nginxEntries h c names
        | Inr info \<Rightarrow>
            seqIO (nginxEnabled c name) (\<lambda>enabled.
            seqIO getFS (\<lambda>fs.
            seqIO (nginxEntries h c names) (\<lambda>configs.
            ret (\<lparr>nc_Name = name, nc_Enabled = enabled, nc_Size = infoSize h fs (Join (nx_availableDir c) name) info,
                  nc_ModifiedAt = modifiedAt h fs (Join (nx_availableDir c) name), nc_Content = [], nc_Checksum = []\<rparr> # configs))))))"

definition nginxList :: "fileHost \<Rightarrow> nginxController \<Rightarrow> (go_error, nginxConfig list) io" where
  "nginxList h c =
     (if \<not> nx_allowRead c then throw (errNew ''Nginx configuration reading is not enabled locally'')
      else
        seqIO (onError (\<lambda>_. osFailed ''read Nginx configuration directory'') (osReadDir (fh_host h) (nx_availableDir c))) (\<lambda>names.
        seqIO (nginxEntries h c names) (\<lambda>configs. ret (sort_key nc_Name configs))))"

definition nginxRead :: "fileHost \<Rightarrow> nginxController \<Rightarrow> string \<Rightarrow> (go_error, nginxConfig) io" where
  "nginxRead h c name =
     (if \<not> nx_allowRead c then throw (errNew ''Nginx configuration reading is not enabled locally'')
      else if \<not> agentNginxConfigNamePattern name then throw (errNew ''invalid Nginx configuration name'')
      else
        let path = Join (nx_availableDir c) name in
        seqIO (onError readFailed (readManagedFile path)) (\<lambda>(info, content, checksum).
        seqIO (nginxEnabled c name) (\<lambda>enabled.
        seqIO getFS (\<lambda>fs.
        ret \<lparr>nc_Name = name, nc_Enabled = enabled, nc_Size = infoSize h fs path info, nc_ModifiedAt = modifiedAt h fs path,
             nc_Content = content, nc_Checksum = checksum\<rparr>))))"

text \<open>
  A site that is not enabled gets a link for the test. \<^verbatim>\<open>os.CreateTemp\<close> with a star inside the pattern reserves
  its name; the result is the link to remove, if there is one. \<^verbatim>\<open>os.Symlink\<close> makes a link to a file.
\<close>

definition validationName :: "string \<Rightarrow> nat \<Rightarrow> string" where
  "validationName folder n = tempName folder ''.hserver-validation-'' n @ ''.conf''"

fun freeValidation :: "fsys \<Rightarrow> string \<Rightarrow> nat list \<Rightarrow> (string \<times> nat list) option" where
  "freeValidation fs folder [] = None"
| "freeValidation fs folder (n # ns) =
     (if fs (validationName folder n) = None then Some (validationName folder n, ns) else freeValidation fs folder ns)"

definition reserveValidation :: "string \<Rightarrow> (os_error, string) io" where
  "reserveValidation folder = (\<lambda>w.
     case freeValidation (w_fs w) folder (w_rands w) of
       None \<Rightarrow> (Raise OtherError, w)
     | Some (p, ns) \<Rightarrow>
         syscall (\<lambda>fs. case fs folder of
             Some x \<Rightarrow> if isDirNode x then Inr (p, fs(p \<mapsto> FReg 0x180 False [])) else Inl OtherError
           | None \<Rightarrow> Inl NotExist) intact
           (w\<lparr>w_rands := ns\<rparr>))"

definition osSymlink :: "string \<Rightarrow> (os_error, unit) io" where
  "osSymlink p = syscall (\<lambda>fs. case fs p of
       Some _ \<Rightarrow> Inl OtherError
     | None \<Rightarrow> (case fs (DirOf p) of
           Some x \<Rightarrow> if isDirNode x then Inr ((), fs(p \<mapsto> FLink False)) else Inl OtherError
         | None \<Rightarrow> Inl NotExist)) intact"

definition ensureValidationLink :: "nginxController \<Rightarrow> string \<Rightarrow> (go_error, string option) io" where
  "ensureValidationLink c name =
     seqIO (attempt (osLstat (Join (nx_enabledDir c) name))) (\<lambda>r.
     case r of
       Inr _ \<Rightarrow> ret None
     | Inl e \<Rightarrow>
         if e \<noteq> NotExist then throw (osFailed ''inspect enabled Nginx configuration'')
         else
           seqIO (onError (\<lambda>_. osFailed ''prepare enabled Nginx directory'') (osMkdirAll (nx_enabledDir c) 0x1ED)) (\<lambda>_.
           seqIO (onError (\<lambda>_. osFailed ''reserve Nginx validation link'') (reserveValidation (nx_enabledDir c))) (\<lambda>validationPath.
           seqIO (attempt (fileClose validationPath)) (\<lambda>r.
           case r of
             Inl _ \<Rightarrow> seqIO (attempt (osRemove validationPath)) (\<lambda>_. throw osError)
           | Inr _ \<Rightarrow>
               seqIO (sys (osRemove validationPath)) (\<lambda>_.
               seqIO (onError (\<lambda>_. osFailed ''create Nginx validation link'') (osSymlink validationPath)) (\<lambda>_.
               ret (Some validationPath)))))))"

definition removeValidation :: "string option \<Rightarrow> (os_error, unit) io" where
  "removeValidation link = (case link of None \<Rightarrow> ret () | Some p \<Rightarrow> osRemove p)"

definition restoreNginx :: "string \<Rightarrow> string \<Rightarrow> nat \<Rightarrow> (go_error, 'a) io" where
  "restoreNginx target current mode =
     seqIO (attempt (replaceManagedFile target current mode)) (\<lambda>r.
     case r of
       Inl _ \<Rightarrow> throw (nginxInvalidBecause '' and restore failed: operating system error'')
     | Inr _ \<Rightarrow> throw nginxInvalid)"

definition nginxWriteLocked ::
  "cronHost \<Rightarrow> nginxController \<Rightarrow> string \<Rightarrow> string \<Rightarrow> string \<Rightarrow> bool \<Rightarrow> (go_error, string) io" where
  "nginxWriteLocked h c name content expectedChecksum reload =
     (let target = Join (nx_availableDir c) name in
      seqIO (swapManagedFile h target content expectedChecksum nginxChanged ''Nginx configuration'') (\<lambda>(backup, mode, current).
      seqIO (attempt (ensureValidationLink c name)) (\<lambda>r.
      case r of
        Inl e \<Rightarrow> seqIO (attempt (replaceManagedFile target current mode)) (\<lambda>_. throw e)
      | Inr link \<Rightarrow>
          deferred
            (seqIO (attempt (nginxTestLocked h)) (\<lambda>r.
             case r of
               Inl _ \<Rightarrow> restoreNginx target current mode
             | Inr _ \<Rightarrow>
                 seqIO (if reload then nginxReloadLocked h else ret ()) (\<lambda>_. ret backup)))
            (removeValidation link))))"

definition nginxWrite ::
  "cronHost \<Rightarrow> nginxController \<Rightarrow> string \<Rightarrow> string \<Rightarrow> string \<Rightarrow> bool \<Rightarrow> (go_error, string) io" where
  "nginxWrite h c name content expectedChecksum reload =
     (if \<not> nx_allowWrite c then throw (errNew ''Nginx configuration writing is not enabled locally'')
      else if \<not> agentNginxConfigNamePattern name \<or> \<not> agentSHA256Pattern expectedChecksum
        then throw (errNew ''invalid Nginx configuration write request'')
      else if length content > maxAgentNginxConfigBytes then throw nginxTooLarge
      else if \<not> validManagedTextContent content then throw (errNew ''Nginx configuration must be valid UTF-8 text'')
      else nginxWriteLocked h c name content expectedChecksum reload)"

end
