(* ===== verification/AgentFiles.thy ===== *)
theory AgentFiles
  imports AgentManaged "HOL-Library.Product_Lexorder"
begin

text \<open>
  The controllers of \<^verbatim>\<open>php.go\<close> and \<^verbatim>\<open>files.go\<close> and the actions of \<^verbatim>\<open>domains.go\<close> in \<^verbatim>\<open>cmd/hserver-agent\<close>, over the
  managed files of \<open>AgentManaged\<close>. The directory entries of \<^verbatim>\<open>os.ReadDir\<close> are names, their kinds are looked up in the
  file system; devices, sockets and pipes are not part of it.
\<close>

section \<open>Text\<close>

text \<open>\<^verbatim>\<open>strings.Cut\<close> at one character, \<^verbatim>\<open>fmt.Sprintf("%04o")\<close> and \<^verbatim>\<open>FileMode.String\<close>.\<close>

definition Cut :: "char \<Rightarrow> string \<Rightarrow> (string \<times> string) option" where
  "Cut c s = (if c \<in> set s then Some (takeWhile (\<lambda>x. x \<noteq> c) s, tl (dropWhile (\<lambda>x. x \<noteq> c) s)) else None)"

definition octal4 :: "nat \<Rightarrow> string" where
  "octal4 m = map (\<lambda>k. char_of (48 + m div 8 ^ k mod 8)) [3, 2, 1, 0]"

definition permText :: "nat \<Rightarrow> string" where
  "permText m = map (\<lambda>(k, c). if odd (m div 2 ^ k) then c else CHR ''-'') (zip [8, 7, 6, 5, 4, 3, 2, 1, 0] ''rwxrwxrwx'')"

definition modeText :: "fnode \<Rightarrow> string" where
  "modeText info = (case info of FReg m _ _ \<Rightarrow> ''-'' @ permText m | FDir m \<Rightarrow> ''d'' @ permText m | FLink _ \<Rightarrow> ''L'' @ permText 0x1FF)"

text \<open>\<^verbatim>\<open>os.Stat\<close> follows links.\<close>

definition osStat :: "fileHost \<Rightarrow> string \<Rightarrow> (os_error, fnode) io" where
  "osStat h p = syscall (\<lambda>fs. case fh_resolve h fs p of
       None \<Rightarrow> Inl NotExist
     | Some q \<Rightarrow> (case fs q of None \<Rightarrow> Inl NotExist | Some x \<Rightarrow> Inr (x, fs))) intact"

definition executable :: "fnode \<Rightarrow> bool" where
  "executable info = (case info of FReg m _ _ \<Rightarrow> odd (m div 64) \<or> odd (m div 8) \<or> odd m | _ \<Rightarrow> False)"

definition isDirEntry :: "fsys \<Rightarrow> string \<Rightarrow> bool" where
  "isDirEntry fs p = (case fs p of Some (FDir _) \<Rightarrow> True | _ \<Rightarrow> False)"

record managedFileContent =
  mf_Path :: string
  mf_Content :: string
  mf_Checksum :: string
  mf_Size :: int
  mf_Mode :: string
  mf_ModifiedAt :: string

section \<open>PHP-FPM\<close>

definition maxPHPVersions :: nat where "maxPHPVersions = 32"
definition maxPHPPools :: nat where "maxPHPPools = 512"

definition phpChanged :: go_error where
  "phpChanged = \<lparr>err_Text = ''PHP-FPM pool changed on the server'', err_Chain = [errPHPConfigChanged]\<rparr>"
definition phpInvalid :: go_error where
  "phpInvalid = \<lparr>err_Text = ''PHP-FPM configuration test failed'', err_Chain = [errPHPConfigInvalid]\<rparr>"
definition phpInvalidBecause :: "string \<Rightarrow> go_error" where
  "phpInvalidBecause why = \<lparr>err_Text = ''PHP-FPM configuration test failed'' @ why, err_Chain = [errPHPConfigInvalid]\<rparr>"
definition phpTooLarge :: go_error where
  "phpTooLarge = \<lparr>err_Text = ''PHP-FPM pool exceeds the size limit'', err_Chain = [errPHPConfigTooLarge]\<rparr>"

record phpFPMPool =
  pool_Name :: string
  pool_Path :: string
  pool_User :: string
  pool_Group :: string
  pool_Listen :: string
  pool_PM :: string
  pool_MaxChildren :: int

record phpFPMVersion =
  ver_Version :: string
  ver_Unit :: string
  ver_Active :: string
  ver_Enabled :: string
  ver_Masked :: bool
  ver_Binary :: string
  ver_Pools :: "phpFPMPool list"

record phpController =
  ph_allowedActions :: "string list"
  ph_allowRead :: bool
  ph_allowWrite :: bool
  ph_configRoot :: string
  ph_binaryRoot :: string

definition newPHPController :: "string list \<Rightarrow> bool \<Rightarrow> bool \<Rightarrow> string \<Rightarrow> string \<Rightarrow> phpController" where
  "newPHPController allowedActions allowRead allowWrite configRoot binaryRoot =
     \<lparr>ph_allowedActions = allowedActions, ph_allowRead = allowRead, ph_allowWrite = allowWrite,
      ph_configRoot = configRoot, ph_binaryRoot = binaryRoot\<rparr>"

definition poolDir :: "phpController \<Rightarrow> string \<Rightarrow> string" where
  "poolDir c version = Join (Join (Join (ph_configRoot c) version) ''fpm'') ''pool.d''"

definition poolPath :: "phpController \<Rightarrow> string \<Rightarrow> string \<Rightarrow> string option" where
  "poolPath c version pool =
     (if \<not> agentPHPVersionPattern version \<or> \<not> agentPHPPoolNamePattern pool then None
      else Some (Join (poolDir c version) (pool @ ''.conf'')))"

definition phpRead :: "fileHost \<Rightarrow> phpController \<Rightarrow> string \<Rightarrow> string \<Rightarrow> (go_error, managedFileContent) io" where
  "phpRead h c version pool =
     (if \<not> ph_allowRead c then throw (errNew ''PHP-FPM configuration reading is not enabled locally'')
      else (case poolPath c version pool of
          None \<Rightarrow> throw (errNew ''invalid PHP-FPM version or pool'')
        | Some path \<Rightarrow>
            seqIO (onError readFailed (readManagedFile path)) (\<lambda>(info, content, checksum).
            seqIO getFS (\<lambda>fs.
            ret \<lparr>mf_Path = path, mf_Content = content, mf_Checksum = checksum, mf_Size = infoSize h fs path info,
                 mf_Mode = octal4 (infoMode info), mf_ModifiedAt = modifiedAt h fs path\<rparr>))))"

definition phpTestLocked :: "fileHost \<Rightarrow> phpController \<Rightarrow> string \<Rightarrow> (go_error, unit) io" where
  "phpTestLocked h c version =
     (let binary = Join (ph_binaryRoot c) (''php-fpm'' @ version) in
      seqIO (attempt (osStat h binary)) (\<lambda>r.
      if (case r of Inr info \<Rightarrow> executable info | Inl _ \<Rightarrow> False)
      then seqIO (onError (\<lambda>_. phpInvalidBecause '': operating system error'') (runHost (fh_host h) binary [''-t''])) (\<lambda>_. ret ())
      else throw (phpInvalidBecause '': runtime binary is unavailable'')))"

definition phpServiceActionLocked :: "cronHost \<Rightarrow> string \<Rightarrow> string \<Rightarrow> (go_error, unit) io" where
  "phpServiceActionLocked h version action =
     (if action \<noteq> ''reload'' \<and> action \<noteq> ''restart'' then throw (errNew ''unsupported PHP-FPM service action'')
      else
        seqIO (onError (\<lambda>_. osFailed (''PHP-FPM '' @ action @ '' failed'')) (runHost h ''systemctl'' [action, ''php'' @ version @ ''-fpm.service'']))
          (\<lambda>_. ret ()))"

definition phpWriteLocked ::
  "fileHost \<Rightarrow> phpController \<Rightarrow> string \<Rightarrow> string \<Rightarrow> string \<Rightarrow> string \<Rightarrow> bool \<Rightarrow> (go_error, string) io" where
  "phpWriteLocked h c version path content expectedChecksum reload =
     seqIO (swapManagedFile (fh_host h) path content expectedChecksum phpChanged ''PHP-FPM pool'') (\<lambda>(backup, mode, current).
     seqIO (attempt (phpTestLocked h c version)) (\<lambda>r.
     case r of
       Inl _ \<Rightarrow>
         seqIO (attempt (replaceManagedFile path current mode)) (\<lambda>r.
         case r of
           Inl _ \<Rightarrow> throw (phpInvalidBecause '' and restore failed: operating system error'')
         | Inr _ \<Rightarrow> throw phpInvalid)
     | Inr _ \<Rightarrow>
         seqIO (if reload then phpServiceActionLocked (fh_host h) version ''reload'' else ret ()) (\<lambda>_. ret backup)))"

definition phpWrite ::
  "fileHost \<Rightarrow> phpController \<Rightarrow> string \<Rightarrow> string \<Rightarrow> string \<Rightarrow> string \<Rightarrow> bool \<Rightarrow> (go_error, string) io" where
  "phpWrite h c version pool content expectedChecksum reload =
     (if \<not> ph_allowWrite c then throw (errNew ''PHP-FPM configuration writing is not enabled locally'')
      else (case poolPath c version pool of
          None \<Rightarrow> throw (errNew ''invalid PHP-FPM configuration write request'')
        | Some path \<Rightarrow>
            if \<not> agentSHA256Pattern expectedChecksum then throw (errNew ''invalid PHP-FPM configuration write request'')
            else if length content > maxAgentNginxConfigBytes then throw phpTooLarge
            else if \<not> validManagedTextContent content then throw (errNew ''PHP-FPM configuration must be valid UTF-8 text'')
            else phpWriteLocked h c version path content expectedChecksum reload))"

definition phpAction :: "fileHost \<Rightarrow> phpController \<Rightarrow> string \<Rightarrow> string \<Rightarrow> (go_error, string) io" where
  "phpAction h c version action =
     (if \<not> agentPHPVersionPattern version then throw (errNew ''invalid PHP-FPM version'')
      else if action \<notin> set (ph_allowedActions c) then throw (errNew ''PHP-FPM action is not in the local allowlist'')
      else
        seqIO (phpTestLocked h c version) (\<lambda>_.
        if action = ''test'' then ret ''PHP-FPM configuration is valid''
        else
          seqIO (phpServiceActionLocked (fh_host h) version action) (\<lambda>_.
          ret (if action = ''reload'' then ''PHP-FPM configuration tested and reloaded''
               else ''PHP-FPM configuration tested and restarted''))))"

text \<open>Lines \<^verbatim>\<open>key=value\<close> into a map: the last line of a key counts.\<close>

definition keyValues :: "(string \<times> string) list \<Rightarrow> string \<Rightarrow> string" where
  "keyValues kvs key = (case map_of (rev kvs) key of None \<Rightarrow> [] | Some v \<Rightarrow> v)"

definition phpServiceState :: "cronHost \<Rightarrow> string \<Rightarrow> ('e, string \<times> string) io" where
  "phpServiceState h unitName =
     seqIO (attempt (runHost h ''systemctl'' [''show'', ''--property=ActiveState'', ''--property=UnitFileState'', unitName])) (\<lambda>r.
     ret (case r of
            Inl _ \<Rightarrow> (''unknown'', ''unknown'')
          | Inr output \<Rightarrow>
              let values = keyValues (List.map_filter (Cut (CHR ''='')) (split_on (CHR 0x0A) (TrimSpace output))) in
              if values ''ActiveState'' = [] \<or> values ''UnitFileState'' = [] then (''unknown'', ''unknown'')
              else (values ''ActiveState'', values ''UnitFileState'')))"

definition phpConfigLine :: "string \<Rightarrow> (string \<times> string) option" where
  "phpConfigLine raw =
     (let line = TrimSpace (takeWhile (\<lambda>c. c \<noteq> CHR '';'') raw) in
      if line = [] \<or> HasPrefix line ''['' then None
      else map_option (\<lambda>(key, value). (TrimSpace key, TrimSpace value)) (Cut (CHR ''='') line))"

definition parsePHPConfigValues :: "string \<Rightarrow> string \<Rightarrow> string" where
  "parsePHPConfigValues content = keyValues (List.map_filter phpConfigLine (split_on (CHR 0x0A) content))"

definition poolEntry :: "string \<Rightarrow> bool" where
  "poolEntry entry =
     (HasSuffix entry ''.conf'' \<and> agentPHPPoolNamePattern (take (length entry - 5) entry) \<and> \<not> contains entry ''.hserver-backup-'')"

fun phpPools :: "string \<Rightarrow> nat \<Rightarrow> string list \<Rightarrow> ('e, phpFPMPool list) io" where
  "phpPools folder n [] = ret []"
| "phpPools folder n (entry # entries) =
     (if n = maxPHPPools then ret []
      else if \<not> poolEntry entry then phpPools folder n entries
      else
        seqIO (attempt (readManagedFile (Join folder entry))) (\<lambda>r.
        case r of
          Inl _ \<Rightarrow> phpPools folder n entries
        | Inr (_, content, _) \<Rightarrow>
            let values = parsePHPConfigValues content in
            seqIO (phpPools folder (Suc n) entries) (\<lambda>pools.
            ret (\<lparr>pool_Name = take (length entry - 5) entry, pool_Path = Join folder entry, pool_User = values ''user'',
                  pool_Group = values ''group'', pool_Listen = values ''listen'', pool_PM = values ''pm'',
                  pool_MaxChildren = AtoiLoose (values ''pm.max_children'')\<rparr> # pools))))"

definition readPHPPools :: "cronHost \<Rightarrow> string \<Rightarrow> (os_error, phpFPMPool list) io" where
  "readPHPPools h folder =
     seqIO (osReadDir h folder) (\<lambda>entries.
     seqIO (phpPools folder 0 entries) (\<lambda>pools. ret (sort_key pool_Name pools)))"

fun phpVersions :: "fileHost \<Rightarrow> phpController \<Rightarrow> fsys \<Rightarrow> nat \<Rightarrow> string list \<Rightarrow> (go_error, phpFPMVersion list) io" where
  "phpVersions h c fs n [] = ret []"
| "phpVersions h c fs n (version # entries) =
     (if n = maxPHPVersions then ret []
      else if \<not> isDirEntry fs (Join (ph_configRoot c) version) \<or> \<not> agentPHPVersionPattern version then phpVersions h c fs n entries
      else
        seqIO (attempt (osStat h (poolDir c version))) (\<lambda>r.
        if (case r of Inr (FDir _) \<Rightarrow> False | _ \<Rightarrow> True) then phpVersions h c fs n entries
        else
          let unitName = ''php'' @ version @ ''-fpm.service''; path = Join (ph_binaryRoot c) (''php-fpm'' @ version) in
          seqIO (phpServiceState (fh_host h) unitName) (\<lambda>(active, enabled).
          seqIO (attempt (osStat h path)) (\<lambda>stat.
          let binary = (if (case stat of Inr info \<Rightarrow> executable info | Inl _ \<Rightarrow> False) then path else []) in
          seqIO (onError (\<lambda>_. osFailed (''read PHP '' @ version @ '' pools'')) (readPHPPools (fh_host h) (poolDir c version))) (\<lambda>pools.
          seqIO (phpVersions h c fs (Suc n) entries) (\<lambda>versions.
          ret (\<lparr>ver_Version = version, ver_Unit = unitName, ver_Active = active, ver_Enabled = enabled,
                ver_Masked = (enabled = ''masked''), ver_Binary = binary, ver_Pools = pools\<rparr> # versions)))))))"

definition phpInventory :: "fileHost \<Rightarrow> phpController \<Rightarrow> (go_error, phpFPMVersion list) io" where
  "phpInventory h c =
     (if \<not> ph_allowRead c then throw (errNew ''PHP-FPM inventory is not enabled locally'')
      else
        seqIO (onError (\<lambda>_. osFailed ''read PHP configuration root'') (osReadDir (fh_host h) (ph_configRoot c))) (\<lambda>entries.
        seqIO getFS (\<lambda>fs.
        seqIO (phpVersions h c fs 0 entries) (\<lambda>versions. ret (sort_key ver_Version versions)))))"

section \<open>Files below the roots\<close>

definition maxAgentFileEntries :: nat where "maxAgentFileEntries = 512"

record managedFileEntry =
  fe_Name :: string
  fe_Path :: string
  fe_Type :: string
  fe_Size :: int
  fe_Mode :: string
  fe_ModifiedAt :: string

record fileController =
  fc_readRoots :: "string list"
  fc_writeRoots :: "string list"

definition newFileController :: "string list \<Rightarrow> string list \<Rightarrow> fileController" where
  "newFileController readRoots writeRoots = \<lparr>fc_readRoots = readRoots, fc_writeRoots = writeRoots\<rparr>"

definition below :: "string \<Rightarrow> string \<Rightarrow> bool" where
  "below path folder = (path = folder \<or> HasPrefix path (folder @ ''/''))"

fun resolveIn :: "fileHost \<Rightarrow> fsys \<Rightarrow> string \<Rightarrow> string list \<Rightarrow> string option" where
  "resolveIn h fs candidate [] = None"
| "resolveIn h fs candidate (folder # roots) =
     (if \<not> below candidate folder then resolveIn h fs candidate roots
      else (case (fh_resolve h fs folder, fh_resolve h fs candidate) of
          (Some resolvedRoot, Some resolved) \<Rightarrow>
            if below resolved resolvedRoot then Some resolved else resolveIn h fs candidate roots
        | _ \<Rightarrow> resolveIn h fs candidate roots))"

definition outsideRoots :: go_error where
  "outsideRoots = errNew ''managed path is outside the local roots''"

definition resolveManagedPath :: "fileHost \<Rightarrow> string \<Rightarrow> string list \<Rightarrow> (go_error, string) io" where
  "resolveManagedPath h candidate roots =
     (if roots = [] \<or> \<not> IsAbs candidate \<or> Clean candidate \<noteq> candidate \<or> candidate = ''/'' then throw outsideRoots
      else
        seqIO getFS (\<lambda>fs.
        case resolveIn h fs candidate roots of None \<Rightarrow> throw outsideRoots | Some resolved \<Rightarrow> ret resolved))"

definition entryKind :: "fnode \<Rightarrow> string" where
  "entryKind info = (case info of FLink _ \<Rightarrow> ''symlink'' | FDir _ \<Rightarrow> ''directory'' | FReg _ _ _ \<Rightarrow> ''file'')"

fun browseEntries :: "fileHost \<Rightarrow> string \<Rightarrow> string list \<Rightarrow> ('e, managedFileEntry list) io" where
  "browseEntries h folder [] = ret []"
| "browseEntries h folder (name # names) =
     seqIO (attempt (osLstat (Join folder name))) (\<lambda>r.
     seqIO getFS (\<lambda>fs.
     seqIO (browseEntries h folder names) (\<lambda>entries.
     ret (case r of
            Inl _ \<Rightarrow> entries
          | Inr info \<Rightarrow>
              \<lparr>fe_Name = name, fe_Path = Join folder name, fe_Type = entryKind info, fe_Size = infoSize h fs (Join folder name) info,
               fe_Mode = modeText info, fe_ModifiedAt = modifiedAt h fs (Join folder name)\<rparr> # entries))))"

definition filesBrowse :: "fileHost \<Rightarrow> fileController \<Rightarrow> string \<Rightarrow> (go_error, managedFileEntry list) io" where
  "filesBrowse h c candidate =
     seqIO (resolveManagedPath h candidate (fc_readRoots c)) (\<lambda>resolved.
     seqIO (attempt (osStat h resolved)) (\<lambda>r.
     if (case r of Inr (FDir _) \<Rightarrow> False | _ \<Rightarrow> True) then throw (errNew ''managed path is not a directory'')
     else
       seqIO (onError (\<lambda>_. osFailed ''read managed directory'') (osReadDir (fh_host h) resolved)) (\<lambda>entries.
       if length entries > maxAgentFileEntries then throw (errNew ''managed directory exceeds the entry limit'')
       else
         seqIO (browseEntries h resolved entries) (\<lambda>result.
         ret (sort_key (\<lambda>e. (fe_Type e \<noteq> ''directory'', fh_lower h (fe_Name e))) result)))))"

definition filesRead :: "fileHost \<Rightarrow> fileController \<Rightarrow> string \<Rightarrow> (go_error, managedFileContent) io" where
  "filesRead h c candidate =
     seqIO (resolveManagedPath h candidate (fc_readRoots c)) (\<lambda>resolved.
     seqIO (onError readFailed (readManagedFile resolved)) (\<lambda>(info, content, checksum).
     if \<not> utf8_valid content \<or> CHR 0x00 \<in> set content then throw (errNew ''managed file must be UTF-8 text'')
     else
       seqIO getFS (\<lambda>fs.
       ret \<lparr>mf_Path = resolved, mf_Content = content, mf_Checksum = checksum, mf_Size = infoSize h fs resolved info,
            mf_Mode = modeText info, mf_ModifiedAt = modifiedAt h fs resolved\<rparr>)))"

definition filesWrite :: "fileHost \<Rightarrow> fileController \<Rightarrow> string \<Rightarrow> string \<Rightarrow> string \<Rightarrow> (go_error, string) io" where
  "filesWrite h c candidate content expectedChecksum =
     (if fc_writeRoots c = [] then throw (errNew ''file writing is not enabled locally'')
      else if \<not> agentSHA256Pattern expectedChecksum \<or> length content > maxAgentNginxConfigBytes \<or> \<not> validManagedTextContent content
        then throw (errNew ''invalid managed file write request'')
      else
        seqIO (resolveManagedPath h candidate (fc_writeRoots c)) (\<lambda>resolved.
        seqIO (swapManagedFile (fh_host h) resolved content expectedChecksum nginxChanged ''managed file'') (\<lambda>(backup, _).
        ret backup)))"

section \<open>Enabled sites\<close>

record domainController =
  dc_nginx :: nginxController
  dc_allowRead :: bool
  dc_allowActions :: bool

definition newDomainController :: "nginxController \<Rightarrow> bool \<Rightarrow> bool \<Rightarrow> domainController" where
  "newDomainController nginx allowRead allowActions =
     \<lparr>dc_nginx = nginx, dc_allowRead = allowRead, dc_allowActions = allowActions\<rparr>"

definition symlinkResolvesTo :: "fileHost \<Rightarrow> string \<Rightarrow> string \<Rightarrow> ('e, bool) io" where
  "symlinkResolvesTo h link target = seqIO getFS (\<lambda>fs. ret (fh_resolve h fs link = Some target))"

definition managedLink :: "fileHost \<Rightarrow> string \<Rightarrow> string \<Rightarrow> fnode \<Rightarrow> ('e, bool) io" where
  "managedLink h link target info =
     (case info of FLink _ \<Rightarrow> symlinkResolvesTo h link target | _ \<Rightarrow> ret False)"

definition testAndReload :: "cronHost \<Rightarrow> (os_error, unit) io \<Rightarrow> (go_error, unit) io" where
  "testAndReload h undo =
     seqIO (attempt (seqIO (nginxTestLocked h) (\<lambda>_. nginxReloadLocked h))) (\<lambda>r.
     case r of
       Inl e \<Rightarrow> seqIO (attempt undo) (\<lambda>_. throw e)
     | Inr _ \<Rightarrow> ret ())"

definition enableDomain :: "fileHost \<Rightarrow> string \<Rightarrow> string \<Rightarrow> os_error + fnode \<Rightarrow> (go_error, string) io" where
  "enableDomain h link target info =
     (case info of
        Inr x \<Rightarrow>
          seqIO (managedLink h link target x) (\<lambda>managed.
          if \<not> managed then throw (errNew ''enabled domain entry is not the managed symlink'') else ret ''Domain is already enabled'')
      | Inl e \<Rightarrow>
          if e \<noteq> NotExist then throw osError
          else
            seqIO (sys (osSymlink link)) (\<lambda>_.
            seqIO (testAndReload (fh_host h) (osRemove link)) (\<lambda>_.
            ret ''Domain enabled and Nginx reloaded'')))"

text \<open>\<^verbatim>\<open>os.Readlink\<close> reads where the link leads, so that undoing makes the same link again.\<close>

definition osReadlink :: "string \<Rightarrow> (os_error, unit) io" where
  "osReadlink p = syscall (\<lambda>fs. case fs p of Some (FLink _) \<Rightarrow> Inr ((), fs) | None \<Rightarrow> Inl NotExist | _ \<Rightarrow> Inl OtherError) intact"

definition disableDomain :: "fileHost \<Rightarrow> string \<Rightarrow> string \<Rightarrow> os_error + fnode \<Rightarrow> (go_error, string) io" where
  "disableDomain h link target info =
     (case info of
        Inl e \<Rightarrow> if e = NotExist then ret ''Domain is already disabled'' else throw osError
      | Inr x \<Rightarrow>
          seqIO (managedLink h link target x) (\<lambda>managed.
          if \<not> managed then throw (errNew ''enabled domain entry is not the managed symlink'')
          else
            seqIO (sys (osReadlink link)) (\<lambda>_.
            seqIO (sys (osRemove link)) (\<lambda>_.
            seqIO (testAndReload (fh_host h) (osSymlink link)) (\<lambda>_.
            ret ''Domain disabled and Nginx reloaded'')))))"

definition domainAction :: "fileHost \<Rightarrow> domainController \<Rightarrow> string \<Rightarrow> string \<Rightarrow> (go_error, string) io" where
  "domainAction h c name action =
     (if \<not> dc_allowActions c then throw (errNew ''domain actions are not enabled locally'')
      else if \<not> agentNginxConfigNamePattern name \<or> (action \<noteq> ''enable'' \<and> action \<noteq> ''disable'')
        then throw (errNew ''invalid domain action'')
      else
        let target = Join (nx_availableDir (dc_nginx c)) name; link = Join (nx_enabledDir (dc_nginx c)) name in
        seqIO (onError (\<lambda>e. e\<lparr>err_Text := ''domain configuration is unavailable: '' @ err_Text e\<rparr>) (regularManagedFile target)) (\<lambda>_.
        seqIO (sys (osMkdirAll (nx_enabledDir (dc_nginx c)) 0x1ED)) (\<lambda>_.
        seqIO (attempt (osLstat link)) (\<lambda>info.
        if action = ''enable'' then enableDomain h link target info else disableDomain h link target info))))"

end
