(* ===== verification/AgentManagedProps.thy ===== *)
theory AgentManagedProps
  imports FileView AgentFiles
begin

text \<open>
  Properties of the controllers that edit configuration files: a file is replaced as a whole against the
  checksum that the caller has seen, with the old content in a backup, and put back when its
  program rejects the new one; the file controller stays below its roots.
\<close>

section \<open>The two writers\<close>

lemma runs_cleaningUp:
  assumes m: "runs P m (\<lambda>x fs. Q x (v fs)) (\<lambda>e fs. E e (v fs)) (\<lambda>fs. H (v fs))"
    and gone: "\<And>e. runsOn v (E e) (osRemove p) (\<lambda>_. E e) (\<lambda>_. E e) (E e)"
    and dead: "\<And>x V. Q x V \<Longrightarrow> H V" "\<And>e V. E e V \<Longrightarrow> H V"
  shows "runs P (cleaningUp p m) (\<lambda>x fs. Q x (v fs)) (\<lambda>e fs. E e (v fs)) (\<lambda>fs. H (v fs))"
proof -
  have "runsOn v (case r of Inr x \<Rightarrow> Q x | Inl e \<Rightarrow> E e)
      (seqIO (attempt (fileClose p)) (\<lambda>_. case r of Inl e \<Rightarrow> seqIO (attempt (osRemove p)) (\<lambda>_. throw e) | Inr x \<Rightarrow> ret x)) Q E H" for r
  proof (cases r)
    case (Inl e)
    have "runsOn v (E e) (seqIO (attempt (osRemove p)) (\<lambda>_. throw e)) Q E H"
      by (rule runsOn_seq [OF runsOn_attempt [OF runsOn_cons [OF gone [of e]]], where R = "\<lambda>_. E e"]) (auto intro: dead(2) runsOn_throw)
    then show ?thesis
      unfolding Inl sum.case
      by (rule runsOn_seq [OF steady_attempt_runsOn [OF steady_reads(3)], where R = "\<lambda>_. E e", rotated -1]) (auto intro: dead(2))
  next
    case (Inr x)
    show ?thesis
      by (rule runsOn_seq [OF steady_attempt_runsOn [OF steady_reads(3)], where R = "\<lambda>_. Q x"]) (auto simp: Inr intro: dead(1) runsOn_ret)
  qed
  then have after: "runs (\<lambda>fs. (case r of Inr x \<Rightarrow> Q x | Inl e \<Rightarrow> E e) (v fs))
      (seqIO (attempt (fileClose p)) (\<lambda>_. case r of Inl e \<Rightarrow> seqIO (attempt (osRemove p)) (\<lambda>_. throw e) | Inr x \<Rightarrow> ret x))
      (\<lambda>x fs. Q x (v fs)) (\<lambda>e fs. E e (v fs)) (\<lambda>fs. H (v fs))" for r
    by (simp add: runsOn_def)
  show ?thesis
    unfolding cleaningUp_def by (rule runs_seq [OF runs_attempt after]) (simp add: m)
qed

lemma runsOn_replaceManagedFile:
  assumes "target \<in> S" "\<And>p. p \<in> S \<Longrightarrow> V0 p \<noteq> None"
  shows "runsOn (slotsOf proj S) (\<lambda>V. V = V0) (replaceManagedFile target d mode)
    (\<lambda>_ V. V = V0(target \<mapsto> proj mode d)) (\<lambda>_ V. V = V0) (\<lambda>V. V = V0 \<or> V = V0(target \<mapsto> proj mode d))"
proof -
  let ?v = "slotsOf proj S" and ?new = "V0(target \<mapsto> proj mode d)"
  let ?steps = "\<lambda>t. seqIO (osChmod t mode) (\<lambda>_. seqIO (osChown t) (\<lambda>_. seqIO (fileWrite t d) (\<lambda>_. seqIO (fileSync t) (\<lambda>_.
    seqIO (fileClose t) (\<lambda>_. osRename t target)))))"
  have body: "runs (\<lambda>fs. ?v fs = V0 \<and> t \<notin> S \<and> (\<exists>n. t = tempName f pat n) \<and> (\<exists>m. fs t = Some (FReg m False []))) (cleaningUp t (?steps t))
     (\<lambda>_ fs. ?v fs = ?new) (\<lambda>_ fs. ?v fs = V0) (\<lambda>fs. ?v fs = V0 \<or> ?v fs = ?new)" for t f pat
  proof (cases "t \<in> S")
    case False
    note fill = runs_fill [where proj = proj and V = V0, OF False]
    have "runs (filling proj S V0 t (\<lambda>_. True) []) (?steps t) (\<lambda>_ fs. ?v fs = ?new) (\<lambda>_ fs. ?v fs = V0) (\<lambda>fs. ?v fs = V0)"
      by (rule runs_seq [OF fill(1)], rule runs_seq [OF fill(2)], rule runs_seq [OF fill(3)], rule runs_seq [OF fill(4)], rule runs_seq [OF fill(5)])
        (use runs_fill_rename [OF False assms(1)] in simp)
    then have "runs (\<lambda>fs. ?v fs = V0 \<and> t \<notin> S \<and> (\<exists>n. t = tempName f pat n) \<and> (\<exists>m. fs t = Some (FReg m False []))) (?steps t)
        (\<lambda>_ fs. ?v fs = ?new) (\<lambda>_ fs. ?v fs = V0) (\<lambda>fs. ?v fs = V0 \<or> ?v fs = ?new)"
      by (rule runs_cons) auto
    moreover have "runsOn ?v (\<lambda>V. V = V0) (osRemove t) (\<lambda>_ V. V = V0) (\<lambda>_ V. V = V0) (\<lambda>V. V = V0)"
      by (rule steady_runsOn [OF steady_writes(2) [OF False]])
    ultimately show ?thesis
      by (rule runs_cleaningUp [where Q = "\<lambda>_ V. V = ?new" and E = "\<lambda>_ V. V = V0" and H = "\<lambda>V. V = V0 \<or> V = ?new"]) auto
  qed (simp add: runs_def)
  show ?thesis
    unfolding runsOn_def replaceManagedFile_def
    by (rule runs_seq [OF runs_cons [OF runs_temp [of _ _ S V0 proj]] body]) (use assms(2) in auto)
qed

text \<open>A new file is created, filled and synced, or what there is of it is removed.\<close>

lemma runsOn_writeNewManagedFile:
  assumes "b \<in> S"
  shows "runsOn (slotsOf proj S) (\<lambda>V. V = V0) (writeNewManagedFile b d mode)
    (\<lambda>_ V. V = V0(b \<mapsto> proj mode d)) (\<lambda>_ V. \<exists>x. V = V0(b := x)) (\<lambda>V. \<exists>x. V = V0(b := x))"
proof -
  let ?v = "slotsOf proj S" and ?any = "\<lambda>fs. \<exists>x. slotsOf proj S fs = V0(b := x)"
  let ?at = "\<lambda>d fs. ?v fs = V0(b \<mapsto> proj mode d) \<and> (\<exists>s. fs b = Some (FReg mode s d))"
  have self: "\<exists>x. V0 = V0(b := x)" by (metis fun_upd_triv)
  have create: "runs (\<lambda>fs. ?v fs = V0) (osCreateNew b mode) (\<lambda>_. ?at []) (\<lambda>_. ?any) ?any"
    unfolding osCreateNew_def
    by (rule runs_syscall) (use assms self in \<open>auto simp: slots_put split: option.splits\<close>)
  have chown: "runs (?at []) (osChown b) (\<lambda>_. ?at []) (\<lambda>_. ?any) ?any"
    unfolding osChown_def by (rule runs_syscall) auto
  have wr: "runs (?at []) (fileWrite b d) (\<lambda>_. ?at d) (\<lambda>_. ?any) ?any"
    unfolding fileWrite_def by (rule runs_syscall) (use assms in \<open>auto simp: appendTo_def slots_put\<close>)
  have sync: "runs (?at d) (fileSync b) (\<lambda>_. ?at d) (\<lambda>_. ?any) ?any"
    unfolding fileSync_def by (rule runs_syscall) (use assms in \<open>auto simp: slots_put\<close>)
  have close: "runs (?at d) (fileClose b) (\<lambda>_ fs. ?v fs = V0(b \<mapsto> proj mode d)) (\<lambda>_. ?any) ?any"
    unfolding fileClose_def by (rule runs_syscall) auto
  have steps: "runs (?at []) (seqIO (osChown b) (\<lambda>_. seqIO (fileWrite b d) (\<lambda>_. seqIO (fileSync b) (\<lambda>_. fileClose b))))
      (\<lambda>_ fs. ?v fs = V0(b \<mapsto> proj mode d)) (\<lambda>_. ?any) ?any"
    by (rule runs_seq [OF chown], rule runs_seq [OF wr], rule runs_seq [OF sync], rule close)
  have gone: "runsOn ?v (\<lambda>V. \<exists>x. V = V0(b := x)) (osRemove b) (\<lambda>_ V. \<exists>x. V = V0(b := x)) (\<lambda>_ V. \<exists>x. V = V0(b := x)) (\<lambda>V. \<exists>x. V = V0(b := x))"
    unfolding runsOn_def osRemove_def by (rule runs_syscall) (use assms in \<open>auto simp: slots_gone\<close>)
  from runs_cleaningUp [where Q = "\<lambda>_ V. V = V0(b \<mapsto> proj mode d)" and E = "\<lambda>_ V. \<exists>x. V = V0(b := x)"
      and H = "\<lambda>V. \<exists>x. V = V0(b := x)", OF steps gone]
  show ?thesis
    unfolding runsOn_def writeNewManagedFile_def by (intro runs_seq [OF create]) auto
qed

section \<open>A checked replacement\<close>

text \<open>
  What a writer works on: the file and its backup, with their modes. \<open>swapped\<close> is the state after the
  replacement, and \<open>kept\<close> one in which the file is as it was.
\<close>

definition heldFiles :: "string \<Rightarrow> string \<Rightarrow> fsys \<Rightarrow> string \<rightharpoonup> nat \<times> string" where
  "heldFiles target backup = slotsOf Pair {target, backup}"

definition swapped :: "string \<Rightarrow> string \<Rightarrow> string \<Rightarrow> string \<Rightarrow> (string \<rightharpoonup> nat \<times> string) \<Rightarrow> (string \<rightharpoonup> nat \<times> string) \<Rightarrow> bool" where
  "swapped target backup content expected V0 V \<longleftrightarrow>
     (\<exists>mode old. V0 target = Some (mode, old) \<and> token_digest old = expected \<and> V = V0(backup \<mapsto> (mode, old), target \<mapsto> (mode, content)))"

definition kept :: "string \<Rightarrow> (string \<rightharpoonup> nat \<times> string) \<Rightarrow> (string \<rightharpoonup> nat \<times> string) \<Rightarrow> bool" where
  "kept backup V0 V \<longleftrightarrow> (\<exists>x. V = V0(backup := x))"

lemma kept_same [simp]: "kept b V V"
  unfolding kept_def by (metis fun_upd_triv)

lemma kept_backup [simp]: "kept b V (V(b := x))"
  unfolding kept_def by blast

lemma backup_other: "backupName t p \<noteq> p"
  by (simp add: backupName_def)

lemma runsOn_swapManagedFile:
  assumes b: "b = backupName (ch_now h 0) target"
  shows "runsOn (heldFiles target b) (\<lambda>V. V = V0) (swapManagedFile h target content expected changed what)
    (\<lambda>(backup, mode, old) V. backup = b \<and> V0 target = Some (mode, old) \<and> token_digest old = expected \<and> V = V0(b \<mapsto> (mode, old), target \<mapsto> (mode, content)))
    (\<lambda>_. kept b V0) (\<lambda>V. kept b V0 V \<or> swapped target b content expected V0 V)"
proof -
  let ?S = "{target, b}" and ?H = "\<lambda>V. kept b V0 V \<or> swapped target b content expected V0 V"
  let ?Q = "\<lambda>(backup, mode, old) V. backup = b \<and> V0 target = Some (mode, old) \<and> token_digest old = expected \<and> V = V0(b \<mapsto> (mode, old), target \<mapsto> (mode, content))"
  have ne: "b \<noteq> target" using backup_other b by simp
  have rd: "runsOn (slotsOf Pair ?S) (\<lambda>V. V = V1) (onError readFailed (readManagedFile target))
      (\<lambda>(info, d, s) V. V = V1 \<and> V1 target = Some (infoMode info, d) \<and> s = token_digest d) (\<lambda>_. kept b V0) ?H" if "kept b V0 V1" for V1
    by (rule runsOn_onError, rule runsOn_cons [OF runsOn_readManagedFile [of target ?S Pair V1]]) (use that in auto)
  have new: "runsOn (slotsOf Pair ?S) (\<lambda>V. V = V0) (onError g (writeNewManagedFile b old mode)) (\<lambda>_ V. V = V0(b \<mapsto> (mode, old))) (\<lambda>_. kept b V0) ?H"
    for g old mode
    by (rule runsOn_onError, rule runsOn_cons [OF runsOn_writeNewManagedFile [of b ?S Pair V0]]) (auto simp: kept_def)
  have put: "runsOn (slotsOf Pair ?S) (\<lambda>V. V = V0(b \<mapsto> (mode, old))) (onError g (replaceManagedFile target content mode))
      (\<lambda>_ V. V = V0(b \<mapsto> (mode, old), target \<mapsto> (mode, content))) (\<lambda>_. kept b V0) ?H"
    if "V0 target = Some (mode, old)" "token_digest old = expected" for g old mode
    by (rule runsOn_onError, rule runsOn_cons [OF runsOn_replaceManagedFile [of target ?S "V0(b \<mapsto> (mode, old))" Pair content mode]])
      (use that in \<open>auto simp: swapped_def\<close>)
  have tail: "runsOn (slotsOf Pair ?S) (\<lambda>V. V = V0)
      (seqIO (onError g (writeNewManagedFile b old (infoMode info))) (\<lambda>_.
       seqIO (onError readFailed (readManagedFile target)) (\<lambda>(_, _, latest).
       if latest \<noteq> expected then throw changed
       else seqIO (onError g' (replaceManagedFile target content (infoMode info))) (\<lambda>_. ret (b, infoMode info, old))))) ?Q (\<lambda>_. kept b V0) ?H"
    if old: "V0 target = Some (infoMode info, old)" "token_digest old = expected" for g g' info old
  proof (rule runsOn_seq [OF new], rule runsOn_seq [OF rd], simp)
    fix x :: "fnode \<times> string \<times> string"
    obtain i d s where x: "x = (i, d, s)" by (cases x)
    have put': "runsOn (slotsOf Pair ?S) (\<lambda>V. V = V0(b \<mapsto> (infoMode info, old)))
        (seqIO (onError g' (replaceManagedFile target content (infoMode info))) (\<lambda>_. ret (b, infoMode info, old))) ?Q (\<lambda>_. kept b V0) ?H"
      by (rule runsOn_seq [OF put [OF old]]) (auto intro!: runsOn_ret simp: old)
    show "runsOn (slotsOf Pair ?S) ((case x of (i, d, s) \<Rightarrow> \<lambda>V. V = V0(b \<mapsto> (infoMode info, old)) \<and> (V0(b \<mapsto> (infoMode info, old))) target = Some (infoMode i, d) \<and> s = token_digest d))
      (case x of (_, _, latest) \<Rightarrow> if latest \<noteq> expected then throw changed
        else seqIO (onError g' (replaceManagedFile target content (infoMode info))) (\<lambda>_. ret (b, infoMode info, old))) ?Q (\<lambda>_. kept b V0) ?H"
      unfolding x prod.case
      by (rule runsOn_pure, rule runsOn_if) (rule runsOn_throw, simp, rule put')
  qed
  have "runsOn (slotsOf Pair ?S) (\<lambda>V. V = V0) (swapManagedFile h target content expected changed what) ?Q (\<lambda>_. kept b V0) ?H"
    unfolding swapManagedFile_def
  proof (rule runsOn_seq [OF rd], simp)
    fix x :: "fnode \<times> string \<times> string"
    obtain i d s where x: "x = (i, d, s)" by (cases x)
    show "runsOn (slotsOf Pair ?S) ((case x of (i, d, s) \<Rightarrow> \<lambda>V. V = V0 \<and> V0 target = Some (infoMode i, d) \<and> s = token_digest d))
      (case x of (info, current, checksum) \<Rightarrow> if checksum \<noteq> expected then throw changed
        else let backup = backupName (ch_now h 0) target in
       seqIO (onError (\<lambda>_. osFailed (''create '' @ what @ '' backup'')) (writeNewManagedFile backup current (infoMode info))) (\<lambda>_.
       seqIO (onError readFailed (readManagedFile target)) (\<lambda>(_, _, latestChecksum).
       if latestChecksum \<noteq> expected then throw changed
       else
         seqIO (onError (\<lambda>_. osFailed (''replace '' @ what)) (replaceManagedFile target content (infoMode info))) (\<lambda>_.
         ret (backup, infoMode info, current))))) ?Q (\<lambda>_. kept b V0) ?H"
      unfolding x prod.case Let_def b [symmetric]
      by (rule runsOn_pure, rule runsOn_if) (rule runsOn_throw, simp, rule tail, simp_all)
  qed
  then show ?thesis by (simp add: heldFiles_def)
qed

section \<open>Tests and undoing\<close>

text \<open>The commands of a controller leave the file and its backup alone.\<close>

definition leavesFiles :: "cronHost \<Rightarrow> (string \<times> string list) list \<Rightarrow> string \<Rightarrow> string \<Rightarrow> bool" where
  "leavesFiles h cmds target backup \<longleftrightarrow>
     (\<forall>(bin, args) \<in> set cmds. \<forall>fs. heldFiles target backup (snd (ch_run h bin args fs)) = heldFiles target backup fs)"

lemma leavesFiles_steady:
  "leavesFiles h cmds target b \<Longrightarrow> (bin, args) \<in> set cmds \<Longrightarrow> steadyOn (heldFiles target b) (runHost h bin args)"
  by (rule steady_runHost) (auto simp: leavesFiles_def)

text \<open>After the replacement, putting the old content back restores the file.\<close>

lemma runsOn_restore:
  assumes "V0 target = Some (mode, old)" "token_digest old = expected" "target \<noteq> b"
    and V1: "V1 = V0(b \<mapsto> (mode, old), target \<mapsto> (mode, content))"
  shows "runsOn (heldFiles target b) (\<lambda>V. V = V1) (replaceManagedFile target old mode)
    (\<lambda>_. kept b V0) (\<lambda>_. swapped target b content expected V0) (\<lambda>V. kept b V0 V \<or> swapped target b content expected V0 V)"
proof -
  have "swapped target b content expected V0 V1" using assms by (auto simp: swapped_def)
  moreover have "V1(target \<mapsto> (mode, old)) = V0(b \<mapsto> (mode, old))" using assms by (auto simp: fun_eq_iff)
  then have "kept b V0 (V1(target \<mapsto> (mode, old)))" by simp
  ultimately show ?thesis
    unfolding heldFiles_def
    by (intro runsOn_cons [OF runsOn_replaceManagedFile [of target "{target, b}" V1 Pair old mode]]) (auto simp: V1)
qed

lemma runs_reserve:
  assumes "\<And>p. p \<in> S \<Longrightarrow> V p \<noteq> None"
  shows "runsOn (slotsOf proj S) (\<lambda>V'. V' = V) (reserveValidation folder) (\<lambda>t V'. V' = V \<and> t \<notin> S) (\<lambda>_ V'. V' = V) (\<lambda>V'. V' = V)"
proof -
  let ?v = "slotsOf proj S"
  have free: "freeValidation fs folder ns = Some (p, ns') \<Longrightarrow> fs p = None" for fs ns p ns'
    by (induction ns) (auto split: if_splits)
  have call: "runs (\<lambda>fs. ?v fs = V) (syscall (\<lambda>fs. case fs folder of
             Some x \<Rightarrow> if isDirNode x then Inr (p, fs(p \<mapsto> FReg 0x180 False [])) else Inl OtherError | None \<Rightarrow> Inl NotExist) intact)
     (\<lambda>t fs. ?v fs = V \<and> t \<notin> S) (\<lambda>_ fs. ?v fs = V) (\<lambda>fs. ?v fs = V)" if "p \<notin> S" for p
    using that by (intro runs_syscall) (auto split: option.splits)
  show ?thesis
    unfolding runsOn_def runs_def
  proof (intro allI impI)
    fix w :: world assume w: "?v (w_fs w) = V"
    show "case reserveValidation folder w of (Ret t, w') \<Rightarrow> ?v (w_fs w') = V \<and> t \<notin> S
      | (Raise e, w') \<Rightarrow> ?v (w_fs w') = V | (Dead, w') \<Rightarrow> ?v (w_fs w') = V"
    proof (cases "freeValidation (w_fs w) folder (w_rands w)")
      case (Some pn)
      obtain p ns where pn: "pn = (p, ns)" by (cases pn)
      then have "w_fs w p = None" using free [of "w_fs w" "w_rands w" p ns] Some by simp
      then have "p \<notin> S" using w assms [of p] by (auto simp: slotsOf_def)
      from call [OF this, unfolded runs_def, rule_format, of "w\<lparr>w_rands := ns\<rparr>"] w
      show ?thesis by (simp add: reserveValidation_def Some pn)
    qed (simp add: reserveValidation_def w)
  qed
qed

lemma steady_osSymlink: "p \<notin> S \<Longrightarrow> steadyOn (slotsOf proj S) (osSymlink p)"
  unfolding osSymlink_def by (rule steady_syscall) (auto split: option.splits if_splits)

lemma runsOn_ensureValidationLink:
  assumes "\<And>p. p \<in> S \<Longrightarrow> V p \<noteq> None"
  shows "runsOn (slotsOf proj S) (\<lambda>V'. V' = V) (ensureValidationLink c name)
    (\<lambda>link V'. V' = V \<and> (\<forall>p. link = Some p \<longrightarrow> p \<notin> S)) (\<lambda>_ V'. V' = V) (\<lambda>V'. V' = V)"
proof -
  let ?v = "slotsOf proj S" and ?I = "\<lambda>V'. V' = V" and ?Q = "\<lambda>link V'. V' = V \<and> (\<forall>p. link = Some p \<longrightarrow> p \<notin> S)"
  have calm: "runsOn ?v ?I m (\<lambda>_. ?I) (\<lambda>_. ?I) ?I" if "steadyOn ?v m" for m :: "('x, 'y) io"
    by (rule steady_runsOn [OF that])
  have link: "runsOn ?v (\<lambda>V'. ?I V' \<and> t \<notin> S)
      (seqIO (attempt (fileClose t)) (\<lambda>r.
       case r of
         Inl _ \<Rightarrow> seqIO (attempt (osRemove t)) (\<lambda>_. throw osError)
       | Inr _ \<Rightarrow> seqIO (sys (osRemove t)) (\<lambda>_. seqIO (onError g (osSymlink t)) (\<lambda>_. ret (Some t))))) ?Q (\<lambda>_. ?I) ?I" for t g
  proof (rule runsOn_pure, rule runsOn_seq [OF calm [OF steady_attempt [OF steady_reads(3)]]])
    fix r :: "os_error + unit" assume t: "t \<notin> S"
    note rm = steady_writes(2) [OF t]
    show "runsOn ?v ?I (case r of Inl _ \<Rightarrow> seqIO (attempt (osRemove t)) (\<lambda>_. throw osError)
       | Inr _ \<Rightarrow> seqIO (sys (osRemove t)) (\<lambda>_. seqIO (onError g (osSymlink t)) (\<lambda>_. ret (Some t)))) ?Q (\<lambda>_. ?I) ?I"
    proof (cases r)
      case (Inl e)
      then show ?thesis using runsOn_seq [OF calm [OF steady_attempt [OF rm]] runsOn_throw] by simp
    next
      case (Inr u)
      have "runsOn ?v ?I (ret (Some t)) ?Q (\<lambda>_. ?I) ?I" using t by (simp add: runsOn_ret)
      then show ?thesis
        using runsOn_seq [OF calm [OF steady_sys [OF rm]] runsOn_seq [OF calm [OF steady_onError [OF steady_osSymlink [OF t]]]]] by (simp add: Inr)
    qed
  qed
  have temp: "runsOn ?v ?I (onError g (reserveValidation f)) (\<lambda>t V'. ?I V' \<and> t \<notin> S) (\<lambda>_. ?I) ?I" for g f
    by (rule runsOn_onError, rule runs_reserve [OF assms])
  note make = runsOn_seq [OF calm [OF steady_onError [OF steady_mkdirAll]] runsOn_seq [OF temp link]]
  show ?thesis
    unfolding ensureValidationLink_def osMkdirAll_def
  proof (rule runsOn_seq [OF calm [OF steady_attempt [OF steady_reads(1)]]])
    fix r :: "os_error + fnode"
    show "runsOn ?v ?I (case r of Inr _ \<Rightarrow> ret None
      | Inl e \<Rightarrow> if e \<noteq> NotExist then throw (osFailed ''inspect enabled Nginx configuration'')
         else seqIO (onError (\<lambda>_. osFailed ''prepare enabled Nginx directory'') (mkdirAll (rev (path_elems (nx_enabledDir c))) 0x1ED)) (\<lambda>_.
           seqIO (onError (\<lambda>_. osFailed ''reserve Nginx validation link'') (reserveValidation (nx_enabledDir c))) (\<lambda>validationPath.
           seqIO (attempt (fileClose validationPath)) (\<lambda>r.
           case r of
             Inl _ \<Rightarrow> seqIO (attempt (osRemove validationPath)) (\<lambda>_. throw osError)
           | Inr _ \<Rightarrow>
               seqIO (sys (osRemove validationPath)) (\<lambda>_.
               seqIO (onError (\<lambda>_. osFailed ''create Nginx validation link'') (osSymlink validationPath)) (\<lambda>_.
               ret (Some validationPath))))))) ?Q (\<lambda>_. ?I) ?I"
      by (cases r) (auto intro: runsOn_ret runsOn_throw make)
  qed
qed

section \<open>The writers\<close>

text \<open>
  The outcomes of a write: success swapped the files; an error or a crash kept the file or left it swapped,
  kept if the error is one of those that announce it.
\<close>

abbreviation writes ::
  "string \<Rightarrow> string \<Rightarrow> string \<Rightarrow> string \<Rightarrow> go_error set \<Rightarrow> (string \<rightharpoonup> nat \<times> string) \<Rightarrow> (go_error, string) io \<Rightarrow> bool" where
  "writes target b content expected undone V0 m \<equiv>
     runsOn (heldFiles target b) (\<lambda>V. V = V0) m (\<lambda>x V. x = b \<and> swapped target b content expected V0 V)
       (\<lambda>e V. kept b V0 V \<or> swapped target b content expected V0 V \<and> e \<notin> undone)
       (\<lambda>V. kept b V0 V \<or> swapped target b content expected V0 V)"

lemma writes_throw: "writes target b content expected undone V0 (throw e)"
  by (rule runsOn_throw) auto

text \<open>
  The test of the new content: when it fails, the old content is put back, and the error tells whether that
  worked; otherwise a last command decides the result, with the new content in place.
\<close>

lemma runsOn_tested:
  assumes old: "V0 target = Some (mode, old)" "token_digest old = expected" "target \<noteq> b"
    and V1: "V1 = V0(b \<mapsto> (mode, old), target \<mapsto> (mode, content))"
    and steady: "steadyOn (heldFiles target b) test" "steadyOn (heldFiles target b) reload"
    and bad: "bad \<notin> undone" and reload: "\<And>w e w'. reload w = (Raise e, w') \<Longrightarrow> e \<notin> undone"
  shows "runsOn (heldFiles target b) (\<lambda>V. V = V1)
      (seqIO (attempt test) (\<lambda>r.
       case r of
         Inl _ \<Rightarrow> seqIO (attempt (replaceManagedFile target old mode)) (\<lambda>r. case r of Inl _ \<Rightarrow> throw bad | Inr _ \<Rightarrow> throw rejected)
       | Inr _ \<Rightarrow> seqIO reload (\<lambda>_. ret b)))
      (\<lambda>x V. x = b \<and> swapped target b content expected V0 V)
      (\<lambda>e V. kept b V0 V \<or> swapped target b content expected V0 V \<and> e \<notin> undone)
      (\<lambda>V. kept b V0 V \<or> swapped target b content expected V0 V)" (is "runsOn ?v ?I _ ?Q ?E ?H")
proof (rule runsOn_seq [OF steady_attempt_runsOn [OF steady(1)], where R = "\<lambda>_ V. V = V1"])
  have sw: "swapped target b content expected V0 V1" using old V1 by (auto simp: swapped_def)
  then show "\<And>V. V = V1 \<Longrightarrow> ?H V" by simp
  fix r
  have returned: "runsOn ?v ?I (attempt (replaceManagedFile target old mode)) (\<lambda>r V. case r of Inr _ \<Rightarrow> kept b V0 V | Inl _ \<Rightarrow> swapped target b content expected V0 V) ?E ?H"
    by (rule runsOn_attempt, rule runsOn_cons [OF runsOn_restore [OF old V1]]) auto
  have undo: "runsOn ?v ?I (seqIO (attempt (replaceManagedFile target old mode)) (\<lambda>r. case r of Inl _ \<Rightarrow> throw bad | Inr _ \<Rightarrow> throw rejected)) ?Q ?E ?H"
    by (rule runsOn_seq [OF returned]) (use bad in \<open>auto intro!: runsOn_throw split: sum.split\<close>)
  have "runsOn ?v ?I reload (\<lambda>_. ?I) ?E ?H"
    unfolding runsOn_def runs_def
  proof (intro allI impI)
    fix w :: world assume "?v (w_fs w) = V1"
    with steady(2) [unfolded steadyOn_def runs_def, rule_format, of w V1] sw reload [of w]
    show "case reload w of (Ret x, w') \<Rightarrow> ?v (w_fs w') = V1 | (Raise e, w') \<Rightarrow> ?E e (?v (w_fs w')) | (Dead, w') \<Rightarrow> ?H (?v (w_fs w'))"
      by (auto split: prod.splits io_res.splits)
  qed
  then have "runsOn ?v ?I (seqIO reload (\<lambda>_. ret b)) ?Q ?E ?H"
    by (rule runsOn_seq) (use sw in \<open>auto intro!: runsOn_ret\<close>)
  with undo show "runsOn ?v ?I (case r of
         Inl _ \<Rightarrow> seqIO (attempt (replaceManagedFile target old mode)) (\<lambda>r. case r of Inl _ \<Rightarrow> throw bad | Inr _ \<Rightarrow> throw rejected)
       | Inr _ \<Rightarrow> seqIO reload (\<lambda>_. ret b)) ?Q ?E ?H"
    by (cases r) simp_all
qed

lemma reload_errors:
  "nginxReloadLocked h w = (Raise e, w') \<Longrightarrow> e = osFailed ''Nginx reload failed''"
  "phpServiceActionLocked h version ''reload'' w = (Raise e, w') \<Longrightarrow> e = osFailed ''PHP-FPM reload failed''"
  by (auto simp: nginxReloadLocked_def phpServiceActionLocked_def seqIO_def onError_def attempt_def throw_def ret_def
      split: prod.splits io_res.splits sum.splits)

definition nginxCommands :: "(string \<times> string list) list" where
  "nginxCommands = [(''nginx'', [''-t'']), (''systemctl'', [''reload'', ''nginx.service''])]"

lemma nginx_steady:
  assumes "leavesFiles h nginxCommands target b"
  shows "steadyOn (heldFiles target b) (nginxTestLocked h)"
    "steadyOn (heldFiles target b) (if reload then nginxReloadLocked h else ret ())"
  unfolding nginxTestLocked_def nginxReloadLocked_def
  by (auto intro!: steady_seq steady_onError steady_ret leavesFiles_steady [OF assms] simp: nginxCommands_def)

lemma nginxErrors: "nginxInvalidBecause '' and restore failed: operating system error'' \<notin> {nginxChanged, nginxInvalid}"
  "osFailed ''Nginx reload failed'' \<notin> {nginxChanged, nginxInvalid}"
  by (simp_all add: nginxInvalidBecause_def nginxChanged_def nginxInvalid_def osFailed_def errNew_def)

text \<open>Errors that wrap no sentinel.\<close>

definition plainErrors :: "(go_error, 'a) io \<Rightarrow> bool" where
  "plainErrors m \<longleftrightarrow> (\<forall>w e w'. m w = (Raise e, w') \<longrightarrow> err_Chain e = [])"

lemma plain_rules:
  "plainErrors (ret x)" "err_Chain e = [] \<Longrightarrow> plainErrors (throw e)" "plainErrors (attempt m)"
  "plainErrors m' \<Longrightarrow> (\<And>x. plainErrors (f x)) \<Longrightarrow> plainErrors (seqIO m' f)"
  "(\<And>e. err_Chain (g e) = []) \<Longrightarrow> plainErrors (onError g m)" "plainErrors (sys m)"
  by (fastforce simp: plainErrors_def ret_def throw_def attempt_def seqIO_def onError_def sys_def osError_def errNew_def
      split: prod.splits io_res.splits sum.splits)+

lemma chain_plain [simp]: "err_Chain (osFailed t) = []" "err_Chain osError = []"
  by (simp_all add: osFailed_def osError_def errNew_def)

lemma plain_ensureValidationLink: "plainErrors (ensureValidationLink c name)"
  unfolding ensureValidationLink_def
  by (auto intro!: plain_rules split: sum.split)

lemma plain_ends: "plainErrors m \<Longrightarrow> m w = (Raise e, w') \<Longrightarrow> e \<notin> {nginxChanged, nginxInvalid}"
  by (force simp: plainErrors_def nginxChanged_def nginxInvalid_def)

lemma writes_nginxLocked:
  assumes b: "b = backupName (ch_now h 0) (Join (nx_availableDir c) name)"
    and quiet: "leavesFiles h nginxCommands (Join (nx_availableDir c) name) b"
  shows "writes (Join (nx_availableDir c) name) b content expected {nginxChanged, nginxInvalid} V0 (nginxWriteLocked h c name content expected reload)"
proof -
  define target where "target = Join (nx_availableDir c) name"
  let ?v = "heldFiles target b"
  let ?Q = "\<lambda>x V. x = b \<and> swapped target b content expected V0 V"
  let ?E = "\<lambda>e V. kept b V0 V \<or> swapped target b content expected V0 V \<and> e \<notin> {nginxChanged, nginxInvalid}"
  let ?H = "\<lambda>V. kept b V0 V \<or> swapped target b content expected V0 V"
  have ne: "target \<noteq> b" using backup_other [of _ target] b target_def by metis
  have after: "runsOn ?v (\<lambda>V. V = V1)
      (seqIO (attempt (ensureValidationLink c name)) (\<lambda>r.
      case r of
        Inl e \<Rightarrow> seqIO (attempt (replaceManagedFile target old mode)) (\<lambda>_. throw e)
      | Inr link \<Rightarrow>
          deferred
            (seqIO (attempt (nginxTestLocked h)) (\<lambda>r.
             case r of
               Inl _ \<Rightarrow> restoreNginx target old mode
             | Inr _ \<Rightarrow> seqIO (if reload then nginxReloadLocked h else ret ()) (\<lambda>_. ret b)))
            (removeValidation link))) ?Q ?E ?H"
    if old: "V0 target = Some (mode, old)" "token_digest old = expected" and V1: "V1 = V0(b \<mapsto> (mode, old), target \<mapsto> (mode, content))" for V1 mode old
  proof -
    have sw: "swapped target b content expected V0 V1" using old V1 by (auto simp: swapped_def)
    have "runsOn ?v (\<lambda>V. V = V1) (ensureValidationLink c name)
        (\<lambda>link V. V = V1 \<and> (\<forall>p. link = Some p \<longrightarrow> p \<notin> {target, b})) (\<lambda>_ V. V = V1) (\<lambda>V. V = V1)"
      unfolding heldFiles_def by (rule runsOn_ensureValidationLink) (auto simp: V1)
    from runsOn_errors [where A = "\<lambda>e. e \<notin> {nginxChanged, nginxInvalid}", OF this plain_ends [OF plain_ensureValidationLink]]
    have link: "runsOn ?v (\<lambda>V. V = V1) (attempt (ensureValidationLink c name))
        (\<lambda>r V. V = V1 \<and> (case r of Inr link \<Rightarrow> \<forall>p. link = Some p \<longrightarrow> p \<notin> {target, b} | Inl e \<Rightarrow> e \<notin> {nginxChanged, nginxInvalid})) ?E ?H"
      by (intro runsOn_attempt) (rule runsOn_cons, assumption, use sw in auto)
    have failed: "runsOn ?v (\<lambda>V. V = V1) (seqIO (attempt (replaceManagedFile target old mode)) (\<lambda>_. throw e)) ?Q ?E ?H"
      if "e \<notin> {nginxChanged, nginxInvalid}" for e
    proof (rule runsOn_seq [where R = "\<lambda>_. ?E e"])
      show "runsOn ?v (\<lambda>V. V = V1) (attempt (replaceManagedFile target old mode)) (\<lambda>_. ?E e) ?E ?H"
        by (rule runsOn_attempt, rule runsOn_cons [OF runsOn_restore [OF old ne V1]]) (use that in auto)
    qed (rule runsOn_throw)
    have tested: "runsOn ?v (\<lambda>V. V = V1)
        (seqIO (attempt (nginxTestLocked h)) (\<lambda>r.
         case r of
           Inl _ \<Rightarrow> restoreNginx target old mode
         | Inr _ \<Rightarrow> seqIO (if reload then nginxReloadLocked h else ret ()) (\<lambda>_. ret b))) ?Q ?E ?H"
      unfolding restoreNginx_def
      by (rule runsOn_tested [OF old ne V1 nginx_steady [OF quiet [folded target_def]]])
        (use nginxErrors reload_errors(1) in \<open>auto simp: ret_def split: if_splits\<close>)
    have gone: "steadyOn ?v (removeValidation link)" if "\<forall>p. link = Some p \<longrightarrow> p \<notin> {target, b}" for link
      using that by (auto simp: removeValidation_def heldFiles_def intro!: steady_ret steady_writes(2) split: option.split)
    show ?thesis
    proof (rule runsOn_seq [OF link], rule runsOn_pure)
      fix r assume r: "case r of Inr link \<Rightarrow> \<forall>p. link = Some p \<longrightarrow> p \<notin> {target, b} | Inl e \<Rightarrow> e \<notin> {nginxChanged, nginxInvalid}"
      show "runsOn ?v (\<lambda>V. V = V1) (case r of
        Inl e \<Rightarrow> seqIO (attempt (replaceManagedFile target old mode)) (\<lambda>_. throw e)
      | Inr link \<Rightarrow>
          deferred
            (seqIO (attempt (nginxTestLocked h)) (\<lambda>r.
             case r of
               Inl _ \<Rightarrow> restoreNginx target old mode
             | Inr _ \<Rightarrow> seqIO (if reload then nginxReloadLocked h else ret ()) (\<lambda>_. ret b)))
            (removeValidation link)) ?Q ?E ?H"
      proof (cases r)
        case (Inl e)
        then show ?thesis using r failed by simp
      next
        case (Inr link)
        with r have "steadyOn ?v (removeValidation link)" by (intro gone) simp
        then show ?thesis unfolding Inr sum.case by (rule runsOn_deferred [OF tested]) auto
      qed
    qed
  qed
  have swap: "runsOn ?v (\<lambda>V. V = V0) (swapManagedFile h target content expected nginxChanged ''Nginx configuration'')
    (\<lambda>(backup, mode, old) V. backup = b \<and> V0 target = Some (mode, old) \<and> token_digest old = expected \<and> V = V0(b \<mapsto> (mode, old), target \<mapsto> (mode, content)))
    ?E ?H"
    by (rule runsOn_cons [OF runsOn_swapManagedFile [OF b [folded target_def]]]) auto
  show ?thesis
    unfolding nginxWriteLocked_def Let_def target_def [symmetric]
  proof (rule runsOn_seq [OF swap])
    fix x :: "string \<times> nat \<times> string"
    obtain bk mode old where x: "x = (bk, mode, old)" by (cases x)
    show "runsOn ?v ((case x of (backup, mode, old) \<Rightarrow> \<lambda>V. backup = b \<and> V0 target = Some (mode, old) \<and> token_digest old = expected
        \<and> V = V0(b \<mapsto> (mode, old), target \<mapsto> (mode, content))))
      (case x of (backup, mode, current) \<Rightarrow> seqIO (attempt (ensureValidationLink c name)) (\<lambda>r.
      case r of
        Inl e \<Rightarrow> seqIO (attempt (replaceManagedFile target current mode)) (\<lambda>_. throw e)
      | Inr link \<Rightarrow>
          deferred
            (seqIO (attempt (nginxTestLocked h)) (\<lambda>r.
             case r of
               Inl _ \<Rightarrow> restoreNginx target current mode
             | Inr _ \<Rightarrow>
                 seqIO (if reload then nginxReloadLocked h else ret ()) (\<lambda>_. ret backup)))
            (removeValidation link))) ?Q ?E ?H"
      unfolding x prod.case conj_assoc [symmetric]
      by (rule runsOn_given, elim conjE) (simp only:, rule after, assumption+, simp)
  qed
qed

lemma writes_nginx:
  assumes "b = backupName (ch_now h 0) (Join (nx_availableDir c) name)" "leavesFiles h nginxCommands (Join (nx_availableDir c) name) b"
  shows "writes (Join (nx_availableDir c) name) b content expected {nginxChanged, nginxInvalid} V0 (nginxWrite h c name content expected reload)"
  unfolding nginxWrite_def by (intro runsOn_if writes_throw writes_nginxLocked assms)

definition phpCommands :: "phpController \<Rightarrow> string \<Rightarrow> (string \<times> string list) list" where
  "phpCommands c version =
     [(Join (ph_binaryRoot c) (''php-fpm'' @ version), [''-t'']), (''systemctl'', [''reload'', ''php'' @ version @ ''-fpm.service''])]"

lemma steady_osStat: "steadyOn v (osStat h p)"
  unfolding osStat_def by (rule steady_syscall) (auto split: option.splits)

lemma php_steady:
  assumes "leavesFiles (fh_host h) (phpCommands c version) target b"
  shows "steadyOn (heldFiles target b) (phpTestLocked h c version)"
    "steadyOn (heldFiles target b) (if reload then phpServiceActionLocked (fh_host h) version ''reload'' else ret ())"
  unfolding phpTestLocked_def phpServiceActionLocked_def Let_def
  by (auto intro!: steady_seq steady_onError steady_ret steady_throw steady_attempt steady_osStat leavesFiles_steady [OF assms] simp: phpCommands_def)

lemma writes_phpLocked:
  assumes b: "b = backupName (ch_now (fh_host h) 0) target" and quiet: "leavesFiles (fh_host h) (phpCommands c version) target b"
  shows "writes target b content expected {phpChanged, phpInvalid} V0 (phpWriteLocked h c version target content expected reload)"
proof -
  let ?v = "heldFiles target b"
  let ?Q = "\<lambda>x V. x = b \<and> swapped target b content expected V0 V"
  let ?E = "\<lambda>e V. kept b V0 V \<or> swapped target b content expected V0 V \<and> e \<notin> {phpChanged, phpInvalid}"
  let ?H = "\<lambda>V. kept b V0 V \<or> swapped target b content expected V0 V"
  have ne: "target \<noteq> b" using backup_other [of _ target] b by metis
  have errs: "phpInvalidBecause '' and restore failed: operating system error'' \<notin> {phpChanged, phpInvalid}"
    "osFailed ''PHP-FPM reload failed'' \<notin> {phpChanged, phpInvalid}"
    by (simp_all add: phpInvalidBecause_def phpChanged_def phpInvalid_def osFailed_def errNew_def)
  have swap: "runsOn ?v (\<lambda>V. V = V0) (swapManagedFile (fh_host h) target content expected phpChanged ''PHP-FPM pool'')
    (\<lambda>(backup, mode, old) V. backup = b \<and> V0 target = Some (mode, old) \<and> token_digest old = expected \<and> V = V0(b \<mapsto> (mode, old), target \<mapsto> (mode, content)))
    ?E ?H"
    by (rule runsOn_cons [OF runsOn_swapManagedFile [OF b]]) auto
  have tested: "runsOn ?v (\<lambda>V. V = V0(b \<mapsto> (mode, old), target \<mapsto> (mode, content))) (seqIO (attempt (phpTestLocked h c version)) (\<lambda>r.
       case r of
         Inl _ \<Rightarrow>
           seqIO (attempt (replaceManagedFile target old mode)) (\<lambda>r.
           case r of
             Inl _ \<Rightarrow> throw (phpInvalidBecause '' and restore failed: operating system error'')
           | Inr _ \<Rightarrow> throw phpInvalid)
       | Inr _ \<Rightarrow>
           seqIO (if reload then phpServiceActionLocked (fh_host h) version ''reload'' else ret ()) (\<lambda>_. ret b))) ?Q ?E ?H"
    if old: "V0 target = Some (mode, old)" "token_digest old = expected" for mode old
  proof (rule runsOn_tested [of V0 target mode old expected b, OF old ne])
    show "steadyOn ?v (phpTestLocked h c version)"
      "steadyOn ?v (if reload then phpServiceActionLocked (fh_host h) version ''reload'' else ret ())"
      by (rule php_steady [OF quiet])+
  qed (use errs reload_errors(2) in \<open>auto simp: ret_def split: if_splits\<close>)
  show ?thesis
    unfolding phpWriteLocked_def
  proof (rule runsOn_seq [OF swap])
    fix x :: "string \<times> nat \<times> string"
    obtain bk mode old where x: "x = (bk, mode, old)" by (cases x)
    show "runsOn ?v ((case x of (backup, mode, old) \<Rightarrow> \<lambda>V. backup = b \<and> V0 target = Some (mode, old) \<and> token_digest old = expected
        \<and> V = V0(b \<mapsto> (mode, old), target \<mapsto> (mode, content))))
      (case x of (backup, mode, current) \<Rightarrow> seqIO (attempt (phpTestLocked h c version)) (\<lambda>r.
       case r of
         Inl _ \<Rightarrow>
           seqIO (attempt (replaceManagedFile target current mode)) (\<lambda>r.
           case r of
             Inl _ \<Rightarrow> throw (phpInvalidBecause '' and restore failed: operating system error'')
           | Inr _ \<Rightarrow> throw phpInvalid)
       | Inr _ \<Rightarrow>
           seqIO (if reload then phpServiceActionLocked (fh_host h) version ''reload'' else ret ()) (\<lambda>_. ret backup))) ?Q ?E ?H"
      unfolding x prod.case conj_assoc [symmetric]
      by (rule runsOn_given, elim conjE) (simp only:, rule tested, assumption+)
  qed
qed

lemma writes_php:
  assumes "poolPath c version pool = Some target" "b = backupName (ch_now (fh_host h) 0) target"
    "leavesFiles (fh_host h) (phpCommands c version) target b"
  shows "writes target b content expected {phpChanged, phpInvalid} V0 (phpWrite h c version pool content expected reload)"
  unfolding phpWrite_def assms(1) option.case by (intro runsOn_if writes_throw writes_phpLocked assms)

text \<open>The file controller works on the path that its candidate resolves to.\<close>

lemma resolve_runs: "resolveManagedPath h candidate roots w = (case resolveIn h (w_fs w) candidate roots of
    Some p \<Rightarrow> if roots = [] \<or> \<not> IsAbs candidate \<or> Clean candidate \<noteq> candidate \<or> candidate = ''/'' then (Raise outsideRoots, w) else (Ret p, w)
  | None \<Rightarrow> (Raise outsideRoots, w))"
  by (simp add: resolveManagedPath_def seqIO_def getFS_def throw_def ret_def split: option.split)

lemma writes_swap:
  assumes "b = backupName (ch_now h 0) target"
  shows "writes target b content expected UNIV V0 (seqIO (swapManagedFile h target content expected changed what) (\<lambda>(backup, _). ret backup))"
proof (rule runsOn_seq [OF runsOn_cons [OF runsOn_swapManagedFile [OF assms]], where R = "\<lambda>x V. fst x = b \<and> swapped target b content expected V0 V"])
  fix x show "runsOn (heldFiles target b) (\<lambda>V. fst x = b \<and> swapped target b content expected V0 V) (case x of (backup, _) \<Rightarrow> ret backup)
      (\<lambda>x V. x = b \<and> swapped target b content expected V0 V) (\<lambda>e V. kept b V0 V \<or> swapped target b content expected V0 V \<and> e \<notin> UNIV)
      (\<lambda>V. kept b V0 V \<or> swapped target b content expected V0 V)"
    by (cases x) (auto intro: runsOn_ret)
qed (auto simp: swapped_def)

lemma filesWrite_cases:
  "filesWrite h c candidate content expected w =
     (if fc_writeRoots c = [] \<or> \<not> agentSHA256Pattern expected \<or> length content > maxAgentNginxConfigBytes \<or> \<not> validManagedTextContent content
        \<or> resolveIn h (w_fs w) candidate (fc_writeRoots c) = None \<or> \<not> IsAbs candidate \<or> Clean candidate \<noteq> candidate \<or> candidate = ''/''
      then (Raise (if fc_writeRoots c = [] then errNew ''file writing is not enabled locally''
        else if \<not> agentSHA256Pattern expected \<or> length content > maxAgentNginxConfigBytes \<or> \<not> validManagedTextContent content
        then errNew ''invalid managed file write request'' else outsideRoots), w)
      else seqIO (swapManagedFile (fh_host h) (the (resolveIn h (w_fs w) candidate (fc_writeRoots c))) content expected nginxChanged ''managed file'')
        (\<lambda>(backup, _). ret backup) w)"
  by (cases "resolveIn h (w_fs w) candidate (fc_writeRoots c)")
    (auto simp: filesWrite_def seqIO_def [of "resolveManagedPath h candidate (fc_writeRoots c)"] resolve_runs throw_def)

text \<open>The outcome of a write for a program that was run in a world.\<close>

definition writeOutcome ::
  "string \<Rightarrow> string \<Rightarrow> string \<Rightarrow> string \<Rightarrow> go_error set \<Rightarrow> world \<Rightarrow> (go_error, string) io_res \<times> world \<Rightarrow> bool" where
  "writeOutcome target b content expected undone w r \<longleftrightarrow>
     (let before = heldFiles target b (w_fs w); after = heldFiles target b (w_fs (snd r)) in
      case fst r of
        Ret x \<Rightarrow> x = b \<and> swapped target b content expected before after
      | Raise e \<Rightarrow> kept b before after \<or> swapped target b content expected before after \<and> e \<notin> undone
      | Dead \<Rightarrow> kept b before after \<or> swapped target b content expected before after)"

lemma writes_outcome:
  assumes "writes target b content expected undone (heldFiles target b (w_fs w)) m"
  shows "writeOutcome target b content expected undone w (m w)"
  using assms [unfolded runsOn_def runs_def, rule_format, of w]
  by (cases "m w") (simp add: writeOutcome_def Let_def split: io_res.splits)

text \<open>
  C27. Editing an Nginx site or a PHP-FPM pool is a compare-and-swap on the checksum that survives crashes.
  Whatever calls fail and wherever the agent dies: on success the file had the expected checksum, now has the new content with its
  old mode, and the named backup has the old content. On an error or after a crash the file is
  either untouched or completely replaced with the old content in the backup, never in between; and when the error is
  that the file changed or that the test of the new configuration failed, it is as it was.
\<close>

theorem config_write_atomic:
  assumes "site = Join (nx_availableDir nx) name" "leavesFiles (fh_host h) nginxCommands site (backupName (ch_now (fh_host h) 0) site)"
    and "poolPath ph version pool = Some conf" "leavesFiles (fh_host h) (phpCommands ph version) conf (backupName (ch_now (fh_host h) 0) conf)"
  shows "writeOutcome site (backupName (ch_now (fh_host h) 0) site) content expected {nginxChanged, nginxInvalid} w
      (nginxWrite (fh_host h) nx name content expected reload w)
    \<and> writeOutcome conf (backupName (ch_now (fh_host h) 0) conf) content expected {phpChanged, phpInvalid} w
      (phpWrite h ph version pool content expected reload w)"
  using assms(2) unfolding assms(1)
  by (intro conjI writes_outcome writes_nginx writes_php assms refl)

section \<open>Paths below a root\<close>

lemma dir_below:
  assumes "cleanDir rr" "cleanDir res" "HasPrefix res (rr @ ''/'')"
  shows "below (DirOf res) rr"
proof -
  define rest where "rest = drop (length (rr @ ''/'')) res"
  have "take (length (rr @ ''/'')) res @ rest = res" unfolding rest_def by (rule append_take_drop_id)
  then have rest: "res = rr @ CHR ''/'' # rest" using assms(3) [unfolded HasPrefix_def] by simp
  obtain d e where de: "res = d @ CHR ''/'' # e" "CHR ''/'' \<notin> set e"
    using split_list_last [of "CHR ''/''" res] rest by fastforce
  have "rr @ CHR ''/'' # rest = d @ CHR ''/'' # e" using rest de by simp
  then have "d = rr \<or> (\<exists>mid. d = rr @ CHR ''/'' # mid)"
    using de(2) by (auto simp: append_eq_append_conv2 Cons_eq_append_conv append_eq_Cons_conv)
  moreover from this have d: "IsAbs d" "d \<noteq> ''/''" using assms(1) by (auto simp: cleanDir_iff IsAbs_Cons)
  then have "path_elems res = path_elems d @ [e]" using path_elems_snoc [of d e] de by simp
  then have "cleanDir d" using assms(2) d by (auto simp: cleanDir_iff)
  then have "DirOf res = d" using DirOf_snoc [of d e] de by simp
  ultimately show ?thesis by (auto simp: below_def HasPrefix_def)
qed

section \<open>The file controller stays below its roots\<close>

text \<open>One path of the file system, which a program leaves alone that only works on others.\<close>

abbreviation single :: "string \<Rightarrow> fsys \<Rightarrow> fnode option" where
  "single p \<equiv> \<lambda>fs. fs p"

lemma steady_single:
  assumes "q \<noteq> p"
  shows "steadyOn (single p) (osCreateNew q mode)" "steadyOn (single p) (osChown q)" "steadyOn (single p) (osChmod q mode)"
    "steadyOn (single p) (fileWrite q d)" "steadyOn (single p) (fileSync q)" "steadyOn (single p) (osRemove q)"
    "r \<noteq> p \<Longrightarrow> steadyOn (single p) (osRename r q)"
  unfolding osCreateNew_def osChown_def osChmod_def fileWrite_def fileSync_def osRemove_def osRename_def
  by (rule steady_syscall; use assms in \<open>auto simp: appendTo_def split: option.splits fnode.splits if_splits\<close>)+

lemma steady_cleaningUp: "steadyOn v m \<Longrightarrow> steadyOn v (osRemove q) \<Longrightarrow> steadyOn v (cleaningUp q m)"
  unfolding cleaningUp_def
  by (intro steady_seq steady_attempt steady_reads) (auto intro: steady_seq steady_attempt steady_ret steady_throw split: sum.split)

lemma steady_readManagedFile: "steadyOn v (readManagedFile q)"
  unfolding readManagedFile_def
  by (intro steady_seq steady_onError steady_deferred steady_reads)
    (auto intro!: steady_seq steady_onError steady_reads steady_ret steady_throw split: fnode.split)

lemma steady_writeNewManagedFile: "q \<noteq> p \<Longrightarrow> steadyOn (single p) (writeNewManagedFile q d mode)"
  unfolding writeNewManagedFile_def by (intro steady_seq steady_cleaningUp steady_single steady_reads)

lemma runs_temp_single:
  assumes "\<And>n. p \<noteq> tempName d pat n"
  shows "runs (\<lambda>fs. fs p = V) (osCreateTemp d pat) (\<lambda>t fs. fs p = V \<and> t \<noteq> p) (\<lambda>_ fs. fs p = V) (\<lambda>fs. fs p = V)"
proof -
  have free: "freeName fs d pat ns = Some (q, ns') \<Longrightarrow> q \<noteq> p" for fs ns q ns'
    by (induction ns) (use assms in \<open>auto split: if_splits\<close>)
  have call: "runs (\<lambda>fs. fs p = V) (syscall (\<lambda>fs. case fs d of
             Some (FDir _) \<Rightarrow> Inr (q, fs(q \<mapsto> FReg 0x180 False [])) | _ \<Rightarrow> Inl OtherError) intact)
     (\<lambda>t fs. fs p = V \<and> t \<noteq> p) (\<lambda>_ fs. fs p = V) (\<lambda>fs. fs p = V)" if "q \<noteq> p" for q
    using that by (intro runs_syscall) (auto split: option.splits fnode.splits)
  show ?thesis
    unfolding runs_def
  proof (intro allI impI)
    fix w :: world assume w: "w_fs w p = V"
    show "case osCreateTemp d pat w of (Ret t, w') \<Rightarrow> w_fs w' p = V \<and> t \<noteq> p | (Raise _, w') \<Rightarrow> w_fs w' p = V | (Dead, w') \<Rightarrow> w_fs w' p = V"
    proof (cases "freeName (w_fs w) d pat (w_rands w)")
      case (Some qn)
      obtain q ns where qn: "qn = (q, ns)" by (cases qn)
      then have "q \<noteq> p" using free [of "w_fs w" "w_rands w" q ns] Some by simp
      from call [OF this, unfolded runs_def, rule_format, of "w\<lparr>w_rands := ns\<rparr>"] w
      show ?thesis by (simp add: osCreateTemp_def Some qn)
    qed (simp add: osCreateTemp_def w)
  qed
qed

lemma steady_replaceManagedFile:
  assumes "q \<noteq> p" "\<And>n. p \<noteq> tempName (DirOf q) nginxTempPrefix n"
  shows "steadyOn (single p) (replaceManagedFile q d mode)"
  unfolding replaceManagedFile_def
proof (intro steadyI)
  fix V
  let ?body = "\<lambda>t. cleaningUp t (seqIO (osChmod t mode) (\<lambda>_. seqIO (osChown t) (\<lambda>_. seqIO (fileWrite t d) (\<lambda>_. seqIO (fileSync t) (\<lambda>_.
    seqIO (fileClose t) (\<lambda>_. osRename t q))))))"
  have "runs (\<lambda>fs. fs p = V \<and> t \<noteq> p) (?body t) (\<lambda>_ fs. fs p = V) (\<lambda>_ fs. fs p = V) (\<lambda>fs. fs p = V)" for t
  proof (cases "t = p")
    case False
    have "steadyOn (single p) (?body t)"
      by (intro steady_cleaningUp steady_seq steady_single steady_reads) (use False assms(1) in auto)
    then show ?thesis using False by (simp add: steadyD)
  qed (simp add: runs_def)
  then show "runs (\<lambda>fs. fs p = V) (seqIO (osCreateTemp (DirOf q) nginxTempPrefix) ?body) (\<lambda>_ fs. fs p = V) (\<lambda>_ fs. fs p = V) (\<lambda>fs. fs p = V)"
    by (rule runs_seq [OF runs_temp_single [OF assms(2)]])
qed

lemma steady_swapManagedFile:
  assumes "q \<noteq> p" "backupName (ch_now h 0) q \<noteq> p" "\<And>n. p \<noteq> tempName (DirOf q) nginxTempPrefix n"
  shows "steadyOn (single p) (swapManagedFile h q content expected changed what)"
  unfolding swapManagedFile_def Let_def
  by (intro steady_seq steady_onError steady_readManagedFile)
    (auto intro!: steady_seq steady_onError steady_readManagedFile steady_writeNewManagedFile steady_replaceManagedFile steady_ret steady_throw assms)

lemma resolveIn_sound:
  "resolveIn h fs candidate roots = Some res \<Longrightarrow>
     \<exists>r \<in> set roots. \<exists>rr. below candidate r \<and> fh_resolve h fs r = Some rr \<and> fh_resolve h fs candidate = Some res \<and> below res rr"
  by (induction roots) (auto split: if_splits option.splits)

text \<open>A directory is not replaced.\<close>

lemma runs_swap_dir:
  assumes "fs0 q = Some (FDir m)"
  shows "runs (\<lambda>fs. fs = fs0) (swapManagedFile h q content expected changed what) (\<lambda>_ _. False) (\<lambda>_ fs. fs = fs0) (\<lambda>fs. fs = fs0)"
proof -
  have keep: "runs (\<lambda>fs. fs = fs0) (onError Inl (openNoFollow q)) (\<lambda>_ fs. fs = fs0) (\<lambda>_ fs. fs = fs0) (\<lambda>fs. fs = fs0)"
    by (rule runs_onError, rule steadyD [OF steady_reads(4), where v = "\<lambda>fs. fs"])
  have lstat: "runs (\<lambda>fs. fs = fs0) (onError Inl (osLstat q)) (\<lambda>info fs. info = FDir m \<and> fs = fs0) (\<lambda>_ fs. fs = fs0) (\<lambda>fs. fs = fs0)"
    unfolding osLstat_def by (rule runs_onError, rule runs_syscall) (use assms in auto)
  have "runs (\<lambda>fs. fs = fs0) (seqIO (onError Inl (osLstat q)) (\<lambda>info.
        case info of
          FReg _ _ content \<Rightarrow>
            if length content > maxAgentNginxConfigBytes then throw (Inr managedFileTooLarge)
            else seqIO (onError Inl (osReadFile q)) (\<lambda>content.
              if length content > maxAgentNginxConfigBytes then throw (Inr managedFileTooLarge)
              else ret (info, content, token_digest content))
        | _ \<Rightarrow> throw (Inr (errNew ''managed configuration is not a regular file''))))
      (\<lambda>_ _. False) (\<lambda>_ fs. fs = fs0) (\<lambda>fs. fs = fs0)"
    by (rule runs_seq [OF lstat]) (auto simp: runs_def throw_def split: fnode.split)
  from runs_deferred [where v = "\<lambda>fs. fs", OF this steady_reads(3)]
  have "runs (\<lambda>fs. fs = fs0) (readManagedFile q) (\<lambda>_ _. False) (\<lambda>_ fs. fs = fs0) (\<lambda>fs. fs = fs0)"
    unfolding readManagedFile_def by (intro runs_seq [OF keep]) auto
  then show ?thesis
    unfolding swapManagedFile_def by (intro runs_seq [OF runs_onError]) (auto simp: runs_def)
qed

lemma single_slash: "cleanDir p \<Longrightarrow> \<not> HasPrefix p ''//''"
proof
  assume p: "cleanDir p" "HasPrefix p ''//''"
  then obtain q where "p = CHR ''/'' # CHR ''/'' # q"
    by (cases p; cases "tl p") (auto simp: HasPrefix_def)
  with p(1) show False by (auto simp: cleanDir_iff path_elems_def plain_elem_def)
qed

lemma swap_outside:
  assumes "below res rr" "cleanDir res \<or> res = ''/''" "cleanDir rr \<or> rr = ''/''" "w_fs w rr = Some (FDir m)" "p = rr \<or> \<not> below p rr"
  shows "w_fs (snd (seqIO (swapManagedFile h res content expected changed what) (\<lambda>(b, _). ret b) w)) p = w_fs w p"
proof (cases "res = rr")
  case True
  with assms(4) have "w_fs w res = Some (FDir m)" by simp
  from runs_swap_dir [of "w_fs w" res m, OF this, of h content expected changed what, unfolded runs_def, rule_format, OF refl]
  show ?thesis
    unfolding seqIO_def
    by (cases "swapManagedFile h res content expected changed what w"; cases "fst (swapManagedFile h res content expected changed what w)") auto
next
  case False
  then have pre: "HasPrefix res (rr @ ''/'')" using assms(1) by (simp add: below_def)
  have "\<not> cleanDir []" by (simp add: cleanDir_def IsAbs_Cons)
  then have res: "cleanDir res" "cleanDir rr" using pre assms(2,3) single_slash [of res] False by (auto simp: HasPrefix_def)
  have out: "x \<noteq> p" if "x = rr @ CHR ''/'' # y" for x y using that assms(5) by (auto simp: below_def HasPrefix_def)
  have more: "\<exists>y. x = rr @ CHR ''/'' # y" if "HasPrefix x (rr @ ''/'')" for x
    using that unfolding HasPrefix_def by (metis append_take_drop_id append.assoc append_Cons append_Nil)
  obtain z where z: "res = rr @ CHR ''/'' # z" using more [OF pre] by blast
  obtain y where y: "DirOf res = rr @ y" "y = [] \<or> (\<exists>y'. y = CHR ''/'' # y')"
    using dir_below [OF res(2,1) pre] more [of "DirOf res"] by (auto simp: below_def)
  have "res \<noteq> p" "backupName (ch_now h 0) res \<noteq> p" "p \<noteq> tempName (DirOf res) nginxTempPrefix n" for n
    using out [OF z] out [of "backupName (ch_now h 0) res"] out [of "tempName (DirOf res) nginxTempPrefix n"] y z
    by (auto simp: backupName_def tempName_def)
  then have "steadyOn (single p) (seqIO (swapManagedFile h res content expected changed what) (\<lambda>(b, _). ret b))"
    by (intro steady_seq steady_swapManagedFile) (auto intro: steady_ret split: prod.split)
  from steadyD [OF this, of "w_fs w p", unfolded runs_def, rule_format, of w, OF refl]
  show ?thesis
    by (cases "seqIO (swapManagedFile h res content expected changed what) (\<lambda>(b, _). ret b) w";
      cases "fst (seqIO (swapManagedFile h res content expected changed what) (\<lambda>(b, _). ret b) w)") auto
qed

text \<open>What a read returns is what the file at the resolved path holds.\<close>

lemma filesRead_returns:
  assumes "filesRead h c candidate w = (Ret f, w')"
  shows "resolveIn h (w_fs w) candidate (fc_readRoots c) = Some (mf_Path f) \<and> (\<exists>m s. w_fs w (mf_Path f) = Some (FReg m s (mf_Content f)))"
proof -
  obtain res where res: "resolveManagedPath h candidate (fc_readRoots c) w = (Ret res, w)" "resolveIn h (w_fs w) candidate (fc_readRoots c) = Some res"
    using assms by (auto simp: filesRead_def seqIO_def resolve_runs split: option.splits if_splits)
  let ?tail = "\<lambda>(info, content, checksum). if \<not> utf8_valid content \<or> CHR 0x00 \<in> set content then throw (errNew ''managed file must be UTF-8 text'')
     else seqIO getFS (\<lambda>fs.
       ret \<lparr>mf_Path = res, mf_Content = content, mf_Checksum = checksum, mf_Size = infoSize h fs res info,
            mf_Mode = modeText info, mf_ModifiedAt = modifiedAt h fs res\<rparr>)"
  have run: "seqIO (onError readFailed (readManagedFile res)) ?tail w = (Ret f, w')"
    using assms by (simp add: filesRead_def seqIO_def [of "resolveManagedPath h candidate (fc_readRoots c)"] res(1))
  let ?v = "slotsOf Pair {res}"
  have tail: "runsOn ?v (\<lambda>V. V = V0 \<and> P d) (?tail (i, d, k)) (\<lambda>f _. mf_Path f = res \<and> P (mf_Content f)) (\<lambda>_ _. True) (\<lambda>_. True)" for V0 P i d k
    by (auto simp: runsOn_def runs_def seqIO_def getFS_def ret_def throw_def)
  have "runsOn ?v (\<lambda>V. V = V0) (onError readFailed (readManagedFile res)) (\<lambda>x V. V = V0 \<and> (\<exists>m. V0 res = Some (m, fst (snd x)))) (\<lambda>_ _. True) (\<lambda>_. True)" for V0
    by (rule runsOn_onError, rule runsOn_cons [OF runsOn_readManagedFile [of res "{res}"]]) auto
  note read = this
  have "runsOn ?v (\<lambda>V. V = V0) (seqIO (onError readFailed (readManagedFile res)) ?tail)
      (\<lambda>f V. mf_Path f = res \<and> (\<exists>m. V0 res = Some (m, mf_Content f))) (\<lambda>_ _. True) (\<lambda>_. True)" for V0
  proof (rule runsOn_seq [OF read])
    fix x :: "fnode \<times> string \<times> string"
    obtain i d k where x: "x = (i, d, k)" by (cases x)
    show "runsOn ?v (\<lambda>V. V = V0 \<and> (\<exists>m. V0 res = Some (m, fst (snd x)))) (?tail x)
        (\<lambda>f V. mf_Path f = res \<and> (\<exists>m. V0 res = Some (m, mf_Content f))) (\<lambda>_ _. True) (\<lambda>_. True)"
      using tail [of V0 "\<lambda>d. \<exists>m. V0 res = Some (m, d)" d i k] by (simp only: x fst_conv snd_conv)
  qed
  from this [of "?v (w_fs w)", unfolded runsOn_def runs_def, rule_format, OF refl] run res(2)
  show ?thesis by (auto simp: slotsOf_def split: option.splits fnode.splits)
qed

text \<open>
  C28. The file controller does not leave its roots. Whatever path the task names, through whatever
  symbolic links it leads, and wherever the agent dies: what a write changes, the file, its backup and temporary files, lies strictly below the
  directory that one of the write roots resolves to, and what a read returns is the content of a file that
  the path resolves to below one of the read roots.
\<close>

theorem files_confined:
  assumes "\<And>fs q r. fh_resolve h fs q = Some r \<Longrightarrow> cleanDir r \<or> r = ''/''"
    "\<And>top rr. top \<in> set (fc_writeRoots c) \<Longrightarrow> fh_resolve h (w_fs w) top = Some rr \<Longrightarrow> (\<exists>m. w_fs w rr = Some (FDir m)) \<and> (p = rr \<or> \<not> below p rr)"
  shows "w_fs (snd (filesWrite h c candidate content expected w)) p = w_fs w p
    \<and> (case filesRead h c candidate w of
         (Ret f, _) \<Rightarrow> \<exists>top \<in> set (fc_readRoots c). \<exists>rr m s. below candidate top \<and> fh_resolve h (w_fs w) top = Some rr
           \<and> fh_resolve h (w_fs w) candidate = Some (mf_Path f) \<and> below (mf_Path f) rr \<and> w_fs w (mf_Path f) = Some (FReg m s (mf_Content f))
       | _ \<Rightarrow> True)"
proof
  show "w_fs (snd (filesWrite h c candidate content expected w)) p = w_fs w p"
  proof (cases "resolveIn h (w_fs w) candidate (fc_writeRoots c)")
    case (Some res)
    then obtain top rr where t: "top \<in> set (fc_writeRoots c)" "fh_resolve h (w_fs w) top = Some rr" "fh_resolve h (w_fs w) candidate = Some res" "below res rr"
      using resolveIn_sound by blast
    then obtain m where "w_fs w rr = Some (FDir m)" "p = rr \<or> \<not> below p rr" using assms(2) by blast
    then show ?thesis
      using swap_outside [OF t(4) assms(1) [OF t(3)] assms(1) [OF t(2)]] by (auto simp: filesWrite_cases Some)
  qed (simp add: filesWrite_cases)
next
  show "case filesRead h c candidate w of
         (Ret f, _) \<Rightarrow> \<exists>top \<in> set (fc_readRoots c). \<exists>rr m s. below candidate top \<and> fh_resolve h (w_fs w) top = Some rr
           \<and> fh_resolve h (w_fs w) candidate = Some (mf_Path f) \<and> below (mf_Path f) rr \<and> w_fs w (mf_Path f) = Some (FReg m s (mf_Content f))
       | _ \<Rightarrow> True"
    using filesRead_returns [of h c candidate w] resolveIn_sound [of h "w_fs w" candidate "fc_readRoots c"]
    by (auto split: prod.splits io_res.splits)
qed

section \<open>Examples\<close>

definition demoFileHost :: fileHost where
  "demoFileHost = \<lparr>fh_host = \<lparr>ch_run = \<lambda>_ _ fs. (Some [], fs), ch_tempDir = ''/tmp'', ch_user = \<lambda>_. True,
      ch_readDir = \<lambda>_ _. Inr [], ch_modTime = \<lambda>_ _. 0, ch_now = \<lambda>_. 0\<rparr>,
     fh_resolve = \<lambda>fs p. if fs p = None \<or> \<not> cleanDir p then None else Some p, fh_size = \<lambda>_ _. 4096, fh_lower = id\<rparr>"

definition demoSites :: nginxController where
  "demoSites = newNginxController [''test''] True True ''/etc/nginx/sites-available'' ''/etc/nginx/sites-enabled''"

definition demoPools :: phpController where
  "demoPools = newPHPController [''test''] True True ''/etc/php'' ''/usr/sbin''"

definition demoFileWorld :: world where
  "demoFileWorld = \<lparr>w_fs = [''/srv'' \<mapsto> FDir 0x1ED, ''/srv/a'' \<mapsto> FReg 0x1A4 True ''x'',
     ''/etc/nginx/sites-available'' \<mapsto> FDir 0x1ED, ''/etc/nginx/sites-available/a'' \<mapsto> FReg 0x1A4 True ''x''], w_fates = [Works, Fails 0], w_rands = [1], w_euid0 = True\<rparr>"

lemma demo_quiet: "leavesFiles (fh_host demoFileHost) cmds target b"
  by (simp add: leavesFiles_def demoFileHost_def)

lemma demo_pool: "poolPath demoPools ''8.2'' ''www'' = Some (Join (poolDir demoPools ''8.2'') ''www.conf'')"
proof -
  have "agentPHPVersionPattern ''8.2''" "agentPHPPoolNamePattern ''www''"
    by (simp_all add: agentPHPVersionPattern_def agentPHPPoolNamePattern_def matchName_def wordRune_def asciiLetterOrDigit_def decimalRune_def runes_ascii)
  then show ?thesis by (simp add: poolPath_def)
qed

lemma config_write_atomic_witness:
  "writeOutcome (Join ''/etc/nginx/sites-available'' ''a'') (backupName 0 (Join ''/etc/nginx/sites-available'' ''a'')) ''new'' (token_digest ''x'')
     {nginxChanged, nginxInvalid} demoFileWorld (nginxWrite (fh_host demoFileHost) demoSites ''a'' ''new'' (token_digest ''x'') True demoFileWorld)
   \<and> writeOutcome (Join (poolDir demoPools ''8.2'') ''www.conf'') (backupName 0 (Join (poolDir demoPools ''8.2'') ''www.conf'')) ''new'' (token_digest ''x'')
     {phpChanged, phpInvalid} demoFileWorld (phpWrite demoFileHost demoPools ''8.2'' ''www'' ''new'' (token_digest ''x'') True demoFileWorld)"
proof -
  have "nx_availableDir demoSites = ''/etc/nginx/sites-available''" "ch_now (fh_host demoFileHost) 0 = 0"
    by (simp_all add: demoSites_def newNginxController_def demoFileHost_def)
  then show ?thesis
    using config_write_atomic [OF refl demo_quiet demo_pool demo_quiet, of demoSites "''a''" "''new''" "token_digest ''x''" demoFileWorld True] by simp
qed

lemma files_confined_witness:
  "w_fs (snd (filesWrite demoFileHost (newFileController [''/srv''] [''/srv'']) ''/srv/a'' ''new'' ''e'' demoFileWorld)) ''/etc/passwd'' = None"
proof -
  have "cleanDir r \<or> r = ''/''" if "fh_resolve demoFileHost fs q = Some r" for fs q r
    using that by (auto simp: demoFileHost_def split: if_splits)
  moreover have "(\<exists>m. w_fs demoFileWorld rr = Some (FDir m)) \<and> (''/etc/passwd'' = rr \<or> \<not> below ''/etc/passwd'' rr)"
    if "top \<in> set (fc_writeRoots (newFileController [''/srv''] [''/srv'']))" "fh_resolve demoFileHost (w_fs demoFileWorld) top = Some rr" for top rr
    using that by (auto simp: newFileController_def demoFileHost_def demoFileWorld_def below_def HasPrefix_def split: if_splits)
  ultimately show ?thesis
    using files_confined [of demoFileHost "newFileController [''/srv''] [''/srv'']" demoFileWorld "''/etc/passwd''" "''/srv/a''" "''new''" "''e''"]
    by (simp add: demoFileWorld_def)
qed

end
