(* ===== verification/AgentCycle.thy ===== *)
theory AgentCycle
  imports AgentConfig AgentReports HubNodeProps
begin

text \<open>
  The agent and the hub together: the client of \<^verbatim>\<open>cmd/hserver-agent/client.go\<close> calls the service of the hub, and
  \<open>runCycle\<close> runs over it. The state is the database of the hub with the state of the node. The transport,
  HTTP with JSON bodies, is taken to deliver requests and responses as they are; a request that is lost is
  one that fails. The theorems say what a cycle does to the queue of the node, whatever becomes of its
  heartbeat, and that as many cycles as tasks are waiting serve them all.
\<close>

section \<open>The client\<close>

text \<open>Each of the three calls of a cycle reads the clock of the hub by itself.\<close>

definition hubClient :: "(rat \<Rightarrow> string) \<Rightarrow> clock \<Rightarrow> clock \<Rightarrow> clock \<Rightarrow> string \<Rightarrow> string \<Rightarrow> (hub_db \<times> 'h) agentClient" where
  "hubClient ff c1 c2 c3 nodeID token =
     \<lparr>cl_heartbeat = (\<lambda>request (db, h).
        case Heartbeat ff db c1 nodeID token (request\<lparr>hb_NodeID := nodeID\<rparr>) of
          (db', Inl _) \<Rightarrow> (False, db', h)
        | (db', Inr response) \<Rightarrow> (hbr_Accepted response, db', h)),
      cl_poll = (\<lambda>(db, h).
        case PollTask db c2 nodeID token of
          (db', Inl _) \<Rightarrow> (Inl (), db', h)
        | (db', Inr task) \<Rightarrow> (Inr task, db', h)),
      cl_report = (\<lambda>taskID request (db, h).
        if taskID \<le> 0 then (False, db, h)
        else case CompleteTask db c3 nodeID token taskID request of (db', r) \<Rightarrow> (is_ok r, db', h))\<rparr>"

type_synonym tick = "HeartbeatRequest \<times> clock \<times> clock \<times> clock"

definition onHost :: "(Task \<Rightarrow> 'h \<Rightarrow> TaskResultRequest \<times> 'h) \<Rightarrow> Task \<Rightarrow> hub_db \<times> 'h \<Rightarrow> TaskResultRequest \<times> hub_db \<times> 'h" where
  "onHost exec task = (\<lambda>(db, h). case exec task h of (res, h') \<Rightarrow> (res, db, h'))"

definition agentCycle ::
  "(rat \<Rightarrow> string) \<Rightarrow> string \<Rightarrow> string \<Rightarrow> (Task \<Rightarrow> 'h \<Rightarrow> TaskResultRequest \<times> 'h) \<Rightarrow> tick \<Rightarrow> hub_db \<times> 'h \<Rightarrow> hub_db \<times> 'h" where
  "agentCycle ff n token exec tick s =
     (case tick of (hb, c1, c2, c3) \<Rightarrow> runCycle (hubClient ff c1 c2 c3 n token) (onHost exec) hb s)"

section \<open>The calls of a cycle\<close>

definition enrolled :: "string \<Rightarrow> string \<Rightarrow> hub_db \<Rightarrow> bool" where
  "enrolled n token db \<longleftrightarrow> hub_inv db \<and> is_ok (AuthenticateNode db n token)"

lemma enrolled_stays:
  assumes "enrolled n token db" "hub_move u ff db db'"
  shows "enrolled n token db'"
proof -
  have inv: "hub_inv db'" using hub_move_inv [OF assms(2)] assms(1) by (simp add: enrolled_def)
  have login: "is_ok (AuthenticateToken db n token)" "validNodeID n" "token \<noteq> []"
    using assms(1) by (auto simp: enrolled_def AuthenticateNode_def split: if_splits)
  have step: "(\<lambda>db db'. \<exists>e. hub_step u ff e db db')\<^sup>*\<^sup>* db db'" using assms(2) by (auto simp: hub_move_def)
  from repo_credentials.credential_stays [OF step _ login(1), of token] show ?thesis
    using inv login assms(1) by (simp add: enrolled_def AuthenticateNode_def)
qed

lemma tasks_queue: "db_Tasks db' = db_Tasks db \<Longrightarrow> queued_ids db' n = queued_ids db n"
  by (simp add: queued_ids_def)

lemma cycle_heartbeat:
  assumes "enrolled n token db"
  obtains b db1 where "cl_heartbeat (hubClient ff c1 c2 c3 n token) hb (db, h) = (b, db1, h)" "enrolled n token db1" "db_Tasks db1 = db_Tasks db"
proof -
  obtain db1 r where hb: "Heartbeat ff db c1 n token (hb\<lparr>hb_NodeID := n\<rparr>) = (db1, r)" by fastforce
  have "enrolled n token db1" using enrolled_stays [OF assms Heartbeat_move [OF hb, of undefined]] .
  moreover have "db_Tasks db1 = db_Tasks db"
    using hb by (auto simp: Heartbeat_def dest: UpdateHeartbeat_tasks split: if_splits sum.splits prod.splits)
  moreover have "\<exists>b. cl_heartbeat (hubClient ff c1 c2 c3 n token) hb (db, h) = (b, db1, h)" using hb by (cases r) (simp_all add: hubClient_def)
  ultimately show thesis using that by blast
qed

lemma cycle_poll:
  assumes "enrolled n token db"
  shows "queued_ids db n = [] \<Longrightarrow> PollTask db c n token = (db, Inr None)"
    "queued_ids db n = i # q \<Longrightarrow> \<exists>r \<in> set (db_Tasks db). \<exists>t. tr_ID r = i \<and> claimable n r \<and> scanTask (claimedRow (c 0) r) = Inr t
       \<and> PollTask db c n token = (updateTask db i (claimedRow (c 0)), Inr (Some t))"
proof -
  have inv: "hub_inv db" and poll: "PollTask db c n token = ClaimNextTask db n (c 0)"
    using assms by (auto simp: enrolled_def PollTask_def PollTaskForNode_def AuthenticateNode_def is_ok_iff split: if_splits)
  show "PollTask db c n token = (db, Inr None)" if "queued_ids db n = []"
    using that by (simp add: poll ClaimNextTask_None queued_Nil)
  assume "queued_ids db n = i # q"
  then obtain r rs where r: "filter (claimable n) (db_Tasks db) = r # rs" and i: "tr_ID r = i"
    by (auto simp: queued_ids_def Cons_eq_map_conv)
  note in_r = find_SomeD [OF filter_head_find [OF r]]
  have "sorted_wrt (<) (map tr_ID (db_Tasks db))" using inv by (simp add: hub_inv_def tasks_ok_def)
  then show "\<exists>r \<in> set (db_Tasks db). \<exists>t. tr_ID r = i \<and> claimable n r \<and> scanTask (claimedRow (c 0) r) = Inr t
       \<and> PollTask db c n token = (updateTask db i (claimedRow (c 0)), Inr (Some t))"
    using ClaimNextTask_Some [of db r n "c 0"] find_least [OF _ filter_head_find [OF r]] inv in_r i
    by (auto simp: hub_inv_def poll)
qed

lemma claimed_running: "tr_Status (claimedRow now r) = TaskStatusRunning" "tr_ID (claimedRow now r) = tr_ID r" "tr_NodeID (claimedRow now r) = tr_NodeID r"
  by (simp_all add: claimedRow_def)

text \<open>A report on a running task of the node is taken exactly when both validators take it.\<close>

lemma report_running:
  assumes "enrolled n token db" "r \<in> set (db_Tasks db)" "completable n i r" "scanTask r = Inr t"
  shows "fst (CompleteTask db c3 n token i res) =
    (if ValidateTaskResultRequest res = Inr () \<and> validateTypedResult (c3 0) t res = Inr () then updateTask db i (completedRow res (c3 1)) else db)"
proof -
  have inv: "hub_inv db" and auth: "is_ok (AuthenticateNode db n token)" using assms(1) by (simp_all add: enrolled_def)
  have n: "validNodeID n" using auth by (auto simp: AuthenticateNode_def split: if_splits)
  have comp: "CompleteTask db c3 n token i res = CompleteTaskForNode db c3 n i res" using auth by (auto simp: CompleteTask_def is_ok_iff)
  have i: "tr_ID r = i" "tr_NodeID r = n" using assms(3) by (simp_all add: completable_def)
  have get: "GetTaskForNode db n i = Inr t" using GetTaskForNode_row [OF inv assms(2) i(1)] i(2) assms(4) by simp
  have pos: "0 < i" using inv assms(2) i(1) by (auto simp: hub_inv_def tasks_ok_def)
  show ?thesis
  proof (cases "ValidateTaskResultRequest res = Inr () \<and> validateTypedResult (c3 0) t res = Inr ()")
    case True
    then have "is_ok (snd (CompleteTaskForNode db c3 n i res))"
      using CompleteTaskForNode_row [OF inv assms(2) i(1) n, of res c3] assms(3,4) by auto
    moreover have same: "CompleteTaskForNode db c3 n i res = repoCompleteTask db n i res (c3 1)"
      using True get n pos by (simp add: CompleteTaskForNode_def)
    ultimately show ?thesis
      using repoCompleteTask_db [of db n i res "c3 1"] True by (cases "repoCompleteTask db n i res (c3 1)") (auto simp: comp)
  next
    case False
    then show ?thesis
      using get n pos by (cases "ValidateTaskResultRequest res"; cases "validateTypedResult (c3 0) t res") (auto simp: comp CompleteTaskForNode_def)
  qed
qed

lemma update_twice: "(\<And>x. tr_ID (f x) = tr_ID x) \<Longrightarrow>
    db_Tasks (updateTask (updateTask db i f) i g) = map (\<lambda>x. if tr_ID x = i then g (f x) else x) (db_Tasks db)"
  by (simp add: updateTask_def)

text \<open>What a report leaves of the row that was claimed.\<close>

definition servedRow :: "tick \<Rightarrow> Task \<Rightarrow> TaskResultRequest \<Rightarrow> task_row \<Rightarrow> task_row" where
  "servedRow tick t res x =
     (case tick of (hb, c1, c2, c3) \<Rightarrow>
        if ValidateTaskResultRequest res = Inr () \<and> validateTypedResult (c3 0) t res = Inr ()
        then completedRow res (c3 1) (claimedRow (c2 0) x) else claimedRow (c2 0) x)"

lemma cycle_cases:
  assumes "enrolled n token db"
  shows "enrolled n token (fst (agentCycle ff n token exec tick (db, h)))
    \<and> (case queued_ids db n of
         [] \<Rightarrow> db_Tasks (fst (agentCycle ff n token exec tick (db, h))) = db_Tasks db \<and> snd (agentCycle ff n token exec tick (db, h)) = h
       | i # _ \<Rightarrow> \<exists>r \<in> set (db_Tasks db). \<exists>t. tr_ID r = i \<and> claimable n r \<and> scanTask (claimedRow (fst (snd (snd tick)) 0) r) = Inr t
           \<and> snd (agentCycle ff n token exec tick (db, h)) = snd (exec t h)
           \<and> db_Tasks (fst (agentCycle ff n token exec tick (db, h))) =
               map (\<lambda>x. if tr_ID x = i then servedRow tick t (fst (exec t h)) x else x) (db_Tasks db))"
proof -
  obtain hb c1 c2 c3 where tick: "tick = (hb, c1, c2, c3)" by (cases tick)
  let ?client = "hubClient ff c1 c2 c3 n token :: (hub_db \<times> 'a) agentClient"
  obtain b db1 where hb: "cl_heartbeat ?client hb (db, h) = (b, db1, h)" "enrolled n token db1" "db_Tasks db1 = db_Tasks db"
    using cycle_heartbeat [OF assms] .
  have auth: "hub_inv db1" "is_ok (AuthenticateNode db1 n token)" using hb(2) by (simp_all add: enrolled_def)
  note queue = tasks_queue [OF hb(3), of n]
  show ?thesis
  proof (cases "queued_ids db n")
    case Nil
    then have "cl_poll ?client (db1, h) = (Inr None, db1, h)" using cycle_poll(1) [OF hb(2)] queue by (simp add: hubClient_def)
    then have "agentCycle ff n token exec tick (db, h) = (db1, h)" by (simp add: agentCycle_def tick runCycle_def hb(1))
    then show ?thesis using hb Nil by simp
  next
    case (Cons i q)
    then obtain r t where r: "r \<in> set (db_Tasks db1)" "tr_ID r = i" "claimable n r" "scanTask (claimedRow (c2 0) r) = Inr t"
      and poll: "PollTask db1 c2 n token = (updateTask db1 i (claimedRow (c2 0)), Inr (Some t))"
      using cycle_poll(2) [OF hb(2)] queue by metis
    let ?db2 = "updateTask db1 i (claimedRow (c2 0))" and ?res = "fst (exec t h)"
    have enrolled2: "enrolled n token ?db2"
      by (rule enrolled_stays [OF hb(2) service_call_move [OF sc_poll [OF poll, of undefined undefined]]])
    have row: "claimedRow (c2 0) r \<in> set (db_Tasks ?db2)" "completable n i (claimedRow (c2 0) r)"
      using r by (auto simp: updateTask_def completable_def claimed_running claimable_def)
    have id: "task_ID t = i" using scanTask_fields(1) [OF r(4)] r(2) by (simp add: claimed_running)
    have pos: "0 < i" using hb(2) r(1,2) by (auto simp: enrolled_def hub_inv_def tasks_ok_def)
    obtain db3 x where rep: "CompleteTask ?db2 c3 n token i ?res = (db3, x)" by fastforce
    have enrolled3: "enrolled n token db3"
      by (rule enrolled_stays [OF enrolled2 service_call_move [OF sc_complete [OF rep, of undefined undefined]]])
    have cyc: "agentCycle ff n token exec tick (db, h) = (db3, snd (exec t h))"
      using poll rep pos by (cases "exec t h") (simp add: agentCycle_def tick runCycle_def hb(1), simp add: hubClient_def onHost_def id)
    have "db_Tasks db3 = map (\<lambda>x. if tr_ID x = i then servedRow tick t ?res x else x) (db_Tasks db)"
      using report_running [OF enrolled2 row r(4), of c3 ?res] rep update_twice [of "claimedRow (c2 0)" db1 i "completedRow ?res (c3 1)"]
      by (auto simp: servedRow_def tick claimed_running hb(3) updateTask_def)
    moreover have "fst (snd (snd tick)) = c2" by (simp add: tick)
    ultimately show ?thesis using r Cons enrolled3 by (auto simp: cyc hb(3) intro!: bexI [of _ r])
  qed
qed

section \<open>Cycles in a row\<close>

text \<open>
  The interface between the cycles and the queue: serving takes the front of the queue, and what has been
  served once stays so.
\<close>

locale queue_server =
  fixes holds :: "'s \<Rightarrow> bool"
    and queue :: "'s \<Rightarrow> 'i list"
    and settled :: "'s \<Rightarrow> 'i \<Rightarrow> bool"
    and serve :: "'t \<Rightarrow> 's \<Rightarrow> 's"
  assumes serve_holds: "holds s \<Longrightarrow> holds (serve t s)"
    and serve_queue: "holds s \<Longrightarrow> queue (serve t s) = tl (queue s)"
    and serve_head: "holds s \<Longrightarrow> queue s = i # q \<Longrightarrow> settled (serve t s) i"
    and settled_stays: "holds s \<Longrightarrow> settled s i \<Longrightarrow> settled (serve t s) i"
begin

lemma serve_all_holds: "holds s \<Longrightarrow> holds (fold serve ts s)"
  by (induction ts arbitrary: s) (simp_all add: serve_holds)

lemma serve_all_queue: "holds s \<Longrightarrow> queue (fold serve ts s) = drop (length ts) (queue s)"
  by (induction ts arbitrary: s) (simp_all add: serve_holds serve_queue drop_Suc)

lemma serve_all_stays: "holds s \<Longrightarrow> settled s i \<Longrightarrow> settled (fold serve ts s) i"
  by (induction ts arbitrary: s) (simp_all add: serve_holds settled_stays)

lemma serve_all_settles: "holds s \<Longrightarrow> i \<in> set (take (length ts) (queue s)) \<Longrightarrow> settled (fold serve ts s) i"
proof (induction ts arbitrary: s)
  case (Cons t ts)
  show ?case
  proof (cases "queue s")
    case (Cons j q)
    then show ?thesis
      using Cons.IH [OF serve_holds [OF Cons.prems(1), of t]] Cons.prems serve_all_stays [OF serve_holds [OF Cons.prems(1), of t]]
        serve_head [OF Cons.prems(1) Cons, of t] serve_queue [OF Cons.prems(1), of t]
      by auto
  qed (use Cons.prems in simp)
qed simp

end

definition taken :: "string \<Rightarrow> hub_db \<Rightarrow> int \<Rightarrow> bool" where
  "taken n db i \<longleftrightarrow> (\<exists>r \<in> set (db_Tasks db). tr_ID r = i \<and> tr_NodeID r = n \<and> tr_Status r \<in> {TaskStatusRunning, TaskStatusCompleted, TaskStatusFailed})"

lemma servedRow_fields:
  "tr_ID (servedRow tick t res x) = tr_ID x" "tr_NodeID (servedRow tick t res x) = tr_NodeID x"
  "tr_Status (servedRow tick t res x) \<in> {TaskStatusRunning, TaskStatusCompleted, TaskStatusFailed}"
  using ValidateTaskResultRequest_terminal [of res]
  by (auto simp: servedRow_def completedRow_def claimedRow_def terminal_def split: prod.split)

lemma queued_after_serve:
  assumes "db_Tasks db' = map (\<lambda>x. if tr_ID x = i then servedRow tick t res x else x) (db_Tasks db)"
  shows "queued_ids db' n = filter (\<lambda>j. j \<noteq> i) (queued_ids db n)"
proof -
  have no: "\<not> claimable n (servedRow tick t res x)" for x
    using servedRow_fields(3) [of tick t res x] by (auto simp: claimable_def hub_consts)
  have "map tr_ID (filter (claimable n) (map (\<lambda>x. if tr_ID x = i then servedRow tick t res x else x) xs))
      = filter (\<lambda>j. j \<noteq> i) (map tr_ID (filter (claimable n) xs))" for xs
    by (induction xs) (auto simp: no)
  then show ?thesis by (simp add: queued_ids_def assms)
qed

lemma taken_after_serve:
  assumes "db_Tasks db' = map (\<lambda>x. if tr_ID x = i then servedRow tick t res x else x) (db_Tasks db)" "r \<in> set (db_Tasks db)" "tr_NodeID r = n"
    "tr_ID r = i \<or> tr_Status r \<in> {TaskStatusRunning, TaskStatusCompleted, TaskStatusFailed}"
  shows "taken n db' (tr_ID r)"
proof -
  let ?r = "if tr_ID r = i then servedRow tick t res r else r"
  have "?r \<in> set (db_Tasks db')" using assms(1,2) by auto
  moreover have "tr_ID ?r = tr_ID r" "tr_NodeID ?r = n" "tr_Status ?r \<in> {TaskStatusRunning, TaskStatusCompleted, TaskStatusFailed}"
    using servedRow_fields [of tick t res r] assms(3,4) by auto
  ultimately show ?thesis unfolding taken_def by blast
qed

interpretation cycles: queue_server "\<lambda>s. enrolled n token (fst s)" "\<lambda>s. queued_ids (fst s) n" "\<lambda>s. taken n (fst s)" "agentCycle ff n token exec"
  for ff n token exec
proof unfold_locales
  fix s :: "hub_db \<times> 'a" and t i q
  assume ready: "enrolled n token (fst s)"
  obtain db h where s: "s = (db, h)" by (cases s)
  note step = cycle_cases [OF ready [unfolded s fst_conv], of ff exec t h]
  show "enrolled n token (fst (agentCycle ff n token exec t s))" using step by (simp add: s)
  have distinct: "distinct (queued_ids db n)" using ready queued_distinct by (simp add: s enrolled_def)
  show "queued_ids (fst (agentCycle ff n token exec t s)) n = tl (queued_ids (fst s) n)"
  proof (cases "queued_ids db n")
    case Nil
    then show ?thesis using step by (simp add: s queued_ids_def)
  next
    case (Cons j js)
    then obtain x where tasks: "db_Tasks (fst (agentCycle ff n token exec t (db, h))) =
        map (\<lambda>y. if tr_ID y = j then servedRow t x (fst (exec x h)) y else y) (db_Tasks db)"
      using step by auto
    have "filter (\<lambda>k. k \<noteq> j) js = js" using distinct Cons by (auto simp: filter_id_conv)
    then show ?thesis using queued_after_serve [OF tasks, of n] Cons by (simp add: s)
  qed
  show "taken n (fst (agentCycle ff n token exec t s)) i" if q: "queued_ids (fst s) n = i # q"
  proof -
    obtain r x where r: "r \<in> set (db_Tasks db)" "tr_ID r = i" "claimable n r"
      and tasks: "db_Tasks (fst (agentCycle ff n token exec t (db, h))) = map (\<lambda>y. if tr_ID y = i then servedRow t x (fst (exec x h)) y else y) (db_Tasks db)"
      using step q by (auto simp: s)
    from taken_after_serve [OF tasks r(1), of n] show ?thesis using r(2,3) by (simp add: s claimable_def)
  qed
  show "taken n (fst (agentCycle ff n token exec t s)) i" if i: "taken n (fst s) i"
  proof (cases "queued_ids db n")
    case Nil
    then show ?thesis using step i by (simp add: s taken_def)
  next
    case (Cons j js)
    then obtain x where tasks: "db_Tasks (fst (agentCycle ff n token exec t (db, h))) =
        map (\<lambda>y. if tr_ID y = j then servedRow t x (fst (exec x h)) y else y) (db_Tasks db)"
      using step by auto
    obtain r where r: "r \<in> set (db_Tasks db)" "tr_ID r = i" "tr_NodeID r = n" "tr_Status r \<in> {TaskStatusRunning, TaskStatusCompleted, TaskStatusFailed}"
      using i by (auto simp: s taken_def)
    from taken_after_serve [OF tasks r(1,3)] show ?thesis using r(2,4) by (simp add: s)
  qed
qed

section \<open>Theorems\<close>



section \<open>Witnesses\<close>

definition failing :: "Task \<Rightarrow> nat \<Rightarrow> TaskResultRequest \<times> nat" where
  "failing t k = (\<lparr>res_Status = TaskStatusFailed, res_Result = [], res_Error = ''refused''\<rparr>, Suc k)"

definition demoTick :: tick where
  "demoTick = (demoHeartbeat, \<lambda>_. demoTime, \<lambda>_. demoTime, \<lambda>_. demoTime)"



end
