(* ===== verification/Spec2Isabelle.thy ===== *)
theory Spec2Isabelle
  imports HubNodeProps HubProfileProps AgentProfileRuns AgentConfigProps AgentCronProps AgentManagedProps AgentCycle
begin

text \<open>
  A verification development for the agent hub of HeyServer, the part of the panel through which
  remote nodes are managed, and for the node agent that the hub drives: how the agent reads its
  configuration, reports to the hub, dispatches tasks, and applies profiles, firewall rules, cron jobs and edits of configuration files.

  \<^bold>\<open>The program.\<close> The panel keeps a database of nodes, tasks, desired profiles and reported
  observations. An operator registers a node and receives a bearer token, stores a desired profile
  for it, asks for the profile to be applied, and enqueues tasks from a fixed list of kinds. The
  agent on the node sends heartbeats with its capabilities, inventory and profile observation,
  polls for a task, dispatches it to the controller of its kind, and reports a result. A profile task makes
  the agent store the profile in files and schedule a restart; a later heartbeat reports what it found there.
  The code has these parts, under \<^verbatim>\<open>src/internal\<close>:
  \<^item> \<^verbatim>\<open>agenthub/types.go\<close>: task kinds, capabilities and wire structs;
  \<^item> \<^verbatim>\<open>agenthub/service.go\<close>: validation of every field that crosses the wire, and the operations that the
    HTTP handlers call; each operation validates, reads, and ends in at most one write;
  \<^item> \<^verbatim>\<open>agenthub/repository.go\<close>: the SQLite transactions;
  \<^item> \<^verbatim>\<open>agenthub/profile.go\<close>: profile documents, their canonical form, and the profile view;
  \<^item> \<^verbatim>\<open>agenthub/metrics.go\<close> and \<^verbatim>\<open>managedintegrationstatus/status.go\<close> (with \<^verbatim>\<open>integrationstate/state.go\<close>):
    the typed results of two task kinds;
  \<^item> \<^verbatim>\<open>agenthub/compatibility.go\<close> and \<^verbatim>\<open>releaseversion/releaseversion.go\<close>: the order of agent releases;
  and under \<^verbatim>\<open>src/cmd/hserver-agent\<close>:
  \<^item> \<^verbatim>\<open>config.go\<close> and \<^verbatim>\<open>main.go\<close>: the environment of the agent, the allow-lists read from it, the
    capabilities and the inventory announced, and the cycle of heartbeat, poll and report;
  \<^item> \<^verbatim>\<open>client.go\<close>: the calls of the hub;
  \<^item> \<^verbatim>\<open>tasks.go\<close>: one executor per task kind, from the payload to the call of a controller and the text
    of the report;
  \<^item> \<^verbatim>\<open>integration_status.go\<close>: the status document of the node;
  \<^item> \<^verbatim>\<open>firewall.go\<close>: listing, adding and deleting iptables rules under a protection of the management
    access, saved or undone as a whole;
  \<^item> \<^verbatim>\<open>nginx.go\<close>, \<^verbatim>\<open>php.go\<close>, \<^verbatim>\<open>files.go\<close>, and the actions of \<^verbatim>\<open>domains.go\<close>: configuration files of other programs,
    listed, read, and replaced against a checksum with a backup, a test and undoing;
  \<^item> \<^verbatim>\<open>cron.go\<close>: the managed cron jobs, a state file and the
    crontab rendered from it, changed by compare-and-swap;
  \<^item> \<^verbatim>\<open>profile_store.go\<close>: the candidate, active, previous and state file and their atomic replacement;
  \<^item> \<^verbatim>\<open>profile_apply.go\<close>: the controller that decides on a request, stages it and schedules the installer.

  \<^bold>\<open>The theories.\<close> What the code uses of Go and its standard library comes first:
  \<^item> \<open>GoBase\<close>, \<open>GoStrings\<close>, \<open>GoFields\<close>, \<open>GoEncoding\<close>, \<open>GoPath\<close>, \<open>GoNet\<close>, \<open>GoIPNet\<close>, \<open>GoTime\<close>, \<open>GoCalendar\<close>, \<open>GoFloat\<close>,
    \<open>GoSHA256\<close>: byte strings, runes and UTF-8, \<^verbatim>\<open>strings.Fields\<close>, \<^verbatim>\<open>strconv\<close>, hex and base64,
    \<^verbatim>\<open>filepath.Clean\<close>, IP texts and networks, instants and their RFC 3339 texts, float64 values, SHA-256;
  \<^item> \<open>GoJSON\<close>, \<open>GoDecode\<close>, \<open>GoRaw\<close> and \<open>GoIndent\<close>: \<^verbatim>\<open>encoding/json\<close>, as a lexer, a push-down parser and a printer with their
    round trip, the decoding into structs, raw values, and the indented printer;
  \<^item> \<open>GoOS\<close>: files and directories with the calls of package \<^verbatim>\<open>os\<close>, each of which may work, fail or be
    the last thing the process does, and Hoare triples for programs made of them.
  Then the components, one theory each, with the definitions named as in the code:
  \<^item> \<open>HubTypes\<close> (\<^verbatim>\<open>types.go\<close>), \<open>ReleaseVersion\<close>, \<open>HubValidate\<close> (the field validators), \<open>HubTasks\<close>
    (\<^verbatim>\<open>ValidateTaskRequest\<close>, \<^verbatim>\<open>capabilityForTask\<close>, \<^verbatim>\<open>ValidateTaskResultRequest\<close>), \<open>HubHeartbeat\<close>
    (\<^verbatim>\<open>validateHeartbeatFields\<close>, \<^verbatim>\<open>validateRegisterNodeRequest\<close>), \<open>HubProfile\<close> and \<open>HubProfileView\<close>
    (\<^verbatim>\<open>profile.go\<close>), \<open>HubMetrics\<close> (\<^verbatim>\<open>metrics.go\<close>), \<open>ManagedStatus\<close> (\<^verbatim>\<open>status.go\<close>, \<^verbatim>\<open>state.go\<close>);
  \<^item> \<open>HubRepository\<close> (\<^verbatim>\<open>repository.go\<close>): the database is the record \<open>hub_db\<close> with a component per table,
    a transaction maps it to the new database and a result, \<open>Inl\<close> being the sentinel error;
  \<^item> \<open>HubService\<close> (\<^verbatim>\<open>service.go\<close>): the operations of the service over that database;
  \<^item> \<open>AgentProfile\<close> (\<^verbatim>\<open>profile_store.go\<close>, \<^verbatim>\<open>profile_apply.go\<close>): programs over a file system, returning a
    value, an error, or ending because the process died;
  \<^item> \<open>AgentTasks\<close> (\<^verbatim>\<open>tasks.go\<close>): the dispatch, a program that makes at most one controller call, over the
    allow-lists of the record \<open>env\<close>; \<open>AgentStatus\<close> (\<^verbatim>\<open>integration_status.go\<close>);
  \<^item> \<open>AgentFirewall\<close> (\<^verbatim>\<open>firewall.go\<close>), \<open>AgentCron\<close> (\<^verbatim>\<open>cron.go\<close> and \<^verbatim>\<open>readManagedFile\<close>), \<open>AgentManaged\<close> (\<^verbatim>\<open>nginx.go\<close>) and
    \<open>AgentFiles\<close> (\<^verbatim>\<open>php.go\<close>, \<^verbatim>\<open>files.go\<close>, \<^verbatim>\<open>domains.go\<close>): the controllers as programs over the
    commands and files of the host;
  \<^item> \<open>AgentConfig\<close> (\<^verbatim>\<open>config.go\<close>, \<^verbatim>\<open>main.go\<close>): the loader as a sequence of checked steps over the
    environment, and the announcements made from what it loaded; \<open>AgentCycle\<close> (\<^verbatim>\<open>client.go\<close>, the cycle of
    \<^verbatim>\<open>main.go\<close>): one agent turn against the operations of \<open>HubService\<close>.
  The facts are organised on top of them:
  \<^item> \<open>HubInvariant\<close>: the invariant \<open>hub_inv\<close> of the database and its preservation by each transaction;
  \<^item> \<open>HubMachine\<close>: the step relation \<open>hub_step\<close>, one case per transaction with validated arguments, the
    locales \<open>keeps\<close> and \<open>evolves\<close> for invariants and progress relations, and that each service call
    is a step or changes nothing;
  \<^item> \<open>HubContracts\<close>: the locales \<open>work_queue\<close>, \<open>fifo_queue\<close>, \<open>cas_register\<close> and \<open>credential_store\<close>, interpreted
    on the repository; \<open>AgentCycle\<close> adds \<open>queue_server\<close>, a client that removes the head of such a queue at
    each turn, interpreted on the agent cycle;
  \<^item> \<open>FileView\<close>: triples about a view of the file system, shared by the cron and the file controllers;
  \<^item> \<open>HubExamples\<close>: a concrete database on which the properties are evaluated;
  \<^item> the properties: \<open>HubSafety\<close> (validators), \<open>HubTaskProps\<close> (task queue), \<open>HubNodeProps\<close> (registration,
    credentials, heartbeats), \<open>HubProfileProps\<close> (profiles), \<open>AgentProfileProps\<close> and \<open>AgentProfileRuns\<close> (the profile
    controller, and its agreement with the hub), \<open>AgentTaskProps\<close> and \<open>AgentReports\<close> (dispatch and
    reports), \<open>AgentStatusProps\<close>, \<open>AgentFirewallProps\<close>, \<open>AgentCronProps\<close>, \<open>AgentManagedProps\<close>, \<open>AgentConfigProps\<close>,
    \<open>AgentCycle\<close>, and this theory
    (the hub as a whole).

  \<^bold>\<open>What is shown of the hub.\<close> The invariant holds in every database that any interleaving of transactions
  reaches from \<^verbatim>\<open>Migrate\<close>, tasks only move forward, the service refines the transactions, and nodes
  do not affect each other (here). Tasks are delivered in order and once, queues drain, completions
  and enqueues succeed exactly under the stated conditions, payloads read back unchanged
  (\<open>HubTaskProps\<close>). Tokens keep authenticating, calls without a credential have no effect, heartbeats
  are accepted exactly under the stated conditions and have the stated effect (\<open>HubNodeProps\<close>). Profiles have
  one canonical form, updates are a compare-and-swap that loses none, apply payloads are byte exact
  and coalesce, the view claims \<^emph>\<open>applied\<close> exactly when the node reported it (\<open>HubProfileProps\<close>).
  Accepted names, paths, counters, snapshots and status documents are of the promised shape
  (\<open>HubSafety\<close>).

  \<^bold>\<open>What is shown of the agent.\<close> An interrupted apply leaves every file of the store old or new as a whole, the
  agent accepts exactly the payloads that the hub writes, and its results and observations pass the checks of
  the hub (\<open>AgentProfileProps\<close>); an apply on a working node succeeds, one that is not newer changes nothing,
  and a pending one is not scheduled again (\<open>AgentProfileRuns\<close>). A task that the hub admits is decoded
  by the agent as the hub read it, and a controller is only called within the allow-lists of the
  node (\<open>AgentTaskProps\<close>); a refused task is completed as failed, and which reports the hub refuses is stated
  exactly (\<open>AgentReports\<close>). The status document passes the typed check of the hub (\<open>AgentStatusProps\<close>). No
  accepted firewall rule cuts the management access, and a change that is not saved is taken back
  (\<open>AgentFirewallProps\<close>). A loaded configuration satisfies its invariant, each announced capability is one
  the dispatch serves, and heartbeats built from it pass the hub (\<open>AgentConfigProps\<close>). A cron change
  that fails or is interrupted leaves the old or the new state and table, the state that is written is read
  back, the table has one entry per job, and stale changes are refused (\<open>AgentCronProps\<close>). An edited site
  or pool is the old or the new file as a whole, with the old content in the backup, and the file controller
  stays below its roots (\<open>AgentManagedProps\<close>). Each
  agent cycle takes and completes the oldest task of its node, so the queue is served (\<open>AgentCycle\<close>).

  \<^bold>\<open>Parameters and bounds.\<close> The clock (\<open>clock k\<close> is the \<open>k\<close>-th reading within a call), the random bytes of a
  token, the letter and digit tables of package \<^verbatim>\<open>unicode\<close> above Latin-1 (\<open>u\<close>) and the shortest
  decimal text of a float64 (\<open>ff\<close>, of which only lengths in the encoded inventory matter) are
  arguments, and no property assumes anything of them. Unsigned byte counters are 64-bit
  words. What happens to each system call is read from a schedule in the world (\<open>w_fates\<close>); the theorems
  about crashes hold for every schedule, those about success for the empty one, in which every call
  works. Commands (\<^verbatim>\<open>systemd-run\<close>, \<^verbatim>\<open>iptables\<close> and its companions, \<^verbatim>\<open>useradd\<close> and the like) are functions
  of program and arguments held in the record of the host. Where a symbolic link leads is a function of the host. The dispatch takes the controllers
  as one argument (\<open>en_perform\<close>) and the status document its probes. \<^verbatim>\<open>url.Parse\<close>, \<^verbatim>\<open>url.ParseRequestURI\<close> and
  \<^verbatim>\<open>time.ParseDuration\<close> are arguments of the loader, and the collected inventory is one of the
  heartbeat. The cycle calls the operations of the service directly: its transport is taken to
  deliver. No definition runs on fuel: loops over strings and JSON tokens recurse with a proved measure,
  and the nesting limit of the JSON scanner is the code's own.

  \<^bold>\<open>Not modelled.\<close> Failures of the SQLite driver, cancelled contexts, nil receivers and the wrapping
  texts of errors; the mutexes of the service, in whose place every sequence of transactions is
  considered; \<^verbatim>\<open>integrationstate.Normalize\<close>. Of the file system, the loss of unsynced
  data in a power failure, of which only the synced flag of each file is kept, hard links and other
  processes. Of the agent, the controllers other than those above (PM2, deployments, the inventory
  of domains, backups, databases, certificates, logs, metrics, terminal) and its update of
  itself: most of what they do is done by the external programs they start. Outside these packages: the
  installer script, the HTTP handlers, the panel services that drive system tools, the command line client
  and the front ends.
\<close>

section \<open>The hub as a whole\<close>

text \<open>
  C1. Whatever transactions the panel and the agents interleave, starting from the schema that
  \<^verbatim>\<open>Migrate\<close> creates, the database stays well formed: keys are unique and increasing, foreign keys
  hold, every row decodes, the lifecycle columns of a task agree with its status, stored profiles
  are canonical, and a node has at most one profile-apply task in flight.
\<close>

theorem hub_invariant_reachable:
  "run (hub_step u ff) Migrate es db \<Longrightarrow> hub_inv db"
  using hub_inv_Migrate by (rule hub.run_keeps [rotated])

lemma demo_run: "run (hub_step u ff) Migrate [Registered ''node-9''] demoRegistered"
proof -
  have "hub_step u ff (Registered (reg_ID demoRegister)) Migrate demoRegistered"
    unfolding demoRegistered_def by (rule hs_register [OF demo_register prod.collapse [symmetric]])
  then show ?thesis by (auto simp: run_Cons_iff run_Nil_iff demoRegister_def)
qed

lemma hub_invariant_reachable_witness:
  "run (hub_step demoTables demoFloat) Migrate [Registered ''node-9''] demoRegistered \<and> hub_inv demoRegistered"
  using hub_invariant_reachable [OF demo_run [of demoTables demoFloat]] demo_run by blast

text \<open>
  C2. The life of a task is one way. Over any sequence of transactions a task row keeps its key,
  node, kind, payload and creation time; its status only moves forward from queued over running
  to completed or failed; once started its start time stays; and once terminal the row never
  changes again, and no row ever disappears.
\<close>

theorem task_lifecycle_monotone:
  "run (hub_step u ff) db es db' \<Longrightarrow> hub_inv db \<Longrightarrow> r \<in> set (db_Tasks db)
     \<Longrightarrow> \<exists>r' \<in> set (db_Tasks db'). row_progress r r'"
  using tasks.run_evolves [of u ff db es db'] by (simp add: task_progress_def)

lemma demo_poll_step: "hub_step u ff (TaskPolled n) db (fst (ClaimNextTask db n now))"
  by (rule hs_poll [OF prod.collapse [symmetric]])

lemma demo_poll_run: "run (hub_step u ff) db [TaskPolled n] (fst (ClaimNextTask db n now))"
  using demo_poll_step by (auto simp: run_Cons_iff run_Nil_iff)

lemma task_lifecycle_monotone_witness:
  "\<exists>r' \<in> set (db_Tasks (fst (ClaimNextTask demoDB ''node-1'' demoTime))).
     row_progress (demoTask 1 ''node-1'' TaskServiceAction demoPayload) r'"
  by (rule task_lifecycle_monotone [OF demo_poll_run [of demoTables demoFloat] demo_inv]) (simp add: demoDB_def)

text \<open>
  C3. The service layer refines the transaction system: a sequence of calls of its operations,
  with any tokens, clocks, requests and results, changes the database as some sequence of
  validated transactions does.
\<close>

theorem service_refines_transactions:
  "(service_call u ff)\<^sup>*\<^sup>* db db' \<Longrightarrow> \<exists>es. run (hub_step u ff) db es db'"
proof (induction rule: converse_rtranclp_induct)
  case base
  show ?case by (rule exI [of _ "[]"]) (rule run_Nil)
next
  case (step x y)
  from step.IH obtain es where es: "run (hub_step u ff) y es db'" ..
  from service_call_move [OF step.hyps(1)] show ?case
  proof (unfold hub_move_def, elim disjE exE)
    assume "y = x" then show ?thesis using es by blast
  next
    fix e assume "hub_step u ff e x y" then show ?thesis using run_Cons [OF _ es] by blast
  qed
qed

lemma service_refines_transactions_witness:
  "\<exists>es. run (hub_step demoTables demoFloat) demoDB es (fst (PollTaskForNode demoDB (\<lambda>_. demoTime) ''node-1''))"
  by (rule service_refines_transactions [OF r_into_rtranclp]) (rule sc_poll_node [OF prod.collapse [symmetric]])

text \<open>
  C38. A transaction about one node leaves everything stored about any other node as it is: the
  node row, its tasks in order, its profile and its observation.
\<close>

theorem nodes_isolated:
  "hub_step u ff e db db' \<Longrightarrow> hub_inv db \<Longrightarrow> m \<noteq> event_node e \<Longrightarrow> node_view db' m = node_view db m"
  by (rule hub_step_isolated)

lemma nodes_isolated_witness:
  "node_view (fst (ClaimNextTask demoDB ''node-1'' demoTime)) ''node-2'' = node_view demoDB ''node-2''"
  by (rule nodes_isolated [OF demo_poll_step [of demoTables demoFloat] demo_inv]) simp

end
